(* ===== verification/Prelude.thy ===== *)
theory Prelude
  imports Main "HOL-Library.AList" "HOL-Library.Word" "HOL-Library.Char_ord"
    "HOL-Library.List_Lexorder" "HOL-Library.Sublist"
begin

text \<open>
  Shared vocabulary of the development: the Go values the components exchange, the parts of
  Go's standard library that the sources call (\<open>strings\<close>, \<open>strconv\<close>, \<open>sort\<close>, integer
  conversions), and the generic facts about association lists and strings that the component
  theories use.

  Conventions. A Go string and a byte slice are both lists of bytes; the type \<open>char\<close> of
  Isabelle/HOL has exactly 256 values, so \<open>string\<close> serves for both. A \<open>time.Time\<close> is its
  distance in nanoseconds from the Unix epoch and a \<open>time.Duration\<close> a number of nanoseconds,
  both of type \<open>int\<close>; conversions that can overflow in Go are written with the wrap-around
  functions below. A Go map is an association list with distinct keys: the order of the list
  stands for the order in which one execution of \<open>range\<close> visits the map, so a statement proved
  for every such list holds for every iteration order.
\<close>

named_theorems gomap_simps \<open>lookups after updates and deletions of Go maps\<close>
named_theorems inv_intros \<open>preservation of component invariants\<close>

section \<open>Types\<close>

type_synonym bytes = string
type_synonym gotime = int
type_synonym duration = int
type_synonym ('k, 'v) gomap = "('k \<times> 'v) list"

definition nsec :: int where
  "nsec = 1000000000"

definition go_seconds :: "int \<Rightarrow> duration" where
  "go_seconds n = n * nsec"

lemma nsec_pos [simp]: "0 < nsec"
  by (simp add: nsec_def)

section \<open>Integer conversions\<close>

text \<open>
  \<open>int32(x)\<close> and \<open>int64(x)\<close> keep the low bits of a two's complement number. Go's integer
  division truncates towards zero.
\<close>

definition to_int32 :: "int \<Rightarrow> int" where
  "to_int32 x = (x + 2 ^ 31) mod 2 ^ 32 - 2 ^ 31"

definition to_int64 :: "int \<Rightarrow> int" where
  "to_int64 x = (x + 2 ^ 63) mod 2 ^ 64 - 2 ^ 63"

definition max_int32 :: int where
  "max_int32 = 2 ^ 31 - 1"

definition max_int64 :: int where
  "max_int64 = 2 ^ 63 - 1"

definition go_quot :: "int \<Rightarrow> int \<Rightarrow> int" where
  "go_quot a b = sgn a * sgn b * (\<bar>a\<bar> div \<bar>b\<bar>)"

definition go_rem :: "int \<Rightarrow> int \<Rightarrow> int" where
  "go_rem a b = a - go_quot a b * b"

lemma to_int32_id: "- (2 ^ 31) \<le> x \<Longrightarrow> x \<le> max_int32 \<Longrightarrow> to_int32 x = x"
  by (simp add: to_int32_def max_int32_def)

lemma to_int64_id: "- (2 ^ 63) \<le> x \<Longrightarrow> x \<le> max_int64 \<Longrightarrow> to_int64 x = x"
  by (simp add: to_int64_def max_int64_def)

lemma to_int32_range: "- (2 ^ 31) \<le> to_int32 x \<and> to_int32 x \<le> max_int32"
  by (auto simp: to_int32_def max_int32_def)

lemma to_int64_range: "- (2 ^ 63) \<le> to_int64 x \<and> to_int64 x \<le> max_int64"
  by (auto simp: to_int64_def max_int64_def)

lemma go_quot_nonneg: "0 \<le> a \<Longrightarrow> 0 < b \<Longrightarrow> go_quot a b = a div b"
  by (cases "a = 0") (simp_all add: go_quot_def)

lemma go_quot_neg: "a < 0 \<Longrightarrow> 0 < b \<Longrightarrow> go_quot a b = - ((- a) div b)"
  by (simp add: go_quot_def)

section \<open>Go maps\<close>

definition gm_lookup :: "('k, 'v) gomap \<Rightarrow> 'k \<Rightarrow> 'v option" where
  "gm_lookup m k = map_of m k"

definition gm_update :: "'k \<Rightarrow> 'v \<Rightarrow> ('k, 'v) gomap \<Rightarrow> ('k, 'v) gomap" where
  "gm_update k v m = AList.update k v m"

definition gm_delete :: "'k \<Rightarrow> ('k, 'v) gomap \<Rightarrow> ('k, 'v) gomap" where
  "gm_delete k m = filter (\<lambda>(k', v). k' \<noteq> k) m"

definition gm_keys :: "('k, 'v) gomap \<Rightarrow> 'k list" where
  "gm_keys m = map fst m"

definition gm_ok :: "('k, 'v) gomap \<Rightarrow> bool" where
  "gm_ok m = distinct (map fst m)"

lemma gm_lookup_Nil [gomap_simps, simp]: "gm_lookup [] k = None"
  by (simp add: gm_lookup_def)

lemma gm_lookup_Cons [gomap_simps, simp]:
  "gm_lookup ((k, v) # m) k' = (if k' = k then Some v else gm_lookup m k')"
  by (simp add: gm_lookup_def)

lemma gm_lookup_update [gomap_simps, simp]:
  "gm_lookup (gm_update k v m) k' = (if k' = k then Some v else gm_lookup m k')"
  by (simp add: gm_lookup_def gm_update_def update_conv)

lemma map_of_filter_key: "map_of (filter (\<lambda>(k', v). P k') m) k = (if P k then map_of m k else None)"
  by (induction m) auto

lemma gm_lookup_delete [gomap_simps, simp]:
  "gm_lookup (gm_delete k m) k' = (if k' = k then None else gm_lookup m k')"
  by (simp add: gm_lookup_def gm_delete_def map_of_filter_key)

lemma gm_ok_Nil [simp]: "gm_ok []"
  by (simp add: gm_ok_def)

lemma gm_ok_Cons: "gm_ok ((k, v) # m) \<longleftrightarrow> k \<notin> fst ` set m \<and> gm_ok m"
  by (auto simp: gm_ok_def)

lemma gm_ok_update [simp, intro]: "gm_ok m \<Longrightarrow> gm_ok (gm_update k v m)"
  by (simp add: gm_ok_def gm_update_def distinct_update)

lemma gm_ok_filter [simp, intro]: "gm_ok m \<Longrightarrow> gm_ok (filter P m)"
  unfolding gm_ok_def by (rule distinct_map_filter)

lemma gm_ok_delete [simp, intro]: "gm_ok m \<Longrightarrow> gm_ok (gm_delete k m)"
  by (simp add: gm_delete_def)

lemma gm_lookup_in: "gm_lookup m k = Some v \<Longrightarrow> (k, v) \<in> set m"
  by (simp add: gm_lookup_def map_of_SomeD)

lemma gm_lookup_iff: "gm_ok m \<Longrightarrow> gm_lookup m k = Some v \<longleftrightarrow> (k, v) \<in> set m"
  by (simp add: gm_ok_def gm_lookup_def)

lemma gm_lookup_None: "gm_lookup m k = None \<longleftrightarrow> k \<notin> fst ` set m"
  by (simp add: gm_lookup_def map_of_eq_None_iff)

lemma gm_lookup_filter:
  "gm_ok m \<Longrightarrow> gm_lookup (filter P m) k =
     (case gm_lookup m k of None \<Rightarrow> None | Some v \<Rightarrow> if P (k, v) then Some v else None)"
  by (induction m) (auto simp: gm_lookup_def gm_ok_def map_of_eq_None_iff split: option.splits)

lemma set_gm_update:
  "gm_ok m \<Longrightarrow> set (gm_update k v m) = insert (k, v) {(k', v') \<in> set m. k' \<noteq> k}"
proof -
  assume ok: "gm_ok m"
  have "(a, b) \<in> set (gm_update k v m) \<longleftrightarrow> (a, b) \<in> insert (k, v) {(k', v') \<in> set m. k' \<noteq> k}" for a b
    using ok gm_lookup_iff [of "gm_update k v m" a b] gm_lookup_iff [of m a b] by (auto split: if_splits)
  then show ?thesis by auto
qed

lemma set_gm_delete: "set (gm_delete k m) = {(k', v') \<in> set m. k' \<noteq> k}"
  by (auto simp: gm_delete_def)

lemma gm_keys_update: "set (gm_keys (gm_update k v m)) = insert k (set (gm_keys m))"
  by (simp add: gm_keys_def gm_update_def dom_update)

lemma length_gm_update:
  "length (gm_update k v m) = (if gm_lookup m k = None then Suc (length m) else length m)"
  unfolding gm_update_def gm_lookup_def by (induction m) auto

lemma length_gm_delete: "length (gm_delete k m) \<le> length m"
  by (simp add: gm_delete_def)

lemma length_gm_delete_less: "gm_lookup m k \<noteq> None \<Longrightarrow> length (gm_delete k m) < length m"
proof -
  assume "gm_lookup m k \<noteq> None"
  then obtain v where "(k, v) \<in> set m" by (auto dest: gm_lookup_in)
  then show ?thesis unfolding gm_delete_def by (intro length_filter_less) auto
qed

text \<open>A weighted sum over a map: the byte accounting of the store is an instance.\<close>

definition gm_sum :: "('v \<Rightarrow> int) \<Rightarrow> ('k, 'v) gomap \<Rightarrow> int" where
  "gm_sum f m = sum_list (map (\<lambda>(k, v). f v) m)"

lemma gm_sum_Nil [simp]: "gm_sum f [] = 0"
  by (simp add: gm_sum_def)

lemma gm_sum_Cons [simp]: "gm_sum f ((k, v) # m) = f v + gm_sum f m"
  by (simp add: gm_sum_def)

lemma gm_sum_update:
  "gm_sum f (gm_update k v m) =
     gm_sum f m - (case gm_lookup m k of None \<Rightarrow> 0 | Some w \<Rightarrow> f w) + f v"
  unfolding gm_update_def gm_lookup_def by (induction m) auto

lemma gm_delete_notin: "k \<notin> fst ` set m \<Longrightarrow> gm_delete k m = m"
  unfolding gm_delete_def by (rule filter_True) force

lemma gm_sum_delete:
  "gm_ok m \<Longrightarrow> gm_lookup m k = Some v \<Longrightarrow> gm_sum f (gm_delete k m) = gm_sum f m - f v"
proof (induction m)
  case (Cons a m)
  obtain k' v' where a: "a = (k', v')" by (cases a)
  show ?case
  proof (cases "k' = k")
    case True
    with Cons.prems have "gm_delete k m = m"
      by (intro gm_delete_notin) (simp add: a gm_ok_Cons)
    with True Cons.prems show ?thesis by (simp add: a gm_delete_def gm_lookup_def)
  next
    case False
    with Cons show ?thesis by (simp add: a gm_delete_def gm_lookup_def gm_ok_Cons)
  qed
qed simp

lemma gm_sum_filter: "gm_sum f (filter P m) + gm_sum f (filter (\<lambda>x. \<not> P x) m) = gm_sum f m"
  by (induction m) (auto simp: gm_sum_def)

lemma gm_sum_nonneg: "(\<And>v. 0 \<le> f v) \<Longrightarrow> 0 \<le> gm_sum f m"
  by (induction m) auto

end
