(* ===== verification/Store_Spec.thy ===== *)
theory Store_Spec
  imports Prelude
begin

text \<open>
  The contract of the \<open>Store\<close> interface of \<open>src/internal/cluster/node.go\<close>: what the cluster
  layer relies on. A write replaces the value of its key and starts a fresh time-to-live, a
  refused write changes nothing, a read sees the last accepted write until it expires, and a
  listing is the set of readable keys.
\<close>

locale ttl_store =
  fixes put :: "gotime \<Rightarrow> string \<Rightarrow> bytes \<Rightarrow> duration \<Rightarrow> 's \<Rightarrow> 's \<times> 'e option"
    and get :: "gotime \<Rightarrow> string \<Rightarrow> 's \<Rightarrow> (bytes \<times> gotime \<times> duration) option"
    and scan :: "gotime \<Rightarrow> 's \<Rightarrow> string list"
    and invar :: "'s \<Rightarrow> bool"
  assumes invar_put: "invar s \<Longrightarrow> invar (fst (put now k d ttl s))"
    and put_refused: "put now k d ttl s = (s', Some err) \<Longrightarrow> s' = s"
    and get_put: "put now k d ttl s = (s', None) \<Longrightarrow>
          get t k' s' = (if k' = k then (if t < now + ttl then Some (d, now, ttl) else None)
                         else get t k' s)"
    and get_earlier: "t \<le> t' \<Longrightarrow> get t' k s = Some r \<Longrightarrow> get t k s = Some r"
    and set_scan: "invar s \<Longrightarrow> set (scan t s) = {k. get t k s \<noteq> None}"
    and distinct_scan: "invar s \<Longrightarrow> distinct (scan t s)"
begin

text \<open>A sequence of write attempts; refused ones leave no trace.\<close>

primrec puts :: "(gotime \<times> string \<times> bytes \<times> duration) list \<Rightarrow> 's \<Rightarrow> 's" where
  "puts [] s = s"
| "puts (w # ws) s = (case w of (now, k, d, ttl) \<Rightarrow> puts ws (fst (put now k d ttl s)))"

lemma invar_puts: "invar s \<Longrightarrow> invar (puts ws s)"
  by (induction ws arbitrary: s) (auto simp: invar_put split: prod.splits)

lemma get_put_cases:
  "get t k' (fst (put now k d ttl s)) =
     (if snd (put now k d ttl s) = None \<and> k' = k
      then (if t < now + ttl then Some (d, now, ttl) else None) else get t k' s)"
  by (cases "put now k d ttl s"; cases "snd (put now k d ttl s)")
     (auto simp: get_put dest: put_refused)

text \<open>Whatever a read returns was written by one of the attempts and has not expired.\<close>

lemma get_puts_origin:
  "get t k (puts ws s) = Some (d, c, ttl) \<Longrightarrow>
     ((c, k, d, ttl) \<in> set ws \<and> t < c + ttl) \<or> get t k s = Some (d, c, ttl)"
proof (induction ws arbitrary: s)
  case (Cons w ws)
  obtain now k' d' ttl' where w: "w = (now, k', d', ttl')" by (cases w)
  from Cons.prems have "get t k (puts ws (fst (put now k' d' ttl' s))) = Some (d, c, ttl)"
    by (simp add: w)
  from Cons.IH [OF this] show ?case
    by (auto simp: w get_put_cases split: if_splits)
qed simp

text \<open>Nothing outlives its time-to-live.\<close>

lemma forgets:
  assumes "invar s" and "\<And>k. get t k s = None"
    and "\<forall>(c, k, d, ttl) \<in> set ws. c + ttl \<le> t"
  shows "scan t (puts ws s) = []"
proof -
  have "get t k (puts ws s) = None" for k
  proof (cases "get t k (puts ws s)")
    case (Some r)
    then obtain d c ttl where r: "get t k (puts ws s) = Some (d, c, ttl)" by (cases r) auto
    from get_puts_origin [OF r] assms(2,3) show ?thesis by fastforce
  qed simp
  then have "set (scan t (puts ws s)) = {}"
    using set_scan [OF invar_puts [OF assms(1)]] by simp
  then show ?thesis by simp
qed

lemma scan_put_member:
  assumes "invar s" and "put now k d ttl s = (s', None)" and "now \<le> t" and "t < now + ttl"
  shows "k \<in> set (scan t s')"
proof -
  have "invar s'" using invar_put [OF assms(1), of now k d ttl] assms(2) by simp
  with assms show ?thesis by (simp add: set_scan get_put [OF assms(2)])
qed

end

end
