(* ===== verification/Storage.thy ===== *)
theory Storage
  imports Store_Spec
begin

text \<open>
  The in-memory store, \<open>src/internal/storage/memory.go\<close> and \<open>stream.go\<close>: entries with a
  time-to-live, the byte budget, expiry, and the bounded observation stream. Every method of
  \<open>MemoryStore\<close> runs under its mutex, so each is one atomic function of the state; the clock
  reading \<open>m.now()\<close> is an argument.

  A \<open>*Subscription\<close> is an address in a small heap, because the reader keeps its pointer after
  the store has dropped it. The buffered channel \<open>events\<close> is the list of queued events, and the
  channel \<open>done\<close> is represented by how often it was closed: closing a closed channel panics in
  Go, so a count above one would be a crash.
\<close>

section \<open>Data\<close>

record Entry =
  e_data :: bytes
  e_created_at :: gotime
  e_ttl :: duration
  e_expires_at :: gotime
  e_revision :: "64 word"

datatype store_error = ErrStoreFull | ErrStreamLimit | ErrSnapshotLimit | ErrStoreClosed

definition StreamPreviewBytes :: nat where "StreamPreviewBytes = 4096"
definition StreamSubscribers :: nat where "StreamSubscribers = 8"
definition StreamQueueSize :: nat where "StreamQueueSize = 64"
definition StreamSnapshotBytes :: nat where "StreamSnapshotBytes = 4 * 2 ^ 20"
definition StreamSnapshotEntries :: nat where "StreamSnapshotEntries = 4096"
definition streamEventBytes :: nat where "streamEventBytes = 16 * 2 ^ 10"

text \<open>The zero value of \<open>time.Time\<close>: 1 January of year 1.\<close>

definition zero_time :: gotime where
  "zero_time = - 62135596800 * nsec"

text \<open>\<open>se_ttl\<close> keeps the duration whose \<open>Seconds()\<close> the stream sends.\<close>

record StreamEntry =
  se_key :: string
  se_payload :: bytes
  se_truncated :: bool
  se_size :: nat
  se_ttl :: duration
  se_written_at :: gotime
  se_expires_at :: gotime
  se_revision :: "64 word"

record Snapshot =
  sn_now :: gotime
  sn_entries :: "StreamEntry list"

record Event =
  ev_kind :: string
  ev_entry :: StreamEntry

record Subscription =
  sub_events :: "Event list"
  sub_done_closes :: nat

type_synonym sub_id = nat

record MemoryStore =
  ms_data :: "(string, Entry) gomap"
  ms_maxBytes :: int
  ms_currentBytes :: int
  ms_sequence :: "64 word"
  ms_subscribers :: "sub_id list"
  ms_closed :: bool
  ms_cleanup_closes :: nat
  ms_heap :: "(sub_id, Subscription) gomap"
  ms_next :: sub_id

section \<open>Operations\<close>

definition NewMemoryStore :: "int \<Rightarrow> MemoryStore" where
  "NewMemoryStore maxBytes =
     \<lparr>ms_data = [], ms_maxBytes = maxBytes, ms_currentBytes = 0, ms_sequence = 0,
      ms_subscribers = [], ms_closed = False, ms_cleanup_closes = 0, ms_heap = [], ms_next = 0\<rparr>"

definition entry_size :: "Entry \<Rightarrow> int" where
  "entry_size e = int (length (e_data e))"

text \<open>An entry is live while the clock is before its expiry (\<open>now.Before(ExpiresAt)\<close>).\<close>

definition live :: "gotime \<Rightarrow> Entry \<Rightarrow> bool" where
  "live now e = (now < e_expires_at e)"

definition previewCost :: "string \<Rightarrow> nat \<Rightarrow> nat" where
  "previewCost key n =
     (let n = (if n > StreamPreviewBytes then StreamPreviewBytes else n)
      in length key * 6 + (n + 2) div 3 * 4 + 512)"

definition preview :: "string \<Rightarrow> Entry \<Rightarrow> StreamEntry" where
  "preview key e =
     (let n = (if length (e_data e) > StreamPreviewBytes then StreamPreviewBytes else length (e_data e))
      in \<lparr>se_key = key, se_payload = take n (e_data e), se_truncated = n < length (e_data e),
          se_size = length (e_data e), se_ttl = e_ttl e, se_written_at = e_created_at e,
          se_expires_at = e_expires_at e, se_revision = e_revision e\<rparr>)"

definition dropLocked :: "sub_id \<Rightarrow> MemoryStore \<Rightarrow> MemoryStore" where
  "dropLocked sub m =
     (case gm_lookup (ms_heap m) sub of
        None \<Rightarrow> m
      | Some s \<Rightarrow> m\<lparr>ms_subscribers := filter (\<lambda>i. i \<noteq> sub) (ms_subscribers m),
                   ms_heap := gm_update sub (s\<lparr>sub_done_closes := Suc (sub_done_closes s)\<rparr>) (ms_heap m)\<rparr>)"

text \<open>One iteration of \<open>publishLocked\<close>: the event is too large, or the channel send succeeds,
  or the queue is full and the subscriber is dropped.\<close>

definition publish_one :: "Event \<Rightarrow> sub_id \<Rightarrow> MemoryStore \<Rightarrow> MemoryStore" where
  "publish_one ev sub m =
     (if previewCost (se_key (ev_entry ev)) (length (se_payload (ev_entry ev))) > streamEventBytes
      then dropLocked sub m
      else case gm_lookup (ms_heap m) sub of
             None \<Rightarrow> m
           | Some s \<Rightarrow>
               if length (sub_events s) < StreamQueueSize
               then m\<lparr>ms_heap := gm_update sub (s\<lparr>sub_events := sub_events s @ [ev]\<rparr>) (ms_heap m)\<rparr>
               else dropLocked sub m)"

definition publishLocked :: "Event \<Rightarrow> MemoryStore \<Rightarrow> MemoryStore" where
  "publishLocked ev m = fold (publish_one ev) (ms_subscribers m) m"

definition put_event :: "string \<Rightarrow> Entry \<Rightarrow> Event" where
  "put_event key e = \<lparr>ev_kind = ''put'', ev_entry = preview key e\<rparr>"

definition expire_event :: "string \<Rightarrow> Entry \<Rightarrow> Event" where
  "expire_event key e =
     \<lparr>ev_kind = ''expire'',
      ev_entry = \<lparr>se_key = key, se_payload = [], se_truncated = False, se_size = 0, se_ttl = 0,
                  se_written_at = zero_time, se_expires_at = zero_time,
                  se_revision = e_revision e\<rparr>\<rparr>"

definition Put :: "gotime \<Rightarrow> string \<Rightarrow> bytes \<Rightarrow> duration \<Rightarrow> MemoryStore \<Rightarrow> MemoryStore \<times> store_error option" where
  "Put now key data ttl m =
     (let newSize = int (length data);
          oldSize = (case gm_lookup (ms_data m) key of None \<Rightarrow> 0 | Some e \<Rightarrow> entry_size e)
      in if ms_maxBytes m > 0 \<and> ms_currentBytes m - oldSize + newSize > ms_maxBytes m
         then (m, Some ErrStoreFull)
         else
           let sq = ms_sequence m + 1;
               e = \<lparr>e_data = data, e_created_at = now, e_ttl = ttl, e_expires_at = now + ttl,
                    e_revision = sq\<rparr>;
               m' = m\<lparr>ms_sequence := sq, ms_data := gm_update key e (ms_data m),
                      ms_currentBytes := ms_currentBytes m - oldSize + newSize\<rparr>
           in (if ms_subscribers m' \<noteq> [] then publishLocked (put_event key e) m' else m', None))"

definition Get :: "gotime \<Rightarrow> string \<Rightarrow> MemoryStore \<Rightarrow> bytes option" where
  "Get now key m =
     (case gm_lookup (ms_data m) key of
        None \<Rightarrow> None
      | Some e \<Rightarrow> if \<not> now < e_expires_at e then None else Some (e_data e))"

definition GetWithMetadata :: "gotime \<Rightarrow> string \<Rightarrow> MemoryStore \<Rightarrow> (bytes \<times> gotime \<times> duration) option" where
  "GetWithMetadata now key m =
     (case gm_lookup (ms_data m) key of
        None \<Rightarrow> None
      | Some e \<Rightarrow> if \<not> now < e_expires_at e then None
                 else Some (e_data e, e_created_at e, e_ttl e))"

definition expire_one :: "gotime \<Rightarrow> string \<times> Entry \<Rightarrow> MemoryStore \<Rightarrow> MemoryStore" where
  "expire_one now ke m =
     (case ke of (key, e) \<Rightarrow>
        if \<not> now < e_expires_at e
        then publishLocked (expire_event key e)
               (m\<lparr>ms_currentBytes := ms_currentBytes m - entry_size e,
                  ms_data := gm_delete key (ms_data m)\<rparr>)
        else m)"

definition cleanupExpired :: "gotime \<Rightarrow> MemoryStore \<Rightarrow> MemoryStore" where
  "cleanupExpired now m = fold (expire_one now) (ms_data m) m"

definition Close :: "MemoryStore \<Rightarrow> MemoryStore" where
  "Close m =
     (if \<not> ms_closed m
      then fold dropLocked (ms_subscribers m)
             (m\<lparr>ms_closed := True, ms_cleanup_closes := Suc (ms_cleanup_closes m)\<rparr>)
      else m)"

definition GetStats :: "MemoryStore \<Rightarrow> nat \<times> int" where
  "GetStats m = (length (ms_data m), gm_sum entry_size (ms_data m))"

text \<open>\<open>Range\<close> as the list of calls it makes to \<open>fn\<close>: it stops after the first call that
  returns false. Whole seconds are the truncated quotient of the remaining duration.\<close>

fun range_calls :: "gotime \<Rightarrow> (string \<Rightarrow> int \<Rightarrow> bool) \<Rightarrow> (string, Entry) gomap \<Rightarrow> (string \<times> int) list" where
  "range_calls now fn [] = []"
| "range_calls now fn ((key, e) # rest) =
     (if \<not> now < e_expires_at e then range_calls now fn rest
      else let r = go_quot (e_expires_at e - now) nsec
           in if fn key r then (key, r) # range_calls now fn rest else [(key, r)])"

definition Range :: "gotime \<Rightarrow> (string \<Rightarrow> int \<Rightarrow> bool) \<Rightarrow> MemoryStore \<Rightarrow> (string \<times> int) list" where
  "Range now fn m = range_calls now fn (ms_data m)"

definition Scan :: "gotime \<Rightarrow> MemoryStore \<Rightarrow> string list" where
  "Scan now m = map fst (filter (\<lambda>(k, e). now < e_expires_at e) (ms_data m))"

text \<open>The loop of \<open>Subscribe\<close>, with the running budget and the entries collected so far.\<close>

fun snapshot_loop :: "gotime \<Rightarrow> (string, Entry) gomap \<Rightarrow> nat \<Rightarrow> StreamEntry list \<Rightarrow> store_error + StreamEntry list" where
  "snapshot_loop now [] budget acc = Inr acc"
| "snapshot_loop now ((key, e) # rest) budget acc =
     (if \<not> now < e_expires_at e then snapshot_loop now rest budget acc
      else let cost = previewCost key (length (e_data e)); budget' = budget + cost
           in if cost > streamEventBytes \<or> budget' > StreamSnapshotBytes
                 \<or> length acc \<ge> StreamSnapshotEntries
              then Inl ErrSnapshotLimit
              else snapshot_loop now rest budget' (acc @ [preview key e]))"

definition Subscribe :: "gotime \<Rightarrow> MemoryStore \<Rightarrow> MemoryStore \<times> (store_error + Snapshot \<times> sub_id)" where
  "Subscribe now m =
     (if ms_closed m then (m, Inl ErrStoreClosed)
      else if length (ms_subscribers m) \<ge> StreamSubscribers then (m, Inl ErrStreamLimit)
      else case snapshot_loop now (ms_data m) 0 [] of
             Inl err \<Rightarrow> (m, Inl err)
           | Inr es \<Rightarrow>
               let sub = ms_next m in
               (m\<lparr>ms_subscribers := ms_subscribers m @ [sub],
                  ms_heap := gm_update sub \<lparr>sub_events = [], sub_done_closes = 0\<rparr> (ms_heap m),
                  ms_next := Suc sub\<rparr>,
                Inr (\<lparr>sn_now = now, sn_entries = es\<rparr>, sub)))"

definition Subscription_Close :: "sub_id \<Rightarrow> MemoryStore \<Rightarrow> MemoryStore" where
  "Subscription_Close sub m = (if List.member (ms_subscribers m) sub then dropLocked sub m else m)"

text \<open>A receive from \<open>Events()\<close>: the oldest queued event, if there is one.\<close>

definition Subscription_recv :: "sub_id \<Rightarrow> MemoryStore \<Rightarrow> (Event \<times> MemoryStore) option" where
  "Subscription_recv sub m =
     (case gm_lookup (ms_heap m) sub of
        None \<Rightarrow> None
      | Some s \<Rightarrow> (case sub_events s of [] \<Rightarrow> None
                  | ev # evs \<Rightarrow> Some (ev, m\<lparr>ms_heap := gm_update sub (s\<lparr>sub_events := evs\<rparr>) (ms_heap m)\<rparr>)))"

section \<open>The invariant\<close>

definition sub_inv :: "MemoryStore \<Rightarrow> bool" where
  "sub_inv m \<longleftrightarrow>
     gm_ok (ms_heap m) \<and> distinct (ms_subscribers m) \<and>
     length (ms_subscribers m) \<le> StreamSubscribers \<and>
     (\<forall>i \<in> set (ms_subscribers m). gm_lookup (ms_heap m) i \<noteq> None) \<and>
     (\<forall>i s. gm_lookup (ms_heap m) i = Some s \<longrightarrow>
        i < ms_next m \<and> length (sub_events s) \<le> StreamQueueSize \<and>
        sub_done_closes s = (if i \<in> set (ms_subscribers m) then 0 else 1))"

definition close_inv :: "MemoryStore \<Rightarrow> bool" where
  "close_inv m \<longleftrightarrow>
     ms_cleanup_closes m = (if ms_closed m then 1 else 0) \<and>
     (ms_closed m \<longrightarrow> ms_subscribers m = [])"

definition bytes_inv :: "MemoryStore \<Rightarrow> bool" where
  "bytes_inv m \<longleftrightarrow>
     gm_ok (ms_data m) \<and> ms_currentBytes m = gm_sum entry_size (ms_data m) \<and>
     (ms_maxBytes m > 0 \<longrightarrow> ms_currentBytes m \<le> ms_maxBytes m)"

definition store_inv :: "MemoryStore \<Rightarrow> bool" where
  "store_inv m \<longleftrightarrow> bytes_inv m \<and> sub_inv m \<and> close_inv m"

text \<open>Dropping and publishing touch the subscription side only.\<close>

lemma dropLocked_frame [simp]:
  "ms_data (dropLocked sub m) = ms_data m"
  "ms_maxBytes (dropLocked sub m) = ms_maxBytes m"
  "ms_currentBytes (dropLocked sub m) = ms_currentBytes m"
  "ms_sequence (dropLocked sub m) = ms_sequence m"
  "ms_closed (dropLocked sub m) = ms_closed m"
  "ms_cleanup_closes (dropLocked sub m) = ms_cleanup_closes m"
  "ms_next (dropLocked sub m) = ms_next m"
  by (simp_all add: dropLocked_def split: option.split)

lemma publish_one_frame [simp]:
  "ms_data (publish_one ev sub m) = ms_data m"
  "ms_maxBytes (publish_one ev sub m) = ms_maxBytes m"
  "ms_currentBytes (publish_one ev sub m) = ms_currentBytes m"
  "ms_sequence (publish_one ev sub m) = ms_sequence m"
  "ms_closed (publish_one ev sub m) = ms_closed m"
  "ms_cleanup_closes (publish_one ev sub m) = ms_cleanup_closes m"
  "ms_next (publish_one ev sub m) = ms_next m"
  by (simp_all add: publish_one_def split: option.split)

lemma fold_publish_frame:
  "ms_data (fold (publish_one ev) subs m) = ms_data m \<and>
   ms_maxBytes (fold (publish_one ev) subs m) = ms_maxBytes m \<and>
   ms_currentBytes (fold (publish_one ev) subs m) = ms_currentBytes m \<and>
   ms_sequence (fold (publish_one ev) subs m) = ms_sequence m \<and>
   ms_closed (fold (publish_one ev) subs m) = ms_closed m \<and>
   ms_next (fold (publish_one ev) subs m) = ms_next m"
  by (induction subs arbitrary: m) simp_all

lemma publishLocked_frame [simp]:
  "ms_data (publishLocked ev m) = ms_data m"
  "ms_maxBytes (publishLocked ev m) = ms_maxBytes m"
  "ms_currentBytes (publishLocked ev m) = ms_currentBytes m"
  "ms_sequence (publishLocked ev m) = ms_sequence m"
  "ms_closed (publishLocked ev m) = ms_closed m"
  "ms_next (publishLocked ev m) = ms_next m"
  by (simp_all add: publishLocked_def fold_publish_frame)

lemma fold_drop_frame:
  "ms_data (fold dropLocked subs m) = ms_data m \<and>
   ms_maxBytes (fold dropLocked subs m) = ms_maxBytes m \<and>
   ms_currentBytes (fold dropLocked subs m) = ms_currentBytes m"
  by (induction subs arbitrary: m) simp_all

lemma bytes_inv_cong:
  "ms_data m' = ms_data m \<Longrightarrow> ms_currentBytes m' = ms_currentBytes m \<Longrightarrow>
   ms_maxBytes m' = ms_maxBytes m \<Longrightarrow> bytes_inv m' = bytes_inv m"
  by (simp add: bytes_inv_def)

lemma sub_inv_drop [inv_intros]:
  assumes "sub_inv m" and "sub \<in> set (ms_subscribers m)"
  shows "sub_inv (dropLocked sub m)"
proof -
  from assms obtain s where s: "gm_lookup (ms_heap m) sub = Some s"
    by (auto simp: sub_inv_def)
  have "length (filter (\<lambda>i. i \<noteq> sub) (ms_subscribers m)) \<le> length (ms_subscribers m)" by simp
  with assms s show ?thesis
    by (auto simp: sub_inv_def dropLocked_def simp del: length_filter_le split: if_splits)
qed

lemma sub_inv_publish_one [inv_intros]:
  assumes "sub_inv m" and "sub \<in> set (ms_subscribers m)"
  shows "sub_inv (publish_one ev sub m)"
proof -
  from assms obtain s where s: "gm_lookup (ms_heap m) sub = Some s"
    by (auto simp: sub_inv_def)
  show ?thesis
  proof (cases "previewCost (se_key (ev_entry ev)) (length (se_payload (ev_entry ev))) > streamEventBytes
      \<or> \<not> length (sub_events s) < StreamQueueSize")
    case True
    with s have "publish_one ev sub m = dropLocked sub m" by (auto simp: publish_one_def)
    with assms show ?thesis by (simp add: sub_inv_drop)
  next
    case False
    with s assms show ?thesis by (auto simp: sub_inv_def publish_one_def split: if_splits)
  qed
qed

lemma publish_one_subscribers:
  "set (ms_subscribers (publish_one ev sub m)) \<subseteq> set (ms_subscribers m) \<and>
   set (ms_subscribers m) - {sub} \<subseteq> set (ms_subscribers (publish_one ev sub m))"
  by (auto simp: publish_one_def dropLocked_def split: option.splits if_splits)

lemma sub_inv_fold_publish:
  "sub_inv m \<Longrightarrow> distinct subs \<Longrightarrow> set subs \<subseteq> set (ms_subscribers m) \<Longrightarrow>
   sub_inv (fold (publish_one ev) subs m)"
proof (induction subs arbitrary: m)
  case (Cons i subs)
  then have "sub_inv (publish_one ev i m)" by (simp add: sub_inv_publish_one)
  moreover have "set subs \<subseteq> set (ms_subscribers (publish_one ev i m))"
    using Cons.prems publish_one_subscribers [of ev i m] by auto
  ultimately show ?case using Cons by simp
qed simp

lemma sub_inv_publish [inv_intros]: "sub_inv m \<Longrightarrow> sub_inv (publishLocked ev m)"
  unfolding publishLocked_def by (rule sub_inv_fold_publish) (auto simp: sub_inv_def)

lemma dropLocked_subscribers:
  "sub_inv m \<Longrightarrow> sub \<in> set (ms_subscribers m) \<Longrightarrow>
   ms_subscribers (dropLocked sub m) = filter (\<lambda>i. i \<noteq> sub) (ms_subscribers m)"
  by (auto simp: dropLocked_def sub_inv_def split: option.split)

lemma fold_publish_closes:
  "ms_cleanup_closes (fold (publish_one ev) subs m) = ms_cleanup_closes m \<and>
   set (ms_subscribers (fold (publish_one ev) subs m)) \<subseteq> set (ms_subscribers m)"
proof (induction subs arbitrary: m)
  case (Cons i subs)
  then show ?case using publish_one_subscribers [of ev i m] by fastforce
qed simp

lemma publishLocked_subscribers: "set (ms_subscribers (publishLocked ev m)) \<subseteq> set (ms_subscribers m)"
  by (simp add: publishLocked_def fold_publish_closes)

lemma close_inv_publish [inv_intros]: "close_inv m \<Longrightarrow> close_inv (publishLocked ev m)"
  using publishLocked_subscribers [of ev m]
  by (auto simp: close_inv_def publishLocked_def fold_publish_closes fold_publish_frame)

lemma fold_drop_sub:
  "sub_inv m \<Longrightarrow> distinct subs \<Longrightarrow> set subs \<subseteq> set (ms_subscribers m) \<Longrightarrow>
   sub_inv (fold dropLocked subs m) \<and>
   set (ms_subscribers (fold dropLocked subs m)) = set (ms_subscribers m) - set subs \<and>
   ms_closed (fold dropLocked subs m) = ms_closed m \<and>
   ms_cleanup_closes (fold dropLocked subs m) = ms_cleanup_closes m"
proof (induction subs arbitrary: m)
  case (Cons i subs)
  from Cons.prems have i: "sub_inv (dropLocked i m)"
    and eq: "ms_subscribers (dropLocked i m) = filter (\<lambda>j. j \<noteq> i) (ms_subscribers m)"
    by (auto intro: sub_inv_drop dropLocked_subscribers)
  have "set subs \<subseteq> set (ms_subscribers (dropLocked i m))"
    using Cons.prems by (auto simp: eq)
  with Cons.IH [OF i] Cons.prems show ?case by (auto simp: eq)
qed simp

section \<open>Every operation preserves the invariant\<close>

lemma NewMemoryStore_inv: "store_inv (NewMemoryStore maxBytes)"
  by (simp add: store_inv_def bytes_inv_def sub_inv_def close_inv_def NewMemoryStore_def)

lemma Put_inv [inv_intros]: "store_inv m \<Longrightarrow> store_inv (fst (Put now key data ttl m))"
proof -
  assume inv: "store_inv m"
  let ?old = "case gm_lookup (ms_data m) key of None \<Rightarrow> 0 | Some e \<Rightarrow> entry_size e"
  let ?e = "\<lparr>e_data = data, e_created_at = now, e_ttl = ttl, e_expires_at = now + ttl,
             e_revision = ms_sequence m + 1\<rparr>"
  let ?m = "m\<lparr>ms_sequence := ms_sequence m + 1, ms_data := gm_update key ?e (ms_data m),
              ms_currentBytes := ms_currentBytes m - ?old + int (length data)\<rparr>"
  show ?thesis
  proof (cases "ms_maxBytes m > 0 \<and> ms_currentBytes m - ?old + int (length data) > ms_maxBytes m")
    case True
    with inv show ?thesis by (simp add: Put_def)
  next
    case False
    with inv have b: "bytes_inv ?m"
      by (auto simp: store_inv_def bytes_inv_def gm_sum_update entry_size_def split: option.splits)
    from inv have s: "sub_inv ?m" and c: "close_inv ?m"
      by (simp_all add: store_inv_def sub_inv_def close_inv_def)
    have "bytes_inv (publishLocked ev ?m)" for ev
      using b by (subst bytes_inv_cong [of _ ?m]) simp_all
    with False b s c show ?thesis
      by (auto simp: Put_def store_inv_def Let_def intro: sub_inv_publish close_inv_publish)
  qed
qed

text \<open>\<open>range\<close> over a map that the loop body deletes from: the entries still to be visited are
  those of the remaining list.\<close>

lemma fold_expire_inv:
  "store_inv m \<Longrightarrow> gm_ok es \<Longrightarrow> set es \<subseteq> set (ms_data m) \<Longrightarrow>
   store_inv (fold (expire_one now) es m) \<and>
   ms_data (fold (expire_one now) es m) =
     filter (\<lambda>(k, e). \<not> (k \<in> fst ` set es \<and> \<not> now < e_expires_at e)) (ms_data m)"
proof (induction es arbitrary: m)
  case Nil
  then show ?case by simp
next
  case (Cons ke es)
  obtain k e where ke: "ke = (k, e)" by (cases ke)
  have ok: "gm_ok (ms_data m)" using Cons.prems by (simp add: store_inv_def bytes_inv_def)
  have ke_in: "gm_lookup (ms_data m) k = Some e"
    using Cons.prems ok by (simp add: ke gm_lookup_iff)
  have fresh: "k \<notin> fst ` set es" using Cons.prems by (simp add: ke gm_ok_Cons)
  have uniq: "(k, e') \<in> set (ms_data m) \<Longrightarrow> e' = e" for e'
    using ke_in ok by (metis gm_lookup_iff option.inject)
  show ?case
  proof (cases "now < e_expires_at e")
    case True
    then have "expire_one now ke m = m" by (simp add: expire_one_def ke)
    moreover have "gm_ok es" using Cons.prems by (simp add: ke gm_ok_Cons)
    ultimately show ?thesis using Cons True uniq
      by (auto simp: ke intro!: filter_cong)
  next
    case False
    let ?m1 = "m\<lparr>ms_currentBytes := ms_currentBytes m - entry_size e, ms_data := gm_delete k (ms_data m)\<rparr>"
    let ?m2 = "publishLocked (expire_event k e) ?m1"
    have step: "expire_one now ke m = ?m2" using False by (simp add: expire_one_def ke)
    have sum: "gm_sum entry_size (gm_delete k (ms_data m)) = gm_sum entry_size (ms_data m) - entry_size e"
      using ok ke_in by (rule gm_sum_delete)
    have "bytes_inv ?m1"
      using Cons.prems sum by (auto simp: store_inv_def bytes_inv_def entry_size_def)
    then have "bytes_inv ?m2" by (subst bytes_inv_cong [of _ ?m1]) simp_all
    moreover have "sub_inv ?m1" "close_inv ?m1"
      using Cons.prems by (simp_all add: store_inv_def sub_inv_def close_inv_def)
    then have "sub_inv ?m2" "close_inv ?m2"
      by (simp_all add: sub_inv_publish close_inv_publish)
    ultimately have inv2: "store_inv ?m2" by (simp add: store_inv_def)
    have sub2: "set es \<subseteq> set (ms_data ?m2)"
      using Cons.prems fresh by (force simp: ke set_gm_delete)
    have "gm_ok es" using Cons.prems by (simp add: ke gm_ok_Cons)
    from Cons.IH [OF inv2 this sub2] step show ?thesis
      using uniq False by (auto simp: ke gm_delete_def intro!: filter_cong)
  qed
qed

lemma store_inv_gm_ok: "store_inv m \<Longrightarrow> gm_ok (ms_data m)"
  by (simp add: store_inv_def bytes_inv_def)

lemma cleanupExpired_inv [inv_intros]: "store_inv m \<Longrightarrow> store_inv (cleanupExpired now m)"
  unfolding cleanupExpired_def using fold_expire_inv store_inv_gm_ok by blast

lemma cleanupExpired_data:
  "store_inv m \<Longrightarrow> ms_data (cleanupExpired now m) = filter (\<lambda>(k, e). now < e_expires_at e) (ms_data m)"
  using fold_expire_inv [of m "ms_data m" now] store_inv_gm_ok [of m]
  by (force simp: cleanupExpired_def intro!: filter_cong)

lemma Close_inv [inv_intros]: "store_inv m \<Longrightarrow> store_inv (Close m)"
proof -
  assume inv: "store_inv m"
  let ?m = "m\<lparr>ms_closed := True, ms_cleanup_closes := Suc (ms_cleanup_closes m)\<rparr>"
  from inv have s: "sub_inv ?m" by (simp add: store_inv_def sub_inv_def)
  then have d: "distinct (ms_subscribers m)" by (simp add: sub_inv_def)
  from fold_drop_sub [OF s, of "ms_subscribers m"] d inv show ?thesis
    by (auto simp: Close_def store_inv_def close_inv_def bytes_inv_def fold_drop_frame)
qed

lemma sub_inv_fresh:
  assumes "sub_inv m"
  shows "gm_lookup (ms_heap m) (ms_next m) = None" and "ms_next m \<notin> set (ms_subscribers m)"
proof -
  show "gm_lookup (ms_heap m) (ms_next m) = None"
    using assms by (cases "gm_lookup (ms_heap m) (ms_next m)") (auto simp: sub_inv_def)
  then show "ms_next m \<notin> set (ms_subscribers m)"
    using assms by (auto simp: sub_inv_def)
qed

definition add_sub :: "MemoryStore \<Rightarrow> MemoryStore" where
  "add_sub m = m\<lparr>ms_subscribers := ms_subscribers m @ [ms_next m],
                 ms_heap := gm_update (ms_next m) \<lparr>sub_events = [], sub_done_closes = 0\<rparr> (ms_heap m),
                 ms_next := Suc (ms_next m)\<rparr>"

lemma sub_inv_add:
  assumes "sub_inv m" and "length (ms_subscribers m) < StreamSubscribers"
  shows "sub_inv (add_sub m)"
proof -
  have "i < ms_next m" if "i \<in> set (ms_subscribers m)" for i
    using assms(1) that unfolding sub_inv_def by (meson not_None_eq)
  moreover have "i < ms_next m \<and> length (sub_events s) \<le> StreamQueueSize \<and>
      sub_done_closes s = (if i \<in> set (ms_subscribers m) then 0 else 1)"
    if "gm_lookup (ms_heap m) i = Some s" for i s
    using assms(1) that unfolding sub_inv_def by blast
  moreover have "gm_ok (ms_heap m)" "distinct (ms_subscribers m)"
    "\<forall>i \<in> set (ms_subscribers m). gm_lookup (ms_heap m) i \<noteq> None"
    using assms(1) by (simp_all add: sub_inv_def)
  ultimately show ?thesis
    using assms(2) sub_inv_fresh [OF assms(1)] unfolding sub_inv_def add_sub_def
    by (intro conjI allI impI ballI) (auto simp: less_Suc_eq split: if_splits)
qed

lemma Subscribe_cases:
  obtains (err) x where "Subscribe now m = (m, Inl x)"
  | (ok) es where "\<not> ms_closed m" "length (ms_subscribers m) < StreamSubscribers"
      "snapshot_loop now (ms_data m) 0 [] = Inr es"
      "Subscribe now m = (add_sub m, Inr (\<lparr>sn_now = now, sn_entries = es\<rparr>, ms_next m))"
  by (cases "snapshot_loop now (ms_data m) 0 []"; cases "ms_closed m";
      cases "length (ms_subscribers m) \<ge> StreamSubscribers")
     (auto simp: Subscribe_def Let_def add_sub_def)

lemma Subscribe_inv [inv_intros]: "store_inv m \<Longrightarrow> store_inv (fst (Subscribe now m))"
proof (cases rule: Subscribe_cases [of now m])
  case (ok es)
  then show "store_inv m \<Longrightarrow> ?thesis"
    using sub_inv_add [of m] bytes_inv_cong [of "add_sub m" m]
    by (simp add: store_inv_def close_inv_def add_sub_def)
qed simp

lemma Subscription_Close_inv [inv_intros]: "store_inv m \<Longrightarrow> store_inv (Subscription_Close sub m)"
  using bytes_inv_cong [of "dropLocked sub m" m]
  by (auto simp: Subscription_Close_def store_inv_def close_inv_def dropLocked_subscribers
      intro: sub_inv_drop)

lemma sub_inv_heap_update:
  assumes inv: "sub_inv m" and s: "gm_lookup (ms_heap m) i = Some s"
    and s': "length (sub_events s') \<le> StreamQueueSize" "sub_done_closes s' = sub_done_closes s"
  shows "sub_inv (m\<lparr>ms_heap := gm_update i s' (ms_heap m)\<rparr>)"
  unfolding sub_inv_def
proof (intro conjI allI impI ballI)
  fix j q assume "gm_lookup (ms_heap (m\<lparr>ms_heap := gm_update i s' (ms_heap m)\<rparr>)) j = Some q"
  then show "j < ms_next (m\<lparr>ms_heap := gm_update i s' (ms_heap m)\<rparr>)"
    "length (sub_events q) \<le> StreamQueueSize"
    "sub_done_closes q = (if j \<in> set (ms_subscribers (m\<lparr>ms_heap := gm_update i s' (ms_heap m)\<rparr>)) then 0 else 1)"
    using inv s s' by (auto simp: sub_inv_def split: if_splits)
qed (use inv in \<open>auto simp: sub_inv_def\<close>)

lemma Subscription_recv_inv [inv_intros]:
  assumes "store_inv m" and "Subscription_recv sub m = Some (ev, m')"
  shows "store_inv m'"
proof -
  from assms(2) obtain s evs where s: "gm_lookup (ms_heap m) sub = Some s" "sub_events s = ev # evs"
    and m': "m' = m\<lparr>ms_heap := gm_update sub (s\<lparr>sub_events := evs\<rparr>) (ms_heap m)\<rparr>"
    by (auto simp: Subscription_recv_def split: option.splits list.splits)
  have "length (ev # evs) \<le> StreamQueueSize"
    using assms(1) s unfolding store_inv_def sub_inv_def by metis
  then have "sub_inv m'"
    unfolding m' using assms(1) s by (intro sub_inv_heap_update) (auto simp: store_inv_def)
  with assms(1) show ?thesis by (auto simp: m' store_inv_def bytes_inv_def close_inv_def)
qed

section \<open>The store meets the interface\<close>

lemma Put_refused: "Put now key data ttl m = (m', Some err) \<Longrightarrow> m' = m"
  by (auto simp: Put_def Let_def split: if_splits)

lemma Put_accepted_lookup:
  "Put now key data ttl m = (m', None) \<Longrightarrow>
   gm_lookup (ms_data m') k =
     (if k = key then Some \<lparr>e_data = data, e_created_at = now, e_ttl = ttl,
                            e_expires_at = now + ttl, e_revision = ms_sequence m + 1\<rparr>
      else gm_lookup (ms_data m) k)"
  by (auto simp: Put_def Let_def split: if_splits)

lemma set_Scan: "store_inv m \<Longrightarrow> set (Scan t m) = {k. GetWithMetadata t k m \<noteq> None}"
proof -
  assume "store_inv m"
  then have ok: "gm_ok (ms_data m)" by (rule store_inv_gm_ok)
  have "k \<in> set (Scan t m) \<longleftrightarrow> (\<exists>e. gm_lookup (ms_data m) k = Some e \<and> t < e_expires_at e)" for k
    by (force simp: Scan_def gm_lookup_iff [OF ok])
  then show ?thesis by (auto simp: GetWithMetadata_def split: option.splits if_splits)
qed

lemma distinct_Scan: "store_inv m \<Longrightarrow> distinct (Scan t m)"
  using store_inv_gm_ok [of m] unfolding Scan_def gm_ok_def by (simp add: distinct_map_filter)

interpretation mem: ttl_store Put GetWithMetadata Scan store_inv
proof unfold_locales
  fix t t' :: gotime and k m r
  assume "t \<le> t'" and "GetWithMetadata t' k m = Some r"
  then show "GetWithMetadata t k m = Some r"
    by (auto simp: GetWithMetadata_def split: option.splits if_splits)
qed (auto simp: Put_inv set_Scan distinct_Scan GetWithMetadata_def Put_accepted_lookup
       dest: Put_refused)

lemma Get_metadata: "Get now key m = map_option fst (GetWithMetadata now key m)"
  by (auto simp: Get_def GetWithMetadata_def split: option.splits)

section \<open>Reachable states\<close>

inductive store_step :: "MemoryStore \<Rightarrow> MemoryStore \<Rightarrow> bool" where
  step_put: "store_step m (fst (Put now key data ttl m))"
| step_cleanup: "store_step m (cleanupExpired now m)"
| step_close: "store_step m (Close m)"
| step_subscribe: "store_step m (fst (Subscribe now m))"
| step_sub_close: "store_step m (Subscription_Close sub m)"
| step_recv: "Subscription_recv sub m = Some (ev, m') \<Longrightarrow> store_step m m'"

inductive store_reachable :: "int \<Rightarrow> MemoryStore \<Rightarrow> bool" for maxBytes where
  reach_new: "store_reachable maxBytes (NewMemoryStore maxBytes)"
| reach_step: "store_reachable maxBytes m \<Longrightarrow> store_step m m' \<Longrightarrow> store_reachable maxBytes m'"

lemma store_step_inv: "store_step m m' \<Longrightarrow> store_inv m \<Longrightarrow> store_inv m'"
  by (induction rule: store_step.induct)
     (auto intro: Put_inv cleanupExpired_inv Close_inv Subscribe_inv Subscription_Close_inv
        Subscription_recv_inv)

lemma store_reachable_inv: "store_reachable maxBytes m \<Longrightarrow> store_inv m"
  by (induction rule: store_reachable.induct) (auto intro: NewMemoryStore_inv store_step_inv)

end
