(* ===== verification/Store_Stream.thy ===== *)
theory Store_Stream
  imports Storage
begin

text \<open>
  What an observer of the stream can rely on. A subscriber holds the snapshot that
  \<open>Subscribe\<close> returned and applies the events it receives, in order. The theory shows that
  such a view, with the events still queued applied to it, always agrees with the store: the
  snapshot and the registration happen in one critical section, and every later change is either
  delivered in order or ends the subscription.
\<close>

type_synonym view = "string \<Rightarrow> StreamEntry option"

definition apply_event :: "Event \<Rightarrow> view \<Rightarrow> view" where
  "apply_event ev v =
     (if ev_kind ev = ''put'' then v(se_key (ev_entry ev) \<mapsto> ev_entry ev)
      else v(se_key (ev_entry ev) := None))"

definition replay :: "Event list \<Rightarrow> view \<Rightarrow> view" where
  "replay evs v = fold apply_event evs v"

definition snapshot_view :: "Snapshot \<Rightarrow> view" where
  "snapshot_view sn = map_of (map (\<lambda>e. (se_key e, e)) (sn_entries sn))"

text \<open>The view agrees with the store, except that entries already expired when the snapshot was
  taken may be missing from it.\<close>

definition agrees_at :: "gotime \<Rightarrow> string \<Rightarrow> StreamEntry option \<Rightarrow> Entry option \<Rightarrow> bool" where
  "agrees_at t0 k seen stored =
     (case stored of
        None \<Rightarrow> seen = None
      | Some e \<Rightarrow> seen = Some (preview k e) \<or> (seen = None \<and> e_expires_at e \<le> t0))"

definition agrees :: "gotime \<Rightarrow> view \<Rightarrow> (string, Entry) gomap \<Rightarrow> bool" where
  "agrees t0 v d \<longleftrightarrow> (\<forall>k. agrees_at t0 k (v k) (gm_lookup d k))"

inductive observed :: "gotime \<Rightarrow> sub_id \<Rightarrow> view \<Rightarrow> MemoryStore \<Rightarrow> bool" for t0 i where
  obs_subscribe: "store_inv m \<Longrightarrow> Subscribe t0 m = (m', Inr (sn, i)) \<Longrightarrow>
     observed t0 i (snapshot_view sn) m'"
| obs_recv: "observed t0 i v m \<Longrightarrow> Subscription_recv i m = Some (ev, m') \<Longrightarrow>
     observed t0 i (apply_event ev v) m'"
| obs_put: "observed t0 i v m \<Longrightarrow> observed t0 i v (fst (Put now key data ttl m))"
| obs_cleanup: "observed t0 i v m \<Longrightarrow> observed t0 i v (cleanupExpired now m)"
| obs_close: "observed t0 i v m \<Longrightarrow> observed t0 i v (Close m)"
| obs_other_subscribe: "observed t0 i v m \<Longrightarrow> observed t0 i v (fst (Subscribe now m))"
| obs_sub_close: "observed t0 i v m \<Longrightarrow> observed t0 i v (Subscription_Close j m)"
| obs_other_recv: "observed t0 i v m \<Longrightarrow> Subscription_recv j m = Some (ev, m') \<Longrightarrow> j \<noteq> i \<Longrightarrow>
     observed t0 i v m'"

definition obs_inv :: "gotime \<Rightarrow> sub_id \<Rightarrow> view \<Rightarrow> MemoryStore \<Rightarrow> bool" where
  "obs_inv t0 i v m \<longleftrightarrow>
     store_inv m \<and>
     (\<exists>s. gm_lookup (ms_heap m) i = Some s \<and>
        (i \<in> set (ms_subscribers m) \<longrightarrow> agrees t0 (replay (sub_events s) v) (ms_data m)))"

section \<open>What one publication does to one queue\<close>

lemma dropLocked_heap:
  "gm_lookup (ms_heap (dropLocked j m)) i =
     (if i = j then map_option (\<lambda>s. s\<lparr>sub_done_closes := Suc (sub_done_closes s)\<rparr>) (gm_lookup (ms_heap m) i)
      else gm_lookup (ms_heap m) i)"
  by (auto simp: dropLocked_def split: option.split)

lemma dropLocked_sub: "set (ms_subscribers (dropLocked j m)) \<subseteq> set (ms_subscribers m)"
  by (auto simp: dropLocked_def split: option.split)

lemma publish_one_other:
  "i \<noteq> j \<Longrightarrow> gm_lookup (ms_heap (publish_one ev j m)) i = gm_lookup (ms_heap m) i \<and>
     (i \<in> set (ms_subscribers (publish_one ev j m)) \<longleftrightarrow> i \<in> set (ms_subscribers m))"
  by (auto simp: publish_one_def dropLocked_def split: option.splits if_splits)

lemma fold_publish_other:
  "i \<notin> set subs \<Longrightarrow> gm_lookup (ms_heap (fold (publish_one ev) subs m)) i = gm_lookup (ms_heap m) i \<and>
     (i \<in> set (ms_subscribers (fold (publish_one ev) subs m)) \<longleftrightarrow> i \<in> set (ms_subscribers m))"
  by (induction subs arbitrary: m) (auto simp: publish_one_other)

lemma publish_one_self:
  assumes "gm_lookup (ms_heap m) i = Some s"
  shows "\<exists>s'. gm_lookup (ms_heap (publish_one ev i m)) i = Some s' \<and>
     (i \<in> set (ms_subscribers (publish_one ev i m)) \<longrightarrow> sub_events s' = sub_events s @ [ev])"
  using assms by (auto simp: publish_one_def dropLocked_def)

lemma publish_queue:
  assumes "distinct subs" and "gm_lookup (ms_heap m) i = Some s" and "i \<in> set subs"
  shows "\<exists>s'. gm_lookup (ms_heap (fold (publish_one ev) subs m)) i = Some s' \<and>
     (i \<in> set (ms_subscribers (fold (publish_one ev) subs m)) \<longrightarrow> sub_events s' = sub_events s @ [ev])"
  using assms
proof (induction subs arbitrary: m)
  case (Cons j subs)
  show ?case
  proof (cases "j = i")
    case True
    with Cons.prems have "i \<notin> set subs" by auto
    with True publish_one_self [OF Cons.prems(2), of ev] show ?thesis
      by (simp add: fold_publish_other)
  next
    case False
    with Cons.prems have "gm_lookup (ms_heap (publish_one ev j m)) i = Some s"
      by (simp add: publish_one_other)
    with Cons.IH [OF _ this] Cons.prems False show ?thesis by simp
  qed
qed simp

lemma publishLocked_queue:
  assumes "sub_inv m" and "gm_lookup (ms_heap m) i = Some s"
  shows "\<exists>s'. gm_lookup (ms_heap (publishLocked ev m)) i = Some s' \<and>
     (i \<in> set (ms_subscribers (publishLocked ev m)) \<longrightarrow>
        i \<in> set (ms_subscribers m) \<and> sub_events s' = sub_events s @ [ev])"
proof (cases "i \<in> set (ms_subscribers m)")
  case True
  with publish_queue [of "ms_subscribers m" m i s ev] assms show ?thesis
    by (auto simp: publishLocked_def sub_inv_def)
next
  case False
  with assms fold_publish_other [of i "ms_subscribers m" ev m] show ?thesis
    by (simp add: publishLocked_def)
qed

lemma replay_append: "replay (evs @ [ev]) v = apply_event ev (replay evs v)"
  by (simp add: replay_def)

section \<open>Each operation keeps the view and the store in agreement\<close>

lemma preview_key [simp]: "se_key (preview k e) = k"
  by (simp add: preview_def Let_def)

lemma agrees_put: "agrees t0 v d \<Longrightarrow> agrees t0 (apply_event (put_event k e) v) (gm_update k e d)"
  by (simp add: agrees_def apply_event_def put_event_def) (simp add: agrees_at_def)

lemma agrees_expire: "agrees t0 v d \<Longrightarrow> agrees t0 (apply_event (expire_event k e) v) (gm_delete k d)"
  by (simp add: agrees_def apply_event_def expire_event_def) (simp add: agrees_at_def)

lemma obs_publish:
  assumes "obs_inv t0 i v m" and "store_inv m'"
    and "ms_heap m' = ms_heap m" and "ms_subscribers m' = ms_subscribers m"
    and step: "\<And>w. agrees t0 w (ms_data m) \<Longrightarrow> agrees t0 (apply_event ev w) (ms_data m')"
  shows "obs_inv t0 i v (publishLocked ev m')"
proof -
  from assms obtain s where s: "gm_lookup (ms_heap m') i = Some s"
    and ag: "i \<in> set (ms_subscribers m') \<longrightarrow> agrees t0 (replay (sub_events s) v) (ms_data m)"
    by (auto simp: obs_inv_def)
  have inv: "store_inv (publishLocked ev m')"
    using assms(2) bytes_inv_cong [of "publishLocked ev m'" m']
    by (simp add: store_inv_def sub_inv_publish close_inv_publish)
  from publishLocked_queue [OF _ s, of ev] assms(2) obtain s' where
    s': "gm_lookup (ms_heap (publishLocked ev m')) i = Some s'"
    and q: "i \<in> set (ms_subscribers (publishLocked ev m')) \<longrightarrow>
        i \<in> set (ms_subscribers m') \<and> sub_events s' = sub_events s @ [ev]"
    by (auto simp: store_inv_def)
  then show ?thesis using inv ag step by (auto simp: obs_inv_def replay_append)
qed

text \<open>An accepted write in three parts: refuse, update silently, update and publish.\<close>

definition put_entry :: "gotime \<Rightarrow> bytes \<Rightarrow> duration \<Rightarrow> MemoryStore \<Rightarrow> Entry" where
  "put_entry now data ttl m =
     \<lparr>e_data = data, e_created_at = now, e_ttl = ttl, e_expires_at = now + ttl,
      e_revision = ms_sequence m + 1\<rparr>"

lemma Put_cases:
  obtains (refused) "Put now key data ttl m = (m, Some ErrStoreFull)"
  | (accepted) m' where "ms_data m' = gm_update key (put_entry now data ttl m) (ms_data m)"
      "ms_heap m' = ms_heap m" "ms_subscribers m' = ms_subscribers m"
      "store_inv m \<Longrightarrow> store_inv m'"
      "Put now key data ttl m =
         (if ms_subscribers m = [] then m' else publishLocked (put_event key (put_entry now data ttl m)) m', None)"
proof -
  let ?old = "case gm_lookup (ms_data m) key of None \<Rightarrow> 0 | Some e \<Rightarrow> entry_size e"
  let ?m = "m\<lparr>ms_sequence := ms_sequence m + 1,
              ms_data := gm_update key (put_entry now data ttl m) (ms_data m),
              ms_currentBytes := ms_currentBytes m - ?old + int (length data)\<rparr>"
  consider "ms_maxBytes m > 0 \<and> ms_currentBytes m - ?old + int (length data) > ms_maxBytes m"
    | "\<not> (ms_maxBytes m > 0 \<and> ms_currentBytes m - ?old + int (length data) > ms_maxBytes m)" by blast
  then show thesis
  proof cases
    case 1
    then show thesis by (intro refused) (auto simp: Put_def Let_def)
  next
    case 2
    have "store_inv ?m" if "store_inv m"
      using that 2 by (auto simp: store_inv_def bytes_inv_def sub_inv_def close_inv_def gm_sum_update
          entry_size_def put_entry_def)
    with 2 show thesis by (intro accepted [of ?m]) (auto simp: Put_def Let_def put_entry_def)
  qed
qed

lemma obs_inv_put: "obs_inv t0 i v m \<Longrightarrow> obs_inv t0 i v (fst (Put now key data ttl m))"
proof (cases rule: Put_cases [of now key data ttl m])
  case (accepted m')
  assume obs: "obs_inv t0 i v m"
  then have inv: "store_inv m'" using accepted by (simp add: obs_inv_def)
  show ?thesis
  proof (cases "ms_subscribers m = []")
    case True
    with accepted obs inv show ?thesis by (auto simp: obs_inv_def)
  next
    case False
    with obs_publish [OF obs inv accepted(2,3), of "put_event key (put_entry now data ttl m)"]
    show ?thesis using accepted by (simp add: agrees_put)
  qed
qed simp

lemma expire_one_inv:
  assumes "store_inv m" and "ke \<in> set (ms_data m)"
  shows "store_inv (expire_one now ke m)"
  using fold_expire_inv [of m "[ke]" now] assms by (cases ke) (simp add: gm_ok_def)

lemma expire_one_data:
  "ms_data (expire_one now (k, e) m) = (if now < e_expires_at e then ms_data m else gm_delete k (ms_data m))"
  by (simp add: expire_one_def)

lemma obs_inv_expire_one:
  assumes obs: "obs_inv t0 i v m" and ke: "ke \<in> set (ms_data m)"
  shows "obs_inv t0 i v (expire_one now ke m)"
proof -
  obtain k e where k: "ke = (k, e)" by (cases ke)
  show ?thesis
  proof (cases "now < e_expires_at e")
    case True
    then show ?thesis using obs by (simp add: expire_one_def k)
  next
    case False
    let ?m1 = "m\<lparr>ms_currentBytes := ms_currentBytes m - entry_size e, ms_data := gm_delete k (ms_data m)\<rparr>"
    have inv: "store_inv m" using obs by (simp add: obs_inv_def)
    then have "gm_lookup (ms_data m) k = Some e"
      using ke by (simp add: k gm_lookup_iff store_inv_gm_ok)
    then have "store_inv ?m1"
      using inv gm_sum_delete [of "ms_data m" k e entry_size] store_inv_gm_ok [OF inv]
      by (auto simp: store_inv_def bytes_inv_def sub_inv_def close_inv_def entry_size_def)
    from obs_publish [OF obs this, of "expire_event k e"] False show ?thesis
      by (simp add: expire_one_def k agrees_expire)
  qed
qed

lemma obs_inv_fold_expire:
  "obs_inv t0 i v m \<Longrightarrow> gm_ok es \<Longrightarrow> set es \<subseteq> set (ms_data m) \<Longrightarrow>
   obs_inv t0 i v (fold (expire_one now) es m)"
proof (induction es arbitrary: m)
  case (Cons ke es)
  obtain k e where ke: "ke = (k, e)" by (cases ke)
  have "obs_inv t0 i v (expire_one now ke m)" using Cons.prems by (simp add: obs_inv_expire_one)
  moreover have "set es \<subseteq> set (ms_data (expire_one now ke m))"
    using Cons.prems by (force simp: ke expire_one_data set_gm_delete gm_ok_Cons)
  moreover have "gm_ok es" using Cons.prems by (simp add: ke gm_ok_Cons)
  ultimately show ?case using Cons.IH by simp
qed simp

lemma obs_inv_cleanup: "obs_inv t0 i v m \<Longrightarrow> obs_inv t0 i v (cleanupExpired now m)"
  unfolding cleanupExpired_def
  by (rule obs_inv_fold_expire) (auto simp: obs_inv_def store_inv_gm_ok)

lemma obs_inv_drop:
  assumes "obs_inv t0 i v m" and "store_inv (dropLocked j m)"
  shows "obs_inv t0 i v (dropLocked j m)"
  using assms dropLocked_sub [of j m] by (auto simp: obs_inv_def dropLocked_heap)

lemma fold_drop_heap:
  "gm_lookup (ms_heap m) i \<noteq> None \<Longrightarrow> gm_lookup (ms_heap (fold dropLocked subs m)) i \<noteq> None"
proof (induction subs arbitrary: m)
  case (Cons j subs)
  have "gm_lookup (ms_heap (dropLocked j m)) i \<noteq> None"
    using Cons.prems by (auto simp: dropLocked_heap)
  then show ?case using Cons.IH by simp
qed simp

lemma obs_inv_close: "obs_inv t0 i v m \<Longrightarrow> obs_inv t0 i v (Close m)"
proof -
  assume obs: "obs_inv t0 i v m"
  then have inv: "store_inv (Close m)" by (simp add: obs_inv_def Close_inv)
  show ?thesis
  proof (cases "ms_closed m")
    case True
    then show ?thesis using obs by (simp add: Close_def)
  next
    case False
    let ?m = "m\<lparr>ms_closed := True, ms_cleanup_closes := Suc (ms_cleanup_closes m)\<rparr>"
    have "ms_closed (fold dropLocked subs n) = ms_closed n" for subs n
      by (induction subs arbitrary: n) simp_all
    with False have "ms_closed (Close m)" by (simp add: Close_def)
    then have "ms_subscribers (Close m) = []" using inv by (simp add: store_inv_def close_inv_def)
    moreover have "gm_lookup (ms_heap (Close m)) i \<noteq> None"
      using fold_drop_heap [of ?m i "ms_subscribers m"] obs False by (auto simp: Close_def obs_inv_def)
    ultimately show ?thesis using inv by (auto simp: obs_inv_def)
  qed
qed

lemma obs_inv_other_subscribe: "obs_inv t0 i v m \<Longrightarrow> obs_inv t0 i v (fst (Subscribe now m))"
proof (cases rule: Subscribe_cases [of now m])
  case (ok es)
  assume obs: "obs_inv t0 i v m"
  then have "i \<noteq> ms_next m"
    using sub_inv_fresh [of m] by (auto simp: obs_inv_def store_inv_def)
  with obs ok Subscribe_inv [of m now] show ?thesis
    by (auto simp: obs_inv_def add_sub_def)
qed simp

lemma obs_inv_recv:
  assumes "obs_inv t0 i v m" and r: "Subscription_recv j m = Some (ev, m')"
  shows "obs_inv t0 i (if j = i then apply_event ev v else v) m'"
proof -
  have "store_inv m'" using assms by (auto simp: obs_inv_def intro: Subscription_recv_inv)
  with assms show ?thesis
    by (auto simp: obs_inv_def Subscription_recv_def replay_def split: option.splits list.splits)
qed

section \<open>The snapshot\<close>

lemma snapshot_loop_entries:
  "snapshot_loop now d b acc = Inr es \<Longrightarrow>
   es = acc @ map (\<lambda>(k, e). preview k e) (filter (\<lambda>(k, e). now < e_expires_at e) d)"
  by (induction now d b acc rule: snapshot_loop.induct) (auto simp: Let_def split: if_splits)

lemma map_of_preview:
  "map_of (map ((\<lambda>e. (se_key e, e)) \<circ> (\<lambda>(k, e). preview k e)) d) k =
     map_option (preview k) (gm_lookup d k)"
  by (induction d) (auto simp: gm_lookup_def)

lemma snapshot_agrees:
  assumes "snapshot_loop now d 0 [] = Inr es" and "gm_ok d"
  shows "agrees now (snapshot_view \<lparr>sn_now = now, sn_entries = es\<rparr>) d"
proof -
  have "snapshot_view \<lparr>sn_now = now, sn_entries = es\<rparr> k =
      map_option (preview k) (gm_lookup (filter (\<lambda>(k, e). now < e_expires_at e) d) k)" for k
    using snapshot_loop_entries [OF assms(1)] by (simp add: snapshot_view_def map_of_preview)
  then show ?thesis
    using assms(2) by (auto simp: agrees_def agrees_at_def gm_lookup_filter split: option.splits)
qed

lemma obs_inv_subscribe:
  assumes "store_inv m" and "Subscribe t0 m = (m', Inr (sn, i))"
  shows "obs_inv t0 i (snapshot_view sn) m'"
proof (cases rule: Subscribe_cases [of t0 m])
  case (ok es)
  have ag: "agrees t0 (snapshot_view \<lparr>sn_now = t0, sn_entries = es\<rparr>) (ms_data m)"
    using ok(3) assms(1) by (intro snapshot_agrees store_inv_gm_ok)
  from ok assms(2) have m': "m' = add_sub m" "i = ms_next m" "sn = \<lparr>sn_now = t0, sn_entries = es\<rparr>"
    by auto
  have "store_inv (add_sub m)" using Subscribe_inv [OF assms(1), of t0] ok by simp
  with ag show ?thesis by (simp add: m' obs_inv_def) (simp add: add_sub_def replay_def)
qed (use assms in auto)

lemma observed_inv: "observed t0 i v m \<Longrightarrow> obs_inv t0 i v m"
proof (induction rule: observed.induct)
  case (obs_recv v m ev m')
  then show ?case using obs_inv_recv [of t0 i v m i ev m'] by simp
next
  case (obs_other_recv v m j ev m')
  then show ?case using obs_inv_recv [of t0 i v m j ev m'] by simp
next
  case (obs_sub_close v m j)
  then show ?case using Subscription_Close_inv [of m j] obs_inv_drop [of t0 i v m j]
    by (auto simp: Subscription_Close_def obs_inv_def [of t0 i v m] split: if_splits)
qed (auto intro: obs_inv_subscribe obs_inv_put obs_inv_cleanup obs_inv_close obs_inv_other_subscribe)

section \<open>Properties of the store\<close>

lemma store_reachable_maxBytes: "store_reachable b m \<Longrightarrow> ms_maxBytes m = b"
proof (induction rule: store_reachable.induct)
  case (reach_step m m')
  have "ms_maxBytes (fst (Put now k d ttl m)) = ms_maxBytes m" for now k d ttl
    by (simp add: Put_def Let_def)
  moreover have "ms_maxBytes (fold (expire_one now) es n) = ms_maxBytes n" for now es n
    by (induction es arbitrary: n) (auto simp: expire_one_def)
  moreover have "ms_maxBytes (fst (Subscribe now m)) = ms_maxBytes m" for now
    by (cases rule: Subscribe_cases [of now m]) (auto simp: add_sub_def)
  ultimately show ?case using reach_step
    by (auto elim!: store_step.cases simp: cleanupExpired_def Close_def fold_drop_frame
        Subscription_Close_def Subscription_recv_def split: option.splits list.splits)
qed (simp add: NewMemoryStore_def)

text \<open>
  C13. Whatever sequence of writes, expiry sweeps, subscriptions and closes a store goes through,
  its byte counter is the exact total size of the stored values, which is also what \<open>GetStats\<close>
  reports, and it never exceeds a configured capacity.
\<close>

theorem store_accounting:
  assumes "store_reachable maxBytes m"
  shows "ms_currentBytes m = gm_sum entry_size (ms_data m)
    \<and> snd (GetStats m) = ms_currentBytes m
    \<and> (0 < maxBytes \<longrightarrow> ms_currentBytes m \<le> maxBytes)"
  using store_reachable_inv [OF assms] store_reachable_maxBytes [OF assms]
  by (auto simp: store_inv_def bytes_inv_def GetStats_def)

theorem store_accounting_witness:
  "ms_currentBytes (fst (Put 0 ''k'' ''abc'' 5 (NewMemoryStore 10))) = 3
   \<and> ms_currentBytes (fst (Put 0 ''k'' ''abc'' 5 (NewMemoryStore 10))) \<le> 10"
proof -
  have "store_reachable 10 (fst (Put 0 ''k'' ''abc'' 5 (NewMemoryStore 10)))"
    by (rule reach_step [OF reach_new step_put])
  from store_accounting [OF this] show ?thesis
    by (simp add: Put_def NewMemoryStore_def Let_def gm_update_def entry_size_def)
qed

text \<open>
  In every reachable store there are at most eight subscribers, no event queue is longer than
  its channel buffer, and neither the \<open>done\<close> channel of any subscription, dropped or not, nor the
  cleanup channel has been closed twice, so no sequence of calls panics on a closed channel.
\<close>

theorem store_streams_safe:
  assumes "store_reachable maxBytes m"
  shows "length (ms_subscribers m) \<le> StreamSubscribers
    \<and> (\<forall>i s. gm_lookup (ms_heap m) i = Some s \<longrightarrow>
         length (sub_events s) \<le> StreamQueueSize \<and> sub_done_closes s \<le> 1)
    \<and> ms_cleanup_closes m \<le> 1"
  using store_reachable_inv [OF assms]
  by (auto simp: store_inv_def sub_inv_def close_inv_def split: if_splits)

definition demo_closed :: MemoryStore where
  "demo_closed = Close (fst (Subscribe 0 (NewMemoryStore 0)))"

theorem store_streams_safe_witness:
  "ms_subscribers demo_closed = [] \<and> sub_done_closes (the (gm_lookup (ms_heap demo_closed) 0)) \<le> 1"
proof -
  have "store_reachable 0 demo_closed"
    unfolding demo_closed_def
    by (rule reach_step [OF reach_step [OF reach_new step_subscribe] step_close])
  note safe = store_streams_safe [OF this]
  have "ms_subscribers demo_closed = []"
    and "gm_lookup (ms_heap demo_closed) 0 = Some \<lparr>sub_events = [], sub_done_closes = 1\<rparr>"
    by (simp_all add: demo_closed_def Subscribe_def NewMemoryStore_def StreamSubscribers_def Close_def
        dropLocked_def gm_update_def)
  with safe show ?thesis by (metis option.sel)
qed

text \<open>
  C12. An observer that starts from the snapshot of its \<open>Subscribe\<close> call and applies received
  events in order is never misled: as long as its subscription is registered, its view with the
  queued events applied contains, for every key, exactly the preview of the stored entry; the only
  stored entries it may lack are those already expired when the snapshot was taken.
\<close>

theorem stream_view_refines:
  assumes "observed t0 i v m" and "i \<in> set (ms_subscribers m)"
    and "gm_lookup (ms_heap m) i = Some s"
  shows "(\<forall>k e. gm_lookup (ms_data m) k = Some e \<and> t0 < e_expires_at e \<longrightarrow>
            replay (sub_events s) v k = Some (preview k e))
    \<and> (\<forall>k p. replay (sub_events s) v k = Some p \<longrightarrow>
            (\<exists>e. gm_lookup (ms_data m) k = Some e \<and> p = preview k e))"
proof -
  have "agrees t0 (replay (sub_events s) v) (ms_data m)"
    using observed_inv [OF assms(1)] assms(2,3) by (auto simp: obs_inv_def)
  then have ag: "agrees_at t0 k (replay (sub_events s) v k) (gm_lookup (ms_data m) k)" for k
    by (simp add: agrees_def)
  show ?thesis
  proof (intro conjI allI impI)
    fix k e assume "gm_lookup (ms_data m) k = Some e \<and> t0 < e_expires_at e"
    with ag [of k] show "replay (sub_events s) v k = Some (preview k e)"
      by (auto simp: agrees_at_def)
  next
    fix k p assume "replay (sub_events s) v k = Some p"
    with ag [of k] show "\<exists>e. gm_lookup (ms_data m) k = Some e \<and> p = preview k e"
      by (auto simp: agrees_at_def split: option.splits)
  qed
qed

definition demo_subscribed :: MemoryStore where
  "demo_subscribed = fst (Subscribe 0 (NewMemoryStore 0))"

theorem stream_view_refines_witness:
  "observed 0 0 Map.empty (fst (Put 1 ''k'' ''x'' 9 demo_subscribed))
   \<and> replay [put_event ''k'' (put_entry 1 ''x'' 9 demo_subscribed)] Map.empty ''k''
       = Some (preview ''k'' (put_entry 1 ''x'' 9 demo_subscribed))"
proof -
  let ?m = "fst (Put 1 ''k'' ''x'' 9 demo_subscribed)"
  let ?e = "put_entry 1 ''x'' 9 demo_subscribed"
  let ?s = "\<lparr>sub_events = [put_event ''k'' ?e], sub_done_closes = 0\<rparr>"
  have "observed 0 0 (snapshot_view \<lparr>sn_now = 0, sn_entries = []\<rparr>) demo_subscribed"
    unfolding demo_subscribed_def
    by (rule obs_subscribe [OF NewMemoryStore_inv [of 0]])
       (simp add: Subscribe_def NewMemoryStore_def StreamSubscribers_def)
  then have obs: "observed 0 0 Map.empty ?m"
    by (intro obs_put) (simp add: snapshot_view_def)
  have demo: "ms_maxBytes demo_subscribed = 0" "ms_subscribers demo_subscribed = [0]"
      "gm_lookup (ms_heap demo_subscribed) 0 = Some \<lparr>sub_events = [], sub_done_closes = 0\<rparr>"
    by (simp_all add: demo_subscribed_def Subscribe_def NewMemoryStore_def StreamSubscribers_def)
  have cost: "previewCost ''k'' (length (se_payload (preview ''k'' ?e))) = 522"
    by (simp add: previewCost_def preview_def put_entry_def StreamPreviewBytes_def)
  have "?m = publishLocked (put_event ''k'' ?e) (demo_subscribed\<lparr>ms_sequence := ms_sequence demo_subscribed + 1,
      ms_data := gm_update ''k'' ?e (ms_data demo_subscribed),
      ms_currentBytes := ms_currentBytes demo_subscribed
        - (case gm_lookup (ms_data demo_subscribed) ''k'' of None \<Rightarrow> 0 | Some e \<Rightarrow> entry_size e) + 1\<rparr>)"
    by (simp add: Put_def demo Let_def put_entry_def)
  then have "0 \<in> set (ms_subscribers ?m)" and "gm_lookup (ms_heap ?m) 0 = Some ?s"
    and d: "gm_lookup (ms_data ?m) ''k'' = Some ?e"
    by (simp_all add: publishLocked_def publish_one_def demo put_event_def cost streamEventBytes_def
        StreamQueueSize_def)
  note r = conjunct1 [OF stream_view_refines [OF obs this(1,2)], rule_format]
  have "0 < e_expires_at ?e" by (simp add: put_entry_def)
  with d have "replay (sub_events ?s) Map.empty ''k'' = Some (preview ''k'' ?e)"
    by (intro r conjI)
  with obs show ?thesis by simp
qed

text \<open>
  C14. An accepted write is what every later read returns, byte for byte, from the instant of the
  write until its time-to-live has passed and never afterwards; reads of other keys are unchanged.
\<close>

theorem put_then_get:
  assumes "Put now key data ttl m = (m', None)"
  shows "Get t k m' = (if k = key then (if t < now + ttl then Some data else None) else Get t k m)"
  by (simp add: Get_metadata mem.get_put [OF assms])

theorem put_then_get_witness:
  "Get 4 ''k'' (fst (Put 0 ''k'' ''abc'' 5 (NewMemoryStore 10))) = Some ''abc''
   \<and> Get 5 ''k'' (fst (Put 0 ''k'' ''abc'' 5 (NewMemoryStore 10))) = None"
proof -
  have p: "Put 0 ''k'' ''abc'' 5 (NewMemoryStore 10) = (fst (Put 0 ''k'' ''abc'' 5 (NewMemoryStore 10)), None)"
    by (simp add: Put_def NewMemoryStore_def Let_def)
  show ?thesis
    using put_then_get [OF p, of 4 "''k''"] put_then_get [OF p, of 5 "''k''"] by simp
qed

text \<open>
  A write is refused exactly when a capacity is configured and the total after replacing the
  key's old value would exceed it; a refused write reports \<open>ErrStoreFull\<close> and leaves the store
  untouched.
\<close>

theorem put_refused_iff:
  assumes "store_reachable maxBytes m"
  shows "(snd (Put now key data ttl m) \<noteq> None
            \<longleftrightarrow> 0 < maxBytes
              \<and> gm_sum entry_size (gm_delete key (ms_data m)) + int (length data) > maxBytes)
    \<and> (snd (Put now key data ttl m) \<noteq> None \<longrightarrow> Put now key data ttl m = (m, Some ErrStoreFull))"
proof -
  have inv: "store_inv m" by (rule store_reachable_inv [OF assms])
  have old: "gm_sum entry_size (gm_delete key (ms_data m)) =
      gm_sum entry_size (ms_data m)
        - (case gm_lookup (ms_data m) key of None \<Rightarrow> 0 | Some e \<Rightarrow> entry_size e)"
    using gm_sum_delete [OF store_inv_gm_ok [OF inv], of key _ entry_size]
    by (auto simp: gm_lookup_None gm_delete_notin split: option.split)
  show ?thesis
    using inv old store_reachable_maxBytes [OF assms]
    by (auto simp: Put_def Let_def store_inv_def bytes_inv_def)
qed

theorem put_refused_iff_witness:
  "Put 7 ''j'' ''xyz'' 5 (fst (Put 0 ''k'' ''abc'' 5 (NewMemoryStore 5))) =
     (fst (Put 0 ''k'' ''abc'' 5 (NewMemoryStore 5)), Some ErrStoreFull)"
proof -
  let ?m = "fst (Put 0 ''k'' ''abc'' 5 (NewMemoryStore 5))"
  have r: "store_reachable 5 ?m" by (rule reach_step [OF reach_new step_put])
  have "gm_sum entry_size (gm_delete ''j'' (ms_data ?m)) + int (length ''xyz'') > 5"
    by (simp add: Put_def NewMemoryStore_def Let_def gm_update_def gm_delete_def entry_size_def)
  then show ?thesis using put_refused_iff [OF r, of 7 "''j''" "''xyz''" 5] by simp
qed

text \<open>
  The expiry sweep is invisible to readers: reads at the time of the sweep or later return
  the same result with and without it, and afterwards the store holds only live entries.
\<close>

theorem cleanup_invisible:
  assumes "store_reachable maxBytes m" and "now \<le> t"
  shows "GetWithMetadata t k (cleanupExpired now m) = GetWithMetadata t k m
    \<and> Scan t (cleanupExpired now m) = Scan t m
    \<and> (\<forall>(k', e) \<in> set (ms_data (cleanupExpired now m)). now < e_expires_at e)"
proof -
  have inv: "store_inv m" by (rule store_reachable_inv [OF assms(1)])
  have "filter (\<lambda>(k, e). t < e_expires_at e) (filter (\<lambda>(k, e). now < e_expires_at e) (ms_data m)) =
      filter (\<lambda>(k, e). t < e_expires_at e) (ms_data m)"
    unfolding filter_filter using assms(2) by (intro filter_cong) auto
  then show ?thesis
    using assms(2) store_inv_gm_ok [OF inv]
    by (auto simp: GetWithMetadata_def Scan_def cleanupExpired_data [OF inv] gm_lookup_filter
        split: option.splits)
qed

theorem cleanup_invisible_witness:
  "Scan 5 (cleanupExpired 5 (fst (Put 0 ''k'' ''abc'' 5 (NewMemoryStore 0)))) = []"
proof -
  have "store_reachable 0 (fst (Put 0 ''k'' ''abc'' 5 (NewMemoryStore 0)))"
    by (rule reach_step [OF reach_new step_put])
  from cleanup_invisible [OF this, of 5 5 "''k''"] show ?thesis
    by (simp add: Put_def NewMemoryStore_def Let_def gm_update_def Scan_def)
qed

text \<open>
  Forgetting: after any sequence of write attempts to a fresh store, once every attempt's
  time-to-live has passed, no key is listed, whether or not a sweep has run.
\<close>

theorem store_forgets:
  assumes "\<forall>(c, k, d, ttl) \<in> set ws. c + ttl \<le> t"
  shows "Scan t (mem.puts ws (NewMemoryStore maxBytes)) = []"
  using NewMemoryStore_inv assms
  by (intro mem.forgets) (auto simp: GetWithMetadata_def NewMemoryStore_def)

theorem store_forgets_witness:
  "Scan 9 (mem.puts [(0, ''a'', ''x'', 9), (2, ''b'', ''y'', 3)] (NewMemoryStore 0)) = []"
  by (rule store_forgets) simp

text \<open>
  A snapshot is complete or refused: a successful \<open>Subscribe\<close> returns the previews of exactly
  the entries live at that instant, within the entry and byte limits, and a failed one changes
  nothing.
\<close>

theorem subscribe_all_or_nothing:
  "case Subscribe now m of
     (m', Inl err) \<Rightarrow> m' = m
   | (m', Inr (sn, i)) \<Rightarrow>
       sn_entries sn = map (\<lambda>(k, e). preview k e) (filter (\<lambda>(k, e). live now e) (ms_data m))
       \<and> length (sn_entries sn) \<le> StreamSnapshotEntries
       \<and> i \<in> set (ms_subscribers m') \<and> ms_data m' = ms_data m"
proof (cases rule: Subscribe_cases [of now m])
  case (ok es)
  have len: "snapshot_loop now d b acc = Inr es \<Longrightarrow> length acc \<le> StreamSnapshotEntries \<Longrightarrow>
      length es \<le> StreamSnapshotEntries" for d b acc es
    by (induction now d b acc rule: snapshot_loop.induct) (auto simp: Let_def split: if_splits)
  have "es = map (\<lambda>(k, e). preview k e) (filter (\<lambda>(k, e). live now e) (ms_data m))"
    using snapshot_loop_entries [OF ok(3)] by (simp add: live_def)
  with ok len [OF ok(3)] show ?thesis by (simp add: add_sub_def)
qed simp

end
