(* ===== verification/Go_Strings.thy ===== *)
theory Go_Strings
  imports Prelude
begin

text \<open>
  The functions of Go's \<open>strings\<close> and \<open>strconv\<close> packages that the sources call, on byte strings, with the round trips the parsers rely on.
\<close>

section \<open>Package strings\<close>

fun Split :: "char \<Rightarrow> string \<Rightarrow> string list" where
  "Split c [] = [[]]"
| "Split c (x # xs) =
     (if x = c then [] # Split c xs
      else (case Split c xs of [] \<Rightarrow> [[x]] | p # ps \<Rightarrow> (x # p) # ps))"

fun Join :: "char \<Rightarrow> string list \<Rightarrow> string" where
  "Join c [] = []"
| "Join c [x] = x"
| "Join c (x # y # ys) = x @ c # Join c (y # ys)"

fun Cut :: "char \<Rightarrow> string \<Rightarrow> (string \<times> string) option" where
  "Cut c [] = None"
| "Cut c (x # xs) =
     (if x = c then Some ([], xs)
      else map_option (\<lambda>(a, b). (x # a, b)) (Cut c xs))"

definition HasPrefix :: "string \<Rightarrow> string \<Rightarrow> bool" where
  "HasPrefix s p = (take (length p) s = p)"

definition HasSuffix :: "string \<Rightarrow> string \<Rightarrow> bool" where
  "HasSuffix s p = HasPrefix (rev s) (rev p)"

fun Contains :: "string \<Rightarrow> string \<Rightarrow> bool" where
  "Contains [] p = (p = [])"
| "Contains (x # xs) p = (HasPrefix (x # xs) p \<or> Contains xs p)"

definition ContainsAny :: "string \<Rightarrow> string \<Rightarrow> bool" where
  "ContainsAny s cs = list_ex (\<lambda>c. List.member cs c) s"

text \<open>The byte before the last occurrence of \<open>c\<close> and what follows it (\<open>LastIndex\<close>).\<close>

definition CutLast :: "char \<Rightarrow> string \<Rightarrow> (string \<times> string) option" where
  "CutLast c s = map_option (\<lambda>(a, b). (rev b, rev a)) (Cut c (rev s))"

definition lower_char :: "char \<Rightarrow> char" where
  "lower_char c = (if 65 \<le> (of_char c :: nat) \<and> (of_char c :: nat) \<le> 90
                   then char_of ((of_char c :: nat) + 32) else c)"

definition ToLower :: "string \<Rightarrow> string" where
  "ToLower s = map lower_char s"

text \<open>
  \<open>TrimSpace\<close> removes leading and trailing Unicode white space: the ASCII space characters
  and the UTF-8 encodings of U+0085, U+00A0, U+1680, U+2000 to U+200A, U+2028, U+2029, U+202F,
  U+205F and U+3000.
\<close>

definition white_space :: "string list" where
  "white_space =
     [[CHR 0x20], [CHR 0x09], [CHR 0x0A], [CHR 0x0B], [CHR 0x0C], [CHR 0x0D],
      [CHR 0xC2, CHR 0x85], [CHR 0xC2, CHR 0xA0], [CHR 0xE1, CHR 0x9A, CHR 0x80],
      [CHR 0xE2, CHR 0x80, CHR 0x80], [CHR 0xE2, CHR 0x80, CHR 0x81],
      [CHR 0xE2, CHR 0x80, CHR 0x82], [CHR 0xE2, CHR 0x80, CHR 0x83],
      [CHR 0xE2, CHR 0x80, CHR 0x84], [CHR 0xE2, CHR 0x80, CHR 0x85],
      [CHR 0xE2, CHR 0x80, CHR 0x86], [CHR 0xE2, CHR 0x80, CHR 0x87],
      [CHR 0xE2, CHR 0x80, CHR 0x88], [CHR 0xE2, CHR 0x80, CHR 0x89],
      [CHR 0xE2, CHR 0x80, CHR 0x8A], [CHR 0xE2, CHR 0x80, CHR 0xA8],
      [CHR 0xE2, CHR 0x80, CHR 0xA9], [CHR 0xE2, CHR 0x80, CHR 0xAF],
      [CHR 0xE2, CHR 0x81, CHR 0x9F], [CHR 0xE3, CHR 0x80, CHR 0x80]]"

function trim_front :: "string list \<Rightarrow> string \<Rightarrow> string" where
  "trim_front ws s =
     (case find (\<lambda>w. w \<noteq> [] \<and> s \<noteq> [] \<and> HasPrefix s w) ws of
        None \<Rightarrow> s | Some w \<Rightarrow> trim_front ws (drop (length w) s))"
  by pat_completeness auto
termination
  by (relation "measure (\<lambda>(ws, s). length s)") (auto simp: find_Some_iff)

declare trim_front.simps [simp del]

definition TrimSpace :: "string \<Rightarrow> string" where
  "TrimSpace s =
     rev (trim_front (map rev white_space) (rev (trim_front white_space s)))"

lemma trim_front_id:
  "(\<And>w. w \<in> set ws \<Longrightarrow> w \<noteq> [] \<Longrightarrow> s \<noteq> [] \<Longrightarrow> \<not> HasPrefix s w) \<Longrightarrow> trim_front ws s = s"
  by (subst trim_front.simps) (auto simp: find_Some_iff split: option.split)

text \<open>A string whose bytes are all printable ASCII is left alone by \<open>TrimSpace\<close>.\<close>

definition printable :: "string \<Rightarrow> bool" where
  "printable s = list_all (\<lambda>c. 33 \<le> (of_char c :: nat) \<and> (of_char c :: nat) \<le> 126) s"

lemma white_space_nonprint:
  "w \<in> set white_space \<Longrightarrow> w \<noteq> [] \<and> \<not> printable [hd w] \<and> \<not> printable [last w]"
  by (simp only: white_space_def list.set insert_iff empty_iff)
     (elim disjE; simp add: printable_def)

lemma HasPrefix_hd: "HasPrefix s w \<Longrightarrow> w \<noteq> [] \<Longrightarrow> s \<noteq> [] \<and> hd w = hd s"
  by (cases s; cases w) (auto simp: HasPrefix_def)

lemma printable_hd: "printable s \<Longrightarrow> s \<noteq> [] \<Longrightarrow> printable [hd s]"
  by (cases s) (auto simp: printable_def)

lemma printable_append [simp]: "printable (s @ t) \<longleftrightarrow> printable s \<and> printable t"
  by (simp add: printable_def)

lemma printable_Cons: "printable (c # s) \<longleftrightarrow> printable [c] \<and> printable s"
  by (simp add: printable_def)

lemma printable_rev: "printable (rev s) = printable s"
  by (simp add: printable_def list_all_iff)

lemma trim_front_printable: "printable s \<Longrightarrow> trim_front white_space s = s"
  by (rule trim_front_id) (metis HasPrefix_hd printable_hd white_space_nonprint)

lemma trim_back_printable: "printable s \<Longrightarrow> trim_front (map rev white_space) s = s"
proof (rule trim_front_id)
  fix w
  assume p: "printable s" and w: "w \<in> set (map rev white_space)" "w \<noteq> []" "s \<noteq> []"
  then obtain v where v: "v \<in> set white_space" "w = rev v" by auto
  with w have "hd w = last v" by (simp add: hd_rev)
  then show "\<not> HasPrefix s w"
    using HasPrefix_hd [of s w] printable_hd [OF p] white_space_nonprint [OF v(1)] w by metis
qed

lemma TrimSpace_printable [simp]: "printable s \<Longrightarrow> TrimSpace s = s"
  by (simp add: TrimSpace_def trim_front_printable trim_back_printable printable_rev)

lemma Split_nonempty [simp]: "Split c s \<noteq> []"
  by (induction s) (auto split: list.splits)

lemma Split_no_sep: "c \<notin> set s \<Longrightarrow> Split c s = [s]"
  by (induction s) auto

lemma Split_append: "c \<notin> set s \<Longrightarrow> Split c (s @ c # t) = s # Split c t"
  by (induction s) auto

lemma Split_Join:
  "xs \<noteq> [] \<Longrightarrow> (\<And>x. x \<in> set xs \<Longrightarrow> c \<notin> set x) \<Longrightarrow> Split c (Join c xs) = xs"
  by (induction c xs rule: Join.induct) (simp_all add: Split_no_sep Split_append)

lemma Cut_append: "c \<notin> set s \<Longrightarrow> Cut c (s @ c # t) = Some (s, t)"
  by (induction s) auto

lemma Cut_None: "Cut c s = None \<longleftrightarrow> c \<notin> set s"
  by (induction s) auto

lemma Cut_Some: "Cut c s = Some (a, b) \<Longrightarrow> s = a @ c # b \<and> c \<notin> set a"
  by (induction s arbitrary: a) (auto split: if_splits)

lemma CutLast_append: "c \<notin> set t \<Longrightarrow> CutLast c (s @ c # t) = Some (s, t)"
  by (simp add: CutLast_def Cut_append)

lemma CutLast_Some: "CutLast c s = Some (a, b) \<Longrightarrow> s = a @ c # b \<and> c \<notin> set b"
  by (auto simp: CutLast_def dest!: Cut_Some) (metis rev_append rev_rev_ident rev.simps(2) append_assoc append_Cons append_Nil)

lemma HasPrefix_iff: "HasPrefix s p \<longleftrightarrow> (\<exists>t. s = p @ t)"
  by (metis HasPrefix_def append_eq_conv_conj append_take_drop_id)

section \<open>Package strconv\<close>

definition digit_char :: "nat \<Rightarrow> char" where
  "digit_char d = char_of (48 + d)"

fun nat_digits :: "nat \<Rightarrow> string" where
  "nat_digits n = (if n < 10 then [digit_char n] else nat_digits (n div 10) @ [digit_char (n mod 10)])"

declare nat_digits.simps [simp del]

definition Itoa :: "int \<Rightarrow> string" where
  "Itoa i = (if i < 0 then CHR ''-'' # nat_digits (nat (- i)) else nat_digits (nat i))"

definition digit_val :: "char \<Rightarrow> nat option" where
  "digit_val c = (let n = (of_char c :: nat) in if 48 \<le> n \<and> n \<le> 57 then Some (n - 48) else None)"

fun parse_digits :: "nat \<Rightarrow> string \<Rightarrow> nat option" where
  "parse_digits acc [] = Some acc"
| "parse_digits acc (c # cs) =
     (case digit_val c of None \<Rightarrow> None | Some d \<Rightarrow> parse_digits (10 * acc + d) cs)"

definition parse_unsigned :: "string \<Rightarrow> nat option" where
  "parse_unsigned s = (if s = [] then None else parse_digits 0 s)"

text \<open>\<open>ParseInt(s, 10, 64)\<close>, and \<open>Atoi\<close> on a 64-bit machine: an optional sign, then digits,
  an error outside the range of \<open>int64\<close>.\<close>

definition ParseInt :: "string \<Rightarrow> int option" where
  "ParseInt s =
     (let (neg, ds) = (case s of [] \<Rightarrow> (False, [])
                       | c # cs \<Rightarrow> if c = CHR ''-'' then (True, cs)
                                  else if c = CHR ''+'' then (False, cs) else (False, s))
      in case parse_unsigned ds of None \<Rightarrow> None
         | Some n \<Rightarrow> let v = (if neg then - int n else int n)
                    in if - (2 ^ 63) \<le> v \<and> v \<le> max_int64 then Some v else None)"

abbreviation Atoi :: "string \<Rightarrow> int option" where
  "Atoi \<equiv> ParseInt"

lemma digit_val_digit_char: "d < 10 \<Longrightarrow> digit_val (digit_char d) = Some d"
  by (simp add: digit_val_def digit_char_def)

lemma parse_digits_append:
  "parse_digits acc (s @ t) =
     (case parse_digits acc s of None \<Rightarrow> None | Some a \<Rightarrow> parse_digits a t)"
  by (induction s arbitrary: acc) (auto split: option.splits)

lemma parse_nat_digits: "parse_digits 0 (nat_digits n) = Some n"
proof (induction n rule: nat_digits.induct)
  case (1 n)
  show ?case
  proof (cases "n < 10")
    case True
    then show ?thesis by (simp add: nat_digits.simps [of n] digit_val_digit_char)
  next
    case False
    with 1 show ?thesis
      by (simp add: nat_digits.simps [of n] parse_digits_append digit_val_digit_char)
  qed
qed

lemma nat_digits_nonempty [simp]: "nat_digits n \<noteq> []"
  by (subst nat_digits.simps) simp

lemma digit_char_not_sign: "d < 10 \<Longrightarrow> digit_char d \<noteq> CHR ''-'' \<and> digit_char d \<noteq> CHR ''+''"
proof -
  assume "d < 10"
  then have "digit_val (digit_char d) \<noteq> None" by (simp add: digit_val_digit_char)
  then show ?thesis by (auto simp: digit_val_def Let_def)
qed

lemma set_nat_digits: "c \<in> set (nat_digits n) \<Longrightarrow> \<exists>d < 10. c = digit_char d"
proof (induction n rule: nat_digits.induct)
  case (1 n)
  then show ?case
    by (subst (asm) (2) nat_digits.simps) (auto split: if_splits intro: exI [of _ "n mod 10"])
qed

lemma ParseInt_nat_digits: "int n \<le> max_int64 \<Longrightarrow> ParseInt (nat_digits n) = Some (int n)"
proof -
  assume n: "int n \<le> max_int64"
  obtain c cs where eq: "nat_digits n = c # cs" by (cases "nat_digits n") auto
  then have "c \<noteq> CHR ''-'' \<and> c \<noteq> CHR ''+''"
    using set_nat_digits [of c n] digit_char_not_sign by auto
  then show ?thesis
    using n parse_nat_digits [of n] by (simp add: ParseInt_def eq parse_unsigned_def)
qed

lemma ParseInt_Itoa:
  assumes "- (2 ^ 63) \<le> i" and "i \<le> max_int64"
  shows "ParseInt (Itoa i) = Some i"
proof (cases "i < 0")
  case True
  with assms show ?thesis
    by (simp add: ParseInt_def Itoa_def parse_unsigned_def parse_nat_digits max_int64_def)
next
  case False
  with assms show ?thesis by (simp add: Itoa_def ParseInt_nat_digits)
qed

lemma ParseInt_range: "ParseInt s = Some i \<Longrightarrow> - (2 ^ 63) \<le> i \<and> i \<le> max_int64"
  by (auto simp: ParseInt_def Let_def split: option.splits if_splits prod.splits)

lemma of_char_digit_char: "d < 10 \<Longrightarrow> (of_char (digit_char d) :: nat) = 48 + d"
  by (simp add: digit_char_def)

lemma printable_Itoa: "printable (Itoa i)"
proof -
  have "printable (nat_digits n)" for n
    by (auto simp: printable_def list_all_iff of_char_digit_char dest!: set_nat_digits)
  then show ?thesis by (simp add: Itoa_def printable_def)
qed

lemma Itoa_chars: "c \<in> set (Itoa i) \<Longrightarrow> c = CHR ''-'' \<or> (\<exists>d < 10. c = digit_char d)"
  by (auto simp: Itoa_def split: if_splits dest: set_nat_digits)

lemma Itoa_no_char:
  assumes "digit_val c = None" and "c \<noteq> CHR ''-''"
  shows "c \<notin> set (Itoa i)"
  using assms Itoa_chars [of c i] digit_val_digit_char by auto

section \<open>UTF-8\<close>

text \<open>Whether a byte and what follows it start with the encoding of a character, and how long that is (\<open>utf8.DecodeRune\<close>).\<close>

definition continuation :: "nat \<Rightarrow> nat \<Rightarrow> char \<Rightarrow> bool" where
  "continuation lo hi c \<longleftrightarrow> lo \<le> of_char c \<and> of_char c \<le> hi"

definition second_range :: "nat \<Rightarrow> nat \<times> nat" where
  "second_range b =
     (if b = 224 then (160, 191) else if b = 237 then (128, 159) else if b = 240 then (144, 191) else if b = 244 then (128, 143) else (128, 191))"

definition rune_length :: "nat \<Rightarrow> nat" where
  "rune_length b =
     (if b < 128 then 1 else if 194 \<le> b \<and> b \<le> 223 then 2 else if 224 \<le> b \<and> b \<le> 239 then 3 else if 240 \<le> b \<and> b \<le> 244 then 4 else 0)"

definition rune_ok :: "char \<Rightarrow> bytes \<Rightarrow> bool" where
  "rune_ok c rest \<longleftrightarrow>
     (let b = of_char c; n = rune_length b; (lo, hi) = second_range b; tail = take (n - 1) rest
      in n > 0 \<and> length tail = n - 1 \<and>
         (case tail of [] \<Rightarrow> True | d # others \<Rightarrow> continuation lo hi d \<and> list_all (continuation 128 191) others))"

end
