(* ===== verification/Endpoint.thy ===== *)
theory Endpoint
  imports Go_Strings
begin

text \<open>
  Node HTTP origins, \<open>src/internal/endpoint/origin.go\<close>. \<open>Normalize\<close> calls \<open>net/url.Parse\<close>,
  \<open>net/netip.ParseAddr\<close> and \<open>net.JoinHostPort\<close>; their behaviour on the inputs that can still be
  accepted is written out here, as of the toolchain the module requires (colons in a host are only
  allowed before a port, brackets only around an IPv6 address). Every way to fail is the result
  \<open>None\<close>: the callers distinguish only success and failure.
\<close>

section \<open>URL parsing\<close>

definition is_alpha :: "char \<Rightarrow> bool" where
  "is_alpha c = (let n = (of_char c :: nat) in (65 \<le> n \<and> n \<le> 90) \<or> (97 \<le> n \<and> n \<le> 122))"

definition is_digit :: "char \<Rightarrow> bool" where
  "is_digit c = (let n = (of_char c :: nat) in 48 \<le> n \<and> n \<le> 57)"

definition is_control :: "char \<Rightarrow> bool" where
  "is_control c = (let n = (of_char c :: nat) in n < 32 \<or> n = 127)"

record URL =
  u_scheme :: string
  u_opaque :: string
  u_user :: bool
  u_host :: string
  u_path :: string

fun getScheme :: "string \<Rightarrow> string \<Rightarrow> (string \<times> string) option" where
  "getScheme pre [] = Some ([], pre)"
| "getScheme pre (c # cs) =
     (if is_alpha c then getScheme (pre @ [c]) cs
      else if is_digit c \<or> c = CHR ''+'' \<or> c = CHR ''-'' \<or> c = CHR ''.''
      then (if pre = [] then Some ([], pre @ c # cs) else getScheme (pre @ [c]) cs)
      else if c = CHR '':'' then (if pre = [] then None else Some (pre, cs))
      else Some ([], pre @ c # cs))"

text \<open>The bytes \<open>url.Parse\<close> accepts unescaped in a host.\<close>

definition host_char :: "char \<Rightarrow> bool" where
  "host_char c =
     ((of_char c :: nat) \<ge> 128 \<or> is_alpha c \<or> is_digit c
      \<or> List.member ''-_.~!$&()*+,;=:[]<>'' c \<or> c = CHR 0x27 \<or> c = CHR 0x22)"

definition validOptionalPort :: "string \<Rightarrow> bool" where
  "validOptionalPort p =
     (case p of [] \<Rightarrow> True | c # cs \<Rightarrow> c = CHR '':'' \<and> list_all is_digit cs)"

section \<open>IPv6 text\<close>

definition hex_val :: "char \<Rightarrow> nat option" where
  "hex_val c =
     (let n = (of_char c :: nat) in
      if 48 \<le> n \<and> n \<le> 57 then Some (n - 48)
      else if 97 \<le> n \<and> n \<le> 102 then Some (n - 87)
      else if 65 \<le> n \<and> n \<le> 70 then Some (n - 55) else None)"

fun hex_digits :: "nat \<Rightarrow> string" where
  "hex_digits n =
     (let d = (\<lambda>k. char_of (if k < 10 then 48 + k else 87 + k :: nat) :: char)
      in if n < 16 then [d n] else hex_digits (n div 16) @ [d (n mod 16)])"

declare hex_digits.simps [simp del]

fun span_hex :: "string \<Rightarrow> nat list \<times> string" where
  "span_hex [] = ([], [])"
| "span_hex (c # cs) =
     (case hex_val c of None \<Rightarrow> ([], c # cs)
      | Some v \<Rightarrow> (case span_hex cs of (vs, rest) \<Rightarrow> (v # vs, rest)))"

lemma span_hex_length: "span_hex s = (vs, rest) \<Longrightarrow> length s = length vs + length rest"
  by (induction s arbitrary: vs rest) (auto split: option.splits prod.splits)

text \<open>A dotted IPv4 field: one to three digits, no leading zero, at most 255.\<close>

definition ipv4_field :: "string \<Rightarrow> nat option" where
  "ipv4_field s =
     (if s = [] \<or> length s > 3 \<or> (length s > 1 \<and> hd s = CHR ''0'') then None
      else case parse_unsigned s of None \<Rightarrow> None | Some n \<Rightarrow> if n \<le> 255 then Some n else None)"

definition parse_ipv4 :: "string \<Rightarrow> nat list option" where
  "parse_ipv4 s =
     (let fs = map ipv4_field (Split (CHR ''.'') s)
      in if length fs = 4 \<and> list_all (\<lambda>f. f \<noteq> None) fs then Some (map the fs) else None)"

text \<open>The loop of \<open>parseIPv6\<close>: the 16-bit groups read so far, where the \<open>::\<close> was, and the rest of
  the input; the result carries what is left when the loop ends.\<close>

function ipv6_loop :: "nat list \<Rightarrow> nat option \<Rightarrow> string \<Rightarrow> (nat list \<times> nat option \<times> string) option" where
  "ipv6_loop gs ell s =
     (if length gs \<ge> 8 then Some (gs, ell, s)
      else case span_hex s of (vs, rest) \<Rightarrow>
        if vs = [] \<or> length vs > 4 then None
        else (case rest of
           [] \<Rightarrow> Some (gs @ [foldl (\<lambda>a d. 16 * a + d) 0 vs], ell, [])
         | c # cs \<Rightarrow>
             if c = CHR ''.'' then
               (if (ell = None \<and> length gs \<noteq> 6) \<or> length gs > 6 then None
                else case parse_ipv4 s of
                       Some [a, b, x, y] \<Rightarrow> Some (gs @ [256 * a + b, 256 * x + y], ell, [])
                     | _ \<Rightarrow> None)
             else if c \<noteq> CHR '':'' \<or> cs = [] then None
             else let gs' = gs @ [foldl (\<lambda>a d. 16 * a + d) 0 vs]
                  in if hd cs = CHR '':'' then
                       (if ell \<noteq> None then None
                        else if tl cs = [] then Some (gs', Some (length gs'), [])
                        else ipv6_loop gs' (Some (length gs')) (tl cs))
                     else ipv6_loop gs' ell cs))"
  by pat_completeness auto
termination
  by (relation "measure (\<lambda>(gs, ell, s). length s)") (auto dest!: sym [of "(_, _)"] dest: span_hex_length)

declare ipv6_loop.simps [simp del]

definition parse_ipv6 :: "string \<Rightarrow> nat list option" where
  "parse_ipv6 s =
     (let finish = (\<lambda>(gs, ell, rest).
            if rest \<noteq> [] then None
            else case ell of
                   None \<Rightarrow> if length gs = 8 then Some gs else None
                 | Some i \<Rightarrow> if length gs \<ge> 8 then None
                            else Some (take i gs @ replicate (8 - length gs) 0 @ drop i gs))
      in if HasPrefix s ''::''
         then (if drop 2 s = [] then Some (replicate 8 0)
               else Option.bind (ipv6_loop [] (Some 0) (drop 2 s)) finish)
         else Option.bind (ipv6_loop [] None s) finish)"

text \<open>The printed form: an IPv4-mapped address in dotted form, otherwise the leftmost longest run of
  at least two zero groups is written \<open>::\<close>.\<close>

fun zero_run :: "nat list \<Rightarrow> nat" where
  "zero_run (0 # gs) = Suc (zero_run gs)"
| "zero_run gs = 0"

definition best_run :: "nat list \<Rightarrow> (nat \<times> nat) option" where
  "best_run gs =
     foldl (\<lambda>best i. let l = zero_run (drop i gs) in
              if l \<ge> 2 \<and> (case best of None \<Rightarrow> True | Some (j, l') \<Rightarrow> l > l') then Some (i, l) else best)
       None [0 ..< length gs]"

definition join_groups :: "nat list \<Rightarrow> string" where
  "join_groups gs = Join (CHR '':'') (map hex_digits gs)"

definition print_ipv6 :: "nat list \<Rightarrow> string" where
  "print_ipv6 gs =
     (if take 6 gs = [0, 0, 0, 0, 0, 65535] then
        ''::ffff:'' @ Join (CHR ''.'') (map nat_digits
           [gs ! 6 div 256, gs ! 6 mod 256, gs ! 7 div 256, gs ! 7 mod 256])
      else case best_run gs of
             None \<Rightarrow> join_groups gs
           | Some (i, l) \<Rightarrow> join_groups (take i gs) @ ''::'' @ join_groups (drop (i + l) gs))"

text \<open>\<open>ParseAddr\<close> decides between the two families by the first of \<open>.\<close>, \<open>:\<close> and \<open>%\<close>; the printed
  form of an IPv4 address is its text.\<close>

definition canonical_host :: "string \<Rightarrow> string" where
  "canonical_host host =
     (case filter (\<lambda>c. c = CHR ''.'' \<or> c = CHR '':'' \<or> c = CHR ''%'') host of
        c # _ \<Rightarrow> if c = CHR '':'' then (case parse_ipv6 host of None \<Rightarrow> host | Some gs \<Rightarrow> print_ipv6 gs)
                else host
      | [] \<Rightarrow> host)"

section \<open>Authority and origin\<close>

definition parseHost :: "string \<Rightarrow> string option" where
  "parseHost host =
     (if List.member host (CHR ''['') then
        (case CutLast (CHR '']'') host of
           None \<Rightarrow> None
         | Some (front, colonPort) \<Rightarrow>
             if hd host = CHR ''['' \<and> \<not> List.member (tl host) (CHR ''['') \<and> validOptionalPort colonPort
                \<and> parse_ipv6 (tl front) \<noteq> None
             then Some host else None)
      else
        (case Cut (CHR '':'') host of
           None \<Rightarrow> if list_all host_char host then Some host else None
         | Some (h, p) \<Rightarrow>
             if validOptionalPort (CHR '':'' # p) \<and> list_all host_char host then Some host else None))"

definition parseAuthority :: "string \<Rightarrow> (bool \<times> string) option" where
  "parseAuthority a =
     (case CutLast (CHR ''@'') a of
        None \<Rightarrow> map_option (Pair False) (parseHost a)
      | Some (user, host) \<Rightarrow> map_option (Pair True) (parseHost host))"

text \<open>\<open>url.Parse\<close> on a string without \<open>?\<close>, \<open>#\<close> and \<open>%\<close>.\<close>

definition url_parse :: "string \<Rightarrow> URL option" where
  "url_parse s =
     (if list_ex is_control s then None
      else case getScheme [] s of
        None \<Rightarrow> None
      | Some (scheme, rest) \<Rightarrow>
          if \<not> HasPrefix rest ''/''
          then Some \<lparr>u_scheme = ToLower scheme, u_opaque = (if scheme \<noteq> [] then rest else []),
                     u_user = False, u_host = [], u_path = (if scheme \<noteq> [] then [] else rest)\<rparr>
          else if HasPrefix rest ''//'' \<and> (scheme \<noteq> [] \<or> \<not> HasPrefix rest ''///'')
          then (let after = drop 2 rest;
                    (auth, path) = (case Cut (CHR ''/'') after of
                        None \<Rightarrow> (after, []) | Some (a, p) \<Rightarrow> (a, CHR ''/'' # p))
                in case parseAuthority auth of
                     None \<Rightarrow> None
                   | Some (user, host) \<Rightarrow>
                       Some \<lparr>u_scheme = ToLower scheme, u_opaque = [], u_user = user,
                             u_host = host, u_path = path\<rparr>)
          else Some \<lparr>u_scheme = ToLower scheme, u_opaque = [], u_user = False, u_host = [],
                     u_path = rest\<rparr>)"

text \<open>\<open>u.Hostname()\<close> and \<open>u.Port()\<close>.\<close>

definition splitHostPort :: "string \<Rightarrow> string \<times> string" where
  "splitHostPort hp =
     (let (host, port) = (case CutLast (CHR '':'') hp of
            Some (h, p) \<Rightarrow> if list_all is_digit p then (h, p) else (hp, [])
          | None \<Rightarrow> (hp, []))
      in (if HasPrefix host ''['' \<and> HasSuffix host '']'' then butlast (tl host) else host, port))"

definition JoinHostPort :: "string \<Rightarrow> string \<Rightarrow> string" where
  "JoinHostPort host port =
     (if List.member host (CHR '':'') then ''['' @ host @ '']:'' @ port else host @ '':'' @ port)"

definition Normalize :: "string \<Rightarrow> string option" where
  "Normalize raw0 =
     (let raw1 = TrimSpace raw0 in
      if raw1 = [] then None
      else
        let bare = (\<not> Contains raw1 ''://'');
            raw = (if bare then ''http://'' @ raw1 else raw1)
        in if ContainsAny raw ([CHR ''?'', CHR ''#'', CHR 0x5C, CHR ''%'']) then None
           else case url_parse raw of
             None \<Rightarrow> None
           | Some u \<Rightarrow>
               let (hostname, port) = splitHostPort (u_host u) in
               if (u_scheme u \<noteq> ''http'' \<and> u_scheme u \<noteq> ''https'') \<or> hostname = [] \<or> u_opaque u \<noteq> []
                  \<or> u_user u \<or> (u_path u \<noteq> [] \<and> u_path u \<noteq> ''/'')
               then None
               else
                 let host = canonical_host (ToLower hostname) in
                 if HasSuffix (u_host u) '':'' then None
                 else
                   let port1 = (if port = [] \<and> bare then ''8080'' else port);
                       finish = (\<lambda>p. if p \<noteq> [] then Some (u_scheme u @ ''://'' @ JoinHostPort host p)
                                     else if List.member host (CHR '':'')
                                     then Some (u_scheme u @ ''://['' @ host @ '']'')
                                     else Some (u_scheme u @ ''://'' @ host))
                   in if port1 \<noteq> []
                      then (case Atoi port1 of
                              None \<Rightarrow> None
                            | Some n \<Rightarrow>
                                if n < 1 \<or> n > 65535 then None
                                else let p = Itoa n in
                                     finish (if (u_scheme u = ''https'' \<and> p = ''443'')
                                                \<or> (u_scheme u = ''http'' \<and> p = ''80'') then [] else p))
                      else finish [])"

section \<open>The HTTP client of node traffic\<close>

text \<open>The parts of \<open>http.Client\<close> and \<open>http.Transport\<close> that \<open>Client\<close> reads or sets. A round tripper that
  is not an \<open>*http.Transport\<close> is opaque; the default transport sets none of the hooks.\<close>

record TLSConfig =
  tls_insecure_skip_verify :: bool
  tls_server_name :: string

record HTTPTransportOptions =
  to_dial_tls :: bool
  to_dial_tls_context :: bool
  to_tls_config :: "TLSConfig option"

datatype RoundTripper = PlainTransport HTTPTransportOptions | OtherRoundTripper

datatype redirect_policy = FollowRedirects | UseLastResponse

record HTTPClient =
  hc_transport :: "RoundTripper option"
  hc_has_jar :: bool
  hc_redirects :: redirect_policy

definition default_transport :: RoundTripper where
  "default_transport = PlainTransport \<lparr>to_dial_tls = False, to_dial_tls_context = False, to_tls_config = None\<rparr>"

definition Client :: "HTTPClient option \<Rightarrow> HTTPClient option" where
  "Client hc =
     (let c = (case hc of None \<Rightarrow> \<lparr>hc_transport = None, hc_has_jar = False, hc_redirects = FollowRedirects\<rparr> | Some h \<Rightarrow> h);
          transport = (case hc_transport c of None \<Rightarrow> default_transport | Some t \<Rightarrow> t)
      in case transport of
           OtherRoundTripper \<Rightarrow> None
         | PlainTransport t \<Rightarrow>
             if to_dial_tls t \<or> to_dial_tls_context t
                \<or> (case to_tls_config t of None \<Rightarrow> False
                    | Some cfg \<Rightarrow> tls_insecure_skip_verify cfg \<or> tls_server_name cfg \<noteq> [])
             then None
             else Some (c\<lparr>hc_transport := Some (PlainTransport t), hc_has_jar := False, hc_redirects := UseLastResponse\<rparr>))"

end
