(* ===== verification/Gossip.thy ===== *)
theory Gossip
  imports Endpoint
begin

text \<open>
  The gossip protocol, \<open>src/internal/gossip\<close>: peers and their signed bindings (\<open>protocol.go\<close>,
  \<open>bindings.go\<close>), liveness, the deduplication cache, fan-out, peer exchange, and the bootstrap
  handshake (\<open>bootstrap.go\<close>).

  \<open>peersMutex\<close> and \<open>seenMutex\<close> make each access to the maps atomic; every operation below is one
  such critical section together with the sends it makes. The network is an argument: for each
  attempted send it tells whether \<open>transport.Send\<close> succeeds. Operations return the list of
  attempted sends. The Prometheus counters are not modelled.
\<close>

section \<open>Data\<close>

type_synonym NodeID = string

record Node =
  n_id :: NodeID
  n_address :: string
  n_port :: int
  n_http_port :: int
  n_http_origin :: string
  n_enclave :: string

definition Origin :: "Node \<Rightarrow> string option" where
  "Origin n =
     (if n_http_origin n \<noteq> [] then Normalize (n_http_origin n)
      else Normalize (JoinHostPort (n_address n) (Itoa (n_http_port n))))"

text \<open>The idiom \<open>origin, _ := n.Origin()\<close>: an error leaves the empty string.\<close>

definition OriginOrEmpty :: "Node \<Rightarrow> string" where
  "OriginOrEmpty n = (case Origin n of None \<Rightarrow> [] | Some origin \<Rightarrow> origin)"

type_synonym MessageType = string

definition MessageTypePut :: MessageType where "MessageTypePut = ''PUT''"
definition MessageTypeGet :: MessageType where "MessageTypeGet = ''GET''"
definition MessageTypePing :: MessageType where "MessageTypePing = ''PING''"
definition MessageTypePong :: MessageType where "MessageTypePong = ''PONG''"
definition MessageTypeSync :: MessageType where "MessageTypeSync = ''SYNC''"
definition MessageTypeSyncRequest :: MessageType where "MessageTypeSyncRequest = ''SYNC_REQUEST''"
definition MessageTypeAck :: MessageType where "MessageTypeAck = ''ACK''"

lemmas message_types =
  MessageTypePut_def MessageTypeGet_def MessageTypePing_def MessageTypePong_def
  MessageTypeSync_def MessageTypeSyncRequest_def MessageTypeAck_def

record Message =
  msg_type :: MessageType
  msg_from :: NodeID
  msg_to :: NodeID
  msg_key :: string
  msg_data :: bytes
  msg_ttl :: int
  msg_timestamp :: gotime
  msg_id :: string
  msg_node_info :: "Node option"

record PeerBinding =
  pb_origin :: string
  pb_enclave :: string

definition MaxPingFailures :: int where "MaxPingFailures = 3"
definition FanoutThreshold :: nat where "FanoutThreshold = 10"
definition seenMessageTTL :: duration where "seenMessageTTL = 60 * nsec"
definition maxSeenMessages :: nat where "maxSeenMessages = 100000"

text \<open>\<open>p_counter\<close> is the package variable \<open>messageCounter\<close>.\<close>

record Protocol =
  p_local :: Node
  p_peers :: "(NodeID, Node) gomap"
  p_failures :: "(NodeID, int) gomap"
  p_root_bindings :: "(NodeID, PeerBinding) gomap"
  p_replication :: int
  p_quorum :: int
  p_secret :: string
  p_transport_set :: bool
  p_seen :: "(string, gotime) gomap"
  p_counter :: "64 word"

datatype gossip_error =
  TransportNotSet | SendFailed | PongMismatch | PeerRejected NodeID | BadSeed | HandlerError

type_synonym network = "Node \<Rightarrow> Message \<Rightarrow> bool"
type_synonym sends = "(Node \<times> Message) list"

definition NewProtocol :: "Node \<Rightarrow> int \<Rightarrow> string \<Rightarrow> Protocol" where
  "NewProtocol local rf secret =
     \<lparr>p_local = local, p_peers = [], p_failures = [], p_root_bindings = [], p_replication = rf,
      p_quorum = go_quot rf 2 + 1, p_secret = secret, p_transport_set = False, p_seen = [],
      p_counter = 0\<rparr>"

definition SetTransport :: "Protocol \<Rightarrow> Protocol" where
  "SetTransport p = p\<lparr>p_transport_set := True\<rparr>"

section \<open>Peers\<close>

definition default_enclave :: "string \<Rightarrow> string" where
  "default_enclave e = (if e = [] then ''default'' else e)"

definition addPeer :: "Node option \<Rightarrow> Protocol \<Rightarrow> Protocol \<times> bool" where
  "addPeer node p =
     (case node of
        None \<Rightarrow> (p, False)
      | Some n \<Rightarrow>
          if n_id n = [] then (p, False)
          else if n_id n = n_id (p_local p) then (p, False)
          else
            let copy = n\<lparr>n_enclave := default_enclave (n_enclave n)\<rparr> in
            case Origin copy of
              None \<Rightarrow> (p, False)
            | Some origin \<Rightarrow>
                let binding = \<lparr>pb_origin = origin, pb_enclave = n_enclave copy\<rparr> in
                if (case gm_lookup (p_root_bindings p) (n_id n) of
                      None \<Rightarrow> False | Some root \<Rightarrow> root \<noteq> binding)
                then (p, False)
                else case gm_lookup (p_peers p) (n_id n) of
                       Some existing \<Rightarrow>
                         (p, OriginOrEmpty existing = origin \<and> n_enclave existing = n_enclave copy)
                     | None \<Rightarrow>
                         (p\<lparr>p_peers := gm_update (n_id n) copy (p_peers p),
                            p_failures := gm_delete (n_id n) (p_failures p)\<rparr>, True))"

definition removePeer :: "NodeID \<Rightarrow> Protocol \<Rightarrow> Protocol" where
  "removePeer i p =
     p\<lparr>p_peers := gm_delete i (p_peers p), p_failures := gm_delete i (p_failures p)\<rparr>"

definition getPeers :: "Protocol \<Rightarrow> Node list" where
  "getPeers p = map snd (p_peers p)"

definition GetReplicationPeers :: "Protocol \<Rightarrow> Node list" where
  "GetReplicationPeers p = filter (\<lambda>n. n_enclave n = n_enclave (p_local p)) (map snd (p_peers p))"

definition PeerFailureCount :: "NodeID \<Rightarrow> Protocol \<Rightarrow> int" where
  "PeerFailureCount i p = (case gm_lookup (p_failures p) i of None \<Rightarrow> 0 | Some n \<Rightarrow> n)"

text \<open>One iteration of \<open>SetRootBindings\<close>: pin the binding, and re-route an existing peer.\<close>

definition bind_root :: "NodeID \<times> PeerBinding \<Rightarrow> Protocol \<Rightarrow> Protocol" where
  "bind_root ib p =
     (case ib of (i, b) \<Rightarrow>
        let p1 = p\<lparr>p_root_bindings := gm_update i b (p_root_bindings p)\<rparr> in
        case gm_lookup (p_peers p1) i of
          None \<Rightarrow> p1
        | Some peer \<Rightarrow>
            let p2 = p1\<lparr>p_peers := gm_update i (peer\<lparr>n_http_origin := pb_origin b, n_enclave := pb_enclave b\<rparr>) (p_peers p1)\<rparr>
            in if OriginOrEmpty peer \<noteq> pb_origin b
               then p2\<lparr>p_failures := gm_delete i (p_failures p2)\<rparr> else p2)"

definition SetRootBindings :: "(NodeID, PeerBinding) gomap \<Rightarrow> Protocol \<Rightarrow> Protocol" where
  "SetRootBindings bs p = fold bind_root bs (p\<lparr>p_root_bindings := []\<rparr>)"

section \<open>Messages\<close>

definition generateMessageID :: "gotime \<Rightarrow> Protocol \<Rightarrow> Protocol \<times> string" where
  "generateMessageID now p =
     (let c = p_counter p + 1 in (p\<lparr>p_counter := c\<rparr>, Itoa now @ ''-'' @ Itoa (uint c)))"

definition blank_message :: Message where
  "blank_message = \<lparr>msg_type = [], msg_from = [], msg_to = [], msg_key = [], msg_data = [],
     msg_ttl = 0, msg_timestamp = 0, msg_id = [], msg_node_info = None\<rparr>"

definition sync_message :: "gotime \<Rightarrow> Node \<Rightarrow> Protocol \<Rightarrow> Protocol \<times> Message" where
  "sync_message now node p =
     (let (p', i) = generateMessageID now p in
      (p', blank_message\<lparr>msg_type := MessageTypeSync, msg_from := n_id (p_local p),
                         msg_timestamp := now, msg_id := i, msg_node_info := Some node\<rparr>))"

definition handlePing :: "network \<Rightarrow> gotime \<Rightarrow> Message \<Rightarrow> Protocol \<Rightarrow> Protocol \<times> sends \<times> gossip_error option" where
  "handlePing net now msg p =
     (let (p', i) = generateMessageID now p;
          pong = blank_message\<lparr>msg_type := MessageTypePong, msg_from := n_id (p_local p),
                   msg_to := msg_from msg, msg_timestamp := now, msg_id := i,
                   msg_node_info := Some (p_local p)\<rparr>
      in case gm_lookup (p_peers p') (msg_from msg) of
           None \<Rightarrow> (p', [], None)
         | Some peer \<Rightarrow> (p', [(peer, pong)], if net peer pong then None else Some SendFailed))"

definition handlePong :: "Message \<Rightarrow> Protocol \<Rightarrow> Protocol \<times> gossip_error option" where
  "handlePong msg p =
     (if (case msg_node_info msg of None \<Rightarrow> False | Some n \<Rightarrow> n_id n \<noteq> msg_from msg)
      then (p, Some PongMismatch)
      else (p\<lparr>p_failures := gm_delete (msg_from msg) (p_failures p)\<rparr>, None))"

text \<open>The loop of \<open>respondWithPeerList\<close>; a failed send is logged and the loop goes on.\<close>

fun send_syncs :: "gotime \<Rightarrow> NodeID \<Rightarrow> Node \<Rightarrow> Node list \<Rightarrow> Protocol \<Rightarrow> Protocol \<times> sends" where
  "send_syncs now targetID target [] p = (p, [])"
| "send_syncs now targetID target (n # ns) p =
     (if n_id n = targetID then send_syncs now targetID target ns p
      else let (p', msg) = sync_message now n p; (p'', outs) = send_syncs now targetID target ns p'
           in (p'', (target, msg) # outs))"

definition respondWithPeerList :: "gotime \<Rightarrow> NodeID \<Rightarrow> Protocol \<Rightarrow> Protocol \<times> sends" where
  "respondWithPeerList now targetID p =
     (case gm_lookup (p_peers p) targetID of
        None \<Rightarrow> (p, [])
      | Some target \<Rightarrow> send_syncs now targetID target (getPeers p @ [p_local p]) p)"

definition handleSync :: "gotime \<Rightarrow> Message \<Rightarrow> Protocol \<Rightarrow> Protocol \<times> sends \<times> gossip_error option" where
  "handleSync now msg p =
     (case msg_node_info msg of
        None \<Rightarrow> (p, [], None)
      | Some n \<Rightarrow>
          if n_id n = n_id (p_local p) then (p, [], None)
          else case addPeer (Some n) p of
                 (p', False) \<Rightarrow> (p', [], Some (PeerRejected (n_id n)))
               | (p', True) \<Rightarrow>
                   if msg_type msg = MessageTypeSyncRequest \<and> n_id n = msg_from msg
                   then (let (p'', outs) = respondWithPeerList now (msg_from msg) p' in (p'', outs, None))
                   else (p', [], None))"

text \<open>\<open>handleMessage\<close>: protocol messages are handled here, every other type goes to the
  application's \<open>messageHandler\<close> (\<open>None\<close> below).\<close>

definition handleMessage :: "network \<Rightarrow> gotime \<Rightarrow> Message \<Rightarrow> Protocol \<Rightarrow> (Protocol \<times> sends \<times> gossip_error option) option" where
  "handleMessage net now msg p =
     (if msg_type msg = MessageTypePing then Some (handlePing net now msg p)
      else if msg_type msg = MessageTypePong
      then Some (case handlePong msg p of (p', err) \<Rightarrow> (p', [], err))
      else if msg_type msg = MessageTypeSync \<or> msg_type msg = MessageTypeSyncRequest
      then Some (handleSync now msg p)
      else None)"

section \<open>Liveness\<close>

definition ping_message :: "gotime \<Rightarrow> Node \<Rightarrow> Protocol \<Rightarrow> Protocol \<times> Message" where
  "ping_message now peer p =
     (let (p', i) = generateMessageID now p in
      (p', blank_message\<lparr>msg_type := MessageTypePing, msg_from := n_id (p_local p),
                         msg_to := n_id peer, msg_timestamp := now, msg_id := i\<rparr>))"

fun ping_loop :: "network \<Rightarrow> gotime \<Rightarrow> Node list \<Rightarrow> NodeID list \<Rightarrow> Protocol \<Rightarrow> Protocol \<times> sends \<times> NodeID list" where
  "ping_loop net now [] ev p = (p, [], ev)"
| "ping_loop net now (peer # ns) ev p =
     (let (p1, ping) = ping_message now peer p;
          ok = net peer ping;
          failures = PeerFailureCount (n_id peer) p1 + 1;
          p2 = (if ok then p1 else p1\<lparr>p_failures := gm_update (n_id peer) failures (p_failures p1)\<rparr>);
          ev' = (if \<not> ok \<and> failures \<ge> MaxPingFailures then ev @ [n_id peer] else ev);
          (p3, outs, ev'') = ping_loop net now ns ev' p2
      in (p3, (peer, ping) # outs, ev''))"

definition pingPeers :: "network \<Rightarrow> gotime \<Rightarrow> Protocol \<Rightarrow> Protocol \<times> sends" where
  "pingPeers net now p =
     (let (p', outs, ev) = ping_loop net now (getPeers p) [] p in (fold removePeer ev p', outs))"

section \<open>Deduplication\<close>

definition cleanupSeenMessages :: "gotime \<Rightarrow> Protocol \<Rightarrow> Protocol" where
  "cleanupSeenMessages now p = p\<lparr>p_seen := filter (\<lambda>(i, expiry). \<not> expiry < now) (p_seen p)\<rparr>"

definition seen_midpoint :: "gotime \<Rightarrow> (string, gotime) gomap \<Rightarrow> gotime" where
  "seen_midpoint now seen =
     (let earliest = foldl (\<lambda>e (i, expiry). if expiry < e then expiry else e) (now + seenMessageTTL) seen
      in earliest + go_quot (now + seenMessageTTL - earliest) 2)"

definition evictSeenLocked :: "gotime \<Rightarrow> Protocol \<Rightarrow> Protocol" where
  "evictSeenLocked now p =
     (let seen = filter (\<lambda>(i, expiry). \<not> expiry < now) (p_seen p)
      in if length seen \<ge> maxSeenMessages
         then p\<lparr>p_seen := filter (\<lambda>(i, expiry). \<not> expiry < seen_midpoint now seen) seen\<rparr>
         else p\<lparr>p_seen := seen\<rparr>)"

definition MarkSeen :: "gotime \<Rightarrow> string \<Rightarrow> Protocol \<Rightarrow> Protocol \<times> bool" where
  "MarkSeen now i p =
     (if gm_lookup (p_seen p) i \<noteq> None then (p, True)
      else let p' = (if length (p_seen p) \<ge> maxSeenMessages then evictSeenLocked now p else p)
           in (p'\<lparr>p_seen := gm_update i (now + seenMessageTTL) (p_seen p')\<rparr>, False))"

section \<open>Fan-out\<close>

text \<open>\<open>Ceil(Sqrt(float64(n)))\<close>: the least integer whose square is at least \<open>n\<close>. The float64
  square root is correctly rounded, so its ceiling is this integer for every count below \<open>2^52\<close>.\<close>

function ceil_sqrt_from :: "nat \<Rightarrow> nat \<Rightarrow> nat" where
  "ceil_sqrt_from k n = (if n \<le> k * k then k else ceil_sqrt_from (Suc k) n)"
  by pat_completeness auto
termination
proof (relation "measure (\<lambda>(k, n). n - k)")
  fix k n :: nat
  assume "\<not> n \<le> k * k"
  moreover have "k \<le> k * k" by (cases k) simp_all
  ultimately have "k < n" by linarith
  then show "((Suc k, n), (k, n)) \<in> measure (\<lambda>(k, n). n - k)" by simp
qed simp

declare ceil_sqrt_from.simps [simp del]

definition fanoutSize :: "nat \<Rightarrow> nat" where
  "fanoutSize peerCount =
     (if peerCount = 0 then 0
      else let f = ceil_sqrt_from 0 peerCount in if f < 1 then 1 else f)"

text \<open>\<open>shuffle\<close> is the outcome of \<open>rand.Shuffle\<close>.\<close>

definition selectRandomPeers :: "(Node list \<Rightarrow> Node list) \<Rightarrow> Node list \<Rightarrow> nat \<Rightarrow> NodeID \<Rightarrow> Node list" where
  "selectRandomPeers shuffle peers n skipID =
     (let candidates = filter (\<lambda>q. n_id q \<noteq> skipID) peers
      in if length candidates \<le> n then candidates else take n (shuffle candidates))"

definition Broadcast :: "Message \<Rightarrow> Protocol \<Rightarrow> sends \<times> gossip_error option" where
  "Broadcast msg p =
     (if \<not> p_transport_set p then ([], Some TransportNotSet)
      else (map (\<lambda>peer. (peer, msg)) (getPeers p), None))"

definition BroadcastToEnclave :: "(Node list \<Rightarrow> Node list) \<Rightarrow> gotime \<Rightarrow> Message \<Rightarrow> Protocol \<Rightarrow> Protocol \<times> sends \<times> gossip_error option" where
  "BroadcastToEnclave shuffle now msg p =
     (if \<not> p_transport_set p then (p, [], Some TransportNotSet)
      else
        let p' = fst (MarkSeen now (msg_id msg) p); peers = GetReplicationPeers p'
        in if length peers \<le> FanoutThreshold
           then (p', map (\<lambda>peer. (peer, msg)) peers, None)
           else (p', map (\<lambda>peer. (peer, msg)) (selectRandomPeers shuffle peers (fanoutSize (length peers)) []), None))"

definition ForwardToEnclave :: "(Node list \<Rightarrow> Node list) \<Rightarrow> Message \<Rightarrow> Protocol \<Rightarrow> sends" where
  "ForwardToEnclave shuffle msg p =
     (let peers = GetReplicationPeers p
      in if length peers \<le> FanoutThreshold then []
         else map (\<lambda>peer. (peer, msg)) (selectRandomPeers shuffle peers (fanoutSize (length peers)) (msg_from msg)))"

definition performTopologySync :: "gotime \<Rightarrow> Protocol \<Rightarrow> Protocol \<times> sends" where
  "performTopologySync now p =
     (if int (length (p_peers p)) \<ge> p_replication p - 1 then (p, [])
      else let (p', i) = generateMessageID now p;
               msg = blank_message\<lparr>msg_type := MessageTypeSyncRequest, msg_from := n_id (p_local p),
                       msg_timestamp := now, msg_id := i, msg_node_info := Some (p_local p)\<rparr>
           in (p', fst (Broadcast msg p')))"

section \<open>Bootstrap\<close>

record BootstrapRequest =
  br_node_id :: string
  br_address :: string
  br_gossip_port :: int
  br_http_port :: int
  br_http_origin :: string
  br_enclave :: string

text \<open>The peer list is decoded from JSON, so an element can be null.\<close>

record BootstrapResponse =
  bs_success :: bool
  bs_peers :: "Node option list"

text \<open>The result of the HTTP exchange with a seed: no response, or a status and the decoded body.\<close>

datatype http_result = NoResponse | Response int "BootstrapResponse option"

type_synonym seed_check = "string \<Rightarrow> Node option list option \<Rightarrow> bool"

definition bootstrap_request :: "Node \<Rightarrow> BootstrapRequest" where
  "bootstrap_request n =
     \<lparr>br_node_id = n_id n, br_address = n_address n, br_gossip_port = n_port n,
      br_http_port = n_http_port n, br_http_origin = n_http_origin n, br_enclave = n_enclave n\<rparr>"

definition sendBootstrapRequest ::
  "(string \<Rightarrow> BootstrapRequest \<Rightarrow> http_result) \<Rightarrow> seed_check option \<Rightarrow> string \<Rightarrow> BootstrapRequest \<Rightarrow> Node option list option" where
  "sendBootstrapRequest http check seedAddr req =
     (case Normalize seedAddr of
        None \<Rightarrow> None
      | Some origin \<Rightarrow>
          if (case check of None \<Rightarrow> False | Some chk \<Rightarrow> \<not> chk origin None) then None
          else case http (origin @ ''/v1/bootstrap'') req of
                 NoResponse \<Rightarrow> None
               | Response status body \<Rightarrow>
                   if status \<noteq> 200 then None
                   else case body of
                          None \<Rightarrow> None
                        | Some resp \<Rightarrow>
                            if \<not> bs_success resp then None
                            else (case check of
                                    None \<Rightarrow> Some (bs_peers resp)
                                  | Some chk \<Rightarrow>
                                      if \<not> chk origin (Some (bs_peers resp)) then None
                                      else if bs_peers resp = [] then None
                                      else Some (bs_peers resp)))"

fun add_bootstrap_peers :: "Node option list \<Rightarrow> NodeID list \<Rightarrow> Protocol \<Rightarrow> Protocol \<times> NodeID list" where
  "add_bootstrap_peers [] seen p = (p, seen)"
| "add_bootstrap_peers (peer # ps) seen p =
     (case peer of
        None \<Rightarrow> add_bootstrap_peers ps seen p
      | Some n \<Rightarrow>
          if n_id n = n_id (p_local p) \<or> List.member seen (n_id n) then add_bootstrap_peers ps seen p
          else case addPeer (Some n) p of
                 (p', True) \<Rightarrow> add_bootstrap_peers ps (seen @ [n_id n]) p'
               | (p', False) \<Rightarrow> add_bootstrap_peers ps seen p')"

fun bootstrap_loop ::
  "(string \<Rightarrow> BootstrapRequest \<Rightarrow> http_result) \<Rightarrow> seed_check option \<Rightarrow> string list \<Rightarrow> NodeID list \<Rightarrow> nat \<Rightarrow> Protocol
     \<Rightarrow> Protocol \<times> nat \<times> gossip_error option" where
  "bootstrap_loop http check [] seen ok p = (p, ok, None)"
| "bootstrap_loop http check (s # ss) seen ok p =
     (case Normalize s of
        None \<Rightarrow> (p, ok, Some BadSeed)
      | Some seed \<Rightarrow>
          if seed = OriginOrEmpty (p_local p) then bootstrap_loop http check ss seen ok p
          else case sendBootstrapRequest http check seed (bootstrap_request (p_local p)) of
                 None \<Rightarrow> bootstrap_loop http check ss seen ok p
               | Some peers \<Rightarrow>
                   (let (p', seen') = add_bootstrap_peers peers seen p
                    in bootstrap_loop http check ss seen' (Suc ok) p'))"

definition Bootstrap ::
  "(string \<Rightarrow> BootstrapRequest \<Rightarrow> http_result) \<Rightarrow> seed_check option \<Rightarrow> string list \<Rightarrow> Protocol \<Rightarrow> Protocol \<times> gossip_error option" where
  "Bootstrap http check seeds p =
     (case bootstrap_loop http check seeds [] 0 p of (p', ok, err) \<Rightarrow> (p', err))"

text \<open>The SYNC notifications that \<open>HandleBootstrap\<close> starts in goroutines: one message per peer, each
  sent until it succeeds, at most three times, with delays of one and two seconds in between.\<close>

fun retry_from :: "(nat \<Rightarrow> bool) \<Rightarrow> nat \<Rightarrow> nat \<Rightarrow> nat list \<times> bool" where
  "retry_from send attempt 0 = ([], False)"
| "retry_from send attempt (Suc left) =
     (if send attempt then ([], True)
      else if left = 0 then ([], False)
      else let (ds, ok) = retry_from send (Suc attempt) left in (2 ^ attempt # ds, ok))"

definition sendSyncWithRetry :: "(nat \<Rightarrow> bool) \<Rightarrow> nat \<Rightarrow> nat list \<times> bool" where
  "sendSyncWithRetry send maxRetries = retry_from send 0 maxRetries"

fun notify_loop :: "gotime \<Rightarrow> Node \<Rightarrow> Node list \<Rightarrow> Protocol \<Rightarrow> Protocol \<times> sends" where
  "notify_loop now newNode [] p = (p, [])"
| "notify_loop now newNode (peer # ns) p =
     (if n_id peer = n_id newNode then notify_loop now newNode ns p
      else let (p', msg) = sync_message now newNode p; (p'', outs) = notify_loop now newNode ns p'
           in (p'', (peer, msg) # outs))"

definition notifyPeersAboutNewNode :: "gotime \<Rightarrow> Node \<Rightarrow> Protocol \<Rightarrow> Protocol \<times> sends" where
  "notifyPeersAboutNewNode now newNode p = notify_loop now newNode (getPeers p) p"

definition request_node :: "BootstrapRequest \<Rightarrow> Node" where
  "request_node req =
     \<lparr>n_id = br_node_id req, n_address = br_address req, n_port = br_gossip_port req,
      n_http_port = br_http_port req, n_http_origin = br_http_origin req,
      n_enclave = default_enclave (br_enclave req)\<rparr>"

definition HandleBootstrap :: "gotime \<Rightarrow> BootstrapRequest \<Rightarrow> Protocol \<Rightarrow> Protocol \<times> sends \<times> BootstrapResponse" where
  "HandleBootstrap now req p =
     (case addPeer (Some (request_node req)) p of
        (p', False) \<Rightarrow> (p', [], \<lparr>bs_success = False, bs_peers = []\<rparr>)
      | (p', True) \<Rightarrow>
          let (p'', outs) = notifyPeersAboutNewNode now (request_node req) p'
          in (p'', outs, \<lparr>bs_success = True, bs_peers = map Some (getPeers p' @ [p_local p'])\<rparr>))"

end
