(* ===== verification/Ws.thy ===== *)
theory Ws
  imports Gossip
begin

text \<open>
  Message transport: the wire form of gossip messages and its HTTP sender
  (\<open>src/internal/gossip/auth.go\<close>, \<open>http_transport.go\<close>), and the WebSocket attachment between a
  substrate and its transients (\<open>src/internal/transport/ws\<close>).

  \<open>hmac\<close> stands for \<open>HMAC-SHA256\<close> in hexadecimal and the functions named \<open>enc\<close> and \<open>dec\<close> for the
  JSON encoder and decoder of the struct in question. A connection is a state with one operation per
  method; the socket is represented by what is written to it and by the events that arrive. Handlers
  are represented by labels, and firing them by the list of labels in call order.
\<close>

section \<open>Wire form\<close>

record SimpleNodeInfo =
  si_id :: string
  si_address :: string
  si_port :: int
  si_http_port :: int
  si_http_origin :: string
  si_enclave :: string

record SimpleMessage =
  sm_type :: string
  sm_from :: string
  sm_to :: string
  sm_key :: string
  sm_data :: bytes
  sm_ttl :: int
  sm_timestamp :: int
  sm_id :: string
  sm_node_info :: "SimpleNodeInfo option"

definition node_to_wire :: "Node \<Rightarrow> SimpleNodeInfo" where
  "node_to_wire n =
     \<lparr>si_id = n_id n, si_address = n_address n, si_port = n_port n, si_http_port = n_http_port n,
      si_http_origin = n_http_origin n, si_enclave = n_enclave n\<rparr>"

text \<open>\<open>Timestamp.Unix()\<close> is the whole seconds, rounded down.\<close>

definition messageToWire :: "Message \<Rightarrow> SimpleMessage" where
  "messageToWire msg =
     \<lparr>sm_type = msg_type msg, sm_from = msg_from msg, sm_to = msg_to msg, sm_key = msg_key msg,
      sm_data = msg_data msg, sm_ttl = to_int32 (msg_ttl msg), sm_timestamp = msg_timestamp msg div nsec,
      sm_id = msg_id msg, sm_node_info = map_option node_to_wire (msg_node_info msg)\<rparr>"

definition wire_to_node :: "SimpleNodeInfo \<Rightarrow> Node" where
  "wire_to_node w =
     \<lparr>n_id = si_id w, n_address = si_address w, n_port = si_port w, n_http_port = si_http_port w,
      n_http_origin = si_http_origin w, n_enclave = (if si_enclave w = [] then ''default'' else si_enclave w)\<rparr>"

definition wireToMessage :: "SimpleMessage \<Rightarrow> Message" where
  "wireToMessage w =
     \<lparr>msg_type = sm_type w, msg_from = sm_from w, msg_to = sm_to w, msg_key = sm_key w,
      msg_data = sm_data w, msg_ttl = sm_ttl w, msg_timestamp = sm_timestamp w * nsec, msg_id = sm_id w,
      msg_node_info = map_option wire_to_node (sm_node_info w)\<rparr>"

section \<open>Signatures and the HTTP sender\<close>

type_synonym hmac_fun = "string \<Rightarrow> bytes \<Rightarrow> string"

definition SignBody :: "hmac_fun \<Rightarrow> string \<Rightarrow> bytes \<Rightarrow> string" where
  "SignBody hmac secret body = hmac secret body"

definition VerifyBody :: "hmac_fun \<Rightarrow> string \<Rightarrow> bytes \<Rightarrow> string \<Rightarrow> bool" where
  "VerifyBody hmac secret body signature = (SignBody hmac secret body = signature)"

record http_request =
  hr_url :: string
  hr_body :: bytes
  hr_signature :: "string option"

datatype send_error = NoOrigin | MarshalFailed | BadClient | TransportError | RejectedStatus int

text \<open>\<open>reply\<close> is the status of the answer, \<open>None\<close> when there is no answer.\<close>

definition Send ::
  "hmac_fun \<Rightarrow> (SimpleMessage \<Rightarrow> bytes option) \<Rightarrow> string \<Rightarrow> HTTPClient \<Rightarrow> (http_request \<Rightarrow> int option) \<Rightarrow> Node \<Rightarrow> Message
     \<Rightarrow> http_request list \<times> send_error option" where
  "Send hmac enc secret client reply node msg =
     (case Origin node of
        None \<Rightarrow> ([], Some NoOrigin)
      | Some origin \<Rightarrow>
          (case enc (messageToWire msg) of
             None \<Rightarrow> ([], Some MarshalFailed)
           | Some body \<Rightarrow>
               let req = \<lparr>hr_url = origin @ ''/v1/gossip/message'', hr_body = body,
                          hr_signature = (if secret \<noteq> [] then Some (SignBody hmac secret body) else None)\<rparr>
               in case Client (Some client) of
                    None \<Rightarrow> ([], Some BadClient)
                  | Some c \<Rightarrow>
                      (case reply req of
                         None \<Rightarrow> ([req], Some TransportError)
                       | Some status \<Rightarrow> ([req], if status \<noteq> 200 then Some (RejectedStatus status) else None))))"

section \<open>Attachment messages\<close>

type_synonym AttachmentType = string

definition AttachmentTypePut :: AttachmentType where "AttachmentTypePut = ''put''"
definition AttachmentTypeAck :: AttachmentType where "AttachmentTypeAck = ''ack''"
definition AttachmentTypePing :: AttachmentType where "AttachmentTypePing = ''ping''"
definition AttachmentTypePong :: AttachmentType where "AttachmentTypePong = ''pong''"
definition AttachmentTypeTopologySync :: AttachmentType where "AttachmentTypeTopologySync = ''topology_sync''"
definition AttachmentTypeHello :: AttachmentType where "AttachmentTypeHello = ''hello''"
definition AttachmentTypeWelcome :: AttachmentType where "AttachmentTypeWelcome = ''welcome''"
definition AttachmentTypeGoodbye :: AttachmentType where "AttachmentTypeGoodbye = ''goodbye''"

lemmas attachment_types =
  AttachmentTypePut_def AttachmentTypeAck_def AttachmentTypePing_def AttachmentTypePong_def
  AttachmentTypeTopologySync_def AttachmentTypeHello_def AttachmentTypeWelcome_def AttachmentTypeGoodbye_def

record AttachmentMessage =
  at_type :: AttachmentType
  at_signature :: string
  at_payload :: bytes

record HelloPayload =
  he_node_id :: string
  he_enclave :: string
  he_address :: string
  he_http_port :: int
  he_http_origin :: string
  he_inbound :: string

record WirePosition =
  wp_depth :: int
  wp_parent_id :: string

record WelcomePayload =
  we_topology :: "SimpleMessage list"
  we_position :: WirePosition

record AlternativeParent =
  ap_id :: string
  ap_address :: string
  ap_http_port :: int
  ap_http_origin :: string
  ap_enclave :: string

record GoodbyePayload =
  gb_reason :: string
  gb_alternatives :: "AlternativeParent list"

definition gossipTypeFor :: "MessageType \<Rightarrow> AttachmentType" where
  "gossipTypeFor t =
     (if t = MessageTypePut then AttachmentTypePut
      else if t = MessageTypeAck then AttachmentTypeAck
      else if t = MessageTypePing then AttachmentTypePing
      else if t = MessageTypePong then AttachmentTypePong
      else if t = MessageTypeSync \<or> t = MessageTypeSyncRequest then AttachmentTypeTopologySync
      else AttachmentTypePut)"

definition isGossipType :: "AttachmentType \<Rightarrow> bool" where
  "isGossipType t =
     (t = AttachmentTypePut \<or> t = AttachmentTypeAck \<or> t = AttachmentTypePing \<or> t = AttachmentTypePong
      \<or> t = AttachmentTypeTopologySync)"

section \<open>Connections\<close>

definition HeartbeatInterval :: duration where "HeartbeatInterval = 30 * nsec"
definition MaxMissedPongs :: int where "MaxMissedPongs = 3"

text \<open>\<open>co_hb_closes\<close> counts the closings of \<open>heartbeatStop\<close>, \<open>co_fired\<close> how often the close handlers
  were run, \<open>co_reading\<close> whether the read loop is still running, and \<open>co_sent\<close> the frames written.\<close>

record Connection =
  co_secret :: string
  co_once :: bool
  co_closed :: bool
  co_missed :: int
  co_hb_started :: bool
  co_hb_closes :: nat
  co_attachment_handlers :: "(nat \<times> string) list"
  co_close_handlers :: "(nat \<times> string) list"
  co_seq :: nat
  co_remote_id :: string
  co_remote_enclave :: string
  co_reading :: bool
  co_fired :: nat
  co_sent :: "bytes list"

definition NewConnection :: "string \<Rightarrow> Connection" where
  "NewConnection secret =
     \<lparr>co_secret = secret, co_once = False, co_closed = False, co_missed = 0, co_hb_started = False,
      co_hb_closes = 0, co_attachment_handlers = [], co_close_handlers = [], co_seq = 0,
      co_remote_id = [], co_remote_enclave = [], co_reading = True, co_fired = 0, co_sent = []\<rparr>"

definition AddAttachmentHandler :: "string \<Rightarrow> Connection \<Rightarrow> Connection \<times> nat" where
  "AddAttachmentHandler fn c =
     (let i = Suc (co_seq c) in
      (c\<lparr>co_seq := i, co_attachment_handlers := co_attachment_handlers c @ [(i, fn)]\<rparr>, i))"

text \<open>The returned function removes the first entry with its id.\<close>

fun remove_first :: "nat \<Rightarrow> (nat \<times> 'a) list \<Rightarrow> (nat \<times> 'a) list" where
  "remove_first i [] = []"
| "remove_first i (h # hs) = (if fst h = i then hs else h # remove_first i hs)"

definition remove_attachment_handler :: "nat \<Rightarrow> Connection \<Rightarrow> Connection" where
  "remove_attachment_handler i c = c\<lparr>co_attachment_handlers := remove_first i (co_attachment_handlers c)\<rparr>"

definition AddCloseHandler :: "string \<Rightarrow> Connection \<Rightarrow> Connection \<times> nat" where
  "AddCloseHandler fn c =
     (let i = Suc (co_seq c) in
      (c\<lparr>co_seq := i, co_close_handlers := co_close_handlers c @ [(i, fn)]\<rparr>, i))"

definition remove_close_handler :: "nat \<Rightarrow> Connection \<Rightarrow> Connection" where
  "remove_close_handler i c = c\<lparr>co_close_handlers := remove_first i (co_close_handlers c)\<rparr>"

definition SetRemote :: "string \<Rightarrow> string \<Rightarrow> Connection \<Rightarrow> Connection" where
  "SetRemote nodeID enclave c = c\<lparr>co_remote_id := nodeID, co_remote_enclave := enclave\<rparr>"

definition writeFrame :: "bytes \<Rightarrow> Connection \<Rightarrow> Connection" where
  "writeFrame frame c = (if co_closed c then c else c\<lparr>co_sent := co_sent c @ [frame]\<rparr>)"

definition SendAttachment ::
  "hmac_fun \<Rightarrow> (AttachmentMessage \<Rightarrow> bytes) \<Rightarrow> AttachmentType \<Rightarrow> bytes \<Rightarrow> Connection \<Rightarrow> Connection" where
  "SendAttachment hmac enc t payload c =
     (if co_closed c then c
      else let env = \<lparr>at_type = t, at_signature = (if co_secret c \<noteq> [] then SignBody hmac (co_secret c) payload else []),
                      at_payload = payload\<rparr>
           in writeFrame (enc env) c)"

definition SendGossip ::
  "hmac_fun \<Rightarrow> (AttachmentMessage \<Rightarrow> bytes) \<Rightarrow> (SimpleMessage \<Rightarrow> bytes) \<Rightarrow> Message \<Rightarrow> Connection \<Rightarrow> Connection" where
  "SendGossip hmac enc encm msg c =
     (if co_closed c then c else SendAttachment hmac enc (gossipTypeFor (msg_type msg)) (encm (messageToWire msg)) c)"

definition StartHeartbeat :: "Connection \<Rightarrow> Connection" where
  "StartHeartbeat c = (if co_hb_started c then c else c\<lparr>co_hb_started := True, co_missed := 0\<rparr>)"

definition closeHeartbeat :: "Connection \<Rightarrow> Connection" where
  "closeHeartbeat c = (if co_hb_closes c > 0 then c else c\<lparr>co_hb_closes := Suc (co_hb_closes c)\<rparr>)"

definition StopHeartbeat :: "Connection \<Rightarrow> Connection" where
  "StopHeartbeat c = (if co_hb_started c then closeHeartbeat c else c)"

definition closeWith :: "Connection \<Rightarrow> Connection" where
  "closeWith c = (if co_once c then c else closeHeartbeat (c\<lparr>co_once := True, co_closed := True\<rparr>))"

text \<open>One tick of the heartbeat loop, which runs while it was started and not stopped; the second
  component tells whether a ping is written.\<close>

definition heartbeat_tick :: "Connection \<Rightarrow> Connection \<times> bool" where
  "heartbeat_tick c =
     (if \<not> co_hb_started c \<or> co_hb_closes c > 0 \<or> co_closed c then (c, False)
      else let c' = c\<lparr>co_missed := co_missed c + 1\<rparr>
           in if co_missed c' > MaxMissedPongs then (closeWith c', False) else (c', True))"

definition pong_received :: "Connection \<Rightarrow> Connection" where
  "pong_received c = c\<lparr>co_missed := 0\<rparr>"

text \<open>The end of the read loop: \<open>ReadMessage\<close> failed. It returns the close handlers that run.\<close>

definition read_error :: "Connection \<Rightarrow> Connection \<times> string list" where
  "read_error c =
     (if \<not> co_reading c then (c, [])
      else let c' = closeHeartbeat (c\<lparr>co_closed := True, co_reading := False, co_fired := Suc (co_fired c)\<rparr>)
           in (c', map snd (co_close_handlers c')))"

text \<open>What an incoming frame causes: the attachment handlers in order, then the gossip handler or the
  error handler.\<close>

datatype frame_event = FireAttachment string AttachmentMessage | FireMessage Message | FireError

definition handleFrame ::
  "hmac_fun \<Rightarrow> (bytes \<Rightarrow> AttachmentMessage option) \<Rightarrow> (bytes \<Rightarrow> SimpleMessage option) \<Rightarrow> bytes \<Rightarrow> Connection
     \<Rightarrow> frame_event list" where
  "handleFrame hmac dec decm data c =
     (case dec data of
        None \<Rightarrow> []
      | Some env \<Rightarrow>
          if at_type env = [] \<or> at_payload env = [] then []
          else if co_secret c \<noteq> [] \<and>
                  (at_signature env = [] \<or> \<not> VerifyBody hmac (co_secret c) (at_payload env) (at_signature env))
          then []
          else map (\<lambda>(i, fn). FireAttachment fn env) (co_attachment_handlers c) @
               (if isGossipType (at_type env)
                then (case decm (at_payload env) of
                        None \<Rightarrow> [FireError]
                      | Some wire \<Rightarrow> [FireMessage (wireToMessage wire)])
                else []))"

end
