(* ===== verification/Tree.thy ===== *)
theory Tree
  imports Ws
begin

text \<open>
  The substrate tree, \<open>src/internal/tree/manager.go\<close>: attachment of transients to a substrate, capacity,
  redirects, routing of acknowledgements, fan-out to children, the goodbye protocol and the three-layer
  reattach loop.

  The manager's maps are guarded by one mutex, so each critical section is a function of the state. The
  connections it holds are addresses in \<open>tm_conns\<close>. Calls to \<open>SendAttachment\<close> and \<open>SendGossip\<close> are
  returned as effects. What the outside world decides (dial results, handshake outcomes, clocks, whether
  a connection is still up) is an argument. A timer is an entry of \<open>tm_timers\<close> from \<open>AfterFunc\<close> until its
  function has run or it was stopped in time.
\<close>

section \<open>Data\<close>

definition DefaultMaxChildren :: int where "DefaultMaxChildren = 100"
definition ReattachBackoffInitial :: duration where "ReattachBackoffInitial = 5 * nsec"
definition ReattachBackoffMax :: duration where "ReattachBackoffMax = 60 * nsec"

datatype Role = RoleSubstrate | RoleTransient

type_synonym conn_id = nat
type_synonym timer_id = nat

record Manager =
  tm_local :: Node
  tm_inbound :: string
  tm_max_children :: int
  tm_role :: Role
  tm_inbound_capable :: bool
  tm_parent :: "conn_id option"
  tm_children :: "(string, conn_id) gomap"
  tm_alts :: "AlternativeParent list"
  tm_in_flight :: bool
  tm_routes :: "(string, conn_id) gomap"
  tm_route_timers :: "(string, timer_id) gomap"
  tm_timers :: "(timer_id, string) gomap"
  tm_next_timer :: timer_id
  tm_stopping :: bool
  tm_conns :: "(conn_id, Connection) gomap"

datatype payload =
  PHello HelloPayload | PWelcome WelcomePayload | PGoodbye GoodbyePayload | PGossip Message

datatype tree_effect = SendPayload conn_id AttachmentType payload | CloseAfterDelay conn_id | CloseConn conn_id

definition NewManager :: "Node \<Rightarrow> string \<Rightarrow> int \<Rightarrow> Manager" where
  "NewManager local inbound maxChildren =
     \<lparr>tm_local = local, tm_inbound = inbound, tm_max_children = maxChildren,
      tm_role = (if inbound = ''true'' then RoleSubstrate else RoleTransient),
      tm_inbound_capable = (inbound = ''true''), tm_parent = None, tm_children = [], tm_alts = [],
      tm_in_flight = False, tm_routes = [], tm_route_timers = [], tm_timers = [], tm_next_timer = 0,
      tm_stopping = False, tm_conns = []\<rparr>"

definition with_conn :: "conn_id \<Rightarrow> (Connection \<Rightarrow> Connection) \<Rightarrow> Manager \<Rightarrow> Manager" where
  "with_conn i f m =
     (case gm_lookup (tm_conns m) i of
        None \<Rightarrow> m | Some c \<Rightarrow> m\<lparr>tm_conns := gm_update i (f c) (tm_conns m)\<rparr>)"

definition conn_closed :: "conn_id \<Rightarrow> Manager \<Rightarrow> bool" where
  "conn_closed i m = (case gm_lookup (tm_conns m) i of None \<Rightarrow> True | Some c \<Rightarrow> co_closed c)"

definition conn_enclave :: "conn_id \<Rightarrow> Manager \<Rightarrow> string" where
  "conn_enclave i m = (case gm_lookup (tm_conns m) i of None \<Rightarrow> [] | Some c \<Rightarrow> co_remote_enclave c)"

section \<open>Topology\<close>

definition node_alternative :: "Node \<Rightarrow> AlternativeParent" where
  "node_alternative p =
     \<lparr>ap_id = n_id p, ap_address = n_address p, ap_http_port = n_http_port p,
      ap_http_origin = n_http_origin p, ap_enclave = n_enclave p\<rparr>"

definition getAlternativeSubstrates :: "Node list \<Rightarrow> string \<Rightarrow> Manager \<Rightarrow> AlternativeParent list" where
  "getAlternativeSubstrates peers enclave0 m =
     (let enclave = (if enclave0 = [] then n_enclave (tm_local m) else enclave0);
          sameEnclave = filter (\<lambda>p. n_enclave p = enclave) peers;
          other = filter (\<lambda>p. n_enclave p \<noteq> enclave) peers;
          candidates = sameEnclave @ other;
          chosen = (if length candidates > 5 then take 5 candidates else candidates)
      in map node_alternative chosen)"

definition buildWelcomeTopology :: "gotime \<Rightarrow> Node list \<Rightarrow> Node \<Rightarrow> SimpleMessage list" where
  "buildWelcomeTopology now peers local =
     map (\<lambda>n. \<lparr>sm_type = MessageTypeSync, sm_from = n_id local, sm_to = [], sm_key = [], sm_data = [],
               sm_ttl = 0, sm_timestamp = now div nsec, sm_id = [], sm_node_info = Some (node_to_wire n)\<rparr>)
       (peers @ [local])"

definition buildAltsFromTopology :: "SimpleMessage list \<Rightarrow> string \<Rightarrow> AlternativeParent list" where
  "buildAltsFromTopology topology selfID =
     List.map_filter (\<lambda>sync. case sm_node_info sync of
         None \<Rightarrow> None
       | Some i \<Rightarrow> if si_id i = selfID then None
                  else Some \<lparr>ap_id = si_id i, ap_address = si_address i, ap_http_port = si_http_port i,
                             ap_http_origin = si_http_origin i, ap_enclave = si_enclave i\<rparr>) topology"

definition parseSeedAddress :: "string \<Rightarrow> AlternativeParent option" where
  "parseSeedAddress seed =
     (case CutLast (CHR '':'') seed of
        None \<Rightarrow> None
      | Some (address, rest) \<Rightarrow>
          if address = [] \<or> rest = [] then None
          else case Atoi rest of
                 None \<Rightarrow> None
               | Some port \<Rightarrow>
                   if port \<le> 0 \<or> port > 65535 then None
                   else Some \<lparr>ap_id = ''seed-'' @ seed, ap_address = address, ap_http_port = port,
                              ap_http_origin = [], ap_enclave = []\<rparr>)"

section \<open>The substrate side\<close>

definition sendRedirect :: "Node list \<Rightarrow> conn_id \<Rightarrow> string \<Rightarrow> string \<Rightarrow> Manager \<Rightarrow> tree_effect list" where
  "sendRedirect peers conn enclave reason m =
     [SendPayload conn AttachmentTypeGoodbye
        (PGoodbye \<lparr>gb_reason = reason, gb_alternatives = getAlternativeSubstrates peers enclave m\<rparr>),
      CloseAfterDelay conn]"

definition HandleHello ::
  "gotime \<Rightarrow> Node list \<Rightarrow> conn_id \<Rightarrow> HelloPayload \<Rightarrow> Manager \<Rightarrow> Manager \<times> tree_effect list \<times> bool" where
  "HandleHello now peers conn hello0 m =
     (let hello = hello0\<lparr>he_enclave := (if he_enclave hello0 = [] then ''default'' else he_enclave hello0)\<rparr> in
      if tm_max_children m = 0
      then (m, sendRedirect peers conn (he_enclave hello) ''at capacity'' m, False)
      else if tm_max_children m > 0 \<and> int (length (tm_children m)) \<ge> tm_max_children m
      then (m, sendRedirect peers conn (he_enclave hello) ''at capacity'' m, False)
      else
        let m1 = m\<lparr>tm_children := gm_update (he_node_id hello) conn (tm_children m)\<rparr>;
            m2 = with_conn conn (SetRemote (he_node_id hello) (he_enclave hello)) m1;
            welcome = \<lparr>we_topology = buildWelcomeTopology now peers (tm_local m2),
                       we_position = \<lparr>wp_depth = 1, wp_parent_id = n_id (tm_local m2)\<rparr>\<rparr>;
            m3 = with_conn conn (\<lambda>c. fst (AddCloseHandler (''child:'' @ he_node_id hello) c)) m2
        in (m3, [SendPayload conn AttachmentTypeWelcome (PWelcome welcome)], True))"

text \<open>The close handler that \<open>HandleHello\<close> registers.\<close>

definition child_closed :: "string \<Rightarrow> conn_id \<Rightarrow> Manager \<Rightarrow> Manager" where
  "child_closed nodeID conn m =
     (if gm_lookup (tm_children m) nodeID = Some conn
      then m\<lparr>tm_children := gm_delete nodeID (tm_children m)\<rparr> else m)"

text \<open>\<open>stopped\<close> is the result of stopping the previous timer: false when its function has already been
  started. The new timer is armed for \<open>ttl\<close>.\<close>

definition RecordAckRoute :: "bool \<Rightarrow> string \<Rightarrow> conn_id \<Rightarrow> Manager \<Rightarrow> Manager" where
  "RecordAckRoute stopped messageID conn m =
     (let timers = (case gm_lookup (tm_route_timers m) messageID of
                      None \<Rightarrow> tm_timers m
                    | Some t \<Rightarrow> if stopped then gm_delete t (tm_timers m) else tm_timers m);
          t' = tm_next_timer m
      in m\<lparr>tm_routes := gm_update messageID conn (tm_routes m),
           tm_route_timers := gm_update messageID t' (tm_route_timers m),
           tm_timers := gm_update t' messageID timers, tm_next_timer := Suc t'\<rparr>)"

definition ack_timer_fires :: "timer_id \<Rightarrow> Manager \<Rightarrow> Manager" where
  "ack_timer_fires t m =
     (case gm_lookup (tm_timers m) t of
        None \<Rightarrow> m
      | Some messageID \<Rightarrow>
          m\<lparr>tm_routes := gm_delete messageID (tm_routes m),
            tm_route_timers := gm_delete messageID (tm_route_timers m), tm_timers := gm_delete t (tm_timers m)\<rparr>)"

definition LookupAckRoute :: "string \<Rightarrow> Manager \<Rightarrow> conn_id option" where
  "LookupAckRoute messageID m = gm_lookup (tm_routes m) messageID"

text \<open>\<open>ok\<close>: whether writing to the connection succeeds.\<close>

definition RouteAck :: "(conn_id \<Rightarrow> bool) \<Rightarrow> Message \<Rightarrow> Manager \<Rightarrow> tree_effect list \<times> bool" where
  "RouteAck ok ack m =
     (case LookupAckRoute (msg_id ack) m of
        None \<Rightarrow> ([], False)
      | Some conn \<Rightarrow>
          if conn_closed conn m then ([], False)
          else ([SendPayload conn (gossipTypeFor (msg_type ack)) (PGossip ack)], ok conn))"

definition ClearAckRoute :: "bool \<Rightarrow> string \<Rightarrow> Manager \<Rightarrow> Manager" where
  "ClearAckRoute stopped messageID m =
     (let m1 = (case gm_lookup (tm_route_timers m) messageID of
                  None \<Rightarrow> m
                | Some t \<Rightarrow> m\<lparr>tm_route_timers := gm_delete messageID (tm_route_timers m),
                             tm_timers := (if stopped then gm_delete t (tm_timers m) else tm_timers m)\<rparr>)
      in m1\<lparr>tm_routes := gm_delete messageID (tm_routes m1)\<rparr>)"

definition BroadcastToChildren :: "Message \<Rightarrow> Manager \<Rightarrow> tree_effect list" where
  "BroadcastToChildren msg m =
     List.map_filter (\<lambda>(i, c). if conn_enclave c m \<noteq> n_enclave (tm_local m) then None
         else Some (SendPayload c (gossipTypeFor (msg_type msg)) (PGossip msg))) (tm_children m)"

definition SendGoodbyeToChildren :: "Node list \<Rightarrow> string \<Rightarrow> Manager \<Rightarrow> tree_effect list" where
  "SendGoodbyeToChildren peers reason0 m =
     (let reason = (if reason0 = [] then ''shutdown'' else reason0);
          goodbye = \<lparr>gb_reason = reason, gb_alternatives = getAlternativeSubstrates peers [] m\<rparr>
      in map (\<lambda>(i, c). SendPayload c AttachmentTypeGoodbye (PGoodbye goodbye)) (tm_children m))"

section \<open>The transient side\<close>

datatype attach_outcome = AoSendError | AoWelcome WelcomePayload | AoRejected | AoTimeout | AoContext

definition hello_payload :: "Manager \<Rightarrow> HelloPayload" where
  "hello_payload m =
     \<lparr>he_node_id = n_id (tm_local m), he_enclave = n_enclave (tm_local m), he_address = n_address (tm_local m),
      he_http_port = n_http_port (tm_local m), he_http_origin = n_http_origin (tm_local m),
      he_inbound = tm_inbound m\<rparr>"

text \<open>\<open>attach\<close>: the temporary handlers are registered before the hello is sent and removed on every way
  out; on success the connection becomes the parent and gets the long-lived handlers.\<close>

definition attach :: "attach_outcome \<Rightarrow> conn_id \<Rightarrow> Manager \<Rightarrow> Manager \<times> tree_effect list \<times> WelcomePayload option" where
  "attach outcome conn m =
     (let waits = (\<lambda>c. let (c1, a) = AddAttachmentHandler ''attach-wait'' c;
                           (c2, b) = AddCloseHandler ''attach-wait'' c1 in (c2, a, b));
          unwait = (\<lambda>c. case waits c of (c2, a, b) \<Rightarrow> remove_close_handler b (remove_attachment_handler a c2));
          m1 = with_conn conn unwait m;
          effs = [SendPayload conn AttachmentTypeHello (PHello (hello_payload m))]
      in case outcome of
           AoWelcome w \<Rightarrow>
             (let m2 = m1\<lparr>tm_parent := Some conn, tm_role := RoleTransient,
                          tm_alts := buildAltsFromTopology (we_topology w) (n_id (tm_local m))\<rparr>;
                  m3 = with_conn conn (\<lambda>c. fst (AddCloseHandler ''parent-close''
                         (fst (AddAttachmentHandler ''parent-goodbye''
                            (SetRemote (wp_parent_id (we_position w)) (n_enclave (tm_local m)) c))))) m2
              in (m3, effs, Some w))
         | _ \<Rightarrow> (m1, effs, None))"

text \<open>\<open>triggerReattach\<close>: the result tells whether a reattach loop is started.\<close>

definition triggerReattach :: "Manager \<Rightarrow> Manager \<times> bool" where
  "triggerReattach m =
     (if tm_stopping m then (m, False)
      else if tm_in_flight m then (m, False)
      else (m\<lparr>tm_in_flight := True\<rparr>, True))"

definition parent_goodbye :: "conn_id \<Rightarrow> Manager \<Rightarrow> Manager \<times> bool" where
  "parent_goodbye conn m =
     (if tm_parent m \<noteq> Some conn then (m, False) else triggerReattach (m\<lparr>tm_parent := None\<rparr>))"

definition parent_closed :: "conn_id \<Rightarrow> Manager \<Rightarrow> Manager \<times> bool" where
  "parent_closed conn m =
     (if tm_parent m \<noteq> Some conn then (m, False) else triggerReattach (m\<lparr>tm_parent := None\<rparr>))"

text \<open>What the world answers to one reattach attempt: whether the manager is being stopped, whether the
  layer deadline has passed, the dialled connection if any, the handshake, and whether the connection is
  still up afterwards.\<close>

record attempt =
  at_stopping :: bool
  at_late :: bool
  at_dial :: "conn_id option"
  at_outcome :: attach_outcome
  at_alive :: bool

fun tryAlternatives ::
  "(AlternativeParent \<Rightarrow> attempt) \<Rightarrow> AlternativeParent list \<Rightarrow> Manager
     \<Rightarrow> Manager \<times> AlternativeParent list \<times> bool" where
  "tryAlternatives env [] m = (m, [], False)"
| "tryAlternatives env (alt # alts) m =
     (if tm_stopping m \<or> at_stopping (env alt) then (m, [], False)
      else if at_late (env alt) then (m, [], False)
      else if ap_address alt = n_address (tm_local m) \<and> ap_http_port alt = n_http_port (tm_local m)
      then tryAlternatives env alts m
      else case at_dial (env alt) of
             None \<Rightarrow> (let (m', ds, ok) = tryAlternatives env alts m in (m', alt # ds, ok))
           | Some conn \<Rightarrow>
               (case attach (at_outcome (env alt)) conn m of
                  (m1, effs, None) \<Rightarrow>
                    (let (m', ds, ok) = tryAlternatives env alts (with_conn conn closeWith m1) in (m', alt # ds, ok))
                | (m1, effs, Some w) \<Rightarrow>
                    if \<not> at_alive (env alt)
                    then (let (m', ds, ok) = tryAlternatives env alts (fst (parent_closed conn m1)) in (m', alt # ds, ok))
                    else (with_conn conn StartHeartbeat m1, [alt], True)))"

record cycle =
  cy_supplied :: "AlternativeParent \<Rightarrow> attempt"
  cy_cached :: "AlternativeParent \<Rightarrow> attempt"
  cy_seed :: "AlternativeParent \<Rightarrow> attempt"
  cy_seeds :: "string list"
  cy_slept :: bool

text \<open>One round of the loop: goodbye-supplied alternatives, cached topology, seed list.\<close>

definition reattach_cycle ::
  "cycle \<Rightarrow> AlternativeParent list \<Rightarrow> Manager \<Rightarrow> Manager \<times> AlternativeParent list \<times> bool" where
  "reattach_cycle cy supplied m =
     (case tryAlternatives (cy_supplied cy) supplied m of
        (m1, d1, True) \<Rightarrow> (m1, d1, True)
      | (m1, d1, False) \<Rightarrow>
          (case tryAlternatives (cy_cached cy) (tm_alts m1) m1 of
             (m2, d2, True) \<Rightarrow> (m2, d1 @ d2, True)
           | (m2, d2, False) \<Rightarrow>
               (let seedAlts = List.map_filter parseSeedAddress (cy_seeds cy)
                in case tryAlternatives (cy_seed cy) seedAlts m2 of
                     (m3, d3, ok) \<Rightarrow> (m3, d1 @ d2 @ d3, ok))))"

text \<open>The loop, over the rounds the world grants it: the waits between rounds, the dials, and how it
  ended (\<open>None\<close> while it is still running after the last round). \<open>cy_slept\<close> tells whether the wait after
  the round ran to its end.\<close>

fun reattachLoop ::
  "cycle list \<Rightarrow> AlternativeParent list \<Rightarrow> duration \<Rightarrow> Manager
     \<Rightarrow> Manager \<times> duration list \<times> AlternativeParent list \<times> bool option" where
  "reattachLoop [] supplied backoff m = (m, [], [], None)"
| "reattachLoop (cy # cys) supplied backoff m =
     (if tm_stopping m then (m, [], [], Some False)
      else case reattach_cycle cy supplied m of
             (m1, ds, True) \<Rightarrow> (m1, [], ds, Some True)
           | (m1, ds, False) \<Rightarrow>
               if tm_stopping m1 \<or> \<not> cy_slept cy then (m1, [], ds, Some False)
               else let b = backoff * 2;
                        b' = (if b > ReattachBackoffMax then ReattachBackoffMax else b);
                        (m2, ws, ds', r) = reattachLoop cys [] b' m1
                    in (m2, backoff # ws, ds @ ds', r))"

section \<open>Shutdown\<close>

definition Stop :: "Node list \<Rightarrow> Manager \<Rightarrow> Manager \<times> tree_effect list" where
  "Stop peers m =
     (if tm_stopping m then (m, [])
      else let m1 = m\<lparr>tm_stopping := True\<rparr>;
               byes = SendGoodbyeToChildren peers ''shutdown'' m1;
               m2 = m1\<lparr>tm_parent := None, tm_children := [], tm_routes := [], tm_route_timers := [], tm_timers := []\<rparr>
           in (m2, byes @ (case tm_parent m1 of
                             None \<Rightarrow> []
                           | Some p \<Rightarrow> if conn_closed p m1 then [] else [CloseConn p])))"

end
