(* ===== verification/Endpoint_Facts.thy ===== *)
theory Endpoint_Facts
  imports Endpoint
begin

text \<open>
  Facts about \<open>Normalize\<close>: the shape of what it returns, and that a printed origin is a fixed point.
\<close>

section \<open>Characters\<close>

text \<open>A byte of a printed host name: accepted by \<open>url.Parse\<close>, printable, lower case, no colon or
  opening bracket.\<close>

definition name_char :: "char \<Rightarrow> bool" where
  "name_char c \<longleftrightarrow> host_char c \<and> printable [c] \<and> lower_char c = c \<and> c \<noteq> CHR '':'' \<and> c \<noteq> CHR ''[''"

lemma name_char_not:
  "name_char c \<Longrightarrow> c \<noteq> CHR ''/'' \<and> c \<noteq> CHR ''@'' \<and> c \<noteq> CHR '':'' \<and> c \<noteq> CHR ''['' \<and>
     c \<noteq> CHR ''?'' \<and> c \<noteq> CHR ''#'' \<and> c \<noteq> CHR 0x5C \<and> c \<noteq> CHR ''%'' \<and> \<not> is_control c \<and> host_char c \<and> printable [c]"
  by (auto simp: name_char_def host_char_def is_alpha_def is_digit_def is_control_def printable_def)

lemma is_digit_name: "is_digit c \<Longrightarrow> name_char c"
  by (auto simp: name_char_def host_char_def printable_def lower_char_def is_digit_def Let_def)

lemma Itoa_digit:
  assumes "0 \<le> n" "c \<in> set (Itoa n)"
  shows "is_digit c"
  using assms set_nat_digits [of c "nat n"] by (auto simp: Itoa_def is_digit_def of_char_digit_char)

lemma Itoa_nonempty [simp]: "Itoa n \<noteq> []"
  by (simp add: Itoa_def)

definition name_ok :: "string \<Rightarrow> bool" where
  "name_ok h \<longleftrightarrow> h \<noteq> [] \<and> list_all name_char h"

section \<open>Parsing a printed origin\<close>

text \<open>The text after the scheme: a name, and a port unless it is the scheme's default.\<close>

definition port_text :: "int option \<Rightarrow> string" where
  "port_text po = (case po of None \<Rightarrow> [] | Some n \<Rightarrow> '':'' @ Itoa n)"

definition port_ok :: "int option \<Rightarrow> bool" where
  "port_ok po \<longleftrightarrow> (case po of None \<Rightarrow> True | Some n \<Rightarrow> 1 \<le> n \<and> n \<le> 65535)"

definition schemes :: "string set" where
  "schemes = {''http'', ''https''}"

lemma port_text_chars: "port_ok po \<Longrightarrow> c \<in> set (port_text po) \<Longrightarrow> c = CHR '':'' \<or> is_digit c"
  by (cases po) (auto simp: port_text_def port_ok_def intro: Itoa_digit [of "the po"])

lemma authority_chars:
  assumes "name_ok h" "port_ok po" "c \<in> set (h @ port_text po)"
  shows "c \<noteq> CHR ''/'' \<and> c \<noteq> CHR ''@'' \<and> c \<noteq> CHR ''['' \<and> c \<noteq> CHR ''?'' \<and> c \<noteq> CHR ''#'' \<and>
    c \<noteq> CHR 0x5C \<and> c \<noteq> CHR ''%'' \<and> \<not> is_control c \<and> host_char c \<and> printable [c]"
proof -
  have "name_char c \<or> c = CHR '':''"
  proof (cases "c \<in> set h")
    case True
    then show ?thesis using assms(1) by (simp add: name_ok_def list_all_iff)
  next
    case False
    then have "c \<in> set (port_text po)" using assms(3) by simp
    then show ?thesis using port_text_chars [OF assms(2), of c] is_digit_name [of c] by metis
  qed
  then show ?thesis
  proof
    assume "name_char c"
    from name_char_not [OF this] show ?thesis by (elim conjE) (intro conjI; assumption)
  next
    assume c: "c = CHR '':''"
    show ?thesis unfolding c by (simp add: is_control_def host_char_def printable_def)
  qed
qed

lemma printable_all: "(\<And>c. c \<in> set s \<Longrightarrow> printable [c]) \<Longrightarrow> printable s"
  by (simp add: printable_def list_all_iff)

lemma name_no_colon: "name_ok h \<Longrightarrow> CHR '':'' \<notin> set h"
  by (auto simp: name_ok_def list_all_iff name_char_def)

lemma Itoa_no_colon: "0 \<le> n \<Longrightarrow> CHR '':'' \<notin> set (Itoa n)"
  using Itoa_digit [of n "CHR '':''"] by (auto simp: is_digit_def)

lemma parseHost_printed:
  assumes "name_ok h" "port_ok po"
  shows "parseHost (h @ port_text po) = Some (h @ port_text po)"
proof -
  have nb: "\<not> List.member (h @ port_text po) (CHR ''['')"
    using authority_chars [OF assms] by (auto simp: List.member_iff)
  have hc: "list_all host_char (h @ port_text po)"
    using authority_chars [OF assms] by (auto simp: list_all_iff)
  show ?thesis
  proof (cases po)
    case None
    then have "Cut (CHR '':'') (h @ port_text po) = None"
      using name_no_colon [OF assms(1)] by (simp add: Cut_None port_text_def)
    with nb hc show ?thesis by (simp add: parseHost_def)
  next
    case (Some n)
    then have "Cut (CHR '':'') (h @ port_text po) = Some (h, Itoa n)"
      using name_no_colon [OF assms(1)] by (simp add: port_text_def Cut_append)
    moreover have "validOptionalPort (CHR '':'' # Itoa n)"
      using Itoa_digit [of n] assms(2) Some by (auto simp: validOptionalPort_def list_all_iff port_ok_def)
    ultimately show ?thesis using nb hc by (simp add: parseHost_def)
  qed
qed

lemma splitHostPort_printed:
  assumes "name_ok h" "port_ok po"
  shows "splitHostPort (h @ port_text po) = (h, case po of None \<Rightarrow> [] | Some n \<Rightarrow> Itoa n)"
proof -
  have nb: "\<not> HasPrefix h ''[''"
    using assms(1) by (cases h) (auto simp: name_ok_def HasPrefix_def name_char_def)
  show ?thesis
  proof (cases po)
    case None
    then have "CutLast (CHR '':'') (h @ port_text po) = None"
      using name_no_colon [OF assms(1)] by (simp add: CutLast_def Cut_None port_text_def)
    with nb None show ?thesis by (simp add: splitHostPort_def port_text_def)
  next
    case (Some n)
    then have n: "0 \<le> n" using assms(2) by (simp add: port_ok_def)
    have "CutLast (CHR '':'') (h @ port_text po) = Some (h, Itoa n)"
      using Itoa_no_colon [OF n] by (simp add: CutLast_append port_text_def Some)
    moreover have "list_all is_digit (Itoa n)" using Itoa_digit [OF n] by (simp add: list_all_iff)
    ultimately show ?thesis using nb Some by (simp add: splitHostPort_def)
  qed
qed

lemma url_parse_printed:
  assumes "name_ok h" "port_ok po" "s \<in> schemes"
  shows "url_parse (s @ ''://'' @ h @ port_text po) =
    Some \<lparr>u_scheme = s, u_opaque = [], u_user = False, u_host = h @ port_text po, u_path = []\<rparr>"
proof -
  let ?a = "h @ port_text po"
  note ch = authority_chars [OF assms(1,2)]
  have "\<not> list_ex is_control s" using assms(3) by (auto simp: schemes_def is_control_def)
  then have nc: "\<not> list_ex is_control (s @ ''://'' @ ?a)"
    using ch by (auto simp: list_ex_iff is_control_def)
  have gs: "getScheme [] (s @ ''://'' @ ?a) = Some (s, ''//'' @ ?a)"
    using assms(3) by (auto simp: schemes_def is_alpha_def is_digit_def)
  have tl: "ToLower s = s" using assms(3) by (auto simp: schemes_def ToLower_def lower_char_def)
  have c: "Cut (CHR ''/'') ?a = None" unfolding Cut_None using ch by blast
  have "CutLast (CHR ''@'') ?a = None" using ch by (auto simp: CutLast_def Cut_None)
  then have pa: "parseAuthority ?a = Some (False, ?a)"
    using parseHost_printed [OF assms(1,2)] by (simp add: parseAuthority_def)
  have sne: "s \<noteq> []" using assms(3) by (auto simp: schemes_def)
  show ?thesis
    unfolding url_parse_def using nc gs tl c pa sne by (simp add: HasPrefix_def)
qed

section \<open>Printed origins are fixed points\<close>

definition default_port :: "string \<Rightarrow> int" where
  "default_port s = (if s = ''https'' then 443 else 80)"

definition print_port :: "string \<Rightarrow> int option \<Rightarrow> int option" where
  "print_port s po = (if po = Some (default_port s) then None else po)"

lemma canonical_name: "name_ok h \<Longrightarrow> canonical_host (ToLower h) = h"
proof -
  assume n: "name_ok h"
  then have "ToLower h = h"
    unfolding ToLower_def by (intro map_idI) (simp add: name_ok_def list_all_iff name_char_def)
  moreover have "\<not> (c = CHR '':'')" if "filter P h = c # cs" for P c cs
  proof -
    have "c \<in> set (filter P h)" unfolding that by simp
    then have "c \<in> set h" by simp
    then show ?thesis using name_no_colon [OF n] by metis
  qed
  ultimately show ?thesis by (auto simp: canonical_host_def split: list.split)
qed

lemma Itoa_inj: "0 \<le> m \<Longrightarrow> m \<le> 65535 \<Longrightarrow> 0 \<le> n \<Longrightarrow> n \<le> 65535 \<Longrightarrow> Itoa m = Itoa n \<longleftrightarrow> m = n"
proof -
  assume "0 \<le> m" "m \<le> 65535" "0 \<le> n" "n \<le> 65535"
  then have "ParseInt (Itoa m) = Some m" "ParseInt (Itoa n) = Some n"
    by (simp_all add: ParseInt_Itoa max_int64_def)
  then show ?thesis by (metis option.inject)
qed

lemma digit_chars [simp]:
  "digit_char 0 = CHR ''0''" "digit_char (Suc 0) = CHR ''1''" "digit_char 1 = CHR ''1''" "digit_char 2 = CHR ''2''" "digit_char 3 = CHR ''3''"
  "digit_char 4 = CHR ''4''" "digit_char 5 = CHR ''5''" "digit_char 6 = CHR ''6''" "digit_char 7 = CHR ''7''"
  "digit_char 8 = CHR ''8''" "digit_char 9 = CHR ''9''"
  by code_simp+

lemma Itoa_80: "Itoa 80 = ''80''"
  by (simp add: Itoa_def nat_digits.simps digit_chars)

lemma Itoa_443: "Itoa 443 = ''443''"
  by (simp add: Itoa_def nat_digits.simps digit_chars)

lemma Itoa_8080: "Itoa 8080 = ''8080''"
  by (simp add: Itoa_def nat_digits.simps digit_chars)


lemma HasSuffix_last: "s \<noteq> [] \<Longrightarrow> HasSuffix s [c] \<longleftrightarrow> last s = c"
  by (cases s rule: rev_cases) (auto simp: HasSuffix_def HasPrefix_def)

lemma authority_no_trailing_colon:
  assumes "name_ok h" "port_ok po"
  shows "\<not> HasSuffix (h @ port_text po) '':''"
proof -
  have "last (h @ port_text po) \<noteq> CHR '':''"
  proof (cases po)
    case None
    have "last h \<in> set h" using assms(1) by (simp add: name_ok_def)
    then have "last h \<noteq> CHR '':''" using name_no_colon [OF assms(1)] by metis
    with None show ?thesis by (simp add: port_text_def)
  next
    case (Some n)
    then have "last (h @ port_text po) = last (Itoa n)" by (simp add: port_text_def)
    moreover have "last (Itoa n) \<noteq> CHR '':''"
    proof -
      have "CHR '':'' \<notin> set (Itoa n)" using Itoa_no_colon [of n] assms(2) Some by (simp add: port_ok_def)
      then show ?thesis using last_in_set [OF Itoa_nonempty] by metis
    qed
    ultimately show ?thesis by simp
  qed
  moreover have "h @ port_text po \<noteq> []" using assms(1) by (simp add: name_ok_def)
  ultimately show ?thesis by (simp add: HasSuffix_last)
qed

lemma HasPrefix_append [simp]: "HasPrefix (p @ t) p"
  by (simp add: HasPrefix_def)

lemma Contains_append: "Contains (s @ p @ t) p"
proof (induction s)
  case Nil
  have "HasPrefix (p @ t) p" by simp
  then show ?case by (cases "p @ t") simp_all
qed simp

lemma ContainsAny_append: "ContainsAny (a @ b) cs \<longleftrightarrow> ContainsAny a cs \<or> ContainsAny b cs"
  by (simp add: ContainsAny_def)

lemma Contains_slash: "CHR ''/'' \<notin> set s \<Longrightarrow> \<not> Contains s ''://''"
proof (induction s)
  case (Cons c cs)
  have "\<not> HasPrefix (c # cs) ''://''"
  proof
    assume "HasPrefix (c # cs) ''://''"
    then obtain t where "c # cs = ''://'' @ t" by (auto simp: HasPrefix_iff)
    then have "CHR ''/'' \<in> set (c # cs)" by simp
    with Cons.prems show False by blast
  qed
  with Cons show ?case by simp
qed simp

text \<open>What \<open>Normalize\<close> does once the text has been parsed: with or without the scheme in the input.\<close>

lemma Normalize_parsed:
  assumes h: "name_ok h" and po: "port_ok po" and s: "s \<in> schemes"
    and raw: "printable raw" "raw \<noteq> []" "bare \<longleftrightarrow> \<not> Contains raw ''://''"
    and eq: "(if bare then ''http://'' @ raw else raw) = s @ ''://'' @ h @ port_text po"
    and bp: "bare \<Longrightarrow> po \<noteq> None"
  shows "Normalize raw = Some (s @ ''://'' @ h @ port_text (print_port s po))"
proof -
  note ch = authority_chars [OF h po]
  have ca: "\<not> ContainsAny (s @ ''://'' @ h @ port_text po) [CHR ''?'', CHR ''#'', CHR 0x5C, CHR ''%'']"
  proof -
    have "\<not> ContainsAny (h @ port_text po) [CHR ''?'', CHR ''#'', CHR 0x5C, CHR ''%'']"
      unfolding ContainsAny_def list_ex_iff
    proof (rule notI, erule bexE)
      fix c
      assume c: "c \<in> set (h @ port_text po)" "List.member [CHR ''?'', CHR ''#'', CHR 0x5C, CHR ''%''] c"
      from ch [OF c(1)] c(2) show False by (simp only: List.member_code) metis
    qed
    moreover have "\<not> ContainsAny s [CHR ''?'', CHR ''#'', CHR 0x5C, CHR ''%'']"
      using s by (auto simp: schemes_def ContainsAny_def)
    ultimately show ?thesis by (simp only: ContainsAny_append) (simp add: ContainsAny_def)
  qed
  have hne: "h \<noteq> []" using h by (simp add: name_ok_def)
  have nc: "\<not> List.member h (CHR '':'')" using name_no_colon [OF h] by simp
  note up = url_parse_printed [OF h po s] and sp = splitHostPort_printed [OF h po]
    and tc = authority_no_trailing_colon [OF h po] and cn = canonical_name [OF h]
  have sch: "s = ''http'' \<or> s = ''https''" using s by (simp add: schemes_def)
  have fin: "Normalize raw =
     (case po of None \<Rightarrow> Some (s @ ''://'' @ h)
      | Some n \<Rightarrow> (let p = Itoa n in
          if (s = ''https'' \<and> p = ''443'') \<or> (s = ''http'' \<and> p = ''80'') then Some (s @ ''://'' @ h)
          else Some (s @ ''://'' @ JoinHostPort h p)))"
  proof (cases po)
    case None
    then have "\<not> bare" using bp by blast
    with None show ?thesis
      unfolding Normalize_def using raw eq ca up sp tc cn hne nc sch
      by (simp add: Let_def case_prod_beta del: List.member_iff)
  next
    case (Some n)
    then have n: "1 \<le> n" "n \<le> 65535" using po by (simp_all add: port_ok_def)
    then have "ParseInt (Itoa n) = Some n" by (simp add: ParseInt_Itoa max_int64_def)
    moreover have "ParseInt ''443'' = Some 443" "ParseInt ''80'' = Some 80"
      using ParseInt_Itoa [of 443] ParseInt_Itoa [of 80] by (simp_all add: Itoa_443 Itoa_80 max_int64_def)
    moreover note Itoa_443 Itoa_80
    ultimately show ?thesis using Some n
      unfolding Normalize_def using raw eq ca up sp tc cn hne nc sch
      by (simp add: Let_def case_prod_beta del: List.member_iff)
  qed
  show ?thesis
  proof (cases po)
    case None
    then show ?thesis using fin by (simp add: print_port_def port_text_def)
  next
    case (Some n)
    then have n: "0 \<le> n" "n \<le> 65535" using po by (simp_all add: port_ok_def)
    have "Itoa n = ''443'' \<longleftrightarrow> n = 443" "Itoa n = ''80'' \<longleftrightarrow> n = 80"
      using Itoa_inj [OF n, of 443] Itoa_inj [OF n, of 80] by (simp_all add: Itoa_443 Itoa_80)
    with fin Some sch nc show ?thesis
      by (auto simp: Let_def print_port_def default_port_def port_text_def JoinHostPort_def)
  qed
qed

section \<open>What is accepted\<close>

lemma getScheme_set: "getScheme pre s = Some (a, b) \<Longrightarrow> set b \<subseteq> set pre \<union> set s"
  by (induction pre s rule: getScheme.induct) (auto split: if_splits)

lemma parseHost_Some: "parseHost h = Some h' \<Longrightarrow> h' = h"
  by (auto simp: parseHost_def split: if_splits option.splits prod.splits)

lemma parseAuthority_Some:
  "parseAuthority a = Some (us, h) \<Longrightarrow> parseHost h = Some h \<and> set h \<subseteq> set a"
  by (auto simp: parseAuthority_def split: option.splits dest: parseHost_Some dest!: CutLast_Some)

lemma url_parse_host:
  assumes "url_parse r = Some u" "u_host u \<noteq> []"
  shows "parseHost (u_host u) = Some (u_host u) \<and> set (u_host u) \<subseteq> set r"
proof -
  obtain scheme rest where gs: "getScheme [] r = Some (scheme, rest)"
    using assms(1) by (auto simp: url_parse_def split: if_splits option.splits)
  define auth where "auth = (case Cut (CHR ''/'') (drop 2 rest) of None \<Rightarrow> drop 2 rest | Some (a, p) \<Rightarrow> a)"
  have "set auth \<subseteq> set (drop 2 rest)"
    unfolding auth_def by (auto split: option.splits dest!: Cut_Some)
  then have sub: "set auth \<subseteq> set r"
    using getScheme_set [OF gs] set_drop_subset [of 2 rest] by (simp add: subset_iff) 
  obtain us where "parseAuthority auth = Some (us, u_host u)"
    using assms gs unfolding url_parse_def auth_def
    by (auto simp: Let_def split: if_splits option.splits prod.splits)
  then show ?thesis using parseAuthority_Some sub by blast
qed

lemma lower_letter_name: "97 \<le> (of_char d :: nat) \<Longrightarrow> (of_char d :: nat) \<le> 122 \<Longrightarrow> name_char d"
  by (auto simp: name_char_def host_char_def printable_def lower_char_def is_alpha_def Let_def)

lemma name_char_lower:
  assumes "host_char c" "printable [c]" "c \<noteq> CHR '':''" "c \<noteq> CHR ''[''"
  shows "name_char (lower_char c)"
proof (cases "65 \<le> (of_char c :: nat) \<and> (of_char c :: nat) \<le> 90")
  case True
  then have "(of_char (lower_char c) :: nat) = of_char c + 32" by (simp add: lower_char_def)
  with True show ?thesis by (intro lower_letter_name) simp_all
next
  case False
  then have "lower_char c = c" by (simp only: lower_char_def if_False)
  then show ?thesis using assms by (simp only: name_char_def simp_thms)
qed

lemma plain_host_split:
  assumes "parseHost hp = Some hp" "CHR ''['' \<notin> set hp" "printable hp" "splitHostPort hp = (h, p)" "h \<noteq> []"
  shows "name_ok (ToLower h)"
proof -
  have hc: "list_all host_char hp"
    using assms(1,2) by (auto simp: parseHost_def split: if_splits option.splits prod.splits)
  have nb: "\<not> HasPrefix x ''[''" if "set x \<subseteq> set hp" for x
    using assms(2) that by (cases x) (auto simp: HasPrefix_def)
  have sub: "set h \<subseteq> set hp \<and> CHR '':'' \<notin> set h"
  proof (cases "Cut (CHR '':'') hp")
    case None
    then have n: "CHR '':'' \<notin> set hp" by (simp add: Cut_None)
    then have "CutLast (CHR '':'') hp = None" by (simp add: CutLast_def Cut_None)
    then have "h = hp" using assms(4) nb [of hp] by (simp add: splitHostPort_def)
    with n show ?thesis by simp
  next
    case (Some ab)
    obtain a b where ab: "ab = (a, b)" by (cases ab)
    then have hp: "hp = a @ CHR '':'' # b" "CHR '':'' \<notin> set a" using Cut_Some [of "CHR '':''" hp a b] Some by auto
    have "validOptionalPort (CHR '':'' # b)"
      using assms(1,2) Some ab by (auto simp: parseHost_def split: if_splits)
    then have d: "list_all is_digit b" by (simp add: validOptionalPort_def)
    then have "CHR '':'' \<notin> set b" by (auto simp: list_all_iff is_digit_def)
    then have "CutLast (CHR '':'') hp = Some (a, b)" using CutLast_append [of "CHR '':''" b a] hp(1) by simp
    moreover have "\<not> HasPrefix a ''[''" using nb [of a] hp(1) by auto
    ultimately have "h = a" using assms(4) d by (simp add: splitHostPort_def)
    with hp show ?thesis by auto
  qed
  have "name_char (lower_char c)" if c: "c \<in> set h" for c
  proof (rule name_char_lower)
    have chp: "c \<in> set hp" using sub c by blast
    show "host_char c" using hc chp by (simp add: list_all_iff)
    show "printable [c]" using assms(3) chp by (simp add: printable_def list_all_iff)
    show "c \<noteq> CHR '':''" using sub c by metis
    show "c \<noteq> CHR ''[''" using assms(2) chp by metis
  qed
  then show ?thesis using assms(5) by (simp add: name_ok_def ToLower_def list_all_iff)
qed

lemma Normalize_shape:
  assumes "printable raw" "CHR ''['' \<notin> set raw" "Normalize raw = Some origin"
  shows "\<exists>s h po. s \<in> schemes \<and> name_ok h \<and> port_ok po \<and> print_port s po = po \<and>
    origin = s @ ''://'' @ h @ port_text po"
proof -
  let ?r = "if \<not> Contains raw ''://'' then ''http://'' @ raw else raw"
  obtain u where u: "url_parse ?r = Some u"
    using assms(1,3) by (auto simp: Normalize_def Let_def split: if_splits option.splits)
  obtain hn p where hp: "splitHostPort (u_host u) = (hn, p)" by (cases "splitHostPort (u_host u)")
  have s: "u_scheme u \<in> schemes" and hn: "hn \<noteq> []"
    using assms(1,3) u hp by (auto simp: Normalize_def Let_def schemes_def split: if_splits)
  have "u_host u \<noteq> []" using hp hn by (auto simp: splitHostPort_def CutLast_def HasPrefix_def)
  from url_parse_host [OF u this] have ph: "parseHost (u_host u) = Some (u_host u)" and sub: "set (u_host u) \<subseteq> set ?r"
    by blast+
  have pr: "printable ?r" using assms(1) by (simp add: printable_def)
  have nb: "CHR ''['' \<notin> set ?r" using assms(2) by simp
  have name: "name_ok (ToLower hn)"
  proof (rule plain_host_split [OF ph _ _ hp hn])
    show "CHR ''['' \<notin> set (u_host u)" using sub nb by blast
    show "printable (u_host u)" using sub pr by (auto simp: printable_def list_all_iff)
  qed
  let ?h = "ToLower hn"
  have "ToLower ?h = ?h"
    unfolding ToLower_def [of ?h] using name by (intro map_idI) (simp add: name_ok_def list_all_iff name_char_def)
  then have ch: "canonical_host ?h = ?h" using canonical_name [OF name] by simp
  have nc: "\<not> List.member ?h (CHR '':'')" using name_no_colon [OF name] by simp
  define port1 where "port1 = (if p = [] \<and> \<not> Contains raw ''://'' then ''8080'' else p)"
  have N: "Normalize raw =
      (if HasSuffix (u_host u) '':'' then None
       else if port1 \<noteq> [] then
         (case Atoi port1 of None \<Rightarrow> None
          | Some n \<Rightarrow> if n < 1 \<or> n > 65535 then None
                     else if (u_scheme u = ''https'' \<and> Itoa n = ''443'') \<or> (u_scheme u = ''http'' \<and> Itoa n = ''80'')
                     then Some (u_scheme u @ ''://'' @ ?h) else Some (u_scheme u @ ''://'' @ ?h @ '':'' @ Itoa n))
       else Some (u_scheme u @ ''://'' @ ?h))"
    using assms(1,3) u hp hn nc unfolding Normalize_def port1_def
    by (auto simp: Let_def ch JoinHostPort_def split: if_splits option.splits)
  consider (bare) "origin = u_scheme u @ ''://'' @ ?h"
    | (port) n where "1 \<le> n" "n \<le> 65535" "\<not> ((u_scheme u = ''https'' \<and> Itoa n = ''443'') \<or> (u_scheme u = ''http'' \<and> Itoa n = ''80''))"
        "origin = u_scheme u @ ''://'' @ ?h @ '':'' @ Itoa n"
  proof (cases "Atoi port1")
    case None
    then show ?thesis using N assms(3) bare by (simp split: if_splits)
  next
    case (Some n)
    show ?thesis
    proof (cases "(u_scheme u = ''https'' \<and> Itoa n = ''443'') \<or> (u_scheme u = ''http'' \<and> Itoa n = ''80'')")
      case True
      then show ?thesis using N assms(3) Some bare by (simp split: if_splits)
    next
      case False
      then show ?thesis using N assms(3) Some bare port [of n] by (simp only: if_False) (auto split: if_splits)
    qed
  qed
  then show ?thesis
  proof cases
    case bare
    then show ?thesis using s name by (intro exI [of _ "u_scheme u"] exI [of _ ?h] exI [of _ None])
        (simp add: port_ok_def port_text_def print_port_def)
  next
    case (port n)
    have "n \<noteq> default_port (u_scheme u)"
      using port(3) s by (auto simp: default_port_def schemes_def Itoa_443 Itoa_80)
    with port s name show ?thesis
      by (intro exI [of _ "u_scheme u"] exI [of _ ?h] exI [of _ "Some n"])
        (simp add: port_ok_def port_text_def print_port_def)
  qed
qed

lemma printed_printable:
  assumes "s \<in> schemes" "name_ok h" "port_ok po"
  shows "printable (s @ ''://'' @ h @ port_text po)"
proof -
  have "printable [c]" if "c \<in> set (h @ port_text po)" for c
    using authority_chars [OF assms(2,3) that] by (elim conjE)
  then have "printable (h @ port_text po)" by (rule printable_all)
  then show ?thesis using assms(1) by (auto simp: schemes_def printable_def)
qed

text \<open>
  \<open>Normalize\<close> produces a canonical form: for every printable ASCII input without an IPv6 literal
  that it accepts, the result is a scheme, a lower-case host and, unless it is the scheme's default, a
  port from 1 to 65535, and normalizing the result again returns it unchanged. Comparing origins as
  strings, as \<open>addPeer\<close> and the binding checks do, is therefore comparing destinations.
\<close>

theorem Normalize_canonical:
  assumes "printable raw" "CHR ''['' \<notin> set raw" "Normalize raw = Some origin"
  shows "Normalize origin = Some origin \<and>
    (\<exists>s h po. s \<in> schemes \<and> name_ok h \<and> port_ok po \<and> po \<noteq> Some (default_port s) \<and>
       origin = s @ ''://'' @ h @ port_text po)"
proof -
  obtain s h po where o: "s \<in> schemes" "name_ok h" "port_ok po" "print_port s po = po"
    "origin = s @ ''://'' @ h @ port_text po"
    using Normalize_shape [OF assms] by blast
  have "Normalize origin = Some (s @ ''://'' @ h @ port_text (print_port s po))"
    using o printed_printable [OF o(1-3)] Contains_append [of s "''://''" "h @ port_text po"]
    by (intro Normalize_parsed [where bare = False]) simp_all
  with o show ?thesis by (auto simp: print_port_def split: if_splits)
qed

theorem Normalize_canonical_witness:
  "Normalize ''HTTP://Node-1.example:80/'' = Some ''http://node-1.example'' \<and>
   Normalize ''http://node-1.example'' = Some ''http://node-1.example''"
proof -
  have n: "Normalize ''HTTP://Node-1.example:80/'' = Some ''http://node-1.example''" by code_simp
  show ?thesis using Normalize_canonical [of "''HTTP://Node-1.example:80/''" "''http://node-1.example''"] n
    by (simp add: printable_def)
qed

text \<open>A plain \<open>host:port\<close>, as nodes without an explicit origin have it.\<close>

lemma Normalize_host_port:
  assumes "name_ok h" "1 \<le> n" "n \<le> 65535" "n \<noteq> 80"
  shows "Normalize (JoinHostPort h (Itoa n)) = Some (''http://'' @ h @ '':'' @ Itoa n)"
proof -
  let ?po = "Some n"
  have po: "port_ok ?po" using assms by (simp add: port_ok_def)
  have raw: "JoinHostPort h (Itoa n) = h @ port_text ?po"
    using name_no_colon [OF assms(1)] by (simp add: JoinHostPort_def port_text_def)
  have "CHR ''/'' \<notin> set (h @ port_text ?po)" using authority_chars [OF assms(1) po] by metis
  then have c: "\<not> Contains (h @ port_text ?po) ''://''" by (rule Contains_slash)
  have "printable (h @ port_text ?po)"
    using printed_printable [of "''http''", OF _ assms(1) po] by (simp add: schemes_def printable_def)
  then have "Normalize (h @ port_text ?po) = Some (''http'' @ ''://'' @ h @ port_text (print_port ''http'' ?po))"
    using assms po c by (intro Normalize_parsed [where bare = True and po = "?po"]) (simp_all add: schemes_def name_ok_def)
  then show ?thesis using assms raw by (simp add: print_port_def default_port_def port_text_def)
qed

section \<open>The HTTP client\<close>

text \<open>
  Whatever client is configured, the one used for node traffic verifies certificates and host
  names, keeps no cookies and does not follow redirects; a client that would bypass verification is
  refused. With no client configured the default one is accepted.
\<close>

theorem client_verifies:
  shows "case Client hc of
      None \<Rightarrow> hc \<noteq> None
    | Some c \<Rightarrow> \<not> hc_has_jar c \<and> hc_redirects c = UseLastResponse \<and>
        (\<exists>t. hc_transport c = Some (PlainTransport t) \<and> \<not> to_dial_tls t \<and> \<not> to_dial_tls_context t \<and>
           (case to_tls_config t of None \<Rightarrow> True
            | Some cfg \<Rightarrow> \<not> tls_insecure_skip_verify cfg \<and> tls_server_name cfg = []))"
  by (auto simp: Client_def Let_def default_transport_def split: option.splits RoundTripper.splits)

end
