(* ===== verification/Gossip_Facts.thy ===== *)
theory Gossip_Facts
  imports Gossip Endpoint_Facts "HOL-Library.Multiset"
begin

text \<open>
  Facts about the gossip protocol of theory \<open>Gossip\<close>: the invariant of the peer table, who may
  change a route, replies, the deduplication cache, fan-out, and eviction. Runs of the protocol are
  lists of events; \<open>proto_exec\<close> performs one event, with everything the outside world decides (the
  network, clocks, HTTP answers, shuffles) as a part of the event.
\<close>

section \<open>Runs\<close>

datatype proto_event =
    EvMessage network gotime Message
  | EvJoin gotime BootstrapRequest
  | EvBootstrap "string \<Rightarrow> BootstrapRequest \<Rightarrow> http_result" "seed_check option" "string list"
  | EvPing network gotime
  | EvCleanup gotime
  | EvMarkSeen gotime string
  | EvBroadcast "Node list \<Rightarrow> Node list" gotime Message
  | EvForward "Node list \<Rightarrow> Node list" Message
  | EvTopology gotime
  | EvRoots "(NodeID, PeerBinding) gomap"

fun proto_exec :: "proto_event \<Rightarrow> Protocol \<Rightarrow> Protocol \<times> sends" where
  "proto_exec (EvMessage net now msg) p =
     (case handleMessage net now msg p of None \<Rightarrow> (p, []) | Some (p', outs, err) \<Rightarrow> (p', outs))"
| "proto_exec (EvJoin now req) p = (case HandleBootstrap now req p of (p', outs, resp) \<Rightarrow> (p', outs))"
| "proto_exec (EvBootstrap http check seeds) p = (fst (Bootstrap http check seeds p), [])"
| "proto_exec (EvPing net now) p = pingPeers net now p"
| "proto_exec (EvCleanup now) p = (cleanupSeenMessages now p, [])"
| "proto_exec (EvMarkSeen now i) p = (fst (MarkSeen now i p), [])"
| "proto_exec (EvBroadcast shuffle now msg) p =
     (case BroadcastToEnclave shuffle now msg p of (p', outs, err) \<Rightarrow> (p', outs))"
| "proto_exec (EvForward shuffle msg) p = (p, ForwardToEnclave shuffle msg p)"
| "proto_exec (EvTopology now) p = performTopologySync now p"
| "proto_exec (EvRoots bs) p = (SetRootBindings bs p, [])"

definition proto_run :: "proto_event list \<Rightarrow> Protocol \<Rightarrow> Protocol" where
  "proto_run es p = fold (\<lambda>e q. fst (proto_exec e q)) es p"

lemma proto_run_simps [simp]:
  "proto_run [] p = p"
  "proto_run (e # es) p = proto_run es (fst (proto_exec e p))"
  by (simp_all add: proto_run_def)

text \<open>The bindings of a verified manifest: distinct IDs, canonical origins, a named enclave.\<close>

definition canonical_bindings :: "(NodeID, PeerBinding) gomap \<Rightarrow> bool" where
  "canonical_bindings bs =
     (gm_ok bs \<and> list_all (\<lambda>(i, b). Normalize (pb_origin b) = Some (pb_origin b) \<and> pb_enclave b \<noteq> []) bs)"

text \<open>\<open>rand.Shuffle\<close> permutes.\<close>

definition permutes_lists :: "('a list \<Rightarrow> 'a list) \<Rightarrow> bool" where
  "permutes_lists sh = (\<forall>xs. mset (sh xs) = mset xs)"

fun event_ok :: "proto_event \<Rightarrow> bool" where
  "event_ok (EvRoots bs) = canonical_bindings bs"
| "event_ok (EvBroadcast shuffle now msg) = permutes_lists shuffle"
| "event_ok (EvForward shuffle msg) = permutes_lists shuffle"
| "event_ok _ = True"

section \<open>The part of the state that routes messages\<close>

text \<open>Most operations change only the message counter and the seen cache.\<close>

definition same_routes :: "Protocol \<Rightarrow> Protocol \<Rightarrow> bool" where
  "same_routes p p' \<longleftrightarrow> p_local p' = p_local p \<and> p_peers p' = p_peers p \<and>
     p_failures p' = p_failures p \<and> p_root_bindings p' = p_root_bindings p"

lemma same_routes_refl [simp]: "same_routes p p"
  by (simp add: same_routes_def)

lemma same_routes_trans: "same_routes p q \<Longrightarrow> same_routes q r \<Longrightarrow> same_routes p r"
  by (simp add: same_routes_def)

lemma generateMessageID_routes: "same_routes p (fst (generateMessageID now p))"
  by (simp add: generateMessageID_def same_routes_def Let_def)

lemma sync_message_routes: "same_routes p (fst (sync_message now n p))"
  by (simp add: sync_message_def generateMessageID_def same_routes_def Let_def)

lemma send_syncs_routes: "same_routes p (fst (send_syncs now i t ns p))"
proof (induction ns arbitrary: p)
  case (Cons n ns)
  have "same_routes p (fst (send_syncs now i t ns (fst (sync_message now n p))))"
    using same_routes_trans [OF sync_message_routes Cons.IH] .
  with Cons.IH show ?case by (simp add: Let_def case_prod_beta)
qed simp

lemma notify_loop_routes: "same_routes p (fst (notify_loop now n ns p))"
proof (induction ns arbitrary: p)
  case (Cons m ns)
  have "same_routes p (fst (notify_loop now n ns (fst (sync_message now n p))))"
    using same_routes_trans [OF sync_message_routes Cons.IH] .
  with Cons.IH show ?case by (simp add: Let_def case_prod_beta)
qed simp

lemma respondWithPeerList_routes: "same_routes p (fst (respondWithPeerList now i p))"
  by (simp add: respondWithPeerList_def send_syncs_routes split: option.split)

lemma MarkSeen_routes: "same_routes p (fst (MarkSeen now i p))"
  by (simp add: MarkSeen_def evictSeenLocked_def Let_def same_routes_def)

lemma cleanupSeen_routes: "same_routes p (cleanupSeenMessages now p)"
  by (simp add: cleanupSeenMessages_def same_routes_def)

lemma BroadcastToEnclave_routes: "same_routes p (fst (BroadcastToEnclave sh now msg p))"
  using MarkSeen_routes [of p now "msg_id msg"] by (simp add: BroadcastToEnclave_def Let_def)

lemma performTopologySync_routes: "same_routes p (fst (performTopologySync now p))"
  by (simp add: performTopologySync_def generateMessageID_def same_routes_def Let_def)

lemma handlePing_routes: "same_routes p (fst (handlePing net now msg p))"
  by (simp add: handlePing_def generateMessageID_def same_routes_def Let_def split: option.split)

lemmas routes_facts =
  send_syncs_routes notify_loop_routes respondWithPeerList_routes MarkSeen_routes cleanupSeen_routes
  BroadcastToEnclave_routes performTopologySync_routes handlePing_routes

section \<open>The invariant of the peer table\<close>

definition peer_ok :: "Protocol \<Rightarrow> NodeID \<Rightarrow> Node \<Rightarrow> bool" where
  "peer_ok p i n \<longleftrightarrow> n_id n = i \<and> i \<noteq> [] \<and> i \<noteq> n_id (p_local p) \<and> n_enclave n \<noteq> [] \<and> Origin n \<noteq> None \<and>
     (case gm_lookup (p_root_bindings p) i of
        None \<Rightarrow> True | Some b \<Rightarrow> Origin n = Some (pb_origin b) \<and> n_enclave n = pb_enclave b)"

definition failure_ok :: "Protocol \<Rightarrow> NodeID \<Rightarrow> int \<Rightarrow> bool" where
  "failure_ok p i k \<longleftrightarrow> gm_lookup (p_peers p) i \<noteq> None \<and> 1 \<le> k \<and> k < MaxPingFailures"

definition proto_inv :: "Protocol \<Rightarrow> bool" where
  "proto_inv p \<longleftrightarrow> gm_ok (p_peers p) \<and> gm_ok (p_failures p) \<and> gm_ok (p_root_bindings p) \<and>
     (\<forall>i n. gm_lookup (p_peers p) i = Some n \<longrightarrow> peer_ok p i n) \<and>
     (\<forall>i k. gm_lookup (p_failures p) i = Some k \<longrightarrow> failure_ok p i k)"

lemma proto_inv_peer: "proto_inv p \<Longrightarrow> gm_lookup (p_peers p) i = Some n \<Longrightarrow> peer_ok p i n"
  by (simp add: proto_inv_def)

lemma proto_inv_routes: "same_routes p p' \<Longrightarrow> proto_inv p \<Longrightarrow> proto_inv p'"
  by (simp add: proto_inv_def same_routes_def peer_ok_def failure_ok_def)

lemma proto_inv_New: "proto_inv (NewProtocol local rf secret)"
  by (simp add: proto_inv_def NewProtocol_def)

lemma proto_inv_delete_failure:
  "proto_inv p \<Longrightarrow> proto_inv (p\<lparr>p_failures := gm_delete i (p_failures p)\<rparr>)"
  by (simp add: proto_inv_def peer_ok_def failure_ok_def)

lemma Origin_copy [simp]: "Origin (n\<lparr>n_enclave := e\<rparr>) = Origin n"
  by (simp add: Origin_def)

text \<open>\<open>addPeer\<close> either leaves the state alone or inserts one new, well-formed peer.\<close>

lemma addPeer_cases:
  assumes "addPeer node p = (p', ok)"
  obtains (same) "p' = p"
  | (new) n where "ok" "node = Some n" "n_id n \<noteq> []" "n_id n \<noteq> n_id (p_local p)" "Origin n \<noteq> None"
      "gm_lookup (p_peers p) (n_id n) = None"
      "\<And>b. gm_lookup (p_root_bindings p) (n_id n) = Some b \<Longrightarrow>
          Origin n = Some (pb_origin b) \<and> default_enclave (n_enclave n) = pb_enclave b"
      "p' = p\<lparr>p_peers := gm_update (n_id n) (n\<lparr>n_enclave := default_enclave (n_enclave n)\<rparr>) (p_peers p),
              p_failures := gm_delete (n_id n) (p_failures p)\<rparr>"
proof (cases node)
  case (Some n)
  show ?thesis
  proof (cases "p' = p")
    case False
    with assms Some show ?thesis
      by (intro new [of n]) (auto simp: addPeer_def Let_def split: option.splits if_splits)
  qed (rule same)
qed (use assms same in \<open>simp add: addPeer_def\<close>)

lemma default_enclave_ne [simp]: "default_enclave e \<noteq> []"
  by (simp add: default_enclave_def)

lemma addPeer_inv [inv_intros]:
  assumes "proto_inv p" "addPeer node p = (p', ok)"
  shows "proto_inv p'"
  using assms(2)
proof (cases rule: addPeer_cases)
  case (new n)
  let ?c = "n\<lparr>n_enclave := default_enclave (n_enclave n)\<rparr>"
  have "peer_ok p' (n_id n) ?c"
    using new by (auto simp: peer_ok_def split: option.splits)
  moreover have "peer_ok p' i m" if "gm_lookup (p_peers p) i = Some m" for i m
    using proto_inv_peer [OF assms(1) that] new by (simp add: peer_ok_def)
  ultimately show ?thesis
    using assms(1) new unfolding proto_inv_def failure_ok_def by simp
qed (use assms in simp)

lemma addPeer_local: "addPeer node p = (p', ok) \<Longrightarrow> p_local p' = p_local p \<and> p_root_bindings p' = p_root_bindings p"
  by (erule addPeer_cases) simp_all

lemma handlePong_inv: "proto_inv p \<Longrightarrow> proto_inv (fst (handlePong msg p))"
  by (simp add: handlePong_def proto_inv_delete_failure)

lemma handleSync_inv:
  assumes "proto_inv p"
  shows "proto_inv (fst (handleSync now msg p))"
proof (cases "msg_node_info msg")
  case (Some n)
  obtain q ok where q: "addPeer (Some n) p = (q, ok)" by (cases "addPeer (Some n) p")
  have inv: "proto_inv q" by (rule addPeer_inv [OF assms q])
  then have "proto_inv (fst (respondWithPeerList now (msg_from msg) q))"
    by (rule proto_inv_routes [OF respondWithPeerList_routes])
  with inv assms Some q show ?thesis
    by (cases ok) (simp_all add: handleSync_def case_prod_beta)
qed (use assms in \<open>simp add: handleSync_def\<close>)

lemma handleMessage_inv:
  assumes "proto_inv p" "handleMessage net now msg p = Some (p', outs, err)"
  shows "proto_inv p'"
proof -
  have "p' = fst (handlePing net now msg p) \<or> p' = fst (handlePong msg p) \<or> p' = fst (handleSync now msg p)"
    using assms(2) by (auto simp: handleMessage_def split: if_splits prod.splits)
  then show ?thesis
    using handlePong_inv [OF assms(1)] handleSync_inv [OF assms(1)]
      proto_inv_routes [OF handlePing_routes assms(1)] by auto
qed

lemma HandleBootstrap_inv: "proto_inv p \<Longrightarrow> proto_inv (fst (HandleBootstrap now req p))"
proof -
  assume inv: "proto_inv p"
  obtain q ok where q: "addPeer (Some (request_node req)) p = (q, ok)"
    by (cases "addPeer (Some (request_node req)) p")
  have "proto_inv q" by (rule addPeer_inv [OF inv q])
  then have "proto_inv q \<and> proto_inv (fst (notifyPeersAboutNewNode now (request_node req) q))"
    unfolding notifyPeersAboutNewNode_def by (blast intro: proto_inv_routes [OF notify_loop_routes])
  with q show ?thesis by (cases ok) (simp_all add: HandleBootstrap_def case_prod_beta)
qed

lemma add_bootstrap_peers_inv: "proto_inv p \<Longrightarrow> proto_inv (fst (add_bootstrap_peers ns seen p))"
proof (induction ns seen p rule: add_bootstrap_peers.induct)
  case (2 peer ps seen p)
  show ?case
  proof (cases peer)
    case (Some n)
    obtain q ok where q: "addPeer (Some n) p = (q, ok)" by (cases "addPeer (Some n) p")
    show ?thesis using 2 q Some addPeer_inv [OF 2(5) q] by (cases ok) simp_all
  qed (use 2 in simp)
qed simp

lemma bootstrap_loop_inv: "proto_inv p \<Longrightarrow> proto_inv (fst (bootstrap_loop http check ss seen ok p))"
proof (induction ss arbitrary: seen ok p)
  case (Cons s ss)
  have "proto_inv (fst (add_bootstrap_peers ns seen p))" for ns
    by (rule add_bootstrap_peers_inv [OF Cons.prems])
  with Cons show ?case by (simp add: case_prod_beta split: option.split)
qed simp

lemma Bootstrap_inv: "proto_inv p \<Longrightarrow> proto_inv (fst (Bootstrap http check ss p))"
  using bootstrap_loop_inv [of p http check ss "[]" 0] by (simp add: Bootstrap_def case_prod_beta)

section \<open>Liveness checks\<close>

definition ping_failed :: "network \<Rightarrow> sends \<Rightarrow> NodeID \<Rightarrow> bool" where
  "ping_failed net outs i = list_ex (\<lambda>(n, m). n_id n = i \<and> \<not> net n m) outs"

lemma ping_failed_in: "ping_failed net outs i \<Longrightarrow> i \<in> n_id ` fst ` set outs"
  unfolding ping_failed_def by (induction outs) auto

lemma ping_message_routes: "same_routes p (fst (ping_message now n p))"
  by (simp add: ping_message_def generateMessageID_def same_routes_def Let_def)

definition after_ping :: "network \<Rightarrow> gotime \<Rightarrow> Node \<Rightarrow> Protocol \<Rightarrow> Protocol" where
  "after_ping net now n p =
     (let (p1, ping) = ping_message now n p in
      if net n ping then p1
      else p1\<lparr>p_failures := gm_update (n_id n) (PeerFailureCount (n_id n) p1 + 1) (p_failures p1)\<rparr>)"

lemma after_ping_fields [simp]:
  "p_local (after_ping net now n p) = p_local p"
  "p_peers (after_ping net now n p) = p_peers p"
  "p_root_bindings (after_ping net now n p) = p_root_bindings p"
  using ping_message_routes [of p now n]
  by (simp_all add: after_ping_def same_routes_def case_prod_beta Let_def)

lemma after_ping_failures:
  "p_failures (after_ping net now n p) =
     (if net n (snd (ping_message now n p)) then p_failures p
      else gm_update (n_id n) (PeerFailureCount (n_id n) p + 1) (p_failures p))"
  using ping_message_routes [of p now n]
  by (simp add: after_ping_def same_routes_def case_prod_beta Let_def PeerFailureCount_def)

lemma ping_loop_Cons:
  assumes "ping_loop net now (n # ns) ev p = (p', outs, ev')"
  obtains outs' where "outs = (n, snd (ping_message now n p)) # outs'"
    "ping_loop net now ns
       (if \<not> net n (snd (ping_message now n p)) \<and> PeerFailureCount (n_id n) p + 1 \<ge> MaxPingFailures
        then ev @ [n_id n] else ev) (after_ping net now n p) = (p', outs', ev')"
proof -
  have c: "PeerFailureCount i (fst (ping_message now n p)) = PeerFailureCount i p" for i
    using ping_message_routes [of p now n] by (simp add: PeerFailureCount_def same_routes_def)
  show ?thesis
    using assms that by (auto simp: Let_def case_prod_beta after_ping_def c split: if_splits)
qed

text \<open>What one round of pings does to the failure counters, and which peers it evicts.\<close>

lemma ping_loop_spec:
  assumes "ping_loop net now ns ev p = (p', outs, ev')" "distinct (map n_id ns)"
  shows "map fst outs = ns \<and> p_local p' = p_local p \<and> p_peers p' = p_peers p \<and>
    p_root_bindings p' = p_root_bindings p \<and>
    (\<forall>i. gm_lookup (p_failures p') i =
       (if ping_failed net outs i then Some (PeerFailureCount i p + 1) else gm_lookup (p_failures p) i)) \<and>
    set ev' = set ev \<union> {i. ping_failed net outs i \<and> PeerFailureCount i p + 1 \<ge> MaxPingFailures} \<and>
    (gm_ok (p_failures p) \<longrightarrow> gm_ok (p_failures p'))"
  using assms
proof (induction ns arbitrary: ev p outs)
  case (Cons n ns)
  let ?m = "snd (ping_message now n p)" and ?q = "after_ping net now n p"
  let ?ev = "if \<not> net n ?m \<and> PeerFailureCount (n_id n) p + 1 \<ge> MaxPingFailures then ev @ [n_id n] else ev"
  obtain outs' where o: "outs = (n, ?m) # outs'" and l: "ping_loop net now ns ?ev ?q = (p', outs', ev')"
    using Cons.prems(1) by (rule ping_loop_Cons)
  have d: "distinct (map n_id ns)" and nn: "n_id n \<notin> n_id ` set ns" using Cons.prems(2) by auto
  note IH = Cons.IH [OF l d]
  have "map fst outs' = ns" using IH by blast
  with nn have "n_id n \<notin> n_id ` fst ` set outs'" by (metis list.set_map)
  then have nf: "\<not> ping_failed net outs' (n_id n)"
    using ping_failed_in by blast
  have f: "ping_failed net outs i \<longleftrightarrow> (i = n_id n \<and> \<not> net n ?m) \<or> ping_failed net outs' i" for i
    by (auto simp: o ping_failed_def)
  have c: "PeerFailureCount i ?q = PeerFailureCount i p" if "i \<noteq> n_id n" for i
    using that by (simp add: PeerFailureCount_def after_ping_failures)
  have look: "gm_lookup (p_failures p') i =
      (if ping_failed net outs i then Some (PeerFailureCount i p + 1) else gm_lookup (p_failures p) i)" for i
    using IH nf by (cases "i = n_id n") (auto simp: f c after_ping_failures)
  have evs: "set ev' = set ev \<union> {i. ping_failed net outs i \<and> PeerFailureCount i p + 1 \<ge> MaxPingFailures}"
  proof -
    have "set ev' = set ?ev \<union> {i. ping_failed net outs' i \<and> PeerFailureCount i ?q + 1 \<ge> MaxPingFailures}"
      using IH by blast
    also have "\<dots> = set ?ev \<union> {i. ping_failed net outs' i \<and> PeerFailureCount i p + 1 \<ge> MaxPingFailures}"
    proof -
      have "(ping_failed net outs' i \<and> PeerFailureCount i ?q + 1 \<ge> MaxPingFailures) \<longleftrightarrow>
          (ping_failed net outs' i \<and> PeerFailureCount i p + 1 \<ge> MaxPingFailures)" for i
        using nf by (cases "i = n_id n") (simp_all add: c)
      then show ?thesis by simp
    qed
    also have "\<dots> = set ev \<union> {i. ping_failed net outs i \<and> PeerFailureCount i p + 1 \<ge> MaxPingFailures}"
      using nf by (auto simp: f)
    finally show ?thesis .
  qed
  have "gm_ok (p_failures p) \<longrightarrow> gm_ok (p_failures p')"
    using IH by (simp add: after_ping_failures)
  then show ?case using IH look evs by (simp add: o)
qed (simp add: ping_failed_def)

lemma fold_removePeer:
  "gm_lookup (p_peers (fold removePeer ev p)) i = (if i \<in> set ev then None else gm_lookup (p_peers p) i)"
  "gm_lookup (p_failures (fold removePeer ev p)) i = (if i \<in> set ev then None else gm_lookup (p_failures p) i)"
  "p_local (fold removePeer ev p) = p_local p"
  "p_root_bindings (fold removePeer ev p) = p_root_bindings p"
  "gm_ok (p_peers p) \<Longrightarrow> gm_ok (p_peers (fold removePeer ev p))"
  "gm_ok (p_failures p) \<Longrightarrow> gm_ok (p_failures (fold removePeer ev p))"
  by (induction ev arbitrary: p) (auto simp: removePeer_def)

lemma getPeers_ids: "proto_inv p \<Longrightarrow> map n_id (getPeers p) = map fst (p_peers p)"
proof -
  assume inv: "proto_inv p"
  have "n_id n = i" if "(i, n) \<in> set (p_peers p)" for i n
    using that inv gm_lookup_iff [of "p_peers p" i n] proto_inv_peer [OF inv, of i n]
    by (auto simp: proto_inv_def peer_ok_def)
  then show ?thesis by (auto simp: getPeers_def)
qed

lemma getPeers_distinct: "proto_inv p \<Longrightarrow> distinct (map n_id (getPeers p))"
  using getPeers_ids [of p] by (simp add: proto_inv_def gm_ok_def)

lemma getPeers_iff:
  assumes "proto_inv p"
  shows "n \<in> set (getPeers p) \<longleftrightarrow> gm_lookup (p_peers p) (n_id n) = Some n"
proof
  assume "n \<in> set (getPeers p)"
  then obtain i where "(i, n) \<in> set (p_peers p)" by (auto simp: getPeers_def)
  then have "gm_lookup (p_peers p) i = Some n" using assms by (simp add: proto_inv_def gm_lookup_iff)
  with proto_inv_peer [OF assms this] show "gm_lookup (p_peers p) (n_id n) = Some n" by (simp add: peer_ok_def)
next
  assume "gm_lookup (p_peers p) (n_id n) = Some n"
  then show "n \<in> set (getPeers p)" by (force simp: getPeers_def dest: gm_lookup_in)
qed

lemma pingPeers_spec:
  assumes inv: "proto_inv p" and run: "pingPeers net now p = (p', outs)"
  shows "map fst outs = getPeers p"
    and "p_local p' = p_local p" and "p_root_bindings p' = p_root_bindings p"
    and "gm_lookup (p_peers p') i =
      (if ping_failed net outs i \<and> PeerFailureCount i p + 1 \<ge> MaxPingFailures then None
       else gm_lookup (p_peers p) i)"
    and "gm_lookup (p_failures p') i =
      (if ping_failed net outs i then
         (if PeerFailureCount i p + 1 \<ge> MaxPingFailures then None else Some (PeerFailureCount i p + 1))
       else gm_lookup (p_failures p) i)"
    and "gm_ok (p_peers p')" and "gm_ok (p_failures p')"
proof -
  obtain q ev where l: "ping_loop net now (getPeers p) [] p = (q, outs, ev)" and p': "p' = fold removePeer ev q"
    using run by (auto simp: pingPeers_def split: prod.splits)
  note spec = ping_loop_spec [OF l getPeers_distinct [OF inv]]
  have ok: "gm_ok (p_peers p)" "gm_ok (p_failures p)" using inv by (simp_all add: proto_inv_def)
  show "map fst outs = getPeers p" using spec by blast
  show "p_local p' = p_local p" "p_root_bindings p' = p_root_bindings p"
    using spec by (simp_all add: p' fold_removePeer)
  show "gm_lookup (p_peers p') i = (if ping_failed net outs i \<and> PeerFailureCount i p + 1 \<ge> MaxPingFailures
      then None else gm_lookup (p_peers p) i)"
    using spec by (simp add: p' fold_removePeer)
  show "gm_lookup (p_failures p') i = (if ping_failed net outs i then
      (if PeerFailureCount i p + 1 \<ge> MaxPingFailures then None else Some (PeerFailureCount i p + 1))
      else gm_lookup (p_failures p) i)"
    using spec by (simp add: p' fold_removePeer)
  show "gm_ok (p_peers p')" "gm_ok (p_failures p')"
    using spec ok by (simp_all add: p' fold_removePeer)
qed

lemma ping_failed_peer:
  assumes "proto_inv p" "map fst outs = getPeers p" "ping_failed net outs i"
  shows "gm_lookup (p_peers p) i \<noteq> None"
proof -
  obtain n m where nm: "(n, m) \<in> set outs" "n_id n = i"
    using assms(3) by (auto simp: ping_failed_def list_ex_iff)
  then have "n \<in> set (getPeers p)" unfolding assms(2) [symmetric] by force
  with nm(2) show ?thesis using getPeers_iff [OF assms(1)] by auto
qed

lemma failure_count_range: "proto_inv p \<Longrightarrow> 0 \<le> PeerFailureCount i p \<and> PeerFailureCount i p < MaxPingFailures"
  by (cases "gm_lookup (p_failures p) i")
    (force simp: proto_inv_def failure_ok_def PeerFailureCount_def MaxPingFailures_def)+

lemma pingPeers_inv:
  assumes "proto_inv p"
  shows "proto_inv (fst (pingPeers net now p))"
proof -
  obtain p' outs where run: "pingPeers net now p = (p', outs)" by (cases "pingPeers net now p")
  note spec = pingPeers_spec [OF assms run]
  have peers: "peer_ok p' i n" if "gm_lookup (p_peers p') i = Some n" for i n
  proof -
    have "gm_lookup (p_peers p) i = Some n" using that spec(4) [of i] by (simp split: if_splits)
    from proto_inv_peer [OF assms this] show ?thesis using spec(2,3) by (simp add: peer_ok_def)
  qed
  have fails: "failure_ok p' i k" if "gm_lookup (p_failures p') i = Some k" for i k
  proof (cases "ping_failed net outs i")
    case True
    with that spec(4) [of i] spec(5) [of i] show ?thesis
      using ping_failed_peer [OF assms spec(1) True] failure_count_range [OF assms, of i]
      by (auto simp: failure_ok_def split: if_splits)
  next
    case False
    with that spec(4) [of i] spec(5) [of i] show ?thesis
      using assms by (auto simp: failure_ok_def proto_inv_def)
  qed
  from peers fails spec(3,6,7) assms run show ?thesis by (simp add: proto_inv_def)
qed

section \<open>Signed bindings\<close>

lemma Normalize_Nil [simp]: "Normalize [] = None"
  using trim_front_id [of white_space "[]"] trim_front_id [of "map rev white_space" "[]"]
  by (simp add: Normalize_def TrimSpace_def)

lemma Origin_http [simp]: "o' \<noteq> [] \<Longrightarrow> Origin (n\<lparr>n_http_origin := o'\<rparr>) = Normalize o'"
  by (simp add: Origin_def)

text \<open>The state while \<open>SetRootBindings\<close> is at work: a peer already rebound agrees with its binding.\<close>

lemma bind_root_inv:
  assumes inv: "proto_inv p" and b: "Normalize (pb_origin b) = Some (pb_origin b)" "pb_enclave b \<noteq> []"
  shows "proto_inv (bind_root (i, b) p)"
proof -
  let ?p1 = "p\<lparr>p_root_bindings := gm_update i b (p_root_bindings p)\<rparr>"
  have ne: "pb_origin b \<noteq> []" using b(1) by auto
  show ?thesis
  proof (cases "gm_lookup (p_peers p) i")
    case None
    have "peer_ok ?p1 j n" if "gm_lookup (p_peers p) j = Some n" for j n
      using proto_inv_peer [OF inv that] None that by (auto simp: peer_ok_def)
    then show ?thesis using inv None unfolding bind_root_def proto_inv_def failure_ok_def by simp
  next
    case (Some peer)
    let ?n = "peer\<lparr>n_http_origin := pb_origin b, n_enclave := pb_enclave b\<rparr>"
    let ?p2 = "?p1\<lparr>p_peers := gm_update i ?n (p_peers p)\<rparr>"
    have "peer_ok ?p2 i ?n"
      using proto_inv_peer [OF inv Some] b ne by (simp add: peer_ok_def)
    moreover have "peer_ok ?p2 j n" if "gm_lookup (p_peers p) j = Some n" "j \<noteq> i" for j n
      using proto_inv_peer [OF inv that(1)] that(2) by (simp add: peer_ok_def)
    moreover have "failure_ok ?p2 j k" if "gm_lookup (p_failures p) j = Some k" for j k
      using inv that by (auto simp: proto_inv_def failure_ok_def)
    ultimately have "proto_inv ?p2" using inv unfolding proto_inv_def by simp
    then show ?thesis
      using proto_inv_delete_failure [of ?p2 i] Some by (simp add: bind_root_def Let_def)
  qed
qed

lemma proto_inv_no_roots: "proto_inv p \<Longrightarrow> proto_inv (p\<lparr>p_root_bindings := []\<rparr>)"
  by (simp add: proto_inv_def peer_ok_def failure_ok_def)

lemma SetRootBindings_inv:
  assumes "proto_inv p" "canonical_bindings bs"
  shows "proto_inv (SetRootBindings bs p)"
proof -
  have "proto_inv q \<Longrightarrow> list_all (\<lambda>(i, b). Normalize (pb_origin b) = Some (pb_origin b) \<and> pb_enclave b \<noteq> []) bs \<Longrightarrow>
      proto_inv (fold bind_root bs q)" for q
  proof (induction bs arbitrary: q)
    case (Cons ib bs)
    obtain i b where ib: "ib = (i, b)" by (cases ib)
    have "proto_inv (bind_root (i, b) q)" using Cons.prems ib by (intro bind_root_inv) simp_all
    with Cons ib show ?case by simp
  qed simp
  then show ?thesis using assms proto_inv_no_roots by (simp add: SetRootBindings_def canonical_bindings_def)
qed

lemma proto_exec_inv:
  assumes "proto_inv p" "event_ok e"
  shows "proto_inv (fst (proto_exec e p))"
proof (cases e)
  case (EvMessage net now msg)
  show ?thesis
  proof (cases "handleMessage net now msg p")
    case (Some r)
    obtain p' outs err where "r = (p', outs, err)" by (cases r)
    with Some EvMessage show ?thesis using handleMessage_inv [OF assms(1)] by simp
  qed (use EvMessage assms in simp)
next
  case (EvBroadcast sh now msg)
  then show ?thesis
    using proto_inv_routes [OF BroadcastToEnclave_routes assms(1)] by (simp add: case_prod_beta)
qed (use assms HandleBootstrap_inv [of p] Bootstrap_inv [of p] pingPeers_inv [of p] SetRootBindings_inv [of p]
      proto_inv_routes [OF cleanupSeen_routes, of p] proto_inv_routes [OF MarkSeen_routes, of p]
      proto_inv_routes [OF performTopologySync_routes, of p] in \<open>simp_all add: case_prod_beta\<close>)

lemma proto_run_inv: "proto_inv p \<Longrightarrow> list_all event_ok es \<Longrightarrow> proto_inv (proto_run es p)"
  by (induction es arbitrary: p) (simp_all add: proto_exec_inv)

section \<open>Who may change a route\<close>

fun unsigned_event :: "proto_event \<Rightarrow> bool" where
  "unsigned_event (EvRoots bs) = False"
| "unsigned_event (EvPing net now) = False"
| "unsigned_event _ = True"

text \<open>A peer table may only grow.\<close>

definition extends_peers :: "Protocol \<Rightarrow> Protocol \<Rightarrow> bool" where
  "extends_peers p p' \<longleftrightarrow> p_local p' = p_local p \<and> p_root_bindings p' = p_root_bindings p \<and>
     (\<forall>i n. gm_lookup (p_peers p) i = Some n \<longrightarrow> gm_lookup (p_peers p') i = Some n)"

lemma extends_refl [simp]: "extends_peers p p"
  by (simp add: extends_peers_def)

lemma extends_trans: "extends_peers p q \<Longrightarrow> extends_peers q r \<Longrightarrow> extends_peers p r"
  by (simp add: extends_peers_def)

lemma extends_routes: "same_routes p q \<Longrightarrow> extends_peers p q"
  by (simp add: extends_peers_def same_routes_def)

lemma extends_addPeer: "addPeer node p = (p', ok) \<Longrightarrow> extends_peers p p'"
  by (erule addPeer_cases) (simp_all add: extends_peers_def)

lemma extends_handleSync: "extends_peers p (fst (handleSync now msg p))"
proof (cases "msg_node_info msg")
  case (Some n)
  obtain q ok where q: "addPeer (Some n) p = (q, ok)" by (cases "addPeer (Some n) p")
  have e: "extends_peers p q" by (rule extends_addPeer [OF q])
  then have "extends_peers p (fst (respondWithPeerList now (msg_from msg) q))"
    by (rule extends_trans [OF _ extends_routes [OF respondWithPeerList_routes]])
  with e Some q show ?thesis by (cases ok) (simp_all add: handleSync_def case_prod_beta)
qed (simp add: handleSync_def)

lemma extends_handleMessage:
  "handleMessage net now msg p = Some (p', outs, err) \<Longrightarrow> extends_peers p p'"
  using extends_handleSync [of p now msg] extends_routes [OF handlePing_routes [of p net now msg]]
  by (auto simp: handleMessage_def handlePong_def extends_peers_def split: if_splits prod.splits)

lemma extends_HandleBootstrap: "extends_peers p (fst (HandleBootstrap now req p))"
proof -
  obtain q ok where q: "addPeer (Some (request_node req)) p = (q, ok)"
    by (cases "addPeer (Some (request_node req)) p")
  have e: "extends_peers p q" by (rule extends_addPeer [OF q])
  then have "extends_peers p (fst (notifyPeersAboutNewNode now (request_node req) q))"
    unfolding notifyPeersAboutNewNode_def by (rule extends_trans [OF _ extends_routes [OF notify_loop_routes]])
  with e q show ?thesis by (cases ok) (simp_all add: HandleBootstrap_def case_prod_beta)
qed

lemma extends_add_bootstrap: "extends_peers p (fst (add_bootstrap_peers ns seen p))"
proof (induction ns arbitrary: seen p)
  case (Cons peer ns)
  show ?case
  proof (cases peer)
    case (Some n)
    obtain q ok where q: "addPeer (Some n) p = (q, ok)" by (cases "addPeer (Some n) p")
    then show ?thesis
      using Some extends_trans [OF extends_addPeer [OF q] Cons.IH] Cons.IH by (cases ok) simp_all
  qed (use Cons in simp)
qed simp

lemma extends_Bootstrap: "extends_peers p (fst (Bootstrap http check ss p))"
proof -
  have "extends_peers p (fst (bootstrap_loop http check ss seen ok p))" for seen ok
  proof (induction ss arbitrary: seen ok p)
    case (Cons s ss)
    have "extends_peers p (fst (bootstrap_loop http check ss seen' ok' (fst (add_bootstrap_peers ns seen p))))" for seen' ok' ns
      by (rule extends_trans [OF extends_add_bootstrap Cons.IH])
    with Cons.IH show ?case by (simp add: case_prod_beta split: option.split)
  qed simp
  then show ?thesis by (simp add: Bootstrap_def case_prod_beta)
qed

lemma extends_exec:
  assumes "unsigned_event e"
  shows "extends_peers p (fst (proto_exec e p))"
proof (cases e)
  case (EvMessage net now msg)
  then show ?thesis using extends_handleMessage [of net now msg p]
    by (cases "handleMessage net now msg p") auto
qed (use assms extends_HandleBootstrap extends_Bootstrap extends_routes [OF cleanupSeen_routes]
      extends_routes [OF MarkSeen_routes] extends_routes [OF performTopologySync_routes]
      extends_routes [OF BroadcastToEnclave_routes] in \<open>simp_all add: case_prod_beta\<close>)

lemma extends_run: "list_all unsigned_event es \<Longrightarrow> extends_peers p (proto_run es p)"
  by (induction es arbitrary: p) (auto intro: extends_trans extends_exec)

lemma proto_exec_local: "p_local (fst (proto_exec e p)) = p_local p"
proof (cases "unsigned_event e")
  case True
  then show ?thesis using extends_exec [of e p] by (simp add: extends_peers_def)
next
  case False
  have "p_local (fold bind_root bs q) = p_local q" for bs q
    by (induction bs arbitrary: q) (auto simp: bind_root_def Let_def split: prod.splits option.splits)
  moreover have "p_local (fst (ping_loop net now ns ev q)) = p_local q" for net now ns ev q
  proof (induction ns arbitrary: ev q)
    case (Cons n ns)
    obtain r outs ev' where l: "ping_loop net now (n # ns) ev q = (r, outs, ev')"
      by (cases "ping_loop net now (n # ns) ev q")
    from l obtain outs' ev0 where "ping_loop net now ns ev0 (after_ping net now n q) = (r, outs', ev')"
      by (rule ping_loop_Cons) blast
    with Cons.IH [of ev0 "after_ping net now n q"] l show ?case by simp
  qed simp
  ultimately show ?thesis
    using False by (cases e) (simp_all add: SetRootBindings_def pingPeers_def case_prod_beta fold_removePeer)
qed

lemma proto_run_local: "p_local (proto_run es p) = p_local p"
  by (induction es arbitrary: p) (simp_all add: proto_exec_local)

text \<open>
  C22. In every run that starts from \<open>NewProtocol\<close>, whatever peers, clients and seeds send: each entry of
  the peer table is filed under its own non-empty ID, is never the local node, has an enclave and a
  usable origin, has failed fewer than \<open>MaxPingFailures\<close> pings since its counter was last cleared, and
  if a signed manifest binds the ID, the entry has exactly the signed origin and enclave.
\<close>

theorem peer_table_sound:
  assumes "list_all event_ok es" "p = proto_run es (NewProtocol local rf secret)"
    and "gm_lookup (p_peers p) i = Some n"
  shows "n_id n = i \<and> i \<noteq> [] \<and> i \<noteq> n_id local \<and> n_enclave n \<noteq> [] \<and> Origin n \<noteq> None \<and>
    0 \<le> PeerFailureCount i p \<and> PeerFailureCount i p < MaxPingFailures \<and>
    (case gm_lookup (p_root_bindings p) i of
       None \<Rightarrow> True | Some b \<Rightarrow> Origin n = Some (pb_origin b) \<and> n_enclave n = pb_enclave b)"
proof -
  have inv: "proto_inv p" using proto_run_inv [OF proto_inv_New assms(1)] assms(2) by simp
  have "n_id (p_local p) = n_id local" using assms(2) by (simp add: proto_run_local NewProtocol_def)
  with proto_inv_peer [OF inv assms(3)] failure_count_range [OF inv] show ?thesis by (simp add: peer_ok_def)
qed

text \<open>
  C25. Unsigned traffic cannot move a peer: once an ID is in the table, no sequence of messages, join
  requests, bootstrap answers, broadcasts or cache operations changes its entry or the signed
  bindings. Only a verified manifest (\<open>SetRootBindings\<close>) re-routes a peer and only failed pings
  remove one.
\<close>

theorem unsigned_never_reroutes:
  assumes "list_all unsigned_event es" "gm_lookup (p_peers p) i = Some n"
  shows "gm_lookup (p_peers (proto_run es p)) i = Some n \<and>
    p_root_bindings (proto_run es p) = p_root_bindings p"
  using extends_run [OF assms(1), of p] assms(2) by (simp add: extends_peers_def)

section \<open>Where messages go\<close>

definition known_to :: "Protocol \<Rightarrow> Node \<Rightarrow> bool" where
  "known_to p n \<longleftrightarrow> gm_lookup (p_peers p) (n_id n) = Some n"

lemma known_getPeers: "proto_inv p \<Longrightarrow> n \<in> set (getPeers p) \<Longrightarrow> known_to p n"
  by (simp add: known_to_def getPeers_iff)

lemma known_replication: "proto_inv p \<Longrightarrow> n \<in> set (GetReplicationPeers p) \<Longrightarrow> known_to p n"
  using known_getPeers [of p n] by (simp add: GetReplicationPeers_def getPeers_def)

lemma known_peer_ok: "proto_inv p \<Longrightarrow> known_to p n \<Longrightarrow> peer_ok p (n_id n) n"
  by (simp add: known_to_def proto_inv_peer)

lemma known_same_routes: "same_routes p p' \<Longrightarrow> known_to p' n = known_to p n"
  by (simp add: known_to_def same_routes_def)

lemma permutes_set: "permutes_lists sh \<Longrightarrow> set (sh xs) = set xs"
  unfolding permutes_lists_def by (metis set_mset_mset)

lemma permutes_length: "permutes_lists sh \<Longrightarrow> length (sh xs) = length xs"
  unfolding permutes_lists_def by (metis size_mset)

lemma permutes_distinct: "permutes_lists sh \<Longrightarrow> distinct (sh xs) = distinct xs"
  unfolding permutes_lists_def by (metis mset_eq_imp_distinct_iff)

lemma select_subset: "permutes_lists sh \<Longrightarrow> set (selectRandomPeers sh ns k i) \<subseteq> set ns"
  unfolding selectRandomPeers_def Let_def by (auto simp: permutes_set dest!: in_set_takeD)

lemma send_syncs_out: "(n, m) \<in> set (snd (send_syncs now i t ns p)) \<Longrightarrow> n = t \<and> msg_type m = MessageTypeSync"
  by (induction ns arbitrary: p)
    (auto simp: Let_def case_prod_beta sync_message_def split: if_splits)

lemma notify_loop_out: "(n, m) \<in> set (snd (notify_loop now k ns p)) \<Longrightarrow> n \<in> set ns"
  by (induction ns arbitrary: p) (auto simp: Let_def case_prod_beta split: if_splits)

lemma respond_out:
  "(n, m) \<in> set (snd (respondWithPeerList now i p)) \<Longrightarrow>
     gm_lookup (p_peers p) i = Some n \<and> msg_type m = MessageTypeSync"
  by (auto simp: respondWithPeerList_def dest: send_syncs_out split: option.splits)

text \<open>Replies to a message go to its sender, as the table knows it when the handler ends.\<close>

lemma handleMessage_out:
  assumes "handleMessage net now msg p = Some (p', outs, err)" "(n, m) \<in> set outs"
  shows "gm_lookup (p_peers p') (msg_from msg) = Some n \<and>
    (msg_type msg = MessageTypePing \<and> msg_type m = MessageTypePong \<or>
     msg_type msg = MessageTypeSyncRequest \<and> msg_type m = MessageTypeSync)"
proof -
  consider (ping) "msg_type msg = MessageTypePing" "(p', outs, err) = handlePing net now msg p"
    | (sync) "(p', outs, err) = handleSync now msg p"
    using assms by (auto simp: handleMessage_def split: if_splits prod.splits)
  then show ?thesis
  proof cases
    case ping
    then show ?thesis using assms(2)
      by (auto simp: handlePing_def generateMessageID_def Let_def split: option.splits)
  next
    case sync
    then obtain k q where k: "msg_node_info msg = Some k" and q: "addPeer (Some k) p = (q, True)"
      and t: "msg_type msg = MessageTypeSyncRequest"
      and r: "respondWithPeerList now (msg_from msg) q = (p', outs)"
      using assms(2) by (auto simp: handleSync_def split: option.splits if_splits prod.splits bool.splits)
    then show ?thesis
      using respond_out [of n m now "msg_from msg" q] respondWithPeerList_routes [of q now "msg_from msg"] assms(2)
      by (simp add: same_routes_def)
  qed
qed

lemma exec_sends_known:
  assumes inv: "proto_inv p" and ok: "event_ok e" and nm: "(n, m) \<in> set (snd (proto_exec e p))"
  shows "known_to p n \<or> known_to (fst (proto_exec e p)) n"
proof (cases e)
  case (EvMessage net now msg)
  then obtain p' outs err where h: "handleMessage net now msg p = Some (p', outs, err)"
    using nm by (cases "handleMessage net now msg p") auto
  then have "gm_lookup (p_peers p') (msg_from msg) = Some n"
    using handleMessage_out [OF h, of n m] nm EvMessage by simp
  moreover have "proto_inv p'" by (rule handleMessage_inv [OF inv h])
  ultimately show ?thesis using EvMessage h proto_inv_peer [of p'] by (simp add: known_to_def peer_ok_def)
next
  case (EvJoin now req)
  obtain q okq where q: "addPeer (Some (request_node req)) p = (q, okq)"
    by (cases "addPeer (Some (request_node req)) p")
  have okq: okq and o: "(n, m) \<in> set (snd (notify_loop now (request_node req) (getPeers q) q))"
    using nm EvJoin q by (cases okq; simp add: HandleBootstrap_def notifyPeersAboutNewNode_def case_prod_beta)+
  have "known_to q n"
    using notify_loop_out [OF o] addPeer_inv [OF inv q] known_getPeers by blast
  then show ?thesis
    using EvJoin q okq known_same_routes [OF notify_loop_routes]
    by (simp add: HandleBootstrap_def notifyPeersAboutNewNode_def case_prod_beta)
next
  case (EvPing net now)
  obtain p' outs where r: "pingPeers net now p = (p', outs)" by (cases "pingPeers net now p")
  have "n \<in> fst ` set outs" using nm EvPing r by force
  then have "n \<in> set (getPeers p)" using pingPeers_spec(1) [OF inv r] by (metis list.set_map)
  then show ?thesis using known_getPeers [OF inv] by blast
next
  case (EvBroadcast sh now msg)
  let ?q = "fst (MarkSeen now (msg_id msg) p)"
  have "n \<in> set (GetReplicationPeers ?q)"
    using nm ok EvBroadcast select_subset [of sh "GetReplicationPeers ?q"]
    by (auto simp: BroadcastToEnclave_def Let_def split: if_splits)
  then have "known_to ?q n" by (rule known_replication [OF proto_inv_routes [OF MarkSeen_routes inv]])
  then show ?thesis using known_same_routes [OF MarkSeen_routes] by blast
next
  case (EvForward sh msg)
  then have "n \<in> set (GetReplicationPeers p)"
    using nm ok select_subset [of sh "GetReplicationPeers p"]
    by (auto simp: ForwardToEnclave_def Let_def split: if_splits)
  then show ?thesis using known_replication [OF inv] by blast
next
  case (EvTopology now)
  let ?q = "fst (generateMessageID now p)"
  have "n \<in> set (getPeers ?q)"
    using nm EvTopology by (auto simp: performTopologySync_def Broadcast_def case_prod_beta Let_def split: if_splits)
  then have "known_to ?q n" by (rule known_getPeers [OF proto_inv_routes [OF generateMessageID_routes inv]])
  then show ?thesis using known_same_routes [OF generateMessageID_routes] by blast
qed (use nm in simp_all)

lemma exec_roots: "(\<And>bs. e \<noteq> EvRoots bs) \<Longrightarrow> proto_inv p \<Longrightarrow>
  p_root_bindings (fst (proto_exec e p)) = p_root_bindings p"
proof (cases "unsigned_event e")
  case True
  then show ?thesis using extends_exec [of e p] by (simp add: extends_peers_def)
next
  case False
  moreover assume "\<And>bs. e \<noteq> EvRoots bs" and inv: "proto_inv p"
  ultimately obtain net now where "e = EvPing net now" by (cases e) auto
  then show ?thesis using pingPeers_spec(3) [OF inv] by (cases "pingPeers net now p") simp
qed

text \<open>
  Routing safety: every message the protocol sends, in any event of any run, goes to an entry of
  the peer table, never to the local node, and where a signed manifest binds the receiver's ID the
  message goes to the signed origin.
\<close>

theorem sends_follow_signed_routes:
  assumes "list_all event_ok es" "p = proto_run es (NewProtocol local rf secret)" "event_ok e"
    and "(n, m) \<in> set (snd (proto_exec e p))"
  shows "n_id n \<noteq> n_id local \<and> (known_to p n \<or> known_to (fst (proto_exec e p)) n) \<and>
    (case gm_lookup (p_root_bindings p) (n_id n) of
       None \<Rightarrow> True | Some b \<Rightarrow> Origin n = Some (pb_origin b) \<and> n_enclave n = pb_enclave b)"
proof -
  let ?q = "fst (proto_exec e p)"
  have inv: "proto_inv p" using proto_run_inv [OF proto_inv_New assms(1)] assms(2) by simp
  have inv': "proto_inv ?q" by (rule proto_exec_inv [OF inv assms(3)])
  have l: "n_id (p_local p) = n_id local" using assms(2) by (simp add: proto_run_local NewProtocol_def)
  have "e \<noteq> EvRoots bs" for bs using assms(4) by auto
  then have r: "p_root_bindings ?q = p_root_bindings p" using exec_roots inv by blast
  have k: "known_to p n \<or> known_to ?q n" by (rule exec_sends_known [OF inv assms(3,4)])
  then have "peer_ok p (n_id n) n \<or> peer_ok ?q (n_id n) n"
    using proto_inv_peer [OF inv] proto_inv_peer [OF inv'] by (auto simp: known_to_def)
  with k l r show ?thesis by (auto simp: peer_ok_def proto_exec_local)
qed

definition solicits :: "MessageType \<Rightarrow> bool" where
  "solicits t \<longleftrightarrow> t = MessageTypePing \<or> t = MessageTypeSyncRequest"

text \<open>
  Peer exchange settles: a message that is itself a reply is never answered. PING is answered
  by at most one PONG, SYNC_REQUEST by SYNCs only, PONG and SYNC by nothing; so no reply loop exists.
  All replies go to the sender.
\<close>

theorem replies_never_solicit:
  assumes "handleMessage net now msg p = Some (p', outs, err)"
  shows "list_all (\<lambda>(n, m). \<not> solicits (msg_type m) \<and> gm_lookup (p_peers p') (msg_from msg) = Some n) outs \<and>
    (outs = [] \<or> solicits (msg_type msg)) \<and>
    (msg_type msg = MessageTypePing \<longrightarrow> length outs \<le> 1)"
proof -
  have "\<not> solicits (msg_type m) \<and> gm_lookup (p_peers p') (msg_from msg) = Some n" if "(n, m) \<in> set outs" for n m
    using handleMessage_out [OF assms that] by (auto simp: solicits_def message_types)
  moreover have "outs = [] \<or> solicits (msg_type msg)"
    using handleMessage_out [OF assms] by (cases outs) (auto simp: solicits_def)
  moreover have "length outs \<le> 1" if "msg_type msg = MessageTypePing"
    using assms that by (auto simp: handleMessage_def handlePing_def Let_def case_prod_beta split: option.splits)
  ultimately show ?thesis by (auto simp: list_all_iff)
qed

lemma send_syncs_infos:
  "map (\<lambda>(n, m). msg_node_info m) (snd (send_syncs now i t ns p)) = map Some (filter (\<lambda>n. n_id n \<noteq> i) ns)"
  by (induction ns arbitrary: p) (simp_all add: Let_def case_prod_beta sync_message_def)

text \<open>
  An accepted SYNC_REQUEST teaches the requester the whole table: it is answered with one SYNC for
  every peer known after the request was recorded, except the requester, and one for the local node.
\<close>

theorem sync_request_complete:
  assumes "proto_inv p" "msg_type msg = MessageTypeSyncRequest" "msg_node_info msg = Some k"
    and "n_id k = msg_from msg" "addPeer (Some k) p = (q, True)"
  shows "\<exists>p' outs. handleMessage net now msg p = Some (p', outs, None) \<and> p_peers p' = p_peers q \<and>
    map (\<lambda>(n, m). msg_node_info m) outs =
      map Some (filter (\<lambda>n. n_id n \<noteq> msg_from msg) (getPeers q) @ [p_local p])"
proof -
  have kl: "n_id k \<noteq> n_id (p_local p)" using assms(5) by (auto simp: addPeer_def split: if_splits)
  obtain t where t: "gm_lookup (p_peers q) (n_id k) = Some t"
    using assms(5) by (auto simp: addPeer_def Let_def split: if_splits option.splits)
  have loc: "p_local q = p_local p" using addPeer_local [OF assms(5)] by simp
  let ?r = "send_syncs now (msg_from msg) t (getPeers q @ [p_local q]) q"
  have "handleMessage net now msg p = Some (fst ?r, snd ?r, None)"
    using assms kl t by (simp add: handleMessage_def handleSync_def respondWithPeerList_def message_types case_prod_beta)
  moreover have "p_peers (fst ?r) = p_peers q" using send_syncs_routes by (simp add: same_routes_def)
  moreover have "map (\<lambda>(n, m). msg_node_info m) (snd ?r) =
      map Some (filter (\<lambda>n. n_id n \<noteq> msg_from msg) (getPeers q) @ [p_local p])"
    using kl assms(4) by (simp add: send_syncs_infos loc)
  ultimately show ?thesis by blast
qed

section \<open>The deduplication cache\<close>

lemma p_seen_generate [simp]: "p_seen (fst (generateMessageID now p)) = p_seen p"
  by (simp add: generateMessageID_def Let_def)

lemma p_seen_sync_message [simp]: "p_seen (fst (sync_message now n p)) = p_seen p"
  by (simp add: sync_message_def case_prod_beta)

lemma p_seen_send_syncs [simp]: "p_seen (fst (send_syncs now i t ns p)) = p_seen p"
  by (induction ns arbitrary: p) (simp_all add: Let_def case_prod_beta)

lemma p_seen_notify [simp]: "p_seen (fst (notify_loop now n ns p)) = p_seen p"
  by (induction ns arbitrary: p) (simp_all add: Let_def case_prod_beta)

lemma p_seen_addPeer: "addPeer node p = (p', ok) \<Longrightarrow> p_seen p' = p_seen p"
  by (erule addPeer_cases) simp_all

lemma p_seen_fst_addPeer [simp]: "p_seen (fst (addPeer node p)) = p_seen p"
  by (cases "addPeer node p") (simp add: p_seen_addPeer)

lemma p_seen_add_bootstrap [simp]: "p_seen (fst (add_bootstrap_peers ns seen p)) = p_seen p"
proof (induction ns arbitrary: seen p)
  case (Cons peer ns)
  then show ?case
    by (cases peer) (auto simp: p_seen_addPeer split: prod.splits bool.splits)
qed simp

lemma p_seen_bootstrap_loop [simp]: "p_seen (fst (bootstrap_loop http check ss seen ok p)) = p_seen p"
  by (induction ss arbitrary: seen ok p) (simp_all add: case_prod_beta split: option.split)

lemma p_seen_ping_loop [simp]: "p_seen (fst (ping_loop net now ns ev p)) = p_seen p"
  by (induction ns arbitrary: ev p) (simp_all add: Let_def case_prod_beta ping_message_def)

lemma p_seen_removes [simp]: "p_seen (fold removePeer ev p) = p_seen p"
  by (induction ev arbitrary: p) (simp_all add: removePeer_def)

lemma p_seen_bind [simp]: "p_seen (fold bind_root bs p) = p_seen p"
  by (induction bs arbitrary: p) (auto simp: bind_root_def Let_def split: prod.splits option.splits)

lemma p_seen_handleSync: "p_seen (fst (handleSync now msg p)) = p_seen p"
  by (auto simp: handleSync_def respondWithPeerList_def case_prod_beta p_seen_addPeer
      split: option.splits prod.splits bool.splits)

text \<open>Only these events touch the cache.\<close>

fun cache_event :: "proto_event \<Rightarrow> bool" where
  "cache_event (EvCleanup now) = True"
| "cache_event (EvMarkSeen now i) = True"
| "cache_event (EvBroadcast sh now msg) = True"
| "cache_event _ = False"

lemma p_seen_exec: "\<not> cache_event e \<Longrightarrow> p_seen (fst (proto_exec e p)) = p_seen p"
proof (cases e)
  case (EvMessage net now msg)
  then show ?thesis
    using p_seen_handleSync [of now msg p]
    by (auto simp: handleMessage_def handlePing_def handlePong_def case_prod_beta Let_def split: option.splits)
next
  case (EvJoin now req)
  then show ?thesis
    by (auto simp: HandleBootstrap_def notifyPeersAboutNewNode_def case_prod_beta p_seen_addPeer
        split: prod.splits bool.splits)
qed (simp_all add: Bootstrap_def pingPeers_def SetRootBindings_def performTopologySync_def case_prod_beta Let_def)

definition cleanup_by :: "gotime \<Rightarrow> proto_event \<Rightarrow> bool" where
  "cleanup_by T e = (case e of EvCleanup now \<Rightarrow> now \<le> T | _ \<Rightarrow> True)"

definition seen_until :: "gotime \<Rightarrow> string \<Rightarrow> Protocol \<Rightarrow> bool" where
  "seen_until T i p \<longleftrightarrow> gm_ok (p_seen p) \<and> gm_lookup (p_seen p) i = Some T"

lemma MarkSeen_below_cap:
  "length (p_seen p) < maxSeenMessages \<Longrightarrow> p_seen (fst (MarkSeen now i p)) =
     (if gm_lookup (p_seen p) i \<noteq> None then p_seen p else gm_update i (now + seenMessageTTL) (p_seen p))"
  by (simp add: MarkSeen_def)

lemma seen_until_MarkSeen:
  "seen_until T i p \<Longrightarrow> length (p_seen p) < maxSeenMessages \<Longrightarrow>
     seen_until T i (fst (MarkSeen now j p)) \<and> length (p_seen (fst (MarkSeen now j p))) \<le> Suc (length (p_seen p))"
  by (cases "j = i") (simp_all add: seen_until_def MarkSeen_below_cap length_gm_update)

lemma seen_until_exec:
  assumes "seen_until T i p" "cleanup_by T e" "length (p_seen p) < maxSeenMessages"
  shows "seen_until T i (fst (proto_exec e p)) \<and> length (p_seen (fst (proto_exec e p))) \<le> Suc (length (p_seen p))"
proof (cases "cache_event e")
  case False
  then show ?thesis using assms(1) by (simp add: p_seen_exec seen_until_def)
next
  case True
  have clean: "seen_until T i (cleanupSeenMessages now p) \<and> length (p_seen (cleanupSeenMessages now p)) \<le> length (p_seen p)"
    if "now \<le> T" for now
    using assms(1) that by (simp add: cleanupSeenMessages_def seen_until_def gm_lookup_filter)
  show ?thesis
  proof (cases e)
    case (EvBroadcast sh now msg)
    then show ?thesis using seen_until_MarkSeen [OF assms(1,3), of now "msg_id msg"] assms(1)
      by (simp add: BroadcastToEnclave_def Let_def)
  qed (use True assms clean seen_until_MarkSeen [OF assms(1,3)] in \<open>auto simp: cleanup_by_def intro: le_SucI\<close>)
qed

lemma seen_until_run:
  assumes "seen_until T i p" "list_all (cleanup_by T) es" "length (p_seen p) + length es \<le> maxSeenMessages"
  shows "seen_until T i (proto_run es p)"
  using assms
proof (induction es arbitrary: p)
  case (Cons e es)
  then have "seen_until T i (fst (proto_exec e p)) \<and> length (p_seen (fst (proto_exec e p))) \<le> Suc (length (p_seen p))"
    by (intro seen_until_exec) simp_all
  with Cons show ?case by simp
qed simp

text \<open>
  Duplicate suppression: once \<open>MarkSeen\<close> has accepted a message ID, every later \<open>MarkSeen\<close> of that
  ID reports a duplicate, whatever happens in between, as long as the cleaning runs that happen are
  not later than the entry's time to live and the cache stays below its capacity.
\<close>

theorem seen_within_ttl:
  assumes "gm_ok (p_seen p)" "MarkSeen now i p = (q, False)"
    and "list_all (cleanup_by (now + seenMessageTTL)) es"
    and "length (p_seen p) + length es < maxSeenMessages"
  shows "MarkSeen later i (proto_run es q) = (proto_run es q, True)"
proof -
  have new: "gm_lookup (p_seen p) i = None" using assms(2) by (auto simp: MarkSeen_def split: if_splits)
  have q: "p_seen q = gm_update i (now + seenMessageTTL) (p_seen p)"
    using MarkSeen_below_cap [of p now i] assms(2,4) new by simp
  have "seen_until (now + seenMessageTTL) i (proto_run es q)"
    using assms(1,3,4) new by (intro seen_until_run) (simp_all add: seen_until_def q length_gm_update)
  then show ?thesis by (simp add: MarkSeen_def seen_until_def)
qed

lemma foldl_min:
  fixes m :: gotime
  shows "foldl (\<lambda>e (i, x). if x < e then x else e) m xs \<le> m \<and>
    (\<forall>(i, x) \<in> set xs. foldl (\<lambda>e (i, x). if x < e then x else e) m xs \<le> x) \<and>
    (foldl (\<lambda>e (i, x). if x < e then x else e) m xs = m \<or>
     foldl (\<lambda>e (i, x). if x < e then x else e) m xs \<in> snd ` set xs)"
proof (induction xs arbitrary: m)
  case (Cons a xs)
  obtain i x where "a = (i, x)" by (cases a)
  then show ?case using Cons.IH [of "if x < m then x else m"] by (auto split: if_splits)
qed simp

lemma midpoint_drops:
  assumes "(j, x) \<in> set seen" "x \<le> now + seenMessageTTL - 2"
  shows "\<exists>y \<in> set seen. snd y < seen_midpoint now seen"
proof -
  let ?e = "foldl (\<lambda>e (i, x). if x < e then x else e) (now + seenMessageTTL) seen"
  note mn = foldl_min [of "now + seenMessageTTL" seen]
  have "?e \<le> x" using mn assms(1) by blast
  then have le: "?e + 2 \<le> now + seenMessageTTL" using assms(2) by simp
  then have "?e \<in> snd ` set seen" using mn by auto
  then obtain y where y: "y \<in> set seen" "snd y = ?e" by auto
  have "1 \<le> go_quot (now + seenMessageTTL - ?e) 2"
    using le by (simp add: go_quot_nonneg)
  then show ?thesis using y by (intro bexI [of _ y]) (simp_all add: seen_midpoint_def Let_def)
qed

text \<open>
  The cache stays within its capacity: when it is full, a call that makes room for a new ID drops
  at least one entry, provided some entry is at least two nanoseconds older than a fresh one.
\<close>

theorem seen_cache_bounded:
  assumes "length (p_seen p) \<le> maxSeenMessages"
    and "length (p_seen p) = maxSeenMessages \<Longrightarrow> \<exists>(j, x) \<in> set (p_seen p). x \<le> now + seenMessageTTL - 2"
  shows "length (p_seen (fst (MarkSeen now i p))) \<le> maxSeenMessages"
proof (cases "gm_lookup (p_seen p) i = None \<and> length (p_seen p) = maxSeenMessages")
  case True
  let ?live = "filter (\<lambda>(i, expiry). \<not> expiry < now) (p_seen p)"
  have "length (p_seen (evictSeenLocked now p)) < maxSeenMessages"
  proof (cases "length ?live \<ge> maxSeenMessages")
    case full: True
    then have all: "?live = p_seen p"
      using True by (metis (no_types, lifting) filter_id_conv le_antisym length_filter_le length_filter_less linorder_not_le)
    obtain j x where "(j, x) \<in> set (p_seen p)" "x \<le> now + seenMessageTTL - 2" using assms(2) True by auto
    then obtain y where "y \<in> set (p_seen p)" "snd y < seen_midpoint now (p_seen p)" using midpoint_drops by blast
    then have "length (filter (\<lambda>(i, expiry). \<not> expiry < seen_midpoint now (p_seen p)) (p_seen p)) < length (p_seen p)"
      by (intro length_filter_less [of y]) auto
    then show ?thesis using True full all by (simp add: evictSeenLocked_def Let_def)
  qed (simp add: evictSeenLocked_def Let_def)
  then show ?thesis using True by (simp add: MarkSeen_def Let_def length_gm_update)
next
  case False
  then show ?thesis using assms(1) by (auto simp: MarkSeen_def Let_def length_gm_update)
qed

text \<open>Without that proviso the cap does not hold: when all entries of a full cache carry the expiry a new
  entry would get, nothing is dropped.\<close>

lemma seen_cache_overflows:
  assumes "gm_lookup (p_seen p) i = None" "length (p_seen p) = maxSeenMessages"
    and fresh: "\<And>j x. (j, x) \<in> set (p_seen p) \<Longrightarrow> x = now + seenMessageTTL"
  shows "length (p_seen (fst (MarkSeen now i p))) = Suc maxSeenMessages"
proof -
  have live: "filter (\<lambda>(i, expiry). \<not> expiry < now) (p_seen p) = p_seen p"
    by (rule filter_True) (auto dest!: fresh simp: seenMessageTTL_def nsec_def)
  have "foldl (\<lambda>e (i, x). if x < e then x else e) (now + seenMessageTTL) (p_seen p) = now + seenMessageTTL"
    using foldl_min [of "now + seenMessageTTL" "p_seen p"] fresh by auto
  then have "seen_midpoint now (p_seen p) = now + seenMessageTTL" by (simp add: seen_midpoint_def go_quot_def Let_def)
  then have "filter (\<lambda>(i, expiry). \<not> expiry < seen_midpoint now (p_seen p)) (p_seen p) = p_seen p"
    by (intro filter_True) (auto dest!: fresh)
  then have "p_seen (evictSeenLocked now p) = p_seen p"
    using assms(2) live by (simp add: evictSeenLocked_def Let_def)
  then show ?thesis using assms(1,2) by (simp add: MarkSeen_def Let_def length_gm_update)
qed

section \<open>Fan-out\<close>

lemma ceil_sqrt_from_bounds:
  "(k = 0 \<or> (k - 1) * (k - 1) < n) \<Longrightarrow>
     n \<le> ceil_sqrt_from k n * ceil_sqrt_from k n \<and>
     (ceil_sqrt_from k n = 0 \<or> (ceil_sqrt_from k n - 1) * (ceil_sqrt_from k n - 1) < n)"
proof (induction k n rule: ceil_sqrt_from.induct)
  case (1 k n)
  then show ?case by (cases "n \<le> k * k") (simp_all add: ceil_sqrt_from.simps [of k n])
qed

lemma fanoutSize_bounds:
  assumes "0 < n"
  shows "n \<le> fanoutSize n * fanoutSize n \<and> (fanoutSize n - 1) * (fanoutSize n - 1) < n \<and>
    1 \<le> fanoutSize n \<and> fanoutSize n \<le> n"
proof -
  let ?f = "ceil_sqrt_from 0 n"
  have b: "n \<le> ?f * ?f" "?f = 0 \<or> (?f - 1) * (?f - 1) < n" using ceil_sqrt_from_bounds [of 0 n] by auto
  then have f: "1 \<le> ?f" using assms by (cases ?f) simp_all
  have "?f \<le> n"
  proof (rule ccontr)
    assume "\<not> ?f \<le> n"
    then have "n \<le> ?f - 1" by simp
    moreover have "?f - 1 \<le> (?f - 1) * (?f - 1)" by (cases "?f - 1") simp_all
    ultimately show False using b f by linarith
  qed
  with b f show ?thesis using assms by (simp add: fanoutSize_def Let_def)
qed

lemma replication_distinct: "proto_inv p \<Longrightarrow> distinct (GetReplicationPeers p)"
  using getPeers_distinct [of p] unfolding GetReplicationPeers_def getPeers_def
  by (metis distinct_filter distinct_map)

lemma select_spec:
  assumes "permutes_lists sh" "distinct ns" "k \<le> length (filter (\<lambda>n. n_id n \<noteq> i) ns)"
  shows "distinct (selectRandomPeers sh ns k i) \<and> length (selectRandomPeers sh ns k i) = k \<and>
    set (selectRandomPeers sh ns k i) \<subseteq> {n \<in> set ns. n_id n \<noteq> i}"
  using assms permutes_length [OF assms(1)] permutes_distinct [OF assms(1)] permutes_set [OF assms(1)]
  by (auto simp: selectRandomPeers_def Let_def dest!: in_set_takeD)

text \<open>
  An enclave broadcast never leaves the enclave and never repeats a receiver. Up to
  \<open>FanoutThreshold\<close> peers all of them receive the message; above it exactly the square root of their
  number, rounded up, do. The originator marks its own message as seen.
\<close>

theorem broadcast_targets:
  assumes "proto_inv p" "permutes_lists sh" "p_transport_set p"
    and "BroadcastToEnclave sh now msg p = (q, outs, err)"
    and "peers = filter (\<lambda>n. n_enclave n = n_enclave (p_local p)) (getPeers p)"
  shows "err = None \<and> distinct (map fst outs) \<and> set (map fst outs) \<subseteq> set peers \<and> set (map snd outs) \<subseteq> {msg} \<and>
    length outs = (if length peers \<le> FanoutThreshold then length peers else fanoutSize (length peers)) \<and>
    gm_lookup (p_seen q) (msg_id msg) \<noteq> None"
proof -
  let ?q = "fst (MarkSeen now (msg_id msg) p)"
  have inv: "proto_inv ?q" by (rule proto_inv_routes [OF MarkSeen_routes assms(1)])
  have peers: "GetReplicationPeers ?q = peers"
    using MarkSeen_routes [of p now "msg_id msg"] assms(5)
    by (simp add: same_routes_def GetReplicationPeers_def getPeers_def)
  have d: "distinct peers" using replication_distinct [OF inv] peers by simp
  have ne: "n_id n \<noteq> []" if "n \<in> set peers" for n
  proof -
    have "known_to ?q n" using known_replication [OF inv, of n] that peers by simp
    from known_peer_ok [OF inv this] show ?thesis by (simp add: peer_ok_def)
  qed
  have sel: "distinct (selectRandomPeers sh peers (fanoutSize (length peers)) []) \<and>
      length (selectRandomPeers sh peers (fanoutSize (length peers)) []) = fanoutSize (length peers) \<and>
      set (selectRandomPeers sh peers (fanoutSize (length peers)) []) \<subseteq> set peers" if "peers \<noteq> []"
  proof -
    have "filter (\<lambda>n. n_id n \<noteq> []) peers = peers" using ne by (intro filter_True) blast
    then have "fanoutSize (length peers) \<le> length (filter (\<lambda>n. n_id n \<noteq> []) peers)"
      using fanoutSize_bounds [of "length peers"] that by simp
    from select_spec [OF assms(2) d this] show ?thesis by blast
  qed
  have "gm_lookup (p_seen ?q) (msg_id msg) \<noteq> None" by (simp add: MarkSeen_def Let_def)
  moreover have "q = ?q" "err = None" using assms(3,4) by (auto simp: BroadcastToEnclave_def Let_def split: if_splits)
  moreover have "distinct (map fst outs) \<and> set (map fst outs) \<subseteq> set peers \<and> set (map snd outs) \<subseteq> {msg} \<and>
      length outs = (if length peers \<le> FanoutThreshold then length peers else fanoutSize (length peers))"
  proof -
    let ?ts = "if length peers \<le> FanoutThreshold then peers
               else selectRandomPeers sh peers (fanoutSize (length peers)) []"
    have o: "outs = map (\<lambda>n. (n, msg)) ?ts"
      using assms(3,4) by (simp add: BroadcastToEnclave_def Let_def peers split: if_splits)
    have "distinct ?ts \<and> set ?ts \<subseteq> set peers \<and> length ?ts =
        (if length peers \<le> FanoutThreshold then length peers else fanoutSize (length peers))"
      using d sel by (cases "peers = []") simp_all
    then show ?thesis unfolding o by (auto simp: o_def)
  qed
  ultimately show ?thesis by blast
qed

section \<open>Eviction\<close>

lemma unreachable_fails:
  assumes "proto_inv p" "pingPeers net now p = (p', outs)" "gm_lookup (p_peers p) i = Some n" "\<And>m. \<not> net n m"
  shows "ping_failed net outs i"
proof -
  have "n_id n = i" using proto_inv_peer [OF assms(1,3)] by (simp add: peer_ok_def)
  then have "n \<in> set (getPeers p)" using assms(1,3) getPeers_iff by blast
  then have "n \<in> fst ` set outs" using pingPeers_spec(1) [OF assms(1,2)] by (metis list.set_map)
  then obtain m where "(n, m) \<in> set outs" by auto
  then show ?thesis using assms(4) \<open>n_id n = i\<close> by (auto simp: ping_failed_def list_ex_iff)
qed

lemma ping_strike:
  assumes "proto_inv p" "gm_lookup (p_peers p) i = Some n" "\<And>m. \<not> net n m" "PeerFailureCount i p = k"
  shows "gm_lookup (p_peers (fst (pingPeers net now p))) i = (if k + 1 \<ge> MaxPingFailures then None else Some n) \<and>
    PeerFailureCount i (fst (pingPeers net now p)) = (if k + 1 \<ge> MaxPingFailures then 0 else k + 1)"
proof -
  obtain p' outs where r: "pingPeers net now p = (p', outs)" by (cases "pingPeers net now p")
  have f: "ping_failed net outs i" by (rule unreachable_fails [OF assms(1) r assms(2,3)])
  then have "gm_lookup (p_failures p') i = (if k + 1 \<ge> MaxPingFailures then None else Some (k + 1))"
    using pingPeers_spec(5) [OF assms(1) r, of i] assms(4) by simp
  moreover have "gm_lookup (p_peers p') i = (if k + 1 \<ge> MaxPingFailures then None else Some n)"
    using pingPeers_spec(4) [OF assms(1) r, of i] assms(2,4) f by simp
  ultimately show ?thesis by (simp add: r PeerFailureCount_def)
qed

text \<open>
  C26. A peer that never answers is evicted by the third round of pings and not before: from a clear
  failure counter, with every ping to it failing, the peer is still in the table after two rounds and
  gone, together with its counter, after three, whatever the network does with other peers.
\<close>

theorem three_strikes:
  assumes "proto_inv p" "gm_lookup (p_peers p) i = Some n" "PeerFailureCount i p = 0"
    and "\<And>m. \<not> net1 n m" "\<And>m. \<not> net2 n m" "\<And>m. \<not> net3 n m"
    and "p2 = proto_run [EvPing net1 t1, EvPing net2 t2] p"
  shows "gm_lookup (p_peers p2) i = Some n \<and> PeerFailureCount i p2 = 2 \<and>
    gm_lookup (p_peers (proto_run [EvPing net3 t3] p2)) i = None \<and>
    PeerFailureCount i (proto_run [EvPing net3 t3] p2) = 0"
proof -
  let ?p1 = "fst (pingPeers net1 t1 p)"
  have s1: "gm_lookup (p_peers ?p1) i = Some n \<and> PeerFailureCount i ?p1 = 1"
    using ping_strike [of p i n net1 0 t1] assms(1-4) by (simp add: MaxPingFailures_def)
  have inv1: "proto_inv ?p1" by (rule pingPeers_inv [OF assms(1)])
  have p2: "p2 = fst (pingPeers net2 t2 ?p1)" using assms(7) by simp
  have s2: "gm_lookup (p_peers p2) i = Some n \<and> PeerFailureCount i p2 = 2"
    using ping_strike [of ?p1 i n net2 1 t2] inv1 assms(5) s1 by (simp add: p2 MaxPingFailures_def)
  have inv2: "proto_inv p2" unfolding p2 by (rule pingPeers_inv [OF inv1])
  from ping_strike [of p2 i n net3 2 t3] inv2 assms(6) s2 show ?thesis by (simp add: MaxPingFailures_def)
qed

section \<open>A concrete protocol\<close>

text \<open>Three nodes with addresses \<open>n1\<close>, \<open>n2\<close>, \<open>n3\<close>; the first is the local one.\<close>

definition ex_node :: "string \<Rightarrow> Node" where
  "ex_node i = \<lparr>n_id = i, n_address = i, n_port = 7000, n_http_port = 8080, n_http_origin = [],
     n_enclave = ''default''\<rparr>"

definition ex_proto :: Protocol where
  "ex_proto = NewProtocol (ex_node ''n1'') 3 []"

definition ex_msg :: "MessageType \<Rightarrow> string \<Rightarrow> Message" where
  "ex_msg t i = blank_message\<lparr>msg_type := t, msg_from := i, msg_node_info := Some (ex_node i)\<rparr>"

definition ex_binding :: "string \<Rightarrow> PeerBinding" where
  "ex_binding i = \<lparr>pb_origin = ''http://'' @ i @ '':8080'', pb_enclave = ''default''\<rparr>"

definition ex_up :: network where
  "ex_up n m = True"

definition ex_down :: network where
  "ex_down n m = False"

lemma ex_names: "name_ok ''n1'' \<and> name_ok ''n2'' \<and> name_ok ''n3''"
  by code_simp

lemma ex_Origin: "name_ok i \<Longrightarrow> Origin (ex_node i) = Some (''http://'' @ i @ '':8080'')"
  using Normalize_host_port [of i 8080] by (simp add: Origin_def ex_node_def Itoa_8080)

lemma ex_enclave [simp]: "(ex_node i)\<lparr>n_enclave := default_enclave ''default''\<rparr> = ex_node i"
  by (simp add: ex_node_def default_enclave_def)

lemma ex_simps [simp]: "n_id (ex_node i) = i" "n_enclave (ex_node i) = ''default''" "p_local ex_proto = ex_node ''n1''"
  "p_peers ex_proto = []" "p_root_bindings ex_proto = []" "p_failures ex_proto = []" "p_seen ex_proto = []"
  by (simp_all add: ex_node_def ex_proto_def NewProtocol_def)

lemma ex_addPeer:
  assumes "name_ok i" "i \<noteq> n_id (p_local p)" "gm_lookup (p_peers p) i = None" "gm_lookup (p_root_bindings p) i = None"
  shows "addPeer (Some (ex_node i)) p =
    (p\<lparr>p_peers := gm_update i (ex_node i) (p_peers p), p_failures := gm_delete i (p_failures p)\<rparr>, True)"
  using assms ex_Origin [OF assms(1)] by (simp add: addPeer_def name_ok_def Let_def)

lemma ex_sync_step:
  "proto_exec (EvMessage ex_up 5 (ex_msg MessageTypeSync ''n2'')) ex_proto =
     (ex_proto\<lparr>p_peers := [(''n2'', ex_node ''n2'')]\<rparr>, [])"
  using ex_names ex_addPeer [of "''n2''" ex_proto]
  by (simp add: handleMessage_def handleSync_def ex_msg_def message_types gm_update_def gm_delete_def)

lemmas ex_defs = ex_msg_def ex_up_def ex_down_def ex_binding_def

definition ex_two :: Protocol where
  "ex_two = ex_proto\<lparr>p_peers := [(''n2'', ex_node ''n2'')]\<rparr>"

lemma ex_two_run: "proto_run [EvMessage ex_up 5 (ex_msg MessageTypeSync ''n2'')] ex_proto = ex_two"
  unfolding proto_run_simps ex_sync_step ex_two_def by simp

lemma ex_two_simps [simp]: "p_peers ex_two = [(''n2'', ex_node ''n2'')]" "p_local ex_two = ex_node ''n1''"
  "p_failures ex_two = []" "p_root_bindings ex_two = []" "p_seen ex_two = []"
  by (simp_all add: ex_two_def)

lemma ex_two_inv: "proto_inv ex_two"
  unfolding ex_two_run [symmetric] ex_proto_def by (rule proto_run_inv) (simp_all add: proto_inv_New)

theorem peer_table_sound_witness:
  "gm_lookup (p_peers ex_two) ''n2'' = Some (ex_node ''n2'') \<and> ''n2'' \<noteq> n_id (p_local ex_two) \<and>
   Origin (ex_node ''n2'') \<noteq> None \<and> PeerFailureCount ''n2'' ex_two < MaxPingFailures"
  using peer_table_sound [of "[EvMessage ex_up 5 (ex_msg MessageTypeSync ''n2'')]" ex_two "ex_node ''n1''" 3 "[]"
      "''n2''" "ex_node ''n2''"] ex_two_run
  by (simp add: ex_proto_def)

theorem unsigned_never_reroutes_witness:
  "gm_lookup (p_peers (proto_run [EvMessage ex_up 6 (ex_msg MessageTypeSync ''n2''), EvTopology 7] ex_two)) ''n2''
     = Some (ex_node ''n2'')"
  using unsigned_never_reroutes [of "[EvMessage ex_up 6 (ex_msg MessageTypeSync ''n2''), EvTopology 7]" ex_two
      "''n2''" "ex_node ''n2''"] by simp

theorem sends_follow_signed_routes_witness:
  "map fst (snd (proto_exec (EvPing ex_up 9) ex_two)) = [ex_node ''n2''] \<and> known_to ex_two (ex_node ''n2'') \<and>
   n_id (ex_node ''n2'') \<noteq> n_id (ex_node ''n1'')"
proof -
  obtain q m where o: "proto_exec (EvPing ex_up 9) ex_two = (q, [(ex_node ''n2'', m)])"
    by (simp add: pingPeers_def getPeers_def ping_message_def generateMessageID_def ex_up_def Let_def)
  then show ?thesis
    using sends_follow_signed_routes [of "[EvMessage ex_up 5 (ex_msg MessageTypeSync ''n2'')]" ex_two "ex_node ''n1''"
        3 "[]" "EvPing ex_up 9" "ex_node ''n2''" m] ex_two_run
    by (simp add: ex_proto_def known_to_def)
qed

theorem replies_never_solicit_witness:
  "\<exists>p' outs. handleMessage ex_up 9 (ex_msg MessageTypePing ''n2'') ex_two = Some (p', outs, None) \<and>
     map (\<lambda>(n, m). (n_id n, msg_type m)) outs = [(''n2'', MessageTypePong)] \<and> length outs \<le> 1 \<and>
     (outs = [] \<or> solicits (msg_type (ex_msg MessageTypePing ''n2'')))"
proof -
  obtain p' outs where h: "handleMessage ex_up 9 (ex_msg MessageTypePing ''n2'') ex_two = Some (p', outs, None)"
    and o: "map (\<lambda>(n, m). (n_id n, msg_type m)) outs = [(''n2'', MessageTypePong)]"
    by (simp add: handleMessage_def handlePing_def generateMessageID_def Let_def ex_defs blank_message_def)
  show ?thesis using replies_never_solicit [OF h] h o by (auto simp: ex_msg_def)
qed

theorem sync_request_complete_witness:
  "\<exists>p' outs. handleMessage ex_up 9 (ex_msg MessageTypeSyncRequest ''n3'') ex_two = Some (p', outs, None) \<and>
     map (\<lambda>(n, m). msg_node_info m) outs = [Some (ex_node ''n2''), Some (ex_node ''n1'')]"
proof -
  let ?q = "ex_two\<lparr>p_peers := gm_update ''n3'' (ex_node ''n3'') (p_peers ex_two), p_failures := gm_delete ''n3'' (p_failures ex_two)\<rparr>"
  have q: "addPeer (Some (ex_node ''n3'')) ex_two = (?q, True)" using ex_names by (intro ex_addPeer) simp_all
  have "getPeers ?q = [ex_node ''n2'', ex_node ''n3'']" by (simp add: getPeers_def gm_update_def)
  then show ?thesis
    using sync_request_complete [OF ex_two_inv _ _ _ q, of "ex_msg MessageTypeSyncRequest ''n3''" ex_up 9]
    by (auto simp: ex_msg_def)
qed

theorem seen_within_ttl_witness:
  "MarkSeen 90 ''a'' (proto_run [EvMarkSeen 20 ''b'', EvCleanup 50] (fst (MarkSeen 10 ''a'' ex_two)))
     = (proto_run [EvMarkSeen 20 ''b'', EvCleanup 50] (fst (MarkSeen 10 ''a'' ex_two)), True)"
proof -
  obtain q where q: "MarkSeen 10 ''a'' ex_two = (q, False)" by (simp add: MarkSeen_def Let_def)
  show ?thesis
    using seen_within_ttl [of ex_two 10 "''a''" q "[EvMarkSeen 20 ''b'', EvCleanup 50]" 90] q
    by (simp add: cleanup_by_def seenMessageTTL_def nsec_def maxSeenMessages_def)
qed

theorem seen_cache_bounded_witness:
  "length (p_seen (fst (MarkSeen 10 ''a'' ex_two))) \<le> maxSeenMessages"
  using seen_cache_bounded [of ex_two 10 "''a''"] by (simp add: maxSeenMessages_def)

definition ex_ready :: Protocol where
  "ex_ready = SetTransport ex_two"

theorem broadcast_targets_witness:
  "map fst (fst (snd (BroadcastToEnclave id 10 (ex_msg MessageTypePut ''n1'') ex_ready))) = [ex_node ''n2''] \<and>
   length (fst (snd (BroadcastToEnclave id 10 (ex_msg MessageTypePut ''n1'') ex_ready))) = 1"
proof -
  obtain q outs err where b: "BroadcastToEnclave id 10 (ex_msg MessageTypePut ''n1'') ex_ready = (q, outs, err)"
    by (cases "BroadcastToEnclave id 10 (ex_msg MessageTypePut ''n1'') ex_ready")
  have inv: "proto_inv ex_ready"
    using ex_two_inv proto_inv_routes [of ex_two ex_ready]
    by (simp add: same_routes_def ex_ready_def SetTransport_def)
  have "length outs = 1 \<and> set (map fst outs) \<subseteq> {ex_node ''n2''}"
    using broadcast_targets [OF inv _ _ b refl]
    by (simp add: permutes_lists_def ex_ready_def SetTransport_def getPeers_def FanoutThreshold_def)
  then show ?thesis unfolding b by (cases outs) auto
qed

theorem three_strikes_witness:
  "gm_lookup (p_peers (proto_run [EvPing ex_down 1, EvPing ex_down 2] ex_two)) ''n2'' = Some (ex_node ''n2'') \<and>
   gm_lookup (p_peers (proto_run [EvPing ex_down 3] (proto_run [EvPing ex_down 1, EvPing ex_down 2] ex_two))) ''n2'' = None"
  using three_strikes [OF ex_two_inv, of "''n2''" "ex_node ''n2''" ex_down ex_down ex_down _ 1 2 3]
  by (simp add: ex_down_def PeerFailureCount_def)

end
