(* ===== verification/Tree_Facts.thy ===== *)
theory Tree_Facts
  imports Tree Gossip_Facts
begin

text \<open>Facts about the substrate tree: capacity, enclave isolation of children, redirects, routing of
  acknowledgements, and reattachment.\<close>

section \<open>Capacity\<close>

datatype tree_event =
    TmConnect conn_id string
  | TmHello gotime "Node list" conn_id HelloPayload
  | TmChildClosed string conn_id
  | TmRecord bool string conn_id
  | TmTimer timer_id
  | TmClear bool string
  | TmAttach attach_outcome conn_id
  | TmParentGoodbye conn_id
  | TmParentClosed conn_id
  | TmReattach "cycle list" "AlternativeParent list"
  | TmStop "Node list"

fun tree_exec :: "tree_event \<Rightarrow> Manager \<Rightarrow> Manager" where
  "tree_exec (TmConnect c secret) m = m\<lparr>tm_conns := gm_update c (NewConnection secret) (tm_conns m)\<rparr>"
| "tree_exec (TmHello now peers c hello) m = fst (HandleHello now peers c hello m)"
| "tree_exec (TmChildClosed i c) m = child_closed i c m"
| "tree_exec (TmRecord stopped mid c) m = RecordAckRoute stopped mid c m"
| "tree_exec (TmTimer t) m = ack_timer_fires t m"
| "tree_exec (TmClear stopped mid) m = ClearAckRoute stopped mid m"
| "tree_exec (TmAttach r c) m = fst (attach r c m)"
| "tree_exec (TmParentGoodbye c) m = fst (parent_goodbye c m)"
| "tree_exec (TmParentClosed c) m = fst (parent_closed c m)"
| "tree_exec (TmReattach cys supplied) m = fst (reattachLoop cys supplied ReattachBackoffInitial m)"
| "tree_exec (TmStop peers) m = fst (Stop peers m)"

definition tree_run :: "tree_event list \<Rightarrow> Manager \<Rightarrow> Manager" where
  "tree_run es m = fold tree_exec es m"

definition tree_inv :: "Manager \<Rightarrow> bool" where
  "tree_inv m \<longleftrightarrow> gm_ok (tm_children m) \<and>
     (0 \<le> tm_max_children m \<longrightarrow> int (length (tm_children m)) \<le> tm_max_children m)"

text \<open>What the transient side leaves alone.\<close>

definition same_children :: "Manager \<Rightarrow> Manager \<Rightarrow> bool" where
  "same_children m m' \<longleftrightarrow> tm_children m' = tm_children m \<and> tm_max_children m' = tm_max_children m \<and>
     tm_local m' = tm_local m"

lemma same_children_refl [simp]: "same_children m m"
  by (simp add: same_children_def)

lemma same_children_trans: "same_children a b \<Longrightarrow> same_children b c \<Longrightarrow> same_children a c"
  by (simp add: same_children_def)

lemma with_conn_fields [simp]:
  "tm_children (with_conn c f m) = tm_children m" "tm_max_children (with_conn c f m) = tm_max_children m"
  "tm_local (with_conn c f m) = tm_local m" "tm_stopping (with_conn c f m) = tm_stopping m"
  "tm_parent (with_conn c f m) = tm_parent m" "tm_alts (with_conn c f m) = tm_alts m"
  "tm_routes (with_conn c f m) = tm_routes m" "tm_in_flight (with_conn c f m) = tm_in_flight m"
  by (simp_all add: with_conn_def split: option.split)

lemma with_conn_lookup:
  "gm_lookup (tm_conns (with_conn c f m)) i = (if i = c then map_option f (gm_lookup (tm_conns m) c) else gm_lookup (tm_conns m) i)"
  by (simp add: with_conn_def split: option.split)

lemma attach_children: "same_children m (fst (attach r c m))"
  by (simp add: attach_def same_children_def Let_def case_prod_beta split: attach_outcome.split)

lemma attach_stopping [simp]: "tm_stopping (fst (attach r c m)) = tm_stopping m"
  by (simp add: attach_def Let_def case_prod_beta split: attach_outcome.split)

lemma triggerReattach_children: "same_children m (fst (triggerReattach m))"
  by (simp add: triggerReattach_def same_children_def)

lemma parent_closed_children: "same_children m (fst (parent_closed c m))"
  by (simp add: parent_closed_def triggerReattach_def same_children_def)

lemma try_children: "same_children m (fst (tryAlternatives env alts m))"
proof (induction alts arbitrary: m)
  case (Cons alt alts)
  show ?case
  proof (cases "at_dial (env alt)")
    case None
    then show ?thesis using Cons by (simp add: case_prod_beta)
  next
    case (Some c)
    obtain m1 effs w where a: "attach (at_outcome (env alt)) c m = (m1, effs, w)"
      by (cases "attach (at_outcome (env alt)) c m")
    have m1: "same_children m m1" using attach_children [of m "at_outcome (env alt)" c] a by simp
    have "same_children m (with_conn c f m1)" for f using m1 by (simp add: same_children_def)
    then have "same_children m (fst (tryAlternatives env alts (with_conn c closeWith m1)))"
      using Cons.IH same_children_trans by blast
    moreover have "same_children m (fst (tryAlternatives env alts (fst (parent_closed c m1))))"
      using Cons.IH same_children_trans parent_closed_children m1 by blast
    moreover have "same_children m (with_conn c StartHeartbeat m1)" using m1 by (simp add: same_children_def)
    ultimately show ?thesis using Some a Cons.IH by (simp add: case_prod_beta split: option.split)
  qed
qed simp

lemma cycle_children: "same_children m (fst (reattach_cycle cy supplied m))"
proof -
  let ?r1 = "tryAlternatives (cy_supplied cy) supplied m"
  let ?r2 = "tryAlternatives (cy_cached cy) (tm_alts (fst ?r1)) (fst ?r1)"
  have 1: "same_children m (fst ?r1)" by (rule try_children)
  have 2: "same_children m (fst ?r2)" by (rule same_children_trans [OF 1 try_children])
  have 3: "same_children m (fst (tryAlternatives (cy_seed cy) l (fst ?r2)))" for l
    by (rule same_children_trans [OF 2 try_children])
  show ?thesis
    unfolding reattach_cycle_def using 1 2 3 by (simp add: case_prod_beta Let_def split: bool.split)
qed

lemma loop_children: "same_children m (fst (reattachLoop cys supplied b m))"
proof (induction cys arbitrary: supplied b m)
  case (Cons cy cys)
  have c: "same_children m (fst (reattach_cycle cy supplied m))" by (rule cycle_children)
  have "same_children m (fst (reattachLoop cys s b' (fst (reattach_cycle cy supplied m))))" for s b'
    by (rule same_children_trans [OF c Cons.IH])
  with c show ?case by (simp add: case_prod_beta Let_def split: bool.split)
qed simp

lemma tree_inv_same: "same_children m m' \<Longrightarrow> tree_inv m \<Longrightarrow> tree_inv m'"
  by (simp add: tree_inv_def same_children_def)

lemma tree_inv_hello: "tree_inv m \<Longrightarrow> tree_inv (fst (HandleHello now peers c hello m))"
  by (auto simp: HandleHello_def Let_def tree_inv_def length_gm_update)

lemma tree_inv_exec: "tree_inv m \<Longrightarrow> tree_inv (tree_exec e m)"
proof (cases e)
  case (TmChildClosed i c)
  assume "tree_inv m"
  then show ?thesis using TmChildClosed length_gm_delete [of i "tm_children m"]
    by (auto simp: tree_inv_def child_closed_def)
next
  case (TmHello now peers c hello)
  then show "tree_inv m \<Longrightarrow> ?thesis" using tree_inv_hello by simp
next
  case (TmReattach cys supplied)
  then show "tree_inv m \<Longrightarrow> ?thesis" using tree_inv_same [OF loop_children] by simp
next
  case (TmAttach r c)
  then show "tree_inv m \<Longrightarrow> ?thesis" using tree_inv_same [OF attach_children] by simp
qed (auto simp: tree_inv_def RecordAckRoute_def ack_timer_fires_def ClearAckRoute_def
      parent_goodbye_def parent_closed_def triggerReattach_def Stop_def Let_def split: option.split)

lemma tree_inv_run: "tree_inv m \<Longrightarrow> tree_inv (tree_run es m)"
  unfolding tree_run_def by (induction es arbitrary: m) (simp_all add: tree_inv_exec)

lemma tree_exec_max: "tm_max_children (tree_exec e m) = tm_max_children m"
proof (cases e)
  case (TmReattach cys supplied)
  then show ?thesis using loop_children [of m cys supplied ReattachBackoffInitial] by (simp add: same_children_def)
next
  case (TmAttach r c)
  then show ?thesis using attach_children [of m r c] by (simp add: same_children_def)
qed (auto simp: HandleHello_def child_closed_def RecordAckRoute_def ack_timer_fires_def ClearAckRoute_def
      parent_goodbye_def parent_closed_def triggerReattach_def Stop_def Let_def split: option.split)

text \<open>
  A substrate never holds more attachments than configured: in every run, with a positive limit at
  most that many children are registered, with limit zero none at all. Each child is registered once.
\<close>

theorem children_within_capacity:
  assumes "m = tree_run es (NewManager local inbound n)" "0 \<le> n"
  shows "int (length (tm_children m)) \<le> n \<and> distinct (map fst (tm_children m))"
proof -
  have "tree_inv (NewManager local inbound n)" using assms(2) by (simp add: tree_inv_def NewManager_def)
  then have "tree_inv m" using tree_inv_run assms(1) by blast
  moreover have "tm_max_children (tree_run es k) = tm_max_children k" for k
    unfolding tree_run_def by (induction es arbitrary: k) (simp_all add: tree_exec_max)
  then have "tm_max_children m = n" using assms(1) by (simp add: NewManager_def)
  ultimately show ?thesis using assms(2) by (simp add: tree_inv_def gm_ok_def)
qed

section \<open>Enclave isolation\<close>

lemma broadcast_eq:
  "BroadcastToChildren msg m =
     map (\<lambda>(i, c). SendPayload c (gossipTypeFor (msg_type msg)) (PGossip msg))
       (filter (\<lambda>(i, c). conn_enclave c m = n_enclave (tm_local m)) (tm_children m))"
proof -
  have "List.map_filter (\<lambda>(i, c). if conn_enclave c m \<noteq> n_enclave (tm_local m) then None else Some (g c)) xs =
      map (\<lambda>(i, c). g c) (filter (\<lambda>(i, c). conn_enclave c m = n_enclave (tm_local m)) xs)" for g :: "conn_id \<Rightarrow> tree_effect" and xs :: "(string \<times> conn_id) list"
    by (induction xs) (auto simp: map_filter_simps)
  then show ?thesis by (simp add: BroadcastToChildren_def)
qed

lemma broadcast_member:
  "SendPayload c t p \<in> set (BroadcastToChildren msg m) \<longleftrightarrow>
     (\<exists>i. (i, c) \<in> set (tm_children m)) \<and> conn_enclave c m = n_enclave (tm_local m) \<and>
     t = gossipTypeFor (msg_type msg) \<and> p = PGossip msg"
  unfolding broadcast_eq by force

text \<open>
  Writes fan out to attached transients of the substrate's own enclave only: right after a hello was
  accepted, a broadcast is written to the new child exactly if the enclave it announced (an empty one
  counts as \<open>default\<close>) is the substrate's, and every broadcast goes to registered children of that
  enclave with the message unchanged. The hello is answered by one welcome that lists every peer and the
  substrate itself.
\<close>

theorem children_enclave_isolated:
  assumes "gm_lookup (tm_conns m) c = Some k" "HandleHello now peers c hello m = (m', effs, True)"
  shows "(SendPayload c (gossipTypeFor (msg_type msg)) (PGossip msg) \<in> set (BroadcastToChildren msg m') \<longleftrightarrow>
      default_enclave (he_enclave hello) = n_enclave (tm_local m)) \<and>
    list_all (\<lambda>e. case e of
        SendPayload d t p \<Rightarrow> (\<exists>i. (i, d) \<in> set (tm_children m')) \<and> conn_enclave d m' = n_enclave (tm_local m) \<and> p = PGossip msg
      | _ \<Rightarrow> False) (BroadcastToChildren msg m') \<and>
    (\<exists>w. effs = [SendPayload c AttachmentTypeWelcome (PWelcome w)] \<and>
       map (\<lambda>s. map_option wire_to_node (sm_node_info s)) (we_topology w) =
         map (\<lambda>n. Some (n\<lparr>n_enclave := default_enclave (n_enclave n)\<rparr>)) (peers @ [tm_local m]))"
proof -
  let ?e = "default_enclave (he_enclave hello)"
  have acc: "tm_children m' = gm_update (he_node_id hello) c (tm_children m)" "tm_local m' = tm_local m"
    and k: "\<exists>k'. gm_lookup (tm_conns m') c = Some k' \<and> co_remote_enclave k' = ?e"
    and w: "effs = [SendPayload c AttachmentTypeWelcome (PWelcome \<lparr>we_topology = buildWelcomeTopology now peers (tm_local m),
                       we_position = \<lparr>wp_depth = 1, wp_parent_id = n_id (tm_local m)\<rparr>\<rparr>)]"
    using assms
    by (auto simp: HandleHello_def Let_def default_enclave_def with_conn_lookup SetRemote_def AddCloseHandler_def split: if_splits)
  have "gm_lookup (tm_children m') (he_node_id hello) = Some c" by (simp add: acc)
  then have reg: "\<exists>i. (i, c) \<in> set (tm_children m')" by (blast dest: gm_lookup_in)
  have "conn_enclave c m' = ?e" using k by (auto simp: conn_enclave_def)
  then have 1: "SendPayload c (gossipTypeFor (msg_type msg)) (PGossip msg) \<in> set (BroadcastToChildren msg m') \<longleftrightarrow>
      ?e = n_enclave (tm_local m)" using reg by (simp add: broadcast_member acc)
  have 2: "list_all (\<lambda>e. case e of
        SendPayload d t p \<Rightarrow> (\<exists>i. (i, d) \<in> set (tm_children m')) \<and> conn_enclave d m' = n_enclave (tm_local m) \<and> p = PGossip msg
      | _ \<Rightarrow> False) (BroadcastToChildren msg m')"
    unfolding broadcast_eq acc(2) list_all_iff by auto
  have 3: "map (\<lambda>s. map_option wire_to_node (sm_node_info s)) (buildWelcomeTopology now peers l) =
         map (\<lambda>n. Some (n\<lparr>n_enclave := default_enclave (n_enclave n)\<rparr>)) (peers @ [l])" for l
    by (simp add: buildWelcomeTopology_def wire_to_node_def node_to_wire_def default_enclave_def o_def)
  from 1 2 3 w show ?thesis by auto
qed

section \<open>Redirects\<close>

text \<open>
  A refused attachment is redirected usefully: the goodbye lists at most five of the known peers,
  and a peer of another enclave appears only if every known peer of the requested enclave is listed.
\<close>

theorem redirect_alternatives:
  assumes "alts = getAlternativeSubstrates peers enclave m" "e = (if enclave = [] then n_enclave (tm_local m) else enclave)"
  shows "length alts = min 5 (length peers) \<and> set alts \<subseteq> node_alternative ` set peers \<and>
    ((\<exists>a \<in> set alts. ap_enclave a \<noteq> e) \<longrightarrow>
       (\<forall>p \<in> set peers. n_enclave p = e \<longrightarrow> node_alternative p \<in> set alts))"
proof -
  let ?s = "filter (\<lambda>p. n_enclave p = e) peers" and ?o = "filter (\<lambda>p. n_enclave p \<noteq> e) peers"
  have alts: "alts = map node_alternative (take 5 (?s @ ?o))"
    using assms by (simp add: getAlternativeSubstrates_def Let_def)
  have len: "length (?s @ ?o) = length peers"
    using sum_length_filter_compl [of "\<lambda>p. n_enclave p = e" peers] by simp
  have sub: "set (take 5 (?s @ ?o)) \<subseteq> set peers" by (auto dest!: in_set_takeD)
  have "length ?s \<le> 5" if "\<exists>a \<in> set alts. ap_enclave a \<noteq> e"
  proof (rule ccontr)
    assume "\<not> length ?s \<le> 5"
    then have "take 5 (?s @ ?o) = take 5 ?s" by simp
    then have "set (take 5 (?s @ ?o)) \<subseteq> set ?s" by (metis set_take_subset)
    then have "ap_enclave a = e" if "a \<in> set alts" for a
      using that unfolding alts by (auto simp: node_alternative_def)
    with that show False by blast
  qed
  then have "\<forall>p \<in> set peers. n_enclave p = e \<longrightarrow> node_alternative p \<in> set alts" if "\<exists>a \<in> set alts. ap_enclave a \<noteq> e"
  proof -
    have "take 5 (?s @ ?o) = ?s @ take (5 - length ?s) ?o" using \<open>_ \<Longrightarrow> length ?s \<le> 5\<close> [OF that] by simp
    then show ?thesis unfolding alts by simp
  qed
  moreover have "length alts = min 5 (length peers)" unfolding alts using len by (simp add: min.commute)
  moreover have "set alts \<subseteq> node_alternative ` set peers" unfolding alts using sub by auto
  ultimately show ?thesis by blast
qed

section \<open>Acknowledgement routes\<close>

text \<open>
  Acknowledgements of a relayed write find their way back: after \<open>RecordAckRoute\<close> every ACK with
  that message ID is written to the recorded connection while it is open, as often as ACKs arrive, ACKs
  of other messages are unaffected, and when the timer of the route fires the route is gone.
\<close>

theorem acks_routed_to_origin:
  assumes "m' = RecordAckRoute stopped mid c m" "\<not> conn_closed c m" "msg_id ack = mid" "msg_id other \<noteq> mid"
  shows "RouteAck ok ack m' = ([SendPayload c (gossipTypeFor (msg_type ack)) (PGossip ack)], ok c) \<and>
    RouteAck ok other m' = RouteAck ok other m \<and>
    (\<exists>t. gm_lookup (tm_route_timers m') mid = Some t \<and>
       RouteAck ok ack (ack_timer_fires t m') = ([], False) \<and>
       RouteAck ok other (ack_timer_fires t m') = RouteAck ok other m)"
  using assms
  by (simp add: RouteAck_def LookupAckRoute_def RecordAckRoute_def conn_closed_def ack_timer_fires_def Let_def
      split: option.split)

section \<open>Reattachment\<close>

definition is_self :: "Node \<Rightarrow> AlternativeParent \<Rightarrow> bool" where
  "is_self local alt \<longleftrightarrow> ap_address alt = n_address local \<and> ap_http_port alt = n_http_port local"

text \<open>An alternative that accepts the attachment and stays up.\<close>

definition good_attempt :: "attempt \<Rightarrow> bool" where
  "good_attempt a \<longleftrightarrow> at_dial a \<noteq> None \<and> (\<exists>w. at_outcome a = AoWelcome w) \<and> at_alive a"

lemma parent_closed_stopping [simp]: "tm_stopping (fst (parent_closed c m)) = tm_stopping m"
  by (simp add: parent_closed_def triggerReattach_def)

lemma try_facts:
  assumes "tryAlternatives env alts m = (m', ds, ok)"
  shows "tm_stopping m' = tm_stopping m \<and> tm_local m' = tm_local m \<and> list_all (\<lambda>a. \<not> is_self (tm_local m) a) ds \<and>
    set ds \<subseteq> set alts \<and> (ok \<longrightarrow> tm_parent m' \<noteq> None \<and> ds \<noteq> [])"
  using assms
proof (induction alts arbitrary: m m' ds ok)
  case (Cons alt alts)
  show ?case
  proof (cases "tm_stopping m \<or> at_stopping (env alt) \<or> at_late (env alt)")
    case True
    then show ?thesis using Cons.prems by (auto split: if_splits)
  next
    case go: False
    show ?thesis
    proof (cases "is_self (tm_local m) alt")
      case True
      then have "tryAlternatives env alts m = (m', ds, ok)" using Cons.prems go by (simp add: is_self_def)
      from Cons.IH [OF this] show ?thesis by auto
    next
      case ns: False
      have rest: ?thesis if "tryAlternatives env alts k = (m', ds', ok)" "ds = alt # ds'"
        "tm_stopping k = tm_stopping m" "tm_local k = tm_local m" for k ds'
        using Cons.IH [OF that(1)] that ns by auto
      show ?thesis
      proof (cases "at_dial (env alt)")
        case None
        then obtain ds' where "tryAlternatives env alts m = (m', ds', ok)" "ds = alt # ds'"
          using Cons.prems go ns by (auto simp: is_self_def split: prod.splits)
        then show ?thesis by (rule rest) simp_all
      next
        case (Some c)
        obtain m1 effs r where a: "attach (at_outcome (env alt)) c m = (m1, effs, r)"
          by (cases "attach (at_outcome (env alt)) c m")
        have m1: "tm_stopping m1 = tm_stopping m" "tm_local m1 = tm_local m"
          using attach_stopping [of "at_outcome (env alt)" c m] attach_children [of m "at_outcome (env alt)" c] a
          by (simp_all add: same_children_def)
        have loc: "tm_local (fst (parent_closed c m1)) = tm_local m"
          using parent_closed_children [of m1 c] m1 by (simp add: same_children_def)
        show ?thesis
        proof (cases r)
          case none: None
          then obtain ds' where "tryAlternatives env alts (with_conn c closeWith m1) = (m', ds', ok)" "ds = alt # ds'"
            using Cons.prems go ns Some a by (auto simp: is_self_def split: prod.splits)
          then show ?thesis by (rule rest) (simp_all add: m1)
        next
          case (Some w)
          show ?thesis
          proof (cases "at_alive (env alt)")
            case False
            then obtain ds' where "tryAlternatives env alts (fst (parent_closed c m1)) = (m', ds', ok)" "ds = alt # ds'"
              using Cons.prems go ns \<open>at_dial (env alt) = Some c\<close> a Some by (auto simp: is_self_def split: prod.splits)
            then show ?thesis by (rule rest) (simp_all add: m1 loc)
          next
            case True
            have "tm_parent m1 \<noteq> None"
              using a Some by (auto simp: attach_def Let_def split: attach_outcome.splits)
            then show ?thesis
              using Cons.prems go ns \<open>at_dial (env alt) = Some c\<close> a Some True m1 by (auto simp: is_self_def)
          qed
        qed
      qed
    qed
  qed
qed simp

lemma try_succeeds:
  assumes "\<not> tm_stopping m" "\<And>a. a \<in> set alts \<Longrightarrow> \<not> at_stopping (env a) \<and> \<not> at_late (env a)"
    and "alt \<in> set alts" "\<not> is_self (tm_local m) alt" "good_attempt (env alt)"
  shows "snd (snd (tryAlternatives env alts m))"
  using assms
proof (induction alts arbitrary: m)
  case (Cons a alts)
  have go: "\<not> (tm_stopping m \<or> at_stopping (env a))" "\<not> at_late (env a)" using Cons.prems(1,2) by auto
  have rest: "snd (snd (tryAlternatives env alts k))"
    if "alt \<noteq> a" "tm_stopping k = tm_stopping m" "tm_local k = tm_local m" for k
    using Cons that by simp
  show ?case
  proof (cases "is_self (tm_local m) a")
    case True
    then have "alt \<noteq> a" using Cons.prems(4) by auto
    with rest [of m] True go show ?thesis by (simp add: is_self_def)
  next
    case ns: False
    show ?thesis
    proof (cases "at_dial (env a)")
      case None
      then have "alt \<noteq> a" using Cons.prems(5) by (auto simp: good_attempt_def)
      with rest [of m] None ns go show ?thesis by (simp add: is_self_def case_prod_beta)
    next
      case (Some c)
      obtain m1 effs r where at: "attach (at_outcome (env a)) c m = (m1, effs, r)"
        by (cases "attach (at_outcome (env a)) c m")
      have m1: "tm_stopping m1 = tm_stopping m" "tm_local m1 = tm_local m"
        using attach_stopping [of "at_outcome (env a)" c m] attach_children [of m "at_outcome (env a)" c] at
        by (simp_all add: same_children_def)
      have loc: "tm_local (fst (parent_closed c m1)) = tm_local m"
        using parent_closed_children [of m1 c] m1 by (simp add: same_children_def)
      show ?thesis
      proof (cases r)
        case none: None
        then have "alt \<noteq> a" using Cons.prems(5) at by (auto simp: good_attempt_def attach_def Let_def)
        with rest [of "with_conn c closeWith m1"] Some none at ns go m1 show ?thesis
          by (auto simp: is_self_def case_prod_beta)
      next
        case (Some w)
        show ?thesis
        proof (cases "at_alive (env a)")
          case False
          then have "alt \<noteq> a" using Cons.prems(5) by (auto simp: good_attempt_def)
          with rest [of "fst (parent_closed c m1)"] \<open>at_dial (env a) = Some c\<close> Some False at ns go m1 loc show ?thesis
            by (auto simp: is_self_def case_prod_beta)
        qed (use \<open>at_dial (env a) = Some c\<close> Some at ns go in \<open>auto simp: is_self_def\<close>)
      qed
    qed
  qed
qed simp

lemma cycle_facts:
  assumes "reattach_cycle cy supplied m = (m', ds, ok)"
  shows "tm_stopping m' = tm_stopping m \<and> tm_local m' = tm_local m \<and> list_all (\<lambda>a. \<not> is_self (tm_local m) a) ds \<and>
    (ok \<longrightarrow> tm_parent m' \<noteq> None)"
proof -
  obtain m1 d1 o1 where 1: "tryAlternatives (cy_supplied cy) supplied m = (m1, d1, o1)"
    by (cases "tryAlternatives (cy_supplied cy) supplied m")
  obtain m2 d2 o2 where 2: "tryAlternatives (cy_cached cy) (tm_alts m1) m1 = (m2, d2, o2)"
    by (cases "tryAlternatives (cy_cached cy) (tm_alts m1) m1")
  obtain m3 d3 o3 where 3: "tryAlternatives (cy_seed cy) (List.map_filter parseSeedAddress (cy_seeds cy)) m2 = (m3, d3, o3)"
    by (cases "tryAlternatives (cy_seed cy) (List.map_filter parseSeedAddress (cy_seeds cy)) m2")
  show ?thesis
    using assms 1 2 3 try_facts [OF 1] try_facts [OF 2] try_facts [OF 3]
    by (auto simp: reattach_cycle_def Let_def split: bool.splits)
qed

lemma cycle_succeeds:
  assumes "\<not> tm_stopping m" "\<And>a. \<not> at_stopping (cy_seed cy a) \<and> \<not> at_late (cy_seed cy a)"
    and "s \<in> set (cy_seeds cy)" "parseSeedAddress s = Some alt" "\<not> is_self (tm_local m) alt" "good_attempt (cy_seed cy alt)"
  shows "snd (snd (reattach_cycle cy supplied m))"
proof -
  obtain m1 d1 o1 where 1: "tryAlternatives (cy_supplied cy) supplied m = (m1, d1, o1)"
    by (cases "tryAlternatives (cy_supplied cy) supplied m")
  obtain m2 d2 o2 where 2: "tryAlternatives (cy_cached cy) (tm_alts m1) m1 = (m2, d2, o2)"
    by (cases "tryAlternatives (cy_cached cy) (tm_alts m1) m1")
  have m2: "\<not> tm_stopping m2" "tm_local m2 = tm_local m"
    using try_facts [OF 1] try_facts [OF 2] assms(1) by simp_all
  have "alt \<in> set (List.map_filter parseSeedAddress ss)" if "s \<in> set ss" for ss
    using that assms(4) by (induction ss) (auto simp: map_filter_simps split: option.split)
  then have "snd (snd (tryAlternatives (cy_seed cy) (List.map_filter parseSeedAddress (cy_seeds cy)) m2))"
    using assms(2,3,5,6) m2 by (intro try_succeeds [of m2 _ _ alt]) simp_all
  then show ?thesis using 1 2 by (cases o1; cases o2) (auto simp: reattach_cycle_def Let_def case_prod_beta)
qed

definition capped :: "duration \<Rightarrow> nat \<Rightarrow> duration" where
  "capped b i = min (2 ^ i * b) ReattachBackoffMax"

lemma loop_facts:
  assumes "reattachLoop cys supplied b m = (m', ws, ds, r)" "0 < b" "b \<le> ReattachBackoffMax"
  shows "ws = map (capped b) [0 ..< length ws] \<and> list_all (\<lambda>a. \<not> is_self (tm_local m) a) ds \<and>
    (r = Some True \<longrightarrow> tm_parent m' \<noteq> None)"
  using assms
proof (induction cys arbitrary: supplied b m m' ws ds r)
  case (Cons cy cys)
  obtain m1 d1 ok where c: "reattach_cycle cy supplied m = (m1, d1, ok)" by (cases "reattach_cycle cy supplied m")
  note cf = cycle_facts [OF c]
  show ?case
  proof (cases "tm_stopping m \<or> ok \<or> tm_stopping m1 \<or> \<not> cy_slept cy")
    case True
    then show ?thesis using Cons.prems(1) c cf by (auto split: if_splits bool.splits)
  next
    case False
    let ?b = "if b * 2 > ReattachBackoffMax then ReattachBackoffMax else b * 2"
    obtain m2 ws' ds' where l: "reattachLoop cys [] ?b m1 = (m2, ws', ds', r)" and e: "m' = m2" "ws = b # ws'" "ds = d1 @ ds'"
      using Cons.prems(1) c False by (auto simp: Let_def split: prod.splits)
    have "0 < ?b" "?b \<le> ReattachBackoffMax" using Cons.prems(2,3) by (simp_all add: ReattachBackoffMax_def)
    note ih = Cons.IH [OF l this]
    have "capped ?b i = capped b (Suc i)" for i
    proof (cases "b * 2 > ReattachBackoffMax")
      case True
      have "(1::int) \<le> 2 ^ i" by simp
      then have "ReattachBackoffMax \<le> 2 ^ i * ReattachBackoffMax" "b * 2 \<le> 2 ^ i * (b * 2)"
        using Cons.prems(2) by (simp_all add: ReattachBackoffMax_def nsec_def mult_le_cancel_right1)
      with True show ?thesis by (simp add: capped_def min_def algebra_simps)
    qed (simp add: capped_def algebra_simps)
    then have "ws' = map (\<lambda>i. capped b (Suc i)) [0 ..< length ws']" using ih by simp
    moreover have "capped b 0 = b" using Cons.prems(3) by (simp add: capped_def)
    ultimately have "ws = map (capped b) [0 ..< length ws]"
      unfolding e by (simp add: upt_conv_Cons map_Suc_upt [symmetric] o_def del: upt_Suc)
    then show ?thesis using ih cf e by simp
  qed
qed simp

lemma loop_recovers:
  assumes "\<not> tm_stopping m" "list_all cy_slept pre"
    and "\<And>a. \<not> at_stopping (cy_seed cy a) \<and> \<not> at_late (cy_seed cy a)"
    and "s \<in> set (cy_seeds cy)" "parseSeedAddress s = Some alt" "\<not> is_self (tm_local m) alt" "good_attempt (cy_seed cy alt)"
  shows "snd (snd (snd (reattachLoop (pre @ cy # post) supplied b m))) = Some True"
  using assms(1,2,6)
proof (induction pre arbitrary: supplied b m)
  case Nil
  obtain m1 d1 ok where c: "reattach_cycle cy supplied m = (m1, d1, ok)" by (cases "reattach_cycle cy supplied m")
  have ok using cycle_succeeds [of m cy s alt supplied] Nil assms(3-5,7) c by simp
  with Nil c show ?case by simp
next
  case (Cons x pre)
  obtain m1 d1 ok where c: "reattach_cycle x supplied m = (m1, d1, ok)" by (cases "reattach_cycle x supplied m")
  note cf = cycle_facts [OF c]
  have "snd (snd (snd (reattachLoop (pre @ cy # post) [] b' m1))) = Some True" for b'
    using Cons cf by simp
  with Cons.prems c cf show ?case by (cases ok) (simp_all add: Let_def case_prod_beta)
qed

text \<open>
  C27. A transient that lost its substrate reattaches: if in some round of the loop a seed address other
  than its own accepts the attachment (and the node is not stopped before), the loop ends attached, no
  matter how many rounds failed before. It never dials itself, and the waits between rounds are
  5, 10, 20, 40, then 60 seconds.
\<close>

theorem reattach_recovers:
  assumes "\<not> tm_stopping m" "list_all cy_slept pre"
    and "\<And>a. \<not> at_stopping (cy_seed cy a) \<and> \<not> at_late (cy_seed cy a)"
    and "s \<in> set (cy_seeds cy)" "parseSeedAddress s = Some alt" "\<not> is_self (tm_local m) alt" "good_attempt (cy_seed cy alt)"
    and "reattachLoop (pre @ cy # post) supplied ReattachBackoffInitial m = (m', ws, ds, r)"
  shows "r = Some True \<and> tm_parent m' \<noteq> None \<and> list_all (\<lambda>a. \<not> is_self (tm_local m) a) ds \<and>
    ws = map (\<lambda>i. min (2 ^ i * (5 * nsec)) (60 * nsec)) [0 ..< length ws]"
proof -
  have "r = Some True" using loop_recovers [OF assms(1-7), of post supplied ReattachBackoffInitial] assms(8) by simp
  with loop_facts [OF assms(8)] show ?thesis
    by (simp add: ReattachBackoffInitial_def ReattachBackoffMax_def capped_def [abs_def])
qed

section \<open>A concrete tree\<close>

definition ex_hello :: "string \<Rightarrow> string \<Rightarrow> HelloPayload" where
  "ex_hello i e = \<lparr>he_node_id = i, he_enclave = e, he_address = i, he_http_port = 8080, he_http_origin = [], he_inbound = ''false''\<rparr>"

definition ex_tree :: Manager where
  "ex_tree = tree_run [TmConnect 0 []] (NewManager (ex_node ''n1'') ''true'' 1)"

theorem children_within_capacity_witness:
  "int (length (tm_children (tree_run [TmConnect 0 [], TmHello 0 [] 0 (ex_hello ''a'' []), TmHello 0 [] 0 (ex_hello ''b'' [])]
     (NewManager (ex_node ''n1'') ''true'' 1)))) \<le> 1"
  using children_within_capacity [OF refl, where n = 1] by simp

lemma ex_tree_conn: "gm_lookup (tm_conns ex_tree) 0 = Some (NewConnection [])"
  by (simp add: ex_tree_def tree_run_def)

lemma ex_hello_accepted:
  obtains m' effs where "HandleHello 0 [] 0 (ex_hello ''a'' []) ex_tree = (m', effs, True)"
  by (simp add: HandleHello_def ex_tree_def tree_run_def NewManager_def Let_def)

theorem children_enclave_isolated_witness:
  "\<exists>m' effs. HandleHello 0 [] 0 (ex_hello ''a'' []) ex_tree = (m', effs, True) \<and>
     SendPayload 0 (gossipTypeFor (msg_type blank_message)) (PGossip blank_message) \<in> set (BroadcastToChildren blank_message m')"
proof -
  obtain m' effs where h: "HandleHello 0 [] 0 (ex_hello ''a'' []) ex_tree = (m', effs, True)" by (rule ex_hello_accepted)
  have "default_enclave (he_enclave (ex_hello ''a'' [])) = n_enclave (tm_local ex_tree)"
    by (simp add: ex_hello_def default_enclave_def ex_tree_def tree_run_def NewManager_def)
  with children_enclave_isolated [OF ex_tree_conn h, of blank_message] h show ?thesis by blast
qed

theorem redirect_alternatives_witness:
  "length (getAlternativeSubstrates [ex_node ''n2'', ex_node ''n3''] [] ex_tree) = 2"
  using redirect_alternatives [OF refl refl, of "[ex_node ''n2'', ex_node ''n3'']" "[]" ex_tree] by simp

theorem acks_routed_to_origin_witness:
  "RouteAck (\<lambda>c. True) (blank_message\<lparr>msg_id := ''m''\<rparr>) (RecordAckRoute True ''m'' 0 ex_tree) =
     ([SendPayload 0 (gossipTypeFor []) (PGossip (blank_message\<lparr>msg_id := ''m''\<rparr>))], True)"
  using acks_routed_to_origin [OF refl, where c = 0 and m = ex_tree and ack = "blank_message\<lparr>msg_id := ''m''\<rparr>"
      and mid = "''m''" and other = blank_message and ok = "\<lambda>c. True" and stopped = True]
  by (simp add: conn_closed_def ex_tree_conn NewConnection_def blank_message_def)

definition ex_attempt :: attempt where
  "ex_attempt = \<lparr>at_stopping = False, at_late = False, at_dial = Some 7,
     at_outcome = AoWelcome \<lparr>we_topology = [], we_position = \<lparr>wp_depth = 1, wp_parent_id = ''n2''\<rparr>\<rparr>, at_alive = True\<rparr>"

definition ex_cycle :: cycle where
  "ex_cycle = \<lparr>cy_supplied = \<lambda>a. ex_attempt, cy_cached = \<lambda>a. ex_attempt, cy_seed = \<lambda>a. ex_attempt,
     cy_seeds = [''n2:8080''], cy_slept = True\<rparr>"

lemma ex_seed:
  "parseSeedAddress ''n2:8080'' = Some \<lparr>ap_id = ''seed-n2:8080'', ap_address = ''n2'', ap_http_port = 8080,
     ap_http_origin = [], ap_enclave = []\<rparr>"
proof -
  have "CutLast (CHR '':'') ''n2:8080'' = Some (''n2'', ''8080'')" by (simp add: CutLast_def)
  moreover have "Atoi ''8080'' = Some 8080" using ParseInt_Itoa [of 8080] by (simp add: Itoa_8080 max_int64_def)
  ultimately show ?thesis by (simp add: parseSeedAddress_def)
qed

theorem reattach_recovers_witness:
  "snd (snd (snd (reattachLoop [ex_cycle] [] ReattachBackoffInitial ex_tree))) = Some True"
proof -
  obtain m' ws ds r where l: "reattachLoop ([] @ ex_cycle # []) [] ReattachBackoffInitial ex_tree = (m', ws, ds, r)"
    by (cases "reattachLoop ([] @ ex_cycle # []) [] ReattachBackoffInitial ex_tree")
  have "r = Some True"
    using reattach_recovers [OF _ _ _ _ ex_seed _ _ l]
    by (simp add: ex_tree_def tree_run_def NewManager_def ex_cycle_def ex_attempt_def good_attempt_def is_self_def ex_node_def)
  with l show ?thesis by simp
qed

end
