(* ===== verification/Go_Base64.thy ===== *)
theory Go_Base64
  imports Prelude
begin

text \<open>
  \<open>base64.StdEncoding\<close> of Go's standard library: the padded encoder, and the decoder, which skips carriage
  returns and line feeds, insists on the padding and ignores the unused low bits of the last digit.
\<close>

definition b64_alphabet :: string where
  "b64_alphabet = ''ABCDEFGHIJKLMNOPQRSTUVWXYZabcdefghijklmnopqrstuvwxyz0123456789+/''"

definition b64_digit :: "nat \<Rightarrow> char" where
  "b64_digit n = b64_alphabet ! (n mod 64)"

definition b64_val :: "char \<Rightarrow> nat option" where
  "b64_val c = map_of (zip b64_alphabet [0..<64]) c"

abbreviation byte_val :: "char \<Rightarrow> nat" where
  "byte_val c \<equiv> of_char c"

fun b64_encode :: "bytes \<Rightarrow> string" where
  "b64_encode [] = []"
| "b64_encode [a] =
     (let v = byte_val a * 65536
      in [b64_digit (v div 262144), b64_digit (v div 4096), CHR ''='', CHR ''=''])"
| "b64_encode [a, b] =
     (let v = byte_val a * 65536 + byte_val b * 256
      in [b64_digit (v div 262144), b64_digit (v div 4096), b64_digit (v div 64), CHR ''=''])"
| "b64_encode (a # b # c # rest) =
     (let v = byte_val a * 65536 + byte_val b * 256 + byte_val c
      in [b64_digit (v div 262144), b64_digit (v div 4096), b64_digit (v div 64), b64_digit v] @ b64_encode rest)"

text \<open>Quanta of four digits; \<open>w\<close> and \<open>x\<close> are digits, only the last quantum has padding.\<close>

fun b64_quanta :: "string \<Rightarrow> bytes option" where
  "b64_quanta [] = Some []"
| "b64_quanta (w # x # y # z # rest) =
     (case (b64_val w, b64_val x, b64_val y, b64_val z) of
        (Some p, Some q, Some r, Some s) \<Rightarrow>
          let v = p * 262144 + q * 4096 + r * 64 + s
          in map_option (\<lambda>bs. [char_of (v div 65536), char_of (v div 256), char_of v] @ bs) (b64_quanta rest)
      | (Some p, Some q, Some r, None) \<Rightarrow>
          let v = p * 262144 + q * 4096 + r * 64
          in if z = CHR ''='' \<and> rest = [] then Some [char_of (v div 65536), char_of (v div 256)] else None
      | (Some p, Some q, None, _) \<Rightarrow>
          let v = p * 262144 + q * 4096
          in if y = CHR ''='' \<and> z = CHR ''='' \<and> rest = [] then Some [char_of (v div 65536)] else None
      | _ \<Rightarrow> None)"
| "b64_quanta _ = None"

definition b64_decode :: "string \<Rightarrow> bytes option" where
  "b64_decode s = b64_quanta (filter (\<lambda>c. c \<noteq> CHR 0x0A \<and> c \<noteq> CHR 0x0D) s)"

section \<open>Round trip\<close>

lemma length_alphabet [simp]: "length b64_alphabet = 64"
  by (simp add: b64_alphabet_def)

lemma distinct_alphabet: "distinct b64_alphabet"
  by code_simp

lemma b64_val_digit [simp]: "b64_val (b64_digit n) = Some (n mod 64)"
proof -
  have "map_of (zip b64_alphabet [0..<64]) (b64_alphabet ! (n mod 64)) = Some ([0..<64] ! (n mod 64))"
    by (rule map_of_zip_nth) (simp_all add: distinct_alphabet)
  then show ?thesis by (simp add: b64_val_def b64_digit_def)
qed

lemma alphabet_pad: "CHR ''='' \<notin> set b64_alphabet"
  by code_simp

lemma b64_val_pad [simp]: "b64_val (CHR ''='') = None"
proof -
  have "dom (map_of (zip b64_alphabet [0..<64])) = set b64_alphabet" by (rule dom_map_of_zip) simp
  then show ?thesis using alphabet_pad by (auto simp: b64_val_def domIff)
qed

lemma digits_of_value:
  assumes "(v :: nat) < 16777216"
  shows "v div 262144 mod 64 * 262144 + v div 4096 mod 64 * 4096 + v div 64 mod 64 * 64 + v mod 64 = v"
proof -
  let ?a = "v div 64"
  let ?b = "?a div 64"
  let ?c = "?b div 64"
  have d: "v div 4096 = ?b" "v div 262144 = ?c" by (simp_all flip: div_mult2_eq)
  have "?c < 64" using assms by (simp add: less_mult_imp_div_less flip: d)
  then have "?c mod 64 = ?c" by simp
  moreover have "64 * ?c + ?b mod 64 = ?b" "64 * ?b + ?a mod 64 = ?a" "64 * ?a + v mod 64 = v"
    by (simp_all only: mult_div_mod_eq)
  ultimately show ?thesis unfolding d by linarith
qed

lemma byte_of_value:
  assumes "a < 256" "b < 256" "c < 256"
  shows "(a * 65536 + b * 256 + c) div 65536 = (a :: nat)"
    "(a * 65536 + b * 256 + c) div 256 mod 256 = b" "(a * 65536 + b * 256 + c) mod 256 = c"
proof -
  show "(a * 65536 + b * 256 + c) div 65536 = a" using assms by (intro div_nat_eqI) simp_all
  have "(a * 65536 + b * 256 + c) div 256 = a * 256 + b" using assms by (intro div_nat_eqI) simp_all
  then show "(a * 65536 + b * 256 + c) div 256 mod 256 = b" using assms by simp
  have "a * 65536 + b * 256 + c = (a * 256 + b) * 256 + c" by simp
  then show "(a * 65536 + b * 256 + c) mod 256 = c" using assms by (simp only: mod_mult_self3) simp
qed

lemma byte_bound [simp]: "byte_val c < 256"
  using of_char_mod_256 [of c, where 'a = nat] by (metis mod_less_divisor zero_less_numeral)

lemma char_of_mod [simp]: "char_of ((n :: nat) mod 256) = char_of n"
  by (rule char_of_mod_256)

lemma value_bound: "byte_val a * 65536 + byte_val b * 256 + byte_val c < 16777216"
  using byte_bound [of a] byte_bound [of b] byte_bound [of c] by linarith

lemma bytes_of_value:
  "char_of ((byte_val a * 65536 + byte_val b * 256 + byte_val c) div 65536) = a"
  "char_of ((byte_val a * 65536 + byte_val b * 256 + byte_val c) div 256) = b"
  "char_of (byte_val a * 65536 + byte_val b * 256 + byte_val c) = c"
  using byte_of_value [OF byte_bound [of a] byte_bound [of b] byte_bound [of c]]
  by (metis char_of_mod char_of_char)+

lemma b64_quanta_pad1:
  "v div 64 mod 64 = 0 \<Longrightarrow> v mod 64 = 0 \<Longrightarrow> v < 16777216 \<Longrightarrow>
     b64_quanta [b64_digit (v div 262144), b64_digit (v div 4096), CHR ''='', CHR ''=''] = Some [char_of (v div 65536)]"
  using digits_of_value [of v]
  by (simp only: b64_quanta.simps b64_val_digit b64_val_pad option.case prod.case Let_def simp_thms if_True mult_0 add_0_right)

lemma b64_quanta_pad2:
  "v mod 64 = 0 \<Longrightarrow> v < 16777216 \<Longrightarrow>
     b64_quanta [b64_digit (v div 262144), b64_digit (v div 4096), b64_digit (v div 64), CHR ''='']
       = Some [char_of (v div 65536), char_of (v div 256)]"
  using digits_of_value [of v]
  by (simp only: b64_quanta.simps b64_val_digit b64_val_pad option.case prod.case Let_def simp_thms if_True add_0_right)

lemma b64_quanta_encode: "b64_quanta (b64_encode bs) = Some bs"
proof (induction bs rule: b64_encode.induct)
  case (2 a)
  have "byte_val a * 65536 < 16777216" using value_bound [of a "CHR 0x00" "CHR 0x00"] by simp
  then have "b64_quanta (b64_encode [a]) = Some [char_of (byte_val a * 65536 div 65536)]"
    unfolding b64_encode.simps Let_def by (intro b64_quanta_pad1) simp_all
  then show ?case by simp
next
  case (3 a b)
  let ?v = "byte_val a * 65536 + byte_val b * 256"
  have "?v < 16777216" using value_bound [of a b "CHR 0x00"] by simp
  then have "b64_quanta (b64_encode [a, b]) = Some [char_of (?v div 65536), char_of (?v div 256)]"
    unfolding b64_encode.simps Let_def by (intro b64_quanta_pad2) simp_all
  then show ?case using bytes_of_value(1,2) [of a b "CHR 0x00"] by simp
next
  case (4 a b c rest)
  then show ?case
    using digits_of_value [OF value_bound [of a b c]] bytes_of_value [of a b c]
    by (simp only: b64_encode.simps b64_quanta.simps Let_def append.simps b64_val_digit option.case prod.case option.map)
qed simp

text \<open>The digits are printable and contain neither a separator nor a line break.\<close>

lemma b64_digit_in: "b64_digit n \<in> set b64_alphabet"
  by (simp add: b64_digit_def)

lemma set_b64_encode: "set (b64_encode bs) \<subseteq> insert (CHR ''='') (set b64_alphabet)"
  by (induction bs rule: b64_encode.induct) (simp_all add: Let_def b64_digit_in)

lemma alphabet_chars:
  "list_all (\<lambda>c. 43 \<le> byte_val c \<and> byte_val c \<le> 122 \<and> c \<noteq> CHR '';'' \<and> c \<noteq> CHR '','') (CHR ''='' # b64_alphabet)"
  by code_simp

lemma b64_encode_chars:
  "c \<in> set (b64_encode bs) \<Longrightarrow> 43 \<le> byte_val c \<and> byte_val c \<le> 122 \<and> c \<noteq> CHR '';'' \<and> c \<noteq> CHR '',''"
proof -
  assume "c \<in> set (b64_encode bs)"
  then have "c \<in> set (CHR ''='' # b64_alphabet)" using set_b64_encode [of bs] by (simp only: list.set subset_iff)
  with alphabet_chars show ?thesis unfolding list_all_iff by (rule bspec)
qed

theorem b64_round_trip: "b64_decode (b64_encode bs) = Some bs"
proof -
  have "c \<noteq> CHR 0x0A \<and> c \<noteq> CHR 0x0D" if "c \<in> set (b64_encode bs)" for c
    using b64_encode_chars [OF that] by auto
  then have "filter (\<lambda>c. c \<noteq> CHR 0x0A \<and> c \<noteq> CHR 0x0D) (b64_encode bs) = b64_encode bs"
    by (simp add: filter_id_conv)
  then show ?thesis by (simp add: b64_decode_def b64_quanta_encode)
qed

end
