(* ===== verification/Go_Float.thy ===== *)
theory Go_Float
  imports Prelude Complex_Main "HOL-Library.Log_Nat"
begin

text \<open>
  The float64 arithmetic that the sources use: results are rounded to 53 significant bits, ties to even.
  Values are rational numbers; overflow, underflow, infinities and NaN do not arise for the operands that
  occur (counts and durations), so they are left out.
\<close>

definition round_half_even :: "rat \<Rightarrow> int" where
  "round_half_even y =
     (let f = \<lfloor>y\<rfloor>; d = y - of_int f
      in if d < 1 / 2 then f else if d > 1 / 2 then f + 1 else if even f then f else f + 1)"

text \<open>The exponent of a positive number, and the weight of the last of the 53 bits.\<close>

definition float_exponent :: "rat \<Rightarrow> int" where
  "float_exponent x = (if x \<ge> 1 then bitlen \<lfloor>x\<rfloor> - 1 else - bitlen (\<lceil>1 / x\<rceil> - 1))"

definition float_ulp :: "rat \<Rightarrow> rat" where
  "float_ulp x = (let e = float_exponent x in if e \<ge> 52 then 2 ^ nat (e - 52) else 1 / 2 ^ nat (52 - e))"

definition float_round :: "rat \<Rightarrow> rat" where
  "float_round x =
     (if x = 0 then 0
      else if x > 0 then of_int (round_half_even (x / float_ulp x)) * float_ulp x
      else - (of_int (round_half_even (- x / float_ulp (- x))) * float_ulp (- x)))"

text \<open>\<open>d.Seconds()\<close>, and \<open>int(x)\<close>, which truncates.\<close>

definition Duration_Seconds :: "duration \<Rightarrow> rat" where
  "Duration_Seconds d =
     float_round (float_round (of_int (go_quot d nsec)) +
       float_round (float_round (of_int (go_rem d nsec)) / 1000000000))"

definition float_to_int :: "rat \<Rightarrow> int" where
  "float_to_int x = (if x \<ge> 0 then \<lfloor>x\<rfloor> else \<lceil>x\<rceil>)"

section \<open>The rounding error\<close>

lemma float_ulp_pos [simp]: "0 < float_ulp x"
  by (simp add: float_ulp_def Let_def)

lemma float_ulp_nz [simp]: "float_ulp x \<noteq> 0"
  using float_ulp_pos [of x] by linarith

lemma bitlen_pos: "1 \<le> n \<Longrightarrow> 0 < bitlen n"
  using bitlen_nonneg [of n] bitlen_eq_zero_iff [of n] by linarith

lemma exponent_le:
  assumes "0 < x"
  shows "(if float_exponent x \<ge> 0 then 2 ^ nat (float_exponent x) else 1 / 2 ^ nat (- float_exponent x)) \<le> x"
proof (cases "x \<ge> 1")
  case True
  then have f: "1 \<le> \<lfloor>x\<rfloor>" by simp
  then have "2 ^ nat (bitlen \<lfloor>x\<rfloor> - 1) \<le> \<lfloor>x\<rfloor>" "0 < bitlen \<lfloor>x\<rfloor>"
    using bitlen_bounds [of "\<lfloor>x\<rfloor>"] bitlen_pos [of "\<lfloor>x\<rfloor>"] by simp_all
  then have "of_int (2 ^ nat (bitlen \<lfloor>x\<rfloor> - 1)) \<le> x" by (simp add: le_floor_iff)
  with True \<open>0 < bitlen \<lfloor>x\<rfloor>\<close> show ?thesis by (simp add: float_exponent_def)
next
  case False
  let ?c = "\<lceil>1 / x\<rceil>"
  have "1 < 1 / x" using False assms by simp
  then have c: "1 < ?c" by linarith
  then have "?c - 1 < 2 ^ nat (bitlen (?c - 1))" using bitlen_bounds [of "?c - 1"] by simp
  then have "?c \<le> 2 ^ nat (bitlen (?c - 1))" by simp
  then have "1 / x \<le> of_int (2 ^ nat (bitlen (?c - 1)))" by (simp add: ceiling_le_iff)
  then have x: "1 / 2 ^ nat (bitlen (?c - 1)) \<le> x" using assms by (simp add: field_simps)
  have "0 < bitlen (?c - 1)" using c bitlen_pos [of "?c - 1"] by simp
  with x False show ?thesis by (simp add: float_exponent_def)
qed

lemma ulp_le: "0 < x \<Longrightarrow> 2 ^ 52 * float_ulp x \<le> x"
proof -
  assume x: "0 < x"
  let ?e = "float_exponent x"
  have "2 ^ 52 * float_ulp x = (if ?e \<ge> 0 then 2 ^ nat ?e else 1 / 2 ^ nat (- ?e))"
  proof (cases "?e \<ge> 52")
    case True
    then have "nat ?e = 52 + nat (?e - 52)" by simp
    then have "(2::rat) ^ nat ?e = 2 ^ 52 * 2 ^ nat (?e - 52)" by (simp only: power_add)
    with True show ?thesis by (simp add: float_ulp_def)
  next
    case False
    show ?thesis
    proof (cases "?e \<ge> 0")
      case True
      then have "52 = nat ?e + nat (52 - ?e)" using False by simp
      then have "(2::rat) ^ 52 = 2 ^ nat ?e * 2 ^ nat (52 - ?e)" by (metis power_add)
      with False True show ?thesis by (simp add: float_ulp_def field_simps)
    next
      case neg: False
      then have "nat (52 - ?e) = 52 + nat (- ?e)" by simp
      then have "(2::rat) ^ nat (52 - ?e) = 2 ^ 52 * 2 ^ nat (- ?e)" by (simp only: power_add)
      with False neg show ?thesis by (simp add: float_ulp_def)
    qed
  qed
  with exponent_le [OF x] show ?thesis by simp
qed

lemma round_half_even_le: "of_int (round_half_even y) \<le> y + 1 / 2"
  unfolding round_half_even_def Let_def by (simp; linarith)

lemma round_half_even_nonneg: "0 \<le> y \<Longrightarrow> 0 \<le> round_half_even y"
  unfolding round_half_even_def Let_def by simp

lemma float_round_nonneg: "0 \<le> x \<Longrightarrow> 0 \<le> float_round x"
  by (simp add: float_round_def round_half_even_nonneg less_imp_le)

lemma float_round_le:
  assumes "0 \<le> x"
  shows "float_round x \<le> x * (1 + 1 / 2 ^ 53)"
proof (cases "x = 0")
  case False
  then have x: "0 < x" using assms by simp
  let ?u = "float_ulp x"
  have "of_int (round_half_even (x / ?u)) * ?u \<le> (x / ?u + 1 / 2) * ?u"
    using round_half_even_le by (intro mult_right_mono) (simp_all add: less_imp_le)
  also have "\<dots> = x + ?u / 2" using float_ulp_pos [of x] by (simp add: distrib_right)
  also have "?u / 2 \<le> x / 2 ^ 53" using ulp_le [OF x] by (simp add: field_simps)
  finally show ?thesis using x by (simp add: float_round_def field_simps)
qed (simp add: float_round_def)

text \<open>Five roundings enlarge a product by less than one part in \<open>2^50\<close>.\<close>

lemma float_rate_le:
  assumes "0 \<le> d" "0 \<le> rate"
  shows "float_round (Duration_Seconds d * float_round (of_int rate))
    \<le> of_int d * of_int rate / 1000000000 * (1 + 1 / 2 ^ 50)"
proof -
  let ?e = "1 + 1 / 2 ^ 53 :: rat"
  let ?s = "of_int (go_quot d nsec) :: rat" and ?n = "of_int (go_rem d nsec) :: rat"
  have s0: "0 \<le> ?s" and n0: "0 \<le> ?n" and dn: "of_int d = ?s * 1000000000 + ?n"
  proof -
    have q: "go_quot d nsec = d div nsec" using assms(1) by (simp add: go_quot_nonneg)
    then have "go_rem d nsec = d mod nsec" by (simp add: go_rem_def minus_div_mult_eq_mod)
    then show "0 \<le> ?s" "0 \<le> ?n" using q assms(1) by (simp_all add: nsec_def pos_imp_zdiv_nonneg_iff)
    have "d = go_quot d nsec * nsec + go_rem d nsec" by (simp add: go_rem_def)
    then show "of_int d = ?s * 1000000000 + ?n" by (metis nsec_def of_int_add of_int_mult of_int_numeral)
  qed
  have a: "float_round ?s \<le> ?s * ?e" "0 \<le> float_round ?s"
    using s0 by (simp_all only: float_round_le float_round_nonneg)
  have b: "float_round ?n / 1000000000 \<le> ?n * ?e / 1000000000" "0 \<le> float_round ?n / 1000000000"
    using float_round_le [OF n0] float_round_nonneg [OF n0] by (simp_all add: divide_right_mono)
  have c: "float_round (float_round ?n / 1000000000) \<le> ?n * ?e / 1000000000 * ?e"
    using order_trans [OF float_round_le [OF b(2)] mult_right_mono [OF b(1), of ?e]] by simp
  have c0: "0 \<le> float_round (float_round ?n / 1000000000)" by (rule float_round_nonneg [OF b(2)])
  have "float_round ?s + float_round (float_round ?n / 1000000000) \<le> ?s * ?e * ?e + ?n * ?e / 1000000000 * ?e"
    using a c s0 by (intro add_mono) (simp_all add: field_simps)
  also have "\<dots> = of_int d / 1000000000 * (?e * ?e)" by (simp add: dn field_simps)
  finally have sum: "float_round ?s + float_round (float_round ?n / 1000000000) \<le> of_int d / 1000000000 * (?e * ?e)" .
  have "Duration_Seconds d \<le> (float_round ?s + float_round (float_round ?n / 1000000000)) * ?e"
    unfolding Duration_Seconds_def using a(2) c0 by (intro float_round_le) simp
  also have "\<dots> \<le> of_int d / 1000000000 * (?e * ?e) * ?e" using sum by (intro mult_right_mono) simp_all
  finally have D: "Duration_Seconds d \<le> of_int d / 1000000000 * (?e * ?e) * ?e" .
  have D0: "0 \<le> Duration_Seconds d" unfolding Duration_Seconds_def using a(2) c0 by (intro float_round_nonneg) simp
  have R: "float_round (of_int rate) \<le> of_int rate * ?e" "0 \<le> float_round (of_int rate)"
    using assms(2) by (simp_all only: float_round_le float_round_nonneg of_int_0_le_iff)
  have "float_round (Duration_Seconds d * float_round (of_int rate)) \<le> Duration_Seconds d * float_round (of_int rate) * ?e"
    using D0 R(2) by (intro float_round_le) simp
  also have "\<dots> \<le> (of_int d / 1000000000 * (?e * ?e) * ?e) * (of_int rate * ?e) * ?e"
    using D D0 R assms by (intro mult_right_mono mult_mono) simp_all
  also have "\<dots> = of_int d * of_int rate / 1000000000 * (?e * ?e * ?e * ?e * ?e)" by (simp add: field_simps)
  also have "\<dots> \<le> of_int d * of_int rate / 1000000000 * (1 + 1 / 2 ^ 50)"
    using assms by (intro mult_left_mono) simp_all
  finally show ?thesis .
qed

section \<open>Whole numbers are exact\<close>

lemma exponent_small:
  assumes "0 < x" "x < of_int n" "n \<le> 2 ^ 53"
  shows "float_exponent x \<le> 52"
proof (cases "x \<ge> 1")
  case True
  then have "\<lfloor>x\<rfloor> < 2 ^ 53" "1 \<le> \<lfloor>x\<rfloor>" using assms(2,3) by (simp_all add: floor_less_iff)
  then have "bitlen \<lfloor>x\<rfloor> \<le> 53" using bitlen_le_iff_power [of "\<lfloor>x\<rfloor>" 53] by simp
  with True show ?thesis by (simp add: float_exponent_def)
next
  case False
  then show ?thesis using bitlen_nonneg [of "\<lceil>1 / x\<rceil> - 1"] by (simp add: float_exponent_def)
qed

lemma ulp_small:
  assumes "0 < x" "x < of_int n" "n \<le> 2 ^ 53"
  shows "float_ulp x = 1 / of_int (2 ^ nat (52 - float_exponent x))"
  using exponent_small [OF assms] by (simp add: float_ulp_def Let_def)

lemma round_half_even_between: "of_int m \<le> y \<Longrightarrow> y \<le> of_int n \<Longrightarrow> m \<le> round_half_even y \<and> round_half_even y \<le> n"
  unfolding round_half_even_def Let_def
  by (auto simp: le_floor_iff floor_less_iff split: if_splits) linarith+

text \<open>Rounding does not cross a whole number below \<open>2^53\<close>.\<close>

lemma float_round_between:
  assumes "of_int m \<le> x" "x \<le> of_int n" "0 \<le> m" "n < 2 ^ 53"
  shows "of_int m \<le> float_round x \<and> float_round x \<le> of_int n"
proof (cases "x = 0")
  case False
  then have x: "0 < x" using order_trans [of 0 "of_int m" x] assms(1,3) by simp
  have n: "x < of_int (n + 1)" "n + 1 \<le> 2 ^ 53" using assms(2,4) by simp_all
  let ?k = "2 ^ nat (52 - float_exponent x) :: int"
  have k: "(0 :: rat) < of_int ?k" by simp
  have u: "float_ulp x = 1 / of_int ?k" by (rule ulp_small [OF x n])
  have "of_int (m * ?k) \<le> x * of_int ?k" "x * of_int ?k \<le> of_int (n * ?k)"
    using assms(1,2) k unfolding of_int_mult by (simp_all only: mult_right_mono less_imp_le)
  then have "m * ?k \<le> round_half_even (x * of_int ?k)" "round_half_even (x * of_int ?k) \<le> n * ?k"
    by (simp_all only: round_half_even_between)
  then have "of_int (m * ?k) \<le> (of_int (round_half_even (x * of_int ?k)) :: rat)"
    "(of_int (round_half_even (x * of_int ?k)) :: rat) \<le> of_int (n * ?k)" by (simp_all only: of_int_le_iff)
  then have "of_int m \<le> of_int (round_half_even (x * of_int ?k)) / (of_int ?k :: rat)"
    "of_int (round_half_even (x * of_int ?k)) / (of_int ?k :: rat) \<le> of_int n"
    using k by (simp_all only: of_int_mult pos_le_divide_eq pos_divide_le_eq)
  then show ?thesis using x by (simp add: float_round_def u)
qed (use assms in \<open>simp add: float_round_def\<close>)

lemma float_round_int: "0 \<le> n \<Longrightarrow> n < 2 ^ 53 \<Longrightarrow> float_round (of_int n) = of_int n"
  using float_round_between [of n "of_int n" n] by simp

text \<open>The seconds of a duration lie between its whole seconds and the next second.\<close>

lemma Duration_Seconds_between:
  assumes "m * nsec \<le> d" "d \<le> n * nsec" "0 \<le> m" "n < 2 ^ 53"
  shows "of_int m \<le> Duration_Seconds d \<and> Duration_Seconds d \<le> of_int n"
proof -
  have nz: "(0::int) < nsec" by (simp add: nsec_def)
  have d: "0 \<le> d" using assms(1,3) nz by (meson mult_nonneg_nonneg order_trans less_imp_le)
  let ?q = "d div nsec" and ?r = "d mod nsec"
  have qr: "go_quot d nsec = ?q" "go_rem d nsec = ?r"
    using d by (simp_all add: go_quot_nonneg go_rem_def minus_div_mult_eq_mod)
  have "m * nsec div nsec \<le> ?q" "?q \<le> n * nsec div nsec" using assms(1,2) nz by (simp_all only: zdiv_mono1)
  then have q: "m \<le> ?q" "?q \<le> n" using nz by simp_all
  have r: "0 \<le> ?r" "?r < nsec" using nz by simp_all
  define e :: int where "e = (if ?r = 0 then 0 else 1)"
  have "?r = 0" if "?q = n" using assms(2) r(1) div_mult_mod_eq [of d nsec] unfolding that by linarith
  then have e: "0 \<le> e" "?q + e \<le> n" "?r \<le> e * nsec" using q less_imp_le [OF r(2)] by (cases "?q = n"; simp add: e_def)+
  have fr: "float_round (of_int ?r) = of_int ?r" "float_round (of_int ?q) = of_int ?q"
    using r q assms(3,4) by (simp_all add: float_round_int nsec_def)
  have "(of_int ?r :: rat) \<le> of_int (e * 1000000000)" using e(3) unfolding nsec_def by (rule of_int_le_iff [THEN iffD2])
  then have "(of_int ?r :: rat) / 1000000000 \<le> of_int e" by simp
  then have f: "0 \<le> float_round (of_int ?r / 1000000000) \<and> float_round (of_int ?r / 1000000000) \<le> of_int e"
    using float_round_between [of 0 "of_int ?r / 1000000000" e] r(1) by (simp add: e_def)
  then have "of_int ?q \<le> of_int ?q + float_round (of_int ?r / 1000000000)"
    "of_int ?q + float_round (of_int ?r / 1000000000) \<le> of_int (?q + e)" by simp_all
  from float_round_between [OF this] q e assms(3,4)
  have "of_int ?q \<le> Duration_Seconds d" "Duration_Seconds d \<le> of_int (?q + e)"
    by (simp_all add: Duration_Seconds_def qr fr)
  then show ?thesis using q(1) e(2) by (meson of_int_le_iff order_trans)
qed

lemma float_to_int_between: "of_int m \<le> x \<Longrightarrow> x \<le> of_int n \<Longrightarrow> 0 \<le> m \<Longrightarrow> m \<le> float_to_int x \<and> float_to_int x \<le> n"
  by (simp add: float_to_int_def le_floor_iff floor_le_iff)

end
