(* ===== verification/Trust.thy ===== *)
theory Trust
  imports Go_Strings Go_Base64 Go_Float
begin

text \<open>
  Signed root lists, \<open>src/internal/trust\<close>: the TXT record format (\<open>signedlist.go\<close>), the trust anchor
  (\<open>omega.go\<close>), the two DNS lookups (\<open>resolver.go\<close>), the on-disk cache (\<open>cache.go\<close>) and the refresh loop
  (\<open>refresher.go\<close>). Ed25519 is represented by its functions \<open>sign\<close> and \<open>verify\<close>, which are arguments, and so are
  DNS answers, file system outcomes, the JSON codec of the cache, clock readings and random numbers.
\<close>

datatype trust_error =
    MissingField string
  | DuplicateField string
  | MalformedField string
  | MalformedSignature
  | ExpiredList
  | VersionMismatch
  | BadSignature
  | EmptyNodes
  | UnknownField string
  | UnconfiguredAnchor
  | InvalidPubkeyLength
  | CorruptBase64
  | NoBootstrapRecord
  | EmptyTXT
  | LookupFailed

section \<open>Record format\<close>

record SignedList =
  sl_version :: string
  sl_expires :: int
  sl_nodes :: "string list"
  sl_signature :: bytes

text \<open>The variables of the loop in \<open>Parse\<close>.\<close>

record parse_state =
  ps_seen :: "string list"
  ps_list :: SignedList
  ps_version :: bool
  ps_expires :: bool
  ps_nodes :: bool
  ps_sig :: bool

definition splitAndTrim :: "string \<Rightarrow> char \<Rightarrow> string list" where
  "splitAndTrim s sep = filter (\<lambda>p. p \<noteq> []) (map TrimSpace (Split sep s))"

text \<open>The switch on the key.\<close>

definition parse_field :: "string \<Rightarrow> string \<Rightarrow> parse_state \<Rightarrow> trust_error + parse_state" where
  "parse_field key val ps =
     (if key = ''v'' then Inr (ps\<lparr>ps_list := (ps_list ps)\<lparr>sl_version := val\<rparr>, ps_version := True\<rparr>)
      else if key = ''exp'' then
        (case ParseInt val of
           None \<Rightarrow> Inl (MalformedField ''exp'')
         | Some e \<Rightarrow> Inr (ps\<lparr>ps_list := (ps_list ps)\<lparr>sl_expires := e\<rparr>, ps_expires := True\<rparr>))
      else if key = ''nodes'' then
        (if val = [] then Inl EmptyNodes
         else let nodes = splitAndTrim val (CHR '','')
              in if nodes = [] then Inl EmptyNodes
                 else Inr (ps\<lparr>ps_list := (ps_list ps)\<lparr>sl_nodes := nodes\<rparr>, ps_nodes := True\<rparr>))
      else if key = ''sig'' then
        (case b64_decode val of
           None \<Rightarrow> Inl MalformedSignature
         | Some sig \<Rightarrow> Inr (ps\<lparr>ps_list := (ps_list ps)\<lparr>sl_signature := sig\<rparr>, ps_sig := True\<rparr>))
      else Inl (UnknownField key))"

fun parse_parts :: "string list \<Rightarrow> parse_state \<Rightarrow> trust_error + parse_state" where
  "parse_parts [] ps = Inr ps"
| "parse_parts (part # parts) ps =
     (if part = [] then parse_parts parts ps
      else case Cut (CHR ''='') part of
             None \<Rightarrow> Inl (MalformedField part)
           | Some (k, v) \<Rightarrow>
               let key = TrimSpace k; val = TrimSpace v
               in if List.member (ps_seen ps) key then Inl (DuplicateField key)
                  else case parse_field key val (ps\<lparr>ps_seen := key # ps_seen ps\<rparr>) of
                         Inl e \<Rightarrow> Inl e
                       | Inr ps' \<Rightarrow> parse_parts parts ps')"

definition parse_start :: parse_state where
  "parse_start = \<lparr>ps_seen = [], ps_list = \<lparr>sl_version = [], sl_expires = 0, sl_nodes = [], sl_signature = []\<rparr>,
     ps_version = False, ps_expires = False, ps_nodes = False, ps_sig = False\<rparr>"

definition Parse :: "string \<Rightarrow> trust_error + SignedList" where
  "Parse raw =
     (if raw = [] then Inl (MalformedField [])
      else case parse_parts (Split (CHR '';'') raw) parse_start of
             Inl e \<Rightarrow> Inl e
           | Inr ps \<Rightarrow>
               if \<not> ps_version ps then Inl (MissingField ''v'')
               else if \<not> ps_expires ps then Inl (MissingField ''exp'')
               else if \<not> ps_nodes ps then Inl (MissingField ''nodes'')
               else if \<not> ps_sig ps then Inl (MissingField ''sig'')
               else Inr (ps_list ps))"

definition Canonical :: "SignedList \<Rightarrow> bytes" where
  "Canonical s =
     ''v='' @ sl_version s @ '';exp='' @ Itoa (sl_expires s) @ '';nodes='' @ Join (CHR '','') (sort (sl_nodes s))"

definition Encode :: "SignedList \<Rightarrow> string" where
  "Encode s = Canonical s @ '';sig='' @ b64_encode (sl_signature s)"

definition Sign :: "('sk \<Rightarrow> bytes \<Rightarrow> bytes) \<Rightarrow> 'sk \<Rightarrow> SignedList \<Rightarrow> SignedList" where
  "Sign sign priv s = s\<lparr>sl_signature := sign priv (Canonical s)\<rparr>"

section \<open>Trust anchor and verification\<close>

definition OmegaVersion :: string where
  "OmegaVersion = ''omega-v1''"

definition OmegaPubkey :: string where
  "OmegaPubkey = []"

definition validateOmegaPubkey :: "bytes \<Rightarrow> trust_error option" where
  "validateOmegaPubkey pubkey =
     (if pubkey = [] then Some UnconfiguredAnchor
      else if length pubkey \<noteq> 32 then Some InvalidPubkeyLength
      else if pubkey = replicate 32 (CHR 0x00) then Some UnconfiguredAnchor
      else None)"

definition decodeOmegaPubkey :: "string \<Rightarrow> trust_error + bytes" where
  "decodeOmegaPubkey encoded =
     (case b64_decode encoded of
        None \<Rightarrow> Inl CorruptBase64
      | Some raw \<Rightarrow> (case validateOmegaPubkey raw of Some e \<Rightarrow> Inl e | None \<Rightarrow> Inr raw))"

definition DecodedOmegaPubkey :: "trust_error + bytes" where
  "DecodedOmegaPubkey = decodeOmegaPubkey OmegaPubkey"

text \<open>\<open>now\<close> is \<open>now.Unix()\<close>. \<open>ed25519.SignatureSize\<close> is 64.\<close>

definition Verify :: "(bytes \<Rightarrow> bytes \<Rightarrow> bytes \<Rightarrow> bool) \<Rightarrow> bytes \<Rightarrow> int \<Rightarrow> SignedList \<Rightarrow> trust_error option" where
  "Verify verify pubkey now s =
     (case validateOmegaPubkey pubkey of
        Some e \<Rightarrow> Some e
      | None \<Rightarrow>
          if sl_version s \<noteq> OmegaVersion then Some VersionMismatch
          else if now \<ge> sl_expires s then Some ExpiredList
          else if sl_nodes s = [] then Some EmptyNodes
          else if length (sl_signature s) \<noteq> 64 then Some MalformedSignature
          else if \<not> verify pubkey (Canonical s) (sl_signature s) then Some BadSignature
          else None)"

section \<open>DNS resolution\<close>

type_synonym txt_resolver = "string \<Rightarrow> string list option"

definition DefaultBootstrapName :: string where
  "DefaultBootstrapName = ''_bootstrap.sopholeth.io''"

definition lookupSingleTXT :: "txt_resolver \<Rightarrow> string \<Rightarrow> trust_error + string" where
  "lookupSingleTXT r name =
     (case r name of
        None \<Rightarrow> Inl LookupFailed
      | Some records \<Rightarrow>
          (case filter (\<lambda>rec. rec \<noteq> []) (map TrimSpace records) of
             [] \<Rightarrow> Inl EmptyTXT
           | rec # _ \<Rightarrow> Inr rec))"

fun indirection_loop :: "string list \<Rightarrow> trust_error + string" where
  "indirection_loop [] = Inl NoBootstrapRecord"
| "indirection_loop (fld # rest) =
     (case Cut (CHR ''='') (TrimSpace fld) of
        None \<Rightarrow> indirection_loop rest
      | Some (key, val) \<Rightarrow>
          if TrimSpace key = ''omega''
          then (let target = TrimSpace val in if target = [] then Inl NoBootstrapRecord else Inr target)
          else indirection_loop rest)"

definition parseBootstrapIndirection :: "string \<Rightarrow> trust_error + string" where
  "parseBootstrapIndirection raw = indirection_loop (Split (CHR '';'') raw)"

definition FetchSigned ::
    "(bytes \<Rightarrow> bytes \<Rightarrow> bytes \<Rightarrow> bool) \<Rightarrow> txt_resolver \<Rightarrow> string \<Rightarrow> bytes \<Rightarrow> int \<Rightarrow> trust_error + SignedList" where
  "FetchSigned verify r bootstrapName pubkey now =
     (case validateOmegaPubkey pubkey of
        Some e \<Rightarrow> Inl e
      | None \<Rightarrow>
          (case lookupSingleTXT r (if bootstrapName = [] then DefaultBootstrapName else bootstrapName) of
             Inl e \<Rightarrow> Inl e
           | Inr indirection \<Rightarrow>
               (case parseBootstrapIndirection indirection of
                  Inl e \<Rightarrow> Inl e
                | Inr target \<Rightarrow>
                    (case lookupSingleTXT r target of
                       Inl e \<Rightarrow> Inl e
                     | Inr signedRaw \<Rightarrow>
                         (case Parse signedRaw of
                            Inl e \<Rightarrow> Inl e
                          | Inr lst \<Rightarrow>
                              (case Verify verify pubkey now lst of
                                 Some e \<Rightarrow> Inl e
                               | None \<Rightarrow> Inr lst))))))"

section \<open>Cache\<close>

datatype cache_error = CacheMkdir | CacheMarshal | CacheCreate | CacheWrite | CacheChmod | CacheClose | CacheRename
  | CacheRead | CacheParse

record cache_fs =
  cf_file :: "bytes option"
  cf_temps :: "bytes list"

text \<open>Which of the system calls of \<open>SaveCache\<close> succeed, and what a failed write leaves in the temporary file.\<close>

record cache_io =
  io_mkdir :: bool
  io_create :: bool
  io_write :: bool
  io_partial :: bytes
  io_chmod :: bool
  io_close :: bool
  io_rename :: bool

text \<open>
  The temporary file is created, written and renamed; the deferred cleanup removes it on every path that
  created it and did not rename it.
\<close>

definition SaveCache ::
    "(SignedList \<Rightarrow> bytes option) \<Rightarrow> cache_io \<Rightarrow> SignedList \<Rightarrow> cache_fs \<Rightarrow> cache_fs \<times> cache_error option" where
  "SaveCache marshal io lst fs =
     (if \<not> io_mkdir io then (fs, Some CacheMkdir)
      else case marshal lst of
             None \<Rightarrow> (fs, Some CacheMarshal)
           | Some payload \<Rightarrow>
               if \<not> io_create io then (fs, Some CacheCreate)
               else let written = fs\<lparr>cf_temps := (if io_write io then payload else io_partial io) # cf_temps fs\<rparr>;
                        cleaned = written\<lparr>cf_temps := tl (cf_temps written)\<rparr>
                    in if \<not> io_write io then (cleaned, Some CacheWrite)
                       else if \<not> io_chmod io then (cleaned, Some CacheChmod)
                       else if \<not> io_close io then (cleaned, Some CacheClose)
                       else if \<not> io_rename io then (cleaned, Some CacheRename)
                       else (written\<lparr>cf_file := Some (hd (cf_temps written)), cf_temps := tl (cf_temps written)\<rparr>, None))"

definition LoadCache :: "(bytes \<Rightarrow> SignedList option) \<Rightarrow> bool \<Rightarrow> cache_fs \<Rightarrow> cache_error + SignedList option" where
  "LoadCache unmarshal readable fs =
     (case cf_file fs of
        None \<Rightarrow> Inr None
      | Some raw \<Rightarrow>
          if \<not> readable then Inl CacheRead
          else (case unmarshal raw of None \<Rightarrow> Inl CacheParse | Some c \<Rightarrow> Inr (Some c)))"

definition ResolveCacheDir :: "string \<Rightarrow> string option \<Rightarrow> string \<times> bool" where
  "ResolveCacheDir env home =
     (if env \<noteq> [] then (env, False)
      else case home of
             Some h \<Rightarrow> if h \<noteq> [] then (h @ ''/.sopholeth/cache'', False) else (''/var/cache/sopholeth'', True)
           | None \<Rightarrow> (''/var/cache/sopholeth'', True))"

section \<open>Refresh loop\<close>

definition RefreshRotationFraction :: rat where
  "RefreshRotationFraction = float_round (9 / 10)"

definition RefreshJitter :: rat where
  "RefreshJitter = float_round (1 / 10)"

definition RefreshBackoffMin :: duration where
  "RefreshBackoffMin = 30 * nsec"

definition RefreshBackoffMax :: duration where
  "RefreshBackoffMax = 600 * nsec"

record Refresher =
  rf_current :: "SignedList option"
  rf_trigger :: bool

definition NewRefresher :: "SignedList option \<Rightarrow> Refresher" where
  "NewRefresher initial = \<lparr>rf_current = initial, rf_trigger = False\<rparr>"

text \<open>The trigger channel has room for one request; a further request is dropped.\<close>

definition Trigger :: "Refresher \<Rightarrow> Refresher" where
  "Trigger r = r\<lparr>rf_trigger := True\<rparr>"

text \<open>\<open>now\<close> is \<open>Now().Unix()\<close>; \<open>rnd n\<close> is the result of \<open>Int63n(n)\<close>.\<close>

definition nextDelay :: "int \<Rightarrow> (int \<Rightarrow> int) \<Rightarrow> Refresher \<Rightarrow> duration" where
  "nextDelay now rnd r =
     (case rf_current r of
        None \<Rightarrow> RefreshBackoffMin
      | Some current \<Rightarrow>
          let remaining = to_int64 (to_int64 (sl_expires current - now) * nsec)
          in if remaining \<le> 0 then 0
             else let target = float_to_int (float_round (float_round (of_int remaining) * RefreshRotationFraction));
                      jitterSpan = float_to_int (float_round (float_round (float_round (of_int target) * RefreshJitter) * 2));
                      target1 = (if jitterSpan > 0 then target + rnd jitterSpan - go_quot jitterSpan 2 else target)
                  in if target1 < 0 then 0 else target1)"

datatype refresh_effect = OnUpdate SignedList | OnError trust_error | OnCacheError cache_error

definition refreshOnce ::
    "trust_error + SignedList \<Rightarrow> cache_error option \<Rightarrow> Refresher \<Rightarrow> Refresher \<times> refresh_effect list \<times> trust_error option" where
  "refreshOnce fetched saved r =
     (case fetched of
        Inl e \<Rightarrow> (r, [], Some e)
      | Inr lst \<Rightarrow> (r\<lparr>rf_current := Some lst\<rparr>, (case saved of None \<Rightarrow> [] | Some e \<Rightarrow> [OnCacheError e]) @ [OnUpdate lst], None))"

text \<open>
  A wait of \<open>Run\<close> ends by the timer, or by consuming a trigger. One turn of \<open>Run\<close>: \<open>timer\<close> says how the first
  wait ended; the result is the new refresher and backoff, what was reported, and the delay of the second
  wait, if there is one (\<open>end_wait\<close> again).
\<close>

definition end_wait :: "bool \<Rightarrow> Refresher \<Rightarrow> Refresher" where
  "end_wait timer r = (if timer then r else r\<lparr>rf_trigger := False\<rparr>)"

definition run_turn ::
    "bool \<Rightarrow> trust_error + SignedList \<Rightarrow> cache_error option \<Rightarrow> Refresher \<times> duration
       \<Rightarrow> (Refresher \<times> duration) \<times> refresh_effect list \<times> duration option" where
  "run_turn timer fetched saved s =
     (let (r, backoff) = s; (r1, effs, err) = refreshOnce fetched saved (end_wait timer r)
      in case err of
           Some e \<Rightarrow>
             (let b = backoff * 2 in ((r1, if b > RefreshBackoffMax then RefreshBackoffMax else b), effs @ [OnError e], Some backoff))
         | None \<Rightarrow> ((r1, RefreshBackoffMin), effs, None))"

end
