(* ===== verification/Trust_Facts.thy ===== *)
theory Trust_Facts
  imports Trust "HOL-Library.Multiset"
begin

text \<open>
  Facts on signed root lists: a signature over \<open>Canonical\<close> fixes everything a parsed record says, a published
  record is fetched back as it was signed, and the refresh loop keeps a verified list and wakes before it
  expires.
\<close>

section \<open>What a parsed record can contain\<close>

lemma set_trim_front: "set (trim_front ws s) \<subseteq> set s"
proof (induction ws s rule: trim_front.induct)
  case (1 ws s)
  show ?case
  proof (cases "find (\<lambda>w. w \<noteq> [] \<and> s \<noteq> [] \<and> HasPrefix s w) ws")
    case None
    then show ?thesis by (simp add: trim_front.simps [of ws s])
  next
    case (Some w)
    then show ?thesis using 1 set_drop_subset [of "length w" s] by (auto simp: trim_front.simps [of ws s])
  qed
qed

lemma set_TrimSpace: "c \<in> set (TrimSpace s) \<Longrightarrow> c \<in> set s"
  unfolding TrimSpace_def using set_trim_front by (metis in_mono set_rev)

lemma Split_parts: "p \<in> set (Split c s) \<Longrightarrow> c \<notin> set p \<and> set p \<subseteq> set s"
proof (induction s arbitrary: p)
  case (Cons x xs)
  obtain q qs where q: "Split c xs = q # qs" using Split_nonempty [of c xs] by (cases "Split c xs") auto
  have "c \<notin> set r \<and> set r \<subseteq> set xs" if "r = q \<or> r \<in> set qs" for r using Cons.IH [of r] q that by auto
  then show ?case using Cons.prems q by (fastforce split: if_splits)
qed simp

text \<open>The invariant of the loop in \<open>Parse\<close>.\<close>

definition clean_nodes :: "string list \<Rightarrow> bool" where
  "clean_nodes ns = list_all (\<lambda>n. n \<noteq> [] \<and> CHR '','' \<notin> set n \<and> CHR '';'' \<notin> set n) ns"

definition clean_list :: "SignedList \<Rightarrow> bool" where
  "clean_list l \<longleftrightarrow>
     CHR '';'' \<notin> set (sl_version l) \<and> - (2 ^ 63) \<le> sl_expires l \<and> sl_expires l \<le> max_int64 \<and>
     clean_nodes (sl_nodes l)"

lemma splitAndTrim_clean: "CHR '';'' \<notin> set s \<Longrightarrow> clean_nodes (splitAndTrim s (CHR '',''))"
proof -
  assume s: "CHR '';'' \<notin> set s"
  have "CHR '','' \<notin> set (TrimSpace p) \<and> CHR '';'' \<notin> set (TrimSpace p)" if "p \<in> set (Split (CHR '','') s)" for p
    using Split_parts [OF that] set_TrimSpace [of _ p] s by blast
  then show ?thesis by (auto simp: clean_nodes_def splitAndTrim_def list_all_iff)
qed

lemma parse_field_clean:
  assumes "parse_field key val ps = Inr ps'" "CHR '';'' \<notin> set val" "clean_list (ps_list ps)"
    "ps_nodes ps \<longrightarrow> sl_nodes (ps_list ps) \<noteq> []"
  shows "clean_list (ps_list ps') \<and> (ps_nodes ps' \<longrightarrow> sl_nodes (ps_list ps') \<noteq> [])"
  using assms splitAndTrim_clean [OF assms(2)] ParseInt_range [of val]
  by (auto simp: parse_field_def clean_list_def Let_def split: if_splits option.splits)

lemma parse_parts_clean:
  assumes "parse_parts parts ps = Inr ps'" "\<And>p. p \<in> set parts \<Longrightarrow> CHR '';'' \<notin> set p" "clean_list (ps_list ps)"
    "ps_nodes ps \<longrightarrow> sl_nodes (ps_list ps) \<noteq> []"
  shows "clean_list (ps_list ps') \<and> (ps_nodes ps' \<longrightarrow> sl_nodes (ps_list ps') \<noteq> [])"
  using assms
proof (induction parts arbitrary: ps)
  case (Cons part parts)
  show ?case
  proof (cases "part = []")
    case True
    then show ?thesis using Cons by simp
  next
    case False
    then obtain k v where cut: "Cut (CHR ''='') part = Some (k, v)"
      using Cons.prems(1) by (auto split: option.splits)
    let ?ps = "ps\<lparr>ps_seen := TrimSpace k # ps_seen ps\<rparr>"
    obtain ps1 where field: "parse_field (TrimSpace k) (TrimSpace v) ?ps = Inr ps1" "parse_parts parts ps1 = Inr ps'"
      using Cons.prems(1) False cut by (auto simp: Let_def split: if_splits sum.splits)
    have "CHR '';'' \<notin> set (TrimSpace v)"
      using Cut_Some [OF cut] Cons.prems(2) [of part] set_TrimSpace [of _ v] by auto
    then have "clean_list (ps_list ps1) \<and> (ps_nodes ps1 \<longrightarrow> sl_nodes (ps_list ps1) \<noteq> [])"
      using parse_field_clean [OF field(1)] Cons.prems(3,4) by simp
    then show ?thesis using Cons.IH [OF field(2)] Cons.prems(2) by auto
  qed
qed simp

lemma Parse_clean:
  assumes "Parse raw = Inr l"
  shows "clean_list l \<and> sl_nodes l \<noteq> []"
proof -
  obtain ps where ps: "parse_parts (Split (CHR '';'') raw) parse_start = Inr ps" "ps_nodes ps" "l = ps_list ps"
    using assms by (auto simp: Parse_def split: if_splits sum.splits)
  have "clean_list (ps_list parse_start)"
    by (simp add: parse_start_def clean_list_def clean_nodes_def max_int64_def)
  then show ?thesis
    using parse_parts_clean [OF ps(1)] Split_parts [of _ "CHR '';''" raw] ps(2,3) by (auto simp: parse_start_def)
qed

section \<open>The signed bytes determine the list\<close>

lemma clean_Itoa [simp]: "CHR '';'' \<notin> set (Itoa i)"
  by (rule Itoa_no_char) (simp_all add: digit_val_def)

lemma set_Join: "c \<in> set (Join s xs) \<Longrightarrow> c = s \<or> (\<exists>x \<in> set xs. c \<in> set x)"
  by (induction s xs rule: Join.induct) auto

lemma Join_clean:
  assumes "clean_nodes ns"
  shows "CHR '';'' \<notin> set (Join (CHR '','') (sort ns))"
  using set_Join [of "CHR '';''" "CHR '',''" "sort ns"] assms by (auto simp: clean_nodes_def list_all_iff)

lemma Split_Canonical:
  assumes "clean_list l"
  shows "Split (CHR '';'') (Canonical l) =
    [''v='' @ sl_version l, ''exp='' @ Itoa (sl_expires l), ''nodes='' @ Join (CHR '','') (sort (sl_nodes l))]"
proof -
  have v: "CHR '';'' \<notin> set (''v='' @ sl_version l)" and e: "CHR '';'' \<notin> set (''exp='' @ Itoa (sl_expires l))"
    and n: "CHR '';'' \<notin> set (''nodes='' @ Join (CHR '','') (sort (sl_nodes l)))"
    using assms Join_clean [of "sl_nodes l"] by (auto simp: clean_list_def)
  have "Canonical l = (''v='' @ sl_version l) @ CHR '';'' # (''exp='' @ Itoa (sl_expires l)) @ CHR '';'' #
      (''nodes='' @ Join (CHR '','') (sort (sl_nodes l)))"
    by (simp add: Canonical_def)
  then show ?thesis using Split_append [OF v] Split_append [OF e] Split_no_sep [OF n] by (simp only:)
qed

lemma sort_eq_Nil [simp]: "sort xs = [] \<longleftrightarrow> xs = []"
  by (metis set_sort set_empty)

lemma Join_sort_inj:
  assumes "clean_nodes a" "clean_nodes b" "a \<noteq> []" "b \<noteq> []"
    and "Join (CHR '','') (sort a) = Join (CHR '','') (sort b)"
  shows "mset a = mset b"
proof -
  have "Split (CHR '','') (Join (CHR '','') (sort a)) = sort a" "Split (CHR '','') (Join (CHR '','') (sort b)) = sort b"
    by (rule Split_Join; use assms(1-4) in \<open>simp add: clean_nodes_def list_all_iff\<close>)+
  then have "sort a = sort b" unfolding assms(5) by (rule trans [OF sym])
  then have "mset (sort a) = mset (sort b)" by (rule arg_cong)
  then show ?thesis by (simp only: mset_sort)
qed

lemma Canonical_inj:
  assumes "clean_list a" "clean_list b" "sl_nodes a \<noteq> []" "sl_nodes b \<noteq> []" "Canonical a = Canonical b"
  shows "sl_version a = sl_version b \<and> sl_expires a = sl_expires b \<and> mset (sl_nodes a) = mset (sl_nodes b)"
proof -
  have eq: "sl_version a = sl_version b" "Itoa (sl_expires a) = Itoa (sl_expires b)"
      "Join (CHR '','') (sort (sl_nodes a)) = Join (CHR '','') (sort (sl_nodes b))"
    using Split_Canonical [OF assms(1)] Split_Canonical [OF assms(2)] assms(5) by simp_all
  have "ParseInt (Itoa (sl_expires a)) = Some (sl_expires a)" "ParseInt (Itoa (sl_expires b)) = Some (sl_expires b)"
    using assms(1,2) unfolding clean_list_def by (metis ParseInt_Itoa)+
  then have "sl_expires a = sl_expires b" unfolding eq(2) by (metis option.inject)
  moreover have "mset (sl_nodes a) = mset (sl_nodes b)"
    using Join_sort_inj eq(3) assms(1-4) by (simp add: clean_list_def)
  ultimately show ?thesis using eq(1) by blast
qed

lemma FetchSigned_ok:
  assumes "FetchSigned verify r name pubkey now = Inr l"
  shows "Verify verify pubkey now l = None \<and> (\<exists>raw. Parse raw = Inr l)"
  using assms unfolding FetchSigned_def by (auto split: option.splits sum.splits)

lemma Verify_ok:
  assumes "Verify verify pubkey now l = None"
  shows "sl_version l = OmegaVersion \<and> now < sl_expires l \<and> sl_nodes l \<noteq> [] \<and>
    length pubkey = 32 \<and> verify pubkey (Canonical l) (sl_signature l)"
  using assms unfolding Verify_def validateOmegaPubkey_def by (auto split: if_splits)

text \<open>
  C20. A fetched root list says only what the authority signed: if the key only verifies the canonical bytes
  of lists that the authority published, then any list that \<open>FetchSigned\<close> returns - whatever DNS answers,
  and in whatever field order, spacing or duplication of separators the record was written - has the
  version, the expiry and the nodes (as a multiset) of a published list, has the version of this binary,
  is not expired and is not empty.
\<close>

theorem fetched_list_was_signed:
  assumes unforgeable: "\<And>m s. verify pubkey m s \<Longrightarrow> m \<in> Canonical ` set published"
    and published: "list_all (\<lambda>p. clean_list p \<and> sl_nodes p \<noteq> []) published"
    and fetched: "FetchSigned verify resolver name pubkey now = Inr l"
  shows "(\<exists>p \<in> set published. sl_version l = sl_version p \<and> sl_expires l = sl_expires p \<and> mset (sl_nodes l) = mset (sl_nodes p))
    \<and> sl_version l = OmegaVersion \<and> now < sl_expires l \<and> sl_nodes l \<noteq> []"
proof -
  obtain raw where "Parse raw = Inr l" and v: "Verify verify pubkey now l = None"
    using FetchSigned_ok [OF fetched] by blast
  then have clean: "clean_list l" "sl_nodes l \<noteq> []" using Parse_clean by blast+
  obtain p where "p \<in> set published" "Canonical l = Canonical p"
    using Verify_ok [OF v] unforgeable by blast
  moreover from this(1) published have "clean_list p \<and> sl_nodes p \<noteq> []" by (simp add: list_all_iff)
  ultimately show ?thesis using Canonical_inj [of l p] clean Verify_ok [OF v] by metis
qed

section \<open>A published record is fetched as it was signed\<close>

definition printable_nodes :: "string list \<Rightarrow> bool" where
  "printable_nodes ns = list_all printable ns"

lemma printable_Join: "printable_nodes ns \<Longrightarrow> printable (Join (CHR '','') ns)"
  by (induction "CHR '',''" ns rule: Join.induct) (auto simp: printable_nodes_def printable_Cons printable_def)

lemma printable_nodes_sort [simp]: "printable_nodes (sort ns) = printable_nodes ns"
  by (simp add: printable_nodes_def list_all_iff)

lemma splitAndTrim_Join:
  assumes "clean_nodes ns" "printable_nodes ns" "ns \<noteq> []"
  shows "splitAndTrim (Join (CHR '','') (sort ns)) (CHR '','') = sort ns"
proof -
  have "Split (CHR '','') (Join (CHR '','') (sort ns)) = sort ns"
    by (rule Split_Join; use assms in \<open>simp add: clean_nodes_def list_all_iff\<close>)
  moreover have "map TrimSpace (sort ns) = sort ns"
    using assms(2) by (intro map_idI) (simp add: printable_nodes_def list_all_iff)
  moreover have "filter (\<lambda>p. p \<noteq> []) (sort ns) = sort ns"
    using assms(1) by (simp add: filter_id_conv clean_nodes_def list_all_iff)
  ultimately show ?thesis by (simp add: splitAndTrim_def)
qed

lemma printable_b64: "printable (b64_encode bs)"
proof -
  have "33 \<le> byte_val c \<and> byte_val c \<le> 126" if "c \<in> set (b64_encode bs)" for c
    using b64_encode_chars [OF that] by linarith
  then show ?thesis by (simp add: printable_def list_all_iff)
qed

lemma Split_Encode:
  assumes "clean_list l"
  shows "Split (CHR '';'') (Encode l) =
    [''v='' @ sl_version l, ''exp='' @ Itoa (sl_expires l), ''nodes='' @ Join (CHR '','') (sort (sl_nodes l)),
     ''sig='' @ b64_encode (sl_signature l)]"
proof -
  have v: "CHR '';'' \<notin> set (''v='' @ sl_version l)" and e: "CHR '';'' \<notin> set (''exp='' @ Itoa (sl_expires l))"
    and n: "CHR '';'' \<notin> set (''nodes='' @ Join (CHR '','') (sort (sl_nodes l)))"
    and s: "CHR '';'' \<notin> set (''sig='' @ b64_encode (sl_signature l))"
    using assms Join_clean [of "sl_nodes l"] b64_encode_chars by (auto simp: clean_list_def)
  have "Encode l = (''v='' @ sl_version l) @ CHR '';'' # (''exp='' @ Itoa (sl_expires l)) @ CHR '';'' #
      (''nodes='' @ Join (CHR '','') (sort (sl_nodes l))) @ CHR '';'' # (''sig='' @ b64_encode (sl_signature l))"
    by (simp add: Encode_def Canonical_def)
  then show ?thesis
    using Split_append [OF v] Split_append [OF e] Split_append [OF n] Split_no_sep [OF s] by (simp only:)
qed

text \<open>One part \<open>key=value\<close> of a record.\<close>

lemma parse_parts_field:
  assumes "CHR ''='' \<notin> set key" "printable key" "printable val" "key \<notin> set (ps_seen ps)"
  shows "parse_parts ((key @ CHR ''='' # val) # parts) ps =
    (case parse_field key val (ps\<lparr>ps_seen := key # ps_seen ps\<rparr>) of Inl e \<Rightarrow> Inl e | Inr ps' \<Rightarrow> parse_parts parts ps')"
  using assms by (simp add: Cut_append Let_def)

lemma Join_nonempty: "clean_nodes ns \<Longrightarrow> ns \<noteq> [] \<Longrightarrow> Join (CHR '','') ns \<noteq> []"
  by (induction "CHR '',''" ns rule: Join.induct) (auto simp: clean_nodes_def)

lemma clean_nodes_sort [simp]: "clean_nodes (sort ns) = clean_nodes ns"
  by (simp add: clean_nodes_def list_all_iff)

lemma Parse_Encode:
  assumes "clean_list l" "sl_nodes l \<noteq> []" "printable (sl_version l)" "printable_nodes (sl_nodes l)"
  shows "Parse (Encode l) = Inr (l\<lparr>sl_nodes := sort (sl_nodes l)\<rparr>)"
proof -
  let ?N = "Join (CHR '','') (sort (sl_nodes l))"
  have exp: "ParseInt (Itoa (sl_expires l)) = Some (sl_expires l)"
    using assms(1) unfolding clean_list_def by (metis ParseInt_Itoa)
  have nodes: "splitAndTrim ?N (CHR '','') = sort (sl_nodes l)" "?N \<noteq> []" "printable ?N"
    using assms splitAndTrim_Join Join_nonempty [of "sort (sl_nodes l)"] printable_Join [of "sort (sl_nodes l)"]
    by (simp_all add: clean_list_def)
  have keys: "printable ''v''" "printable ''exp''" "printable ''nodes''" "printable ''sig''" by code_simp+
  have "Encode l \<noteq> []" by (simp add: Encode_def Canonical_def)
  then show ?thesis
    unfolding Parse_def Split_Encode [OF assms(1)]
    using assms(2) exp nodes keys
      parse_parts_field [of "''v''" "sl_version l"] parse_parts_field [of "''exp''" "Itoa (sl_expires l)"]
      parse_parts_field [of "''nodes''" ?N] parse_parts_field [of "''sig''" "b64_encode (sl_signature l)"]
    by (simp add: parse_start_def parse_field_def assms printable_Itoa printable_b64 b64_round_trip Let_def del: parse_parts.simps(2))
qed

lemma Canonical_frame [simp]:
  "Canonical (l\<lparr>sl_signature := sig\<rparr>) = Canonical l"
  "Canonical (l\<lparr>sl_nodes := sort (sl_nodes l)\<rparr>) = Canonical l"
  "Canonical (l\<lparr>sl_signature := sig, sl_nodes := sort (sl_nodes l)\<rparr>) = Canonical l"
  by (simp_all add: Canonical_def sorted_sort_id)

lemma Verify_sorted [simp]: "Verify verify pubkey now (l\<lparr>sl_nodes := sort (sl_nodes l)\<rparr>) = Verify verify pubkey now l"
  by (simp add: Verify_def)

lemma clean_list_frame [simp]: "clean_list (l\<lparr>sl_signature := sig\<rparr>) = clean_list l"
  by (simp add: clean_list_def)

lemma printable_Encode:
  assumes "printable (sl_version l)" "printable_nodes (sl_nodes l)"
  shows "printable (Encode l)"
proof -
  have "printable ''v=''" "printable '';exp=''" "printable '';nodes=''" "printable '';sig=''" by code_simp+
  then show ?thesis
    unfolding Encode_def Canonical_def printable_append
    using assms printable_Join [of "sort (sl_nodes l)"] printable_Itoa printable_b64 by (simp only: printable_nodes_sort simp_thms)
qed

lemma lookupSingleTXT_printable:
  "r name = Some [rec] \<Longrightarrow> printable rec \<Longrightarrow> rec \<noteq> [] \<Longrightarrow> lookupSingleTXT r name = Inr rec"
  by (simp add: lookupSingleTXT_def)

lemma indirection_target:
  assumes "printable target" "target \<noteq> []" "CHR '';'' \<notin> set target"
  shows "parseBootstrapIndirection (''omega='' @ target) = Inr target"
proof -
  have omega: "printable ''omega''" "printable ''omega=''" by code_simp+
  have split: "Split (CHR '';'') (''omega='' @ target) = [''omega='' @ target]"
    using assms(3) by (intro Split_no_sep) simp
  have "TrimSpace (''omega='' @ target) = ''omega'' @ CHR ''='' # target"
    using omega(2) assms(1) TrimSpace_printable [of "''omega='' @ target"] by (simp only: printable_append) simp
  moreover have "Cut (CHR ''='') (''omega'' @ CHR ''='' # target) = Some (''omega'', target)"
    by (rule Cut_append) simp
  ultimately show ?thesis
    unfolding parseBootstrapIndirection_def split
    using assms TrimSpace_printable [OF omega(1)] by (simp only: indirection_loop.simps) (simp add: Let_def)
qed

lemma fetch_encoded:
  assumes "Verify verify pubkey now l = None" "clean_list l" "printable_nodes (sl_nodes l)"
    and "printable target" "target \<noteq> []" "CHR '';'' \<notin> set target"
    and "resolver DefaultBootstrapName = Some [''omega='' @ target]" "resolver target = Some [Encode l]"
  shows "FetchSigned verify resolver [] pubkey now = Inr (l\<lparr>sl_nodes := sort (sl_nodes l)\<rparr>)"
proof -
  have v: "printable (sl_version l)" "printable ''omega=''"
    using Verify_ok [OF assms(1)] by (simp add: OmegaVersion_def printable_def, code_simp)
  have key: "validateOmegaPubkey pubkey = None" using assms(1) by (simp add: Verify_def split: option.splits)
  have "printable (Encode l)" "Encode l \<noteq> []"
    using assms(3) v(1) by (simp_all add: printable_Encode) (simp add: Encode_def Canonical_def)
  then have "lookupSingleTXT resolver target = Inr (Encode l)"
    using lookupSingleTXT_printable [of resolver target "Encode l"] assms(8) by blast
  moreover have "printable (''omega='' @ target)" unfolding printable_append using v(2) assms(4) by blast
  then have "lookupSingleTXT resolver DefaultBootstrapName = Inr (''omega='' @ target)"
    using lookupSingleTXT_printable [of resolver DefaultBootstrapName "''omega='' @ target"] assms(7) by simp
  moreover have "Parse (Encode l) = Inr (l\<lparr>sl_nodes := sort (sl_nodes l)\<rparr>)"
    using Parse_Encode [of l] assms(2,3) Verify_ok [OF assms(1)] v(1) by simp
  moreover have "Verify verify pubkey now (l\<lparr>sl_nodes := sort (sl_nodes l)\<rparr>) = None"
    using assms(1) by simp
  ultimately show ?thesis
    using indirection_target [OF assms(4-6)] key by (simp add: FetchSigned_def)
qed

text \<open>
  C30. A published root list reaches every node: for a list with this binary's version, printable node
  addresses and a future expiry, signed with a key whose signatures verify and published as \<open>Encode\<close> at the
  name to which the bootstrap record points, \<open>FetchSigned\<close> returns that list with its nodes in sorted order.
\<close>

theorem published_list_is_fetched:
  assumes "\<And>m. verify pubkey m (sign priv m)" "\<And>m. length (sign priv m) = 64"
    and "validateOmegaPubkey pubkey = None"
    and "clean_list l" "sl_nodes l \<noteq> []" "printable_nodes (sl_nodes l)" "sl_version l = OmegaVersion" "now < sl_expires l"
    and "printable target" "target \<noteq> []" "CHR '';'' \<notin> set target"
    and "resolver DefaultBootstrapName = Some [''omega='' @ target]"
    and "resolver target = Some [Encode (Sign sign priv l)]"
  shows "FetchSigned verify resolver [] pubkey now = Inr ((Sign sign priv l)\<lparr>sl_nodes := sort (sl_nodes l)\<rparr>)"
proof -
  have "Verify verify pubkey now (Sign sign priv l) = None"
    using assms(1-3,5,7,8) by (simp add: Verify_def Sign_def)
  then have "FetchSigned verify resolver [] pubkey now = Inr ((Sign sign priv l)\<lparr>sl_nodes := sort (sl_nodes (Sign sign priv l))\<rparr>)"
    using assms(4,6) by (intro fetch_encoded [OF _ _ _ assms(9-13)]) (simp_all add: Sign_def)
  then show ?thesis by (simp add: Sign_def)
qed

definition ex_list :: SignedList where
  "ex_list = \<lparr>sl_version = ''omega-v1'', sl_expires = 2000, sl_nodes = [''b:1'', ''a:1''], sl_signature = []\<rparr>"

definition ex_sign :: "unit \<Rightarrow> bytes \<Rightarrow> bytes" where
  "ex_sign k m = replicate 64 (CHR ''x'')"

definition ex_verify :: "bytes \<Rightarrow> bytes \<Rightarrow> bytes \<Rightarrow> bool" where
  "ex_verify pk m s \<longleftrightarrow> s = replicate 64 (CHR ''x'')"

definition ex_key :: bytes where
  "ex_key = replicate 32 (CHR ''k'')"

definition ex_dns :: txt_resolver where
  "ex_dns name =
     (if name = DefaultBootstrapName then Some [''omega=t'']
      else if name = ''t'' then Some [Encode (Sign ex_sign () ex_list)] else None)"

lemma ex_list_ok: "clean_list ex_list" "sl_nodes ex_list \<noteq> []" "printable_nodes (sl_nodes ex_list)"
  "sl_version ex_list = OmegaVersion"
  by (simp_all add: ex_list_def clean_list_def clean_nodes_def max_int64_def printable_nodes_def printable_def OmegaVersion_def)

lemma ex_key_ok: "validateOmegaPubkey ex_key = None" "length ex_key = 32"
  by code_simp+

lemma ex_dns_ok: "ex_dns DefaultBootstrapName = Some [''omega='' @ ''t'']" "ex_dns ''t'' = Some [Encode (Sign ex_sign () ex_list)]"
  by (simp_all add: ex_dns_def DefaultBootstrapName_def)

theorem published_list_is_fetched_witness:
  "FetchSigned ex_verify ex_dns [] ex_key 1000 = Inr ((Sign ex_sign () ex_list)\<lparr>sl_nodes := sort (sl_nodes ex_list)\<rparr>)"
  by (rule published_list_is_fetched [OF _ _ ex_key_ok(1) ex_list_ok _ _ _ _ ex_dns_ok])
    (simp_all add: ex_verify_def ex_sign_def ex_list_def printable_def)

text \<open>A verifier that only accepts the canonical bytes of \<open>ex_list\<close>.\<close>

definition ex_strict :: "bytes \<Rightarrow> bytes \<Rightarrow> bytes \<Rightarrow> bool" where
  "ex_strict pk m s \<longleftrightarrow> m = Canonical ex_list"

lemma ex_strict_fetch: "FetchSigned ex_strict ex_dns [] ex_key 1000 = Inr ((Sign ex_sign () ex_list)\<lparr>sl_nodes := sort (sl_nodes ex_list)\<rparr>)"
proof -
  let ?l = "Sign ex_sign () ex_list"
  have "Verify ex_strict ex_key 1000 ?l = None"
    using ex_key_ok ex_list_ok by (simp add: Verify_def ex_strict_def Sign_def ex_sign_def) (simp add: ex_list_def)
  moreover have "clean_list ?l" "printable_nodes (sl_nodes ?l)" using ex_list_ok by (simp_all add: Sign_def)
  moreover have "printable ''t''" "''t'' \<noteq> []" "CHR '';'' \<notin> set ''t''" by (simp_all add: printable_def)
  ultimately have "FetchSigned ex_strict ex_dns [] ex_key 1000 = Inr (?l\<lparr>sl_nodes := sort (sl_nodes ?l)\<rparr>)"
    by (rule fetch_encoded [OF _ _ _ _ _ _ ex_dns_ok])
  then show ?thesis by (simp add: Sign_def)
qed

theorem fetched_list_was_signed_witness:
  "\<exists>l. FetchSigned ex_strict ex_dns [] ex_key 1000 = Inr l \<and> sl_version l = OmegaVersion \<and> 1000 < sl_expires l"
proof -
  have "sl_version l = OmegaVersion \<and> 1000 < sl_expires l" if "FetchSigned ex_strict ex_dns [] ex_key 1000 = Inr l" for l
    using fetched_list_was_signed [of ex_strict ex_key "[ex_list]", OF _ _ that] ex_list_ok by (simp add: ex_strict_def)
  then show ?thesis using ex_strict_fetch by blast
qed

section \<open>Refresh timing\<close>

lemma float_to_int_le: "0 \<le> x \<Longrightarrow> of_int (float_to_int x) \<le> x" "0 \<le> x \<Longrightarrow> 0 \<le> float_to_int x"
  by (simp_all add: float_to_int_def)

lemma float_mult_le:
  assumes "0 \<le> x" "0 \<le> y" "x \<le> X" "y \<le> Y"
  shows "float_round (x * y) \<le> X * Y * (1 + 1 / 2 ^ 53) \<and> 0 \<le> float_round (x * y)"
proof
  have "x * y \<le> X * Y" using assms by (simp add: mult_mono)
  then have "x * y * (1 + 1 / 2 ^ 53) \<le> X * Y * (1 + 1 / 2 ^ 53)" by (intro mult_right_mono) simp_all
  with float_round_le [of "x * y"] assms show "float_round (x * y) \<le> X * Y * (1 + 1 / 2 ^ 53)" by simp
  show "0 \<le> float_round (x * y)" using assms by (intro float_round_nonneg) simp
qed

abbreviation eps :: rat where
  "eps \<equiv> 1 + 1 / 2 ^ 53"

lemma float_fraction_le:
  assumes "0 \<le> x" "0 \<le> f"
  shows "float_round (float_round x * float_round f) \<le> x * f * eps ^ 3" "0 \<le> float_round (float_round x * float_round f)"
proof -
  have "float_round (float_round x * float_round f) \<le> (x * eps) * (f * eps) * eps \<and> 0 \<le> float_round (float_round x * float_round f)"
    using float_round_le assms by (intro float_mult_le) (simp_all add: float_round_nonneg)
  then show "float_round (float_round x * float_round f) \<le> x * f * eps ^ 3" "0 \<le> float_round (float_round x * float_round f)"
    by (simp_all add: power3_eq_cube algebra_simps)
qed

lemma delay_target_le:
  assumes "0 \<le> remaining"
  defines "target \<equiv> float_to_int (float_round (float_round (of_int remaining) * RefreshRotationFraction))"
  defines "jit \<equiv> float_to_int (float_round (float_round (float_round (of_int target) * RefreshJitter) * 2))"
  shows "0 \<le> target" "0 \<le> jit" "of_int target \<le> of_int remaining * (9 / 10 * eps ^ 3)"
    "of_int jit \<le> of_int target * (2 / 10 * eps ^ 4)"
proof -
  show t: "0 \<le> target" "of_int target \<le> of_int remaining * (9 / 10 * eps ^ 3)"
    using float_fraction_le [of "of_int remaining" "9 / 10"] assms(1)
      float_to_int_le [of "float_round (float_round (of_int remaining) * RefreshRotationFraction)"]
    by (simp_all add: target_def RefreshRotationFraction_def)
  let ?j = "float_round (float_round (of_int target) * RefreshJitter)"
  have j: "?j \<le> of_int target * (1 / 10) * eps ^ 3" "0 \<le> ?j"
    using float_fraction_le [of "of_int target" "1 / 10"] t(1) by (simp_all add: RefreshJitter_def)
  then have "float_round (?j * 2) \<le> of_int target * (1 / 10) * eps ^ 3 * 2 * eps" "0 \<le> float_round (?j * 2)"
    using float_mult_le [of ?j 2 "of_int target * (1 / 10) * eps ^ 3" 2] by simp_all
  then show "0 \<le> jit" "of_int jit \<le> of_int target * (2 / 10 * eps ^ 4)"
    using float_to_int_le [of "float_round (?j * 2)"] by (simp_all add: jit_def power4_eq_xxxx power3_eq_cube algebra_simps)
qed

lemma jitter_below:
  fixes t j a b r :: int
  assumes "0 < j \<Longrightarrow> 2 * (a - b) \<le> j" "0 \<le> j" "2 * t + j < 2 * r"
  shows "(if 0 < j then t + a - b else t) < r"
  using assms by (cases "0 < j") auto

lemma nextDelay_le:
  assumes "rf_current r = Some l" "now < sl_expires l" "(sl_expires l - now) * nsec \<le> max_int64"
    and "\<And>n. 0 < n \<Longrightarrow> 0 \<le> rnd n \<and> rnd n < n"
  shows "0 \<le> nextDelay now rnd r" "nextDelay now rnd r < (sl_expires l - now) * nsec"
proof -
  let ?rem = "(sl_expires l - now) * nsec"
  have "sl_expires l - now \<le> ?rem" using assms(2) by (simp add: nsec_def)
  then have rem: "to_int64 (to_int64 (sl_expires l - now) * nsec) = ?rem" "0 < ?rem"
    using assms(2,3) by (simp_all add: to_int64_id nsec_def max_int64_def)
  define target where "target = float_to_int (float_round (float_round (of_int ?rem) * RefreshRotationFraction))"
  define jit where "jit = float_to_int (float_round (float_round (float_round (of_int target) * RefreshJitter) * 2))"
  note t = delay_target_le [of ?rem, folded target_def, folded jit_def]
  have "of_int target + of_int jit / 2 \<le> of_int target * (1 + 1 / 10 * eps ^ 4)"
    using t(4) rem(2) by (simp add: algebra_simps)
  also have "\<dots> \<le> of_int ?rem * (9 / 10 * eps ^ 3) * (1 + 1 / 10 * eps ^ 4)"
    using t(3) rem(2) by (intro mult_right_mono) simp_all
  also have "\<dots> = of_int ?rem * (9 / 10 * eps ^ 3 * (1 + 1 / 10 * eps ^ 4))" by (simp only: mult.assoc)
  also have "\<dots> < of_int ?rem * 1" using rem(2) by (intro mult_strict_left_mono) (simp_all add: field_simps)
  finally have le: "of_int target + of_int jit / 2 < (of_int ?rem :: rat)" by simp
  have "2 * (rnd jit - go_quot jit 2) \<le> jit" if p: "0 < jit"
  proof -
    have "rnd jit - go_quot jit 2 \<le> jit - 1 - jit div 2" using assms(4) [OF p] p by (simp add: go_quot_def)
    then have "2 * (rnd jit - go_quot jit 2) \<le> 2 * (jit - 1 - jit div 2)" by (rule mult_left_mono) simp
    also have "\<dots> \<le> jit" by presburger
    finally show ?thesis .
  qed
  moreover have "2 * target + jit < 2 * ?rem"
  proof -
    have "(of_int (2 * target + jit) :: rat) < of_int (2 * ?rem)" using le by simp
    then show ?thesis by (simp only: of_int_less_iff)
  qed
  ultimately have "(if 0 < jit then target + rnd jit - go_quot jit 2 else target) < ?rem"
    using t(2) rem(2) by (intro jitter_below) simp_all
  moreover have "(?rem \<le> 0) = False" using rem(2) by simp
  then have "nextDelay now rnd r = max 0 (if 0 < jit then target + rnd jit - go_quot jit 2 else target)"
    unfolding nextDelay_def assms(1) option.case Let_def rem(1) jit_def target_def max_def
    by (simp only: if_False not_le if_not_P split: if_splits) linarith
  ultimately show "0 \<le> nextDelay now rnd r" "nextDelay now rnd r < ?rem" using rem(2) by simp_all
qed

text \<open>
  A history of the refresher: requests, ends of the second wait, and turns of the loop with what DNS answers,
  the clock reading and the outcome of the cache write.
\<close>

datatype refresh_event = Poke | EndWait bool | Turn bool txt_resolver int "cache_error option"

fun refresh_exec ::
    "(bytes \<Rightarrow> bytes \<Rightarrow> bytes \<Rightarrow> bool) \<Rightarrow> string \<Rightarrow> bytes \<Rightarrow> refresh_event \<Rightarrow> Refresher \<times> duration \<Rightarrow> Refresher \<times> duration" where
  "refresh_exec verify name pubkey Poke (r, b) = (Trigger r, b)"
| "refresh_exec verify name pubkey (EndWait timer) (r, b) = (end_wait timer r, b)"
| "refresh_exec verify name pubkey (Turn timer dns now saved) s =
     fst (run_turn timer (FetchSigned verify dns name pubkey now) saved s)"

definition refresh_run ::
    "(bytes \<Rightarrow> bytes \<Rightarrow> bytes \<Rightarrow> bool) \<Rightarrow> string \<Rightarrow> bytes \<Rightarrow> refresh_event list \<Rightarrow> SignedList \<Rightarrow> Refresher \<times> duration" where
  "refresh_run verify name pubkey es initial =
     foldl (\<lambda>s e. refresh_exec verify name pubkey e s) (NewRefresher (Some initial), RefreshBackoffMin) es"

definition refresh_inv ::
    "(bytes \<Rightarrow> bytes \<Rightarrow> bytes \<Rightarrow> bool) \<Rightarrow> bytes \<Rightarrow> SignedList \<Rightarrow> Refresher \<times> duration \<Rightarrow> bool" where
  "refresh_inv verify pubkey initial s \<longleftrightarrow>
     (\<exists>l. rf_current (fst s) = Some l \<and> (l = initial \<or> (\<exists>now. Verify verify pubkey now l = None))) \<and>
     RefreshBackoffMin \<le> snd s \<and> snd s \<le> RefreshBackoffMax"

lemma refresh_inv_exec:
  assumes "refresh_inv verify pubkey initial s"
  shows "refresh_inv verify pubkey initial (refresh_exec verify name pubkey e s)"
proof (cases e)
  case (Turn timer dns now saved)
  show ?thesis
  proof (cases "FetchSigned verify dns name pubkey now")
    case (Inl err)
    then show ?thesis
      using assms Turn
      by (cases s) (auto simp: refresh_inv_def run_turn_def refreshOnce_def end_wait_def Let_def RefreshBackoffMax_def RefreshBackoffMin_def nsec_def)
  next
    case (Inr l)
    then show ?thesis
      using assms Turn FetchSigned_ok [OF Inr]
      by (cases s) (auto simp: refresh_inv_def run_turn_def refreshOnce_def Let_def RefreshBackoffMax_def RefreshBackoffMin_def nsec_def)
  qed
qed (use assms in \<open>cases s; simp add: refresh_inv_def Trigger_def end_wait_def\<close>)+

text \<open>
  C31. The refresh loop never loses or weakens its list: after any history of requests, failures and
  successes the current list is the initial one or one that \<open>Verify\<close> accepted under the same key, the backoff
  stays between 30 seconds and 10 minutes, and from any clock reading before the expiry of the current list
  the next scheduled refresh comes strictly before that expiry, whatever the jitter drawn.
\<close>

theorem refresher_stays_trusted:
  assumes "refresh_run verify name pubkey es initial = (r, backoff)"
    and "\<And>n. 0 < n \<Longrightarrow> 0 \<le> rnd n \<and> rnd n < n"
  shows "\<exists>l. rf_current r = Some l \<and> (l = initial \<or> (\<exists>t. Verify verify pubkey t l = None)) \<and>
    30 * nsec \<le> backoff \<and> backoff \<le> 600 * nsec \<and>
    (now < sl_expires l \<longrightarrow> (sl_expires l - now) * nsec \<le> max_int64 \<longrightarrow>
       0 \<le> nextDelay now rnd r \<and> nextDelay now rnd r < (sl_expires l - now) * nsec)"
proof -
  have "refresh_inv verify pubkey initial (foldl (\<lambda>s e. refresh_exec verify name pubkey e s) s es)"
    if "refresh_inv verify pubkey initial s" for s
    using that by (induction es arbitrary: s) (simp_all add: refresh_inv_exec)
  moreover have "refresh_inv verify pubkey initial (NewRefresher (Some initial), RefreshBackoffMin)"
    by (simp add: refresh_inv_def NewRefresher_def RefreshBackoffMin_def RefreshBackoffMax_def nsec_def)
  ultimately have "refresh_inv verify pubkey initial (r, backoff)" using assms(1) unfolding refresh_run_def by metis
  then show ?thesis
    using nextDelay_le [of r _ now rnd] assms(2) by (auto simp: refresh_inv_def RefreshBackoffMin_def RefreshBackoffMax_def)
qed

definition ex_refreshes :: "refresh_event list" where
  "ex_refreshes = [Poke, Turn False ex_dns 1000 None, Turn True (\<lambda>_. None) 1500 None, EndWait True]"

definition ex_final :: Refresher where
  "ex_final = \<lparr>rf_current = Some ((Sign ex_sign () ex_list)\<lparr>sl_nodes := sort (sl_nodes ex_list)\<rparr>), rf_trigger = False\<rparr>"

theorem refresher_stays_trusted_witness:
  "refresh_run ex_strict [] ex_key ex_refreshes ex_list = (ex_final, 60 * nsec) \<and>
   0 \<le> nextDelay 1600 (\<lambda>n. n - 1) ex_final \<and> nextDelay 1600 (\<lambda>n. n - 1) ex_final < 400 * nsec"
proof -
  have "FetchSigned ex_strict (\<lambda>_. None) [] ex_key 1500 = Inl LookupFailed"
    using ex_key_ok(1) by (simp add: FetchSigned_def lookupSingleTXT_def)
  then have run: "refresh_run ex_strict [] ex_key ex_refreshes ex_list = (ex_final, 60 * nsec)"
    using ex_strict_fetch
    by (simp add: refresh_run_def ex_refreshes_def ex_final_def NewRefresher_def Trigger_def run_turn_def refreshOnce_def
        end_wait_def RefreshBackoffMin_def RefreshBackoffMax_def nsec_def)
  show ?thesis
    using refresher_stays_trusted [OF run, of "\<lambda>n. n - 1" 1600] run
    by (simp add: ex_final_def Sign_def ex_list_def max_int64_def nsec_def)
qed

section \<open>The cache file is replaced atomically\<close>

lemma SaveCache_atomic:
  "SaveCache marshal io l fs = (fs', err) \<Longrightarrow>
     cf_temps fs' = cf_temps fs \<and> (err \<noteq> None \<longrightarrow> cf_file fs' = cf_file fs) \<and>
     (err = None \<longrightarrow> cf_file fs' = marshal l \<and> cf_file fs' \<noteq> None)"
  by (auto simp: SaveCache_def Let_def split: if_splits option.splits)

lemma SaveCache_LoadCache:
  assumes "SaveCache marshal io l fs = (fs', None)" "\<And>b. marshal l = Some b \<Longrightarrow> unmarshal b = Some l"
  shows "LoadCache unmarshal True fs' = Inr (Some l)"
proof -
  obtain b where "cf_file fs' = Some b" "marshal l = Some b" using SaveCache_atomic [OF assms(1)] by (metis option.exhaust)
  with assms(2) show ?thesis by (simp add: LoadCache_def)
qed

end
