(* ===== verification/Cluster.thy ===== *)
theory Cluster
  imports Storage Gossip
begin

text \<open>
  The cluster node, \<open>src/internal/cluster\<close>: admission limits, quorum writes, replica writes with
  acknowledgements, and recovery from isolation. It composes the store (theory \<open>Storage\<close>) with the
  gossip protocol (theory \<open>Gossip\<close>).

  \<open>Put\<close> waits on a channel, so it is two operations: \<open>Put_begin\<close>, everything up to the \<open>select\<close>, and
  \<open>Put_finish\<close>, the branch of the \<open>select\<close> that was taken; other operations happen in between. A
  \<open>*WriteOperation\<close> is an address in a heap, because the waiting call and late acknowledgements keep
  the pointer after it has left \<open>pendingWrites\<close>. The tree manager (interfaces \<open>AckRouter\<close> and
  \<open>ChildBroadcaster\<close>) is called through effects. \<open>clock k\<close> is the k-th reading of \<open>time.Now()\<close> in a
  call.
\<close>

section \<open>Data\<close>

record WriteLimits =
  wl_max_value :: int
  wl_max_key :: int
  wl_min_ttl :: int
  wl_max_ttl :: int

definition MinTTLSeconds :: int where "MinTTLSeconds = 300"
definition DefaultMaxTTLSeconds :: int where "DefaultMaxTTLSeconds = 86400"

definition DefaultWriteLimits :: WriteLimits where
  "DefaultWriteLimits = \<lparr>wl_max_value = 100 * 1024, wl_max_key = 1024, wl_min_ttl = MinTTLSeconds,
     wl_max_ttl = DefaultMaxTTLSeconds\<rparr>"

datatype cluster_error =
    ErrKeyTooLong | ErrValueTooLarge | LocalWriteFailed store_error | ErrQuorumTimeout | ContextDone
  | BadLimits | ReplicaFailed store_error | ProtocolFailed gossip_error | StartFailed

text \<open>\<open>wo_closes\<close> counts how often \<open>Complete\<close> was closed; \<open>signalOnce\<close> has run iff it is positive.\<close>

record WriteOperation =
  wo_key :: string
  wo_data :: bytes
  wo_ttl :: duration
  wo_confirmations :: int
  wo_closes :: nat
  wo_error :: "cluster_error option"

type_synonym op_id = nat

text \<open>\<open>localNode\<close> is the protocol's local node: both structs hold the same pointer.\<close>

record ClusterNode =
  cn_protocol :: Protocol
  cn_store :: MemoryStore
  cn_replication :: int
  cn_write_timeout :: duration
  cn_secret :: string
  cn_limits :: WriteLimits
  cn_pending :: "(string, op_id) gomap"
  cn_ops :: "(op_id, WriteOperation) gomap"
  cn_next :: op_id
  cn_is_root :: bool
  cn_has_router :: bool
  cn_has_broadcaster :: bool

datatype cluster_effect = SendTo Node Message | CallRouteAck Message | CallBroadcastToChildren Message

definition NewClusterNode ::
  "string \<Rightarrow> string \<Rightarrow> int \<Rightarrow> int \<Rightarrow> int \<Rightarrow> int \<Rightarrow> duration \<Rightarrow> string \<Rightarrow> string \<Rightarrow> ClusterNode" where
  "NewClusterNode nodeID address gossipPort httpPort rf maxBytes timeout secret enclave =
     (let local = \<lparr>n_id = nodeID, n_address = address, n_port = gossipPort, n_http_port = httpPort,
                   n_http_origin = [], n_enclave = (if enclave = [] then ''default'' else enclave)\<rparr>
      in \<lparr>cn_protocol = NewProtocol local rf secret, cn_store = NewMemoryStore maxBytes,
          cn_replication = rf, cn_write_timeout = timeout, cn_secret = secret,
          cn_limits = DefaultWriteLimits, cn_pending = [], cn_ops = [], cn_next = 0, cn_is_root = False,
          cn_has_router = False, cn_has_broadcaster = False\<rparr>)"

section \<open>Admission limits\<close>

definition SetWriteLimits :: "WriteLimits \<Rightarrow> ClusterNode \<Rightarrow> ClusterNode \<times> cluster_error option" where
  "SetWriteLimits limits cn =
     (if wl_max_value limits \<le> 0 \<or> wl_max_key limits \<le> 0 then (cn, Some BadLimits)
      else
        let l = limits\<lparr>wl_min_ttl := max (wl_min_ttl limits) MinTTLSeconds\<rparr> in
        if wl_max_ttl l < wl_min_ttl l \<or> wl_max_ttl l > max_int32 then (cn, Some BadLimits)
        else (cn\<lparr>cn_limits := l\<rparr>, None))"

definition ValidateKey :: "WriteLimits \<Rightarrow> string \<Rightarrow> cluster_error option" where
  "ValidateKey l key = (if int (length key) > wl_max_key l then Some ErrKeyTooLong else None)"

definition validateWrite :: "WriteLimits \<Rightarrow> string \<Rightarrow> bytes \<Rightarrow> cluster_error option" where
  "validateWrite l key data =
     (case ValidateKey l key of
        Some err \<Rightarrow> Some err
      | None \<Rightarrow> if int (length data) > wl_max_value l then Some ErrValueTooLarge else None)"

text \<open>The product is computed in 64 bits.\<close>

definition clampTTL :: "WriteLimits \<Rightarrow> int \<Rightarrow> duration" where
  "clampTTL l seconds = to_int64 (min (max seconds (wl_min_ttl l)) (wl_max_ttl l) * nsec)"

section \<open>Quorum\<close>

definition quorumSize :: "ClusterNode \<Rightarrow> int" where
  "quorumSize cn =
     (let enclaveNodes = int (length (GetReplicationPeers (cn_protocol cn))) + 1;
          effective = (if cn_replication cn < enclaveNodes then cn_replication cn else enclaveNodes);
          q = go_quot effective 2 + 1
      in if q < 1 then 1 else q)"

section \<open>Client writes\<close>

datatype put_outcome = PutFailed cluster_error | PutDone | PutWaiting op_id string

definition put_message :: "(nat \<Rightarrow> gotime) \<Rightarrow> string \<Rightarrow> bytes \<Rightarrow> duration \<Rightarrow> ClusterNode \<Rightarrow> Message" where
  "put_message clock key data ttl cn =
     \<lparr>msg_type = MessageTypePut, msg_from = n_id (p_local (cn_protocol cn)), msg_to = [], msg_key = key,
      msg_data = data, msg_ttl = go_quot ttl nsec, msg_timestamp = clock 0,
      msg_id = key @ ''-'' @ Itoa (clock 1), msg_node_info = None\<rparr>"

definition markComplete :: "op_id \<Rightarrow> ClusterNode \<Rightarrow> ClusterNode" where
  "markComplete i cn =
     (case gm_lookup (cn_ops cn) i of
        None \<Rightarrow> cn
      | Some w \<Rightarrow>
          if wo_closes w = 0 then cn\<lparr>cn_ops := gm_update i (w\<lparr>wo_closes := Suc (wo_closes w)\<rparr>) (cn_ops cn)\<rparr>
          else cn)"

definition Put_begin ::
  "(nat \<Rightarrow> gotime) \<Rightarrow> (Node list \<Rightarrow> Node list) \<Rightarrow> string \<Rightarrow> bytes \<Rightarrow> duration \<Rightarrow> ClusterNode
     \<Rightarrow> ClusterNode \<times> sends \<times> put_outcome" where
  "Put_begin clock shuffle key data ttl0 cn =
     (case validateWrite (cn_limits cn) key data of
        Some err \<Rightarrow> (cn, [], PutFailed err)
      | None \<Rightarrow>
          let ttl = clampTTL (cn_limits cn) (go_quot ttl0 nsec);
              quorum = quorumSize cn;
              msg = put_message clock key data ttl cn;
              i = cn_next cn;
              op = \<lparr>wo_key = key, wo_data = data, wo_ttl = ttl, wo_confirmations = 1, wo_closes = 0,
                    wo_error = None\<rparr>;
              cn1 = cn\<lparr>cn_next := Suc i, cn_ops := gm_update i op (cn_ops cn),
                       cn_pending := gm_update (msg_id msg) i (cn_pending cn)\<rparr>
          in case Put (clock 2) key data ttl (cn_store cn1) of
               (st, Some err) \<Rightarrow>
                 (cn1\<lparr>cn_store := st, cn_pending := gm_delete (msg_id msg) (cn_pending cn1)\<rparr>, [],
                  PutFailed (LocalWriteFailed err))
             | (st, None) \<Rightarrow>
                 let cn2 = cn1\<lparr>cn_store := st\<rparr> in
                 if wo_confirmations op \<ge> quorum
                 then (markComplete i (cn2\<lparr>cn_pending := gm_delete (msg_id msg) (cn_pending cn2)\<rparr>), [], PutDone)
                 else case BroadcastToEnclave shuffle (clock 3) msg (cn_protocol cn2) of
                        (p, outs, err) \<Rightarrow> (cn2\<lparr>cn_protocol := p\<rparr>, outs, PutWaiting i (msg_id msg)))"

text \<open>The three ways the \<open>select\<close> can end; the first is possible once \<open>Complete\<close> is closed.\<close>

datatype put_wait = WaitComplete | WaitTimeout | WaitContext

definition wait_enabled :: "put_wait \<Rightarrow> op_id \<Rightarrow> ClusterNode \<Rightarrow> bool" where
  "wait_enabled w i cn =
     (case w of
        WaitComplete \<Rightarrow> (case gm_lookup (cn_ops cn) i of None \<Rightarrow> False | Some op \<Rightarrow> wo_closes op > 0)
      | _ \<Rightarrow> True)"

definition Put_finish :: "put_wait \<Rightarrow> op_id \<Rightarrow> string \<Rightarrow> ClusterNode \<Rightarrow> ClusterNode \<times> cluster_error option" where
  "Put_finish w i mid cn =
     (cn\<lparr>cn_pending := gm_delete mid (cn_pending cn)\<rparr>,
      case w of
        WaitComplete \<Rightarrow> (case gm_lookup (cn_ops cn) i of None \<Rightarrow> None | Some op \<Rightarrow> wo_error op)
      | WaitTimeout \<Rightarrow> Some ErrQuorumTimeout
      | WaitContext \<Rightarrow> Some ContextDone)"

section \<open>Replica writes and acknowledgements\<close>

definition ack_message :: "gotime \<Rightarrow> Message \<Rightarrow> ClusterNode \<Rightarrow> Message" where
  "ack_message now msg cn =
     blank_message\<lparr>msg_type := MessageTypeAck, msg_from := n_id (p_local (cn_protocol cn)),
       msg_to := msg_from msg, msg_key := msg_key msg, msg_id := msg_id msg, msg_timestamp := now\<rparr>"

definition handlePutMessage ::
  "(nat \<Rightarrow> gotime) \<Rightarrow> (Node list \<Rightarrow> Node list) \<Rightarrow> Message \<Rightarrow> ClusterNode
     \<Rightarrow> ClusterNode \<times> cluster_effect list \<times> cluster_error option" where
  "handlePutMessage clock shuffle msg0 cn =
     (case validateWrite (cn_limits cn) (msg_key msg0) (msg_data msg0) of
        Some err \<Rightarrow> (cn, [], Some err)
      | None \<Rightarrow>
          let ttl = clampTTL (cn_limits cn) (msg_ttl msg0);
              msg = msg0\<lparr>msg_ttl := go_quot ttl nsec\<rparr>;
              (p, seen) = MarkSeen (clock 0) (msg_id msg) (cn_protocol cn);
              cn1 = cn\<lparr>cn_protocol := p\<rparr>
          in if seen then (cn1, [], None)
             else case Put (clock 1) (msg_key msg) (msg_data msg) ttl (cn_store cn1) of
                    (st, Some err) \<Rightarrow> (cn1\<lparr>cn_store := st\<rparr>, [], Some (ReplicaFailed err))
                  | (st, None) \<Rightarrow>
                      let cn2 = cn1\<lparr>cn_store := st\<rparr>;
                          ack = ack_message (clock 2) msg cn2;
                          acks = (case find (\<lambda>peer. n_id peer = msg_from msg) (getPeers (cn_protocol cn2)) of
                                    Some peer \<Rightarrow> [SendTo peer ack]
                                  | None \<Rightarrow> if cn_has_router cn2 then [CallRouteAck ack] else []);
                          fwd = map (\<lambda>(n, m). SendTo n m) (ForwardToEnclave shuffle msg (cn_protocol cn2));
                          kids = (if cn_has_broadcaster cn2 then [CallBroadcastToChildren msg] else [])
                      in (cn2, acks @ fwd @ kids, None))"

text \<open>The two critical sections of \<open>handleAckMessage\<close>.\<close>

definition ack_find :: "Message \<Rightarrow> ClusterNode \<Rightarrow> op_id option" where
  "ack_find msg cn = gm_lookup (cn_pending cn) (msg_id msg)"

definition ack_count :: "op_id \<Rightarrow> ClusterNode \<Rightarrow> ClusterNode" where
  "ack_count i cn =
     (case gm_lookup (cn_ops cn) i of
        None \<Rightarrow> cn
      | Some w \<Rightarrow>
          let w' = w\<lparr>wo_confirmations := wo_confirmations w + 1\<rparr>;
              cn' = cn\<lparr>cn_ops := gm_update i w' (cn_ops cn)\<rparr>
          in if wo_confirmations w' \<ge> quorumSize cn' then markComplete i cn' else cn')"

definition handleAckMessage :: "Message \<Rightarrow> ClusterNode \<Rightarrow> ClusterNode \<times> cluster_effect list \<times> cluster_error option" where
  "handleAckMessage msg cn =
     (case ack_find msg cn of
        Some i \<Rightarrow> (ack_count i cn, [], None)
      | None \<Rightarrow> (cn, if cn_has_router cn then [CallRouteAck msg] else [], None))"

definition is_protocol_type :: "MessageType \<Rightarrow> bool" where
  "is_protocol_type t =
     (t = MessageTypePing \<or> t = MessageTypePong \<or> t = MessageTypeSync \<or> t = MessageTypeSyncRequest)"

definition handleGossipMessage ::
  "(nat \<Rightarrow> gotime) \<Rightarrow> (Node list \<Rightarrow> Node list) \<Rightarrow> Message \<Rightarrow> ClusterNode
     \<Rightarrow> ClusterNode \<times> cluster_effect list \<times> cluster_error option" where
  "handleGossipMessage clock shuffle msg cn =
     (if is_protocol_type (msg_type msg) then (cn, [], None)
      else if msg_type msg = MessageTypePut then handlePutMessage clock shuffle msg cn
      else if msg_type msg = MessageTypeAck then handleAckMessage msg cn
      else (cn, [], None))"

text \<open>\<open>Protocol.handleMessage\<close> with the cluster's handler installed, as \<open>Start\<close> does.\<close>

definition protocol_handleMessage ::
  "network \<Rightarrow> (nat \<Rightarrow> gotime) \<Rightarrow> (Node list \<Rightarrow> Node list) \<Rightarrow> Message \<Rightarrow> ClusterNode
     \<Rightarrow> ClusterNode \<times> cluster_effect list \<times> cluster_error option" where
  "protocol_handleMessage net clock shuffle msg cn =
     (case handleMessage net (clock 0) msg (cn_protocol cn) of
        Some (p, outs, err) \<Rightarrow>
          (cn\<lparr>cn_protocol := p\<rparr>, map (\<lambda>(n, m). SendTo n m) outs, map_option ProtocolFailed err)
      | None \<Rightarrow> handleGossipMessage clock shuffle msg cn)"

definition HandleGossipMessage ::
  "network \<Rightarrow> (nat \<Rightarrow> gotime) \<Rightarrow> (Node list \<Rightarrow> Node list) \<Rightarrow> Message \<Rightarrow> ClusterNode
     \<Rightarrow> ClusterNode \<times> cluster_effect list \<times> cluster_error option" where
  "HandleGossipMessage net clock shuffle msg cn =
     (if is_protocol_type (msg_type msg) then protocol_handleMessage net clock shuffle msg cn
      else handleGossipMessage clock shuffle msg cn)"

section \<open>Lifecycle and recovery\<close>

definition Start ::
  "bool \<Rightarrow> (string \<Rightarrow> BootstrapRequest \<Rightarrow> http_result) \<Rightarrow> seed_check option \<Rightarrow> string list \<Rightarrow> ClusterNode
     \<Rightarrow> ClusterNode \<times> cluster_error option" where
  "Start transport_ok http check addrs cn =
     (let p = SetTransport (cn_protocol cn) in
      if \<not> transport_ok then (cn\<lparr>cn_protocol := p\<rparr>, Some StartFailed)
      else if addrs \<noteq> [] then (cn\<lparr>cn_protocol := fst (Bootstrap http check addrs p)\<rparr>, None)
      else (cn\<lparr>cn_protocol := p\<rparr>, None))"

text \<open>\<open>seeds\<close> is what the seed provider returns, \<open>None\<close> when no provider is set.\<close>

definition CheckIsolationAndRecover ::
  "(string \<Rightarrow> BootstrapRequest \<Rightarrow> http_result) \<Rightarrow> seed_check option \<Rightarrow> string list option \<Rightarrow> ClusterNode
     \<Rightarrow> ClusterNode \<times> bool" where
  "CheckIsolationAndRecover http check seeds cn =
     (if length (getPeers (cn_protocol cn)) > 0 then (cn, False)
      else case seeds of
        None \<Rightarrow> (cn, False)
      | Some [] \<Rightarrow> (cn, False)
      | Some ss \<Rightarrow>
          (case Bootstrap http check ss (cn_protocol cn) of
             (p, Some err) \<Rightarrow> (cn\<lparr>cn_protocol := p\<rparr>, False)
           | (p, None) \<Rightarrow> (cn\<lparr>cn_protocol := p\<rparr>, length (getPeers p) > 0)))"

definition IsRoot :: "bool option \<Rightarrow> ClusterNode \<Rightarrow> bool" where
  "IsRoot provider cn = (case provider of Some v \<Rightarrow> v | None \<Rightarrow> cn_is_root cn)"

definition SetRoot :: "bool \<Rightarrow> ClusterNode \<Rightarrow> ClusterNode" where
  "SetRoot v cn = cn\<lparr>cn_is_root := v\<rparr>"

definition SetAckRouter :: "bool \<Rightarrow> ClusterNode \<Rightarrow> ClusterNode" where
  "SetAckRouter r cn = cn\<lparr>cn_has_router := r\<rparr>"

definition SetChildBroadcaster :: "bool \<Rightarrow> ClusterNode \<Rightarrow> ClusterNode" where
  "SetChildBroadcaster b cn = cn\<lparr>cn_has_broadcaster := b\<rparr>"

definition SetHTTPOrigin :: "string \<Rightarrow> ClusterNode \<Rightarrow> ClusterNode" where
  "SetHTTPOrigin origin cn =
     cn\<lparr>cn_protocol := (cn_protocol cn)\<lparr>p_local := (p_local (cn_protocol cn))\<lparr>n_http_origin := origin\<rparr>\<rparr>\<rparr>"

definition cluster_SetRootBindings :: "(NodeID, PeerBinding) gomap \<Rightarrow> ClusterNode \<Rightarrow> ClusterNode" where
  "cluster_SetRootBindings bs cn = cn\<lparr>cn_protocol := SetRootBindings bs (cn_protocol cn)\<rparr>"

definition cluster_HandleBootstrap ::
  "gotime \<Rightarrow> BootstrapRequest \<Rightarrow> ClusterNode \<Rightarrow> ClusterNode \<times> sends \<times> BootstrapResponse" where
  "cluster_HandleBootstrap now req cn =
     (case HandleBootstrap now req (cn_protocol cn) of
        (p, outs, resp) \<Rightarrow> (cn\<lparr>cn_protocol := p\<rparr>, outs, resp))"

definition cluster_Subscribe :: "gotime \<Rightarrow> ClusterNode \<Rightarrow> ClusterNode \<times> (store_error + Snapshot \<times> sub_id)" where
  "cluster_Subscribe now cn =
     (case Subscribe now (cn_store cn) of (st, r) \<Rightarrow> (cn\<lparr>cn_store := st\<rparr>, r))"

definition cluster_Get :: "gotime \<Rightarrow> string \<Rightarrow> ClusterNode \<Rightarrow> bytes option" where
  "cluster_Get now key cn = Get now key (cn_store cn)"

definition cluster_GetWithMetadata :: "gotime \<Rightarrow> string \<Rightarrow> ClusterNode \<Rightarrow> (bytes \<times> gotime \<times> duration) option" where
  "cluster_GetWithMetadata now key cn = GetWithMetadata now key (cn_store cn)"

definition cluster_Scan :: "gotime \<Rightarrow> ClusterNode \<Rightarrow> string list" where
  "cluster_Scan now cn = Scan now (cn_store cn)"

definition Topology :: "ClusterNode \<Rightarrow> Node list" where
  "Topology cn = getPeers (cn_protocol cn)"

end
