(* ===== verification/Middleware.thy ===== *)
theory Middleware
  imports Go_Float Go_Strings
begin

text \<open>
  Request admission, \<open>src/internal/node/middleware.go\<close>: the per-address token bucket and the order of the
  checks in front of every handler. The bucket arithmetic is the float64 arithmetic of theory \<open>Go_Float\<close>.
  Security headers and Prometheus counters are not modelled. The last section states what the limiter
  guarantees.
\<close>

section \<open>Rate limiter\<close>

record tokenBucket =
  tb_tokens :: int
  tb_last_refill :: gotime

record RateLimiter =
  rl_buckets :: "(string, tokenBucket) gomap"
  rl_rate :: int
  rl_burst :: int

definition NewRateLimiter :: "int \<Rightarrow> int \<Rightarrow> RateLimiter" where
  "NewRateLimiter rate burst = \<lparr>rl_buckets = [], rl_rate = rate, rl_burst = burst\<rparr>"

definition tokens_to_add :: "duration \<Rightarrow> int \<Rightarrow> int" where
  "tokens_to_add elapsed rate = float_to_int (float_round (Duration_Seconds elapsed * float_round (of_int rate)))"

text \<open>\<open>Allow\<close> reads the clock when it creates a bucket (\<open>created\<close>) and when it refills (\<open>now\<close>).\<close>

definition Allow :: "gotime \<Rightarrow> gotime \<Rightarrow> string \<Rightarrow> RateLimiter \<Rightarrow> RateLimiter \<times> bool" where
  "Allow created now ip rl =
     (let bucket = (case gm_lookup (rl_buckets rl) ip of
                      None \<Rightarrow> \<lparr>tb_tokens = rl_burst rl, tb_last_refill = created\<rparr> | Some b \<Rightarrow> b);
          add = tokens_to_add (now - tb_last_refill bucket) (rl_rate rl);
          bucket1 = (if add > 0
                     then \<lparr>tb_tokens = (if tb_tokens bucket + add > rl_burst rl then rl_burst rl else tb_tokens bucket + add),
                           tb_last_refill = now\<rparr>
                     else bucket)
      in if tb_tokens bucket1 > 0
         then (rl\<lparr>rl_buckets := gm_update ip (bucket1\<lparr>tb_tokens := tb_tokens bucket1 - 1\<rparr>) (rl_buckets rl)\<rparr>, True)
         else (rl\<lparr>rl_buckets := gm_update ip bucket1 (rl_buckets rl)\<rparr>, False))"

definition cleanupStaleEntries :: "gotime \<Rightarrow> RateLimiter \<Rightarrow> RateLimiter" where
  "cleanupStaleEntries now rl =
     rl\<lparr>rl_buckets := filter (\<lambda>(ip, b). \<not> tb_last_refill b < now - 600 * nsec) (rl_buckets rl)\<rparr>"

section \<open>Middleware\<close>

record SecurityMiddleware =
  sm_limiter :: RateLimiter
  sm_max_request_size :: int
  sm_trust_proxy :: bool

record http_in =
  in_path :: string
  in_content_length :: int
  in_forwarded_for :: string
  in_real_ip :: string
  in_user_agent :: string
  in_remote_addr :: string

datatype admission = RateLimited | RequestTooLarge | Forbidden | Admitted string

definition peerEndpoints :: "string list" where
  "peerEndpoints = [''/v1/gossip/message'', ''/v1/bootstrap'']"

text \<open>The host of \<open>net.SplitHostPort\<close>, \<open>None\<close> for its errors.\<close>

definition split_host :: "string \<Rightarrow> string option" where
  "split_host hp =
     (case CutLast (CHR '':'') hp of
        None \<Rightarrow> None
      | Some (front, port) \<Rightarrow>
          if HasPrefix hp ''['' then
            (case Cut (CHR '']'') hp of
               None \<Rightarrow> None
             | Some (a, rest) \<Rightarrow>
                 if rest \<noteq> CHR '':'' # port then None
                 else if List.member (tl a) (CHR ''['') \<or> List.member port (CHR ''['') \<or> List.member port (CHR '']'') then None
                 else Some (tl a))
          else if List.member front (CHR '':'') then None
          else if List.member hp (CHR ''['') \<or> List.member hp (CHR '']'') then None
          else Some front)"

definition getClientIP :: "http_in \<Rightarrow> bool \<Rightarrow> string" where
  "getClientIP r trustProxy =
     (if trustProxy \<and> in_forwarded_for r \<noteq> [] then TrimSpace (hd (Split (CHR '','') (in_forwarded_for r)))
      else if trustProxy \<and> in_real_ip r \<noteq> [] then in_real_ip r
      else case split_host (in_remote_addr r) of None \<Rightarrow> in_remote_addr r | Some ip \<Rightarrow> ip)"

definition isSuspiciousRequest :: "http_in \<Rightarrow> bool" where
  "isSuspiciousRequest r =
     list_ex (Contains (ToLower (in_user_agent r)))
       [''sqlmap'', ''nikto'', ''nmap'', ''masscan'', ''gobuster'', ''dirbuster'']"

definition admit :: "gotime \<Rightarrow> gotime \<Rightarrow> http_in \<Rightarrow> SecurityMiddleware \<Rightarrow> SecurityMiddleware \<times> admission" where
  "admit created now r sm =
     (let clientIP = getClientIP r (sm_trust_proxy sm);
          (rl, ok) = (if List.member peerEndpoints (in_path r) then (sm_limiter sm, True)
                      else Allow created now clientIP (sm_limiter sm));
          sm' = sm\<lparr>sm_limiter := rl\<rparr>
      in if \<not> ok then (sm', RateLimited)
         else if in_content_length r > sm_max_request_size sm then (sm', RequestTooLarge)
         else if isSuspiciousRequest r then (sm', Forbidden)
         else (sm', Admitted clientIP))"

section \<open>What the limiter guarantees\<close>

text \<open>
  A history of the limiter: requests with their two clock readings and address, and ticks of the cleanup
  goroutine. The clock does not go back.
\<close>

datatype limiter_event = Request gotime gotime string | Sweep gotime

fun limiter_run :: "limiter_event list \<Rightarrow> RateLimiter \<Rightarrow> RateLimiter \<times> (string \<times> bool) list" where
  "limiter_run [] rl = (rl, [])"
| "limiter_run (Request c t ip # es) rl =
     (let (rl1, ok) = Allow c t ip rl; (rl2, oks) = limiter_run es rl1 in (rl2, (ip, ok) # oks))"
| "limiter_run (Sweep t # es) rl = limiter_run es (cleanupStaleEntries t rl)"

fun clock_ok :: "gotime \<Rightarrow> limiter_event list \<Rightarrow> bool" where
  "clock_ok t0 [] = True"
| "clock_ok t0 (Request c t ip # es) = (t0 \<le> c \<and> c \<le> t \<and> clock_ok t es)"
| "clock_ok t0 (Sweep t # es) = (t0 \<le> t \<and> clock_ok t es)"

fun last_time :: "gotime \<Rightarrow> limiter_event list \<Rightarrow> gotime" where
  "last_time t0 [] = t0"
| "last_time t0 (Request c t ip # es) = last_time t es"
| "last_time t0 (Sweep t # es) = last_time t es"

definition granted :: "string \<Rightarrow> (string \<times> bool) list \<Rightarrow> nat" where
  "granted ip oks = length (filter (\<lambda>x. x = (ip, True)) oks)"

definition refill_bound :: "int \<Rightarrow> duration \<Rightarrow> rat" where
  "refill_bound rate d = of_int d * of_int rate / 1000000000 * (1 + 1 / 2 ^ 50)"

lemma tokens_to_add_le:
  assumes "0 \<le> d" "0 \<le> rate"
  shows "of_int (tokens_to_add d rate) \<le> refill_bound rate d"
proof -
  let ?x = "float_round (Duration_Seconds d * float_round (of_int rate))"
  have le: "?x \<le> refill_bound rate d" unfolding refill_bound_def by (rule float_rate_le [OF assms])
  have nn: "0 \<le> refill_bound rate d" using assms by (simp add: refill_bound_def)
  show ?thesis
  proof (cases "0 \<le> ?x")
    case True
    then show ?thesis
      using order_trans [OF of_int_floor_le [of ?x] le] by (simp add: tokens_to_add_def float_to_int_def)
  next
    case False
    then have "\<lceil>?x\<rceil> \<le> 0" by (simp add: ceiling_le_iff)
    then have "of_int \<lceil>?x\<rceil> \<le> (0 :: rat)" by (simp only: of_int_le_0_iff)
    from order_trans [OF this nn] False show ?thesis by (simp only: tokens_to_add_def float_to_int_def if_False)
  qed
qed

lemma refill_bound_add: "refill_bound rate a + refill_bound rate b = refill_bound rate (a + b)"
  by (simp add: refill_bound_def field_simps)

lemma refill_bound_mono: "0 \<le> rate \<Longrightarrow> a \<le> b \<Longrightarrow> refill_bound rate a \<le> refill_bound rate b"
  unfolding refill_bound_def by (intro mult_right_mono divide_right_mono) (simp_all add: mult_right_mono)

text \<open>
  The account of an address: what it was granted since \<open>t0\<close> plus the tokens it has never exceed the burst
  and the refill up to \<open>tb_last_refill\<close>; without a bucket the refill alone covers what it was granted.
\<close>

definition bucket_ok :: "gotime \<Rightarrow> gotime \<Rightarrow> string \<Rightarrow> RateLimiter \<Rightarrow> rat \<Rightarrow> bool" where
  "bucket_ok t0 t ip rl spent \<longleftrightarrow>
     (case gm_lookup (rl_buckets rl) ip of
        None \<Rightarrow> spent \<le> refill_bound (rl_rate rl) (t - t0)
      | Some b \<Rightarrow> 0 \<le> tb_tokens b \<and> tb_tokens b \<le> rl_burst rl \<and> tb_last_refill b \<le> t \<and>
          spent + of_int (tb_tokens b) \<le> of_int (rl_burst rl) + refill_bound (rl_rate rl) (tb_last_refill b - t0))"

text \<open>The bucket that \<open>Allow\<close> works on, and the bucket after its refill.\<close>

definition bucket_of :: "gotime \<Rightarrow> string \<Rightarrow> RateLimiter \<Rightarrow> tokenBucket" where
  "bucket_of c ip rl =
     (case gm_lookup (rl_buckets rl) ip of
        None \<Rightarrow> \<lparr>tb_tokens = rl_burst rl, tb_last_refill = c\<rparr> | Some b \<Rightarrow> b)"

definition refilled :: "int \<Rightarrow> int \<Rightarrow> gotime \<Rightarrow> tokenBucket \<Rightarrow> tokenBucket" where
  "refilled rate burst now b =
     (let add = tokens_to_add (now - tb_last_refill b) rate
      in if add > 0 then \<lparr>tb_tokens = min burst (tb_tokens b + add), tb_last_refill = now\<rparr> else b)"

lemma Allow_eq:
  "Allow c t ip rl =
     (let b = refilled (rl_rate rl) (rl_burst rl) t (bucket_of c ip rl); ok = tb_tokens b > 0
      in (rl\<lparr>rl_buckets := gm_update ip (if ok then b\<lparr>tb_tokens := tb_tokens b - 1\<rparr> else b) (rl_buckets rl)\<rparr>, ok))"
  by (simp add: Allow_def Let_def refilled_def bucket_of_def min_def)

lemma Allow_frame [simp]:
  "rl_rate (fst (Allow c t ip rl)) = rl_rate rl" "rl_burst (fst (Allow c t ip rl)) = rl_burst rl"
  "gm_ok (rl_buckets rl) \<Longrightarrow> gm_ok (rl_buckets (fst (Allow c t ip rl)))"
  "ip' \<noteq> ip \<Longrightarrow> gm_lookup (rl_buckets (fst (Allow c t ip rl))) ip' = gm_lookup (rl_buckets rl) ip'"
  by (simp_all add: Allow_eq Let_def)

lemma cleanup_frame [simp]:
  "rl_rate (cleanupStaleEntries t rl) = rl_rate rl" "rl_burst (cleanupStaleEntries t rl) = rl_burst rl"
  "gm_ok (rl_buckets rl) \<Longrightarrow> gm_ok (rl_buckets (cleanupStaleEntries t rl))"
  by (simp_all add: cleanupStaleEntries_def)

text \<open>One bucket: within its limits and its account, against \<open>spent\<close>.\<close>

definition account_ok :: "int \<Rightarrow> int \<Rightarrow> gotime \<Rightarrow> gotime \<Rightarrow> tokenBucket \<Rightarrow> rat \<Rightarrow> bool" where
  "account_ok rate burst t0 t b spent \<longleftrightarrow>
     0 \<le> tb_tokens b \<and> tb_tokens b \<le> burst \<and> tb_last_refill b \<le> t \<and>
     spent + of_int (tb_tokens b) \<le> of_int burst + refill_bound rate (tb_last_refill b - t0)"

lemma bucket_ok_account:
  "bucket_ok t0 t ip rl spent \<longleftrightarrow>
     (case gm_lookup (rl_buckets rl) ip of
        None \<Rightarrow> spent \<le> refill_bound (rl_rate rl) (t - t0)
      | Some b \<Rightarrow> account_ok (rl_rate rl) (rl_burst rl) t0 t b spent)"
  by (simp add: bucket_ok_def account_ok_def split: option.split)

lemma account_ok_later: "account_ok rate burst t0 t b spent \<Longrightarrow> t \<le> t' \<Longrightarrow> account_ok rate burst t0 t' b spent"
  by (simp add: account_ok_def)

lemma bucket_of_account:
  assumes "bucket_ok t0 t ip rl spent" "0 \<le> rl_rate rl" "0 \<le> rl_burst rl" "t \<le> c"
  shows "account_ok (rl_rate rl) (rl_burst rl) t0 c (bucket_of c ip rl) spent"
proof (cases "gm_lookup (rl_buckets rl) ip")
  case None
  then have "spent \<le> refill_bound (rl_rate rl) (t - t0)" using assms(1) by (simp add: bucket_ok_def)
  also have "\<dots> \<le> refill_bound (rl_rate rl) (c - t0)" using assms by (intro refill_bound_mono) auto
  finally show ?thesis using None assms(3) by (simp add: account_ok_def bucket_of_def)
next
  case (Some b)
  then show ?thesis using assms by (simp add: bucket_ok_account bucket_of_def account_ok_later)
qed

lemma refilled_account:
  assumes ok: "account_ok rate burst t0 c b spent" and "0 \<le> rate" "0 \<le> burst" "c \<le> t"
  shows "account_ok rate burst t0 t (refilled rate burst t b) spent"
proof (cases "tokens_to_add (t - tb_last_refill b) rate > 0")
  case True
  let ?add = "tokens_to_add (t - tb_last_refill b) rate"
  let ?n = "min burst (tb_tokens b + ?add)"
  have lr: "0 \<le> t - tb_last_refill b" using ok \<open>c \<le> t\<close> by (simp add: account_ok_def)
  have "(of_int ?n :: rat) \<le> of_int (tb_tokens b) + of_int ?add" by (simp add: min_def flip: of_int_add)
  then have "spent + of_int ?n \<le> of_int burst + refill_bound rate (tb_last_refill b - t0) + refill_bound rate (t - tb_last_refill b)"
    using ok tokens_to_add_le [OF lr \<open>0 \<le> rate\<close>] by (simp add: account_ok_def)
  also have "\<dots> = of_int burst + refill_bound rate (t - t0)"
    using refill_bound_add [of rate "tb_last_refill b - t0" "t - tb_last_refill b"] by simp
  finally show ?thesis using True ok \<open>0 \<le> burst\<close> by (simp add: refilled_def account_ok_def)
next
  case False
  then show ?thesis using account_ok_later [OF ok \<open>c \<le> t\<close>] by (simp add: refilled_def)
qed

lemma Allow_account:
  assumes "bucket_ok t0 t ip rl spent" "0 \<le> rl_rate rl" "0 \<le> rl_burst rl" "t \<le> c" "c \<le> t'"
  shows "bucket_ok t0 t' ip (fst (Allow c t' ip rl)) (spent + (if snd (Allow c t' ip rl) then 1 else 0))"
proof -
  have "account_ok (rl_rate rl) (rl_burst rl) t0 t' (refilled (rl_rate rl) (rl_burst rl) t' (bucket_of c ip rl)) spent"
    by (rule refilled_account [OF bucket_of_account [OF assms(1-4)] assms(2,3,5)])
  then show ?thesis by (simp add: Allow_eq Let_def bucket_ok_account account_ok_def)
qed

lemma bucket_ok_later:
  assumes "bucket_ok t0 t ip rl spent" "0 \<le> rl_rate rl" "t \<le> t'"
  shows "bucket_ok t0 t' ip rl spent"
proof (cases "gm_lookup (rl_buckets rl) ip")
  case None
  then show ?thesis
    using assms order_trans [OF _ refill_bound_mono [of "rl_rate rl" "t - t0" "t' - t0"]] by (simp add: bucket_ok_def)
qed (use assms in \<open>auto simp: bucket_ok_account account_ok_later\<close>)

lemma Allow_other:
  assumes "bucket_ok t0 t ip rl spent" "0 \<le> rl_rate rl" "t \<le> c" "c \<le> t'" "ip \<noteq> ip'"
  shows "bucket_ok t0 t' ip (fst (Allow c t' ip' rl)) spent"
  using bucket_ok_later [OF assms(1,2), of t'] assms(3-5) by (simp add: bucket_ok_def split: option.splits)

text \<open>Ten idle minutes refill the whole burst, so dropping such a bucket gives nothing away.\<close>

lemma cleanup_account:
  assumes ok: "bucket_ok t0 t ip rl spent" and "gm_ok (rl_buckets rl)"
    and "0 \<le> rl_rate rl" "rl_burst rl \<le> 600 * rl_rate rl" "t \<le> t'"
  shows "bucket_ok t0 t' ip (cleanupStaleEntries t' rl) spent"
proof (cases "gm_lookup (rl_buckets rl) ip")
  case None
  then show ?thesis
    using bucket_ok_later [OF ok assms(3,5)] assms(2) by (simp add: bucket_ok_def cleanupStaleEntries_def gm_lookup_filter)
next
  case (Some b)
  have acc: "account_ok (rl_rate rl) (rl_burst rl) t0 t b spent" using ok Some by (simp add: bucket_ok_account)
  show ?thesis
  proof (cases "tb_last_refill b < t' - 600 * nsec")
    case True
    have "(of_int (rl_burst rl) :: rat) \<le> of_int (600 * rl_rate rl)" using assms(4) by (simp only: of_int_le_iff)
    also have "\<dots> \<le> refill_bound (rl_rate rl) (600 * nsec)"
      using assms(3) by (simp add: refill_bound_def nsec_def field_simps)
    finally have "spent \<le> refill_bound (rl_rate rl) (600 * nsec) + refill_bound (rl_rate rl) (tb_last_refill b - t0)"
      using acc by (simp add: account_ok_def)
    also have "\<dots> \<le> refill_bound (rl_rate rl) (t' - t0)"
      using True assms(3) by (simp add: refill_bound_add refill_bound_mono)
    finally show ?thesis using Some True assms(2) by (simp add: bucket_ok_def cleanupStaleEntries_def gm_lookup_filter)
  next
    case False
    then show ?thesis
      using Some account_ok_later [OF acc assms(5)] assms(2)
      by (simp add: bucket_ok_account cleanupStaleEntries_def gm_lookup_filter)
  qed
qed

lemma limiter_run_account:
  assumes "bucket_ok t0 t ip rl spent" "gm_ok (rl_buckets rl)" "0 \<le> rl_rate rl" "0 \<le> rl_burst rl"
    "rl_burst rl \<le> 600 * rl_rate rl" "clock_ok t es"
  shows "bucket_ok t0 (last_time t es) ip (fst (limiter_run es rl)) (spent + of_nat (granted ip (snd (limiter_run es rl))))
    \<and> rl_rate (fst (limiter_run es rl)) = rl_rate rl \<and> rl_burst (fst (limiter_run es rl)) = rl_burst rl
    \<and> t \<le> last_time t es"
  using assms
proof (induction es arbitrary: t rl spent)
  case Nil
  then show ?case by (simp add: granted_def)
next
  case (Cons e es)
  show ?case
  proof (cases e)
    case (Request c t' ip')
    let ?a = "Allow c t' ip' rl"
    let ?spent = "spent + (if ip' = ip \<and> snd ?a then 1 else 0)"
    have "bucket_ok t0 t' ip (fst ?a) ?spent"
      using Allow_account [of t0 t ip rl spent c t'] Allow_other [of t0 t ip rl spent c t' ip'] Cons.prems Request
      by (cases "ip' = ip") auto
    note ih = Cons.IH [OF this]
    have le: "t \<le> t'" using Cons.prems(6) Request by simp
    have g: "granted ip (snd (limiter_run (e # es) rl)) = (if ip' = ip \<and> snd ?a then 1 else 0) + granted ip (snd (limiter_run es (fst ?a)))"
      by (auto simp: Request case_prod_beta Let_def granted_def)
    have f: "fst (limiter_run (e # es) rl) = fst (limiter_run es (fst ?a))" "last_time t (e # es) = last_time t' es"
      by (simp_all add: Request case_prod_beta Let_def)
    show ?thesis using ih Cons.prems Request le unfolding f g by (cases "ip' = ip \<and> snd ?a") (simp_all only: if_True if_False, auto simp: add.assoc)
  next
    case (Sweep t')
    have "bucket_ok t0 t' ip (cleanupStaleEntries t' rl) spent"
      using cleanup_account Cons.prems Sweep by simp
    from Cons.IH [OF this] Cons.prems Sweep show ?thesis by simp
  qed
qed

text \<open>
  C29. The rate limit holds over any history: for a limiter created with a rate and a burst that ten minutes
  can refill, whatever requests and cleanup ticks follow on a clock that does not go back, the requests
  granted to an address number at most the burst plus the rate times the elapsed seconds, up to the
  relative float64 error of one part in \<open>2^50\<close> - also across buckets that the cleanup drops and \<open>Allow\<close>
  creates again.
\<close>

theorem rate_limit_bound:
  assumes "0 \<le> rate" "0 \<le> burst" "burst \<le> 600 * rate" "clock_ok t0 es"
  shows "of_nat (granted ip (snd (limiter_run es (NewRateLimiter rate burst))))
    \<le> of_int burst + refill_bound rate (last_time t0 es - t0)"
proof -
  let ?r = "limiter_run es (NewRateLimiter rate burst)"
  have "bucket_ok t0 t0 ip (NewRateLimiter rate burst) 0"
    by (simp add: bucket_ok_def NewRateLimiter_def refill_bound_def)
  then have ok: "bucket_ok t0 (last_time t0 es) ip (fst ?r) (of_nat (granted ip (snd ?r)))"
      "rl_rate (fst ?r) = rate" "rl_burst (fst ?r) = burst" "t0 \<le> last_time t0 es"
    using limiter_run_account [of t0 t0 ip "NewRateLimiter rate burst" 0 es] assms by (simp_all add: NewRateLimiter_def)
  show ?thesis
  proof (cases "gm_lookup (rl_buckets (fst ?r)) ip")
    case None
    then show ?thesis using ok assms(2) by (simp add: bucket_ok_def add_increasing)
  next
    case (Some b)
    then have "of_nat (granted ip (snd ?r)) + of_int (tb_tokens b) \<le> of_int burst + refill_bound rate (tb_last_refill b - t0)"
        "0 \<le> tb_tokens b" "tb_last_refill b \<le> last_time t0 es"
      using ok by (simp_all add: bucket_ok_def)
    moreover have "refill_bound rate (tb_last_refill b - t0) \<le> refill_bound rate (last_time t0 es - t0)"
      using \<open>tb_last_refill b \<le> last_time t0 es\<close> assms(1) by (intro refill_bound_mono) auto
    moreover have "0 \<le> (of_int (tb_tokens b) :: rat)" using \<open>0 \<le> tb_tokens b\<close> by simp
    ultimately show ?thesis by linarith
  qed
qed

definition ex_history :: "limiter_event list" where
  "ex_history = [Request 0 0 ''10.0.0.1'', Request 5 5 ''10.0.0.1'', Request 7 7 ''10.0.0.1'', Sweep 9,
     Request 3000000000 3000000000 ''10.0.0.1'']"

theorem rate_limit_bound_witness:
  "of_nat (granted ''10.0.0.1'' (snd (limiter_run ex_history (NewRateLimiter 1 2))))
    \<le> of_int 2 + refill_bound 1 (last_time 0 ex_history - 0)
   \<and> map snd (snd (limiter_run ex_history (NewRateLimiter 1 2))) = [True, True, False, True]"
proof
  show "of_nat (granted ''10.0.0.1'' (snd (limiter_run ex_history (NewRateLimiter 1 2))))
    \<le> of_int 2 + refill_bound 1 (last_time 0 ex_history - 0)"
    by (rule rate_limit_bound) (simp_all add: ex_history_def)
  show "map snd (snd (limiter_run ex_history (NewRateLimiter 1 2))) = [True, True, False, True]"
    by code_simp
qed

end
