(* ===== verification/Bootstrap_Manifest.thy ===== *)
theory Bootstrap_Manifest
  imports Endpoint
begin

text \<open>
  Trust bundles and bootstrap manifests, \<open>src/internal/trust/bootstrap/manifest.go\<close>. A JSON text is
  represented by the tree that \<open>encoding/json\<close> reads from it (the reader itself is an argument); numbers keep
  their text. What the code asks of the go-tuf package - parsing a root and building a trusted set from it -
  is the record \<open>tuf_root_lib\<close> of functions, which is an argument too.
\<close>

section \<open>Strict JSON\<close>

datatype json = JNull | JBool bool | JNum string | JStr string | JArr "json list" | JObj "(string \<times> json) list"

text \<open>The walk over the tokens: at most 32 levels, and no object with the same name twice.\<close>

fun strict_value :: "nat \<Rightarrow> json \<Rightarrow> bool" where
  "strict_value depth (JArr vs) = (depth \<le> 32 \<and> list_all (strict_value (Suc depth)) vs)"
| "strict_value depth (JObj fs) =
     (depth \<le> 32 \<and> distinct (map fst fs) \<and> list_all (\<lambda>f. strict_value (Suc depth) (snd f)) fs)"
| "strict_value depth _ = (depth \<le> 32)"

text \<open>
  How \<open>encoding/json\<close> finds the field of a struct for a name: the field whose name is equal after folding
  case. Folding maps ASCII letters, U+017F (to S) and U+212A (to K).
\<close>

fun fold_name :: "string \<Rightarrow> string" where
  "fold_name [] = []"
| "fold_name (c # cs) =
     (if c = CHR 0xC5 \<and> HasPrefix cs [CHR 0xBF] then CHR ''s'' # fold_name (drop 1 cs)
      else if c = CHR 0xE2 \<and> HasPrefix cs [CHR 0x84, CHR 0xAA] then CHR ''k'' # fold_name (drop 2 cs)
      else lower_char c # fold_name cs)"

text \<open>Decoding into an \<open>int\<close> and a \<open>string\<close>: \<open>null\<close> keeps the old value, another kind is an error.\<close>

definition decode_int :: "json \<Rightarrow> int \<Rightarrow> int option" where
  "decode_int v old = (case v of JNull \<Rightarrow> Some old | JNum s \<Rightarrow> ParseInt s | _ \<Rightarrow> None)"

definition decode_string :: "json \<Rightarrow> string \<Rightarrow> string option" where
  "decode_string v old = (case v of JNull \<Rightarrow> Some old | JStr s \<Rightarrow> Some s | _ \<Rightarrow> None)"

section \<open>Manifests\<close>

record Root =
  rt_id :: string
  rt_origin :: string

record Manifest =
  mf_schema :: int
  mf_network :: string
  mf_enclave :: string
  mf_roots :: "Root list"

definition empty_root :: Root where
  "empty_root = \<lparr>rt_id = [], rt_origin = []\<rparr>"

definition empty_manifest :: Manifest where
  "empty_manifest = \<lparr>mf_schema = 0, mf_network = [], mf_enclave = [], mf_roots = []\<rparr>"

fun decode_root_fields :: "(string \<times> json) list \<Rightarrow> Root \<Rightarrow> Root option" where
  "decode_root_fields [] r = Some r"
| "decode_root_fields ((k, v) # fs) r =
     (if fold_name k = ''id''
      then Option.bind (decode_string v (rt_id r)) (\<lambda>s. decode_root_fields fs (r\<lparr>rt_id := s\<rparr>))
      else if fold_name k = ''origin''
      then Option.bind (decode_string v (rt_origin r)) (\<lambda>s. decode_root_fields fs (r\<lparr>rt_origin := s\<rparr>))
      else None)"

text \<open>An element of an array starts from the element that was decoded there before, if the field occurs again.\<close>

definition decode_root :: "json \<Rightarrow> Root \<Rightarrow> Root option" where
  "decode_root v old = (case v of JNull \<Rightarrow> Some old | JObj fs \<Rightarrow> decode_root_fields fs old | _ \<Rightarrow> None)"

fun decode_roots :: "json list \<Rightarrow> Root list \<Rightarrow> Root list option" where
  "decode_roots [] old = Some []"
| "decode_roots (v # vs) old =
     Option.bind (decode_root v (case old of [] \<Rightarrow> empty_root | r # rs \<Rightarrow> r))
       (\<lambda>r. map_option ((#) r) (decode_roots vs (case old of [] \<Rightarrow> [] | q # qs \<Rightarrow> qs)))"

fun decode_manifest_fields :: "(string \<times> json) list \<Rightarrow> Manifest \<Rightarrow> Manifest option" where
  "decode_manifest_fields [] m = Some m"
| "decode_manifest_fields ((k, v) # fs) m =
     (if fold_name k = ''schema''
      then Option.bind (decode_int v (mf_schema m)) (\<lambda>i. decode_manifest_fields fs (m\<lparr>mf_schema := i\<rparr>))
      else if fold_name k = ''network''
      then Option.bind (decode_string v (mf_network m)) (\<lambda>s. decode_manifest_fields fs (m\<lparr>mf_network := s\<rparr>))
      else if fold_name k = ''enclave''
      then Option.bind (decode_string v (mf_enclave m)) (\<lambda>s. decode_manifest_fields fs (m\<lparr>mf_enclave := s\<rparr>))
      else if fold_name k = ''roots''
      then (case v of
              JNull \<Rightarrow> decode_manifest_fields fs (m\<lparr>mf_roots := []\<rparr>)
            | JArr vs \<Rightarrow> Option.bind (decode_roots vs (mf_roots m)) (\<lambda>rs. decode_manifest_fields fs (m\<lparr>mf_roots := rs\<rparr>))
            | _ \<Rightarrow> None)
      else None)"

text \<open>\<open>strictJSON\<close> into a \<open>Manifest\<close>; \<open>read\<close> is the JSON reader, which fails on trailing data.\<close>

definition strict_manifest :: "(bytes \<Rightarrow> json option) \<Rightarrow> bytes \<Rightarrow> Manifest option" where
  "strict_manifest read data =
     (case read data of
        None \<Rightarrow> None
      | Some v \<Rightarrow>
          if \<not> strict_value 0 v then None
          else (case v of
                  JObj fs \<Rightarrow> decode_manifest_fields fs empty_manifest
                | JNull \<Rightarrow> Some empty_manifest
                | _ \<Rightarrow> None))"

section \<open>Identifiers and origins\<close>

definition ident_char :: "char \<Rightarrow> bool" where
  "ident_char c = (is_alpha c \<or> is_digit c \<or> c = CHR ''.'' \<or> c = CHR ''_'' \<or> c = CHR ''-'')"

definition identifier_match :: "string \<Rightarrow> bool" where
  "identifier_match s =
     (case s of [] \<Rightarrow> False
      | c # cs \<Rightarrow> (is_alpha c \<or> is_digit c) \<and> length cs \<le> 127 \<and> list_all ident_char cs)"

text \<open>
  Percent escapes in a host may only stand for bytes from 0x80; with any other escape the origin is refused
  (it decodes to a byte no host name may have, to a zone, to user information or to a path).
\<close>

fun unescape_high :: "string \<Rightarrow> string option" where
  "unescape_high [] = Some []"
| "unescape_high (c # cs) =
     (if c = CHR ''%'' then
        (case cs of
           a # b # rest \<Rightarrow>
             (case (hex_val a, hex_val b) of
                (Some p, Some q) \<Rightarrow> if p < 8 then None else map_option ((#) (char_of (16 * p + q))) (unescape_high rest)
              | _ \<Rightarrow> None)
         | _ \<Rightarrow> None)
      else map_option ((#) c) (unescape_high cs))"

text \<open>
  \<open>strings.ToLower\<close> where only an ASCII result matters: besides the ASCII letters, U+0130 becomes i and
  U+212A becomes k. Other runes from U+0080 stay outside ASCII and are refused either way.
\<close>

fun lower_host :: "string \<Rightarrow> string" where
  "lower_host [] = []"
| "lower_host (c # cs) =
     (if c = CHR 0xC4 \<and> HasPrefix cs [CHR 0xB0] then CHR ''i'' # lower_host (drop 1 cs)
      else if c = CHR 0xE2 \<and> HasPrefix cs [CHR 0x84, CHR 0xAA] then CHR ''k'' # lower_host (drop 2 cs)
      else lower_char c # lower_host cs)"

text \<open>\<open>netip.ParseAddr\<close> and the printed address.\<close>

definition parse_addr :: "string \<Rightarrow> string option" where
  "parse_addr host =
     (case filter (\<lambda>c. c = CHR ''.'' \<or> c = CHR '':'' \<or> c = CHR ''%'') host of
        c # _ \<Rightarrow> if c = CHR ''.'' then (if parse_ipv4 host = None then None else Some host)
                else if c = CHR '':'' then map_option print_ipv6 (parse_ipv6 host)
                else None
      | [] \<Rightarrow> None)"

definition dns_char :: "char \<Rightarrow> bool" where
  "dns_char c = (let n = (of_char c :: nat) in (97 \<le> n \<and> n \<le> 122) \<or> (48 \<le> n \<and> n \<le> 57) \<or> c = CHR ''-'')"

definition dns_label :: "string \<Rightarrow> bool" where
  "dns_label l = (l \<noteq> [] \<and> length l \<le> 63 \<and> hd l \<noteq> CHR ''-'' \<and> last l \<noteq> CHR ''-'' \<and> list_all dns_char l)"

definition httpsOrigin :: "string \<Rightarrow> string option" where
  "httpsOrigin raw =
     (if ContainsAny raw [CHR ''?'', CHR ''#'', CHR 0x5C] then None
      else case Option.bind (unescape_high raw) url_parse of
        None \<Rightarrow> None
      | Some u \<Rightarrow>
          if u_scheme u \<noteq> ''https'' \<or> u_host u = [] \<or> u_user u \<or> u_opaque u \<noteq> []
             \<or> (u_path u \<noteq> [] \<and> u_path u \<noteq> ''/'')
          then None
          else
            let (hostname, port) = splitHostPort (u_host u);
                host = lower_host hostname;
                host1 = (case parse_addr host of
                           Some a \<Rightarrow> Some a
                         | None \<Rightarrow> if length host \<le> 253 \<and> list_all dns_label (Split (CHR ''.'') host) then Some host else None)
            in case host1 of
                 None \<Rightarrow> None
               | Some h \<Rightarrow>
                   if HasSuffix (u_host u) '':'' then None
                   else
                     let finish = (\<lambda>p. Some (''https://'' @
                           (if p \<noteq> [] then JoinHostPort h p
                            else if List.member h (CHR '':'') then ''['' @ h @ '']'' else h)))
                     in if port = [] then finish []
                        else (case Atoi port of
                                None \<Rightarrow> None
                              | Some n \<Rightarrow>
                                  if n < 1 \<or> n > 65535 then None
                                  else finish (if Itoa n = ''443'' then [] else Itoa n)))"

definition repository_char :: "char \<Rightarrow> bool" where
  "repository_char c = (is_alpha c \<or> is_digit c \<or> c = CHR ''-'' \<or> c = CHR ''.'' \<or> c = CHR ''_'' \<or> c = CHR ''~'')"

definition repository_segment :: "string \<Rightarrow> bool" where
  "repository_segment s = (s \<noteq> [] \<and> s \<noteq> ''.'' \<and> s \<noteq> ''..'' \<and> list_all repository_char s)"

definition httpsRepository :: "string \<Rightarrow> string option" where
  "httpsRepository raw =
     (if ContainsAny raw [CHR ''?'', CHR ''#'', CHR 0x5C, CHR ''%''] then None
      else case url_parse raw of
        None \<Rightarrow> None
      | Some u \<Rightarrow>
          if u_user u \<or> u_opaque u \<noteq> [] then None
          else case httpsOrigin (u_scheme u @ ''://'' @ u_host u) of
            None \<Rightarrow> None
          | Some origin \<Rightarrow>
              let path = (if HasSuffix (u_path u) ''/'' then butlast (u_path u) else u_path u)
              in if path = [] then Some origin
                 else if \<not> HasPrefix path ''/'' then None
                 else if list_all repository_segment (Split (CHR ''/'') (tl path)) then Some (origin @ path)
                 else None)"

definition manifestLimit :: nat where "manifestLimit = 65536"
definition metadataLimit :: nat where "metadataLimit = 524288"
definition stateLimit :: nat where "stateLimit = 8388608"

text \<open>The loop over the roots: the identifiers and origins seen so far.\<close>

fun check_roots :: "string list \<Rightarrow> string list \<Rightarrow> Root list \<Rightarrow> Root list option" where
  "check_roots ids origins [] = Some []"
| "check_roots ids origins (r # rs) =
     (case httpsOrigin (rt_origin r) of
        None \<Rightarrow> None
      | Some origin \<Rightarrow>
          if \<not> identifier_match (rt_id r) \<or> List.member ids (rt_id r) \<or> List.member origins origin then None
          else map_option ((#) (r\<lparr>rt_origin := origin\<rparr>)) (check_roots (rt_id r # ids) (origin # origins) rs))"

definition ParseManifest :: "(bytes \<Rightarrow> json option) \<Rightarrow> bytes \<Rightarrow> string \<Rightarrow> Manifest option" where
  "ParseManifest read data network =
     (if length data > manifestLimit then None
      else case strict_manifest read data of
        None \<Rightarrow> None
      | Some m \<Rightarrow>
          if mf_schema m \<noteq> 1 \<or> \<not> identifier_match (mf_network m) \<or> mf_network m \<noteq> network \<or> mf_enclave m \<noteq> ''default'' then None
          else if mf_roots m = [] \<or> length (mf_roots m) > 16 then None
          else map_option (\<lambda>rs. m\<lparr>mf_roots := rs\<rparr>) (check_roots [] [] (mf_roots m)))"

section \<open>Bundles and their root\<close>

record tuf_key =
  tk_ed25519 :: bool
  tk_parses :: bool
  tk_public :: string

record tuf_role =
  tr_threshold :: int
  tr_keyids :: "string list"

record tuf_root =
  tr_version :: int
  tr_expires_set :: bool
  tr_consistent :: bool
  tr_roles :: "(string, tuf_role) gomap"
  tr_keys :: "(string, tuf_key) gomap"

record tuf_root_lib =
  lib_root :: "bytes \<Rightarrow> tuf_root option"
  lib_normal :: "bytes \<Rightarrow> bytes option"
  lib_trusted :: "bytes \<Rightarrow> bool"
  lib_sha256 :: "bytes \<Rightarrow> string"

definition top_level_roles :: "string list" where
  "top_level_roles = [''root'', ''timestamp'', ''snapshot'', ''targets'']"

definition key_ok :: "tuf_root \<Rightarrow> string \<Rightarrow> bool" where
  "key_ok r i =
     (case gm_lookup (tr_keys r) i of
        None \<Rightarrow> False
      | Some k \<Rightarrow> tk_ed25519 k \<and> tk_parses k \<and> tk_public k \<noteq> replicate 64 (CHR ''0''))"

definition role_ok :: "tuf_root \<Rightarrow> string \<Rightarrow> bool" where
  "role_ok r name =
     (case gm_lookup (tr_roles r) name of
        None \<Rightarrow> False
      | Some role \<Rightarrow> tr_threshold role \<ge> 1 \<and> tr_threshold role \<le> int (length (tr_keyids role))
          \<and> list_all (key_ok r) (tr_keyids role))"

definition validateRoot :: "tuf_root_lib \<Rightarrow> bytes \<Rightarrow> bool" where
  "validateRoot lib data =
     (data \<noteq> [] \<and> length data \<le> metadataLimit \<and>
      (case lib_root lib data of
         None \<Rightarrow> False
       | Some r \<Rightarrow> tr_version r \<ge> 1 \<and> tr_expires_set r \<and> tr_consistent r \<and> list_all (role_ok r) top_level_roles)
      \<and> lib_trusted lib data)"

record Bundle =
  bd_schema :: int
  bd_network :: string
  bd_repository :: string
  bd_root :: bytes

definition ValidateLocation :: "string \<Rightarrow> string \<Rightarrow> string option" where
  "ValidateLocation network repository = (if \<not> identifier_match network then None else httpsRepository repository)"

definition Validate :: "tuf_root_lib \<Rightarrow> Bundle \<Rightarrow> bool" where
  "Validate lib b = (bd_schema b = 1 \<and> ValidateLocation (bd_network b) (bd_repository b) \<noteq> None \<and> validateRoot lib (bd_root b))"

definition Fingerprint :: "tuf_root_lib \<Rightarrow> Bundle \<Rightarrow> string" where
  "Fingerprint lib b =
     (case lib_root lib (bd_root b) of
        None \<Rightarrow> []
      | Some r \<Rightarrow> (case lib_normal lib (bd_root b) of None \<Rightarrow> [] | Some data \<Rightarrow> lib_sha256 lib data))"

text \<open>\<open>decode\<close> is \<open>strictJSON\<close> into a \<open>Bundle\<close>, whose root keeps the bytes of the text.\<close>

definition ParseBundle :: "tuf_root_lib \<Rightarrow> (bytes \<Rightarrow> Bundle option) \<Rightarrow> bytes \<Rightarrow> Bundle option" where
  "ParseBundle lib decode data =
     (if length data > metadataLimit + 4096 then None
      else case decode data of None \<Rightarrow> None | Some b \<Rightarrow> if Validate lib b then Some b else None)"

end
