(* ===== verification/Bootstrap_Client.thy ===== *)
theory Bootstrap_Client
  imports Bootstrap_Manifest
begin

text \<open>
  The durable trust client, \<open>src/internal/trust/bootstrap/state.go\<close> and \<open>client.go\<close>. The state directory holds
  \<open>state.json\<close> and a pending file; the outcome of every system call of a durable write is an argument. The
  go-tuf updater is represented by what the code sees of it: the contents of the scratch directory each time
  it calls back for a download, and its results. The trusted metadata set is the record \<open>tuf_lib\<close> of functions.
\<close>

section \<open>State and its file\<close>

type_synonym meta_files = "(string, bytes) gomap"

record accepted =
  ac_metadata :: meta_files
  ac_manifest :: bytes

record state =
  st_schema :: int
  st_network :: string
  st_repository :: string
  st_fingerprint :: string
  st_metadata :: meta_files
  st_accepted :: "accepted option"

record signed_meta =
  sm_version :: int
  sm_expires :: gotime

record tuf_lib = tuf_root_lib +
  lib_json :: "bytes \<Rightarrow> json option"
  lib_root_meta :: "bytes \<Rightarrow> signed_meta"
  lib_timestamp :: "gotime \<Rightarrow> bytes \<Rightarrow> bytes \<Rightarrow> signed_meta option"
  lib_snapshot :: "gotime \<Rightarrow> bytes \<Rightarrow> bytes \<Rightarrow> bytes \<Rightarrow> signed_meta option"
  lib_targets :: "gotime \<Rightarrow> bytes \<Rightarrow> bytes \<Rightarrow> bytes \<Rightarrow> bytes \<Rightarrow> (signed_meta \<times> bytes option) option"
  lib_target_ok :: "bytes \<Rightarrow> bytes \<Rightarrow> bool"
  lib_marshal :: "state \<Rightarrow> bytes option"
  lib_unmarshal :: "bytes \<Rightarrow> state option"
  lib_seal :: "bytes \<Rightarrow> string \<Rightarrow> bytes"
  lib_unseal :: "bytes \<Rightarrow> (bytes \<times> string) option"

datatype boot_error =
    ErrState
  | ErrNoManifest
  | ErrIO
  | ErrTooLarge
  | ErrMetadata
  | ErrVerify
  | ErrExpired
  | ErrManifest
  | ErrUpdater
  | ErrTarget
  | ErrCheckpoint
  | ErrEscaped
  | ErrStatus int

record state_dir =
  sd_state :: "bytes option"
  sd_private :: bool
  sd_pending :: "bytes option"

definition metadata_of :: "meta_files \<Rightarrow> string \<Rightarrow> bytes" where
  "metadata_of files role = (case gm_lookup files role of None \<Rightarrow> [] | Some d \<Rightarrow> d)"

definition readLimited :: "bytes \<Rightarrow> nat \<Rightarrow> bytes option" where
  "readLimited data limit = (if length data > limit then None else Some data)"

definition checkMetadata :: "tuf_lib \<Rightarrow> meta_files \<Rightarrow> bool" where
  "checkMetadata lib files =
     (list_all (\<lambda>(name, data). List.member top_level_roles name \<and> data \<noteq> [] \<and> length data \<le> metadataLimit
        \<and> lib_json lib data \<noteq> None) files
      \<and> validateRoot (tuf_root_lib.truncate lib) (metadata_of files ''root''))"

definition bundle_fingerprint :: "tuf_lib \<Rightarrow> Bundle \<Rightarrow> string" where
  "bundle_fingerprint lib b = Fingerprint (tuf_root_lib.truncate lib) b"

definition load :: "tuf_lib \<Rightarrow> Bundle \<Rightarrow> state_dir \<Rightarrow> boot_error + state" where
  "load lib bundle dir =
     (case sd_state dir of
        None \<Rightarrow> Inl ErrState
      | Some file \<Rightarrow>
          if \<not> sd_private dir then Inl ErrState
          else case readLimited file stateLimit of
            None \<Rightarrow> Inl ErrState
          | Some data \<Rightarrow>
              (case lib_unseal lib data of
                 None \<Rightarrow> Inl ErrState
               | Some (payload, digest) \<Rightarrow>
                   if lib_sha256 lib payload \<noteq> digest then Inl ErrState
                   else case lib_unmarshal lib payload of
                     None \<Rightarrow> Inl ErrState
                   | Some st \<Rightarrow>
                       if st_schema st \<noteq> 1 \<or> st_network st \<noteq> bd_network bundle \<or> st_repository st \<noteq> bd_repository bundle
                          \<or> st_fingerprint st \<noteq> bundle_fingerprint lib bundle
                       then Inl ErrState
                       else if \<not> checkMetadata lib (st_metadata st) then Inl ErrState
                       else case st_accepted st of
                         None \<Rightarrow> Inr st
                       | Some a \<Rightarrow>
                           if \<not> checkMetadata lib (ac_metadata a) \<or> length (ac_manifest a) > manifestLimit
                           then Inl ErrState else Inr st))"

text \<open>
  The steps of \<open>save\<close> at which it can stop, with an error or because the process dies: \<open>StopWrite p\<close> leaves
  the bytes \<open>p\<close> in the pending file, the steps up to \<open>StopRename\<close> come before the rename took effect.
\<close>

datatype save_stop = StopRemove | StopOpen | StopWrite bytes | StopWritten | StopSync | StopSynced | StopRename
  | StopRenamed | StopDirSync | StopCommitted

definition save :: "tuf_lib \<Rightarrow> save_stop option \<Rightarrow> state \<Rightarrow> state_dir \<Rightarrow> state_dir \<times> boot_error option" where
  "save lib stop st dir =
     (case lib_marshal lib st of
        None \<Rightarrow> (dir, Some ErrIO)
      | Some payload \<Rightarrow>
          let data = lib_seal lib payload (lib_sha256 lib payload);
              clean = dir\<lparr>sd_pending := None\<rparr>;
              written = dir\<lparr>sd_pending := Some data\<rparr>;
              renamed = dir\<lparr>sd_state := Some data, sd_private := True, sd_pending := None\<rparr>
          in if length data > stateLimit then (dir, Some ErrTooLarge)
             else case stop of
               None \<Rightarrow> (renamed, None)
             | Some StopRemove \<Rightarrow> (dir, Some ErrIO)
             | Some StopOpen \<Rightarrow> (clean, Some ErrIO)
             | Some (StopWrite part) \<Rightarrow> (dir\<lparr>sd_pending := Some part\<rparr>, Some ErrIO)
             | Some StopWritten \<Rightarrow> (written, Some ErrIO)
             | Some StopSync \<Rightarrow> (written, Some ErrIO)
             | Some StopSynced \<Rightarrow> (written, Some ErrIO)
             | Some StopRename \<Rightarrow> (written, Some ErrIO)
             | Some StopRenamed \<Rightarrow> (renamed, Some ErrIO)
             | Some StopDirSync \<Rightarrow> (renamed, Some ErrIO)
             | Some StopCommitted \<Rightarrow> (renamed, Some ErrIO))"

section \<open>Opening\<close>

text \<open>What \<open>openStore\<close> reads of the file system: for each ancestor, whether it is a directory and passes
  \<open>checkAncestor\<close>; then the outcomes for the directory itself and its lock file.\<close>

datatype mkdir_result = MkdirCreated | MkdirExists | MkdirFailed

record store_env =
  se_ancestors :: "(bool \<times> bool) list"
  se_mkdir :: mkdir_result
  se_exists :: bool
  se_private_dir :: bool
  se_owned :: bool
  se_opens :: bool
  se_lock_ok :: bool
  se_locked :: bool
  se_parent_synced :: bool

definition openStore :: "store_env \<Rightarrow> bool \<Rightarrow> boot_error + bool" where
  "openStore env create =
     (if \<not> list_all (\<lambda>(is_dir, safe). is_dir \<and> safe) (se_ancestors env) then Inl ErrState
      else if create \<and> se_mkdir env = MkdirFailed then Inl ErrIO
      else let created = (create \<and> se_mkdir env = MkdirCreated)
           in if \<not> se_exists env then Inl ErrState
              else if \<not> se_private_dir env then Inl ErrState
              else if \<not> se_owned env then Inl ErrState
              else if \<not> se_opens env then Inl ErrIO
              else if \<not> se_lock_ok env then Inl ErrState
              else if \<not> se_locked env then Inl ErrIO
              else if created \<and> \<not> se_parent_synced env then Inl ErrIO
              else Inr created)"

text \<open>The HTTP client options \<open>New\<close> refuses are those of \<open>Endpoint.Client\<close>; the timeout is capped at ten seconds.\<close>

definition clamp_timeout :: "duration \<Rightarrow> duration" where
  "clamp_timeout t = (if t \<le> 0 \<or> t > 10 * nsec then 10 * nsec else t)"

definition initial_state :: "tuf_lib \<Rightarrow> Bundle \<Rightarrow> state" where
  "initial_state lib b =
     \<lparr>st_schema = 1, st_network = bd_network b, st_repository = bd_repository b,
      st_fingerprint = bundle_fingerprint lib b, st_metadata = [(''root'', bd_root b)], st_accepted = None\<rparr>"

definition New ::
    "tuf_lib \<Rightarrow> Bundle \<Rightarrow> store_env \<Rightarrow> HTTPClient option \<Rightarrow> save_stop option \<Rightarrow> state_dir \<Rightarrow> state_dir \<times> (boot_error + Bundle)" where
  "New lib b0 env hc stop dir =
     (if \<not> Validate (tuf_root_lib.truncate lib) b0 then (dir, Inl ErrMetadata)
      else let b = b0\<lparr>bd_repository := (case httpsRepository (bd_repository b0) of None \<Rightarrow> [] | Some l \<Rightarrow> l)\<rparr>
           in case Client hc of
                None \<Rightarrow> (dir, Inl ErrIO)
              | Some c \<Rightarrow>
                  (case openStore env True of
                     Inl e \<Rightarrow> (dir, Inl e)
                   | Inr created \<Rightarrow>
                       let (dir1, err) = (if created then save lib stop (initial_state lib b) dir else (dir, None))
                       in case err of
                            Some e \<Rightarrow> (dir1, Inl e)
                          | None \<Rightarrow> (case load lib b dir1 of Inl e \<Rightarrow> (dir1, Inl e) | Inr st \<Rightarrow> (dir1, Inr b))))"

section \<open>Accepted manifests\<close>

record Versions =
  v_root :: int
  v_timestamp :: int
  v_snapshot :: int
  v_targets :: int

record View =
  vw_manifest :: Manifest
  vw_expires :: gotime
  vw_versions :: Versions
  vw_digests :: "(string, string) gomap"

definition earliest :: "gotime \<Rightarrow> gotime list \<Rightarrow> gotime" where
  "earliest d ts = foldl (\<lambda>deadline t. if t < deadline then t else deadline) d ts"

definition verifyAccepted :: "tuf_lib \<Rightarrow> accepted \<Rightarrow> string \<Rightarrow> gotime \<Rightarrow> boot_error + View" where
  "verifyAccepted lib a network now =
     (let root = metadata_of (ac_metadata a) ''root''; ts = metadata_of (ac_metadata a) ''timestamp'';
          sn = metadata_of (ac_metadata a) ''snapshot''; tg = metadata_of (ac_metadata a) ''targets''
      in if \<not> lib_trusted lib root then Inl ErrVerify
         else case lib_timestamp lib now root ts of
           None \<Rightarrow> Inl ErrVerify
         | Some tsm \<Rightarrow>
             (case lib_snapshot lib now root ts sn of
                None \<Rightarrow> Inl ErrVerify
              | Some snm \<Rightarrow>
                  (case lib_targets lib now root ts sn tg of
                     None \<Rightarrow> Inl ErrVerify
                   | Some (tgm, None) \<Rightarrow> Inl ErrTarget
                   | Some (tgm, Some target) \<Rightarrow>
                       if \<not> lib_target_ok lib target (ac_manifest a) then Inl ErrTarget
                       else case ParseManifest (lib_json lib) (ac_manifest a) network of
                         None \<Rightarrow> Inl ErrManifest
                       | Some m \<Rightarrow>
                           let rm = lib_root_meta lib root;
                               deadline = earliest (sm_expires rm) [sm_expires tsm, sm_expires snm, sm_expires tgm]
                           in if \<not> now < deadline then Inl ErrExpired
                              else Inr \<lparr>vw_manifest = m, vw_expires = deadline,
                                 vw_versions = \<lparr>v_root = sm_version rm, v_timestamp = sm_version tsm,
                                   v_snapshot = sm_version snm, v_targets = sm_version tgm\<rparr>,
                                 vw_digests = map (\<lambda>(role, data). (role, lib_sha256 lib data)) (ac_metadata a)\<rparr>)))"

text \<open>\<open>Current\<close>: the first clock reading is for nothing but the verification.\<close>

definition same_authority :: "accepted \<Rightarrow> meta_files \<Rightarrow> bool" where
  "same_authority a files =
     list_all (\<lambda>role. metadata_of (ac_metadata a) role = metadata_of files role) [''root'', ''targets'']"

definition Current :: "tuf_lib \<Rightarrow> Bundle \<Rightarrow> store_env \<Rightarrow> gotime \<Rightarrow> state_dir \<Rightarrow> boot_error + View" where
  "Current lib b env now dir =
     (case openStore env False of
        Inl e \<Rightarrow> Inl e
      | Inr _ \<Rightarrow>
          (case load lib b dir of
             Inl e \<Rightarrow> Inl e
           | Inr st \<Rightarrow>
               (case st_accepted st of
                  None \<Rightarrow> Inl ErrNoManifest
                | Some a \<Rightarrow>
                    if \<not> same_authority a (st_metadata st) then Inl ErrState
                    else verifyAccepted lib a (bd_network b) now)))"

section \<open>Checkpoints and refresh\<close>

text \<open>\<open>maps.EqualFunc\<close>.\<close>

definition same_files :: "meta_files \<Rightarrow> meta_files \<Rightarrow> bool" where
  "same_files a b = (length a = length b \<and> list_all (\<lambda>(k, v). gm_lookup b k = Some v) a)"

text \<open>\<open>scratch\<close> are the files of the scratch directory, of which only those of the four roles are read.\<close>

definition read_scratch :: "meta_files \<Rightarrow> meta_files option" where
  "read_scratch scratch =
     (if gm_lookup scratch ''root'' = None then None
      else let files = filter (\<lambda>(k, v). List.member top_level_roles k) scratch
           in if list_all (\<lambda>(k, v). readLimited v metadataLimit \<noteq> None) files then Some files else None)"

text \<open>The state with the new files, without the accepted manifest if root or targets changed.\<close>

definition checkpoint_next :: "meta_files \<Rightarrow> state \<Rightarrow> state" where
  "checkpoint_next files st =
     (if metadata_of files ''root'' \<noteq> metadata_of (st_metadata st) ''root''
         \<or> metadata_of files ''targets'' \<noteq> metadata_of (st_metadata st) ''targets''
      then st\<lparr>st_metadata := files, st_accepted := None\<rparr> else st\<lparr>st_metadata := files\<rparr>)"

definition checkpointMetadata ::
    "tuf_lib \<Rightarrow> save_stop option \<Rightarrow> meta_files \<Rightarrow> state \<times> state_dir \<Rightarrow> (state \<times> state_dir) \<times> boot_error option" where
  "checkpointMetadata lib stop scratch sd =
     (case read_scratch scratch of
        None \<Rightarrow> (sd, Some ErrIO)
      | Some files \<Rightarrow>
          (let (st, dir) = sd
           in if same_files files (st_metadata st) then (sd, None)
              else if \<not> checkMetadata lib files then (sd, Some ErrMetadata)
              else let next = checkpoint_next files st; (dir1, err) = save lib stop next dir
                   in case err of Some e \<Rightarrow> ((st, dir1), Some e) | None \<Rightarrow> ((next, dir1), None)))"

text \<open>
  The closure \<open>checkpoint\<close> of \<open>Refresh\<close>: the state and directory, whether a checkpoint failed, and how often
  the application was told to drop its view.
\<close>

record session =
  ss_state :: state
  ss_dir :: state_dir
  ss_failed :: bool
  ss_invalidated :: nat

definition checkpoint :: "tuf_lib \<Rightarrow> save_stop option \<Rightarrow> meta_files \<Rightarrow> session \<Rightarrow> session \<times> boot_error option" where
  "checkpoint lib stop scratch s =
     (if ss_failed s then (s, Some ErrCheckpoint)
      else let hadManifest = (st_accepted (ss_state s) \<noteq> None);
               ((st, dir), err) = checkpointMetadata lib stop scratch (ss_state s, ss_dir s);
               inv = (err = None \<and> hadManifest \<and> st_accepted st = None)
           in (s\<lparr>ss_state := st, ss_dir := dir, ss_failed := (err \<noteq> None),
                 ss_invalidated := ss_invalidated s + (if inv then 1 else 0)\<rparr>, err))"

text \<open>The download function the updater calls; \<open>get\<close> is the HTTP exchange: status, content length, body.\<close>

definition DownloadFile ::
    "boot_error option \<Rightarrow> string \<Rightarrow> string \<Rightarrow> int \<Rightarrow> (int \<times> int \<times> bytes) option \<Rightarrow> boot_error + bytes" where
  "DownloadFile checked repository rawURL maxLength get =
     (case checked of
        Some e \<Rightarrow> Inl e
      | None \<Rightarrow>
          if httpsRepository rawURL \<noteq> Some rawURL \<or> \<not> HasPrefix rawURL (repository @ ''/'') then Inl ErrEscaped
          else if maxLength < 1 \<or> maxLength > int metadataLimit then Inl ErrTooLarge
          else case get of
            None \<Rightarrow> Inl ErrIO
          | Some (status, contentLength, body) \<Rightarrow>
              if status \<noteq> 200 then Inl (ErrStatus status)
              else if contentLength > maxLength then Inl ErrTooLarge
              else case readLimited body (nat maxLength) of None \<Rightarrow> Inl ErrTooLarge | Some data \<Rightarrow> Inr data)"

text \<open>
  A run of the updater: the scratch directory (and the outcome of the write) at each download before
  \<open>u.Refresh\<close> returns; what it returns; and for the target, its presence at the top level, its information
  (the signed length), the checkpoint of its download, its data and the outcome of the last save.
\<close>

type_synonym scratch_step = "meta_files \<times> save_stop option"

record updater_run =
  ur_downloads :: "scratch_step list"
  ur_ok :: bool
  ur_after :: scratch_step
  ur_top_level :: bool
  ur_length :: "int option"
  ur_target_step :: scratch_step
  ur_data :: "bytes option"
  ur_save :: "save_stop option"
  ur_final :: scratch_step

fun run_downloads :: "tuf_lib \<Rightarrow> scratch_step list \<Rightarrow> session \<Rightarrow> session \<times> boot_error option" where
  "run_downloads lib [] s = (s, None)"
| "run_downloads lib ((scratch, stop) # steps) s =
     (let (s1, err) = checkpoint lib stop scratch s
      in case err of Some e \<Rightarrow> (s1, Some e) | None \<Rightarrow> run_downloads lib steps s1)"

text \<open>The body of \<open>Refresh\<close> once the state is loaded, up to its deferred calls: the download of the manifest.\<close>

definition refresh_fetch :: "tuf_lib \<Rightarrow> updater_run \<Rightarrow> session \<Rightarrow> session \<times> (boot_error + bytes)" where
  "refresh_fetch lib u s0 =
     (let (s1, err1) = run_downloads lib (ur_downloads u) s0
      in if err1 \<noteq> None \<or> \<not> ur_ok u then (s1, Inl ErrUpdater)
         else let (s2, err2) = checkpoint lib (snd (ur_after u)) (fst (ur_after u)) s1
              in case err2 of
                   Some e \<Rightarrow> (s2, Inl e)
                 | None \<Rightarrow>
                     if \<not> ur_top_level u then (s2, Inl ErrTarget)
                     else case ur_length u of
                       None \<Rightarrow> (s2, Inl ErrTarget)
                     | Some len \<Rightarrow>
                         if len < 1 \<or> len > int manifestLimit then (s2, Inl ErrTooLarge)
                         else let (s3, err3) = checkpoint lib (snd (ur_target_step u)) (fst (ur_target_step u)) s2
                              in case err3 of
                                   Some e \<Rightarrow> (s3, Inl e)
                                 | None \<Rightarrow> (case ur_data u of None \<Rightarrow> (s3, Inl ErrUpdater) | Some data \<Rightarrow> (s3, Inr data)))"

text \<open>Its second half: the record is verified, accepted and saved.\<close>

definition accept_manifest ::
    "tuf_lib \<Rightarrow> string \<Rightarrow> gotime \<Rightarrow> save_stop option \<Rightarrow> bytes \<Rightarrow> session \<Rightarrow> session \<times> (boot_error + View)" where
  "accept_manifest lib network now stop data s =
     (let a = \<lparr>ac_metadata = st_metadata (ss_state s), ac_manifest = data\<rparr>
      in case verifyAccepted lib a network now of
           Inl e \<Rightarrow> (s, Inl e)
         | Inr view \<Rightarrow>
             let st = (ss_state s)\<lparr>st_accepted := Some a\<rparr>; (dir, err) = save lib stop st (ss_dir s);
                 s' = s\<lparr>ss_state := st, ss_dir := dir\<rparr>
             in case err of Some e \<Rightarrow> (s'\<lparr>ss_failed := True\<rparr>, Inl e) | None \<Rightarrow> (s', Inr view))"

definition refresh_body :: "tuf_lib \<Rightarrow> string \<Rightarrow> gotime \<Rightarrow> updater_run \<Rightarrow> session \<Rightarrow> session \<times> (boot_error + View)" where
  "refresh_body lib network now u s0 =
     (let (s, fetched) = refresh_fetch lib u s0
      in case fetched of Inl e \<Rightarrow> (s, Inl e) | Inr data \<Rightarrow> accept_manifest lib network now (ur_save u) data s)"

definition Refresh ::
    "tuf_lib \<Rightarrow> Bundle \<Rightarrow> store_env \<Rightarrow> bool \<Rightarrow> gotime \<Rightarrow> updater_run \<Rightarrow> state_dir
       \<Rightarrow> state_dir \<times> nat \<times> (boot_error + View)" where
  "Refresh lib b env work_ok now u dir =
     (case openStore env False of
        Inl e \<Rightarrow> (dir, 0, Inl e)
      | Inr _ \<Rightarrow>
          (case load lib b dir of
             Inl e \<Rightarrow> (dir, 0, Inl e)
           | Inr st \<Rightarrow>
               if \<not> work_ok then (dir, 0, Inl ErrIO)
               else let (s, res) = refresh_body lib (bd_network b) now u
                            \<lparr>ss_state = st, ss_dir = dir, ss_failed = False, ss_invalidated = 0\<rparr>
                    in if ss_failed s then (ss_dir s, ss_invalidated s, res)
                       else let (s', err) = checkpoint lib (snd (ur_final u)) (fst (ur_final u)) s
                            in (ss_dir s', ss_invalidated s', case err of None \<Rightarrow> res | Some e \<Rightarrow> Inl e)))"

end
