(* ===== verification/Bootstrap_Facts.thy ===== *)
theory Bootstrap_Facts
  imports Bootstrap_Client
begin

text \<open>
  Facts on the durable trust client: an interrupted write leaves the old or the new state, a refreshed view is
  the one that \<open>Current\<close> returns afterwards, and a change of root or membership metadata revokes the accepted
  view. \<open>codec_ok\<close> is what the code relies on of the JSON codecs.
\<close>

definition codec_ok :: "tuf_lib \<Rightarrow> bool" where
  "codec_ok lib \<longleftrightarrow>
     (\<forall>st p. lib_marshal lib st = Some p \<longrightarrow> lib_unmarshal lib p = Some st) \<and>
     (\<forall>p d. lib_unseal lib (lib_seal lib p d) = Some (p, d))"

text \<open>States that \<open>load\<close> accepts for a bundle.\<close>

definition state_ok :: "tuf_lib \<Rightarrow> Bundle \<Rightarrow> state \<Rightarrow> bool" where
  "state_ok lib b st \<longleftrightarrow>
     st_schema st = 1 \<and> st_network st = bd_network b \<and> st_repository st = bd_repository b \<and>
     st_fingerprint st = bundle_fingerprint lib b \<and> checkMetadata lib (st_metadata st) \<and>
     (case st_accepted st of None \<Rightarrow> True
      | Some a \<Rightarrow> checkMetadata lib (ac_metadata a) \<and> length (ac_manifest a) \<le> manifestLimit)"

lemma load_ok: "load lib b dir = Inr st \<Longrightarrow> state_ok lib b st"
  unfolding load_def state_ok_def by (auto split: option.splits if_splits prod.splits)

lemma load_pending [simp]: "load lib b (dir\<lparr>sd_pending := p\<rparr>) = load lib b dir"
  by (cases "sd_state dir") (simp_all add: load_def)

lemma load_saved:
  assumes "codec_ok lib" "state_ok lib b st" "lib_marshal lib st = Some payload"
    and "length (lib_seal lib payload (lib_sha256 lib payload)) \<le> stateLimit"
  shows "load lib b (dir\<lparr>sd_state := Some (lib_seal lib payload (lib_sha256 lib payload)), sd_private := True, sd_pending := p\<rparr>) = Inr st"
  using assms unfolding load_def state_ok_def codec_ok_def readLimited_def by (auto split: option.splits)

lemma save_load:
  assumes "codec_ok lib" "state_ok lib b st" "save lib stop st dir = (dir', err)"
  shows "load lib b dir' = Inr st \<or> load lib b dir' = load lib b dir \<and> err \<noteq> None"
proof (cases "lib_marshal lib st")
  case (Some payload)
  show ?thesis
  proof (cases "length (lib_seal lib payload (lib_sha256 lib payload)) > stateLimit")
    case False
    note ok = load_saved [OF assms(1,2) Some, where dir = dir and p = None]
    show ?thesis
      using assms(3) Some False ok by (cases stop; (cases "the stop")?) (auto simp: save_def Let_def)
  qed (use assms(3) Some in \<open>auto simp: save_def Let_def\<close>)
qed (use assms(3) in \<open>auto simp: save_def\<close>)

lemma save_ok_load:
  assumes "codec_ok lib" "state_ok lib b st" "save lib stop st dir = (dir', None)"
  shows "load lib b dir' = Inr st"
  using save_load [OF assms] by blast

section \<open>Checkpoints\<close>

text \<open>The accepted manifest belongs to the root and membership metadata of the state.\<close>

definition authority_inv :: "state \<Rightarrow> bool" where
  "authority_inv st \<longleftrightarrow> (case st_accepted st of None \<Rightarrow> True | Some a \<Rightarrow> same_authority a (st_metadata st))"

definition dir_inv :: "tuf_lib \<Rightarrow> Bundle \<Rightarrow> state_dir \<Rightarrow> bool" where
  "dir_inv lib b dir \<longleftrightarrow> (\<exists>st. load lib b dir = Inr st \<and> authority_inv st)"

text \<open>
  During \<open>Refresh\<close>: the state in memory is good, and unless a write failed it is the one on disk; after a
  failed write the disk holds this state or the one that was being written.
\<close>

definition session_inv :: "tuf_lib \<Rightarrow> Bundle \<Rightarrow> session \<Rightarrow> bool" where
  "session_inv lib b s \<longleftrightarrow>
     state_ok lib b (ss_state s) \<and> authority_inv (ss_state s) \<and> dir_inv lib b (ss_dir s) \<and>
     (\<not> ss_failed s \<longrightarrow> load lib b (ss_dir s) = Inr (ss_state s))"

lemma same_files_metadata:
  assumes "gm_ok a" "same_files a b"
  shows "metadata_of a role = metadata_of b role"
proof (cases "gm_lookup a role")
  case (Some v)
  then show ?thesis using assms(2) gm_lookup_in [OF Some] by (auto simp: same_files_def metadata_of_def list_all_iff)
next
  case None
  show ?thesis
  proof (cases "gm_lookup b role")
    case (Some v)
    have "k \<in> fst ` set b - {role}" if "k \<in> fst ` set a" for k
    proof -
      from that obtain w where kw: "(k, w) \<in> set a" by auto
      then have "gm_lookup b k = Some w" using assms(2) by (auto simp: same_files_def list_all_iff)
      moreover have "k \<noteq> role" using None that by (auto simp: gm_lookup_None)
      ultimately show ?thesis using gm_lookup_in [of b k w] by force
    qed
    then have "fst ` set a \<subseteq> fst ` set b - {role}" by blast
    moreover have "role \<in> fst ` set b" using gm_lookup_in [OF Some] by force
    ultimately have "card (fst ` set a) < card (fst ` set b)" by (intro psubset_card_mono) blast+
    moreover have "card (fst ` set a) = length a"
      using assms(1) by (metis gm_ok_def distinct_card length_map list.set_map)
    moreover have "card (fst ` set b) \<le> length b" by (metis card_length length_map list.set_map)
    ultimately show ?thesis using assms(2) by (simp add: same_files_def)
  qed (use None in \<open>simp add: metadata_of_def\<close>)
qed

lemma checkpoint_next_ok:
  "state_ok lib b st \<Longrightarrow> checkMetadata lib files \<Longrightarrow> state_ok lib b (checkpoint_next files st)"
  by (auto simp: state_ok_def checkpoint_next_def split: option.splits)

lemma checkpoint_next_authority: "authority_inv st \<Longrightarrow> authority_inv (checkpoint_next files st)"
  by (auto simp: authority_inv_def same_authority_def checkpoint_next_def split: option.splits)

lemma checkpointMetadata_cases:
  assumes "checkpointMetadata lib stop scratch (st, dir) = ((st', dir'), err)"
  obtains "st' = st" "dir' = dir"
  | files where "read_scratch scratch = Some files" "checkMetadata lib files"
      "save lib stop (checkpoint_next files st) dir = (dir', err)" "st' = (if err = None then checkpoint_next files st else st)"
proof (cases "read_scratch scratch")
  case None
  then show thesis using assms that(1) by (simp add: checkpointMetadata_def)
next
  case (Some files)
  show thesis
  proof (cases "same_files files (st_metadata st) \<or> \<not> checkMetadata lib files")
    case True
    then show thesis using assms Some that(1) by (auto simp: checkpointMetadata_def split: if_splits)
  next
    case False
    then have "save lib stop (checkpoint_next files st) dir = (dir', err)" "st' = (if err = None then checkpoint_next files st else st)"
      using assms Some by (auto simp: checkpointMetadata_def Let_def split: prod.splits option.splits)
    then show thesis using that(2) [of files] Some False by blast
  qed
qed

lemma checkpoint_inv:
  assumes "codec_ok lib" "session_inv lib b s" "checkpoint lib stop scratch s = (s', err)"
  shows "session_inv lib b s'"
proof (cases "ss_failed s")
  case False
  obtain st dir where cp: "checkpointMetadata lib stop scratch (ss_state s, ss_dir s) = ((st, dir), err)"
      and s': "ss_state s' = st" "ss_dir s' = dir" "ss_failed s' \<longleftrightarrow> err \<noteq> None"
    using assms(3) False by (auto simp: checkpoint_def Let_def split: prod.splits)
  have inv: "state_ok lib b (ss_state s)" "authority_inv (ss_state s)" "load lib b (ss_dir s) = Inr (ss_state s)"
    using assms(2) False by (simp_all add: session_inv_def)
  from cp show ?thesis
  proof (cases rule: checkpointMetadata_cases)
    case 1
    then show ?thesis using inv s' by (simp add: session_inv_def dir_inv_def)
  next
    case (2 files)
    let ?n = "checkpoint_next files (ss_state s)"
    have n: "state_ok lib b ?n" "authority_inv ?n"
      using checkpoint_next_ok [OF inv(1) 2(2)] checkpoint_next_authority [OF inv(2)] by auto
    note sv = save_load [OF assms(1) n(1) 2(3)]
    then have "dir_inv lib b dir" using n(2) inv(2,3) by (auto simp: dir_inv_def)
    then show ?thesis using sv n inv s' 2(4) by (auto simp: session_inv_def split: if_splits)
  qed
qed (use assms in \<open>simp add: checkpoint_def\<close>)

text \<open>Whether the accepted manifest survives is decided by the root and targets metadata alone.\<close>

lemma checkpoint_accepted:
  assumes "checkpoint lib stop scratch s = (s', err)" "st_accepted (ss_state s) = None"
  shows "st_accepted (ss_state s') = None"
proof (cases "ss_failed s")
  case False
  obtain st dir where cp: "checkpointMetadata lib stop scratch (ss_state s, ss_dir s) = ((st, dir), err)" and "ss_state s' = st"
    using assms(1) False by (auto simp: checkpoint_def Let_def split: prod.splits)
  then show ?thesis by (cases rule: checkpointMetadata_cases) (auto simp: assms(2) checkpoint_next_def split: if_splits)
qed (use assms in \<open>simp add: checkpoint_def\<close>)

lemma run_downloads_inv:
  "codec_ok lib \<Longrightarrow> session_inv lib b s \<Longrightarrow> run_downloads lib steps s = (s', err) \<Longrightarrow> session_inv lib b s'"
proof (induction steps arbitrary: s)
  case (Cons step steps)
  obtain scratch stop where step: "step = (scratch, stop)" by (cases step)
  obtain s1 e1 where cp: "checkpoint lib stop scratch s = (s1, e1)" by (cases "checkpoint lib stop scratch s")
  have "session_inv lib b s1" using checkpoint_inv [OF Cons.prems(1,2) cp] .
  with Cons step cp show ?case by (cases e1) auto
qed simp

section \<open>Refresh\<close>

lemma verifyAccepted_ok:
  assumes "verifyAccepted lib a network now = Inr v"
  shows "now < vw_expires v \<and> ParseManifest (lib_json lib) (ac_manifest a) network = Some (vw_manifest v) \<and>
    length (ac_manifest a) \<le> manifestLimit \<and>
    vw_digests v = map (\<lambda>(role, data). (role, lib_sha256 lib data)) (ac_metadata a)"
  using assms unfolding verifyAccepted_def
  by (auto simp: Let_def ParseManifest_def split: option.splits if_splits prod.splits)

lemma check_roots_length: "check_roots ids origins rs = Some rs' \<Longrightarrow> length rs' = length rs"
  by (induction rs arbitrary: ids origins rs') (auto split: option.splits if_splits)

lemma ParseManifest_ok:
  assumes "ParseManifest read data network = Some m"
  shows "mf_roots m \<noteq> [] \<and> length (mf_roots m) \<le> 16 \<and> mf_network m = network \<and> mf_enclave m = ''default''"
  using assms check_roots_length unfolding ParseManifest_def
  by (fastforce split: option.splits if_splits)

lemma checkpoint_not_failed: "checkpoint lib stop scratch s = (s', None) \<Longrightarrow> \<not> ss_failed s \<and> \<not> ss_failed s'"
  by (auto simp: checkpoint_def Let_def split: prod.splits if_splits)

lemma refresh_fetch_inv:
  assumes "codec_ok lib" "session_inv lib b s" "refresh_fetch lib u s = (s', res)"
  shows "session_inv lib b s'"
proof -
  obtain s1 err1 where 1: "run_downloads lib (ur_downloads u) s = (s1, err1)" by (cases "run_downloads lib (ur_downloads u) s")
  obtain s2 err2 where 2: "checkpoint lib (snd (ur_after u)) (fst (ur_after u)) s1 = (s2, err2)"
    by (cases "checkpoint lib (snd (ur_after u)) (fst (ur_after u)) s1")
  obtain s3 err3 where 3: "checkpoint lib (snd (ur_target_step u)) (fst (ur_target_step u)) s2 = (s3, err3)"
    by (cases "checkpoint lib (snd (ur_target_step u)) (fst (ur_target_step u)) s2")
  have i1: "session_inv lib b s1" using run_downloads_inv [OF assms(1,2) 1] .
  have i2: "session_inv lib b s2" using checkpoint_inv [OF assms(1) i1 2] .
  have i3: "session_inv lib b s3" using checkpoint_inv [OF assms(1) i2 3] .
  have "s' \<in> {s1, s2, s3}"
    using assms(3) 1 2 3 by (auto simp: refresh_fetch_def Let_def split: if_splits option.splits)
  then show ?thesis using i1 i2 i3 by blast
qed

lemma refresh_fetch_data:
  assumes "refresh_fetch lib u s = (s', Inr data)"
  obtains s2 where "checkpoint lib (snd (ur_target_step u)) (fst (ur_target_step u)) s2 = (s', None)"
proof -
  obtain s1 err1 where 1: "run_downloads lib (ur_downloads u) s = (s1, err1)" by (cases "run_downloads lib (ur_downloads u) s")
  obtain s2 err2 where 2: "checkpoint lib (snd (ur_after u)) (fst (ur_after u)) s1 = (s2, err2)"
    by (cases "checkpoint lib (snd (ur_after u)) (fst (ur_after u)) s1")
  obtain s3 err3 where 3: "checkpoint lib (snd (ur_target_step u)) (fst (ur_target_step u)) s2 = (s3, err3)"
    by (cases "checkpoint lib (snd (ur_target_step u)) (fst (ur_target_step u)) s2")
  have "s3 = s' \<and> err3 = None"
    using assms 1 2 3 by (auto simp: refresh_fetch_def Let_def split: if_splits option.splits)
  then show thesis using that 3 by blast
qed

text \<open>The accepted record is verified and belongs to the metadata in force.\<close>

lemma accept_state_ok:
  assumes "state_ok lib b st" "verifyAccepted lib \<lparr>ac_metadata = st_metadata st, ac_manifest = data\<rparr> network now = Inr v"
  shows "state_ok lib b (st\<lparr>st_accepted := Some \<lparr>ac_metadata = st_metadata st, ac_manifest = data\<rparr>\<rparr>)"
    "authority_inv (st\<lparr>st_accepted := Some \<lparr>ac_metadata = st_metadata st, ac_manifest = data\<rparr>\<rparr>)"
  using assms verifyAccepted_ok [OF assms(2)] by (simp_all add: state_ok_def authority_inv_def same_authority_def)

lemma accept_manifest_inv:
  assumes "codec_ok lib" "session_inv lib b s" "accept_manifest lib network now stop data s = (s', res)"
  shows "session_inv lib b s'"
proof (cases "verifyAccepted lib \<lparr>ac_metadata = st_metadata (ss_state s), ac_manifest = data\<rparr> network now")
  case (Inr v)
  let ?st = "(ss_state s)\<lparr>st_accepted := Some \<lparr>ac_metadata = st_metadata (ss_state s), ac_manifest = data\<rparr>\<rparr>"
  obtain dir err where sv: "save lib stop ?st (ss_dir s) = (dir, err)" by (cases "save lib stop ?st (ss_dir s)")
  have ok: "state_ok lib b ?st" "authority_inv ?st" using accept_state_ok [of lib b, OF _ Inr] assms(2) by (simp_all add: session_inv_def)
  note ld = save_load [OF assms(1) ok(1) sv]
  then have "dir_inv lib b dir" using ok(2) assms(2) by (auto simp: dir_inv_def session_inv_def)
  then show ?thesis
    using assms(3) Inr sv ok ld by (cases err) (auto simp: accept_manifest_def Let_def session_inv_def)
qed (use assms in \<open>auto simp: accept_manifest_def\<close>)

lemma refresh_body_inv:
  assumes "codec_ok lib" "session_inv lib b s" "refresh_body lib network now u s = (s', res)"
  shows "session_inv lib b s'"
proof -
  obtain s1 f where f: "refresh_fetch lib u s = (s1, f)" by (cases "refresh_fetch lib u s")
  have "session_inv lib b s1" using refresh_fetch_inv [OF assms(1,2) f] .
  then show ?thesis
    using accept_manifest_inv [OF assms(1)] assms(3) f by (cases f) (auto simp: refresh_body_def)
qed

lemma Refresh_inv:
  assumes "codec_ok lib" "dir_inv lib b dir" "Refresh lib b env work now u dir = (dir', n, res)"
  shows "dir_inv lib b dir'"
proof -
  obtain st where st: "load lib b dir = Inr st" "authority_inv st" using assms(2) by (auto simp: dir_inv_def)
  let ?s0 = "\<lparr>ss_state = st, ss_dir = dir, ss_failed = False, ss_invalidated = 0\<rparr>"
  have i0: "session_inv lib b ?s0" using st load_ok [OF st(1)] assms(2) by (simp add: session_inv_def)
  obtain s r where body: "refresh_body lib (bd_network b) now u ?s0 = (s, r)" by (cases "refresh_body lib (bd_network b) now u ?s0")
  have i1: "session_inv lib b s" using refresh_body_inv [OF assms(1) i0 body] .
  obtain s' err where cp: "checkpoint lib (snd (ur_final u)) (fst (ur_final u)) s = (s', err)"
    by (cases "checkpoint lib (snd (ur_final u)) (fst (ur_final u)) s")
  have i2: "session_inv lib b s'" using checkpoint_inv [OF assms(1) i1 cp] .
  have "dir' \<in> {dir, ss_dir s, ss_dir s'}"
    using assms(3) st body cp by (auto simp: Refresh_def Let_def split: sum.splits if_splits)
  then show ?thesis using assms(2) i1 i2 by (auto simp: session_inv_def)
qed

text \<open>A checkpoint whose files are already recorded changes nothing.\<close>

lemma same_files_refl: "gm_ok files \<Longrightarrow> same_files files files"
  by (auto simp: same_files_def list_all_iff gm_lookup_iff)

lemma read_scratch_ok: "read_scratch scratch = Some files \<Longrightarrow> gm_ok scratch \<Longrightarrow> gm_ok files"
  by (auto simp: read_scratch_def Let_def split: if_splits)

lemma checkpoint_next_metadata [simp]: "st_metadata (checkpoint_next files st) = files"
  by (simp add: checkpoint_next_def)

lemma checkpoint_recorded:
  assumes "checkpoint lib stop scratch s = (s', None)" "gm_ok scratch"
  shows "\<exists>files. read_scratch scratch = Some files \<and> same_files files (st_metadata (ss_state s'))"
proof -
  obtain st dir where cp: "checkpointMetadata lib stop scratch (ss_state s, ss_dir s) = ((st, dir), None)" and "ss_state s' = st"
    using assms(1) by (auto simp: checkpoint_def Let_def split: prod.splits if_splits)
  then show ?thesis
    using same_files_refl [OF read_scratch_ok [OF _ assms(2)]]
    by (auto simp: checkpointMetadata_def Let_def split: option.splits if_splits prod.splits) (metis checkpoint_next_metadata)
qed

lemma checkpoint_again:
  assumes "read_scratch scratch = Some files" "same_files files (st_metadata (ss_state s))" "\<not> ss_failed s"
  shows "checkpoint lib stop scratch s = (s, None)"
  using assms by (auto simp: checkpoint_def checkpointMetadata_def)

lemma accept_manifest_ok:
  assumes "accept_manifest lib network now stop data s = (s', Inr v)"
  shows "st_metadata (ss_state s') = st_metadata (ss_state s) \<and> ss_failed s' = ss_failed s \<and>
    (\<exists>a. st_accepted (ss_state s') = Some a \<and> verifyAccepted lib a network now = Inr v)"
  using assms by (auto simp: accept_manifest_def Let_def split: sum.splits prod.splits option.splits)

text \<open>What a successful refresh leaves on disk.\<close>

lemma Refresh_success:
  assumes "codec_ok lib" "dir_inv lib b dir" "gm_ok (fst (ur_target_step u))" "fst (ur_final u) = fst (ur_target_step u)"
    and "Refresh lib b env work now u dir = (dir', n, Inr v)"
  shows "(\<exists>c. openStore env False = Inr c) \<and>
    (\<exists>st a. load lib b dir' = Inr st \<and> st_accepted st = Some a \<and> same_authority a (st_metadata st) \<and>
       verifyAccepted lib a (bd_network b) now = Inr v)"
proof -
  obtain st where st: "load lib b dir = Inr st" "authority_inv st" using assms(2) by (auto simp: dir_inv_def)
  let ?s0 = "\<lparr>ss_state = st, ss_dir = dir, ss_failed = False, ss_invalidated = 0\<rparr>"
  have i0: "session_inv lib b ?s0" using st load_ok [OF st(1)] assms(2) by (simp add: session_inv_def)
  obtain s r where body: "refresh_body lib (bd_network b) now u ?s0 = (s, r)" by (cases "refresh_body lib (bd_network b) now u ?s0")
  obtain c where c: "openStore env False = Inr c" and r: "r = Inr v"
    using assms(5) st body by (auto simp: Refresh_def Let_def split: sum.splits if_splits prod.splits option.splits)
  obtain s3 data where f: "refresh_fetch lib u ?s0 = (s3, Inr data)"
      and a: "accept_manifest lib (bd_network b) now (ur_save u) data s3 = (s, Inr v)"
    using body r by (auto simp: refresh_body_def split: prod.splits sum.splits)
  obtain s2 where cp: "checkpoint lib (snd (ur_target_step u)) (fst (ur_target_step u)) s2 = (s3, None)"
    using refresh_fetch_data [OF f] .
  note acc = accept_manifest_ok [OF a]
  obtain files where "read_scratch (fst (ur_final u)) = Some files" "same_files files (st_metadata (ss_state s))"
    using checkpoint_recorded [OF cp assms(3)] acc assms(4) by auto
  moreover have nf: "\<not> ss_failed s" using checkpoint_not_failed [OF cp] acc by simp
  ultimately have "checkpoint lib (snd (ur_final u)) (fst (ur_final u)) s = (s, None)" by (rule checkpoint_again)
  then have dir': "dir' = ss_dir s" using assms(5) st body c nf by (auto simp: Refresh_def split: if_splits)
  have "session_inv lib b s" using refresh_body_inv [OF assms(1) i0 body] .
  then have "load lib b dir' = Inr (ss_state s)" "authority_inv (ss_state s)" using nf dir' by (simp_all add: session_inv_def)
  then show ?thesis using acc c by (auto simp: authority_inv_def)
qed

text \<open>
  A successful refresh is durable: when \<open>Refresh\<close> returns a view, every later process that reads the state
  directory gets this view from \<open>Current\<close> (at the same clock reading), provided the JSON codecs decode what
  they encode and the updater leaves its metadata alone once the manifest download has begun.
\<close>

theorem refreshed_view_is_current:
  assumes "codec_ok lib" "dir_inv lib b dir" "gm_ok (fst (ur_target_step u))" "fst (ur_final u) = fst (ur_target_step u)"
    and "Refresh lib b env work now u dir = (dir', n, Inr v)"
  shows "Current lib b env now dir' = Inr v"
  using Refresh_success [OF assms] by (auto simp: Current_def)

text \<open>A sequence of refreshes by processes that may be killed at any step of a write.\<close>

fun refreshes :: "tuf_lib \<Rightarrow> Bundle \<Rightarrow> (store_env \<times> bool \<times> gotime \<times> updater_run) list \<Rightarrow> state_dir \<Rightarrow> state_dir" where
  "refreshes lib b [] dir = dir"
| "refreshes lib b ((env, work, now, u) # rs) dir = refreshes lib b rs (fst (Refresh lib b env work now u dir))"

lemma refreshes_inv: "codec_ok lib \<Longrightarrow> dir_inv lib b dir \<Longrightarrow> dir_inv lib b (refreshes lib b rs dir)"
proof (induction rs arbitrary: dir)
  case (Cons r rs)
  obtain env work now u where r: "r = (env, work, now, u)" by (cases r) auto
  obtain dir' n res where "Refresh lib b env work now u dir = (dir', n, res)" by (cases "Refresh lib b env work now u dir")
  with Cons r show ?case by (auto dest: Refresh_inv)
qed simp

lemma New_created_inv:
  assumes "codec_ok lib" "New lib b0 env hc stop dir = (dir', Inr b)" "se_mkdir env = MkdirCreated"
  shows "dir_inv lib b dir'"
proof -
  obtain err st where sv: "save lib stop (initial_state lib b) dir = (dir', err)" "err = None" and ld: "load lib b dir' = Inr st"
    using assms(2,3) by (auto simp: New_def openStore_def Let_def split: if_splits option.splits sum.splits prod.splits)
  obtain payload where p: "lib_marshal lib (initial_state lib b) = Some payload"
      "sd_state dir' = Some (lib_seal lib payload (lib_sha256 lib payload))"
    using sv by (auto simp: save_def Let_def split: option.splits if_splits save_stop.splits)
  have "lib_unmarshal lib payload = Some (initial_state lib b)" using assms(1) p(1) by (simp add: codec_ok_def)
  then have "st = initial_state lib b"
    using ld p(2) assms(1) by (auto simp: load_def readLimited_def codec_ok_def split: option.splits if_splits)
  then show ?thesis using ld by (simp add: dir_inv_def authority_inv_def initial_state_def)
qed

text \<open>
  C15. Trust state is never lost and never mixes authorities: starting from a directory that \<open>New\<close> created,
  after any sequence of refreshes - failing downloads, invalid metadata, and processes stopped at any step of
  a durable write included - the state loads, \<open>Current\<close> never reports an invalid state, and a view that it
  returns is unexpired, lists one to sixteen roots of this network, and was accepted under exactly the root
  and membership metadata that are in force.
\<close>

theorem trust_state_survives:
  assumes "codec_ok lib" "New lib b0 env hc stop dir0 = (dir1, Inr b)" "se_mkdir env = MkdirCreated"
    and "dir = refreshes lib b rs dir1" "openStore env' False = Inr c"
  shows "\<exists>st. load lib b dir = Inr st \<and> Current lib b env' now dir \<noteq> Inl ErrState \<and>
    (\<forall>v. Current lib b env' now dir = Inr v \<longrightarrow>
       now < vw_expires v \<and> mf_roots (vw_manifest v) \<noteq> [] \<and> length (mf_roots (vw_manifest v)) \<le> 16 \<and>
       mf_network (vw_manifest v) = bd_network b \<and>
       (\<exists>a. st_accepted st = Some a \<and> same_authority a (st_metadata st) \<and> verifyAccepted lib a (bd_network b) now = Inr v))"
proof -
  have "dir_inv lib b dir" using refreshes_inv New_created_inv assms(1-4) by blast
  then obtain st where st: "load lib b dir = Inr st" "authority_inv st" by (auto simp: dir_inv_def)
  have cur: "Current lib b env' now dir =
      (case st_accepted st of None \<Rightarrow> Inl ErrNoManifest | Some a \<Rightarrow> verifyAccepted lib a (bd_network b) now)"
    using st assms(5) by (auto simp: Current_def authority_inv_def split: option.splits)
  have "verifyAccepted lib a (bd_network b) now \<noteq> Inl ErrState" for a
    by (auto simp: verifyAccepted_def Let_def split: option.splits if_splits)
  then have "Current lib b env' now dir \<noteq> Inl ErrState" unfolding cur by (auto split: option.splits)
  moreover have "now < vw_expires v \<and> mf_roots (vw_manifest v) \<noteq> [] \<and> length (mf_roots (vw_manifest v)) \<le> 16 \<and>
      mf_network (vw_manifest v) = bd_network b \<and>
      (\<exists>a. st_accepted st = Some a \<and> same_authority a (st_metadata st) \<and> verifyAccepted lib a (bd_network b) now = Inr v)"
    if view: "Current lib b env' now dir = Inr v" for v
  proof -
    obtain a where a: "st_accepted st = Some a" "verifyAccepted lib a (bd_network b) now = Inr v"
      using view unfolding cur by (auto split: option.splits)
    then show ?thesis
      using verifyAccepted_ok [OF a(2)] ParseManifest_ok [of "lib_json lib" "ac_manifest a" "bd_network b"] st(2)
      by (simp add: authority_inv_def)
  qed
  ultimately show ?thesis using st(1) by blast
qed

section \<open>Manifests\<close>

lemma check_roots_distinct:
  "check_roots ids origins rs = Some rs' \<Longrightarrow>
     distinct (map rt_id rs') \<and> set (map rt_id rs') \<inter> set ids = {} \<and>
     distinct (map rt_origin rs') \<and> set (map rt_origin rs') \<inter> set origins = {} \<and>
     list_all (\<lambda>r. identifier_match (rt_id r)) rs'"
proof (induction rs arbitrary: ids origins rs')
  case (Cons r rs)
  from Cons.prems obtain origin rest where "identifier_match (rt_id r)" "rt_id r \<notin> set ids" "origin \<notin> set origins"
      "check_roots (rt_id r # ids) (origin # origins) rs = Some rest" "rs' = r\<lparr>rt_origin := origin\<rparr> # rest"
    by (auto split: option.splits if_splits)
  with Cons.IH [of "rt_id r # ids" "origin # origins" rest] show ?case by auto
qed simp

lemma manifest_roots_unique:
  assumes "ParseManifest read data network = Some m"
  shows "distinct (map rt_id (mf_roots m))" "distinct (map rt_origin (mf_roots m))"
    "list_all (\<lambda>r. identifier_match (rt_id r)) (mf_roots m)"
proof -
  obtain rs rs' where "check_roots [] [] rs = Some rs'" "mf_roots m = rs'"
    using assms unfolding ParseManifest_def by (auto split: option.splits if_splits)
  then show "distinct (map rt_id (mf_roots m))" "distinct (map rt_origin (mf_roots m))"
      "list_all (\<lambda>r. identifier_match (rt_id r)) (mf_roots m)"
    using check_roots_distinct [of "[]" "[]" rs rs'] by simp_all
qed

text \<open>The duplicate check compares exact names, the decoder folds case: the last spelling of a field wins.\<close>

lemma case_variant_duplicates_accepted:
  "read data = Some (JObj [(''network'', JStr ''a''), (''NETWORK'', JStr ''b'')]) \<Longrightarrow>
     map_option mf_network (strict_manifest read data) = Some ''b''"
proof -
  have "fold_name ''network'' = ''network''" "fold_name ''NETWORK'' = ''network''" by code_simp+
  moreover assume "read data = Some (JObj [(''network'', JStr ''a''), (''NETWORK'', JStr ''b'')])"
  ultimately show ?thesis by (simp add: strict_manifest_def decode_string_def del: fold_name.simps)
qed

section \<open>An example\<close>

text \<open>A library with one root, one manifest and codecs for the three states of a first refresh.\<close>

definition ex_bundle :: Bundle where
  "ex_bundle = \<lparr>bd_schema = 1, bd_network = ''n'', bd_repository = ''https://r'', bd_root = ''R''\<rparr>"

definition ex_files :: meta_files where
  "ex_files = [(''root'', ''R''), (''timestamp'', ''T''), (''snapshot'', ''S''), (''targets'', ''G'')]"

definition ex_state :: "meta_files \<Rightarrow> accepted option \<Rightarrow> state" where
  "ex_state files a =
     \<lparr>st_schema = 1, st_network = ''n'', st_repository = ''https://r'', st_fingerprint = ''f'', st_metadata = files, st_accepted = a\<rparr>"

definition ex_accepted :: accepted where
  "ex_accepted = \<lparr>ac_metadata = ex_files, ac_manifest = ''m''\<rparr>"

definition ex_manifest :: json where
  "ex_manifest = JObj [(''schema'', JNum ''1''), (''network'', JStr ''n''), (''enclave'', JStr ''default''),
     (''roots'', JArr [JObj [(''id'', JStr ''a''), (''origin'', JStr ''https://a'')]])]"

definition ex_tuf_root :: tuf_root where
  "ex_tuf_root = \<lparr>tr_version = 1, tr_expires_set = True, tr_consistent = True,
     tr_roles = map (\<lambda>r. (r, \<lparr>tr_threshold = 1, tr_keyids = [''k'']\<rparr>)) top_level_roles,
     tr_keys = [(''k'', \<lparr>tk_ed25519 = True, tk_parses = True, tk_public = ''p''\<rparr>)]\<rparr>"

definition ex_meta :: signed_meta where
  "ex_meta = \<lparr>sm_version = 1, sm_expires = 1000\<rparr>"

definition ex_seal :: "bytes \<Rightarrow> string \<Rightarrow> bytes" where
  "ex_seal p d = replicate (length p) (CHR ''x'') @ CHR ''y'' # p @ d"

definition ex_unseal :: "bytes \<Rightarrow> (bytes \<times> string) option" where
  "ex_unseal s =
     (let n = length (takeWhile (\<lambda>c. c = CHR ''x'') s); rest = drop (Suc n) s in Some (take n rest, drop n rest))"

definition ex_marshal :: "state \<Rightarrow> bytes option" where
  "ex_marshal st =
     (if st = ex_state [(''root'', ''R'')] None then Some ''0''
      else if st = ex_state ex_files None then Some ''1''
      else if st = ex_state ex_files (Some ex_accepted) then Some ''2'' else None)"

definition ex_unmarshal :: "bytes \<Rightarrow> state option" where
  "ex_unmarshal p =
     (if p = ''0'' then Some (ex_state [(''root'', ''R'')] None)
      else if p = ''1'' then Some (ex_state ex_files None)
      else if p = ''2'' then Some (ex_state ex_files (Some ex_accepted)) else None)"

definition ex_lib :: tuf_lib where
  "ex_lib = \<lparr>lib_root = (\<lambda>_. Some ex_tuf_root), lib_normal = (\<lambda>d. Some d), lib_trusted = (\<lambda>_. True), lib_sha256 = (\<lambda>_. ''f''),
     lib_json = (\<lambda>d. if d = ''m'' then Some ex_manifest else Some JNull), lib_root_meta = (\<lambda>_. ex_meta),
     lib_timestamp = (\<lambda>_ _ _. Some ex_meta), lib_snapshot = (\<lambda>_ _ _ _. Some ex_meta),
     lib_targets = (\<lambda>_ _ _ _ _. Some (ex_meta, Some ''t'')), lib_target_ok = (\<lambda>_ _. True),
     lib_marshal = ex_marshal, lib_unmarshal = ex_unmarshal, lib_seal = ex_seal, lib_unseal = ex_unseal\<rparr>"

lemma ex_codec: "codec_ok ex_lib"
proof -
  have "takeWhile (\<lambda>c. c = CHR ''x'') (ex_seal p d) = replicate (length p) (CHR ''x'')" for p d
    unfolding ex_seal_def by (subst takeWhile_append2) simp_all
  then have "ex_unseal (ex_seal p d) = Some (p, d)" for p d by (simp add: ex_unseal_def) (simp add: ex_seal_def)
  moreover have "ex_unmarshal p = Some st" if "ex_marshal st = Some p" for st p
    using that by (auto simp: ex_marshal_def ex_unmarshal_def split: if_splits)
  ultimately show ?thesis by (simp add: codec_ok_def ex_lib_def)
qed

definition ex_env :: store_env where
  "ex_env = \<lparr>se_ancestors = [(True, True)], se_mkdir = MkdirCreated, se_exists = True, se_private_dir = True, se_owned = True,
     se_opens = True, se_lock_ok = True, se_locked = True, se_parent_synced = True\<rparr>"

definition ex_update :: updater_run where
  "ex_update = \<lparr>ur_downloads = [], ur_ok = True, ur_after = (ex_files, None), ur_top_level = True, ur_length = Some 1,
     ur_target_step = (ex_files, None), ur_data = Some ''m'', ur_save = None, ur_final = (ex_files, None)\<rparr>"

definition ex_dir :: "bytes \<Rightarrow> state_dir" where
  "ex_dir p = \<lparr>sd_state = Some (ex_seal p ''f''), sd_private = True, sd_pending = None\<rparr>"

definition ex_empty_dir :: state_dir where
  "ex_empty_dir = \<lparr>sd_state = None, sd_private = True, sd_pending = None\<rparr>"

definition ex_view :: View where
  "ex_view = \<lparr>vw_manifest = \<lparr>mf_schema = 1, mf_network = ''n'', mf_enclave = ''default'',
       mf_roots = [\<lparr>rt_id = ''a'', rt_origin = ''https://a''\<rparr>]\<rparr>,
     vw_expires = 1000, vw_versions = \<lparr>v_root = 1, v_timestamp = 1, v_snapshot = 1, v_targets = 1\<rparr>,
     vw_digests = map (\<lambda>(r, d). (r, ''f'')) ex_files\<rparr>"

lemma ex_origins: "httpsOrigin ''https://a'' = Some ''https://a''" "httpsRepository ''https://r'' = Some ''https://r''"
  by code_simp+

lemma ex_parse: "strict_manifest (lib_json ex_lib) ''m'' = Some (vw_manifest ex_view)"
  by (simp add: strict_manifest_def ex_lib_def ex_manifest_def) code_simp

lemma ex_ParseManifest: "ParseManifest (lib_json ex_lib) ''m'' ''n'' = Some (vw_manifest ex_view)"
  unfolding ParseManifest_def ex_parse
  by (simp add: ex_view_def manifestLimit_def identifier_match_def is_alpha_def ex_origins)

lemma ex_verify: "now < 1000 \<Longrightarrow> verifyAccepted ex_lib ex_accepted ''n'' now = Inr ex_view"
  using ex_ParseManifest
  by (simp add: verifyAccepted_def ex_accepted_def) (simp add: ex_lib_def Let_def ex_meta_def earliest_def ex_view_def)

lemma ex_key_text: "''p'' \<noteq> replicate 64 (CHR ''0'')"
proof
  assume "''p'' = replicate 64 (CHR ''0'')"
  then have "length ''p'' = length (replicate 64 (CHR ''0''))" by (rule arg_cong)
  then show False by simp
qed

lemma ex_root_ok: "validateRoot (tuf_root_lib.truncate ex_lib) ''R''"
  by (simp add: validateRoot_def ex_lib_def tuf_root_lib.defs ex_tuf_root_def metadataLimit_def top_level_roles_def role_ok_def key_ok_def ex_key_text)

lemma ex_files_ok: "checkMetadata ex_lib ex_files" "checkMetadata ex_lib [(''root'', ''R'')]"
  using ex_root_ok by (simp_all add: checkMetadata_def ex_files_def top_level_roles_def metadataLimit_def metadata_of_def)
    (simp_all add: ex_lib_def)

lemma ex_state_ok: "state_ok ex_lib ex_bundle (ex_state [(''root'', ''R'')] None)" "state_ok ex_lib ex_bundle (ex_state ex_files None)"
  "state_ok ex_lib ex_bundle (ex_state ex_files (Some ex_accepted))"
  using ex_files_ok
  by (simp_all add: state_ok_def ex_state_def ex_bundle_def ex_accepted_def manifestLimit_def bundle_fingerprint_def Fingerprint_def)
    (simp_all add: ex_lib_def tuf_root_lib.defs)

lemma ex_marshals: "ex_marshal (ex_state [(''root'', ''R'')] None) = Some ''0''" "ex_marshal (ex_state ex_files None) = Some ''1''"
  "ex_marshal (ex_state ex_files (Some ex_accepted)) = Some ''2''"
  by (simp_all add: ex_marshal_def ex_state_def ex_files_def)

lemma ex_save:
  "ex_marshal st = Some p \<Longrightarrow> length p = 1 \<Longrightarrow> sd_private dir \<Longrightarrow> save ex_lib None st dir = (ex_dir p, None)"
  by (simp add: save_def ex_lib_def ex_dir_def ex_seal_def stateLimit_def)

lemma ex_load:
  assumes "state_ok ex_lib ex_bundle st" "ex_marshal st = Some p" "length p = 1"
  shows "load ex_lib ex_bundle (ex_dir p) = Inr st"
  using save_ok_load [OF ex_codec assms(1) ex_save [OF assms(2,3), of "ex_dir p"]] by (simp add: ex_dir_def)

lemma ex_open: "openStore ex_env False = Inr False" "openStore ex_env True = Inr True"
  by (simp_all add: openStore_def ex_env_def)

lemma ex_New: "New ex_lib ex_bundle ex_env None None ex_empty_dir = (ex_dir ''0'', Inr ex_bundle)"
proof -
  have v: "Validate (tuf_root_lib.truncate ex_lib) ex_bundle"
    using ex_root_ok by (simp add: Validate_def ex_bundle_def ValidateLocation_def identifier_match_def is_alpha_def ex_origins)
  have st: "initial_state ex_lib ex_bundle = ex_state [(''root'', ''R'')] None"
    by (simp add: initial_state_def ex_state_def ex_bundle_def bundle_fingerprint_def Fingerprint_def ex_lib_def tuf_root_lib.defs)
  have b: "ex_bundle\<lparr>bd_repository := ''https://r''\<rparr> = ex_bundle" "bd_repository ex_bundle = ''https://r''" by (simp_all add: ex_bundle_def)
  show ?thesis
    using v st ex_open(2) ex_load [OF ex_state_ok(1) ex_marshals(1)] ex_save [OF ex_marshals(1), of ex_empty_dir]
    by (simp add: New_def ex_origins Client_def default_transport_def Let_def b) (simp add: ex_empty_dir_def)
qed

lemma ex_scratch: "read_scratch ex_files = Some ex_files" "gm_ok ex_files" "\<not> same_files ex_files [(''root'', ''R'')]"
  "same_files ex_files ex_files" "metadata_of ex_files ''root'' = ''R''" "metadata_of [(''root'', ''R'')] ''targets'' = []"
  "metadata_of ex_files ''targets'' = ''G''" "metadata_of [(''root'', ''R'')] ''root'' = ''R''"
  by (simp_all add: read_scratch_def ex_files_def Let_def top_level_roles_def readLimited_def metadataLimit_def gm_ok_def
      same_files_def metadata_of_def)

lemma ex_Refresh: "Refresh ex_lib ex_bundle ex_env True 500 ex_update (ex_dir ''0'') = (ex_dir ''2'', 0, Inr ex_view)"
proof -
  let ?s = "\<lambda>st d. \<lparr>ss_state = st, ss_dir = d, ss_failed = False, ss_invalidated = 0\<rparr>"
  let ?st0 = "ex_state [(''root'', ''R'')] None"
  let ?st1 = "ex_state ex_files None"
  let ?st2 = "ex_state ex_files (Some ex_accepted)"
  have fields: "st_metadata (ex_state f a) = f" "st_accepted (ex_state f a) = a"
    "(ex_state f a)\<lparr>st_metadata := g\<rparr> = ex_state g a" "(ex_state f a)\<lparr>st_accepted := c\<rparr> = ex_state f c" for f a g c
    by (simp_all add: ex_state_def)
  have next_st: "checkpoint_next ex_files ?st0 = ?st1" by (simp add: checkpoint_next_def fields ex_scratch)
  have c1: "checkpoint ex_lib None ex_files (?s ?st0 (ex_dir ''0'')) = (?s ?st1 (ex_dir ''1''), None)"
    using ex_save [OF ex_marshals(2), of "ex_dir ''0''"]
    by (simp add: checkpoint_def checkpointMetadata_def ex_scratch ex_files_ok fields next_st) (simp add: ex_dir_def fields)
  have c2: "checkpoint ex_lib None ex_files (?s ?st1 (ex_dir ''1'')) = (?s ?st1 (ex_dir ''1''), None)"
    by (rule checkpoint_again [OF ex_scratch(1)]) (simp_all add: fields ex_scratch)
  have c3: "checkpoint ex_lib None ex_files (?s ?st2 (ex_dir ''2'')) = (?s ?st2 (ex_dir ''2''), None)"
    by (rule checkpoint_again [OF ex_scratch(1)]) (simp_all add: fields ex_scratch)
  have f: "refresh_fetch ex_lib ex_update (?s ?st0 (ex_dir ''0'')) = (?s ?st1 (ex_dir ''1''), Inr ''m'')"
    by (simp add: refresh_fetch_def ex_update_def c1 c2 manifestLimit_def)
  have acc: "\<lparr>ac_metadata = ex_files, ac_manifest = ''m''\<rparr> = ex_accepted" by (simp add: ex_accepted_def)
  have "accept_manifest ex_lib ''n'' 500 None ''m'' (?s ?st1 (ex_dir ''1'')) = (?s ?st2 (ex_dir ''2''), Inr ex_view)"
    using ex_verify [of 500] ex_save [OF ex_marshals(3), of "ex_dir ''1''"]
    by (simp add: accept_manifest_def fields acc Let_def) (simp add: ex_dir_def)
  then have "refresh_body ex_lib ''n'' 500 ex_update (?s ?st0 (ex_dir ''0'')) = (?s ?st2 (ex_dir ''2''), Inr ex_view)"
    using f by (simp add: refresh_body_def) (simp add: ex_update_def)
  moreover have "bd_network ex_bundle = ''n''" by (simp add: ex_bundle_def)
  ultimately show ?thesis
    using ex_load [OF ex_state_ok(1) ex_marshals(1)] ex_open(1) c3 by (simp add: Refresh_def) (simp add: ex_update_def)
qed

theorem refreshed_view_is_current_witness:
  "Refresh ex_lib ex_bundle ex_env True 500 ex_update (ex_dir ''0'') = (ex_dir ''2'', 0, Inr ex_view) \<and>
   Current ex_lib ex_bundle ex_env 500 (ex_dir ''2'') = Inr ex_view"
proof -
  have "dir_inv ex_lib ex_bundle (ex_dir ''0'')"
    using ex_load [OF ex_state_ok(1) ex_marshals(1)] by (simp add: dir_inv_def authority_inv_def ex_state_def)
  then have "Current ex_lib ex_bundle ex_env 500 (ex_dir ''2'') = Inr ex_view"
    using ex_Refresh by (intro refreshed_view_is_current [OF ex_codec, where u = ex_update]) (simp_all add: ex_update_def ex_scratch)
  then show ?thesis using ex_Refresh by blast
qed

theorem trust_state_survives_witness:
  "\<exists>st v. load ex_lib ex_bundle (ex_dir ''2'') = Inr st \<and> Current ex_lib ex_bundle ex_env 500 (ex_dir ''2'') = Inr v \<and> 500 < vw_expires v"
proof -
  have run: "ex_dir ''2'' = refreshes ex_lib ex_bundle [(ex_env, True, 500, ex_update)] (ex_dir ''0'')"
    using ex_Refresh by simp
  have ld: "load ex_lib ex_bundle (ex_dir ''2'') = Inr (ex_state ex_files (Some ex_accepted))"
    using ex_load [OF ex_state_ok(3) ex_marshals(3)] by simp
  have v: "Current ex_lib ex_bundle ex_env 500 (ex_dir ''2'') = Inr ex_view"
    using ld ex_open(1) ex_verify [of 500] by (simp add: Current_def ex_state_def same_authority_def ex_accepted_def ex_bundle_def)
  then show ?thesis
    using trust_state_survives [OF ex_codec ex_New _ run ex_open(1), of 500] ld by (simp add: ex_env_def)
qed

end
