(* ===== verification/Discovery.thy ===== *)
theory Discovery
  imports Bootstrap_Facts Gossip
begin

text \<open>
  The runtime view of an application, \<open>src/internal/discovery\<close>: a \<open>Session\<close> keeps the last verified view, checks
  its expiry on every read, and refreshes it from a trust source. The source is an interface: the locale
  \<open>trust_source\<close> states what its two operations promise, and is interpreted on \<open>Current\<close> and \<open>Refresh\<close> of
  theory \<open>Bootstrap_Client\<close>.
\<close>

section \<open>Public bundle\<close>

datatype bundle_result = Unconfigured | BadBundle | GoodBundle Bundle

definition PublicBundle :: "tuf_root_lib \<Rightarrow> (bytes \<Rightarrow> Bundle option) \<Rightarrow> bytes \<Rightarrow> bundle_result" where
  "PublicBundle lib decode bundled =
     (if TrimSpace bundled = [CHR 0x7B, CHR 0x7D] then Unconfigured
      else case ParseBundle lib decode bundled of None \<Rightarrow> BadBundle | Some b \<Rightarrow> GoodBundle b)"

record Identity =
  id_network :: string
  id_repository :: string
  id_fingerprint :: string

definition BundleIdentity :: "tuf_root_lib \<Rightarrow> Bundle \<Rightarrow> Identity" where
  "BundleIdentity lib b =
     \<lparr>id_network = bd_network b,
      id_repository = (case ValidateLocation (bd_network b) (bd_repository b) of None \<Rightarrow> [] | Some l \<Rightarrow> l),
      id_fingerprint = Fingerprint lib b\<rparr>"

section \<open>Session\<close>

definition RefreshInterval :: duration where "RefreshInterval = 3600 * nsec"
definition RetryMin :: duration where "RetryMin = 30 * nsec"
definition RetryMax :: duration where "RetryMax = 600 * nsec"

text \<open>
  \<open>sn_view\<close> is \<open>None\<close> for the zero view, which has no roots. \<open>sn_notified\<close> records the calls of the view
  handler, latest first; \<open>sn_handler\<close> says whether one is installed.
\<close>

record Session =
  sn_view :: "View option"
  sn_failed :: bool
  sn_handler :: bool
  sn_notified :: "View list"

definition usable :: "gotime \<Rightarrow> View option \<Rightarrow> bool" where
  "usable now v = (case v of None \<Rightarrow> False | Some w \<Rightarrow> mf_roots (vw_manifest w) \<noteq> [] \<and> now < vw_expires w)"

definition notifyView :: "gotime \<Rightarrow> View option \<Rightarrow> Session \<Rightarrow> Session" where
  "notifyView now v s = (if sn_handler s \<and> usable now v then s\<lparr>sn_notified := the v # sn_notified s\<rparr> else s)"

definition set_view :: "gotime \<Rightarrow> View option \<Rightarrow> Session \<Rightarrow> Session" where
  "set_view now v s = (notifyView now v s)\<lparr>sn_view := v\<rparr>"

definition view_of :: "'e + View \<Rightarrow> View option" where
  "view_of r = (case r of Inl _ \<Rightarrow> None | Inr v \<Rightarrow> Some v)"

text \<open>\<open>Open\<close>, once the client exists: \<open>cur\<close> is the result of its \<open>Current\<close>.\<close>

definition session_open :: "gotime \<Rightarrow> 'e + View \<Rightarrow> Session" where
  "session_open now cur = set_view now (view_of cur) \<lparr>sn_view = None, sn_failed = False, sn_handler = False, sn_notified = []\<rparr>"

text \<open>The \<open>OnInvalidate\<close> callback.\<close>

definition session_invalidate :: "gotime \<Rightarrow> Session \<Rightarrow> Session" where
  "session_invalidate now s = set_view now None s"

definition SetViewHandler :: "gotime \<Rightarrow> Session \<Rightarrow> Session" where
  "SetViewHandler now s = notifyView now (sn_view s) (s\<lparr>sn_handler := True\<rparr>)"

definition session_Current :: "gotime \<Rightarrow> Session \<Rightarrow> View option" where
  "session_Current now s = (if usable now (sn_view s) then sn_view s else None)"

text \<open>\<open>Refresh\<close>: \<open>fetched\<close> is the result of the source's \<open>Refresh\<close>, \<open>cur\<close> that of the \<open>Current\<close> which is only asked
  after a failure; the flag is whether an error is reported.\<close>

definition session_Refresh :: "gotime \<Rightarrow> 'e + View \<Rightarrow> 'e + View \<Rightarrow> Session \<Rightarrow> Session" where
  "session_Refresh now fetched cur s =
     (let v = (case fetched of Inr w \<Rightarrow> Some w | Inl _ \<Rightarrow> view_of cur)
      in (notifyView now v s)\<lparr>sn_view := v, sn_failed := (view_of fetched = None)\<rparr>)"

text \<open>The delay before the next refresh in \<open>Run\<close>, and the next backoff.\<close>

definition run_delay :: "gotime \<Rightarrow> gotime \<Rightarrow> duration \<Rightarrow> Session \<Rightarrow> duration \<times> duration" where
  "run_delay now1 now2 backoff s =
     (if sn_failed s then (backoff, min (backoff * 2) RetryMax)
      else (case session_Current now1 s of
              None \<Rightarrow> RefreshInterval
            | Some v \<Rightarrow> min RefreshInterval (max RetryMin (go_quot (vw_expires v - now2) 2)), RetryMin))"

definition Seeds :: "gotime \<Rightarrow> Session \<Rightarrow> string list" where
  "Seeds now s = (case session_Current now s of None \<Rightarrow> [] | Some v \<Rightarrow> map rt_origin (mf_roots (vw_manifest v)))"

definition session_IsRoot :: "gotime \<Rightarrow> string \<Rightarrow> string \<Rightarrow> string \<Rightarrow> Session \<Rightarrow> bool" where
  "session_IsRoot now i origin enclave s =
     (case session_Current now s of
        None \<Rightarrow> False
      | Some v \<Rightarrow> mf_enclave (vw_manifest v) = enclave \<and>
          list_ex (\<lambda>r. rt_id r = i \<and> rt_origin r = origin) (mf_roots (vw_manifest v)))"

section \<open>The source\<close>

text \<open>
  One refresh over a source with the given operations: its callback runs for an invalidation, then the result
  is taken over.
\<close>

definition session_step ::
    "('d \<Rightarrow> 'd \<times> nat \<times> ('e + View)) \<Rightarrow> ('d \<Rightarrow> 'e + View) \<Rightarrow> gotime \<Rightarrow> gotime \<Rightarrow> 'd \<times> Session \<Rightarrow> 'd \<times> Session" where
  "session_step refresh read now now' ds =
     (let (d', n, r) = refresh (fst ds);
          s = (if n > 0 then session_invalidate now (snd ds) else snd ds)
      in (d', session_Refresh now' r (read d') s))"

text \<open>
  What a session relies on: \<open>good d v\<close> says that the durable state \<open>d\<close> authorises the view \<open>v\<close>. Reading a sound
  state gives such a view, a refresh keeps the state sound, and a refresh that succeeds leaves a state that
  authorises its view, for updaters that behave (\<open>fine\<close>).
\<close>

locale trust_source =
  fixes read :: "'c \<Rightarrow> gotime \<Rightarrow> 'd \<Rightarrow> 'e + View"
    and refresh :: "'u \<Rightarrow> gotime \<Rightarrow> 'd \<Rightarrow> 'd \<times> nat \<times> ('e + View)"
    and fine :: "'u \<Rightarrow> bool"
    and ok :: "'d \<Rightarrow> bool"
    and good :: "'d \<Rightarrow> View \<Rightarrow> bool"
  assumes read_good: "ok d \<Longrightarrow> read c now d = Inr v \<Longrightarrow> good d v"
    and refresh_ok: "ok d \<Longrightarrow> refresh u now d = (d', n, r) \<Longrightarrow> ok d'"
    and refresh_good: "ok d \<Longrightarrow> fine u \<Longrightarrow> refresh u now d = (d', n, Inr v) \<Longrightarrow> good d' v"
begin

definition backed :: "'d \<times> Session \<Rightarrow> bool" where
  "backed ds \<longleftrightarrow> ok (fst ds) \<and> (\<forall>v. sn_view (snd ds) = Some v \<longrightarrow> good (fst ds) v)"

lemma backed_open: "ok d \<Longrightarrow> backed (d, session_open now (read c now' d))"
  using read_good by (auto simp: backed_def session_open_def set_view_def view_of_def split: sum.splits)

lemma backed_handler: "backed (d, s) \<Longrightarrow> backed (d, SetViewHandler now s)"
  by (simp add: backed_def SetViewHandler_def notifyView_def)

lemma backed_step:
  assumes "backed (d, s)" "fine u"
  shows "backed (session_step (refresh u now) (read c now') t t' (d, s))"
proof -
  obtain d' n r where r: "refresh u now d = (d', n, r)" by (cases "refresh u now d")
  have "ok d'" using refresh_ok [OF _ r] assms(1) by (simp add: backed_def)
  moreover have "good d' v" if "(case r of Inr w \<Rightarrow> Some w | Inl _ \<Rightarrow> view_of (read c now' d')) = Some v" for v
    using that refresh_good [of d u now d' n v] read_good [OF \<open>ok d'\<close>] assms r
    by (auto simp: backed_def view_of_def split: sum.splits)
  ultimately show ?thesis using r by (simp add: backed_def session_step_def session_Refresh_def Let_def)
qed

lemma backed_current: "backed (d, s) \<Longrightarrow> session_Current now s = Some v \<Longrightarrow> good d v \<and> now < vw_expires v"
  by (auto simp: backed_def session_Current_def usable_def split: if_splits)

end

section \<open>The durable client is such a source\<close>

definition tame :: "store_env \<times> bool \<times> updater_run \<Rightarrow> bool" where
  "tame u \<longleftrightarrow> gm_ok (fst (ur_target_step (snd (snd u)))) \<and> fst (ur_final (snd (snd u))) = fst (ur_target_step (snd (snd u)))"

definition client_refresh ::
    "tuf_lib \<Rightarrow> Bundle \<Rightarrow> store_env \<times> bool \<times> updater_run \<Rightarrow> gotime \<Rightarrow> state_dir \<Rightarrow> state_dir \<times> nat \<times> (boot_error + View)" where
  "client_refresh lib b u now dir = Refresh lib b (fst u) (fst (snd u)) now (snd (snd u)) dir"

definition authorised :: "tuf_lib \<Rightarrow> Bundle \<Rightarrow> state_dir \<Rightarrow> View \<Rightarrow> bool" where
  "authorised lib b dir v \<longleftrightarrow>
     (\<exists>st a now. load lib b dir = Inr st \<and> st_accepted st = Some a \<and> same_authority a (st_metadata st) \<and>
        verifyAccepted lib a (bd_network b) now = Inr v)"

lemma Current_authorised: "Current lib b env now dir = Inr v \<Longrightarrow> authorised lib b dir v"
  unfolding Current_def authorised_def by (auto split: sum.splits option.splits if_splits)

interpretation client: trust_source "Current lib b" "client_refresh lib b" tame "\<lambda>d. codec_ok lib \<and> dir_inv lib b d" "authorised lib b"
  for lib b
proof unfold_locales
  fix d c now v
  show "Current lib b c now d = Inr v \<Longrightarrow> authorised lib b d v" by (rule Current_authorised)
next
  fix d u now d' n r
  assume "codec_ok lib \<and> dir_inv lib b d" "client_refresh lib b u now d = (d', n, r)"
  then show "codec_ok lib \<and> dir_inv lib b d'" by (auto simp: client_refresh_def intro: Refresh_inv)
next
  fix d u now d' n v
  assume "codec_ok lib \<and> dir_inv lib b d" "tame u" "client_refresh lib b u now d = (d', n, Inr v)"
  then show "authorised lib b d' v"
    using Refresh_success [of lib b d "snd (snd u)" "fst u" "fst (snd u)" now d' n v]
    by (auto simp: client_refresh_def tame_def authorised_def)
qed

section \<open>Sessions over the client\<close>

datatype session_event =
    SRefresh "store_env \<times> bool \<times> updater_run" gotime store_env gotime
  | SHandler gotime

fun session_exec :: "tuf_lib \<Rightarrow> Bundle \<Rightarrow> session_event \<Rightarrow> state_dir \<times> Session \<Rightarrow> state_dir \<times> Session" where
  "session_exec lib b (SRefresh u now env now') ds =
     session_step (client_refresh lib b u now) (Current lib b env now') now now' ds"
| "session_exec lib b (SHandler now) (d, s) = (d, SetViewHandler now s)"

definition session_run :: "tuf_lib \<Rightarrow> Bundle \<Rightarrow> session_event list \<Rightarrow> state_dir \<times> Session \<Rightarrow> state_dir \<times> Session" where
  "session_run lib b es ds = foldl (\<lambda>ds e. session_exec lib b e ds) ds es"

definition event_tame :: "session_event \<Rightarrow> bool" where
  "event_tame e = (case e of SRefresh u _ _ _ \<Rightarrow> tame u | SHandler _ \<Rightarrow> True)"

lemma session_run_backed:
  "client.backed lib b ds \<Longrightarrow> list_all event_tame es \<Longrightarrow> client.backed lib b (session_run lib b es ds)"
proof (induction es arbitrary: ds)
  case (Cons e es)
  obtain d s where ds: "ds = (d, s)" by (cases ds)
  have "client.backed lib b (session_exec lib b e ds)"
    using Cons.prems client.backed_step client.backed_handler ds by (cases e) (simp_all add: event_tame_def)
  with Cons show ?case by (simp add: session_run_def)
qed (simp add: session_run_def)

lemma filter_unique_key: "distinct (map f xs) \<Longrightarrow> x \<in> set xs \<Longrightarrow> filter (\<lambda>y. f y = f x) xs = [x]"
  by (induction xs) (auto simp: filter_empty_conv image_iff)

lemma authorised_manifest:
  assumes "authorised lib b dir v"
  shows "mf_network (vw_manifest v) = bd_network b" "distinct (map rt_id (mf_roots (vw_manifest v)))"
    "distinct (map rt_origin (mf_roots (vw_manifest v)))"
proof -
  obtain a now where "verifyAccepted lib a (bd_network b) now = Inr v" using assms by (auto simp: authorised_def)
  then have p: "ParseManifest (lib_json lib) (ac_manifest a) (bd_network b) = Some (vw_manifest v)"
    using verifyAccepted_ok by blast
  show "mf_network (vw_manifest v) = bd_network b" "distinct (map rt_id (mf_roots (vw_manifest v)))"
    "distinct (map rt_origin (mf_roots (vw_manifest v)))"
    using ParseManifest_ok [OF p] manifest_roots_unique [OF p] by simp_all
qed

text \<open>
  C32. Root status is always authorised: whatever refreshes, failures and stopped writes a session goes through,
  when \<open>IsRoot\<close> says that a node is a root, then a manifest of the bundle's network lists exactly this
  identifier with this origin and no other, the manifest is accepted in the durable state under the root and
  membership metadata in force, and its lease has not run out at the time of the call.
\<close>

theorem root_status_authorised:
  assumes "codec_ok lib" "dir_inv lib b dir" "list_all event_tame es"
    and "session_run lib b es (dir, session_open now0 (Current lib b env now0 dir)) = (dir', s)"
    and "session_IsRoot now i origin enclave s"
  shows "\<exists>v. authorised lib b dir' v \<and> now < vw_expires v \<and> mf_network (vw_manifest v) = bd_network b \<and>
    mf_enclave (vw_manifest v) = enclave \<and>
    filter (\<lambda>r. rt_id r = i) (mf_roots (vw_manifest v)) = [\<lparr>rt_id = i, rt_origin = origin\<rparr>]"
proof -
  have "client.backed lib b (dir', s)"
    using session_run_backed [OF client.backed_open assms(3)] assms(1,2,4) by metis
  moreover obtain v x where v: "session_Current now s = Some v" "mf_enclave (vw_manifest v) = enclave"
      "x \<in> set (mf_roots (vw_manifest v))" and x: "rt_id x = i" "rt_origin x = origin"
    using assms(5) by (auto simp: session_IsRoot_def list_ex_iff split: option.splits)
  ultimately have a: "authorised lib b dir' v" "now < vw_expires v" using client.backed_current by blast+
  have "filter (\<lambda>r. rt_id r = rt_id x) (mf_roots (vw_manifest v)) = [x]"
    using filter_unique_key [OF authorised_manifest(2) [OF a(1)] v(3)] .
  moreover have "x = \<lparr>rt_id = i, rt_origin = origin\<rparr>" using x by (cases x) simp
  ultimately have "filter (\<lambda>r. rt_id r = i) (mf_roots (vw_manifest v)) = [\<lparr>rt_id = i, rt_origin = origin\<rparr>]"
    by simp
  then show ?thesis using a v(2) authorised_manifest(1) [OF a(1)] by blast
qed

theorem root_status_authorised_witness:
  "\<exists>v s. session_run ex_lib ex_bundle [SRefresh (ex_env, True, ex_update) 500 ex_env 501]
       (ex_dir ''0'', session_open 400 (Current ex_lib ex_bundle ex_env 400 (ex_dir ''0''))) = (ex_dir ''2'', s)
     \<and> authorised ex_lib ex_bundle (ex_dir ''2'') v \<and> 600 < vw_expires v"
proof -
  let ?es = "[SRefresh (ex_env, True, ex_update) 500 ex_env 501]"
  let ?s0 = "session_open 400 (Current ex_lib ex_bundle ex_env 400 (ex_dir ''0''))"
  obtain s where s: "session_run ex_lib ex_bundle ?es (ex_dir ''0'', ?s0) = (ex_dir ''2'', s)" "sn_view s = Some ex_view"
    using ex_Refresh by (simp add: session_run_def session_step_def client_refresh_def session_Refresh_def Let_def)
  have inv: "dir_inv ex_lib ex_bundle (ex_dir ''0'')"
    using ex_load [OF ex_state_ok(1) ex_marshals(1)] by (simp add: dir_inv_def authority_inv_def ex_state_def)
  have "session_IsRoot 600 ''a'' ''https://a'' ''default'' s"
    using s(2) by (simp add: session_IsRoot_def session_Current_def usable_def ex_view_def)
  moreover have "list_all event_tame ?es" by (simp add: event_tame_def tame_def ex_update_def ex_scratch)
  ultimately show ?thesis using root_status_authorised [OF ex_codec inv _ s(1)] s(1) by blast
qed

end
