(* ===== verification/Server.thy ===== *)
theory Server
  imports Cluster Tree Middleware Discovery
begin

text \<open>
  The node process, \<open>src/cmd/server\<close>: configuration from the environment, the HTTP handlers of the data plane
  and of the gossip plane, the dispatch of an attached WebSocket, and the wiring of public discovery into the
  cluster node. A handler is a function of the request, as \<open>net/http\<close> and the router present it (the decoded
  key, query values, headers, the body that could be read), and of the node. JSON codecs, HMAC, clocks and the
  network are arguments. The router, CORS headers, profiling and process signals are not modelled.
\<close>

section \<open>Configuration\<close>

type_synonym env = "string \<Rightarrow> string"

definition envInt :: "env \<Rightarrow> string \<Rightarrow> int \<Rightarrow> int" where
  "envInt env key defaultVal =
     (if env key \<noteq> [] then (case Atoi (env key) of Some n \<Rightarrow> n | None \<Rightarrow> defaultVal) else defaultVal)"

definition env_true :: "env \<Rightarrow> string \<Rightarrow> bool" where
  "env_true env key = (ToLower (env key) = ''true'')"

record node_config =
  nc_id :: string
  nc_address :: string
  nc_http_port :: int
  nc_gossip_port :: int
  nc_replication :: int
  nc_min_ttl :: int
  nc_max_ttl :: int
  nc_rate_limit :: int
  nc_storage_mb :: int
  nc_write_timeout :: int
  nc_secret :: string
  nc_enclave :: string
  nc_network :: string
  nc_peers :: "string list"
  nc_origin :: string

text \<open>\<open>generated\<close> is the identifier made from the clock; \<open>None\<close> when the process exits for a bad origin.\<close>

definition read_config :: "env \<Rightarrow> bool \<Rightarrow> string \<Rightarrow> node_config option" where
  "read_config env mcp generated =
     (let origin = env ''NODE_HTTP_ORIGIN'';
          norm = (if origin = [] then Some [] else Normalize origin);
          minTTL = envInt env ''NODE_MIN_TTL'' 300
      in case norm of
           None \<Rightarrow> None
         | Some o1 \<Rightarrow> Some
             \<lparr>nc_id = (if env ''NODE_ID'' = [] then generated else env ''NODE_ID''),
              nc_address = (if env ''NODE_ADDRESS'' = [] then ''localhost'' else env ''NODE_ADDRESS''),
              nc_http_port = envInt env ''NODE_HTTP_PORT'' (if mcp then 0 else 8080),
              nc_gossip_port = envInt env ''NODE_GOSSIP_PORT'' (if mcp then 0 else 9090),
              nc_replication = envInt env ''NODE_REPLICATION'' 3,
              nc_min_ttl = (if minTTL < MinTTLSeconds then MinTTLSeconds else minTTL),
              nc_max_ttl = envInt env ''NODE_MAX_TTL'' DefaultMaxTTLSeconds,
              nc_rate_limit = envInt env ''NODE_RATE_LIMIT'' 100,
              nc_storage_mb = envInt env ''NODE_MAX_STORAGE_MB'' (if mcp then 50 else 0),
              nc_write_timeout = envInt env ''NODE_WRITE_TIMEOUT'' 5,
              nc_secret = env ''NODE_CLUSTER_SECRET'',
              nc_enclave = env ''NODE_ENCLAVE'',
              nc_network = (if env ''NODE_NETWORK'' = [] then (if mcp then ''private'' else ''public'') else env ''NODE_NETWORK''),
              nc_peers = (if env ''NODE_PEERS'' = [] then [] else map TrimSpace (Split (CHR '','') (env ''NODE_PEERS''))),
              nc_origin = o1\<rparr>)"

definition node_limits :: "env \<Rightarrow> node_config \<Rightarrow> WriteLimits" where
  "node_limits env c =
     DefaultWriteLimits
       \<lparr>wl_max_value := envInt env ''NODE_MAX_VALUE_BYTES'' (wl_max_value DefaultWriteLimits),
        wl_max_key := envInt env ''NODE_MAX_KEY_BYTES'' (wl_max_key DefaultWriteLimits),
        wl_min_ttl := nc_min_ttl c, wl_max_ttl := nc_max_ttl c\<rparr>"

text \<open>The cluster node with its write limits; \<open>None\<close> when the process exits because the limits are invalid.\<close>

definition make_node :: "env \<Rightarrow> node_config \<Rightarrow> ClusterNode option" where
  "make_node env c =
     (let cn = NewClusterNode (nc_id c) (nc_address c) (nc_gossip_port c) (nc_http_port c) (nc_replication c)
                 (to_int64 (nc_storage_mb c * 1024 * 1024)) (to_int64 (nc_write_timeout c * nsec)) (nc_secret c) (nc_enclave c)
      in case SetWriteLimits (node_limits env c) cn of
           (cn1, Some e) \<Rightarrow> None
         | (cn1, None) \<Rightarrow> Some (SetHTTPOrigin (nc_origin c) cn1))"

record HTTPServer =
  hs_node_id :: string
  hs_network :: string
  hs_min_ttl :: int
  hs_max_ttl :: int
  hs_stream_disabled :: bool
  hs_stream_active :: int

definition make_server :: "env \<Rightarrow> node_config \<Rightarrow> HTTPServer" where
  "make_server env c =
     \<lparr>hs_node_id = nc_id c, hs_network = nc_network c, hs_min_ttl = nc_min_ttl c, hs_max_ttl = nc_max_ttl c,
      hs_stream_disabled = (ToLower (env ''NODE_STREAM'') = ''off''), hs_stream_active = 0\<rparr>"

definition make_middleware :: "env \<Rightarrow> node_config \<Rightarrow> SecurityMiddleware" where
  "make_middleware env c =
     \<lparr>sm_limiter = NewRateLimiter (nc_rate_limit c) (to_int64 (nc_rate_limit c * 2)), sm_max_request_size = 10 * 1024 * 1024,
      sm_trust_proxy = env_true env ''NODE_TRUST_PROXY''\<rparr>"

section \<open>Data handlers\<close>

definition defaultTTLSeconds :: int where "defaultTTLSeconds = 1800"

text \<open>The TTL of a write: the query parameter decides when present, then the header, then the default.\<close>

definition requested_ttl :: "string \<Rightarrow> string \<Rightarrow> int" where
  "requested_ttl query header =
     (let pick = (\<lambda>s. case Atoi s of Some n \<Rightarrow> if n > 0 then n else defaultTTLSeconds | None \<Rightarrow> defaultTTLSeconds)
      in if query \<noteq> [] then pick query else if header \<noteq> [] then pick header else defaultTTLSeconds)"

definition bounded_ttl :: "HTTPServer \<Rightarrow> int \<Rightarrow> int" where
  "bounded_ttl s ttl0 =
     (let ttl = (if ttl0 < hs_min_ttl s then hs_min_ttl s else ttl0)
      in if ttl > hs_max_ttl s then hs_max_ttl s else ttl)"

definition put_status :: "cluster_error option \<Rightarrow> int" where
  "put_status err =
     (case err of
        None \<Rightarrow> 201
      | Some ErrKeyTooLong \<Rightarrow> 413
      | Some ErrValueTooLarge \<Rightarrow> 413
      | Some (LocalWriteFailed ErrStoreFull) \<Rightarrow> 507
      | Some ErrQuorumTimeout \<Rightarrow> 202
      | Some _ \<Rightarrow> 500)"

text \<open>\<open>body\<close> is what arrives, \<open>None\<close> when reading fails. The handler answers, or waits in \<open>Put\<close>.\<close>

datatype put_reply = PutReply int | PutPending op_id string

definition putHandler ::
    "(nat \<Rightarrow> gotime) \<Rightarrow> (Node list \<Rightarrow> Node list) \<Rightarrow> HTTPServer \<Rightarrow> string \<Rightarrow> string \<Rightarrow> string \<Rightarrow> bytes option \<Rightarrow> ClusterNode
       \<Rightarrow> ClusterNode \<times> sends \<times> put_reply" where
  "putHandler clock shuffle s key query_ttl header_ttl body cn =
     (if ValidateKey (cn_limits cn) key \<noteq> None then (cn, [], PutReply 413)
      else case body of
        None \<Rightarrow> (cn, [], PutReply 400)
      | Some data \<Rightarrow>
          if int (length data) > wl_max_value (cn_limits cn) then (cn, [], PutReply 413)
          else let ttl = bounded_ttl s (requested_ttl query_ttl header_ttl)
               in case Put_begin clock shuffle key data (to_int64 (ttl * nsec)) cn of
                    (cn1, outs, PutFailed err) \<Rightarrow> (cn1, outs, PutReply (put_status (Some err)))
                  | (cn1, outs, PutDone) \<Rightarrow> (cn1, outs, PutReply (put_status None))
                  | (cn1, outs, PutWaiting i mid) \<Rightarrow> (cn1, outs, PutPending i mid))"

definition putHandler_finish :: "put_wait \<Rightarrow> op_id \<Rightarrow> string \<Rightarrow> ClusterNode \<Rightarrow> ClusterNode \<times> int" where
  "putHandler_finish w i mid cn = (case Put_finish w i mid cn of (cn1, err) \<Rightarrow> (cn1, put_status err))"

record get_reply =
  gr_status :: int
  gr_created :: gotime
  gr_original :: int
  gr_remaining :: int
  gr_body :: bytes

definition int_seconds :: "duration \<Rightarrow> int" where
  "int_seconds d = float_to_int (Duration_Seconds d)"

definition getHandler :: "gotime \<Rightarrow> gotime \<Rightarrow> string \<Rightarrow> ClusterNode \<Rightarrow> get_reply option" where
  "getHandler now1 now2 key cn =
     (case cluster_GetWithMetadata now1 key cn of
        None \<Rightarrow> None
      | Some (data, createdAt, originalTTL) \<Rightarrow>
          let remaining = originalTTL - (now2 - createdAt);
              remainingTTL = (if remaining < 0 then 0 else remaining)
          in Some \<lparr>gr_status = 200, gr_created = createdAt, gr_original = int_seconds originalTTL,
                   gr_remaining = int_seconds remainingTTL, gr_body = data\<rparr>)"

text \<open>\<open>sort.SearchStrings\<close> on a sorted list: the first index whose element is not below the cursor.\<close>

definition SearchStrings :: "string list \<Rightarrow> string \<Rightarrow> nat" where
  "SearchStrings keys cursor = length (takeWhile (\<lambda>k. k < cursor) keys)"

text \<open>The keys after the cursor, which is the last key of the page before.\<close>

definition after_cursor :: "string \<Rightarrow> string list \<Rightarrow> string list" where
  "after_cursor cursor keys =
     (if cursor = [] then keys
      else let idx = SearchStrings keys cursor
           in drop (if idx < length keys \<and> keys ! idx = cursor then Suc idx else idx) keys)"

definition page_limit :: "string \<Rightarrow> nat" where
  "page_limit limitStr =
     (if limitStr = [] then 0 else case Atoi limitStr of Some n \<Rightarrow> if n > 0 then nat n else 0 | None \<Rightarrow> 0)"

definition key_page :: "string \<Rightarrow> string \<Rightarrow> string \<Rightarrow> string list \<Rightarrow> string list \<times> string" where
  "key_page pfx cursor limitStr keys =
     (let rest = after_cursor cursor (sort (if pfx \<noteq> [] then filter (\<lambda>k. HasPrefix k pfx) keys else keys));
          limit = page_limit limitStr
      in if limit > 0 \<and> length rest > limit then (take limit rest, rest ! (limit - 1)) else (rest, []))"

definition keysHandler :: "gotime \<Rightarrow> string \<Rightarrow> string \<Rightarrow> string \<Rightarrow> ClusterNode \<Rightarrow> string list \<times> string" where
  "keysHandler now pfx cursor limitStr cn = key_page pfx cursor limitStr (cluster_Scan now cn)"

definition notFoundHandler :: "string \<Rightarrow> int" where
  "notFoundHandler path = (if HasPrefix path ''/v1/data/'' then 400 else 404)"

section \<open>Gossip handlers\<close>

text \<open>\<open>None\<close> means verified; otherwise the status of the refusal. An absent header reads as the empty string.\<close>

definition verifyGossipSignature :: "hmac_fun \<Rightarrow> string \<Rightarrow> bytes \<Rightarrow> ClusterNode \<Rightarrow> int option" where
  "verifyGossipSignature hmac sig body cn =
     (if cn_secret cn = [] then None
      else if sig = [] then Some 403
      else if \<not> VerifyBody hmac (cn_secret cn) body sig then Some 403
      else None)"

definition gossip_status :: "cluster_error option \<Rightarrow> int" where
  "gossip_status err =
     (case err of None \<Rightarrow> 200 | Some ErrValueTooLarge \<Rightarrow> 413 | Some ErrKeyTooLong \<Rightarrow> 413 | Some _ \<Rightarrow> 500)"

definition gossipHandler ::
    "hmac_fun \<Rightarrow> (bytes \<Rightarrow> SimpleMessage option) \<Rightarrow> network \<Rightarrow> (nat \<Rightarrow> gotime) \<Rightarrow> (Node list \<Rightarrow> Node list) \<Rightarrow> string \<Rightarrow> bytes option
       \<Rightarrow> ClusterNode \<Rightarrow> ClusterNode \<times> cluster_effect list \<times> int" where
  "gossipHandler hmac dec net clock shuffle sig body cn =
     (case body of
        None \<Rightarrow> (cn, [], 400)
      | Some data \<Rightarrow>
          (case verifyGossipSignature hmac sig data cn of
             Some status \<Rightarrow> (cn, [], status)
           | None \<Rightarrow>
               (case dec data of
                  None \<Rightarrow> (cn, [], 400)
                | Some w \<Rightarrow>
                    (case HandleGossipMessage net clock shuffle (wireToMessage w) cn of
                       (cn1, effs, err) \<Rightarrow> (cn1, effs, gossip_status err)))))"

text \<open>\<open>provider\<close> is what the root provider of the node returns, if one is set.\<close>

definition bootstrapHandler ::
    "hmac_fun \<Rightarrow> (bytes \<Rightarrow> BootstrapRequest option) \<Rightarrow> bool option \<Rightarrow> gotime \<Rightarrow> HTTPServer \<Rightarrow> string \<Rightarrow> bytes option \<Rightarrow> ClusterNode
       \<Rightarrow> ClusterNode \<times> sends \<times> (int + BootstrapResponse)" where
  "bootstrapHandler hmac dec provider now s sig body cn =
     (if hs_network s = ''public'' \<and> \<not> IsRoot provider cn then (cn, [], Inl 403)
      else case body of
        None \<Rightarrow> (cn, [], Inl 400)
      | Some data \<Rightarrow>
          (case verifyGossipSignature hmac sig data cn of
             Some status \<Rightarrow> (cn, [], Inl status)
           | None \<Rightarrow>
               (case dec data of
                  None \<Rightarrow> (cn, [], Inl 400)
                | Some req \<Rightarrow> (case cluster_HandleBootstrap now req cn of (cn1, outs, resp) \<Rightarrow> (cn1, outs, Inr resp)))))"

section \<open>Attached children\<close>

text \<open>
  \<open>bindWSConnection\<close>: what the connection does with an attachment frame before the hello, and with a gossip
  message once the hello was accepted. \<open>dec\<close> decodes the payload of a hello.
\<close>

datatype hello_result = HelloIgnored | HelloMalformed | HelloHandled bool

definition ws_hello ::
    "(bytes \<Rightarrow> HelloPayload option) \<Rightarrow> gotime \<Rightarrow> conn_id \<Rightarrow> AttachmentType \<Rightarrow> bytes \<Rightarrow> ClusterNode \<Rightarrow> Manager
       \<Rightarrow> Manager \<times> tree_effect list \<times> hello_result" where
  "ws_hello dec now conn typ payload cn m =
     (if typ \<noteq> AttachmentTypeHello then (m, [], HelloIgnored)
      else case dec payload of
        None \<Rightarrow> (m, [CloseConn conn], HelloMalformed)
      | Some h \<Rightarrow> (case HandleHello now (Topology cn) conn h m of (m1, effs, ok) \<Rightarrow> (m1, effs, HelloHandled ok)))"

definition ws_gossip ::
    "network \<Rightarrow> (nat \<Rightarrow> gotime) \<Rightarrow> (Node list \<Rightarrow> Node list) \<Rightarrow> bool \<Rightarrow> conn_id \<Rightarrow> Message \<Rightarrow> ClusterNode \<times> Manager
       \<Rightarrow> (ClusterNode \<times> Manager) \<times> cluster_effect list" where
  "ws_gossip net clock shuffle stopped conn msg nm =
     (let (cn, m) = nm;
          m1 = (if msg_type msg = MessageTypePut then RecordAckRoute stopped (msg_id msg) conn m else m);
          (cn1, effs, err) = HandleGossipMessage net clock shuffle msg cn
      in ((cn1, m1), effs))"

section \<open>Stream admission\<close>

definition stream_enter :: "HTTPServer \<Rightarrow> HTTPServer \<times> int option" where
  "stream_enter s =
     (if hs_stream_disabled s then (s, Some 404)
      else let n = hs_stream_active s + 1
           in if n > int StreamSubscribers then (s, Some 503) else (s\<lparr>hs_stream_active := n\<rparr>, None))"

definition stream_leave :: "HTTPServer \<Rightarrow> HTTPServer" where
  "stream_leave s = s\<lparr>hs_stream_active := hs_stream_active s - 1\<rparr>"

text \<open>The start of \<open>streamHandler\<close>: a slot, then the subscription; without one the slot is given back.\<close>

definition stream_open :: "gotime \<Rightarrow> HTTPServer \<Rightarrow> ClusterNode \<Rightarrow> HTTPServer \<times> ClusterNode \<times> (int + Snapshot \<times> sub_id)" where
  "stream_open now s cn =
     (case stream_enter s of
        (s1, Some status) \<Rightarrow> (s1, cn, Inl status)
      | (s1, None) \<Rightarrow>
          (case cluster_Subscribe now cn of
             (cn1, Inl e) \<Rightarrow> (stream_leave s1, cn1, Inl 503)
           | (cn1, Inr sub) \<Rightarrow> (s1, cn1, Inr sub)))"

definition stream_end :: "sub_id \<Rightarrow> HTTPServer \<Rightarrow> ClusterNode \<Rightarrow> HTTPServer \<times> ClusterNode" where
  "stream_end i s cn = (stream_leave s, cn\<lparr>cn_store := Subscription_Close i (cn_store cn)\<rparr>)"

section \<open>Public discovery\<close>

text \<open>Every reading of the session takes its own clock reading.\<close>

definition publicSeedCheck :: "gotime \<Rightarrow> Session \<Rightarrow> seed_check" where
  "publicSeedCheck now s origin peers =
     (case session_Current now s of
        None \<Rightarrow> False
      | Some v \<Rightarrow>
          (case find (\<lambda>r. rt_origin r = origin) (mf_roots (vw_manifest v)) of
             None \<Rightarrow> False
           | Some rt \<Rightarrow>
               (case peers of
                  None \<Rightarrow> True
                | Some ps \<Rightarrow>
                    list_ex (\<lambda>peer. case peer of
                        None \<Rightarrow> False
                      | Some n \<Rightarrow> n_id n = rt_id rt \<and> Origin n = Some origin \<and> n_enclave n = mf_enclave (vw_manifest v)) ps)))"

definition view_bindings :: "View \<Rightarrow> (NodeID, PeerBinding) gomap" where
  "view_bindings v =
     foldl (\<lambda>bs r. gm_update (rt_id r) \<lparr>pb_origin = rt_origin r, pb_enclave = mf_enclave (vw_manifest v)\<rparr> bs) [] (mf_roots (vw_manifest v))"

definition root_misconfigured :: "string \<Rightarrow> string \<Rightarrow> string \<Rightarrow> View \<Rightarrow> bool" where
  "root_misconfigured i origin enclave v =
     list_ex (\<lambda>r. rt_id r = i \<and> (rt_origin r \<noteq> origin \<or> mf_enclave (vw_manifest v) \<noteq> enclave)) (mf_roots (vw_manifest v))"

text \<open>\<open>configurePublicDiscovery\<close> installs the view handler, which binds the roots of a usable view at once.\<close>

definition configurePublicDiscovery ::
    "gotime \<Rightarrow> gotime \<Rightarrow> string \<Rightarrow> string \<Rightarrow> string \<Rightarrow> Session \<Rightarrow> ClusterNode \<Rightarrow> (Session \<times> ClusterNode) option" where
  "configurePublicDiscovery now now' i origin enclave s cn =
     (case session_Current now s of
        None \<Rightarrow> None
      | Some v \<Rightarrow>
          if root_misconfigured i origin enclave v then None
          else Some (SetViewHandler now' s,
                 if usable now' (sn_view s) then cluster_SetRootBindings (view_bindings (the (sn_view s))) cn else cn))"

text \<open>\<open>resolveOmegaBootstrap\<close> after the session was opened: one refresh, then a usable view or failure.\<close>

definition resolve_session :: "gotime \<Rightarrow> gotime \<Rightarrow> 'e + View \<Rightarrow> 'e + View \<Rightarrow> Session \<Rightarrow> Session option" where
  "resolve_session now now' fetched cur s =
     (let s1 = session_Refresh now fetched cur s in case session_Current now' s1 of None \<Rightarrow> None | Some v \<Rightarrow> Some s1)"

end
