(* ===== verification/Node_Client.thy ===== *)
theory Node_Client
  imports Server
begin

text \<open>
  The HTTP client of a node, \<open>src/internal/client/client.go\<close>. An exchange is a function from the request to the
  answer, \<open>None\<close> when there is none; answers carry the decoded JSON where the client decodes one. The last
  section composes the client with the handlers of theory \<open>Server\<close>.
\<close>

section \<open>Requests\<close>

definition path_unreserved :: "char \<Rightarrow> bool" where
  "path_unreserved c = (is_alpha c \<or> is_digit c \<or> List.member ''-_.~$&+=:@'' c)"

definition upper_hex :: "nat \<Rightarrow> char" where
  "upper_hex n = char_of (if n < 10 then 48 + n else 55 + n)"

text \<open>\<open>url.PathEscape\<close>.\<close>

definition PathEscape :: "string \<Rightarrow> string" where
  "PathEscape s =
     concat (map (\<lambda>c. if path_unreserved c then [c] else [CHR ''%'', upper_hex (of_char c div 16), upper_hex (of_char c mod 16)]) s)"

definition dataURL :: "string \<Rightarrow> string \<Rightarrow> string" where
  "dataURL endpoint key = endpoint @ ''/v1/data/'' @ PathEscape key"

record api_request =
  aq_method :: string
  aq_url :: string
  aq_ttl :: string
  aq_body :: bytes

record api_response =
  as_status :: int
  as_created :: string
  as_original :: string
  as_remaining :: string
  as_body :: "bytes option"

datatype client_error =
    ErrEmptyKey | Unreachable | ClientStoreFull | ErrBadKey | UnexpectedStatus int | ErrNotFound

datatype WriteStatus = WriteConfirmed | WritePending

record PutResult =
  pr_key :: string
  pr_status :: WriteStatus
  pr_ttl :: int

record Metadata =
  md_key :: string
  md_created :: string
  md_original :: duration
  md_remaining :: duration

definition client_Put ::
    "(api_request \<Rightarrow> api_response option) \<Rightarrow> string \<Rightarrow> string \<Rightarrow> bytes \<Rightarrow> int \<Rightarrow> client_error + PutResult" where
  "client_Put http endpoint key data ttlSeconds =
     (if key = [] then Inl ErrEmptyKey
      else case http \<lparr>aq_method = ''PUT'', aq_url = dataURL endpoint key,
                      aq_ttl = (if ttlSeconds > 0 then Itoa ttlSeconds else []), aq_body = data\<rparr> of
        None \<Rightarrow> Inl Unreachable
      | Some resp \<Rightarrow>
          let result = \<lambda>st. \<lparr>pr_key = key, pr_status = st, pr_ttl = ttlSeconds\<rparr>
          in if as_status resp = 201 then Inr (result WriteConfirmed)
             else if as_status resp = 202 then Inr (result WritePending)
             else if as_status resp = 507 then Inl ClientStoreFull
             else if as_status resp = 400 then Inl ErrBadKey
             else Inl (UnexpectedStatus (as_status resp)))"

text \<open>\<open>parseMetadata\<close>; a time that does not parse is left at its zero value, which \<open>valid\<close> decides.\<close>

definition parseMetadata :: "(string \<Rightarrow> bool) \<Rightarrow> string \<Rightarrow> api_response \<Rightarrow> Metadata" where
  "parseMetadata valid key h =
     (let secs = \<lambda>s. (case Atoi s of Some n \<Rightarrow> to_int64 (n * nsec) | None \<Rightarrow> 0)
      in \<lparr>md_key = key, md_created = (if valid (as_created h) then as_created h else []),
          md_original = secs (as_original h), md_remaining = secs (as_remaining h)\<rparr>)"

definition client_Get ::
    "(string \<Rightarrow> bool) \<Rightarrow> (api_request \<Rightarrow> api_response option) \<Rightarrow> string \<Rightarrow> string \<Rightarrow> client_error + Metadata \<times> bytes" where
  "client_Get valid http endpoint key =
     (if key = [] then Inl ErrEmptyKey
      else case http \<lparr>aq_method = ''GET'', aq_url = dataURL endpoint key, aq_ttl = [], aq_body = []\<rparr> of
        None \<Rightarrow> Inl Unreachable
      | Some resp \<Rightarrow>
          if as_status resp = 200
          then (case as_body resp of None \<Rightarrow> Inl Unreachable | Some data \<Rightarrow> Inr (parseMetadata valid key resp, data))
          else if as_status resp = 404 then Inl ErrNotFound
          else if as_status resp = 400 then Inl ErrBadKey
          else Inl (UnexpectedStatus (as_status resp)))"

definition client_Exists ::
    "(string \<Rightarrow> bool) \<Rightarrow> (api_request \<Rightarrow> api_response option) \<Rightarrow> string \<Rightarrow> string \<Rightarrow> client_error + Metadata" where
  "client_Exists valid http endpoint key =
     (if key = [] then Inl ErrEmptyKey
      else case http \<lparr>aq_method = ''HEAD'', aq_url = dataURL endpoint key, aq_ttl = [], aq_body = []\<rparr> of
        None \<Rightarrow> Inl Unreachable
      | Some resp \<Rightarrow>
          if as_status resp = 200 then Inr (parseMetadata valid key resp)
          else if as_status resp = 404 then Inl ErrNotFound
          else if as_status resp = 400 then Inl ErrBadKey
          else Inl (UnexpectedStatus (as_status resp)))"

section \<open>Listings\<close>

record KeyPage =
  kp_keys :: "string list"
  kp_next :: string

text \<open>
  \<open>ListKeys\<close>: the query values are passed on, absent ones as the empty string; \<open>get\<close> is the exchange with
  \<open>/v1/keys\<close> and the decoded answer.
\<close>

definition ListKeys ::
    "(string \<Rightarrow> string \<Rightarrow> string \<Rightarrow> client_error + KeyPage) \<Rightarrow> string \<Rightarrow> int \<Rightarrow> string \<Rightarrow> client_error + KeyPage" where
  "ListKeys get pfx limit cursor = get pfx (if limit > 0 then Itoa limit else []) cursor"

text \<open>The loop of \<open>ListAllKeys\<close>; \<open>page k cursor\<close> is the answer to its k-th request.\<close>

partial_function (option) list_pages ::
    "(nat \<Rightarrow> string \<Rightarrow> client_error + KeyPage) \<Rightarrow> nat \<Rightarrow> string \<Rightarrow> string list \<Rightarrow> (client_error + string list) option" where
  "list_pages page k cursor acc =
     (case page k cursor of
        Inl e \<Rightarrow> Some (Inl e)
      | Inr p \<Rightarrow>
          if kp_next p = [] \<or> kp_next p = cursor then Some (Inr (acc @ kp_keys p))
          else list_pages page (Suc k) (kp_next p) (acc @ kp_keys p))"

definition ListAllKeys ::
    "(nat \<Rightarrow> string \<Rightarrow> string \<Rightarrow> string \<Rightarrow> client_error + KeyPage) \<Rightarrow> string \<Rightarrow> int \<Rightarrow> (client_error + string list) option" where
  "ListAllKeys get pfx pageSize0 =
     (let pageSize = (if pageSize0 \<le> 0 then 1000 else pageSize0)
      in list_pages (\<lambda>k cursor. ListKeys (get k) pfx pageSize cursor) 0 [] [])"

section \<open>Pagination against the handler\<close>

text \<open>
  The node's answer as the client decodes it: \<open>enc\<close> is what a string becomes on its way through
  \<open>encoding/json\<close>, which replaces bytes that are not UTF-8.
\<close>

definition node_keys :: "(string \<Rightarrow> string) \<Rightarrow> gotime \<Rightarrow> ClusterNode \<Rightarrow> string \<Rightarrow> string \<Rightarrow> string \<Rightarrow> client_error + KeyPage" where
  "node_keys enc now cn pfx limitStr cursor =
     (case keysHandler now pfx cursor limitStr cn of
        (keys, next) \<Rightarrow> Inr \<lparr>kp_keys = map enc keys, kp_next = enc next\<rparr>)"

lemma sorted_drop_below:
  assumes "sorted (xs :: string list)" "distinct xs"
  shows "drop (let i = SearchStrings xs c in if i < length xs \<and> xs ! i = c then Suc i else i) xs = filter (\<lambda>k. c < k) xs"
  using assms
proof (induction xs)
  case (Cons x xs)
  show ?case
  proof (cases "x < c")
    case True
    then have "\<not> c < x" by auto
    with True show ?thesis using Cons by (auto simp: SearchStrings_def Let_def split: if_splits)
  next
    case False
    have "c < y" if "y \<in> set xs" for y
    proof -
      have "x < y" using Cons.prems that by (auto simp: order.strict_iff_order)
      with False show ?thesis by (meson not_less order.strict_trans1)
    qed
    then have "filter (\<lambda>k. c < k) xs = xs" by (simp add: filter_id_conv)
    then show ?thesis using False by (auto simp: SearchStrings_def)
  qed
qed (simp add: SearchStrings_def)

text \<open>What a page is: the first \<open>limit\<close> keys after the cursor.\<close>

definition listed :: "string \<Rightarrow> string list \<Rightarrow> string list" where
  "listed pfx keys = sort (filter (\<lambda>k. HasPrefix k pfx) keys)"

lemma Nil_less: "x \<noteq> [] \<Longrightarrow> ([] :: string) < x"
  by (cases x) simp_all

lemma HasPrefix_Nil [simp]: "HasPrefix k []"
  by (simp add: HasPrefix_def)

lemma key_page_spec:
  assumes "distinct keys" "0 < limit" "limit \<le> max_int64" "[] \<notin> set keys"
  shows "key_page pfx cursor (Itoa limit) keys =
    (let rest = filter (\<lambda>k. cursor < k) (listed pfx keys)
     in if length rest > nat limit then (take (nat limit) rest, rest ! (nat limit - 1)) else (rest, []))"
proof -
  let ?s = "listed pfx keys"
  have s: "sorted ?s" "distinct ?s" using assms(1) by (simp_all add: listed_def)
  have sort: "sort (if pfx \<noteq> [] then filter (\<lambda>k. HasPrefix k pfx) keys else keys) = ?s" by (simp add: listed_def)
  have after: "after_cursor cursor ?s = filter (\<lambda>k. cursor < k) ?s"
  proof (cases "cursor = []")
    case True
    have "filter (\<lambda>k. [] < k) ?s = ?s" using assms(4) by (auto simp: filter_id_conv listed_def intro: Nil_less)
    then show ?thesis using True by (simp add: after_cursor_def)
  qed (use sorted_drop_below [OF s, of cursor] in \<open>simp add: after_cursor_def Let_def\<close>)
  have "Itoa limit \<noteq> []" "Atoi (Itoa limit) = Some limit"
    using assms(2,3) by (simp_all add: Itoa_def ParseInt_nat_digits)
  then have "page_limit (Itoa limit) = nat limit" using assms(2) by (simp add: page_limit_def)
  then show ?thesis using assms(2) unfolding key_page_def sort after by (simp add: Let_def)
qed

lemma filter_below_rest:
  assumes "sorted (xs :: string list)" "distinct xs" "n < length xs" "0 < n"
  shows "filter (\<lambda>k. xs ! (n - 1) < k) xs = drop n xs"
proof -
  have s: "sorted_wrt (<) xs" using assms(1,2) by (simp add: strict_sorted_iff)
  have "filter (\<lambda>k. xs ! (n - 1) < k) (take n xs) = []"
  proof -
    have "\<not> xs ! (n - 1) < xs ! i" if "i < n" for i
      using sorted_wrt_nth_less [OF s, of i "n - 1"] that assms(3,4) by (cases "i = n - 1") (auto dest: order.asym)
    then show ?thesis using assms(3) by (auto simp: filter_empty_conv in_set_conv_nth)
  qed
  moreover have "filter (\<lambda>k. xs ! (n - 1) < k) (drop n xs) = drop n xs"
    using sorted_wrt_nth_less [OF s, of "n - 1"] assms(3,4) by (auto simp: filter_id_conv in_set_conv_nth)
  ultimately have "filter (\<lambda>k. xs ! (n - 1) < k) (take n xs @ drop n xs) = drop n xs" by (simp only: filter_append append_Nil)
  then show ?thesis by (simp only: append_take_drop_id)
qed

text \<open>Each request after the first continues where the page before ended.\<close>

lemma list_pages_complete:
  assumes "distinct keys" "0 < limit" "limit \<le> max_int64" "[] \<notin> set keys" "\<And>k. k \<in> set keys \<Longrightarrow> enc k = k" "enc [] = []"
    and page: "\<And>k c. page k c = (case key_page pfx c (Itoa limit) keys of (ks, nx) \<Rightarrow> Inr \<lparr>kp_keys = map enc ks, kp_next = enc nx\<rparr>)"
  shows "list_pages page k cursor acc = Some (Inr (acc @ filter (\<lambda>k. cursor < k) (listed pfx keys)))"
proof (induction "length (filter (\<lambda>k. cursor < k) (listed pfx keys))" arbitrary: k cursor acc rule: less_induct)
  case less
  let ?rest = "filter (\<lambda>k. cursor < k) (listed pfx keys)"
  have l: "sorted (listed pfx keys)" "distinct (listed pfx keys)" "set (listed pfx keys) \<subseteq> set keys"
    using assms(1) by (auto simp: listed_def)
  then have r: "sorted ?rest" "distinct ?rest" "set ?rest \<subseteq> set keys" by (auto simp: sorted_wrt_filter)
  have same: "map enc ks = ks" if "set ks \<subseteq> set keys" for ks using that assms(5) by (intro map_idI) auto
  show ?case
  proof (cases "length ?rest > nat limit")
    case False
    then have "page k cursor = Inr \<lparr>kp_keys = ?rest, kp_next = []\<rparr>"
      unfolding page key_page_spec [OF assms(1-4)] using same [OF r(3)] assms(6) by (simp add: Let_def)
    then show ?thesis by (subst list_pages.simps) simp
  next
    case True
    let ?c = "?rest ! (nat limit - 1)"
    have idx: "nat limit - 1 < length ?rest" using True assms(2) by simp
    then have c: "?c \<in> set ?rest" by (rule nth_mem)
    then have "?c \<in> set keys" "cursor < ?c" using r(3) by auto
    then have cne: "?c \<noteq> []" "?c \<noteq> cursor" "enc ?c = ?c" using assms(4,5) by auto
    have "map enc (take (nat limit) ?rest) = take (nat limit) ?rest"
      using set_take_subset [of "nat limit" ?rest] r(3) by (intro same) blast
    then have p: "page k cursor = Inr \<lparr>kp_keys = take (nat limit) ?rest, kp_next = ?c\<rparr>"
      unfolding page key_page_spec [OF assms(1-4)] using True cne(3) by (simp add: Let_def)
    have "filter (\<lambda>k. ?c < k) (listed pfx keys) = filter (\<lambda>k. ?c < k) ?rest"
      using \<open>cursor < ?c\<close> by (auto simp: intro!: filter_cong dest: order.strict_trans)
    also have "\<dots> = drop (nat limit) ?rest" using filter_below_rest [OF r(1,2) True] assms(2) by simp
    finally have next_rest: "filter (\<lambda>k. ?c < k) (listed pfx keys) = drop (nat limit) ?rest" .
    have "list_pages page (Suc k) ?c (acc @ take (nat limit) ?rest) = Some (Inr (acc @ take (nat limit) ?rest @ drop (nat limit) ?rest))"
      using less [of ?c "Suc k" "acc @ take (nat limit) ?rest"] next_rest True assms(2) by simp
    then show ?thesis using p cne by (subst list_pages.simps) simp
  qed
qed


text \<open>Two keys fetched with pages of one key.\<close>

definition ex_listed :: ClusterNode where
  "ex_listed = (let cn = NewClusterNode ''n1'' ''n1'' 7000 8080 3 0 1 [] []
     in cn\<lparr>cn_store := fst (Put 2 ''b'' ''y'' nsec (fst (Put 1 ''a'' ''x'' nsec (cn_store cn))))\<rparr>)"

lemma ex_listed_inv: "store_inv (cn_store ex_listed)"
  by (simp add: ex_listed_def Let_def NewClusterNode_def Put_inv NewMemoryStore_inv)

lemma ex_listed_get: "cluster_Get 3 k ex_listed = (if k = ''b'' then Some ''y'' else if k = ''a'' then Some ''x'' else None)"
  by (simp add: ex_listed_def Let_def NewClusterNode_def NewMemoryStore_def cluster_Get_def Get_def Put_def nsec_def)


text \<open>A listing with the empty key at the end of a page stops there.\<close>

lemma empty_key_ends_listing:
  "ListAllKeys (\<lambda>k pfx limitStr cursor. case key_page pfx cursor limitStr [[], ''a''] of (ks, nx) \<Rightarrow> Inr \<lparr>kp_keys = ks, kp_next = nx\<rparr>)
     [] 1 = Some (Inr [[]])"
proof -
  have "Itoa 1 \<noteq> []" "Atoi (Itoa 1) = Some 1" by (simp_all add: Itoa_def ParseInt_nat_digits max_int64_def)
  then have "key_page [] [] (Itoa 1) [[], ''a''] = ([[]], [])"
    by (simp add: key_page_def Let_def after_cursor_def page_limit_def)
  then show ?thesis by (simp add: ListAllKeys_def ListKeys_def list_pages.simps)
qed

end
