(* ===== verification/Cluster_Facts.thy ===== *)
theory Cluster_Facts
  imports Cluster Gossip_Facts
begin

text \<open>
  Facts about the cluster node of theory \<open>Cluster\<close>: admission and TTL bounds, quorums, what a client
  write guarantees, and idempotence of replica writes. The store is used only through the facts \<open>mem\<close>
  of the interface \<open>ttl_store\<close>.
\<close>

section \<open>Limits\<close>

definition limits_ok :: "WriteLimits \<Rightarrow> bool" where
  "limits_ok l \<longleftrightarrow> 0 < wl_max_value l \<and> 0 < wl_max_key l \<and> MinTTLSeconds \<le> wl_min_ttl l \<and>
     wl_min_ttl l \<le> wl_max_ttl l \<and> wl_max_ttl l \<le> max_int32"

lemma limits_ok_default: "limits_ok DefaultWriteLimits"
  by (simp add: limits_ok_def DefaultWriteLimits_def MinTTLSeconds_def DefaultMaxTTLSeconds_def max_int32_def)

lemma limits_ok_set: "limits_ok (cn_limits cn) \<Longrightarrow> limits_ok (cn_limits (fst (SetWriteLimits l cn)))"
  by (auto simp: SetWriteLimits_def Let_def limits_ok_def MinTTLSeconds_def)

definition clamped :: "WriteLimits \<Rightarrow> int \<Rightarrow> int" where
  "clamped l s = min (max s (wl_min_ttl l)) (wl_max_ttl l)"

lemma clamped_range: "limits_ok l \<Longrightarrow> wl_min_ttl l \<le> clamped l s \<and> clamped l s \<le> wl_max_ttl l \<and> 300 \<le> clamped l s"
  by (auto simp: limits_ok_def clamped_def MinTTLSeconds_def)

lemma clampTTL_exact:
  assumes "limits_ok l"
  shows "clampTTL l s = clamped l s * nsec"
proof -
  have "0 \<le> clamped l s" "clamped l s \<le> max_int32"
    using clamped_range [OF assms, of s] assms by (simp_all add: limits_ok_def)
  then have "- (2 ^ 63) \<le> clamped l s * nsec" "clamped l s * nsec \<le> max_int64"
    by (simp_all add: nsec_def max_int32_def max_int64_def)
  then show ?thesis unfolding clampTTL_def clamped_def by (rule to_int64_id)
qed

lemma clampTTL_seconds: "limits_ok l \<Longrightarrow> go_quot (clampTTL l s) nsec = clamped l s"
  using clamped_range [of l s] by (simp add: clampTTL_exact go_quot_nonneg nsec_def)

text \<open>
  Every accepted TTL is a whole number of seconds within the node's limits, at least five minutes,
  computed without 64-bit overflow for any requested value, representable in the wire format's signed
  32-bit field, and stable: a peer with the same limits that clamps the forwarded seconds again
  accepts exactly the same TTL.
\<close>

theorem ttl_clamped:
  assumes "limits_ok l"
  shows "clampTTL l s = go_quot (clampTTL l s) nsec * nsec \<and>
    MinTTLSeconds \<le> go_quot (clampTTL l s) nsec \<and>
    wl_min_ttl l \<le> go_quot (clampTTL l s) nsec \<and> go_quot (clampTTL l s) nsec \<le> wl_max_ttl l \<and>
    clampTTL l s \<le> max_int64 \<and>
    to_int32 (go_quot (clampTTL l s) nsec) = go_quot (clampTTL l s) nsec \<and>
    clampTTL l (go_quot (clampTTL l s) nsec) = clampTTL l s \<and>
    (wl_min_ttl l \<le> s \<and> s \<le> wl_max_ttl l \<longrightarrow> clampTTL l s = s * nsec)"
proof -
  note r = clamped_range [OF assms, of s] and q = clampTTL_seconds [OF assms, of s]
  have m: "clamped l s \<le> max_int32" using r assms by (simp add: limits_ok_def)
  then have "clamped l s * nsec \<le> max_int64" by (simp add: nsec_def max_int32_def max_int64_def)
  moreover have "to_int32 (clamped l s) = clamped l s" using r m by (intro to_int32_id) simp_all
  moreover have "clamped l (clamped l s) = clamped l s" by (simp add: clamped_def)
  ultimately show ?thesis using r unfolding q by (simp add: clampTTL_exact [OF assms] clamped_def MinTTLSeconds_def)
qed

theorem ttl_clamped_witness:
  "clampTTL DefaultWriteLimits 1 = 300 * nsec \<and> clampTTL DefaultWriteLimits (2 ^ 62) = 86400 * nsec \<and>
   clampTTL DefaultWriteLimits (go_quot (clampTTL DefaultWriteLimits (2 ^ 62)) nsec) = 86400 * nsec"
proof -
  have "clampTTL DefaultWriteLimits 1 = 300 * nsec" "clampTTL DefaultWriteLimits (2 ^ 62) = 86400 * nsec"
    unfolding clampTTL_exact [OF limits_ok_default]
    by (simp_all add: clamped_def DefaultWriteLimits_def MinTTLSeconds_def DefaultMaxTTLSeconds_def)
  then show ?thesis using ttl_clamped [OF limits_ok_default, of "2 ^ 62"] by metis
qed

section \<open>Quorum\<close>

text \<open>
  The quorum is a strict majority of the effective replica set, the smaller of the enclave
  (the local node included) and the replication factor, and can always be reached by it. So two sets of
  confirming replicas of the same effective set intersect, and a node alone in its enclave needs only
  itself.
\<close>

theorem quorum_is_majority:
  assumes "e = min (int (length (GetReplicationPeers (cn_protocol cn))) + 1) (cn_replication cn)"
  shows "1 \<le> quorumSize cn \<and>
    (1 \<le> cn_replication cn \<longrightarrow> e < 2 * quorumSize cn \<and> quorumSize cn \<le> e) \<and>
    (GetReplicationPeers (cn_protocol cn) = [] \<longrightarrow> quorumSize cn = 1)"
proof -
  have e: "(if cn_replication cn < int (length (GetReplicationPeers (cn_protocol cn))) + 1 then cn_replication cn
      else int (length (GetReplicationPeers (cn_protocol cn))) + 1) = e"
    using assms by auto
  have q: "quorumSize cn = (if go_quot e 2 + 1 < 1 then 1 else go_quot e 2 + 1)"
    unfolding quorumSize_def Let_def e by simp
  show ?thesis
  proof (cases "0 \<le> e")
    case True
    then have "quorumSize cn = e div 2 + 1" using q by (simp add: go_quot_nonneg)
    with True assms show ?thesis by auto
  next
    case False
    then have "quorumSize cn = 1" using q by (simp add: go_quot_neg)
    with False assms show ?thesis by auto
  qed
qed

theorem quorum_is_majority_witness:
  "quorumSize (NewClusterNode ''n1'' ''n1'' 7000 8080 3 0 1 [] []) = 1 \<and>
   min (int (length (GetReplicationPeers (cn_protocol (NewClusterNode ''n1'' ''n1'' 7000 8080 3 0 1 [] [])))) + 1)
     (cn_replication (NewClusterNode ''n1'' ''n1'' 7000 8080 3 0 1 [] [])) = 1"
  using quorum_is_majority [OF refl, of "NewClusterNode ''n1'' ''n1'' 7000 8080 3 0 1 [] []"]
  by (simp add: NewClusterNode_def NewProtocol_def GetReplicationPeers_def Let_def)

section \<open>Runs of a node\<close>

datatype cluster_event =
    CePut "nat \<Rightarrow> gotime" "Node list \<Rightarrow> Node list" string bytes duration
  | CeFinish put_wait op_id string
  | CeGossip network "nat \<Rightarrow> gotime" "Node list \<Rightarrow> Node list" Message
  | CeProtocol proto_event
  | CeSweep gotime
  | CeRecover "string \<Rightarrow> BootstrapRequest \<Rightarrow> http_result" "seed_check option" "string list option"

fun cluster_exec :: "cluster_event \<Rightarrow> ClusterNode \<Rightarrow> ClusterNode" where
  "cluster_exec (CePut clock sh key data ttl) cn = fst (Put_begin clock sh key data ttl cn)"
| "cluster_exec (CeFinish w i mid) cn = fst (Put_finish w i mid cn)"
| "cluster_exec (CeGossip net clock sh msg) cn = fst (HandleGossipMessage net clock sh msg cn)"
| "cluster_exec (CeProtocol e) cn = cn\<lparr>cn_protocol := fst (proto_exec e (cn_protocol cn))\<rparr>"
| "cluster_exec (CeSweep now) cn = cn\<lparr>cn_store := cleanupExpired now (cn_store cn)\<rparr>"
| "cluster_exec (CeRecover http check seeds) cn = fst (CheckIsolationAndRecover http check seeds cn)"

definition cluster_run :: "cluster_event list \<Rightarrow> ClusterNode \<Rightarrow> ClusterNode" where
  "cluster_run es cn = fold cluster_exec es cn"

lemma cluster_run_simps [simp]:
  "cluster_run [] cn = cn"
  "cluster_run (e # es) cn = cluster_run es (cluster_exec e cn)"
  by (simp_all add: cluster_run_def)

text \<open>Only client writes, their completion and acknowledgements touch the table of pending writes.\<close>

definition same_writes :: "ClusterNode \<Rightarrow> ClusterNode \<Rightarrow> bool" where
  "same_writes cn cn' \<longleftrightarrow> cn_pending cn' = cn_pending cn \<and> cn_ops cn' = cn_ops cn \<and> cn_next cn' = cn_next cn"

lemma handlePutMessage_writes: "same_writes cn (fst (handlePutMessage clock sh msg cn))"
  by (simp add: handlePutMessage_def same_writes_def Let_def case_prod_beta split: option.split)

lemma recover_writes: "same_writes cn (fst (CheckIsolationAndRecover http check seeds cn))"
  by (simp add: CheckIsolationAndRecover_def same_writes_def case_prod_beta split: option.split list.split)

lemma protocol_handle_writes:
  "is_protocol_type (msg_type msg) \<Longrightarrow> same_writes cn (fst (protocol_handleMessage net clock sh msg cn))"
  by (simp add: protocol_handleMessage_def handleGossipMessage_def same_writes_def case_prod_beta split: option.split)

definition is_ack :: "string \<Rightarrow> cluster_event \<Rightarrow> bool" where
  "is_ack mid e = (case e of CeGossip net clock sh msg \<Rightarrow> msg_type msg = MessageTypeAck \<and> msg_id msg = mid | _ \<Rightarrow> False)"

lemma markComplete_fields [simp]:
  "cn_pending (markComplete i cn) = cn_pending cn" "cn_next (markComplete i cn) = cn_next cn"
  "cn_protocol (markComplete i cn) = cn_protocol cn" "cn_replication (markComplete i cn) = cn_replication cn"
  "cn_store (markComplete i cn) = cn_store cn" "cn_limits (markComplete i cn) = cn_limits cn"
  "gm_lookup (cn_ops (markComplete i cn)) j =
     (if j = i then map_option (\<lambda>w. if wo_closes w = 0 then w\<lparr>wo_closes := 1\<rparr> else w) (gm_lookup (cn_ops cn) i)
      else gm_lookup (cn_ops cn) j)"
  by (auto simp: markComplete_def split: option.split)

lemma quorumSize_cong:
  "cn_protocol cn' = cn_protocol cn \<Longrightarrow> cn_replication cn' = cn_replication cn \<Longrightarrow> quorumSize cn' = quorumSize cn"
  by (simp add: quorumSize_def)

lemma ack_count_fields [simp]:
  "cn_pending (ack_count i cn) = cn_pending cn" "cn_next (ack_count i cn) = cn_next cn"
  "cn_protocol (ack_count i cn) = cn_protocol cn" "cn_replication (ack_count i cn) = cn_replication cn"
  "cn_store (ack_count i cn) = cn_store cn" "cn_limits (ack_count i cn) = cn_limits cn"
  by (simp_all add: ack_count_def Let_def split: option.split)

lemma ack_count_lookup:
  "gm_lookup (cn_ops (ack_count i cn)) j =
     (if j = i then
        map_option (\<lambda>w. let c = wo_confirmations w + 1 in
          if c \<ge> quorumSize cn \<and> wo_closes w = 0 then w\<lparr>wo_confirmations := c, wo_closes := 1\<rparr>
          else w\<lparr>wo_confirmations := c\<rparr>) (gm_lookup (cn_ops cn) i)
      else gm_lookup (cn_ops cn) j)"
proof (cases "gm_lookup (cn_ops cn) i")
  case (Some w)
  let ?cn = "cn\<lparr>cn_ops := gm_update i (w\<lparr>wo_confirmations := wo_confirmations w + 1\<rparr>) (cn_ops cn)\<rparr>"
  have "quorumSize ?cn = quorumSize cn" by (rule quorumSize_cong) simp_all
  then show ?thesis by (simp add: ack_count_def Some Let_def)
qed (simp add: ack_count_def)

text \<open>The invariant of the pending-write bookkeeping, and of everything below it.\<close>

definition op_ok :: "ClusterNode \<Rightarrow> op_id \<Rightarrow> WriteOperation \<Rightarrow> bool" where
  "op_ok cn i w \<longleftrightarrow> i < cn_next cn \<and> wo_closes w \<le> 1 \<and> 1 \<le> wo_confirmations w \<and> wo_error w = None"

definition writes_inv :: "ClusterNode \<Rightarrow> bool" where
  "writes_inv cn \<longleftrightarrow>
     (\<forall>mid i. gm_lookup (cn_pending cn) mid = Some i \<longrightarrow> i < cn_next cn) \<and>
     (\<forall>i w. gm_lookup (cn_ops cn) i = Some w \<longrightarrow> op_ok cn i w)"

lemma writes_inv_same: "same_writes cn cn' \<Longrightarrow> writes_inv cn \<Longrightarrow> writes_inv cn'"
  by (simp add: same_writes_def writes_inv_def op_ok_def)

lemma writes_inv_ack:
  assumes "writes_inv cn"
  shows "writes_inv (ack_count i cn)"
proof -
  have "op_ok (ack_count i cn) j w" if j: "gm_lookup (cn_ops (ack_count i cn)) j = Some w" for j w
  proof (cases "j = i")
    case True
    then obtain z where z: "gm_lookup (cn_ops cn) i = Some z" using j by (auto simp: ack_count_lookup)
    then have "op_ok cn i z" using assms by (simp add: writes_inv_def)
    with True j z show ?thesis by (auto simp: op_ok_def ack_count_lookup Let_def split: if_splits)
  next
    case False
    with j assms show ?thesis by (simp add: ack_count_lookup writes_inv_def op_ok_def)
  qed
  with assms show ?thesis by (simp add: writes_inv_def)
qed

text \<open>\<open>Put_begin\<close> on the pending-write tables: a fresh operation, and a pending entry only if it waits.\<close>

lemma Put_begin_writes:
  assumes "Put_begin clock sh key data ttl cn = (cn', outs, r)"
  shows "same_writes cn cn' \<or>
    (cn_next cn' = Suc (cn_next cn) \<and>
     (\<forall>j. j \<noteq> cn_next cn \<longrightarrow> gm_lookup (cn_ops cn') j = gm_lookup (cn_ops cn) j) \<and>
     (\<exists>w. gm_lookup (cn_ops cn') (cn_next cn) = Some w \<and> op_ok cn' (cn_next cn) w \<and> wo_confirmations w = 1 \<and>
       (\<forall>i mid. r = PutWaiting i mid \<longrightarrow> i = cn_next cn \<and> wo_closes w = 0)) \<and>
     (\<forall>mid i. gm_lookup (cn_pending cn') mid = Some i \<longrightarrow> i = cn_next cn \<or> gm_lookup (cn_pending cn) mid = Some i) \<and>
     (\<forall>i mid mid'. r = PutWaiting i mid \<longrightarrow> gm_lookup (cn_pending cn') mid' = Some i \<longrightarrow>
        mid' = mid \<or> gm_lookup (cn_pending cn) mid' = Some i))"
proof (cases "validateWrite (cn_limits cn) key data")
  case (Some e)
  then show ?thesis using assms by (simp add: Put_begin_def same_writes_def)
next
  case None
  obtain st res where p: "Put (clock 2) key data (clampTTL (cn_limits cn) (go_quot ttl nsec)) (cn_store cn) = (st, res)"
    by (cases "Put (clock 2) key data (clampTTL (cn_limits cn) (go_quot ttl nsec)) (cn_store cn)")
  show ?thesis
  proof (cases res)
    case (Some e)
    then show ?thesis using assms None p
      by (auto simp: Put_begin_def Let_def op_ok_def split: if_splits)
  next
    case none: None
    then show ?thesis using assms None p
      by (auto simp: Put_begin_def Let_def op_ok_def case_prod_beta split: if_splits)
  qed
qed

lemma writes_inv_put: "writes_inv cn \<Longrightarrow> writes_inv (fst (Put_begin clock sh key data ttl cn))"
proof -
  assume inv: "writes_inv cn"
  obtain cn' outs r where b: "Put_begin clock sh key data ttl cn = (cn', outs, r)"
    by (cases "Put_begin clock sh key data ttl cn")
  have "writes_inv cn'"
  proof (cases "same_writes cn cn'")
    case True
    then show ?thesis using inv by (rule writes_inv_same)
  next
    case False
    note w = Put_begin_writes [OF b]
    have "i < cn_next cn'" if "gm_lookup (cn_pending cn') mid = Some i" for mid i
    proof -
      have "i = cn_next cn \<or> gm_lookup (cn_pending cn) mid = Some i" and n: "cn_next cn' = Suc (cn_next cn)"
        using w False that by blast+
      then have "i \<le> cn_next cn" using inv by (auto simp: writes_inv_def intro: less_imp_le)
      with n show ?thesis by simp
    qed
    moreover have "op_ok cn' i v" if "gm_lookup (cn_ops cn') i = Some v" for i v
    proof (cases "i = cn_next cn")
      case True
      then show ?thesis using w False that by auto
    next
      case old: False
      then have "gm_lookup (cn_ops cn) i = Some v" and n: "cn_next cn' = Suc (cn_next cn)"
        using w False that by auto
      then have "op_ok cn i v" using inv by (simp add: writes_inv_def)
      with n show ?thesis by (simp add: op_ok_def)
    qed
    ultimately show ?thesis by (simp add: writes_inv_def)
  qed
  then show ?thesis by (simp add: b)
qed

lemma gossip_writes:
  obtains (other) "same_writes cn (fst (HandleGossipMessage net clock sh msg cn))"
  | (ack) j where "msg_type msg = MessageTypeAck" "gm_lookup (cn_pending cn) (msg_id msg) = Some j"
      "fst (HandleGossipMessage net clock sh msg cn) = ack_count j cn"
proof (cases "is_protocol_type (msg_type msg)")
  case True
  then show ?thesis using other protocol_handle_writes [OF True, of cn net clock sh]
    by (simp add: HandleGossipMessage_def)
next
  case False
  have refl: "same_writes cn cn" by (simp add: same_writes_def)
  consider "msg_type msg = MessageTypePut" | "msg_type msg = MessageTypeAck"
    | "msg_type msg \<noteq> MessageTypePut" "msg_type msg \<noteq> MessageTypeAck" by blast
  then show ?thesis
  proof cases
    case 1
    then show ?thesis using False other handlePutMessage_writes [of cn clock sh msg]
      by (simp add: HandleGossipMessage_def handleGossipMessage_def)
  next
    case 2
    then have "MessageTypeAck \<noteq> MessageTypePut" by (simp add: message_types)
    with 2 False refl other ack show ?thesis
      by (cases "gm_lookup (cn_pending cn) (msg_id msg)")
        (simp_all add: HandleGossipMessage_def handleGossipMessage_def handleAckMessage_def ack_find_def)
  next
    case 3
    then show ?thesis using False other refl by (simp add: HandleGossipMessage_def handleGossipMessage_def)
  qed
qed

text \<open>Every event either leaves the tables alone, or is one of three table operations.\<close>

lemma exec_writes:
  obtains (other) "same_writes cn (cluster_exec e cn)"
  | (ack) net clock sh msg j where "e = CeGossip net clock sh msg" "msg_type msg = MessageTypeAck"
      "gm_lookup (cn_pending cn) (msg_id msg) = Some j" "cluster_exec e cn = ack_count j cn"
  | (put) clock sh key data ttl where "e = CePut clock sh key data ttl"
  | (fin) w i mid where "e = CeFinish w i mid"
proof (cases e)
  case (CeGossip net clock sh msg)
  show ?thesis
  proof (rule gossip_writes [of cn net clock sh msg])
    assume "same_writes cn (fst (HandleGossipMessage net clock sh msg cn))"
    then show ?thesis using other CeGossip by simp
  next
    fix j
    assume "msg_type msg = MessageTypeAck" "gm_lookup (cn_pending cn) (msg_id msg) = Some j"
      "fst (HandleGossipMessage net clock sh msg cn) = ack_count j cn"
    then show ?thesis using ack CeGossip by simp
  qed
next
  case (CeProtocol pe)
  then show ?thesis using other by (simp add: same_writes_def)
next
  case (CeSweep now)
  then show ?thesis using other by (simp add: same_writes_def)
next
  case (CeRecover http check seeds)
  then show ?thesis using other recover_writes by simp
qed (use put fin in blast)+

lemma writes_inv_exec: "writes_inv cn \<Longrightarrow> writes_inv (cluster_exec e cn)"
proof -
  assume inv: "writes_inv cn"
  show ?thesis
  proof (cases rule: exec_writes [of cn e])
    case other
    then show ?thesis using inv by (rule writes_inv_same)
  next
    case (ack net clock sh msg j)
    then show ?thesis using writes_inv_ack [OF inv] by (simp only:)
  next
    case (put clock sh key data ttl)
    then show ?thesis using writes_inv_put [OF inv] by simp
  next
    case (fin w i mid)
    then show ?thesis using inv by (simp add: Put_finish_def writes_inv_def op_ok_def)
  qed
qed

lemma writes_inv_run: "writes_inv cn \<Longrightarrow> writes_inv (cluster_run es cn)"
  by (induction es arbitrary: cn) (simp_all add: writes_inv_exec)

text \<open>How one event treats a tracked operation \<open>i\<close> whose only pending entry can be \<open>mid\<close>.\<close>

definition tracked :: "op_id \<Rightarrow> string \<Rightarrow> ClusterNode \<Rightarrow> WriteOperation \<Rightarrow> bool" where
  "tracked i mid cn w \<longleftrightarrow> writes_inv cn \<and> gm_lookup (cn_ops cn) i = Some w \<and>
     (\<forall>mid'. gm_lookup (cn_pending cn) mid' = Some i \<longrightarrow> mid' = mid)"

lemma tracked_same: "same_writes cn cn' \<Longrightarrow> tracked i mid cn w \<Longrightarrow> tracked i mid cn' w"
  using writes_inv_same [of cn cn'] by (simp add: tracked_def same_writes_def)

lemma tracked_put:
  assumes "tracked i mid cn w"
  shows "tracked i mid (fst (Put_begin clock sh key data ttl cn)) w"
proof -
  obtain cn' outs r where b: "Put_begin clock sh key data ttl cn = (cn', outs, r)"
    by (cases "Put_begin clock sh key data ttl cn")
  have "tracked i mid cn' w"
  proof (cases "same_writes cn cn'")
    case True
    then show ?thesis using assms by (rule tracked_same)
  next
    case False
    have i: "i < cn_next cn" using assms by (auto simp: tracked_def writes_inv_def op_ok_def)
    have "writes_inv cn'" using assms writes_inv_put [of cn clock sh key data ttl] b by (simp add: tracked_def)
    with False assms i Put_begin_writes [OF b] show ?thesis by (auto simp: tracked_def)
  qed
  then show ?thesis by (simp add: b)
qed

lemma tracked_step:
  assumes "tracked i mid cn w"
  shows "\<exists>w'. tracked i mid (cluster_exec e cn) w' \<and>
    (w' = w \<or> is_ack mid e \<and> wo_confirmations w' = wo_confirmations w + 1 \<and>
       (wo_closes w' = wo_closes w \<or> wo_confirmations w' \<ge> quorumSize (cluster_exec e cn)))"
proof -
  have inv: "writes_inv (cluster_exec e cn)" using assms by (simp add: tracked_def writes_inv_exec)
  show ?thesis
  proof (cases rule: exec_writes [of cn e])
    case other
    then show ?thesis using tracked_same [OF other assms] by blast
  next
    case (ack net clock sh msg j)
    have q: "quorumSize (cluster_exec e cn) = quorumSize cn" unfolding ack(4) by (rule quorumSize_cong) simp_all
    show ?thesis
    proof (cases "j = i")
      case True
      have a: "is_ack mid e" unfolding ack(1) using True ack(2,3) assms by (simp add: is_ack_def tracked_def)
      let ?w = "w\<lparr>wo_confirmations := wo_confirmations w + 1,
          wo_closes := if wo_confirmations w + 1 \<ge> quorumSize cn \<and> wo_closes w = 0 then 1 else wo_closes w\<rparr>"
      have t: "tracked i mid (cluster_exec e cn) ?w"
        using True assms inv unfolding ack(4) by (simp add: tracked_def ack_count_lookup Let_def)
      have "wo_confirmations ?w = wo_confirmations w + 1 \<and>
          (wo_closes ?w = wo_closes w \<or> wo_confirmations ?w \<ge> quorumSize (cluster_exec e cn))"
        unfolding q by simp
      with a t show ?thesis by blast
    next
      case False
      then have "tracked i mid (cluster_exec e cn) w"
        using assms inv unfolding ack(4) by (simp add: tracked_def ack_count_lookup)
      then show ?thesis by blast
    qed
  next
    case (put clock sh key data ttl)
    then have "tracked i mid (cluster_exec e cn) w" using tracked_put [OF assms] by simp
    then show ?thesis by blast
  next
    case (fin v j mid')
    then have "tracked i mid (cluster_exec e cn) w" using inv assms by (simp add: tracked_def Put_finish_def)
    then show ?thesis by blast
  qed
qed

lemma tracked_quorum:
  assumes "tracked i mid cn w" "wo_closes w = 0" "wait_enabled WaitComplete i (cluster_run es cn)"
  shows "\<exists>es1 es2. es = es1 @ es2 \<and>
    quorumSize (cluster_run es1 cn) \<le> wo_confirmations w + int (length (filter (is_ack mid) es1))"
  using assms
proof (induction es arbitrary: cn w)
  case Nil
  then show ?case by (simp add: wait_enabled_def tracked_def)
next
  case (Cons e es)
  obtain w' where t: "tracked i mid (cluster_exec e cn) w'"
    and d: "w' = w \<or> is_ack mid e \<and> wo_confirmations w' = wo_confirmations w + 1 \<and>
       (wo_closes w' = wo_closes w \<or> wo_confirmations w' \<ge> quorumSize (cluster_exec e cn))"
    using tracked_step [OF Cons.prems(1)] by blast
  show ?case
  proof (cases "wo_closes w' = 0")
    case True
    then obtain es1 es2 where "es = es1 @ es2" and
      q: "quorumSize (cluster_run es1 (cluster_exec e cn)) \<le> wo_confirmations w' + int (length (filter (is_ack mid) es1))"
      using Cons.IH [OF t True] Cons.prems(3) by auto
    then have "e # es = (e # es1) @ es2" by simp
    moreover have "quorumSize (cluster_run (e # es1) cn) \<le> wo_confirmations w + int (length (filter (is_ack mid) (e # es1)))"
      using q d by auto
    ultimately show ?thesis by blast
  next
    case False
    then have "is_ack mid e" "quorumSize (cluster_exec e cn) \<le> wo_confirmations w + 1"
      using d Cons.prems(2) by auto
    then have "quorumSize (cluster_run [e] cn) \<le> wo_confirmations w + int (length (filter (is_ack mid) [e]))" by simp
    then show ?thesis by (metis append_Cons append_Nil)
  qed
qed

section \<open>Client writes\<close>

text \<open>
  C5. A client write is reported successful only with a quorum: if the \<open>select\<close> of a waiting \<open>Put\<close> can
  take its success branch after any sequence of events (other writes, replicas, joins, evictions,
  re-bootstraps), then at some earlier moment the local write plus the acknowledgements received
  for exactly this message had reached the quorum that was in force at that moment; and the call then
  returns no error.
\<close>

theorem put_success_needs_quorum:
  assumes "writes_inv cn" "Put_begin clock sh key data ttl cn = (cn', outs, PutWaiting i mid)"
    and "wait_enabled WaitComplete i (cluster_run es cn')"
  shows "(\<exists>es1 es2. es = es1 @ es2 \<and>
      quorumSize (cluster_run es1 cn') \<le> 1 + int (length (filter (is_ack mid) es1))) \<and>
    snd (Put_finish WaitComplete i mid (cluster_run es cn')) = None"
proof -
  have inv: "writes_inv cn'" using writes_inv_put [OF assms(1), of clock sh key data ttl] assms(2) by simp
  have ns: "\<not> same_writes cn cn'"
    using assms(2) by (auto simp: Put_begin_def Let_def same_writes_def case_prod_beta split: option.splits if_splits)
  note w = Put_begin_writes [OF assms(2)]
  from w ns obtain v where v: "gm_lookup (cn_ops cn') i = Some v" "wo_confirmations v = 1" "wo_closes v = 0"
    and i: "i = cn_next cn" by auto
  have "mid' = mid" if "gm_lookup (cn_pending cn') mid' = Some i" for mid'
  proof -
    have "mid' = mid \<or> gm_lookup (cn_pending cn) mid' = Some i" using w ns that by blast
    then show ?thesis using assms(1) i by (auto simp: writes_inv_def)
  qed
  then have "tracked i mid cn' v" using inv v by (simp add: tracked_def)
  from tracked_quorum [OF this v(3) assms(3)] v(2)
  have q: "\<exists>es1 es2. es = es1 @ es2 \<and>
      quorumSize (cluster_run es1 cn') \<le> 1 + int (length (filter (is_ack mid) es1))" by simp
  have "writes_inv (cluster_run es cn')" by (rule writes_inv_run [OF inv])
  with assms(3) have "snd (Put_finish WaitComplete i mid (cluster_run es cn')) = None"
    by (auto simp: wait_enabled_def Put_finish_def writes_inv_def op_ok_def split: option.splits)
  with q show ?thesis by blast
qed

lemma Put_begin_store:
  assumes "Put_begin clock sh key data ttl cn = (cn', outs, r)"
  shows "(\<exists>e. r = PutFailed e) \<and> cn_store cn' = cn_store cn \<and> outs = [] \<or>
    (\<nexists>e. r = PutFailed e) \<and>
      Put (clock 2) key data (clampTTL (cn_limits cn) (go_quot ttl nsec)) (cn_store cn) = (cn_store cn', None)"
proof -
  let ?P = "Put (clock 2) key data (clampTTL (cn_limits cn) (go_quot ttl nsec)) (cn_store cn)"
  obtain st res where p: "?P = (st, res)" by (cases ?P)
  have "st = cn_store cn" if "res \<noteq> None" using p that mem.put_refused by (metis option.exhaust)
  with assms p show ?thesis
    by (auto simp: Put_begin_def Let_def case_prod_beta split: option.splits if_splits)
qed

text \<open>
  C6. A client write is durable locally before the call can return: once \<open>Put\<close> is past admission and
  the local write, every read of the key returns the new value, with its write time and clamped TTL,
  until that TTL has passed, other keys are untouched, and this stays so however the wait ends
  (success, quorum timeout or cancelled context); the pending entry is gone. A write that fails before
  that stores and sends nothing.
\<close>

theorem client_write_durable:
  assumes "limits_ok (cn_limits cn)" "Put_begin clock sh key data ttl cn = (cn', outs, r)"
    and "done = fst (Put_finish w i mid cn')" "ttl' = clampTTL (cn_limits cn) (go_quot ttl nsec)"
  shows "case r of
      PutFailed e \<Rightarrow> cn_store cn' = cn_store cn \<and> outs = []
    | _ \<Rightarrow> MinTTLSeconds * nsec \<le> ttl' \<and> gm_lookup (cn_pending done) mid = None \<and>
        (\<forall>t k. cluster_GetWithMetadata t k done =
           (if k = key then if t < clock 2 + ttl' then Some (data, clock 2, ttl') else None
            else cluster_GetWithMetadata t k cn))"
proof (cases "\<exists>e. r = PutFailed e")
  case True
  then show ?thesis using Put_begin_store [OF assms(2)] by auto
next
  case False
  then have p: "Put (clock 2) key data ttl' (cn_store cn) = (cn_store cn', None)"
    using Put_begin_store [OF assms(2)] assms(4) by blast
  have d: "cn_store done = cn_store cn'" "gm_lookup (cn_pending done) mid = None"
    using assms(3) by (simp_all add: Put_finish_def)
  have "MinTTLSeconds * nsec \<le> ttl'"
    using clamped_range [OF assms(1)] assms(4) by (simp add: clampTTL_exact [OF assms(1)] MinTTLSeconds_def)
  moreover have "cluster_GetWithMetadata t k done =
      (if k = key then if t < clock 2 + ttl' then Some (data, clock 2, ttl') else None
       else cluster_GetWithMetadata t k cn)" for t k
    unfolding cluster_GetWithMetadata_def d using mem.get_put [OF p] by simp
  ultimately show ?thesis using False d by (cases r) auto
qed

section \<open>Replica writes\<close>

lemma MarkSeen_again: "MarkSeen t' i (fst (MarkSeen t i p)) = (fst (MarkSeen t i p), True)"
  by (auto simp: MarkSeen_def Let_def)


text \<open>
  The same holds when the first delivery failed because the store was full: the message stays marked
  as seen, and a later delivery is acknowledged as handled although nothing was stored.
\<close>

lemma replica_lost_after_full:
  assumes "handlePutMessage clock sh msg cn = (cn', effs, Some (ReplicaFailed ErrStoreFull))"
  shows "handlePutMessage clock' sh' msg cn' = (cn', [], None) \<and> cn_store cn' = cn_store cn"
proof -
  have v: "validateWrite (cn_limits cn) (msg_key msg) (msg_data msg) = None"
    using assms by (auto simp: handlePutMessage_def validateWrite_def ValidateKey_def split: option.splits if_splits)
  obtain st res where p: "Put (clock 1) (msg_key msg) (msg_data msg) (clampTTL (cn_limits cn) (msg_ttl msg)) (cn_store cn) = (st, res)"
    by (cases "Put (clock 1) (msg_key msg) (msg_data msg) (clampTTL (cn_limits cn) (msg_ttl msg)) (cn_store cn)")
  have "res = Some ErrStoreFull \<and> cn' = cn\<lparr>cn_protocol := fst (MarkSeen (clock 0) (msg_id msg) (cn_protocol cn)), cn_store := st\<rparr>"
    using assms v p by (auto simp: handlePutMessage_def Let_def case_prod_beta split: if_splits option.splits)
  then have c: "cn_limits cn' = cn_limits cn" "cn_store cn' = cn_store cn"
      "cn_protocol cn' = fst (MarkSeen (clock 0) (msg_id msg) (cn_protocol cn))"
    using p mem.put_refused by auto
  have "MarkSeen (clock' 0) (msg_id msg) (cn_protocol cn') = (cn_protocol cn', True)"
    unfolding c(3) by (rule MarkSeen_again)
  with v c show ?thesis by (simp add: handlePutMessage_def Let_def)
qed

lemma handlePut_fresh:
  assumes "validateWrite (cn_limits cn) (msg_key msg) (msg_data msg) = None"
    and "gm_lookup (p_seen (cn_protocol cn)) (msg_id msg) = None"
    and "handlePutMessage clock sh msg cn = (cn', effs, None)"
    and "ttl = clampTTL (cn_limits cn) (msg_ttl msg)" "p = fst (MarkSeen (clock 0) (msg_id msg) (cn_protocol cn))"
  shows "Put (clock 1) (msg_key msg) (msg_data msg) ttl (cn_store cn) = (cn_store cn', None)" (is ?put)
    and "cn_protocol cn' = p" (is ?proto)
    and "effs =
      (case find (\<lambda>peer. n_id peer = msg_from msg) (getPeers p) of
         Some peer \<Rightarrow> [SendTo peer (ack_message (clock 2) msg cn)]
       | None \<Rightarrow> if cn_has_router cn then [CallRouteAck (ack_message (clock 2) msg cn)] else []) @
      map (\<lambda>(n, m). SendTo n m) (ForwardToEnclave sh (msg\<lparr>msg_ttl := go_quot ttl nsec\<rparr>) p) @
      (if cn_has_broadcaster cn then [CallBroadcastToChildren (msg\<lparr>msg_ttl := go_quot ttl nsec\<rparr>)] else [])" (is ?effs)
proof -
  have m: "MarkSeen (clock 0) (msg_id msg) (cn_protocol cn) = (p, False)"
    using assms(2,5) by (simp add: MarkSeen_def Let_def)
  obtain st res where q: "Put (clock 1) (msg_key msg) (msg_data msg) ttl (cn_store cn) = (st, res)"
    by (cases "Put (clock 1) (msg_key msg) (msg_data msg) ttl (cn_store cn)")
  have loc: "p_local p = p_local (cn_protocol cn)"
    using MarkSeen_routes [of "cn_protocol cn"] assms(5) by (simp add: same_routes_def)
  have "res = None" using assms(1,3,4) m q by (simp add: handlePutMessage_def Let_def split: option.splits)
  moreover have "ack_message (clock 2) (msg\<lparr>msg_ttl := go_quot ttl nsec\<rparr>) (cn\<lparr>cn_protocol := p, cn_store := st\<rparr>)
      = ack_message (clock 2) msg cn"
    by (simp add: ack_message_def loc)
  ultimately have "handlePutMessage clock sh msg cn = (cn\<lparr>cn_protocol := p, cn_store := st\<rparr>,
      (case find (\<lambda>peer. n_id peer = msg_from msg) (getPeers p) of
         Some peer \<Rightarrow> [SendTo peer (ack_message (clock 2) msg cn)]
       | None \<Rightarrow> if cn_has_router cn then [CallRouteAck (ack_message (clock 2) msg cn)] else []) @
      map (\<lambda>(n, m). SendTo n m) (ForwardToEnclave sh (msg\<lparr>msg_ttl := go_quot ttl nsec\<rparr>) p) @
      (if cn_has_broadcaster cn then [CallBroadcastToChildren (msg\<lparr>msg_ttl := go_quot ttl nsec\<rparr>)] else []), None)"
    using assms(1,4) m q unfolding handlePutMessage_def Let_def by (simp split: option.split)
  with assms(3) have "cn' = cn\<lparr>cn_protocol := p, cn_store := st\<rparr>" and e: ?effs by auto
  then show ?put ?proto using q \<open>res = None\<close> by simp_all
  show ?effs by (rule e)
qed

definition is_ack_effect :: "Message \<Rightarrow> cluster_effect \<Rightarrow> bool" where
  "is_ack_effect ack e = (case e of SendTo n m \<Rightarrow> m = ack | CallRouteAck m \<Rightarrow> m = ack | _ \<Rightarrow> False)"

definition forwards_ok :: "string \<Rightarrow> Message \<Rightarrow> cluster_effect \<Rightarrow> bool" where
  "forwards_ok enclave accepted e =
     (case e of
        SendTo n m \<Rightarrow> m = accepted \<and> n_enclave n = enclave \<and> n_id n \<noteq> msg_from accepted
      | CallRouteAck m \<Rightarrow> False
      | CallBroadcastToChildren m \<Rightarrow> m = accepted)"

lemma ForwardToEnclave_ok:
  assumes "permutes_lists sh" "(n, m) \<in> set (ForwardToEnclave sh msg p)"
  shows "m = msg \<and> n_enclave n = n_enclave (p_local p) \<and> n_id n \<noteq> msg_from msg"
proof -
  let ?ps = "GetReplicationPeers p"
  have "m = msg" and n: "n \<in> set (selectRandomPeers sh ?ps (fanoutSize (length ?ps)) (msg_from msg))"
    using assms(2) by (auto simp: ForwardToEnclave_def Let_def split: if_splits)
  moreover have "set (selectRandomPeers sh ?ps k i) \<subseteq> {q \<in> set ?ps. n_id q \<noteq> i}" for k i
    unfolding selectRandomPeers_def Let_def using permutes_set [OF assms(1)] by (auto dest!: in_set_takeD)
  ultimately show ?thesis by (auto simp: GetReplicationPeers_def)
qed

text \<open>
  C8. An accepted replica write stores the sender's value under a TTL within this node's own limits,
  acknowledges exactly once, to the originator if it is a known peer and otherwise through the tree,
  and passes on only the accepted message: every forwarded copy carries the clamped TTL and goes to a
  peer of the local enclave other than the originator.
\<close>

theorem replica_stored_and_acked:
  assumes "proto_inv (cn_protocol cn)" "permutes_lists sh" "msg_type msg = MessageTypePut"
    and "validateWrite (cn_limits cn) (msg_key msg) (msg_data msg) = None"
    and "gm_lookup (p_seen (cn_protocol cn)) (msg_id msg) = None"
    and "handlePutMessage clock sh msg cn = (cn', effs, None)"
    and "ttl = clampTTL (cn_limits cn) (msg_ttl msg)" "ack = ack_message (clock 2) msg cn"
  shows "(\<forall>t. GetWithMetadata t (msg_key msg) (cn_store cn') =
      (if t < clock 1 + ttl then Some (msg_data msg, clock 1, ttl) else None)) \<and>
    (\<exists>acks fwds. effs = acks @ fwds \<and>
       list_all (forwards_ok (n_enclave (p_local (cn_protocol cn))) (msg\<lparr>msg_ttl := go_quot ttl nsec\<rparr>)) fwds \<and>
       acks = (case gm_lookup (p_peers (cn_protocol cn)) (msg_from msg) of
                 Some peer \<Rightarrow> [SendTo peer ack]
               | None \<Rightarrow> if cn_has_router cn then [CallRouteAck ack] else []))"
proof -
  define p where "p = fst (MarkSeen (clock 0) (msg_id msg) (cn_protocol cn))"
  note h = handlePut_fresh [OF assms(4,5,6,7) p_def]
  have r: "same_routes (cn_protocol cn) p" unfolding p_def by (rule MarkSeen_routes)
  have inv: "proto_inv p" by (rule proto_inv_routes [OF r assms(1)])
  have f: "find (\<lambda>peer. n_id peer = msg_from msg) (getPeers p) = gm_lookup (p_peers (cn_protocol cn)) (msg_from msg)"
  proof (cases "find (\<lambda>peer. n_id peer = msg_from msg) (getPeers p)")
    case None
    have "gm_lookup (p_peers p) (msg_from msg) = None"
    proof (rule ccontr)
      assume "gm_lookup (p_peers p) (msg_from msg) \<noteq> None"
      then obtain n where n: "gm_lookup (p_peers p) (msg_from msg) = Some n" by auto
      then have "n_id n = msg_from msg" using proto_inv_peer [OF inv] by (auto simp: peer_ok_def)
      with n None show False using getPeers_iff [OF inv, of n] by (auto simp: find_None_iff)
    qed
    with None r show ?thesis by (simp add: same_routes_def)
  next
    case (Some n)
    then have "n \<in> set (getPeers p)" "n_id n = msg_from msg" by (auto simp: find_Some_iff)
    with Some r show ?thesis using getPeers_iff [OF inv, of n] by (simp add: same_routes_def)
  qed
  let ?fwds = "map (\<lambda>(n, m). SendTo n m) (ForwardToEnclave sh (msg\<lparr>msg_ttl := go_quot ttl nsec\<rparr>) p) @
      (if cn_has_broadcaster cn then [CallBroadcastToChildren (msg\<lparr>msg_ttl := go_quot ttl nsec\<rparr>)] else [])"
  have loc: "p_local p = p_local (cn_protocol cn)" using r by (simp add: same_routes_def)
  have "list_all (forwards_ok (n_enclave (p_local (cn_protocol cn))) (msg\<lparr>msg_ttl := go_quot ttl nsec\<rparr>)) ?fwds"
    using ForwardToEnclave_ok [OF assms(2), of _ _ _ p] loc by (fastforce simp: list_all_iff forwards_ok_def)
  moreover have "effs = (case gm_lookup (p_peers (cn_protocol cn)) (msg_from msg) of
        Some peer \<Rightarrow> [SendTo peer ack] | None \<Rightarrow> if cn_has_router cn then [CallRouteAck ack] else []) @ ?fwds"
    unfolding h(3) f assms(8) by (simp only: append_assoc)
  moreover have "GetWithMetadata t (msg_key msg) (cn_store cn') =
      (if t < clock 1 + ttl then Some (msg_data msg, clock 1, ttl) else None)" for t
    using mem.get_put [OF h(1)] by simp
  ultimately show ?thesis by blast
qed

section \<open>A concrete node\<close>

definition ex_cluster :: ClusterNode where
  "ex_cluster = (NewClusterNode ''n1'' ''n1'' 7000 8080 3 0 1 [] [])\<lparr>cn_protocol := ex_ready\<rparr>"

lemma ex_ready_simps [simp]:
  "p_peers ex_ready = [(''n2'', ex_node ''n2'')]" "p_local ex_ready = ex_node ''n1''" "p_seen ex_ready = []"
  "p_transport_set ex_ready" "p_root_bindings ex_ready = []" "p_failures ex_ready = []"
  by (simp_all add: ex_ready_def SetTransport_def)

lemma ex_cluster_simps [simp]:
  "cn_protocol ex_cluster = ex_ready" "cn_store ex_cluster = NewMemoryStore 0" "cn_replication ex_cluster = 3"
  "cn_limits ex_cluster = DefaultWriteLimits" "cn_pending ex_cluster = []" "cn_ops ex_cluster = []"
  "cn_next ex_cluster = 0" "cn_has_router ex_cluster = False" "cn_has_broadcaster ex_cluster = False"
  by (simp_all add: ex_cluster_def NewClusterNode_def Let_def)

lemma ex_cluster_inv: "writes_inv ex_cluster"
  by (simp add: writes_inv_def)

lemma ex_quorum: "quorumSize ex_cluster = 2"
  by (simp add: quorumSize_def GetReplicationPeers_def go_quot_def)

lemma ex_valid: "validateWrite DefaultWriteLimits ''k'' ''v'' = None"
  by (simp add: validateWrite_def ValidateKey_def DefaultWriteLimits_def)

lemma ex_store: "\<exists>st. Put t ''k'' ''v'' ttl (NewMemoryStore 0) = (st, None)"
  by (simp add: Put_def NewMemoryStore_def Let_def)

definition ex_waiting :: ClusterNode where
  "ex_waiting = fst (Put_begin int id ''k'' ''v'' 0 ex_cluster)"

lemma ex_put:
  obtains outs where "Put_begin int id ''k'' ''v'' 0 ex_cluster = (ex_waiting, outs, PutWaiting 0 ''k-1'')"
proof -
  have "Itoa 1 = ''1''" by (simp add: Itoa_def nat_digits.simps digit_chars)
  then have "snd (snd (Put_begin int id ''k'' ''v'' 0 ex_cluster)) = PutWaiting 0 ''k-1''"
    using ex_store [of 2 "clampTTL DefaultWriteLimits (go_quot 0 nsec)"]
    by (auto simp: Put_begin_def ex_valid ex_quorum Let_def put_message_def case_prod_beta)
  then show ?thesis using that unfolding ex_waiting_def by (cases "Put_begin int id ''k'' ''v'' 0 ex_cluster") auto
qed

definition ex_ack :: cluster_event where
  "ex_ack = CeGossip ex_up int id (blank_message\<lparr>msg_type := MessageTypeAck, msg_from := ''n2'', msg_id := ''k-1''\<rparr>)"

lemma ex_waiting_simps:
  "gm_lookup (cn_pending ex_waiting) ''k-1'' = Some 0"
  "\<exists>w. gm_lookup (cn_ops ex_waiting) 0 = Some w \<and> wo_confirmations w = 1 \<and> wo_closes w = 0"
  "quorumSize ex_waiting = 2"
proof -
  have i: "Itoa 1 = ''1''" by (simp add: Itoa_def nat_digits.simps digit_chars)
  obtain st where st: "Put 2 ''k'' ''v'' (clampTTL DefaultWriteLimits (go_quot 0 nsec)) (NewMemoryStore 0) = (st, None)"
    using ex_store by blast
  show "gm_lookup (cn_pending ex_waiting) ''k-1'' = Some 0"
    "\<exists>w. gm_lookup (cn_ops ex_waiting) 0 = Some w \<and> wo_confirmations w = 1 \<and> wo_closes w = 0"
    using i st by (simp_all add: ex_waiting_def Put_begin_def ex_valid ex_quorum Let_def put_message_def case_prod_beta)
  have "quorumSize ex_waiting = quorumSize ex_cluster"
    using st BroadcastToEnclave_routes [of ex_ready id]
    by (simp add: ex_waiting_def Put_begin_def ex_valid ex_quorum Let_def case_prod_beta quorumSize_def
        GetReplicationPeers_def same_routes_def)
  then show "quorumSize ex_waiting = 2" by (simp add: ex_quorum)
qed

lemma ex_completes: "wait_enabled WaitComplete 0 (cluster_run [ex_ack] ex_waiting)"
proof -
  have "cluster_run [ex_ack] ex_waiting = ack_count 0 ex_waiting"
    using ex_waiting_simps(1)
    by (simp add: ex_ack_def HandleGossipMessage_def handleGossipMessage_def handleAckMessage_def ack_find_def
        is_protocol_type_def message_types)
  then show ?thesis using ex_waiting_simps(2,3) by (auto simp: wait_enabled_def ack_count_lookup Let_def)
qed

theorem put_success_needs_quorum_witness:
  "(\<exists>es1 es2. [ex_ack] = es1 @ es2 \<and>
      quorumSize (cluster_run es1 ex_waiting) \<le> 1 + int (length (filter (is_ack ''k-1'') es1))) \<and>
   snd (Put_finish WaitComplete 0 ''k-1'' (cluster_run [ex_ack] ex_waiting)) = None"
proof -
  obtain outs where "Put_begin int id ''k'' ''v'' 0 ex_cluster = (ex_waiting, outs, PutWaiting 0 ''k-1'')"
    by (rule ex_put)
  from put_success_needs_quorum [OF ex_cluster_inv this ex_completes] show ?thesis .
qed

theorem client_write_durable_witness:
  "cluster_GetWithMetadata 5 ''k'' (fst (Put_finish WaitTimeout 0 ''k-1'' ex_waiting)) = Some (''v'', 2, 300 * nsec)"
proof -
  obtain outs where p: "Put_begin int id ''k'' ''v'' 0 ex_cluster = (ex_waiting, outs, PutWaiting 0 ''k-1'')"
    by (rule ex_put)
  have t: "clampTTL (cn_limits ex_cluster) (go_quot 0 nsec) = 300 * nsec"
    using clampTTL_exact [OF limits_ok_default]
    by (simp add: clamped_def DefaultWriteLimits_def MinTTLSeconds_def DefaultMaxTTLSeconds_def go_quot_def)
  show ?thesis
    using client_write_durable [OF _ p refl refl, of WaitTimeout 0 "''k-1''"] limits_ok_default
    unfolding t by (simp add: nsec_def)
qed

definition ex_replica :: Message where
  "ex_replica = blank_message\<lparr>msg_type := MessageTypePut, msg_from := ''n2'', msg_key := ''k'', msg_data := ''v'',
     msg_ttl := 600, msg_id := ''m''\<rparr>"

lemma ex_replica_simps [simp]:
  "msg_type ex_replica = MessageTypePut" "msg_from ex_replica = ''n2''" "msg_key ex_replica = ''k''"
  "msg_data ex_replica = ''v''" "msg_ttl ex_replica = 600" "msg_id ex_replica = ''m''"
  by (simp_all add: ex_replica_def)

lemma ex_replica_run:
  obtains cn' effs where "handlePutMessage int id ex_replica ex_cluster = (cn', effs, None)"
  using ex_store [of 1 "clampTTL DefaultWriteLimits 600"]
  by (auto simp: handlePutMessage_def ex_valid Let_def MarkSeen_def maxSeenMessages_def)


theorem replica_stored_and_acked_witness:
  "GetWithMetadata 5 ''k'' (cn_store (fst (handlePutMessage int id ex_replica ex_cluster))) = Some (''v'', 1, 600 * nsec)"
proof -
  obtain cn' effs where h: "handlePutMessage int id ex_replica ex_cluster = (cn', effs, None)"
    by (rule ex_replica_run)
  have inv: "proto_inv (cn_protocol ex_cluster)"
    using proto_inv_routes [of ex_two ex_ready] ex_two_inv
    by (simp add: same_routes_def ex_ready_def SetTransport_def)
  have t: "clampTTL (cn_limits ex_cluster) (msg_ttl ex_replica) = 600 * nsec"
    using clampTTL_exact [OF limits_ok_default]
    by (simp add: clamped_def DefaultWriteLimits_def MinTTLSeconds_def DefaultMaxTTLSeconds_def)
  show ?thesis
    using replica_stored_and_acked [OF inv _ _ _ _ h refl refl] h unfolding t
    by (simp add: permutes_lists_def ex_valid nsec_def)
qed

end
