(* ===== verification/Ws_Facts.thy ===== *)
theory Ws_Facts
  imports Ws Endpoint_Facts
begin

text \<open>Facts about message transport: the wire round trip, authentication of frames, and the life of a
  connection.\<close>

section \<open>Wire form\<close>

lemma wire_node: "wire_to_node (node_to_wire n) = n\<lparr>n_enclave := default_enclave (n_enclave n)\<rparr>"
  by (simp add: wire_to_node_def node_to_wire_def default_enclave_def)

text \<open>
  What a peer decodes is the message that was sent: the wire form loses only the sub-second part
  of the timestamp and the bits of the TTL beyond 32, and an empty enclave arrives as the default one.
  A message with a TTL in the range of the admission limits and whole seconds arrives unchanged.
\<close>

theorem wire_roundtrip:
  "wireToMessage (messageToWire msg) =
     msg\<lparr>msg_ttl := to_int32 (msg_ttl msg), msg_timestamp := msg_timestamp msg div nsec * nsec,
         msg_node_info := map_option (\<lambda>n. n\<lparr>n_enclave := default_enclave (n_enclave n)\<rparr>) (msg_node_info msg)\<rparr> \<and>
   (0 \<le> msg_ttl msg \<and> msg_ttl msg \<le> max_int32 \<and> nsec dvd msg_timestamp msg \<and> msg_node_info msg = None \<longrightarrow>
      wireToMessage (messageToWire msg) = msg)"
  by (cases msg)
    (auto simp: wireToMessage_def messageToWire_def wire_node option.map_comp o_def to_int32_id)

theorem wire_roundtrip_witness:
  "wireToMessage (messageToWire (blank_message\<lparr>msg_ttl := 300\<rparr>)) = blank_message\<lparr>msg_ttl := 300\<rparr>"
  using wire_roundtrip [of "blank_message\<lparr>msg_ttl := 300\<rparr>"] by (simp add: blank_message_def max_int32_def to_int32_def)

section \<open>Authentication\<close>

text \<open>
  C28. On a connection with a cluster secret no handler ever sees an unauthenticated frame: whatever
  arrives, a handler runs only if the frame carries the HMAC of its exact payload under the secret.
\<close>

theorem frames_authenticated:
  assumes "co_secret c \<noteq> []" "handleFrame hmac dec decm data c \<noteq> []"
  shows "\<exists>env. dec data = Some env \<and> at_signature env \<noteq> [] \<and>
    hmac (co_secret c) (at_payload env) = at_signature env"
  using assms by (auto simp: handleFrame_def VerifyBody_def SignBody_def split: option.splits if_splits)

theorem frames_authenticated_witness:
  "\<exists>env. (\<lambda>d. Some \<lparr>at_type = ''put'', at_signature = ''ok'', at_payload = d\<rparr>) ''x'' = Some env \<and>
     at_signature env \<noteq> [] \<and> (\<lambda>s b. ''ok'') ''secret'' (at_payload env) = at_signature env"
  using frames_authenticated [of "NewConnection ''secret''" "\<lambda>s b. ''ok''"
      "\<lambda>d. Some \<lparr>at_type = ''put'', at_signature = ''ok'', at_payload = d\<rparr>" "\<lambda>d. None" "''x''"]
  by (simp add: NewConnection_def handleFrame_def VerifyBody_def SignBody_def isGossipType_def attachment_types)

lemma gossipTypeFor_gossip: "isGossipType (gossipTypeFor t) \<and> gossipTypeFor t \<noteq> []"
  by (simp add: gossipTypeFor_def isGossipType_def attachment_types)

text \<open>
  A gossip message sent over an attachment is delivered: the peer with the same secret accepts the
  frame and its message handler receives the decoded message, after its attachment handlers. The JSON
  codec and the HMAC are arguments; of them it is assumed that decoding inverts encoding on this frame
  and that a signature is not empty.
\<close>

theorem gossip_frame_delivered:
  assumes "\<not> co_closed c" "co_secret d = co_secret c" "w = messageToWire msg" "encm w \<noteq> []"
    and "co_secret c \<noteq> [] \<Longrightarrow> hmac (co_secret c) (encm w) \<noteq> []"
    and "env = \<lparr>at_type = gossipTypeFor (msg_type msg),
       at_signature = (if co_secret c \<noteq> [] then SignBody hmac (co_secret c) (encm w) else []), at_payload = encm w\<rparr>"
    and "dec (enc env) = Some env" "decm (encm w) = Some w"
  shows "SendGossip hmac enc encm msg c = c\<lparr>co_sent := co_sent c @ [enc env]\<rparr> \<and>
    handleFrame hmac dec decm (enc env) d =
      map (\<lambda>(i, fn). FireAttachment fn env) (co_attachment_handlers d) @ [FireMessage (wireToMessage w)]"
  using assms gossipTypeFor_gossip [of "msg_type msg"]
  by (simp add: SendGossip_def SendAttachment_def writeFrame_def handleFrame_def VerifyBody_def SignBody_def Let_def)

theorem gossip_frame_delivered_witness:
  "handleFrame (\<lambda>s b. ''sig'') (\<lambda>f. Some \<lparr>at_type = ''put'', at_signature = ''sig'', at_payload = ''m''\<rparr>)
     (\<lambda>b. Some (messageToWire blank_message)) ''frame'' (NewConnection ''secret'')
   = [FireMessage (wireToMessage (messageToWire blank_message))]"
  using gossip_frame_delivered [of "NewConnection ''secret''" "NewConnection ''secret''" "messageToWire blank_message"
      blank_message "\<lambda>w. ''m''" "\<lambda>s b. ''sig''" "\<lparr>at_type = ''put'', at_signature = ''sig'', at_payload = ''m''\<rparr>"
      "\<lambda>f. Some \<lparr>at_type = ''put'', at_signature = ''sig'', at_payload = ''m''\<rparr>" "\<lambda>e. ''frame''"
      "\<lambda>b. Some (messageToWire blank_message)"]
  by (simp add: NewConnection_def SignBody_def gossipTypeFor_def blank_message_def message_types attachment_types)

section \<open>The life of a connection\<close>

datatype conn_event =
  CoAddAttachment string | CoAddClose string | CoRemoveAttachment nat | CoRemoveClose nat
  | CoRemote string string | CoSend bytes | CoStartHeartbeat | CoStopHeartbeat | CoClose | CoTick | CoPong | CoReadError

fun conn_exec :: "conn_event \<Rightarrow> Connection \<Rightarrow> Connection" where
  "conn_exec (CoAddAttachment fn) c = fst (AddAttachmentHandler fn c)"
| "conn_exec (CoAddClose fn) c = fst (AddCloseHandler fn c)"
| "conn_exec (CoRemoveAttachment i) c = remove_attachment_handler i c"
| "conn_exec (CoRemoveClose i) c = remove_close_handler i c"
| "conn_exec (CoRemote i e) c = SetRemote i e c"
| "conn_exec (CoSend f) c = writeFrame f c"
| "conn_exec CoStartHeartbeat c = StartHeartbeat c"
| "conn_exec CoStopHeartbeat c = StopHeartbeat c"
| "conn_exec CoClose c = closeWith c"
| "conn_exec CoTick c = fst (heartbeat_tick c)"
| "conn_exec CoPong c = pong_received c"
| "conn_exec CoReadError c = fst (read_error c)"

definition conn_run :: "conn_event list \<Rightarrow> Connection \<Rightarrow> Connection" where
  "conn_run es c = fold conn_exec es c"

definition conn_inv :: "Connection \<Rightarrow> bool" where
  "conn_inv c \<longleftrightarrow> co_hb_closes c \<le> 1 \<and> co_fired c = (if co_reading c then 0 else 1) \<and>
     (\<not> co_reading c \<longrightarrow> co_closed c) \<and> (co_once c \<longrightarrow> co_closed c) \<and> (co_closed c \<longrightarrow> co_hb_closes c = 1) \<and>
     (\<not> co_closed c \<and> co_hb_started c \<longrightarrow> co_missed c \<le> MaxMissedPongs)"

lemmas conn_ops = AddAttachmentHandler_def AddCloseHandler_def remove_attachment_handler_def remove_close_handler_def
  SetRemote_def writeFrame_def StartHeartbeat_def StopHeartbeat_def closeWith_def heartbeat_tick_def pong_received_def
  read_error_def closeHeartbeat_def Let_def

lemma conn_inv_New: "conn_inv (NewConnection s)"
  by (simp add: conn_inv_def NewConnection_def)

lemma conn_inv_exec: "conn_inv c \<Longrightarrow> conn_inv (conn_exec e c)"
  by (cases e) (auto simp: conn_inv_def conn_ops MaxMissedPongs_def)

lemma conn_inv_run: "conn_inv c \<Longrightarrow> conn_inv (conn_run es c)"
  unfolding conn_run_def by (induction es arbitrary: c) (simp_all add: conn_inv_exec)

lemma closed_stays: "co_closed c \<Longrightarrow> co_closed (conn_exec e c) \<and> co_sent (conn_exec e c) = co_sent c"
  by (cases e) (auto simp: conn_ops)

lemma closed_run: "co_closed c \<Longrightarrow> co_closed (conn_run es c) \<and> co_sent (conn_run es c) = co_sent c"
  unfolding conn_run_def
proof (induction es arbitrary: c)
  case (Cons e es)
  then show ?case using closed_stays [of c e] by simp
qed simp

text \<open>
  A connection ends once and for all: in every sequence of calls, frames, ticks and socket errors
  the close handlers run at most once and the heartbeat channel is closed at most once (closing it
  twice would panic); from the moment the connection is closed it stays closed, its heartbeat is
  stopped, and nothing is written to the socket any more.
\<close>

theorem connection_closes_once:
  assumes "c = conn_run es (NewConnection secret)"
  shows "co_fired c \<le> 1 \<and> co_hb_closes c \<le> 1 \<and>
    (co_closed c \<longrightarrow> co_hb_closes c = 1 \<and> (\<forall>es'. co_closed (conn_run es' c) \<and> co_sent (conn_run es' c) = co_sent c))"
  using conn_inv_run [OF conn_inv_New, of es secret] closed_run [of c] assms by (auto simp: conn_inv_def)

theorem connection_closes_once_witness:
  "co_fired (conn_run [CoClose, CoReadError, CoReadError, CoClose] (NewConnection [])) \<le> 1 \<and>
   co_closed (conn_run [CoClose, CoReadError, CoReadError, CoClose] (NewConnection []))"
  using connection_closes_once [OF refl, of "[CoClose, CoReadError, CoReadError, CoClose]" "[]"]
  by (simp add: conn_run_def conn_ops NewConnection_def)

text \<open>
  A silent peer is detected: with the heartbeat running and no pong, the connection is terminated
  by exactly the fourth tick after the last pong, and not by an earlier one.
\<close>

theorem heartbeat_detects_silence:
  assumes "\<not> co_closed c" "co_hb_started c" "co_hb_closes c = 0" "co_missed c = 0" "co_once c = False"
  shows "\<not> co_closed (conn_run [CoTick, CoTick, CoTick] c) \<and>
    co_closed (conn_run [CoTick, CoTick, CoTick, CoTick] c) \<and>
    \<not> co_closed (conn_run [CoTick, CoTick, CoTick, CoPong, CoTick, CoTick, CoTick] c)"
  using assms by (simp add: conn_run_def conn_ops MaxMissedPongs_def)

theorem heartbeat_detects_silence_witness:
  "co_closed (conn_run [CoTick, CoTick, CoTick, CoTick] (StartHeartbeat (NewConnection [])))"
  using heartbeat_detects_silence [of "StartHeartbeat (NewConnection [])"]
  by (simp add: StartHeartbeat_def NewConnection_def)

end
