(* ===== verification/Server_Facts.thy ===== *)
theory Server_Facts
  imports Server Cluster_Facts Ws_Facts
begin

text \<open>
  The node process over its components: what a client of the HTTP data plane can rely on, and what a signed
  gossip request does on the receiving node.
\<close>

section \<open>Limits of the handlers\<close>

lemma SetWriteLimits_accepted:
  assumes "SetWriteLimits l cn = (cn', None)"
  shows "limits_ok (cn_limits cn') \<and> wl_min_ttl (cn_limits cn') = max (wl_min_ttl l) MinTTLSeconds \<and>
    wl_max_ttl (cn_limits cn') = wl_max_ttl l"
  using assms by (simp add: SetWriteLimits_def Let_def limits_ok_def split: if_splits) (auto simp: not_le not_less)

lemma configured_limits:
  assumes "make_node env c = Some cn"
  shows "limits_ok (cn_limits cn) \<and> wl_min_ttl (cn_limits cn) = max (nc_min_ttl c) MinTTLSeconds \<and> wl_max_ttl (cn_limits cn) = nc_max_ttl c"
proof -
  let ?cn = "NewClusterNode (nc_id c) (nc_address c) (nc_gossip_port c) (nc_http_port c) (nc_replication c)
    (to_int64 (nc_storage_mb c * 1024 * 1024)) (to_int64 (nc_write_timeout c * nsec)) (nc_secret c) (nc_enclave c)"
  obtain cn1 e where set: "SetWriteLimits (node_limits env c) ?cn = (cn1, e)" by (cases "SetWriteLimits (node_limits env c) ?cn")
  have "e = None \<and> cn = SetHTTPOrigin (nc_origin c) cn1" using assms unfolding make_node_def Let_def set by (cases e) simp_all
  then show ?thesis using SetWriteLimits_accepted [of "node_limits env c" ?cn cn1] set by (simp add: SetHTTPOrigin_def node_limits_def)
qed

lemma config_min_ttl:
  assumes "read_config env mcp g = Some c"
  shows "MinTTLSeconds \<le> nc_min_ttl c"
proof -
  let ?n = "if env ''NODE_HTTP_ORIGIN'' = [] then Some [] else Normalize (env ''NODE_HTTP_ORIGIN'')"
  have "nc_min_ttl c = (if envInt env ''NODE_MIN_TTL'' 300 < MinTTLSeconds then MinTTLSeconds else envInt env ''NODE_MIN_TTL'' 300)"
  proof (cases ?n)
    case None
    show ?thesis using assms unfolding read_config_def Let_def None by simp
  next
    case (Some o1)
    show ?thesis using assms unfolding read_config_def Let_def Some option.case option.inject by (rule subst) (rule node_config.select_convs)
  qed
  then show ?thesis by simp
qed

text \<open>The handlers bound a TTL by the limits that the node enforces.\<close>

lemma server_limits_agree:
  assumes "read_config env mcp g = Some c" "make_node env c = Some cn"
  shows "hs_min_ttl (make_server env c) = wl_min_ttl (cn_limits cn) \<and> hs_max_ttl (make_server env c) = wl_max_ttl (cn_limits cn)"
  using configured_limits [OF assms(2)] config_min_ttl [OF assms(1)] by (simp add: make_server_def)

lemma bounded_ttl_clamped:
  "hs_min_ttl s = wl_min_ttl l \<Longrightarrow> hs_max_ttl s = wl_max_ttl l \<Longrightarrow> wl_min_ttl l \<le> wl_max_ttl l \<Longrightarrow> bounded_ttl s t = clamped l t"
  by (simp add: bounded_ttl_def clamped_def)

lemma int_seconds_between:
  "m * nsec \<le> d \<Longrightarrow> d \<le> n * nsec \<Longrightarrow> 0 \<le> m \<Longrightarrow> n < 2 ^ 53 \<Longrightarrow> m \<le> int_seconds d \<and> int_seconds d \<le> n"
  unfolding int_seconds_def using Duration_Seconds_between [of m d n] float_to_int_between [of m "Duration_Seconds d" n] by simp

lemma int_seconds_whole: "0 \<le> n \<Longrightarrow> n < 2 ^ 53 \<Longrightarrow> int_seconds (n * nsec) = n"
  using int_seconds_between [of n "n * nsec" n] by simp

section \<open>Writes over HTTP\<close>

text \<open>A write whose TTL was bounded before: the node keeps that TTL.\<close>

lemma clamped_seconds: "limits_ok l \<Longrightarrow> 300 \<le> clamped l s \<and> clamped l s \<le> max_int32"
  using clamped_range [of l s] by (simp add: limits_ok_def)

lemma seconds_exact: "300 \<le> ttl \<Longrightarrow> ttl \<le> max_int32 \<Longrightarrow> to_int64 (ttl * nsec) = ttl * nsec"
  by (intro to_int64_id) (simp_all add: nsec_def max_int32_def max_int64_def)

lemma bounded_put:
  assumes "limits_ok (cn_limits cn)" "ttl = clamped (cn_limits cn) s"
    and "Put_begin clock sh key data (to_int64 (ttl * nsec)) cn = (cn', outs, r)"
  shows "(\<exists>e. r = PutFailed e) \<and> cn_store cn' = cn_store cn \<and> outs = [] \<or>
    (\<nexists>e. r = PutFailed e) \<and> Put (clock 2) key data (ttl * nsec) (cn_store cn) = (cn_store cn', None)"
proof -
  have t: "300 \<le> ttl" "ttl \<le> max_int32" using clamped_seconds [OF assms(1)] assms(2) by simp_all
  have "go_quot (ttl * nsec) nsec = ttl" using t by (simp add: go_quot_nonneg nsec_def)
  moreover have "clampTTL (cn_limits cn) ttl = ttl * nsec"
    unfolding clampTTL_exact [OF assms(1)] using clamped_range [OF assms(1), of s] by (simp add: assms(2) clamped_def)
  ultimately have c: "clampTTL (cn_limits cn) (go_quot (to_int64 (ttl * nsec)) nsec) = ttl * nsec" using seconds_exact [OF t] by simp
  show ?thesis using Put_begin_store [OF assms(3)] unfolding c .
qed

lemma putHandler_store:
  assumes "limits_ok (cn_limits cn)" "hs_min_ttl s = wl_min_ttl (cn_limits cn)" "hs_max_ttl s = wl_max_ttl (cn_limits cn)"
    and "ttl = bounded_ttl s (requested_ttl query header)"
    and "putHandler clock sh s key query header body cn = (cn', outs, r)"
  shows "(\<exists>st. r = PutReply st \<and> st \<noteq> 201) \<and> cn_store cn' = cn_store cn \<and> outs = [] \<or>
    (r = PutReply 201 \<or> (\<exists>i mid. r = PutPending i mid)) \<and>
     (\<exists>data. body = Some data \<and> Put (clock 2) key data (ttl * nsec) (cn_store cn) = (cn_store cn', None))"
proof (cases "\<exists>data. body = Some data \<and> ValidateKey (cn_limits cn) key = None \<and> int (length data) \<le> wl_max_value (cn_limits cn)")
  case False
  then have "\<exists>st. putHandler clock sh s key query header body cn = (cn, [], PutReply st) \<and> st \<noteq> 201"
    by (cases body; cases "ValidateKey (cn_limits cn) key") (simp_all add: putHandler_def)
  then show ?thesis using assms(5) by auto
next
  case True
  then obtain data where d: "body = Some data" "ValidateKey (cn_limits cn) key = None" "\<not> int (length data) > wl_max_value (cn_limits cn)"
    by auto
  have ttl: "ttl = clamped (cn_limits cn) (requested_ttl query header)"
    unfolding assms(4) using assms(1-3) by (intro bounded_ttl_clamped) (simp_all add: limits_ok_def)
  obtain cn1 outs1 r1 where p: "Put_begin clock sh key data (to_int64 (ttl * nsec)) cn = (cn1, outs1, r1)"
    by (cases "Put_begin clock sh key data (to_int64 (ttl * nsec)) cn")
  then have r: "cn' = cn1" "outs = outs1"
    "r = (case r1 of PutFailed err \<Rightarrow> PutReply (put_status (Some err)) | PutDone \<Rightarrow> PutReply 201 | PutWaiting i mid \<Rightarrow> PutPending i mid)"
    using assms(4,5) d by (auto simp: putHandler_def put_status_def split: put_outcome.splits)
  have "put_status (Some e) \<noteq> 201" for e by (auto simp: put_status_def split: cluster_error.split store_error.split)
  then show ?thesis using bounded_put [OF assms(1) ttl p] unfolding r using d(1) by (cases r1) auto
qed


definition ex_server :: HTTPServer where
  "ex_server = \<lparr>hs_node_id = ''n1'', hs_network = ''private'', hs_min_ttl = 300, hs_max_ttl = 86400, hs_stream_disabled = False, hs_stream_active = 0\<rparr>"

definition ex_single :: ClusterNode where
  "ex_single = NewClusterNode ''n1'' ''n1'' 7000 8080 3 0 1 [] []"

lemma ex_single_simps [simp]:
  "cn_limits ex_single = DefaultWriteLimits" "cn_store ex_single = NewMemoryStore 0" "cn_secret ex_single = []"
  by (simp_all add: ex_single_def NewClusterNode_def Let_def)

lemma ex_single_done:
  obtains cn' where "Put_begin int id ''k'' ''v'' t ex_single = (cn', [], PutDone)"
proof -
  have q: "quorumSize ex_single = 1"
    by (simp add: ex_single_def quorumSize_def GetReplicationPeers_def NewClusterNode_def NewProtocol_def Let_def go_quot_def)
  obtain st where st: "Put 2 ''k'' ''v'' (clampTTL DefaultWriteLimits (go_quot t nsec)) (NewMemoryStore 0) = (st, None)"
    using ex_store by blast
  then show ?thesis using that by (simp add: Put_begin_def ex_valid q Let_def)
qed

lemma ex_single_put:
  obtains cn' where "putHandler int id ex_server ''k'' [] [] (Some ''v'') ex_single = (cn', [], PutReply 201)"
proof -
  have v: "ValidateKey DefaultWriteLimits ''k'' = None" "\<not> int (length ''v'') > wl_max_value DefaultWriteLimits"
    by (simp_all add: ValidateKey_def DefaultWriteLimits_def)
  obtain cn' where "Put_begin int id ''k'' ''v'' (to_int64 (bounded_ttl ex_server (requested_ttl [] []) * nsec)) ex_single = (cn', [], PutDone)"
    by (rule ex_single_done)
  then have "putHandler int id ex_server ''k'' [] [] (Some ''v'') ex_single = (cn', [], PutReply 201)"
    using v by (simp add: putHandler_def put_status_def Let_def)
  then show ?thesis by (rule that)
qed


section \<open>Gossip over HTTP\<close>

definition signature_header :: "http_request \<Rightarrow> string" where
  "signature_header req = (case hr_signature req of None \<Rightarrow> [] | Some sig \<Rightarrow> sig)"

lemma signed_body_verifies:
  assumes "secret \<noteq> [] \<Longrightarrow> hmac secret body \<noteq> []" "cn_secret cn = secret"
  shows "verifyGossipSignature hmac (if secret \<noteq> [] then SignBody hmac secret body else []) body cn = None"
  using assms by (auto simp: verifyGossipSignature_def VerifyBody_def SignBody_def)

text \<open>
  C33. The HTTP sender and the gossip handler fit together: a message sent to a node with the same secret reaches
  the node's message handler as the wire form of that message, and the sender reports success exactly when the
  handler accepted it. The JSON codec and HMAC are arguments; decoding has to invert encoding on this message,
  and the digest must not be the empty string, which the handler takes for a missing header.
\<close>

theorem gossip_http_delivery:
  assumes "Origin node = Some origin" "Client (Some client) = Some client'"
    and "enc (messageToWire msg) = Some body" "dec body = Some (messageToWire msg)"
    and "secret \<noteq> [] \<Longrightarrow> hmac secret body \<noteq> []" "cn_secret cn = secret"
    and "handler = (\<lambda>req. gossipHandler hmac dec net clock sh (signature_header req) (Some (hr_body req)) cn)"
    and "HandleGossipMessage net clock sh (wireToMessage (messageToWire msg)) cn = (cn', effs, err)"
  shows "\<exists>req. hr_url req = origin @ ''/v1/gossip/message'' \<and> handler req = (cn', effs, gossip_status err) \<and>
    Send hmac enc secret client (\<lambda>req. Some (snd (snd (handler req)))) node msg =
      ([req], if err = None then None else Some (RejectedStatus (gossip_status err)))"
proof -
  let ?req = "\<lparr>hr_url = origin @ ''/v1/gossip/message'', hr_body = body,
    hr_signature = (if secret \<noteq> [] then Some (SignBody hmac secret body) else None)\<rparr>"
  have "signature_header ?req = (if secret \<noteq> [] then SignBody hmac secret body else [])" by (simp add: signature_header_def)
  then have h: "handler ?req = (cn', effs, gossip_status err)"
    using signed_body_verifies [where hmac = hmac and body = body, OF assms(5,6)] assms(4,8) by (simp add: assms(7) gossipHandler_def)
  have "gossip_status err \<noteq> 200 \<longleftrightarrow> err \<noteq> None"
    by (cases err) (auto simp: gossip_status_def split: cluster_error.split)
  then show ?thesis using h assms(1-3) by (intro exI [of _ ?req]) (simp add: Send_def Let_def)
qed

definition ex_guarded :: ClusterNode where
  "ex_guarded = NewClusterNode ''n2'' ''n2'' 7000 8080 3 0 1 ''s'' []"

definition ex_note :: Message where
  "ex_note = blank_message\<lparr>msg_type := MessageTypeAck, msg_from := ''n1'', msg_id := ''m''\<rparr>"

lemma ex_guarded_note:
  "HandleGossipMessage net clock sh (wireToMessage (messageToWire ex_note)) ex_guarded = (ex_guarded, [], None)"
  by (simp add: HandleGossipMessage_def handleGossipMessage_def handleAckMessage_def ack_find_def is_protocol_type_def
      message_types wireToMessage_def messageToWire_def ex_note_def ex_guarded_def NewClusterNode_def Let_def)

theorem gossip_http_delivery_witness:
  "\<exists>req. hr_url req = ''http://n2:8080/v1/gossip/message'' \<and>
     Send (\<lambda>s b. ''sig'') (\<lambda>w. Some ''body'') ''s'' \<lparr>hc_transport = None, hc_has_jar = False, hc_redirects = FollowRedirects\<rparr>
       (\<lambda>req. Some (snd (snd (gossipHandler (\<lambda>s b. ''sig'') (\<lambda>b. Some (messageToWire ex_note)) ex_up int id
          (signature_header req) (Some (hr_body req)) ex_guarded)))) (ex_node ''n2'') ex_note = ([req], None)"
proof -
  let ?client = "\<lparr>hc_transport = None, hc_has_jar = False, hc_redirects = FollowRedirects\<rparr>"
  obtain c where c: "Client (Some ?client) = Some c" by (simp add: Client_def Let_def default_transport_def)
  have o: "Origin (ex_node ''n2'') = Some ''http://n2:8080''" using ex_Origin [of "''n2''"] ex_names by simp
  have "cn_secret ex_guarded = ''s''" by (simp add: ex_guarded_def NewClusterNode_def Let_def)
  from gossip_http_delivery [where enc = "\<lambda>w. Some ''body''" and hmac = "\<lambda>s b. ''sig''", OF o c refl refl _ this refl ex_guarded_note [of ex_up int id]]
  show ?thesis by auto
qed

text \<open>
  C21. On a node with a cluster secret nothing unsigned gets through: when the gossip handler or the bootstrap
  handler changes the node, causes an effect or succeeds, the request carried the HMAC of exactly its body under
  that secret. On the public network a node that is not a root answers no bootstrap request at all.
\<close>

theorem gossip_plane_authenticated:
  assumes "cn_secret cn \<noteq> []"
    and "gossipHandler hmac dec net clock sh sig body cn = (cn1, effs, status)"
    and "bootstrapHandler hmac decb provider now s sig body cn = (cn2, outs, r)"
    and "cn1 \<noteq> cn \<or> effs \<noteq> [] \<or> status = 200 \<or> cn2 \<noteq> cn \<or> outs \<noteq> [] \<or> (\<exists>resp. r = Inr resp)"
  shows "(\<exists>data. body = Some data \<and> sig = hmac (cn_secret cn) data) \<and>
    (hs_network s = ''public'' \<and> \<not> IsRoot provider cn \<longrightarrow> cn2 = cn \<and> outs = [] \<and> r = Inl 403)"
proof (cases "\<exists>data. body = Some data \<and> sig = hmac (cn_secret cn) data")
  case True
  then show ?thesis using assms(3) by (auto simp: bootstrapHandler_def)
next
  case False
  then have v: "verifyGossipSignature hmac sig data cn = Some 403" if "body = Some data" for data
    using assms(1) that by (simp add: verifyGossipSignature_def VerifyBody_def SignBody_def)
  have "\<exists>st. gossipHandler hmac dec net clock sh sig body cn = (cn, [], st) \<and> st \<noteq> 200"
    using v by (cases body) (simp_all add: gossipHandler_def)
  moreover have "\<exists>st. bootstrapHandler hmac decb provider now s sig body cn = (cn, [], Inl st)"
    using v by (cases body) (simp_all add: bootstrapHandler_def)
  ultimately show ?thesis using assms(2-4) by auto
qed

theorem gossip_plane_authenticated_witness:
  "\<exists>data. Some ''body'' = Some data \<and> ''sig'' = (\<lambda>s b. ''sig'') (cn_secret ex_guarded) data"
proof -
  let ?hmac = "\<lambda>s b. ''sig''"
  have sec: "cn_secret ex_guarded \<noteq> []" by (simp add: ex_guarded_def NewClusterNode_def Let_def)
  have g: "gossipHandler ?hmac (\<lambda>b. Some (messageToWire ex_note)) ex_up int id ''sig'' (Some ''body'') ex_guarded = (ex_guarded, [], 200)"
    by (simp add: gossipHandler_def verifyGossipSignature_def VerifyBody_def SignBody_def ex_guarded_note gossip_status_def)
  obtain cn2 outs r where b: "bootstrapHandler ?hmac (\<lambda>b. None) None 0 ex_server ''sig'' (Some ''body'') ex_guarded = (cn2, outs, r)"
    by (cases "bootstrapHandler ?hmac (\<lambda>b. None) None 0 ex_server ''sig'' (Some ''body'') ex_guarded")
  show ?thesis using gossip_plane_authenticated [OF sec g b] by simp
qed

end
