(* ===== verification/Replication.thy ===== *)
theory Replication
  imports Server_Facts
begin

text \<open>
  One replicated write, from the client call on one node to the acknowledgement of another: the composition of
  \<open>Put\<close>, the gossip wire, \<open>gossipHandler\<close>, \<open>handlePutMessage\<close> and \<open>handleAckMessage\<close>.
\<close>

lemma BroadcastToEnclave_messages: "(n, m) \<in> set (fst (snd (BroadcastToEnclave sh now msg p))) \<Longrightarrow> m = msg"
  by (auto simp: BroadcastToEnclave_def Let_def split: if_splits)

text \<open>A write that waits has its operation open under its message ID, and sends only that message.\<close>

lemma Put_begin_waiting:
  assumes "Put_begin clock sh key data ttl cn = (cn', outs, PutWaiting i mid)"
    and "msg = put_message clock key data (clampTTL (cn_limits cn) (go_quot ttl nsec)) cn"
  shows "mid = msg_id msg" and "gm_lookup (cn_pending cn') mid = Some i"
    and "\<exists>w. gm_lookup (cn_ops cn') i = Some w \<and> wo_confirmations w = 1 \<and> wo_closes w = 0 \<and> wo_error w = None"
    and "(n, m) \<in> set outs \<Longrightarrow> m = msg"
    and "validateWrite (cn_limits cn) key data = None" and "cn_secret cn' = cn_secret cn"
  using assms by (auto simp: Put_begin_def Let_def put_message_def case_prod_beta dest: BroadcastToEnclave_messages split: option.splits if_splits prod.splits)

text \<open>What the wire keeps of a message without node information.\<close>

lemma wire_message:
  assumes "0 \<le> msg_ttl msg" "msg_ttl msg \<le> max_int32" "msg_node_info msg = None"
  shows "wireToMessage (messageToWire msg) = msg\<lparr>msg_timestamp := msg_timestamp msg div nsec * nsec\<rparr>"
  using assms by (cases msg) (simp add: wireToMessage_def messageToWire_def to_int32_def max_int32_def)

lemma delivered:
  assumes "\<And>x. hmac secret x \<noteq> []" "cn_secret cn = secret" "dec body = Some (messageToWire msg)"
  shows "gossipHandler hmac dec net clock sh (if secret \<noteq> [] then SignBody hmac secret body else []) (Some body) cn =
    (case HandleGossipMessage net clock sh (wireToMessage (messageToWire msg)) cn of (cn', effs, err) \<Rightarrow> (cn', effs, gossip_status err))"
  using signed_body_verifies [of secret hmac body cn] assms by (simp add: gossipHandler_def)

lemma gossip_status_ok: "gossip_status err = 200 \<longleftrightarrow> err = None"
  by (cases err) (auto simp: gossip_status_def split: cluster_error.split)

text \<open>Counting an acknowledgement of an open write.\<close>

lemma ack_handled:
  assumes "gm_lookup (cn_pending cn) (msg_id ack) = Some i" "msg_type ack = MessageTypeAck"
  shows "HandleGossipMessage net clock sh ack cn = (ack_count i cn, [], None)"
  using assms by (simp add: HandleGossipMessage_def handleGossipMessage_def handleAckMessage_def ack_find_def
      is_protocol_type_def message_types)

lemma ack_completes:
  assumes "\<exists>w. gm_lookup (cn_ops cn) i = Some w \<and> wo_confirmations w = 1 \<and> wo_closes w = 0 \<and> wo_error w = None"
    and "quorumSize cn \<le> 2"
  shows "wait_enabled WaitComplete i (ack_count i cn) \<and> snd (Put_finish WaitComplete i mid (ack_count i cn)) = None"
  using assms by (auto simp: wait_enabled_def Put_finish_def ack_count_lookup Let_def)

text \<open>The replica's side: the message of the write as it arrives is stored with the writer's TTL and acknowledged.\<close>

lemma replica_side:
  assumes "limits_ok (cn_limits a)" "cn_limits b = cn_limits a" "validateWrite (cn_limits a) key data = None"
    and "t = clampTTL (cn_limits a) s" "m = put_message ca key data t a"
    and "gm_lookup (p_seen (cn_protocol b)) (msg_id m) = None"
    and "find (\<lambda>peer. n_id peer = n_id (p_local (cn_protocol a))) (getPeers (cn_protocol b)) = Some na"
    and "HandleGossipMessage net cb shb (wireToMessage (messageToWire m)) b = (b', effs, None)"
  shows "Put (cb 1) key data t (cn_store b) = (cn_store b', None)" "SendTo na (ack_message (cb 2) m b) \<in> set effs"
proof -
  let ?w = "wireToMessage (messageToWire m)"
  have secs: "msg_ttl m = clamped (cn_limits a) s" using clampTTL_seconds [OF assms(1)] by (simp add: assms(4,5) put_message_def)
  then have ttl: "0 \<le> msg_ttl m" "msg_ttl m \<le> max_int32"
    using clamped_range [OF assms(1), of s] assms(1) by (simp_all add: limits_ok_def)
  then have w: "?w = m\<lparr>msg_timestamp := msg_timestamp m div nsec * nsec\<rparr>" by (intro wire_message) (simp_all add: assms(5) put_message_def)
  have t: "t = clampTTL (cn_limits b) (msg_ttl ?w)"
    unfolding assms(2,4) w using clamped_range [OF assms(1), of s] by (simp add: secs clampTTL_exact [OF assms(1)] clamped_def)
  have f: "msg_key ?w = key" "msg_data ?w = data" "msg_id ?w = msg_id m" "msg_from ?w = n_id (p_local (cn_protocol a))"
    "msg_type ?w = MessageTypePut"
    by (simp_all add: w) (simp_all add: assms(5) put_message_def)
  then have h: "handlePutMessage cb shb ?w b = (b', effs, None)"
    using assms(8) by (simp add: HandleGossipMessage_def handleGossipMessage_def is_protocol_type_def message_types)
  let ?p = "fst (MarkSeen (cb 0) (msg_id ?w) (cn_protocol b))"
  have v: "validateWrite (cn_limits b) (msg_key ?w) (msg_data ?w) = None" "gm_lookup (p_seen (cn_protocol b)) (msg_id ?w) = None"
    using assms(2,3,6) by (simp_all add: f)
  have ack: "ack_message (cb 2) ?w b = ack_message (cb 2) m b" by (simp add: ack_message_def w)
  have "getPeers ?p = getPeers (cn_protocol b)"
    using MarkSeen_routes [of "cn_protocol b"] by (simp add: same_routes_def getPeers_def)
  with handlePut_fresh [OF v h t refl] assms(7)
  show "Put (cb 1) key data t (cn_store b) = (cn_store b', None)" "SendTo na (ack_message (cb 2) m b) \<in> set effs"
    by (simp_all add: f ack)
qed

text \<open>
  C1. A replicated write works end to end. A client write on node \<open>a\<close> waits for its quorum; its message is signed
  and sent over HTTP to \<open>b\<close>, which has the same secret and limits, knows \<open>a\<close> and has not seen the message. If
  \<open>b\<close> answers 200, it stores the same value with the same TTL, so that both nodes serve it until that TTL has
  passed, and it acknowledges to \<open>a\<close>; the acknowledgement, sent back the same way, is accepted, and with a quorum
  of two the client's call returns success. Of the JSON codec it is assumed that the two messages survive it.
\<close>

theorem replicated_write:
  assumes "limits_ok (cn_limits a)" "cn_limits b = cn_limits a" "cn_secret a = secret" "cn_secret b = secret"
    and "Put_begin ca sh key data ttl a = (a1, outs, PutWaiting i mid)" "(n, m) \<in> set outs"
    and "gm_lookup (p_seen (cn_protocol b)) mid = None"
    and "find (\<lambda>peer. n_id peer = n_id (p_local (cn_protocol a))) (getPeers (cn_protocol b)) = Some na"
    and "\<And>x. hmac secret x \<noteq> []" "sign = (\<lambda>body. if secret \<noteq> [] then SignBody hmac secret body else [])"
    and "body = enc (messageToWire m)" "dec body = Some (messageToWire m)"
    and "gossipHandler hmac dec net cb shb (sign body) (Some body) b = (b1, effs, 200)"
    and "ack = ack_message (cb 2) m b" "body' = enc (messageToWire ack)" "dec body' = Some (messageToWire ack)"
    and "gossipHandler hmac dec net' ca' sh' (sign body') (Some body') a1 = (a2, effs', status)"
    and "t = clampTTL (cn_limits a) (go_quot ttl nsec)"
  shows "SendTo na ack \<in> set effs \<and> status = 200 \<and> effs' = [] \<and>
    (\<forall>now. cluster_GetWithMetadata now key b1 = (if now < cb 1 + t then Some (data, cb 1, t) else None)) \<and>
    (\<forall>now. cluster_GetWithMetadata now key a2 = (if now < ca 2 + t then Some (data, ca 2, t) else None)) \<and>
    (quorumSize a1 \<le> 2 \<longrightarrow> wait_enabled WaitComplete i a2 \<and> snd (Put_finish WaitComplete i mid a2) = None)"
proof -
  note w = Put_begin_waiting [OF assms(5) refl]
  have m: "m = put_message ca key data t a" using w(4) assms(6,18) by simp
  obtain b' effs1 err where hb: "HandleGossipMessage net cb shb (wireToMessage (messageToWire m)) b = (b', effs1, err)"
    by (cases "HandleGossipMessage net cb shb (wireToMessage (messageToWire m)) b")
  have "b' = b1" "effs1 = effs" "err = None"
    using delivered [where hmac = hmac and dec = dec and body = body and secret = secret and net = net and clock = cb and sh = shb, OF assms(9,4,12)] assms(13) by (auto simp: hb assms(10) gossip_status_ok)
  then have "Put (cb 1) key data t (cn_store b) = (cn_store b1, None)" "SendTo na ack \<in> set effs"
    using replica_side [OF assms(1,2) w(5) assms(18) m _ assms(8), of net cb shb] hb assms(7,14) w(1) by (simp_all add: m assms(18))
  moreover
  have ack: "wireToMessage (messageToWire ack) = ack\<lparr>msg_timestamp := msg_timestamp ack div nsec * nsec\<rparr>"
    by (rule wire_message) (simp_all add: assms(14) ack_message_def blank_message_def max_int32_def)
  have "msg_id ack = mid" "msg_type ack = MessageTypeAck" using w(1) by (simp_all add: assms(14,18) m ack_message_def)
  then have ha: "HandleGossipMessage net' ca' sh' (wireToMessage (messageToWire ack)) a1 = (ack_count i a1, [], None)"
    using w(2) by (intro ack_handled) (simp_all add: ack)
  have "a2 = ack_count i a1" "effs' = []" "status = 200"
    using delivered [where hmac = hmac and dec = dec and body = body' and secret = secret and cn = a1 and net = net' and clock = ca' and sh = sh', OF assms(9) _ assms(16)] assms(3,17) w(6) by (auto simp: ha assms(10) gossip_status_def)
  moreover have "Put (ca 2) key data t (cn_store a) = (cn_store a1, None)"
    using Put_begin_store [OF assms(5)] by (simp add: assms(18))
  ultimately show ?thesis
    using ack_completes [OF w(3)] by (simp add: cluster_GetWithMetadata_def mem.get_put)
qed

text \<open>Two nodes that know each other.\<close>

definition ex_replica_node :: ClusterNode where
  "ex_replica_node = (NewClusterNode ''n2'' ''n2'' 7000 8080 3 0 1 [] [])
     \<lparr>cn_protocol := ex_ready\<lparr>p_local := ex_node ''n2'', p_peers := [(''n1'', ex_node ''n1'')]\<rparr>\<rparr>"

lemma ex_replica_node_simps [simp]:
  "cn_limits ex_replica_node = DefaultWriteLimits" "cn_secret ex_replica_node = []" "cn_store ex_replica_node = NewMemoryStore 0"
  "p_seen (cn_protocol ex_replica_node) = []" "getPeers (cn_protocol ex_replica_node) = [ex_node ''n1'']"
  "cn_secret ex_cluster = []"
  by (simp_all add: ex_replica_node_def ex_cluster_def NewClusterNode_def Let_def getPeers_def)

definition ex_sent :: Message where
  "ex_sent = put_message int ''k'' ''v'' (300 * nsec) ex_cluster"

definition ex_dec :: "bytes \<Rightarrow> SimpleMessage option" where
  "ex_dec b = (if b = MessageTypePut then Some (messageToWire ex_sent)
     else if b = MessageTypeAck then Some (messageToWire (ack_message 2 ex_sent ex_replica_node)) else None)"

lemma ex_clamped: "clampTTL DefaultWriteLimits (go_quot 0 nsec) = 300 * nsec"
  by (simp add: clampTTL_def go_quot_def DefaultWriteLimits_def MinTTLSeconds_def DefaultMaxTTLSeconds_def nsec_def to_int64_def)

lemma ex_sent_out:
  obtains outs where "Put_begin int id ''k'' ''v'' 0 ex_cluster = (ex_waiting, outs, PutWaiting 0 ''k-1'')" "(ex_node ''n2'', ex_sent) \<in> set outs"
proof -
  obtain outs where p: "Put_begin int id ''k'' ''v'' 0 ex_cluster = (ex_waiting, outs, PutWaiting 0 ''k-1'')" by (rule ex_put)
  obtain st where st: "Put 2 ''k'' ''v'' (300 * nsec) (NewMemoryStore 0) = (st, None)" using ex_store by blast
  have "(ex_node ''n2'', ex_sent) \<in> set (fst (snd (Put_begin int id ''k'' ''v'' 0 ex_cluster)))"
    by (simp add: Put_begin_def ex_valid ex_quorum ex_clamped Let_def case_prod_beta st ex_sent_def [symmetric])
       (simp add: BroadcastToEnclave_def GetReplicationPeers_def MarkSeen_def Let_def maxSeenMessages_def FanoutThreshold_def)
  with p that show ?thesis by simp
qed

lemma ex_replica_accepts:
  obtains b1 effs where "gossipHandler (\<lambda>s b. ''h'') ex_dec ex_up int id [] (Some MessageTypePut) ex_replica_node = (b1, effs, 200)"
proof -
  let ?w = "wireToMessage (messageToWire ex_sent)"
  have w: "msg_type ?w = MessageTypePut" "msg_key ?w = ''k''" "msg_data ?w = ''v''"
    by (simp_all add: wireToMessage_def messageToWire_def ex_sent_def put_message_def)
  obtain st where "Put 1 ''k'' ''v'' (clampTTL DefaultWriteLimits (msg_ttl ?w)) (NewMemoryStore 0) = (st, None)"
    using ex_store by blast
  then have "snd (snd (handlePutMessage int id ?w ex_replica_node)) = None"
    by (simp add: handlePutMessage_def w ex_valid Let_def MarkSeen_def maxSeenMessages_def)
  then have "snd (snd (HandleGossipMessage ex_up int id ?w ex_replica_node)) = None"
    by (simp add: HandleGossipMessage_def handleGossipMessage_def is_protocol_type_def w message_types)
  then have "snd (snd (gossipHandler (\<lambda>s b. ''h'') ex_dec ex_up int id [] (Some MessageTypePut) ex_replica_node)) = 200"
    by (simp add: gossipHandler_def verifyGossipSignature_def ex_dec_def gossip_status_def case_prod_beta)
  with that show ?thesis
    by (cases "gossipHandler (\<lambda>s b. ''h'') ex_dec ex_up int id [] (Some MessageTypePut) ex_replica_node") simp
qed

theorem replicated_write_witness:
  "\<exists>b1 effs a2 effs'.
     gossipHandler (\<lambda>s b. ''h'') ex_dec ex_up int id [] (Some MessageTypePut) ex_replica_node = (b1, effs, 200) \<and>
     gossipHandler (\<lambda>s b. ''h'') ex_dec ex_up int id [] (Some MessageTypeAck) ex_waiting = (a2, effs', 200) \<and>
     cluster_GetWithMetadata 5 ''k'' b1 = Some (''v'', 1, 300 * nsec) \<and> wait_enabled WaitComplete 0 a2"
proof -
  obtain outs where p: "Put_begin int id ''k'' ''v'' 0 ex_cluster = (ex_waiting, outs, PutWaiting 0 ''k-1'')"
    "(ex_node ''n2'', ex_sent) \<in> set outs" by (rule ex_sent_out)
  have types: "sm_type (messageToWire ex_sent) = MessageTypePut" "MessageTypePut \<noteq> MessageTypeAck"
    "sm_type (messageToWire (ack_message 2 ex_sent ex_replica_node)) = MessageTypeAck"
    by (simp_all add: messageToWire_def ex_sent_def put_message_def ack_message_def message_types)
  then have decs: "ex_dec MessageTypePut = Some (messageToWire ex_sent)"
    "ex_dec MessageTypeAck = Some (messageToWire (ack_message 2 ex_sent ex_replica_node))" by (simp_all add: ex_dec_def)
  have late: "5 < 1 + 300 * nsec" by (simp add: nsec_def)
  obtain b1 effs where h: "gossipHandler (\<lambda>s b. ''h'') ex_dec ex_up int id [] (Some MessageTypePut) ex_replica_node = (b1, effs, 200)"
    by (rule ex_replica_accepts)
  obtain a2 effs' st where g: "gossipHandler (\<lambda>s b. ''h'') ex_dec ex_up int id [] (Some MessageTypeAck) ex_waiting = (a2, effs', st)"
    by (cases "gossipHandler (\<lambda>s b. ''h'') ex_dec ex_up int id [] (Some MessageTypeAck) ex_waiting")
  show ?thesis
    using replicated_write [where a = ex_cluster and b = ex_replica_node and secret = "[]" and hmac = "\<lambda>s b. ''h''" and enc = sm_type
      and dec = ex_dec and t = "300 * nsec" and na = "ex_node ''n1''" and net = ex_up and cb = int and shb = id
      and ?b1.0 = b1 and effs = effs and net' = ex_up and ca' = int and sh' = id and ?a2.0 = a2 and effs' = effs' and status = st, OF _ _ _ _ p _ _ _ refl refl _ _ refl refl] h g
    by (simp add: types decs late limits_ok_default ex_clamped ex_waiting_simps(3))
qed

end
