(* ===== verification/Mcp.thy ===== *)
theory Mcp
  imports Server_Facts "HOL-Library.Multiset"
begin

text \<open>
  The Model Context Protocol server of an embedded node, \<open>src/internal/mcp/server.go\<close>: newline-delimited
  JSON-RPC over standard input and output, with four tools on the cluster node. JSON decoding is an argument
  (\<open>codec\<close>), as are clocks, randomness and the shuffle of gossip targets; a timestamp stands for its printed form.
  A request runs in its own goroutine, so requests and the waits of \<open>store\<close> interleave in any order.
\<close>

section \<open>Framing\<close>

text \<open>\<open>bytes.TrimRight(line, CRLF)\<close>, and the lines that the reader goroutine of \<open>Run\<close> passes on.\<close>

definition trim_line :: "bytes \<Rightarrow> bytes" where
  "trim_line line = rev (dropWhile (\<lambda>c. c = CHR 0x0D \<or> c = CHR 0x0A) (rev line))"

definition read_lines :: "bytes \<Rightarrow> bytes list" where
  "read_lines input = filter (\<lambda>l. l \<noteq> []) (map trim_line (Split (CHR 0x0A) input))"

definition frame :: "bytes \<Rightarrow> bytes" where
  "frame data = data @ [CHR 0x0A]"

section \<open>Messages\<close>

text \<open>A member of the \<open>arguments\<close> object, as \<open>encoding/json\<close> decodes it into an interface value.\<close>

datatype go_any = AnyString string | AnyFloat rat | AnyOther

type_synonym tool_args = "(string, go_any) gomap"

record rpcRequest =
  rq_id :: bytes
  rq_method :: string
  rq_params :: bytes

record toolCallParams =
  tc_name :: string
  tc_arguments :: tool_args

datatype tool_payload =
    StoreResult string int gotime bool
  | NullResult
  | RetrieveResult bytes gotime int gotime
  | ExistsResult "(int \<times> gotime) option"
  | KeysResult "string list"

datatype tool_error = DataRequired | BadTTL | CapacityExceeded | StoreFailed cluster_error | KeyRequired

datatype rpc_error = ParseError | InvalidParams | MethodNotFound string

datatype rpc_value = NilValue | EmptyObject | InitializeResult string | ToolsResult | ToolFailed tool_error | ToolResult tool_payload

record rpcResponse =
  rr_id :: bytes
  rr_body :: "rpc_error + rpc_value"

text \<open>The decoders: a request, the parameters of a call, and the version of \<open>initialize\<close> (empty when absent).\<close>

record codec =
  dec_request :: "bytes \<Rightarrow> rpcRequest option"
  dec_call :: "bytes \<Rightarrow> toolCallParams option"
  dec_version :: "bytes \<Rightarrow> string"

record mcp_server =
  mcp_min_ttl :: int
  mcp_max_ttl :: int

section \<open>Tools\<close>

definition defaultStoreTTLSeconds :: int where "defaultStoreTTLSeconds = 1800"
definition protocolVersion :: string where "protocolVersion = ''2024-11-05''"

text \<open>\<open>int(x)\<close> of a float64; \<open>wild\<close> is the result of the platform when the value does not fit.\<close>

definition toInt :: "(rat \<Rightarrow> int) \<Rightarrow> go_any \<Rightarrow> int option" where
  "toInt wild v =
     (case v of
        AnyFloat x \<Rightarrow> Some (if - (2 ^ 63) \<le> float_to_int x \<and> float_to_int x \<le> max_int64 then float_to_int x else wild x)
      | _ \<Rightarrow> None)"

definition hex_digit :: "nat \<Rightarrow> char" where
  "hex_digit n = char_of (if n < 10 then 48 + n else 87 + n)"

definition hex_byte :: "nat \<Rightarrow> string" where
  "hex_byte b = [hex_digit (b div 16 mod 16), hex_digit (b mod 16)]"

text \<open>The key made from sixteen random bytes, or from the clock when there are none.\<close>

definition newKey :: "nat list option \<Rightarrow> gotime \<Rightarrow> string" where
  "newKey random now =
     (case random of
        None \<Rightarrow> ''k-'' @ Itoa now
      | Some b \<Rightarrow>
          let hex = (\<lambda>i j. concat (map hex_byte (drop i (take j b))))
          in hex 0 4 @ ''-'' @ hex 4 6 @ ''-'' @ hex 6 8 @ ''-'' @ hex 8 10 @ ''-'' @ hex 10 16)"

definition mcp_ttl :: "mcp_server \<Rightarrow> int \<Rightarrow> int" where
  "mcp_ttl srv ttl0 =
     (let ttl = (if ttl0 < mcp_min_ttl srv then mcp_min_ttl srv else ttl0)
      in if ttl > mcp_max_ttl srv then mcp_max_ttl srv else ttl)"

text \<open>The arguments of \<open>store\<close>: data, bounded TTL and key; \<open>fresh\<close> is the generated key.\<close>

definition store_args :: "(rat \<Rightarrow> int) \<Rightarrow> string \<Rightarrow> mcp_server \<Rightarrow> tool_args \<Rightarrow> tool_error + bytes \<times> int \<times> string" where
  "store_args wild fresh srv args =
     (case gm_lookup args ''data'' of
        Some (AnyString data) \<Rightarrow>
          (let finish = (\<lambda>ttl. let key = (case gm_lookup args ''key'' of Some (AnyString k) \<Rightarrow> k | _ \<Rightarrow> [])
                               in Inr (data, mcp_ttl srv ttl, if key = [] then fresh else key))
           in case gm_lookup args ''ttl_seconds'' of
                None \<Rightarrow> finish defaultStoreTTLSeconds
              | Some v \<Rightarrow> (case toInt wild v of None \<Rightarrow> Inl BadTTL | Some n \<Rightarrow> finish n))
      | _ \<Rightarrow> Inl DataRequired)"

text \<open>The answer once \<open>Put\<close> returned; the flag is the quorum status \<open>confirmed\<close>.\<close>

definition store_reply :: "gotime \<Rightarrow> string \<Rightarrow> int \<Rightarrow> cluster_error option \<Rightarrow> tool_error + tool_payload" where
  "store_reply now key ttl err =
     (case err of
        None \<Rightarrow> Inr (StoreResult key ttl (now + to_int64 (ttl * nsec)) True)
      | Some ErrQuorumTimeout \<Rightarrow> Inr (StoreResult key ttl (now + to_int64 (ttl * nsec)) False)
      | Some (LocalWriteFailed ErrStoreFull) \<Rightarrow> Inl CapacityExceeded
      | Some e \<Rightarrow> Inl (StoreFailed e))"

datatype tool_progress = ToolDone "tool_error + tool_payload" | ToolWaiting op_id string string int

definition toolStore ::
    "(rat \<Rightarrow> int) \<Rightarrow> string \<Rightarrow> (nat \<Rightarrow> gotime) \<Rightarrow> (Node list \<Rightarrow> Node list) \<Rightarrow> mcp_server \<Rightarrow> tool_args \<Rightarrow> ClusterNode
       \<Rightarrow> ClusterNode \<times> sends \<times> tool_progress" where
  "toolStore wild fresh clock shuffle srv args cn =
     (case store_args wild fresh srv args of
        Inl e \<Rightarrow> (cn, [], ToolDone (Inl e))
      | Inr (data, ttl, key) \<Rightarrow>
          (case Put_begin clock shuffle key data (to_int64 (ttl * nsec)) cn of
             (cn1, outs, PutFailed err) \<Rightarrow> (cn1, outs, ToolDone (store_reply (clock 4) key ttl (Some err)))
           | (cn1, outs, PutDone) \<Rightarrow> (cn1, outs, ToolDone (store_reply (clock 4) key ttl None))
           | (cn1, outs, PutWaiting i mid) \<Rightarrow> (cn1, outs, ToolWaiting i mid key ttl)))"

definition remaining_ttl :: "gotime \<Rightarrow> gotime \<Rightarrow> duration \<Rightarrow> duration" where
  "remaining_ttl now createdAt originalTTL =
     (let remaining = originalTTL - (now - createdAt) in if remaining < 0 then 0 else remaining)"

definition key_arg :: "tool_args \<Rightarrow> string option" where
  "key_arg args = (case gm_lookup args ''key'' of Some (AnyString k) \<Rightarrow> if k = [] then None else Some k | _ \<Rightarrow> None)"

definition toolRetrieve :: "gotime \<Rightarrow> gotime \<Rightarrow> tool_args \<Rightarrow> ClusterNode \<Rightarrow> tool_error + tool_payload" where
  "toolRetrieve now1 now2 args cn =
     (case key_arg args of
        None \<Rightarrow> Inl KeyRequired
      | Some key \<Rightarrow>
          (case cluster_GetWithMetadata now1 key cn of
             None \<Rightarrow> Inr NullResult
           | Some (data, createdAt, originalTTL) \<Rightarrow>
               Inr (RetrieveResult data createdAt (int_seconds (remaining_ttl now2 createdAt originalTTL)) (createdAt + originalTTL))))"

definition toolExists :: "gotime \<Rightarrow> gotime \<Rightarrow> tool_args \<Rightarrow> ClusterNode \<Rightarrow> tool_error + tool_payload" where
  "toolExists now1 now2 args cn =
     (case key_arg args of
        None \<Rightarrow> Inl KeyRequired
      | Some key \<Rightarrow>
          (case cluster_GetWithMetadata now1 key cn of
             None \<Rightarrow> Inr (ExistsResult None)
           | Some (data, createdAt, originalTTL) \<Rightarrow>
               Inr (ExistsResult (Some (int_seconds (remaining_ttl now2 createdAt originalTTL), createdAt + originalTTL)))))"

definition toolListKeys :: "gotime \<Rightarrow> tool_args \<Rightarrow> ClusterNode \<Rightarrow> tool_error + tool_payload" where
  "toolListKeys now args cn =
     (let keys = cluster_Scan now cn;
          keys' = (case gm_lookup args ''prefix'' of
                     Some (AnyString v) \<Rightarrow> if v \<noteq> [] then filter (\<lambda>k. HasPrefix k v) keys else keys
                   | _ \<Rightarrow> keys)
      in Inr (KeysResult (sort keys')))"

section \<open>Dispatch\<close>

text \<open>What one goroutine reads of its surroundings.\<close>

record surroundings =
  su_wild :: "rat \<Rightarrow> int"
  su_fresh :: string
  su_clock :: "nat \<Rightarrow> gotime"
  su_shuffle :: "Node list \<Rightarrow> Node list"

definition tool_value :: "tool_error + tool_payload \<Rightarrow> rpc_value" where
  "tool_value r = (case r of Inl e \<Rightarrow> ToolFailed e | Inr p \<Rightarrow> ToolResult p)"

datatype rpc_progress = RpcDone "rpc_error + rpc_value" | RpcWaiting op_id string string int

definition handleToolCall ::
    "codec \<Rightarrow> surroundings \<Rightarrow> mcp_server \<Rightarrow> bytes \<Rightarrow> ClusterNode \<Rightarrow> ClusterNode \<times> sends \<times> rpc_progress" where
  "handleToolCall cd su srv params cn =
     (case dec_call cd params of
        None \<Rightarrow> (cn, [], RpcDone (Inl InvalidParams))
      | Some p \<Rightarrow>
          if tc_name p = ''store'' then
            (case toolStore (su_wild su) (su_fresh su) (su_clock su) (su_shuffle su) srv (tc_arguments p) cn of
               (cn1, outs, ToolDone r) \<Rightarrow> (cn1, outs, RpcDone (Inr (tool_value r)))
             | (cn1, outs, ToolWaiting i mid key ttl) \<Rightarrow> (cn1, outs, RpcWaiting i mid key ttl))
          else if tc_name p = ''retrieve'' then
            (cn, [], RpcDone (Inr (tool_value (toolRetrieve (su_clock su 0) (su_clock su 1) (tc_arguments p) cn))))
          else if tc_name p = ''exists'' then
            (cn, [], RpcDone (Inr (tool_value (toolExists (su_clock su 0) (su_clock su 1) (tc_arguments p) cn))))
          else if tc_name p = ''list_keys'' then
            (cn, [], RpcDone (Inr (tool_value (toolListKeys (su_clock su 0) (tc_arguments p) cn))))
          else (cn, [], RpcDone (Inl (MethodNotFound (tc_name p)))))"

definition handleInitialize :: "codec \<Rightarrow> bytes \<Rightarrow> rpc_value" where
  "handleInitialize cd params =
     (let version = (if params \<noteq> [] then dec_version cd params else [])
      in InitializeResult (if version = [] then protocolVersion else version))"

definition handle ::
    "codec \<Rightarrow> surroundings \<Rightarrow> mcp_server \<Rightarrow> string \<Rightarrow> bytes \<Rightarrow> ClusterNode \<Rightarrow> ClusterNode \<times> sends \<times> rpc_progress" where
  "handle cd su srv method params cn =
     (if method = ''initialize'' then (cn, [], RpcDone (Inr (handleInitialize cd params)))
      else if method = ''notifications/initialized'' then (cn, [], RpcDone (Inr NilValue))
      else if method = ''ping'' then (cn, [], RpcDone (Inr EmptyObject))
      else if method = ''tools/list'' then (cn, [], RpcDone (Inr ToolsResult))
      else if method = ''tools/call'' then handleToolCall cd su srv params cn
      else (cn, [], RpcDone (Inl (MethodNotFound method))))"

definition responses :: "bytes \<Rightarrow> rpc_error + rpc_value \<Rightarrow> rpcResponse list" where
  "responses i r = (if i = [] then [] else [\<lparr>rr_id = i, rr_body = r\<rparr>])"

text \<open>A call of \<open>store\<close> that waits in \<open>Put\<close>; the request ID is empty for a notification.\<close>

record pending_call =
  pc_id :: bytes
  pc_op :: op_id
  pc_mid :: string
  pc_key :: string
  pc_ttl :: int

definition dispatch ::
    "codec \<Rightarrow> surroundings \<Rightarrow> mcp_server \<Rightarrow> bytes \<Rightarrow> ClusterNode \<Rightarrow> ClusterNode \<times> sends \<times> rpcResponse list \<times> pending_call list" where
  "dispatch cd su srv raw cn =
     (case dec_request cd raw of
        None \<Rightarrow> (cn, [], [\<lparr>rr_id = ''null'', rr_body = Inl ParseError\<rparr>], [])
      | Some req \<Rightarrow>
          (case handle cd su srv (rq_method req) (rq_params req) cn of
             (cn1, outs, RpcDone r) \<Rightarrow> (cn1, outs, responses (rq_id req) r, [])
           | (cn1, outs, RpcWaiting i mid key ttl) \<Rightarrow>
               (cn1, outs, [], [\<lparr>pc_id = rq_id req, pc_op = i, pc_mid = mid, pc_key = key, pc_ttl = ttl\<rparr>])))"

definition finish_call :: "put_wait \<Rightarrow> gotime \<Rightarrow> pending_call \<Rightarrow> ClusterNode \<Rightarrow> ClusterNode \<times> rpcResponse list" where
  "finish_call w now pc cn =
     (case Put_finish w (pc_op pc) (pc_mid pc) cn of
        (cn1, err) \<Rightarrow> (cn1, responses (pc_id pc) (Inr (tool_value (store_reply now (pc_key pc) (pc_ttl pc) err)))))"

section \<open>The server\<close>

text \<open>
  \<open>mc_todo\<close> holds the lines whose goroutine has not run, \<open>mc_waiting\<close> the calls inside \<open>Put\<close>. \<open>Run\<close> starts the
  goroutines in order; the scheduler runs them in any order. Between their steps the node handles other events.
\<close>

record mcp_state =
  mc_todo :: "bytes list"
  mc_waiting :: "pending_call list"
  mc_out :: "rpcResponse list"
  mc_node :: ClusterNode

definition mcp_start :: "bytes \<Rightarrow> ClusterNode \<Rightarrow> mcp_state" where
  "mcp_start input cn = \<lparr>mc_todo = read_lines input, mc_waiting = [], mc_out = [], mc_node = cn\<rparr>"

inductive mcp_step :: "codec \<Rightarrow> mcp_server \<Rightarrow> mcp_state \<Rightarrow> mcp_state \<Rightarrow> bool" for cd srv where
  run_request: "mc_todo s = xs @ raw # ys \<Longrightarrow> dispatch cd su srv raw (mc_node s) = (cn, outs, rs, ps) \<Longrightarrow>
     mcp_step cd srv s (s\<lparr>mc_todo := xs @ ys, mc_waiting := mc_waiting s @ ps, mc_out := mc_out s @ rs, mc_node := cn\<rparr>)"
| finish_store: "mc_waiting s = xs @ pc # ys \<Longrightarrow> wait_enabled w (pc_op pc) (mc_node s) \<Longrightarrow>
     finish_call w now pc (mc_node s) = (cn, rs) \<Longrightarrow>
     mcp_step cd srv s (s\<lparr>mc_waiting := xs @ ys, mc_out := mc_out s @ rs, mc_node := cn\<rparr>)"
| node_event: "mcp_step cd srv s (s\<lparr>mc_node := cluster_exec e (mc_node s)\<rparr>)"

text \<open>The IDs a line asks to be answered: none for a notification, \<open>null\<close> for a line that is not a request.\<close>

definition expected_ids :: "codec \<Rightarrow> bytes \<Rightarrow> bytes list" where
  "expected_ids cd raw =
     (case dec_request cd raw of None \<Rightarrow> [''null''] | Some req \<Rightarrow> if rq_id req = [] then [] else [rq_id req])"

end
