(* ===== verification/Mcp_Facts.thy ===== *)
theory Mcp_Facts
  imports Mcp
begin

text \<open>The MCP server: framing, the tools over the store, and one answer per request however requests interleave.\<close>

section \<open>Framing\<close>

lemma trim_line_id: "l = [] \<or> last l \<noteq> CHR 0x0D \<and> last l \<noteq> CHR 0x0A \<Longrightarrow> trim_line l = l"
  by (cases l rule: rev_cases) (auto simp: trim_line_def)

text \<open>What one side writes as frames is what the reader of the other side passes on.\<close>

lemma read_frames:
  assumes "\<And>m. m \<in> set ms \<Longrightarrow> m \<noteq> [] \<and> CHR 0x0A \<notin> set m \<and> last m \<noteq> CHR 0x0D"
  shows "read_lines (concat (map frame ms)) = ms"
  using assms
proof (induction ms)
  case Nil
  then show ?case by (simp add: read_lines_def trim_line_def)
next
  case (Cons m ms)
  then have m: "m \<noteq> []" "CHR 0x0A \<notin> set m" "last m \<noteq> CHR 0x0D" by auto
  then have "trim_line m = m" using last_in_set [OF m(1)] by (intro trim_line_id) metis
  moreover have "Split (CHR 0x0A) (concat (map frame (m # ms))) = m # Split (CHR 0x0A) (concat (map frame ms))"
    using Split_append [OF m(2)] by (simp add: frame_def)
  ultimately show ?case using Cons.IH Cons.prems m(1) by (simp add: read_lines_def)
qed

section \<open>Keys\<close>

lemma hex_digit_inj:
  assumes "m < 16" "n < 16" "hex_digit m = hex_digit n"
  shows "m = n"
proof -
  have f: "of_char (hex_digit k) = (if k < 10 then 48 + k else 87 + k)" if "k < 16" for k
    using that unfolding hex_digit_def of_char_of by (cases "k < 10") simp_all
  have "(if m < 10 then 48 + m else 87 + m) = (if n < 10 then 48 + n else 87 + n)"
    using arg_cong [OF assms(3), of "of_char :: char \<Rightarrow> nat"] unfolding f [OF assms(1)] f [OF assms(2)] .
  then show ?thesis using assms(1,2) by (cases "m < 10"; cases "n < 10") simp_all
qed

lemma hex_byte_inj: "a < 256 \<Longrightarrow> b < 256 \<Longrightarrow> hex_byte a = hex_byte b \<Longrightarrow> a = b"
proof -
  assume ab: "a < 256" "b < 256" and eq: "hex_byte a = hex_byte b"
  then have "a div 16 mod 16 = b div 16 mod 16" "a mod 16 = b mod 16"
    by (simp_all add: hex_byte_def hex_digit_inj)
  then have "a div 16 = b div 16" "a mod 16 = b mod 16" using ab by simp_all
  then show "a = b" by (metis div_mult_mod_eq)
qed

lemma hex_bytes_inj:
  assumes "length xs = length ys" "\<And>b. b \<in> set xs \<union> set ys \<Longrightarrow> b < 256" "concat (map hex_byte xs) = concat (map hex_byte ys)"
  shows "xs = ys"
  using assms
proof (induction xs ys rule: list_induct2)
  case (Cons x xs y ys)
  have len: "length (hex_byte x) = length (hex_byte y)" by (simp add: hex_byte_def)
  have "hex_byte x = hex_byte y" "concat (map hex_byte xs) = concat (map hex_byte ys)"
    using Cons.prems(2) len by simp_all
  then show ?case using hex_byte_inj [of x y] Cons.IH Cons.prems(1) by simp
qed simp

section \<open>Store and retrieve\<close>

lemma Put_begin_failures:
  assumes "Put_begin clock sh key data ttl cn = (cn', outs, PutFailed e)"
  shows "e \<noteq> ErrQuorumTimeout"
  using assms by (auto simp: Put_begin_def validateWrite_def ValidateKey_def Let_def case_prod_beta split: option.splits if_splits)

lemma toolStore_store:
  assumes "limits_ok (cn_limits cn)" "mcp_min_ttl srv = wl_min_ttl (cn_limits cn)" "mcp_max_ttl srv = wl_max_ttl (cn_limits cn)"
    and "toolStore wild fresh clock sh srv args cn = (cn', outs, r)"
  shows "(\<exists>e. r = ToolDone (Inl e)) \<and> cn_store cn' = cn_store cn \<and> outs = [] \<or>
    (\<exists>data ttl key. store_args wild fresh srv args = Inr (data, ttl, key) \<and> 300 \<le> ttl \<and> ttl \<le> max_int32 \<and>
       (r = ToolDone (Inr (StoreResult key ttl (clock 4 + ttl * nsec) True)) \<or> (\<exists>i mid. r = ToolWaiting i mid key ttl)) \<and>
       Put (clock 2) key data (ttl * nsec) (cn_store cn) = (cn_store cn', None))"
proof (cases "store_args wild fresh srv args")
  case (Inl e)
  then show ?thesis using assms(4) by (auto simp: toolStore_def)
next
  case (Inr a)
  obtain data ttl key where a: "a = (data, ttl, key)" by (cases a)
  then obtain s where "ttl = mcp_ttl srv s"
    using Inr by (auto simp: store_args_def Let_def split: option.splits go_any.splits)
  then have ttl: "ttl = clamped (cn_limits cn) s"
    using assms(1-3) by (auto simp: mcp_ttl_def clamped_def limits_ok_def)
  then have t: "300 \<le> ttl" "ttl \<le> max_int32" using clamped_seconds [OF assms(1)] by simp_all
  obtain cn1 outs1 r1 where p: "Put_begin clock sh key data (to_int64 (ttl * nsec)) cn = (cn1, outs1, r1)"
    by (cases "Put_begin clock sh key data (to_int64 (ttl * nsec)) cn")
  then have r: "cn' = cn1" "outs = outs1"
    "r = (case r1 of PutFailed err \<Rightarrow> ToolDone (store_reply (clock 4) key ttl (Some err))
      | PutDone \<Rightarrow> ToolDone (store_reply (clock 4) key ttl None) | PutWaiting i mid \<Rightarrow> ToolWaiting i mid key ttl)"
    using assms(4) Inr a by (auto simp: toolStore_def split: put_outcome.splits)
  show ?thesis
  proof (cases r1)
    case (PutFailed e)
    then have "\<exists>e'. store_reply (clock 4) key ttl (Some e) = Inl e'"
      using Put_begin_failures [OF p [unfolded PutFailed]] by (cases e) (auto simp: store_reply_def split: store_error.split)
    then show ?thesis using bounded_put [OF assms(1) ttl p] by (auto simp: r PutFailed)
  qed (use bounded_put [OF assms(1) ttl p] Inr a t in \<open>simp_all add: r store_reply_def seconds_exact\<close>)
qed

text \<open>
  C35. An agent gets back what it stored: after a \<open>store\<close> call that was confirmed or waits for its quorum under some
  key (given or generated), \<open>retrieve\<close> with that key returns the data with its write and expiry time and a
  remaining TTL between zero and the reported one until that TTL has passed, and null from then on. The reported
  TTL is within the node's limits.
\<close>

theorem mcp_store_retrieve:
  assumes "limits_ok (cn_limits cn)" "mcp_min_ttl srv = wl_min_ttl (cn_limits cn)" "mcp_max_ttl srv = wl_max_ttl (cn_limits cn)"
    and "toolStore wild fresh clock sh srv args cn = (cn', outs, r)"
    and "r = ToolDone (Inr (StoreResult key ttl expires True)) \<or> r = ToolWaiting i mid key ttl"
    and "key_arg args' = Some key" "clock 2 \<le> now1" "now1 \<le> now2"
  shows "wl_min_ttl (cn_limits cn) \<le> ttl \<and> ttl \<le> wl_max_ttl (cn_limits cn) \<and>
    (if now1 < clock 2 + ttl * nsec
     then \<exists>data remaining. gm_lookup args ''data'' = Some (AnyString data) \<and> 0 \<le> remaining \<and> remaining \<le> ttl \<and>
       toolRetrieve now1 now2 args' cn' = Inr (RetrieveResult data (clock 2) remaining (clock 2 + ttl * nsec))
     else toolRetrieve now1 now2 args' cn' = Inr NullResult)"
proof -
  obtain data where a: "store_args wild fresh srv args = Inr (data, ttl, key)" "300 \<le> ttl" "ttl \<le> max_int32"
    and p: "Put (clock 2) key data (ttl * nsec) (cn_store cn) = (cn_store cn', None)"
    using toolStore_store [OF assms(1-4)] assms(5) by auto
  then obtain s where ttl: "ttl = mcp_ttl srv s" and d: "gm_lookup args ''data'' = Some (AnyString data)"
    by (auto simp: store_args_def Let_def split: option.splits go_any.splits)
  have range: "wl_min_ttl (cn_limits cn) \<le> ttl \<and> ttl \<le> wl_max_ttl (cn_limits cn)"
    using assms(1-3) by (auto simp: ttl mcp_ttl_def Let_def limits_ok_def)
  have "cluster_GetWithMetadata now1 key cn' = (if now1 < clock 2 + ttl * nsec then Some (data, clock 2, ttl * nsec) else None)"
    unfolding cluster_GetWithMetadata_def mem.get_put [OF p] by simp
  moreover have "0 \<le> int_seconds (remaining_ttl now2 (clock 2) (ttl * nsec)) \<and> int_seconds (remaining_ttl now2 (clock 2) (ttl * nsec)) \<le> ttl"
    using assms(7,8) a(2,3) by (intro int_seconds_between) (simp_all add: remaining_ttl_def Let_def nsec_def max_int32_def)
  ultimately show ?thesis using range d assms(6) by (simp add: toolRetrieve_def)
qed

definition ex_args :: tool_args where
  "ex_args = [(''data'', AnyString ''v''), (''key'', AnyString ''k'')]"

theorem mcp_store_retrieve_witness:
  "\<exists>remaining. 0 \<le> remaining \<and> remaining \<le> 1800 \<and>
     toolRetrieve 5 6 ex_args (fst (toolStore (\<lambda>x. 0) [] int id \<lparr>mcp_min_ttl = 300, mcp_max_ttl = 86400\<rparr> ex_args ex_single)) =
       Inr (RetrieveResult ''v'' 2 remaining (2 + 1800 * nsec))"
proof -
  let ?srv = "\<lparr>mcp_min_ttl = 300, mcp_max_ttl = 86400\<rparr>"
  have a: "store_args (\<lambda>x. 0) [] ?srv ex_args = Inr (''v'', 1800, ''k'')"
    by (simp add: store_args_def ex_args_def mcp_ttl_def defaultStoreTTLSeconds_def)
  obtain cn' where p: "Put_begin int id ''k'' ''v'' (to_int64 (1800 * nsec)) ex_single = (cn', [], PutDone)"
    by (rule ex_single_done)
  then have s: "toolStore (\<lambda>x. 0) [] int id ?srv ex_args ex_single = (cn', [], ToolDone (Inr (StoreResult ''k'' 1800 (4 + to_int64 (1800 * nsec)) True)))"
    by (simp add: toolStore_def a store_reply_def)
  have l: "limits_ok (cn_limits ex_single)" "mcp_min_ttl ?srv = wl_min_ttl (cn_limits ex_single)" "mcp_max_ttl ?srv = wl_max_ttl (cn_limits ex_single)"
    by (simp_all add: limits_ok_default) (simp_all add: DefaultWriteLimits_def MinTTLSeconds_def DefaultMaxTTLSeconds_def)
  have k: "key_arg ex_args = Some ''k''" by (simp add: key_arg_def ex_args_def)
  have "5 < 2 + 1800 * nsec" by (simp add: nsec_def)
  then show ?thesis using mcp_store_retrieve [OF l s _ k, of _ "4 + to_int64 (1800 * nsec)" 0 "[]" 5 6] by (simp add: s) (simp add: ex_args_def)
qed

section \<open>One answer per request\<close>

definition owed :: "codec \<Rightarrow> mcp_state \<Rightarrow> bytes multiset" where
  "owed cd s = mset (concat (map (expected_ids cd) (mc_todo s))) + mset (filter (\<lambda>i. i \<noteq> []) (map pc_id (mc_waiting s)))"

lemma dispatch_ids:
  assumes "dispatch cd su srv raw cn = (cn', outs, rs, ps)"
  shows "mset (map rr_id rs) + mset (filter (\<lambda>i. i \<noteq> []) (map pc_id ps)) = mset (expected_ids cd raw)"
proof (cases "dec_request cd raw")
  case (Some req)
  obtain cn1 outs1 r where "handle cd su srv (rq_method req) (rq_params req) cn = (cn1, outs1, r)"
    by (cases "handle cd su srv (rq_method req) (rq_params req) cn")
  with Some assms show ?thesis by (cases r) (auto simp: dispatch_def expected_ids_def responses_def)
qed (use assms in \<open>auto simp: dispatch_def expected_ids_def\<close>)

lemma finish_ids:
  assumes "finish_call w now pc cn = (cn', rs)"
  shows "mset (map rr_id rs) = mset (filter (\<lambda>i. i \<noteq> []) [pc_id pc])"
  using assms by (auto simp: finish_call_def responses_def split: prod.splits)

lemma step_owed: "mcp_step cd srv s s' \<Longrightarrow> mset (map rr_id (mc_out s')) + owed cd s' = mset (map rr_id (mc_out s)) + owed cd s"
proof (induction rule: mcp_step.induct)
  case (run_request s xs raw ys su cn outs rs ps)
  then show ?case using dispatch_ids [OF run_request(2)] by (simp add: owed_def ac_simps)
next
  case (finish_store s xs pc ys w now cn rs)
  then show ?case using finish_ids [OF finish_store(3)] by (auto simp: owed_def ac_simps)
qed (simp add: owed_def)

lemma steps_owed: "(mcp_step cd srv)\<^sup>*\<^sup>* s s' \<Longrightarrow> mset (map rr_id (mc_out s')) + owed cd s' = mset (map rr_id (mc_out s)) + owed cd s"
  by (induction rule: rtranclp_induct) (auto dest: step_owed)

text \<open>Work never gets stuck: every goroutine can run, and every wait can at least time out.\<close>

lemma drain_waiting: "\<exists>s'. (mcp_step cd srv)\<^sup>*\<^sup>* s s' \<and> mc_todo s' = mc_todo s \<and> mc_waiting s' = []"
proof (induction "length (mc_waiting s)" arbitrary: s)
  case (Suc n)
  then obtain pc ps where w: "mc_waiting s = [] @ pc # ps" by (cases "mc_waiting s") auto
  obtain cn rs where f: "finish_call WaitTimeout 0 pc (mc_node s) = (cn, rs)" by (cases "finish_call WaitTimeout 0 pc (mc_node s)")
  let ?s = "s\<lparr>mc_waiting := [] @ ps, mc_out := mc_out s @ rs, mc_node := cn\<rparr>"
  have step: "mcp_step cd srv s ?s" using w f by (intro finish_store) (simp_all add: wait_enabled_def)
  have "n = length (mc_waiting ?s)" using Suc.hyps(2) w by simp
  from Suc.hyps(1) [OF this] obtain s' where "(mcp_step cd srv)\<^sup>*\<^sup>* ?s s'" "mc_todo s' = mc_todo s" "mc_waiting s' = []" by auto
  with step show ?case by (meson converse_rtranclp_into_rtranclp)
qed auto

lemma drain_todo: "\<exists>s'. (mcp_step cd srv)\<^sup>*\<^sup>* s s' \<and> mc_todo s' = []"
proof (induction "length (mc_todo s)" arbitrary: s)
  case (Suc n)
  then obtain raw ls where w: "mc_todo s = [] @ raw # ls" by (cases "mc_todo s") auto
  let ?su = "\<lparr>su_wild = \<lambda>x. 0, su_fresh = [], su_clock = int, su_shuffle = id\<rparr>"
  obtain cn outs rs ps where d: "dispatch cd ?su srv raw (mc_node s) = (cn, outs, rs, ps)"
    by (cases "dispatch cd ?su srv raw (mc_node s)") auto
  let ?s = "s\<lparr>mc_todo := [] @ ls, mc_waiting := mc_waiting s @ ps, mc_out := mc_out s @ rs, mc_node := cn\<rparr>"
  have step: "mcp_step cd srv s ?s" by (rule run_request [OF w d])
  have "n = length (mc_todo ?s)" using Suc.hyps(2) w by simp
  from Suc.hyps(1) [OF this] obtain s' where "(mcp_step cd srv)\<^sup>*\<^sup>* ?s s'" "mc_todo s' = []" by auto
  with step show ?case by (meson converse_rtranclp_into_rtranclp)
qed auto

text \<open>
  C36. Every request is answered exactly once, in whatever order the requests and the waits of \<open>store\<close> are
  scheduled and whatever else the node handles in between: at each moment the IDs answered and the IDs owed
  together are those of the input lines, each as often as it occurs, \<open>null\<close> for a line that is not a request, and
  nothing for a notification. The server can always finish its work, and then the answers are exactly the IDs of
  the input. Printed as frames, the answers are read back one per line.
\<close>

theorem mcp_answers_once:
  assumes "(mcp_step cd srv)\<^sup>*\<^sup>* (mcp_start input cn) s"
    and "\<And>r. enc r \<noteq> [] \<and> CHR 0x0A \<notin> set (enc r) \<and> last (enc r) \<noteq> CHR 0x0D"
  shows "mset (map rr_id (mc_out s)) \<subseteq># mset (concat (map (expected_ids cd) (read_lines input))) \<and>
    (mc_todo s = [] \<and> mc_waiting s = [] \<longrightarrow>
       mset (map rr_id (mc_out s)) = mset (concat (map (expected_ids cd) (read_lines input)))) \<and>
    (\<exists>s'. (mcp_step cd srv)\<^sup>*\<^sup>* s s' \<and> mc_todo s' = [] \<and> mc_waiting s' = []) \<and>
    read_lines (concat (map frame (map enc (mc_out s)))) = map enc (mc_out s)"
proof -
  have inv: "mset (map rr_id (mc_out s)) + owed cd s = mset (concat (map (expected_ids cd) (read_lines input)))"
    using steps_owed [OF assms(1)] by (simp add: mcp_start_def owed_def)
  then have "mset (map rr_id (mc_out s)) \<subseteq># mset (concat (map (expected_ids cd) (read_lines input)))"
    by (metis mset_subset_eq_add_left)
  moreover have "\<exists>s'. (mcp_step cd srv)\<^sup>*\<^sup>* s s' \<and> mc_todo s' = [] \<and> mc_waiting s' = []"
    using drain_todo [of cd srv s] drain_waiting by (metis rtranclp_trans)
  moreover have "read_lines (concat (map frame (map enc (mc_out s)))) = map enc (mc_out s)"
    using assms(2) by (intro read_frames) auto
  moreover have "mset (map rr_id (mc_out s)) = mset (concat (map (expected_ids cd) (read_lines input)))"
    if "mc_todo s = []" "mc_waiting s = []"
    using inv that by (simp add: owed_def)
  ultimately show ?thesis by blast
qed

theorem mcp_answers_once_witness:
  "\<exists>s'. (mcp_step \<lparr>dec_request = \<lambda>b. None, dec_call = \<lambda>b. None, dec_version = \<lambda>b. []\<rparr> \<lparr>mcp_min_ttl = 300, mcp_max_ttl = 86400\<rparr>)\<^sup>*\<^sup>*
      (mcp_start (frame ''x'') ex_single) s' \<and> mc_todo s' = [] \<and> mc_waiting s' = []"
  using mcp_answers_once [OF rtranclp.rtrancl_refl, of "\<lambda>r. ''r''"] by simp

text \<open>Generated keys of equal random bytes only are equal.\<close>

lemma newKey_inj:
  assumes "length a = 16" "length b = 16" "\<And>x. x \<in> set a \<union> set b \<Longrightarrow> x < 256" "newKey (Some a) now = newKey (Some b) now'"
  shows "a = b"
proof -
  let ?h = "\<lambda>c. concat (map hex_byte c)"
  have len: "length (?h c) = 2 * length c" for c by (induction c) (simp_all add: hex_byte_def)
  have "?h (take 4 a) @ ?h (drop 4 (take 6 a)) @ ?h (drop 6 (take 8 a)) @ ?h (drop 8 (take 10 a)) @ ?h (drop 10 (take 16 a)) =
      ?h (take 4 b) @ ?h (drop 4 (take 6 b)) @ ?h (drop 6 (take 8 b)) @ ?h (drop 8 (take 10 b)) @ ?h (drop 10 (take 16 b))"
    using assms(1,2,4) by (simp add: newKey_def Let_def len)
  moreover have "take 4 c @ drop 4 (take 6 c) @ drop 6 (take 8 c) @ drop 8 (take 10 c) @ drop 10 (take 16 c) = c" if "length c = 16" for c :: "nat list"
  proof -
    have j: "take i c @ drop i (take j c) @ r = take j c @ r" if "i \<le> j" for i j and r :: "nat list"
      using that by (metis append_assoc append_take_drop_id min.absorb1 take_take)
    have j46: "take 4 c @ drop 4 (take 6 c) @ r = take 6 c @ r" for r by (rule j) simp
    have j68: "take 6 c @ drop 6 (take 8 c) @ r = take 8 c @ r" for r by (rule j) simp
    have j810: "take 8 c @ drop 8 (take 10 c) @ r = take 10 c @ r" for r by (rule j) simp
    show ?thesis unfolding j46 j68 j810 using that by simp
  qed
  ultimately have "?h a = ?h b" using assms(1,2) by (metis concat_append map_append)
  then show ?thesis using hex_bytes_inj [of a b] assms(1-3) by simp
qed

end
