(* ===== verification/Dashboard.thy ===== *)
theory Dashboard
  imports Middleware Endpoint Trust
begin

text \<open>
  The dashboard, \<open>src/internal/dashboard\<close>: the walk over the network (\<open>poller.go\<close>), the projection of its results
  into a snapshot (\<open>builder.go\<close>, \<open>snapshot.go\<close>) and the main loop with its sources of trust (\<open>orchestrator.go\<close>). The
  answers of nodes, the geographic database, clock readings and file system outcomes are arguments. Metrics, log
  output and the HTTP server of the dashboard are not modelled, and \<open>parseMetrics\<close> is represented by the counters of a
  poll outcome.
\<close>

section \<open>Addresses\<close>

definition DefaultPollWorkers :: nat where "DefaultPollWorkers = 8"
definition MaxVisitedNodes :: nat where "MaxVisitedNodes = 1024"
definition walkQueueSize :: nat where "walkQueueSize = 256"

record nodeAddr =
  na_id :: string
  na_host :: string
  na_port :: int
  na_enclave :: string

definition HostPort :: "nodeAddr \<Rightarrow> string" where
  "HostPort n = JoinHostPort (na_host n) (Itoa (na_port n))"

text \<open>\<open>splitHostPort\<close> and \<open>splitHostPortRaw\<close>: \<open>net.SplitHostPort\<close>, then the port as a number.\<close>

definition dash_splitHostPort :: "string \<Rightarrow> (string \<times> int) option" where
  "dash_splitHostPort s =
     (case split_host s of
        None \<Rightarrow> None
      | Some host \<Rightarrow>
          (case CutLast (CHR '':'') s of
             None \<Rightarrow> None
           | Some (front, portStr) \<Rightarrow> map_option (Pair host) (Atoi portStr)))"

definition normalize_addr :: "string \<Rightarrow> string option" where
  "normalize_addr raw =
     (let a = TrimSpace raw
      in if a = [] then None else map_option (\<lambda>(host, port). JoinHostPort host (Itoa port)) (dash_splitHostPort a))"

text \<open>A set of addresses; the map of the source only holds \<open>true\<close>.\<close>

definition normalizeAddrs :: "string list \<Rightarrow> string list" where
  "normalizeAddrs xs = remdups (List.map_filter normalize_addr xs)"

section \<open>Polling one node\<close>

record peerEntry =
  pe_id :: string
  pe_address :: string
  pe_port :: int
  pe_enclave :: string

record topologyResponse =
  tr_node_id :: string
  tr_enclave :: string
  tr_peers :: "peerEntry list"

record statusResponse =
  sr_node_id :: string
  sr_enclave :: string
  sr_uptime :: string
  sr_alloc :: int
  sr_goroutines :: int

record NodeMetrics =
  nm_joins :: int
  nm_evictions :: int
  nm_ping_failures :: int

definition no_status :: statusResponse where
  "no_status = \<lparr>sr_node_id = [], sr_enclave = [], sr_uptime = [], sr_alloc = 0, sr_goroutines = 0\<rparr>"

definition no_metrics :: NodeMetrics where
  "no_metrics = \<lparr>nm_joins = 0, nm_evictions = 0, nm_ping_failures = 0\<rparr>"

record pollResult =
  po_addr :: nodeAddr
  po_unreachable :: bool
  po_status :: statusResponse
  po_metrics :: NodeMetrics
  po_peers :: "peerEntry list"

text \<open>What a node answers to the three requests of a poll; \<open>None\<close> for an error.\<close>

record node_answers =
  an_topology :: "topologyResponse option"
  an_status :: "statusResponse option"
  an_metrics :: "NodeMetrics option"

definition prefer_new :: "string \<Rightarrow> string \<Rightarrow> string" where
  "prefer_new new old = (if new \<noteq> [] then new else old)"

definition pollOne :: "(string \<Rightarrow> node_answers) \<Rightarrow> nodeAddr \<Rightarrow> pollResult" where
  "pollOne net addr =
     (let an = net (HostPort addr)
      in case an_topology an of
           None \<Rightarrow> \<lparr>po_addr = addr, po_unreachable = True, po_status = no_status, po_metrics = no_metrics, po_peers = []\<rparr>
         | Some topo \<Rightarrow>
             let addr1 = addr\<lparr>na_id := prefer_new (tr_node_id topo) (na_id addr), na_enclave := prefer_new (tr_enclave topo) (na_enclave addr)\<rparr>;
                 addr2 = (case an_status an of
                            None \<Rightarrow> addr1
                          | Some st \<Rightarrow> addr1\<lparr>na_id := prefer_new (sr_node_id st) (na_id addr1), na_enclave := prefer_new (sr_enclave st) (na_enclave addr1)\<rparr>)
             in \<lparr>po_addr = addr2, po_unreachable = False,
                 po_status = (case an_status an of None \<Rightarrow> no_status | Some st \<Rightarrow> st),
                 po_metrics = (case an_metrics an of None \<Rightarrow> no_metrics | Some m \<Rightarrow> m),
                 po_peers = tr_peers topo\<rparr>)"

section \<open>The walk\<close>

text \<open>
  Workers take addresses from a channel with room for 256, poll them and enqueue the peers they learn. \<open>enqueue\<close>
  marks an address as visited and counts it as pending before the send, which may block; a worker is therefore
  \<open>Scanning\<close> the rest of a peer list or \<open>Sending\<close> one address. The last worker to finish closes the channel.
\<close>

datatype worker = Scanning "peerEntry list" | Sending nodeAddr "peerEntry list"

record walk_state =
  wk_visited :: "string list"
  wk_pending :: nat
  wk_queue :: "nodeAddr list"
  wk_workers :: "worker list"
  wk_results :: "pollResult list"
  wk_closed :: bool

definition peer_addr :: "peerEntry \<Rightarrow> nodeAddr" where
  "peer_addr pe = \<lparr>na_id = pe_id pe, na_host = pe_address pe, na_port = pe_port pe, na_enclave = pe_enclave pe\<rparr>"

definition usable_peer :: "peerEntry \<Rightarrow> bool" where
  "usable_peer pe \<longleftrightarrow> pe_address pe \<noteq> [] \<and> pe_port pe \<noteq> 0"

text \<open>The locked part of \<open>enqueue\<close>: whether the address is new and within the cap.\<close>

definition enqueue :: "nodeAddr \<Rightarrow> walk_state \<Rightarrow> walk_state \<times> bool" where
  "enqueue a s =
     (if List.member (wk_visited s) (HostPort a) then (s, False)
      else if length (wk_visited s) \<ge> MaxVisitedNodes then (s, False)
      else (s\<lparr>wk_visited := HostPort a # wk_visited s, wk_pending := Suc (wk_pending s)\<rparr>, True))"

text \<open>The seeds go into the channel before any worker runs: \<open>None\<close> when that blocks.\<close>

definition seed_addr :: "string \<Rightarrow> nodeAddr option" where
  "seed_addr seed =
     map_option (\<lambda>(host, port). \<lparr>na_id = [], na_host = host, na_port = port, na_enclave = []\<rparr>) (dash_splitHostPort seed)"

fun seed_queue :: "string list \<Rightarrow> walk_state \<Rightarrow> walk_state option" where
  "seed_queue [] s = Some s"
| "seed_queue (seed # seeds) s =
     (case seed_addr seed of
        None \<Rightarrow> seed_queue seeds s
      | Some a \<Rightarrow>
          (case enqueue a s of
             (s1, False) \<Rightarrow> seed_queue seeds s1
           | (s1, True) \<Rightarrow>
               if length (wk_queue s1) < walkQueueSize then seed_queue seeds (s1\<lparr>wk_queue := wk_queue s1 @ [a]\<rparr>) else None))"

definition empty_walk :: walk_state where
  "empty_walk = \<lparr>wk_visited = [], wk_pending = 0, wk_queue = [], wk_workers = [], wk_results = [], wk_closed = False\<rparr>"

inductive walk_step :: "(string \<Rightarrow> node_answers) \<Rightarrow> nat \<Rightarrow> walk_state \<Rightarrow> walk_state \<Rightarrow> bool" for net workers where
  take_addr: "wk_queue s = a # q \<Longrightarrow> length (wk_workers s) < workers \<Longrightarrow> res = pollOne net a \<Longrightarrow>
     walk_step net workers s
       (s\<lparr>wk_queue := q, wk_workers := Scanning (po_peers res) # wk_workers s, wk_results := wk_results s @ [res]\<rparr>)"
| skip_peer: "wk_workers s = ws1 @ Scanning (pe # pes) # ws2 \<Longrightarrow> \<not> usable_peer pe \<or> \<not> snd (enqueue (peer_addr pe) s) \<Longrightarrow>
     walk_step net workers s (s\<lparr>wk_workers := ws1 @ Scanning pes # ws2\<rparr>)"
| mark_peer: "wk_workers s = ws1 @ Scanning (pe # pes) # ws2 \<Longrightarrow> usable_peer pe \<Longrightarrow> enqueue (peer_addr pe) s = (s1, True) \<Longrightarrow>
     walk_step net workers s (s1\<lparr>wk_workers := ws1 @ Sending (peer_addr pe) pes # ws2\<rparr>)"
| send_peer: "wk_workers s = ws1 @ Sending a pes # ws2 \<Longrightarrow> length (wk_queue s) < walkQueueSize \<Longrightarrow>
     walk_step net workers s (s\<lparr>wk_queue := wk_queue s @ [a], wk_workers := ws1 @ Scanning pes # ws2\<rparr>)"
| finish_node: "wk_workers s = ws1 @ Scanning [] # ws2 \<Longrightarrow>
     walk_step net workers s (s\<lparr>wk_workers := ws1 @ ws2, wk_pending := wk_pending s - 1, wk_closed := wk_pending s = 1\<rparr>)"

text \<open>The collector: the last result for an ID, or for the address when there is no ID, is kept.\<close>

definition result_id :: "pollResult \<Rightarrow> string" where
  "result_id r = (if na_id (po_addr r) = [] then HostPort (po_addr r) else na_id (po_addr r))"

definition collect :: "pollResult list \<Rightarrow> (string, pollResult) gomap" where
  "collect rs = foldl (\<lambda>m r. gm_update (result_id r) r m) [] rs"

end
