(* ===== verification/Dashboard_Loop.thy ===== *)
theory Dashboard_Loop
  imports Dashboard "HOL-Library.Product_Lexorder"
begin

text \<open>
  The snapshot builder (\<open>builder.go\<close>, \<open>snapshot.go\<close>) and the main loop of the dashboard (\<open>orchestrator.go\<close>). A Go map is
  traversed in no particular order, so \<open>Build\<close> takes its results as a list; theory \<open>Dashboard_Facts\<close> shows that the
  order does not matter. The geographic database is a function from a host to its country.
\<close>

section \<open>Durations\<close>

text \<open>\<open>time.ParseDuration\<close>: \<open>None\<close> for its errors. Sums are taken in 64 bits.\<close>

fun leadingInt :: "nat \<Rightarrow> string \<Rightarrow> (nat \<times> string) option" where
  "leadingInt x [] = Some (x, [])"
| "leadingInt x (c # cs) =
     (case digit_val c of
        None \<Rightarrow> Some (x, c # cs)
      | Some d \<Rightarrow> if x > 2 ^ 63 div 10 then None else if x * 10 + d > 2 ^ 63 then None else leadingInt (x * 10 + d) cs)"

fun leadingFraction :: "nat \<Rightarrow> rat \<Rightarrow> bool \<Rightarrow> string \<Rightarrow> nat \<times> rat \<times> string" where
  "leadingFraction x scale overflow [] = (x, scale, [])"
| "leadingFraction x scale overflow (c # cs) =
     (case digit_val c of
        None \<Rightarrow> (x, scale, c # cs)
      | Some d \<Rightarrow>
          if overflow \<or> x > (2 ^ 63 - 1) div 10 \<or> x * 10 + d > 2 ^ 63 then leadingFraction x scale True cs
          else leadingFraction (x * 10 + d) (float_round (scale * 10)) False cs)"

definition duration_unit :: "string \<Rightarrow> nat option" where
  "duration_unit u =
     map_of [(''ns'', 1), (''us'', 1000), ([CHR 0xC2, CHR 0xB5, CHR ''s''], 1000), ([CHR 0xCE, CHR 0xBC, CHR ''s''], 1000),
             (''ms'', 1000000), (''s'', 1000000000), (''m'', 60000000000), (''h'', 3600000000000)] u"

text \<open>One pass of the loop: a number, its fraction and a unit.\<close>

definition duration_value :: "nat \<Rightarrow> nat \<Rightarrow> rat \<Rightarrow> string \<Rightarrow> nat option" where
  "duration_value v f scale u =
     (case duration_unit u of
        None \<Rightarrow> None
      | Some n \<Rightarrow>
          if v > 2 ^ 63 div n then None
          else let extra = (if f > 0 then nat \<lfloor>float_round (float_round (of_nat f) * float_round (of_nat n / scale))\<rfloor> else 0)
               in if v * n + extra > 2 ^ 63 then None else Some (v * n + extra))"

definition duration_item :: "string \<Rightarrow> (nat \<times> string) option" where
  "duration_item s =
     (case leadingInt 0 s of
        None \<Rightarrow> None
      | Some (v, s1) \<Rightarrow>
          let (f, scale, s2) = (if HasPrefix s1 ''.'' then leadingFraction 0 1 False (tl s1) else (0, 1, s1));
              pre = (s1 \<noteq> s); post = (HasPrefix s1 ''.'' \<and> s2 \<noteq> tl s1);
              u = takeWhile (\<lambda>c. c \<noteq> CHR ''.'' \<and> digit_val c = None) s2
          in if \<not> pre \<and> \<not> post then None
             else if u = [] then None
             else map_option (\<lambda>x. (x, drop (length u) s2)) (duration_value v f scale u))"

lemma leadingInt_length: "leadingInt x s = Some (v, s') \<Longrightarrow> length s' \<le> length s"
  by (induction x s rule: leadingInt.induct) (auto split: option.splits if_splits)

lemma leadingFraction_length: "leadingFraction x sc ov s = (f, sc', s') \<Longrightarrow> length s' \<le> length s"
  by (induction x sc ov s rule: leadingFraction.induct) (auto split: option.splits if_splits)

lemma duration_item_length: "duration_item s = Some (v, s') \<Longrightarrow> length s' < length s"
proof -
  assume item: "duration_item s = Some (v, s')"
  then obtain v1 s1 where i: "leadingInt 0 s = Some (v1, s1)" by (auto simp: duration_item_def split: option.splits)
  obtain f scale s2 where fr: "(if HasPrefix s1 ''.'' then leadingFraction 0 1 False (tl s1) else (0, 1, s1)) = (f, scale, s2)"
    by (metis surj_pair)
  let ?u = "takeWhile (\<lambda>c. c \<noteq> CHR ''.'' \<and> digit_val c = None) s2"
  have "?u \<noteq> []" "s' = drop (length ?u) s2" using item i fr by (auto simp: duration_item_def Let_def split: if_splits)
  moreover have "length s2 \<le> length s1"
    using fr leadingFraction_length [of 0 1 False "tl s1" f scale s2] by (auto split: if_splits)
  ultimately show ?thesis using leadingInt_length [OF i] length_takeWhile_le [of _ s2] by (cases s2) auto
qed

function duration_loop :: "nat \<Rightarrow> string \<Rightarrow> nat option" where
  "duration_loop d s =
     (if s = [] then Some d
      else case duration_item s of
        None \<Rightarrow> None
      | Some (v, rest) \<Rightarrow> if (d + v) mod 2 ^ 64 > 2 ^ 63 then None else duration_loop ((d + v) mod 2 ^ 64) rest)"
  by pat_completeness auto
termination
  by (relation "measure (\<lambda>(d, s). length s)") (auto simp: duration_item_length)

declare duration_loop.simps [simp del]

definition ParseDuration :: "string \<Rightarrow> duration option" where
  "ParseDuration s0 =
     (let neg = HasPrefix s0 ''-''; s = (if neg \<or> HasPrefix s0 ''+'' then tl s0 else s0)
      in if s = ''0'' then Some 0
         else if s = [] then None
         else case duration_loop 0 s of
                None \<Rightarrow> None
              | Some d \<Rightarrow> if neg then Some (to_int64 (- int d)) else if d > 2 ^ 63 - 1 then None else Some (int d))"

definition parseUptime :: "string \<Rightarrow> int" where
  "parseUptime s = (if s = [] then 0 else case ParseDuration s of None \<Rightarrow> 0 | Some d \<Rightarrow> float_to_int (Duration_Seconds d))"

section \<open>The builder\<close>

text \<open>\<open>math.Round\<close> rounds halves away from zero; \<open>math.Pow(10, 2)\<close> is 100.\<close>

definition math_round :: "rat \<Rightarrow> int" where
  "math_round x = (if x \<ge> 0 then \<lfloor>x + 1 / 2\<rfloor> else - \<lfloor>- x + 1 / 2\<rfloor>)"

definition roundFloat2 :: "rat \<Rightarrow> rat" where
  "roundFloat2 v = float_round (of_int (math_round (float_round (v * 100))) / 100)"

definition roundToNearest :: "int \<Rightarrow> int \<Rightarrow> int" where
  "roundToNearest v bucket =
     (if bucket \<le> 1 then v else to_int64 (go_quot (to_int64 (v + go_quot bucket 2)) bucket * bucket))"

record dash_node =
  dn_id :: string
  dn_enclave :: string
  dn_region :: string
  dn_uptime :: int
  dn_heap :: rat
  dn_goroutines :: int
  dn_is_root :: bool
  dn_unreachable :: bool
  dn_metrics :: NodeMetrics

record Stats =
  st_nodes :: nat
  st_enclaves :: nat
  st_roots_reachable :: nat
  st_oldest_uptime :: int
  st_omega_refreshed :: "gotime option"
  st_omega_expires :: "int option"

text \<open>An edge is the pair of the node that lists a peer and the peer.\<close>

record dash_snapshot =
  ds_generated :: gotime
  ds_stale :: bool
  ds_from_disk :: bool
  ds_roots_unreachable :: bool
  ds_refresh_failed :: bool
  ds_seed_override :: bool
  ds_stats :: Stats
  ds_nodes :: "dash_node list"
  ds_edges :: "(string \<times> string) list"

record BuildInput =
  bi_results :: "(string, pollResult) gomap"
  bi_roots :: "string list"
  bi_seed_override :: bool
  bi_roots_unreachable :: bool
  bi_refresh_failed :: bool
  bi_refreshed :: "gotime option"
  bi_expires :: "int option"
  bi_now :: gotime

definition id_by_addr :: "(string, pollResult) gomap \<Rightarrow> (string, string) gomap" where
  "id_by_addr rs =
     foldl (\<lambda>m (i, r). if na_host (po_addr r) = [] \<or> na_port (po_addr r) = 0 then m else gm_update (HostPort (po_addr r)) i m) [] rs"

definition build_node :: "(string \<Rightarrow> string option) \<Rightarrow> string list \<Rightarrow> string \<times> pollResult \<Rightarrow> dash_node" where
  "build_node geo roots ir =
     (let (i, r) = ir; addr = po_addr r; st = po_status r
      in \<lparr>dn_id = i, dn_enclave = (if na_enclave addr = [] \<and> sr_enclave st \<noteq> [] then sr_enclave st else na_enclave addr),
          dn_region = (if na_host addr = [] then ''?'' else case geo (na_host addr) of None \<Rightarrow> ''?'' | Some code \<Rightarrow> code),
          dn_uptime = parseUptime (sr_uptime st),
          dn_heap = roundFloat2 (float_round (float_round (of_int (sr_alloc st)) / (1024 * 1024))),
          dn_goroutines = roundToNearest (sr_goroutines st) 10,
          dn_is_root = List.member roots (HostPort addr), dn_unreachable = po_unreachable r, dn_metrics = po_metrics r\<rparr>)"

definition build_edges :: "(string, string) gomap \<Rightarrow> string \<times> pollResult \<Rightarrow> (string \<times> string) list" where
  "build_edges ids ir =
     (let (i, r) = ir
      in List.map_filter (\<lambda>pe.
           let peerID = (case gm_lookup ids (JoinHostPort (pe_address pe) (Itoa (pe_port pe))) of Some mapped \<Rightarrow> mapped | None \<Rightarrow> pe_id pe)
           in if peerID = [] \<or> peerID = i then None else Some (i, peerID)) (po_peers r))"

definition Canonicalize :: "dash_snapshot \<Rightarrow> dash_snapshot" where
  "Canonicalize s = s\<lparr>ds_nodes := sort_key dn_id (ds_nodes s), ds_edges := sort (ds_edges s)\<rparr>"

definition Build :: "(string \<Rightarrow> string option) \<Rightarrow> BuildInput \<Rightarrow> dash_snapshot" where
  "Build geo inp =
     (let rs = bi_results inp; ids = id_by_addr rs; nodes = map (build_node geo (bi_roots inp)) rs
      in Canonicalize
           \<lparr>ds_generated = bi_now inp, ds_stale = False, ds_from_disk = False, ds_roots_unreachable = bi_roots_unreachable inp,
            ds_refresh_failed = bi_refresh_failed inp, ds_seed_override = bi_seed_override inp,
            ds_stats = \<lparr>st_nodes = length nodes,
                        st_enclaves = length (remdups (filter (\<lambda>e. e \<noteq> []) (map dn_enclave nodes))),
                        st_roots_reachable = length (filter (\<lambda>n. dn_is_root n \<and> \<not> dn_unreachable n) nodes),
                        st_oldest_uptime = fold (\<lambda>n m. if dn_uptime n > m then dn_uptime n else m) nodes 0,
                        st_omega_refreshed = bi_refreshed inp, st_omega_expires = bi_expires inp\<rparr>,
            ds_nodes = nodes, ds_edges = concat (map (build_edges ids) rs)\<rparr>)"

section \<open>The main loop\<close>

definition MaxRootsUnreachableCycles :: nat where "MaxRootsUnreachableCycles = 5"

datatype RootSource = RootSourceOmega | RootSourceSeeds

text \<open>\<open>or_fetched\<close> is \<open>None\<close> for the zero time; \<open>or_triggered\<close> is the pending trigger of the refresher.\<close>

record Orchestrator =
  or_snapshot :: "dash_snapshot option"
  or_roots :: "string list"
  or_misses :: nat
  or_source :: RootSource
  or_list :: "SignedList option"
  or_fetched :: "gotime option"
  or_refresh_failed :: bool
  or_has_refresher :: bool
  or_triggered :: bool

definition NewOrchestrator :: Orchestrator where
  "NewOrchestrator =
     \<lparr>or_snapshot = None, or_roots = [], or_misses = 0, or_source = RootSourceOmega, or_list = None, or_fetched = None,
      or_refresh_failed = False, or_has_refresher = False, or_triggered = False\<rparr>"

definition applyRoots :: "string list \<Rightarrow> RootSource \<Rightarrow> SignedList option \<Rightarrow> gotime option \<Rightarrow> Orchestrator \<Rightarrow> Orchestrator" where
  "applyRoots addrs source lst fetchedAt ob =
     ob\<lparr>or_roots := addrs, or_source := source, or_list := lst, or_fetched := fetchedAt, or_misses := 0\<rparr>"

definition markRefreshFailed :: "bool \<Rightarrow> Orchestrator \<Rightarrow> Orchestrator" where
  "markRefreshFailed v ob = ob\<lparr>or_refresh_failed := v\<rparr>"

definition bootFromSeeds :: "string list \<Rightarrow> Orchestrator \<Rightarrow> Orchestrator" where
  "bootFromSeeds seeds ob = markRefreshFailed False (applyRoots (normalizeAddrs seeds) RootSourceSeeds None None ob)"

definition load_prior :: "dash_snapshot option \<Rightarrow> Orchestrator \<Rightarrow> Orchestrator" where
  "load_prior prior ob =
     (case prior of None \<Rightarrow> ob | Some s \<Rightarrow> ob\<lparr>or_snapshot := Some (s\<lparr>ds_stale := True, ds_from_disk := True\<rparr>)\<rparr>)"

text \<open>
  \<open>Boot\<close>: \<open>key\<close> is the configured key or the result of decoding the built-in one, \<open>prior\<close> the readable snapshot file,
  \<open>cached\<close> what \<open>LoadCache\<close> returns and \<open>mtime\<close> the time of that file, \<open>fetched\<close> what \<open>FetchSigned\<close> returns.
\<close>

definition Boot ::
    "(bytes \<Rightarrow> bytes \<Rightarrow> bytes \<Rightarrow> bool) \<Rightarrow> trust_error + bytes \<Rightarrow> dash_snapshot option \<Rightarrow> cache_error + SignedList option \<Rightarrow> gotime option
       \<Rightarrow> (bytes \<Rightarrow> trust_error + SignedList) \<Rightarrow> int \<Rightarrow> gotime \<Rightarrow> string list \<Rightarrow> Orchestrator \<Rightarrow> Orchestrator \<times> trust_error option" where
  "Boot verify key prior cached mtime fetch now1 now2 seeds ob0 =
     (let ob = load_prior prior ob0
      in case key of
           Inl e \<Rightarrow> if seeds \<noteq> [] then (bootFromSeeds seeds ob, None) else (ob, Some e)
         | Inr pubkey \<Rightarrow>
             (case (case cached of Inr (Some lst) \<Rightarrow> if Verify verify pubkey now1 lst = None then Some lst else None | _ \<Rightarrow> None) of
                Some lst \<Rightarrow> (applyRoots (normalizeAddrs (sl_nodes lst)) RootSourceOmega (Some lst) mtime ob, None)
              | None \<Rightarrow>
                  (case fetch pubkey of
                     Inr lst \<Rightarrow> (applyRoots (normalizeAddrs (sl_nodes lst)) RootSourceOmega (Some lst) (Some now2) ob, None)
                   | Inl dnsErr \<Rightarrow>
                       let ob1 = markRefreshFailed True ob
                       in if seeds \<noteq> [] then (bootFromSeeds seeds ob1, None) else (ob1, Some dnsErr))))"

text \<open>The start of \<open>Run\<close>: the refresher only runs under the trust chain.\<close>

definition start_refresher :: "trust_error + bytes \<Rightarrow> Orchestrator \<Rightarrow> Orchestrator" where
  "start_refresher key ob =
     (if or_source ob = RootSourceOmega \<and> or_list ob \<noteq> None \<and> (case key of Inr pubkey \<Rightarrow> True | Inl e \<Rightarrow> False) then ob\<lparr>or_has_refresher := True\<rparr> else ob)"

definition onOmegaUpdate :: "SignedList \<Rightarrow> gotime \<Rightarrow> Orchestrator \<Rightarrow> Orchestrator" where
  "onOmegaUpdate lst now ob =
     markRefreshFailed False (applyRoots (normalizeAddrs (sl_nodes lst)) RootSourceOmega (Some lst) (Some now) ob)"

definition reachable_roots :: "string list \<Rightarrow> (string, pollResult) gomap \<Rightarrow> nat" where
  "reachable_roots roots results =
     length (filter (\<lambda>(i, r). \<not> po_unreachable r \<and> List.member roots (HostPort (po_addr r))) results)"

text \<open>
  One cycle: what it reads under the lock at its start, then, after the walk, the accounting and the new snapshot.
  Cycles are serialised; the roots can be replaced during the walk. \<open>results\<close> is what \<open>Walk\<close> returns, in some order.
\<close>

record cycle_start =
  cs_roots :: "string list"
  cs_source :: RootSource
  cs_list :: "SignedList option"
  cs_fetched :: "gotime option"

definition cycle_begin :: "Orchestrator \<Rightarrow> cycle_start" where
  "cycle_begin ob = \<lparr>cs_roots = or_roots ob, cs_source = or_source ob, cs_list = or_list ob, cs_fetched = or_fetched ob\<rparr>"

definition no_root_reached :: "cycle_start \<Rightarrow> (string, pollResult) gomap \<Rightarrow> bool" where
  "no_root_reached cs results \<longleftrightarrow> reachable_roots (cs_roots cs) results = 0 \<and> cs_roots cs \<noteq> []"

definition count_misses :: "cycle_start \<Rightarrow> (string, pollResult) gomap \<Rightarrow> Orchestrator \<Rightarrow> Orchestrator" where
  "count_misses cs results ob =
     (let misses = (if no_root_reached cs results then Suc (or_misses ob) else 0)
      in ob\<lparr>or_misses := misses,
            or_triggered := (or_triggered ob \<or>
              misses \<ge> MaxRootsUnreachableCycles \<and> cs_source cs = RootSourceOmega \<and> or_has_refresher ob)\<rparr>)"

definition build_input :: "cycle_start \<Rightarrow> (string, pollResult) gomap \<Rightarrow> gotime \<Rightarrow> Orchestrator \<Rightarrow> BuildInput" where
  "build_input cs results now ob =
     \<lparr>bi_results = results, bi_roots = cs_roots cs, bi_seed_override = (cs_source cs = RootSourceSeeds),
      bi_roots_unreachable = no_root_reached cs results, bi_refresh_failed = or_refresh_failed ob,
      bi_refreshed = (if cs_list cs = None then None else cs_fetched cs),
      bi_expires = map_option sl_expires (cs_list cs), bi_now = now\<rparr>"

definition cycle_end ::
    "(string \<Rightarrow> string option) \<Rightarrow> cycle_start \<Rightarrow> (string, pollResult) gomap \<Rightarrow> gotime \<Rightarrow> Orchestrator \<Rightarrow> Orchestrator" where
  "cycle_end geo cs results now ob =
     (let ob1 = count_misses cs results ob;
          snap = (Build geo (build_input cs results now ob))\<lparr>ds_stale := (results = [])\<rparr>;
          keep = (case or_snapshot ob of None \<Rightarrow> False | Some prior \<Rightarrow> results = [] \<and> ds_nodes prior \<noteq> [])
      in if keep then ob1\<lparr>or_snapshot := map_option (\<lambda>prior. prior\<lparr>ds_stale := True\<rparr>) (or_snapshot ob)\<rparr>
         else ob1\<lparr>or_snapshot := Some snap\<rparr>)"

definition onOmegaError :: "Orchestrator \<Rightarrow> Orchestrator" where
  "onOmegaError ob = markRefreshFailed True ob"

text \<open>The signal case of \<open>Run\<close>, apart from the cycle it starts.\<close>

definition handle_hup :: "Orchestrator \<Rightarrow> Orchestrator" where
  "handle_hup ob = (if or_has_refresher ob then ob\<lparr>or_triggered := True\<rparr> else ob)"

end
