(* ===== verification/Dashboard_Walk.thy ===== *)
theory Dashboard_Walk
  imports Dashboard Endpoint_Facts "HOL-Library.Multiset"
begin

text \<open>
  The walk of the dashboard: in every interleaving of its workers it polls each address once, stays below its cap,
  ends, and when it closes the channel it has polled exactly the addresses that can be reached from the seeds.
\<close>

section \<open>Reachable addresses\<close>

inductive reached :: "(string \<Rightarrow> node_answers) \<Rightarrow> string list \<Rightarrow> string \<Rightarrow> bool" for net seeds where
  reached_seed: "seed \<in> set seeds \<Longrightarrow> seed_addr seed = Some a \<Longrightarrow> reached net seeds (HostPort a)"
| reached_peer: "reached net seeds hp \<Longrightarrow> an_topology (net hp) = Some topo \<Longrightarrow> pe \<in> set (tr_peers topo) \<Longrightarrow> usable_peer pe \<Longrightarrow>
     reached net seeds (HostPort (peer_addr pe))"

lemma pollOne_addr [simp]: "HostPort (po_addr (pollOne net a)) = HostPort a"
  by (simp add: pollOne_def HostPort_def Let_def split: option.split)

lemma pollOne_peers: "pe \<in> set (po_peers (pollOne net a)) \<longleftrightarrow> (\<exists>topo. an_topology (net (HostPort a)) = Some topo \<and> pe \<in> set (tr_peers topo))"
  by (simp add: pollOne_def Let_def split: option.split)

definition rest_of :: "worker \<Rightarrow> peerEntry list" where
  "rest_of w = (case w of Scanning pes \<Rightarrow> pes | Sending a pes \<Rightarrow> pes)"

definition sent_of :: "worker \<Rightarrow> nodeAddr list" where
  "sent_of w = (case w of Scanning pes \<Rightarrow> [] | Sending a pes \<Rightarrow> [a])"

lemma worker_parts [simp]:
  "rest_of (Scanning pes) = pes" "rest_of (Sending a pes) = pes" "sent_of (Scanning pes) = []" "sent_of (Sending a pes) = [a]"
  by (simp_all add: rest_of_def sent_of_def)

text \<open>The addresses on their way: queued, or held by a worker that waits for room.\<close>

definition in_flight :: "walk_state \<Rightarrow> nodeAddr list" where
  "in_flight s = wk_queue s @ concat (map sent_of (wk_workers s))"

definition polled :: "walk_state \<Rightarrow> string list" where
  "polled s = map (HostPort \<circ> po_addr) (wk_results s)"

section \<open>The invariant\<close>

definition count_inv :: "walk_state \<Rightarrow> bool" where
  "count_inv s \<longleftrightarrow> distinct (wk_visited s) \<and> length (wk_visited s) \<le> MaxVisitedNodes \<and>
     wk_pending s = length (in_flight s) + length (wk_workers s) \<and>
     mset (wk_visited s) = mset (map HostPort (in_flight s)) + mset (polled s) \<and> (wk_closed s \<longrightarrow> wk_pending s = 0)"

lemma enqueue_cases:
  obtains (no) "enqueue a s = (s, False)" "HostPort a \<in> set (wk_visited s) \<or> length (wk_visited s) \<ge> MaxVisitedNodes"
  | (yes) "enqueue a s = (s\<lparr>wk_visited := HostPort a # wk_visited s, wk_pending := Suc (wk_pending s)\<rparr>, True)"
      "HostPort a \<notin> set (wk_visited s)" "length (wk_visited s) < MaxVisitedNodes"
proof (cases "HostPort a \<in> set (wk_visited s) \<or> length (wk_visited s) \<ge> MaxVisitedNodes")
  case True
  then have "enqueue a s = (s, False)" by (auto simp: enqueue_def)
  with True show ?thesis by (intro that(1))
next
  case False
  then show ?thesis by (intro that(2)) (simp_all add: enqueue_def)
qed

lemma count_inv_step: "walk_step net n s s' \<Longrightarrow> count_inv s \<Longrightarrow> count_inv s'"
proof (induction rule: walk_step.induct)
  case (take_addr s a q res)
  then show ?case by (auto simp: count_inv_def in_flight_def polled_def)
next
  case (skip_peer s ws1 pe pes ws2)
  then show ?case by (auto simp: count_inv_def in_flight_def polled_def)
next
  case (mark_peer s ws1 pe pes ws2 s1)
  from mark_peer(3) show ?case
    by (cases rule: enqueue_cases [of "peer_addr pe" s]) (use mark_peer in \<open>auto simp: count_inv_def in_flight_def polled_def\<close>)
next
  case (send_peer s ws1 a pes ws2)
  then show ?case by (auto simp: count_inv_def in_flight_def polled_def)
next
  case (finish_node s ws1 ws2)
  then show ?case by (auto simp: count_inv_def in_flight_def polled_def)
qed

text \<open>Everything visited can be reached, and what can be reached in one step is visited or still on a worker's list.\<close>

definition cover_inv :: "(string \<Rightarrow> node_answers) \<Rightarrow> string list \<Rightarrow> walk_state \<Rightarrow> bool" where
  "cover_inv net seeds s \<longleftrightarrow>
     (\<forall>hp \<in> set (wk_visited s). reached net seeds hp) \<and>
     (\<forall>w \<in> set (wk_workers s). \<forall>pe \<in> set (rest_of w). usable_peer pe \<longrightarrow> reached net seeds (HostPort (peer_addr pe))) \<and>
     (length (wk_visited s) < MaxVisitedNodes \<longrightarrow>
        (\<forall>seed \<in> set seeds. \<forall>a. seed_addr seed = Some a \<longrightarrow> HostPort a \<in> set (wk_visited s)) \<and>
        (\<forall>hp topo pe. hp \<in> set (polled s) \<longrightarrow> an_topology (net hp) = Some topo \<longrightarrow> pe \<in> set (tr_peers topo) \<longrightarrow> usable_peer pe \<longrightarrow>
           HostPort (peer_addr pe) \<in> set (wk_visited s) \<or> (\<exists>w \<in> set (wk_workers s). pe \<in> set (rest_of w))))"

lemma polled_visited: "count_inv s \<Longrightarrow> set (polled s) \<subseteq> set (wk_visited s)"
  by (metis count_inv_def mset_subset_eq_add_right set_mset_mono set_mset_mset)

lemma queue_visited: "count_inv s \<Longrightarrow> a \<in> set (in_flight s) \<Longrightarrow> HostPort a \<in> set (wk_visited s)"
  by (metis count_inv_def image_eqI mset_subset_eq_add_left set_map set_mset_mono set_mset_mset subsetD)

lemma cover_take:
  assumes "cover_inv net seeds s" "count_inv s" "wk_queue s = a # q"
  shows "cover_inv net seeds (s\<lparr>wk_queue := q, wk_workers := Scanning (po_peers (pollOne net a)) # wk_workers s,
    wk_results := wk_results s @ [pollOne net a]\<rparr>)"
proof -
  have "HostPort a \<in> set (wk_visited s)" using queue_visited [OF assms(2), of a] assms(3) by (simp add: in_flight_def)
  then have r: "reached net seeds (HostPort a)" using assms(1) by (simp add: cover_inv_def)
  have "reached net seeds (HostPort (peer_addr pe))" if "pe \<in> set (po_peers (pollOne net a))" "usable_peer pe" for pe
    using that r by (auto simp: pollOne_peers intro: reached_peer)
  moreover have "pe \<in> set (po_peers (pollOne net a))" if "an_topology (net (HostPort a)) = Some topo" "pe \<in> set (tr_peers topo)" for topo pe
    using that by (auto simp: pollOne_peers)
  ultimately show ?thesis using assms(1) by (fastforce simp: cover_inv_def polled_def)
qed

lemma cover_scan:
  assumes "cover_inv net seeds s" "wk_workers s = ws1 @ w # ws2" "set (rest_of w) \<subseteq> insert pe (set (rest_of w'))" "set (rest_of w') \<subseteq> set (rest_of w)"
    and "wk_results s' = wk_results s" "wk_workers s' = ws1 @ w' # ws2"
    and "set (wk_visited s') = set (wk_visited s) \<union> V" "length (wk_visited s) \<le> length (wk_visited s')"
    and "\<And>hp. hp \<in> V \<Longrightarrow> reached net seeds hp"
    and "usable_peer pe \<Longrightarrow> HostPort (peer_addr pe) \<in> set (wk_visited s') \<or> length (wk_visited s') \<ge> MaxVisitedNodes"
  shows "cover_inv net seeds s'"
proof -
  have old: "set (wk_workers s) = insert w (set ws1 \<union> set ws2)" and new: "set (wk_workers s') = insert w' (set ws1 \<union> set ws2)"
    using assms(2,6) by auto
  have a: "\<forall>hp \<in> set (wk_visited s'). reached net seeds hp" using assms(1,7,9) by (auto simp: cover_inv_def)
  have b: "\<forall>v \<in> set (wk_workers s'). \<forall>pe \<in> set (rest_of v). usable_peer pe \<longrightarrow> reached net seeds (HostPort (peer_addr pe))"
    using assms(1,4) unfolding cover_inv_def old new by blast
  have "HostPort (peer_addr p) \<in> set (wk_visited s') \<or> (\<exists>v \<in> set (wk_workers s'). p \<in> set (rest_of v))"
    if h: "length (wk_visited s') < MaxVisitedNodes" "hp \<in> set (polled s')" "an_topology (net hp) = Some topo" "p \<in> set (tr_peers topo)" "usable_peer p"
    for hp topo p
  proof -
    have "hp \<in> set (polled s)" using h(2) assms(5) by (simp add: polled_def)
    moreover have "length (wk_visited s) < MaxVisitedNodes" using assms(8) h(1) by simp
    ultimately have "HostPort (peer_addr p) \<in> set (wk_visited s) \<or> (\<exists>v \<in> set (wk_workers s). p \<in> set (rest_of v))"
      using assms(1) h(3-5) unfolding cover_inv_def by blast
    then consider "HostPort (peer_addr p) \<in> set (wk_visited s)" | v where "v \<in> set (wk_workers s)" "p \<in> set (rest_of v)" by blast
    then show ?thesis
    proof cases
      case 2
      then show ?thesis using assms(3,10) h(1,5) unfolding old new by (cases "p = pe") auto
    qed (use assms(7) in auto)
  qed
  moreover have "\<forall>seed \<in> set seeds. \<forall>a. seed_addr seed = Some a \<longrightarrow> HostPort a \<in> set (wk_visited s')" if "length (wk_visited s') < MaxVisitedNodes"
    using assms(1,7,8) that by (auto simp: cover_inv_def)
  ultimately show ?thesis unfolding cover_inv_def using a b by blast
qed

lemma cover_inv_step: "walk_step net n s s' \<Longrightarrow> count_inv s \<Longrightarrow> cover_inv net seeds s \<Longrightarrow> cover_inv net seeds s'"
proof (induction rule: walk_step.induct)
  case (take_addr s a q res)
  then show ?case using cover_take by simp
next
  case (skip_peer s ws1 pe pes ws2)
  have "usable_peer pe \<Longrightarrow> HostPort (peer_addr pe) \<in> set (wk_visited s) \<or> length (wk_visited s) \<ge> MaxVisitedNodes"
    using skip_peer(2) by (cases rule: enqueue_cases [of "peer_addr pe" s]) auto
  then show ?case
    by (intro cover_scan [OF skip_peer(4,1), of pe "Scanning pes" _ "{}"]) auto
next
  case (mark_peer s ws1 pe pes ws2 s1)
  have r: "reached net seeds (HostPort (peer_addr pe))" using mark_peer(1,2,5) by (auto simp: cover_inv_def)
  have s1: "s1 = s\<lparr>wk_visited := HostPort (peer_addr pe) # wk_visited s, wk_pending := Suc (wk_pending s)\<rparr>"
    using mark_peer(3) by (cases rule: enqueue_cases [of "peer_addr pe" s]) auto
  show ?case
    by (rule cover_scan [OF mark_peer(5,1), of pe "Sending (peer_addr pe) pes" _ "{HostPort (peer_addr pe)}"]) (use r in \<open>auto simp: s1\<close>)
next
  case (send_peer s ws1 a pes ws2)
  show ?case
    by (rule cover_scan [OF send_peer(4,1), of "\<lparr>pe_id = [], pe_address = [], pe_port = 0, pe_enclave = []\<rparr>" "Scanning pes" _ "{}"])
       (auto simp: usable_peer_def)
next
  case (finish_node s ws1 ws2)
  then show ?case unfolding cover_inv_def polled_def by fastforce
qed

section \<open>Seeding\<close>

definition seeded :: "string list \<Rightarrow> string set \<Rightarrow> walk_state \<Rightarrow> bool" where
  "seeded seeds processed s \<longleftrightarrow> count_inv s \<and> wk_workers s = [] \<and> wk_results s = [] \<and> \<not> wk_closed s \<and> length (wk_queue s) \<le> walkQueueSize \<and>
     (\<forall>hp \<in> set (wk_visited s). \<exists>seed \<in> set seeds. \<exists>a. seed_addr seed = Some a \<and> hp = HostPort a) \<and>
     (length (wk_visited s) < MaxVisitedNodes \<longrightarrow>
        (\<forall>seed \<in> processed. \<forall>a. seed_addr seed = Some a \<longrightarrow> HostPort a \<in> set (wk_visited s)))"

lemma seeded_add:
  assumes "seeded seeds P s" "seed_addr seed = Some a" "seed \<in> set seeds" "enqueue a s = (s1, True)" "length (wk_queue s1) < walkQueueSize"
  shows "seeded seeds (insert seed P) (s1\<lparr>wk_queue := wk_queue s1 @ [a]\<rparr>)"
  using assms(4)
proof (cases rule: enqueue_cases [of a s])
  case yes
  then have "s1 = s\<lparr>wk_visited := HostPort a # wk_visited s, wk_pending := Suc (wk_pending s)\<rparr>" using assms(4) by simp
  then show ?thesis using assms(1-3,5) yes(2,3) by (auto simp: seeded_def count_inv_def in_flight_def polled_def)
qed simp

lemma seeded_skip:
  assumes "seeded seeds P s" "\<And>a. seed_addr seed = Some a \<Longrightarrow> enqueue a s = (s, False)"
  shows "seeded seeds (insert seed P) s"
proof -
  have "HostPort a \<in> set (wk_visited s) \<or> length (wk_visited s) \<ge> MaxVisitedNodes" if "seed_addr seed = Some a" for a
    using assms(2) [OF that] by (cases rule: enqueue_cases [of a s]) auto
  then show ?thesis using assms(1) by (auto simp: seeded_def)
qed

lemma seed_queue_seeded:
  "seed_queue ss s = Some s' \<Longrightarrow> seeded seeds P s \<Longrightarrow> set ss \<subseteq> set seeds \<Longrightarrow> seeded seeds (P \<union> set ss) s'"
proof (induction ss arbitrary: s P)
  case (Cons seed ss)
  have ih: ?case if "seed_queue ss t = Some s'" "seeded seeds (insert seed P) t" for t
    using Cons.IH [OF that] Cons.prems(3) by simp
  show ?case
  proof (cases "seed_addr seed")
    case None
    then show ?thesis using Cons.prems seeded_skip [OF Cons.prems(2), of seed] by (intro ih [of s]) simp_all
  next
    case (Some a)
    show ?thesis
    proof (cases "snd (enqueue a s)")
      case False
      then have e: "enqueue a s = (s, False)" by (cases rule: enqueue_cases [of a s]) simp_all
      then show ?thesis using Cons.prems Some seeded_skip [OF Cons.prems(2), of seed] by (intro ih [of s]) simp_all
    next
      case True
      then obtain s1 where e: "enqueue a s = (s1, True)" by (cases "enqueue a s") auto
      then show ?thesis using Cons.prems Some seeded_add [OF Cons.prems(2) Some _ e]
        by (intro ih [of "s1\<lparr>wk_queue := wk_queue s1 @ [a]\<rparr>"]) (simp_all split: if_splits)
    qed
  qed
qed simp

lemma seeded_empty: "seeded seeds {} empty_walk"
  by (simp add: seeded_def count_inv_def empty_walk_def in_flight_def polled_def)

definition walk_reachable :: "(string \<Rightarrow> node_answers) \<Rightarrow> nat \<Rightarrow> string list \<Rightarrow> walk_state \<Rightarrow> bool" where
  "walk_reachable net n seeds s \<longleftrightarrow> (\<exists>s0. seed_queue seeds empty_walk = Some s0 \<and> (walk_step net n)\<^sup>*\<^sup>* s0 s)"

lemma walk_invariants:
  assumes "walk_reachable net n seeds s"
  shows "count_inv s \<and> cover_inv net seeds s"
proof -
  obtain s0 where s0: "seed_queue seeds empty_walk = Some s0" and steps: "(walk_step net n)\<^sup>*\<^sup>* s0 s"
    using assms by (auto simp: walk_reachable_def)
  have "seeded seeds (set seeds) s0" using seed_queue_seeded [OF s0 seeded_empty] by simp
  then have "count_inv s0 \<and> cover_inv net seeds s0"
    by (auto simp: seeded_def cover_inv_def polled_def intro: reached_seed)
  with steps show ?thesis
    by (induction rule: rtranclp_induct) (auto intro: count_inv_step cover_inv_step)
qed

section \<open>Completeness\<close>

lemma closed_polled:
  assumes "count_inv s" "wk_closed s"
  shows "wk_workers s = []" "set (polled s) = set (wk_visited s)"
proof -
  have "in_flight s = []" and w: "wk_workers s = []" using assms by (auto simp: count_inv_def)
  then have "mset (wk_visited s) = mset (polled s)" using assms(1) by (simp add: count_inv_def)
  then show "set (polled s) = set (wk_visited s)" by (metis set_mset_mset)
  show "wk_workers s = []" by (rule w)
qed

lemma closed_covers:
  assumes "count_inv s" "cover_inv net seeds s" "wk_closed s" "length (wk_visited s) < MaxVisitedNodes"
  shows "reached net seeds hp \<Longrightarrow> hp \<in> set (polled s)"
proof (induction rule: reached.induct)
  case (reached_seed seed a)
  then show ?case using assms(2,4) unfolding closed_polled(2) [OF assms(1,3)] cover_inv_def by blast
next
  case (reached_peer hp topo pe)
  then show ?case using assms(2,4) closed_polled(1) [OF assms(1,3)] unfolding cover_inv_def closed_polled(2) [OF assms(1,3), symmetric]
    by auto
qed

section \<open>Termination\<close>

definition worker_weight :: "worker \<Rightarrow> nat" where
  "worker_weight w = (case w of Scanning pes \<Rightarrow> 2 * length pes + 1 | Sending a pes \<Rightarrow> 2 * length pes + 2)"

definition walk_work :: "walk_state \<Rightarrow> nat \<times> nat" where
  "walk_work s = (MaxVisitedNodes - length (wk_results s), sum_list (map worker_weight (wk_workers s)))"

lemma results_bounded: "count_inv s \<Longrightarrow> length (wk_results s) + length (in_flight s) = length (wk_visited s)"
proof -
  assume "count_inv s"
  then have "size (mset (wk_visited s)) = size (mset (map HostPort (in_flight s)) + mset (polled s))" by (simp add: count_inv_def)
  then show ?thesis by (simp add: polled_def)
qed

lemma step_work: "walk_step net n s s' \<Longrightarrow> count_inv s \<Longrightarrow> (walk_work s', walk_work s) \<in> less_than <*lex*> less_than"
proof (induction rule: walk_step.induct)
  case (take_addr s a q res)
  have "length (wk_results s) < length (wk_visited s)" using results_bounded [OF take_addr(4)] take_addr(1) by (simp add: in_flight_def)
  then have "length (wk_results s) < MaxVisitedNodes" using take_addr(4) by (simp add: count_inv_def)
  then show ?case by (simp add: walk_work_def)
next
  case (mark_peer s ws1 pe pes ws2 s1)
  then have "wk_results s1 = wk_results s" by (cases rule: enqueue_cases [of "peer_addr pe" s]) auto
  with mark_peer(1) show ?case by (simp add: walk_work_def worker_weight_def)
qed (simp_all add: walk_work_def worker_weight_def)

lemma no_infinite_walk:
  assumes "count_inv (f 0)" "\<And>i. walk_step net n (f i) (f (Suc i))"
  shows False
proof -
  have inv: "count_inv (f i)" for i by (induction i) (use assms count_inv_step in blast)+
  have "wf (less_than <*lex*> less_than :: ((nat \<times> nat) \<times> nat \<times> nat) set)" by (intro wf_lex_prod) simp_all
  moreover have "(walk_work (f (Suc i)), walk_work (f i)) \<in> less_than <*lex*> less_than" for i
    using step_work [OF assms(2) inv] .
  ultimately show False unfolding wf_iff_no_infinite_down_chain by (elim notE) (rule exI [of _ "\<lambda>i. walk_work (f i)"], blast)
qed

text \<open>The only way to get stuck is a full channel with every worker waiting to send.\<close>

lemma walk_progress:
  assumes "count_inv s" "0 < wk_pending s" "0 < n" "\<And>s'. \<not> walk_step net n s s'"
  shows "walkQueueSize < length (in_flight s)"
proof -
  have send: "\<exists>a pes. w = Sending a pes \<and> length (wk_queue s) \<ge> walkQueueSize" if w: "w \<in> set (wk_workers s)" for w
  proof -
    obtain ws1 ws2 where ws: "wk_workers s = ws1 @ w # ws2" using split_list [OF w] by blast
    show ?thesis
    proof (cases w)
      case (Scanning pes)
      show ?thesis
      proof (cases pes)
        case Nil
        then show ?thesis using finish_node [of s ws1 ws2 net n] ws Scanning assms(4) by simp
      next
        case (Cons pe rest)
        then show ?thesis
          using skip_peer [of s ws1 pe rest ws2 net n] mark_peer [of s ws1 pe rest ws2 "fst (enqueue (peer_addr pe) s)" net n] ws Scanning assms(4)
          by (cases "enqueue (peer_addr pe) s"; cases "snd (enqueue (peer_addr pe) s)"; cases "usable_peer pe") auto
      qed
    next
      case (Sending a pes)
      then have "\<not> length (wk_queue s) < walkQueueSize" using send_peer [of s ws1 a pes ws2 net n] ws assms(4) by blast
      then show ?thesis using Sending by simp
    qed
  qed
  have "wk_workers s \<noteq> []"
  proof
    assume "wk_workers s = []"
    moreover from this obtain a q where "wk_queue s = a # q" using assms(1,2) by (cases "wk_queue s") (auto simp: count_inv_def in_flight_def)
    ultimately show False using take_addr [of s a q n "pollOne net a" net] assms(3,4) by simp
  qed
  then obtain w ws where w: "wk_workers s = w # ws" by (cases "wk_workers s") auto
  with send [of w] show ?thesis by (auto simp: in_flight_def)
qed

text \<open>A channel that was given an address is closed when the last one is done.\<close>

lemma pending_or_closed: "walk_step net n s s' \<Longrightarrow> 0 < wk_pending s \<Longrightarrow> 0 < wk_pending s' \<or> wk_closed s'"
proof (induction rule: walk_step.induct)
  case (mark_peer s ws1 pe pes ws2 s1)
  then show ?case by (cases rule: enqueue_cases [of "peer_addr pe" s]) auto
qed auto

lemma closed_stuck: "count_inv s \<Longrightarrow> wk_closed s \<Longrightarrow> \<not> walk_step net n s s'"
  by (auto elim!: walk_step.cases simp: count_inv_def in_flight_def)

lemma walk_live:
  assumes "walk_reachable net n seeds s" "seed \<in> set seeds" "seed_addr seed = Some a"
  shows "0 < wk_pending s \<or> wk_closed s"
proof -
  obtain s0 where s0: "seed_queue seeds empty_walk = Some s0" and steps: "(walk_step net n)\<^sup>*\<^sup>* s0 s"
    using assms(1) by (auto simp: walk_reachable_def)
  have sd: "seeded seeds (set seeds) s0" using seed_queue_seeded [OF s0 seeded_empty] by simp
  then have "wk_visited s0 \<noteq> []" using assms(2,3) by (force simp: seeded_def MaxVisitedNodes_def)
  moreover have "length (in_flight s0) = length (wk_visited s0)" using sd results_bounded [of s0] by (simp add: seeded_def)
  ultimately have "0 < wk_pending s0" "count_inv s0" using sd by (auto simp: seeded_def count_inv_def)
  with steps have "count_inv s \<and> (0 < wk_pending s \<or> wk_closed s)"
    by (induction rule: rtranclp_induct) (auto dest: pending_or_closed closed_stuck intro: count_inv_step)
  then show ?thesis by simp
qed

text \<open>
  C37. The dashboard's walk over the network, for every number of workers and every interleaving: each address is
  polled at most once, only addresses that the seeds lead to are polled, and at most 1024 of them. When the walk has
  closed its channel below that cap, it has polled every address that the seeds lead to. The walk always ends; if a
  seed is valid and the seeds lead to at most 256 addresses, the room of the channel, it ends by closing the channel.
\<close>

theorem walk_complete:
  assumes "walk_reachable net n seeds s"
  shows "distinct (polled s) \<and> length (polled s) \<le> MaxVisitedNodes \<and> (\<forall>hp. hp \<in> set (polled s) \<longrightarrow> reached net seeds hp) \<and>
    (wk_closed s \<and> length (wk_visited s) < MaxVisitedNodes \<longrightarrow> set (polled s) = {hp. reached net seeds hp}) \<and>
    \<not> (\<exists>f. f 0 = s \<and> (\<forall>i. walk_step net n (f i) (f (Suc i)))) \<and>
    (0 < n \<and> (\<exists>seed a. seed \<in> set seeds \<and> seed_addr seed = Some a) \<and> finite {hp. reached net seeds hp} \<and>
      card {hp. reached net seeds hp} \<le> walkQueueSize \<and> \<not> (\<exists>s'. walk_step net n s s') \<longrightarrow> wk_closed s)"
proof -
  have inv: "count_inv s" "cover_inv net seeds s" using walk_invariants [OF assms] by simp_all
  have d: "distinct (polled s)" "length (polled s) \<le> MaxVisitedNodes"
  proof -
    have "distinct (map HostPort (in_flight s) @ polled s)"
      using inv(1) by (metis count_inv_def mset_append mset_eq_imp_distinct_iff)
    then show "distinct (polled s)" by simp
    show "length (polled s) \<le> MaxVisitedNodes" using inv(1) results_bounded [OF inv(1)] by (simp add: count_inv_def polled_def)
  qed
  have v: "set (wk_visited s) \<subseteq> {hp. reached net seeds hp}" using inv(2) by (auto simp: cover_inv_def)
  have p: "set (polled s) \<subseteq> {hp. reached net seeds hp}" using polled_visited [OF inv(1)] v by blast
  have stuck: "wk_closed s"
    if h: "0 < n" "seed \<in> set seeds" "seed_addr seed = Some a" "finite {hp. reached net seeds hp}" "card {hp. reached net seeds hp} \<le> walkQueueSize"
      "\<nexists>s'. walk_step net n s s'" for seed a
  proof (rule ccontr)
    assume "\<not> wk_closed s"
    then have "0 < wk_pending s" using walk_live [OF assms h(2,3)] by simp
    then have "walkQueueSize < length (in_flight s)" using walk_progress [OF inv(1)] h(1,6) by blast
    also have "\<dots> \<le> card (set (wk_visited s))" using results_bounded [OF inv(1)] inv(1) by (simp add: count_inv_def distinct_card)
    also have "\<dots> \<le> walkQueueSize" using card_mono [OF h(4) v] h(5) by simp
    finally show False by simp
  qed
  have "set (polled s) = {hp. reached net seeds hp}" if "wk_closed s" "length (wk_visited s) < MaxVisitedNodes"
    using closed_covers [OF inv that] p by blast
  moreover have "\<not> (\<exists>f. f 0 = s \<and> (\<forall>i. walk_step net n (f i) (f (Suc i))))" using no_infinite_walk inv(1) by blast
  ultimately show ?thesis using d p stuck by blast
qed

text \<open>One unreachable seed.\<close>

definition ex_silent :: "string \<Rightarrow> node_answers" where
  "ex_silent hp = \<lparr>an_topology = None, an_status = None, an_metrics = None\<rparr>"

definition ex_seed :: nodeAddr where
  "ex_seed = \<lparr>na_id = [], na_host = ''a'', na_port = 1, na_enclave = []\<rparr>"

lemma ex_seed_addr: "seed_addr ''a:1'' = Some ex_seed" "HostPort ex_seed = ''a:1''"
proof -
  have "Atoi ''1'' = Some 1" using ParseInt_nat_digits [of 1] by (simp add: max_int64_def nat_digits.simps digit_chars)
  then show "seed_addr ''a:1'' = Some ex_seed"
    by (simp add: seed_addr_def dash_splitHostPort_def split_host_def CutLast_def Cut.simps HasPrefix_def ex_seed_def)
  show "HostPort ex_seed = ''a:1''" by (simp add: HostPort_def ex_seed_def JoinHostPort_def Itoa_def nat_digits.simps digit_chars)
qed

lemma ex_walk_results:
  obtains s where "walk_reachable ex_silent 1 [''a:1''] s" "wk_results s = [pollOne ex_silent ex_seed]" "wk_closed s"
    "length (wk_visited s) = 1" "polled s = [''a:1'']"
proof -
  let ?s0 = "empty_walk\<lparr>wk_visited := [''a:1''], wk_pending := 1, wk_queue := [ex_seed]\<rparr>"
  let ?s1 = "?s0\<lparr>wk_queue := [], wk_workers := [Scanning []], wk_results := [pollOne ex_silent ex_seed]\<rparr>"
  let ?s2 = "?s1\<lparr>wk_workers := [], wk_pending := 0, wk_closed := True\<rparr>"
  have q: "seed_queue [''a:1''] empty_walk = Some ?s0"
    by (simp add: ex_seed_addr enqueue_def empty_walk_def MaxVisitedNodes_def walkQueueSize_def)
  have "walk_step ex_silent 1 ?s0 ?s1"
    using take_addr [of ?s0 ex_seed "[]" 1 _ ex_silent, OF _ _ refl] by (simp add: pollOne_def ex_silent_def empty_walk_def)
  moreover have "walk_step ex_silent 1 ?s1 ?s2" using finish_node [of ?s1 "[]" "[]" ex_silent 1] by (simp add: empty_walk_def)
  ultimately have "(walk_step ex_silent 1)\<^sup>*\<^sup>* ?s0 ?s2" by (meson converse_rtranclp_into_rtranclp rtranclp.rtrancl_refl)
  then have "walk_reachable ex_silent 1 [''a:1''] ?s2" using q by (auto simp: walk_reachable_def)
  then show ?thesis by (rule that) (simp_all add: polled_def ex_seed_addr)
qed

theorem walk_complete_witness: "{hp. reached ex_silent [''a:1''] hp} = {''a:1''}"
proof -
  obtain s where s: "walk_reachable ex_silent 1 [''a:1''] s" "wk_closed s" "length (wk_visited s) = 1" "polled s = [''a:1'']" by (rule ex_walk_results)
  show ?thesis using walk_complete [OF s(1)] s(2-4) by (simp add: MaxVisitedNodes_def)
qed

text \<open>A walk with more distinct seeds than room in the channel never starts its workers.\<close>

lemma too_many_seeds_block:
  assumes "walkQueueSize < card {HostPort a | a seed. seed \<in> set seeds \<and> seed_addr seed = Some a}" (is "_ < card ?A")
  shows "seed_queue seeds empty_walk = None"
proof (cases "seed_queue seeds empty_walk")
  case (Some s)
  have sd: "seeded seeds (set seeds) s" using seed_queue_seeded [OF Some seeded_empty] by simp
  then have len: "length (wk_visited s) = length (wk_queue s)" using results_bounded [of s] by (simp add: seeded_def in_flight_def)
  then have "length (wk_visited s) \<le> walkQueueSize" using sd by (simp add: seeded_def)
  moreover from this have "?A \<subseteq> set (wk_visited s)" using sd by (auto simp: seeded_def walkQueueSize_def MaxVisitedNodes_def)
  then have "card ?A \<le> length (wk_visited s)" by (meson card_length card_mono finite_set order_trans)
  ultimately show ?thesis using assms by simp
qed

text \<open>All workers waiting to send into a full channel wait for each other.\<close>

lemma full_channel_deadlock:
  assumes "length (wk_queue s) = walkQueueSize" "length (wk_workers s) = n" "\<And>pes. Scanning pes \<notin> set (wk_workers s)"
  shows "\<not> walk_step net n s s'"
proof
  assume "walk_step net n s s'"
  then show False
  proof (cases rule: walk_step.cases)
    case (skip_peer ws1 pe pes ws2)
    then show ?thesis using assms(3) [of "pe # pes"] by simp
  next
    case (mark_peer ws1 pe pes ws2 s1)
    then show ?thesis using assms(3) [of "pe # pes"] by simp
  next
    case (finish_node ws1 ws2)
    then show ?thesis using assms(3) [of "[]"] by simp
  qed (use assms in simp_all)
qed

end
