(* ===== verification/Dashboard_Facts.thy ===== *)
theory Dashboard_Facts
  imports Dashboard_Loop Dashboard_Walk
begin

text \<open>The dashboard: its snapshot does not depend on map order, and it shows where its roots come from.\<close>

section \<open>Order of traversal\<close>

lemma id_by_addr_lookup:
  assumes "distinct (map (\<lambda>ir. HostPort (po_addr (snd ir))) rs)"
  shows "gm_lookup (id_by_addr rs) k = Some i \<longleftrightarrow>
    (\<exists>r. (i, r) \<in> set rs \<and> HostPort (po_addr r) = k \<and> na_host (po_addr r) \<noteq> [] \<and> na_port (po_addr r) \<noteq> 0)"
  using assms
proof (induction rs arbitrary: i rule: rev_induct)
  case (snoc ir rs)
  obtain j r where ir: "ir = (j, r)" by (cases ir)
  have ih: "gm_lookup (id_by_addr rs) k = Some i' \<longleftrightarrow>
    (\<exists>r. (i', r) \<in> set rs \<and> HostPort (po_addr r) = k \<and> na_host (po_addr r) \<noteq> [] \<and> na_port (po_addr r) \<noteq> 0)" for i'
    using snoc.prems by (intro snoc.IH) simp
  have other: "HostPort (po_addr r') \<noteq> HostPort (po_addr r)" if "(i', r') \<in> set rs" for i' r'
    using snoc.prems that by (force simp: ir)
  have step: "id_by_addr (rs @ [ir]) =
    (if na_host (po_addr r) = [] \<or> na_port (po_addr r) = 0 then id_by_addr rs else gm_update (HostPort (po_addr r)) j (id_by_addr rs))"
    by (simp add: id_by_addr_def ir)
  show ?case
  proof (cases "HostPort (po_addr r) = k")
    case True
    then have "gm_lookup (id_by_addr rs) k \<noteq> Some i'" for i'
      using other True unfolding ih by auto
    with True show ?thesis using other unfolding step by (auto simp: ir)
  next
    case False
    then show ?thesis unfolding step using ih by (auto simp: ir)
  qed
qed (simp add: id_by_addr_def)

lemma id_by_addr_order:
  assumes "distinct (map (\<lambda>ir. HostPort (po_addr (snd ir))) rs)" "mset rs = mset rs'"
  shows "gm_lookup (id_by_addr rs) k = gm_lookup (id_by_addr rs') k"
proof -
  have d: "distinct (map (\<lambda>ir. HostPort (po_addr (snd ir))) rs')" using assms by (metis mset_eq_imp_distinct_iff mset_map)
  have "set rs = set rs'" using assms(2) by (metis set_mset_mset)
  then have "gm_lookup (id_by_addr rs) k = Some i \<longleftrightarrow> gm_lookup (id_by_addr rs') k = Some i" for i
    by (simp add: id_by_addr_lookup [OF assms(1)] id_by_addr_lookup [OF d])
  then show ?thesis by (metis option.exhaust)
qed

lemma sort_key_order:
  assumes "mset xs = mset ys" "distinct (map f xs)"
  shows "sort_key f xs = sort_key f ys"
  using assms by (intro sort_key_inj_key_eq) (auto simp: distinct_map)

lemma sort_order: "mset xs = mset ys \<Longrightarrow> sort xs = sort ys"
  by (rule properties_for_sort) simp_all

lemma fold_max: "fold (\<lambda>n m. if f n > m then f n else m) xs (z :: int) = Max (insert z (f ` set xs))"
proof (induction xs arbitrary: z)
  case (Cons x xs)
  have "fold (\<lambda>n m. if f n > m then f n else m) (x # xs) z = Max (insert (max z (f x)) (f ` set xs))"
    using Cons [of "f x"] Cons [of z] by (cases "z < f x") (simp_all add: max_def)
  also have "\<dots> = Max (insert z (f ` set (x # xs)))"
    by (cases "xs = []") (simp_all add: max.assoc)
  finally show ?case .
qed simp

section \<open>What the walk hands over\<close>

lemma collect_inv:
  "gm_ok (collect rs) \<and> (\<forall>(i, r) \<in> set (collect rs). r \<in> set rs \<and> i = result_id r)"
proof (induction rs rule: rev_induct)
  case (snoc r rs)
  then show ?case using set_gm_update [of "collect rs" "result_id r" r] by (auto simp: collect_def)
qed (simp add: collect_def)

lemma walk_collect:
  assumes "walk_reachable net n seeds s"
  shows "distinct (map fst (collect (wk_results s)))" "distinct (map (\<lambda>ir. HostPort (po_addr (snd ir))) (collect (wk_results s)))"
proof -
  let ?c = "collect (wk_results s)"
  show keys: "distinct (map fst ?c)" using collect_inv [of "wk_results s"] by (simp add: gm_ok_def)
  have "count_inv s" using walk_invariants [OF assms] by simp
  then have "distinct (map HostPort (in_flight s) @ polled s)" by (metis count_inv_def mset_append mset_eq_imp_distinct_iff)
  then have p: "inj_on (HostPort \<circ> po_addr) (set (wk_results s))" by (simp add: polled_def distinct_map)
  have "inj_on (\<lambda>ir. HostPort (po_addr (snd ir))) (set ?c)"
  proof (rule inj_onI)
    fix x y assume xy: "x \<in> set ?c" "y \<in> set ?c" "HostPort (po_addr (snd x)) = HostPort (po_addr (snd y))"
    have "snd z \<in> set (wk_results s) \<and> fst z = result_id (snd z)" if "z \<in> set ?c" for z
      using collect_inv [of "wk_results s"] that by (cases z) auto
    from this [OF xy(1)] this [OF xy(2)] show "x = y" using xy(3) inj_onD [OF p, of "snd x" "snd y"] by (simp add: prod_eq_iff)
  qed
  moreover have "distinct ?c" using keys by (simp add: distinct_map)
  ultimately show "distinct (map (\<lambda>ir. HostPort (po_addr (snd ir))) ?c)" by (simp add: distinct_map)
qed

lemma build_node_id [simp]: "dn_id (build_node geo roots ir) = fst ir"
  by (simp add: build_node_def Let_def case_prod_beta)

lemma build_edges_from: "(a, b) \<in> set (build_edges ids ir) \<Longrightarrow> a = fst ir \<and> b \<noteq> a \<and> b \<noteq> []"
  by (auto simp: build_edges_def Let_def case_prod_beta List.map_filter_def split: if_splits)

lemma edges_order:
  assumes "mset rs = mset rs'" "\<And>k. gm_lookup ids k = gm_lookup ids' k"
  shows "mset (concat (map (build_edges ids) rs)) = mset (concat (map (build_edges ids') rs'))"
proof -
  have "build_edges ids = build_edges ids'" unfolding build_edges_def by (simp add: assms(2))
  moreover have "mset (concat (map f xs)) = \<Sum>\<^sub># (image_mset (\<lambda>x. mset (f x)) (mset xs))" for f :: "string \<times> pollResult \<Rightarrow> (string \<times> string) list" and xs
    by (induction xs) simp_all
  ultimately show ?thesis using assms(1) by simp
qed

text \<open>
  C38. The published snapshot is a function of what the walk found, not of the order in which Go traverses its maps:
  for the collected results of any walk, every order of traversal gives the same nodes, edges and totals. The nodes are
  listed by strictly increasing ID, and every edge starts at a listed node and leads to a different, non-empty ID.
\<close>

theorem snapshot_order_independent:
  assumes "walk_reachable net n seeds s" "mset rs = mset (collect (wk_results s))" "mset rs' = mset rs"
  shows "Build geo (inp\<lparr>bi_results := rs\<rparr>) = Build geo (inp\<lparr>bi_results := rs'\<rparr>) \<and>
    sorted_wrt (<) (map dn_id (ds_nodes (Build geo (inp\<lparr>bi_results := rs\<rparr>)))) \<and>
    (\<forall>a b. (a, b) \<in> set (ds_edges (Build geo (inp\<lparr>bi_results := rs\<rparr>))) \<longrightarrow>
       a \<noteq> b \<and> b \<noteq> [] \<and> a \<in> set (map dn_id (ds_nodes (Build geo (inp\<lparr>bi_results := rs\<rparr>)))))"
proof -
  let ?bn = "build_node geo (bi_roots inp)"
  have k: "distinct (map fst rs)" and h: "distinct (map (\<lambda>ir. HostPort (po_addr (snd ir))) rs)"
    using walk_collect [OF assms(1)] assms(2) by (metis mset_eq_imp_distinct_iff mset_map)+
  have ms: "mset (map ?bn rs) = mset (map ?bn rs')" using assms(3) by simp
  have ids: "map dn_id (map ?bn rs) = map fst rs" by simp
  have "distinct (map dn_id (map ?bn rs))" unfolding ids by (rule k)
  then have nodes: "sort_key dn_id (map ?bn rs) = sort_key dn_id (map ?bn rs')" by (rule sort_key_order [OF ms])
  have edges: "sort (concat (map (build_edges (id_by_addr rs)) rs)) = sort (concat (map (build_edges (id_by_addr rs')) rs'))"
    by (rule sort_order [OF edges_order [OF assms(3) [symmetric] id_by_addr_order [OF h assms(3) [symmetric]]]])
  have enc: "length (remdups (filter (\<lambda>e. e \<noteq> []) (map dn_enclave (map ?bn xs)))) = card (set (filter (\<lambda>e. e \<noteq> []) (map dn_enclave (map ?bn xs))))" for xs
    by (simp add: length_remdups_card_conv)
  have set: "set rs = set rs'" using assms(3) by (metis set_mset_mset)
  have flt: "length (filter P (map ?bn rs)) = length (filter P (map ?bn rs'))" for P using ms by (metis mset_filter size_mset)
  have same: "Build geo (inp\<lparr>bi_results := rs\<rparr>) = Build geo (inp\<lparr>bi_results := rs'\<rparr>)"
    unfolding Build_def Let_def Canonicalize_def using nodes edges flt mset_eq_length [OF ms] set by (simp add: enc fold_max del: map_map)
  have "distinct (map dn_id (sort_key dn_id (map ?bn rs)))" using k ids by (metis distinct_map distinct_sort mset_map mset_sort mset_eq_imp_distinct_iff)
  then have "sorted_wrt (<) (map dn_id (sort_key dn_id (map ?bn rs)))" by (simp add: strict_sorted_iff)
  then have "sorted_wrt (<) (map dn_id (ds_nodes (Build geo (inp\<lparr>bi_results := rs\<rparr>))))" by (simp add: Build_def Let_def Canonicalize_def)
  moreover have "set (map dn_id (ds_nodes (Build geo (inp\<lparr>bi_results := rs\<rparr>)))) = fst ` set rs"
    by (simp add: Build_def Let_def Canonicalize_def image_image)
  moreover have "a \<noteq> b \<and> b \<noteq> [] \<and> a \<in> fst ` set rs" if e: "(a, b) \<in> set (ds_edges (Build geo (inp\<lparr>bi_results := rs\<rparr>)))" for a b
  proof -
    obtain ir where "ir \<in> set rs" "(a, b) \<in> set (build_edges (id_by_addr rs) ir)"
      using e by (auto simp: Build_def Let_def Canonicalize_def)
    then show ?thesis using build_edges_from [of a b "id_by_addr rs" ir] by auto
  qed
  ultimately show ?thesis using same by blast
qed

definition ex_input :: BuildInput where
  "ex_input = \<lparr>bi_results = [], bi_roots = [''a:1''], bi_seed_override = True, bi_roots_unreachable = True, bi_refresh_failed = False,
     bi_refreshed = None, bi_expires = None, bi_now = 0\<rparr>"

definition ex_found :: "(string, pollResult) gomap" where
  "ex_found = [(''a:1'', pollOne ex_silent ex_seed)]"

lemma ex_found_walk: obtains s where "walk_reachable ex_silent 1 [''a:1''] s" "collect (wk_results s) = ex_found"
proof -
  obtain s where s: "walk_reachable ex_silent 1 [''a:1''] s" "wk_results s = [pollOne ex_silent ex_seed]" by (rule ex_walk_results)
  have "result_id (pollOne ex_silent ex_seed) = ''a:1''"
    by (simp add: result_id_def pollOne_addr ex_seed_addr) (simp add: pollOne_def ex_silent_def ex_seed_def)
  then show ?thesis using s that by (simp add: collect_def ex_found_def gm_update_def)
qed

theorem snapshot_order_independent_witness:
  "sorted_wrt (<) (map dn_id (ds_nodes (Build (\<lambda>h. None) (ex_input\<lparr>bi_results := ex_found\<rparr>))))"
proof -
  obtain s where s: "walk_reachable ex_silent 1 [''a:1''] s" "collect (wk_results s) = ex_found" by (rule ex_found_walk)
  show ?thesis using snapshot_order_independent [OF s(1) _ refl, of ex_found "\<lambda>h. None" ex_input] s(2) by metis
qed

text \<open>The address of a root that never answered is published as its ID.\<close>

lemma unreachable_root_address_published:
  "map dn_id (ds_nodes (Build geo (ex_input\<lparr>bi_results := ex_found\<rparr>))) = [''a:1'']"
  by (simp add: Build_def Let_def Canonicalize_def ex_found_def)

section \<open>Where the roots come from\<close>

datatype dash_event =
    DeUpdate SignedList gotime
  | DeError
  | DeHup
  | DeCycle "string \<Rightarrow> string option" "dash_event list" "(string, pollResult) gomap" gotime

text \<open>A cycle with the events that arrive during its walk, none of which is a cycle.\<close>

fun small_exec :: "dash_event \<Rightarrow> Orchestrator \<Rightarrow> Orchestrator" where
  "small_exec (DeUpdate lst now) ob = (if or_has_refresher ob then onOmegaUpdate lst now ob else ob)"
| "small_exec DeError ob = (if or_has_refresher ob then onOmegaError ob else ob)"
| "small_exec DeHup ob = handle_hup ob"
| "small_exec (DeCycle geo es results now) ob = ob"

fun dash_exec :: "dash_event \<Rightarrow> Orchestrator \<Rightarrow> Orchestrator" where
  "dash_exec (DeCycle geo es results now) ob = cycle_end geo (cycle_begin ob) results now (fold small_exec es ob)"
| "dash_exec e ob = small_exec e ob"

fun small_lists :: "dash_event \<Rightarrow> SignedList set" where
  "small_lists (DeUpdate lst now) = {lst}"
| "small_lists e = {}"

fun event_lists :: "dash_event \<Rightarrow> SignedList set" where
  "event_lists (DeCycle geo es results now) = \<Union> (small_lists ` set es)"
| "event_lists e = small_lists e"

text \<open>The roots are those of an accepted list, or the operator's seeds with a visible override.\<close>

definition roots_from :: "(SignedList \<Rightarrow> bool) \<Rightarrow> string list \<Rightarrow> Orchestrator \<Rightarrow> bool" where
  "roots_from good seeds ob \<longleftrightarrow>
     (case or_source ob of
        RootSourceOmega \<Rightarrow> (\<exists>lst. or_list ob = Some lst \<and> good lst \<and> or_roots ob = normalizeAddrs (sl_nodes lst))
      | RootSourceSeeds \<Rightarrow> or_list ob = None \<and> or_roots ob = normalizeAddrs seeds \<and> seeds \<noteq> [] \<and> \<not> or_has_refresher ob)"

definition snapshot_honest :: "Orchestrator \<Rightarrow> bool" where
  "snapshot_honest ob \<longleftrightarrow>
     (\<forall>s. or_snapshot ob = Some s \<longrightarrow> ds_from_disk s \<or> ds_seed_override s = (or_source ob = RootSourceSeeds))"

lemma Build_flags [simp]:
  "ds_from_disk (Build geo inp) = False" "ds_seed_override (Build geo inp) = bi_seed_override inp"
  by (simp_all add: Build_def Let_def Canonicalize_def)

lemma small_keeps:
  assumes "roots_from good seeds ob" "\<And>lst. lst \<in> small_lists e \<Longrightarrow> good lst"
  shows "roots_from good seeds (small_exec e ob)" "or_source (small_exec e ob) = or_source ob" "or_snapshot (small_exec e ob) = or_snapshot ob"
    "or_has_refresher (small_exec e ob) = or_has_refresher ob"
  using assms
  by (cases e; force simp: roots_from_def onOmegaUpdate_def onOmegaError_def handle_hup_def markRefreshFailed_def applyRoots_def split: RootSource.splits)+

lemma smalls_keep:
  assumes "roots_from good seeds ob" "\<And>lst. lst \<in> \<Union> (small_lists ` set es) \<Longrightarrow> good lst"
  shows "roots_from good seeds (fold small_exec es ob) \<and> or_source (fold small_exec es ob) = or_source ob \<and>
    or_snapshot (fold small_exec es ob) = or_snapshot ob"
  using assms by (induction es arbitrary: ob) (simp_all add: small_keeps)

lemma cycle_end_fields [simp]:
  "or_source (cycle_end geo cs rs now ob) = or_source ob" "or_list (cycle_end geo cs rs now ob) = or_list ob"
  "or_roots (cycle_end geo cs rs now ob) = or_roots ob" "or_has_refresher (cycle_end geo cs rs now ob) = or_has_refresher ob"
  by (simp_all add: cycle_end_def count_misses_def Let_def)

lemma cycle_honest:
  assumes "snapshot_honest ob" "cs_source cs = or_source ob"
  shows "snapshot_honest (cycle_end geo cs rs now ob)"
  using assms by (auto simp: snapshot_honest_def cycle_end_def count_misses_def build_input_def Let_def split: option.splits)

lemma exec_keeps:
  assumes "roots_from good seeds ob" "snapshot_honest ob" "\<And>lst. lst \<in> event_lists e \<Longrightarrow> good lst"
  shows "roots_from good seeds (dash_exec e ob) \<and> snapshot_honest (dash_exec e ob)"
proof (cases e)
  case (DeCycle geo es results now)
  have s: "roots_from good seeds (fold small_exec es ob)" "or_source (fold small_exec es ob) = or_source ob"
    "or_snapshot (fold small_exec es ob) = or_snapshot ob"
    using smalls_keep [OF assms(1), of es] assms(3) by (auto simp: DeCycle)
  have "roots_from good seeds (dash_exec e ob)" using s(1) unfolding DeCycle dash_exec.simps roots_from_def cycle_end_fields .
  moreover have "snapshot_honest (dash_exec e ob)" unfolding DeCycle dash_exec.simps
    using assms(2) s(2,3) by (intro cycle_honest) (simp_all add: snapshot_honest_def cycle_begin_def)
  ultimately show ?thesis ..
qed (use assms small_keeps [OF assms(1), of e] in \<open>simp_all add: snapshot_honest_def\<close>)

lemma run_keeps:
  assumes "roots_from good seeds ob" "snapshot_honest ob" "\<And>e lst. e \<in> set es \<Longrightarrow> lst \<in> event_lists e \<Longrightarrow> good lst"
  shows "roots_from good seeds (fold dash_exec es ob) \<and> snapshot_honest (fold dash_exec es ob)"
  using assms
proof (induction es arbitrary: ob)
  case (Cons e es)
  have "roots_from good seeds (dash_exec e ob) \<and> snapshot_honest (dash_exec e ob)"
    using Cons.prems by (intro exec_keeps) auto
  then show ?case using Cons.IH [of "dash_exec e ob"] Cons.prems(3) by (metis fold_simps(2) list.set_intros(2))
qed simp

definition verified :: "(bytes \<Rightarrow> bytes \<Rightarrow> bytes \<Rightarrow> bool) \<Rightarrow> trust_error + bytes \<Rightarrow> SignedList \<Rightarrow> bool" where
  "verified verify key lst \<longleftrightarrow> (\<exists>pubkey t. key = Inr pubkey \<and> Verify verify pubkey t lst = None)"

lemma FetchSigned_verified: "FetchSigned verify r name pubkey t = Inr lst \<Longrightarrow> Verify verify pubkey t lst = None"
  by (auto simp: FetchSigned_def split: option.splits sum.splits)

lemma load_prior_fields [simp]:
  "or_source (load_prior prior ob) = or_source ob" "or_has_refresher (load_prior prior ob) = or_has_refresher ob"
  "snapshot_honest (load_prior prior NewOrchestrator)"
  by (auto simp: load_prior_def snapshot_honest_def NewOrchestrator_def split: option.splits)

lemma honest_apply:
  assumes "or_snapshot ob = or_snapshot (load_prior prior NewOrchestrator)"
  shows "snapshot_honest ob"
  using assms by (auto simp: load_prior_def snapshot_honest_def NewOrchestrator_def split: option.splits)

text \<open>The three sources of \<open>Boot\<close>.\<close>

lemma Boot_cases:
  assumes "Boot verify key prior cached mtime fetch now1 now2 seeds ob0 = (ob, None)"
  obtains (cache) pk lst where "key = Inr pk" "Verify verify pk now1 lst = None"
      "ob = applyRoots (normalizeAddrs (sl_nodes lst)) RootSourceOmega (Some lst) mtime (load_prior prior ob0)"
  | (dns) pk lst where "key = Inr pk" "fetch pk = Inr lst"
      "ob = applyRoots (normalizeAddrs (sl_nodes lst)) RootSourceOmega (Some lst) (Some now2) (load_prior prior ob0)"
  | (seeds) ob1 where "seeds \<noteq> []" "ob = bootFromSeeds seeds ob1" "ob1 = load_prior prior ob0 \<or> ob1 = markRefreshFailed True (load_prior prior ob0)"
      "(\<exists>e. key = Inl e) \<or> (\<exists>pk e. key = Inr pk \<and> fetch pk = Inl e \<and> (\<forall>lst. cached = Inr (Some lst) \<longrightarrow> Verify verify pk now1 lst \<noteq> None))"
proof (cases key)
  case (Inl e)
  then show ?thesis using assms seeds by (auto simp: Boot_def Let_def split: if_splits)
next
  case (Inr pk)
  let ?c = "case cached of Inr (Some lst) \<Rightarrow> if Verify verify pk now1 lst = None then Some lst else None | _ \<Rightarrow> None"
  show ?thesis
  proof (cases ?c)
    case (Some lst)
    then have "Verify verify pk now1 lst = None" by (auto split: sum.splits option.splits if_splits)
    then show ?thesis using assms Some Inr by (intro cache) (auto simp: Boot_def Let_def)
  next
    case None
    then have bad: "\<forall>lst. cached = Inr (Some lst) \<longrightarrow> Verify verify pk now1 lst \<noteq> None" by (auto split: if_splits)
    show ?thesis
    proof (cases "fetch pk")
      case (Inl e)
      then show ?thesis using assms None Inr bad by (intro seeds) (auto simp: Boot_def Let_def split: if_splits)
    next
      case fetched: (Inr lst)
      then show ?thesis using assms None Inr by (intro dns) (auto simp: Boot_def Let_def)
    qed
  qed
qed

lemma start_refresher_keeps:
  "roots_from good seeds ob \<Longrightarrow> roots_from good seeds (start_refresher key ob)" "snapshot_honest (start_refresher key ob) = snapshot_honest ob"
  by (auto simp: start_refresher_def roots_from_def snapshot_honest_def split: RootSource.splits)

lemma Boot_roots:
  assumes "Boot verify key prior cached mtime (\<lambda>pk. FetchSigned verify r name pk t) now1 now2 seeds NewOrchestrator = (ob, None)"
  shows "roots_from (verified verify key) seeds ob" "snapshot_honest ob"
proof -
  show "roots_from (verified verify key) seeds ob" using assms
    by (cases rule: Boot_cases)
      (auto simp: roots_from_def verified_def applyRoots_def bootFromSeeds_def markRefreshFailed_def NewOrchestrator_def dest: FetchSigned_verified)
  show "snapshot_honest ob" using assms
    by (cases rule: Boot_cases) (auto simp: applyRoots_def bootFromSeeds_def markRefreshFailed_def intro!: honest_apply)
qed


text \<open>Booted from seeds, with one cycle that finds nothing.\<close>

definition ex_boot :: "Orchestrator \<times> trust_error option" where
  "ex_boot = Boot (\<lambda>k b s. False) (Inl CorruptBase64) None (Inr None) None (\<lambda>pk. FetchSigned (\<lambda>k b s. False) (\<lambda>n. None) [] pk 0) 0 0 [''a:1''] NewOrchestrator"


text \<open>A cycle that finds nothing keeps the last graph and marks it stale.\<close>

lemma cycle_keeps_graph:
  assumes "or_snapshot ob = Some prior" "ds_nodes prior \<noteq> []"
  shows "\<exists>s. or_snapshot (cycle_end geo cs rs now ob) = Some s \<and> ds_nodes s \<noteq> [] \<and>
    (rs = [] \<longrightarrow> s = prior\<lparr>ds_stale := True\<rparr>) \<and> (rs \<noteq> [] \<longrightarrow> \<not> ds_stale s \<and> \<not> ds_from_disk s)"
proof (cases "rs = []")
  case True
  then show ?thesis using assms by (simp add: cycle_end_def count_misses_def Let_def)
next
  case False
  have "length (ds_nodes (Build geo (build_input cs rs now ob))) = length rs"
    by (simp add: Build_def Let_def Canonicalize_def build_input_def)
  then have "ds_nodes (Build geo (build_input cs rs now ob)) \<noteq> []" using False by (metis length_0_conv)
  with False assms show ?thesis by (simp add: cycle_end_def count_misses_def Let_def)
qed

text \<open>The fifth cycle in a row that reaches no root asks the refresher for a new list, and not an earlier one.\<close>

lemma fifth_miss_triggers:
  assumes "or_has_refresher ob" "cs_source cs = RootSourceOmega" "no_root_reached cs rs" "\<not> or_triggered ob"
  shows "or_triggered (cycle_end geo cs rs now ob) \<longleftrightarrow> MaxRootsUnreachableCycles \<le> Suc (or_misses ob)"
    and "or_misses (cycle_end geo cs rs now ob) = Suc (or_misses ob)"
  using assms by (simp_all add: cycle_end_def count_misses_def Let_def)

end
