(* ===== verification/Omega_Store.thy ===== *)
theory Omega_Store
  imports Go_Strings
begin

text \<open>
  The private and public directories of the operator tool, \<open>src/internal/omega/store.go\<close> and the file operations of
  \<open>publication_store.go\<close>. Every system call can fail, tear a write, or be the last one of the process; a power loss can in
  addition undo what was not synchronised. Operations are functions from a world, with its directories and the faults
  to come, to an outcome and a world. The file locks exclude other writers, so one operation runs at a time.
\<close>

section \<open>Directories, faults and outcomes\<close>

text \<open>\<open>fl_safe\<close>: the file passes the checks of type, mode and owner of the directory it is in.\<close>

record fnode =
  fl_data :: bytes
  fl_safe :: bool
  fl_synced :: bool

text \<open>\<open>dr_live\<close> is what processes see, \<open>dr_disk\<close> the entries as of the last synchronisation of the directory.\<close>

record directory =
  dr_made :: bool
  dr_live :: "(string, fnode) gomap"
  dr_disk :: "(string, fnode) gomap"

text \<open>
  The directories of a network: the home with the offline authority, its committed and its staged authority, the
  offline key generations, the operational home, its publication journal and online keys, and the public repository.
\<close>

datatype store_id = Home | Authority | Stage | Rotations | Operational | Journal | OnlineKeys | Repository

datatype fault = NoFault | Fails | Tears bytes | Dies

datatype omega_error =
    ENotExist
  | EExist
  | EIO
  | EUnsafe
  | ETooLarge
  | ERefuse
  | EInvalid
  | EConfig
  | EHistory
  | EApproval
  | EExpired
  | EClock
  | EReserved
  | EDestination
  | ERollback
  | EVersion
  | EVerify
  | EHosting
  | ECustody
  | EKey
  | EMetadata
  | EHandoff
  | ELimit

datatype 'a outcome = Val 'a | Err omega_error | Died

record world =
  w_dirs :: "store_id \<Rightarrow> directory"
  w_faults :: "fault list"

type_synonym 'a op = "world \<Rightarrow> 'a outcome \<times> world"

definition ret :: "'a \<Rightarrow> 'a op" where
  "ret x w = (Val x, w)"

definition throw :: "omega_error \<Rightarrow> 'a op" where
  "throw e w = (Err e, w)"

definition andthen :: "'a op \<Rightarrow> ('a \<Rightarrow> 'b op) \<Rightarrow> 'b op" where
  "andthen m k w =
     (case m w of
        (Val x, w1) \<Rightarrow> k x w1
      | (Err e, w1) \<Rightarrow> (Err e, w1)
      | (Died, w1) \<Rightarrow> (Died, w1))"

text \<open>A call whose error the code inspects.\<close>

definition trying :: "'a op \<Rightarrow> (omega_error + 'a) op" where
  "trying m w =
     (case m w of
        (Val x, w1) \<Rightarrow> (Val (Inr x), w1)
      | (Err e, w1) \<Rightarrow> (Val (Inl e), w1)
      | (Died, w1) \<Rightarrow> (Died, w1))"

definition guard :: "bool \<Rightarrow> omega_error \<Rightarrow> unit op" where
  "guard b e = (if b then ret () else throw e)"

definition opt :: "'a option \<Rightarrow> omega_error \<Rightarrow> 'a op" where
  "opt x e = (case x of None \<Rightarrow> throw e | Some v \<Rightarrow> ret v)"

fun for_each :: "'a list \<Rightarrow> ('a \<Rightarrow> unit op) \<Rightarrow> unit op" where
  "for_each [] f = ret ()"
| "for_each (x # xs) f = andthen (f x) (\<lambda>u. for_each xs f)"

section \<open>System calls\<close>

definition dir_step :: "(directory \<Rightarrow> 'a outcome \<times> directory) \<Rightarrow> store_id \<Rightarrow> 'a op" where
  "dir_step f s w = (let (r, d) = f (w_dirs w s) in (r, w\<lparr>w_dirs := (w_dirs w)(s := d)\<rparr>))"

text \<open>\<open>torn\<close> is what the call does when it is interrupted half way.\<close>

definition syscall :: "(bytes \<Rightarrow> directory \<Rightarrow> directory) \<Rightarrow> (directory \<Rightarrow> 'a outcome \<times> directory) \<Rightarrow> store_id \<Rightarrow> 'a op" where
  "syscall torn f s w =
     (case w_faults w of
        [] \<Rightarrow> dir_step f s w
      | NoFault # fs \<Rightarrow> dir_step f s (w\<lparr>w_faults := fs\<rparr>)
      | Fails # fs \<Rightarrow> (Err EIO, w\<lparr>w_faults := fs\<rparr>)
      | Tears part # fs \<Rightarrow> dir_step (\<lambda>d. (Err EIO, torn part d)) s (w\<lparr>w_faults := fs\<rparr>)
      | Dies # fs \<Rightarrow> (Died, w\<lparr>w_faults := fs\<rparr>))"

definition call :: "(directory \<Rightarrow> 'a outcome \<times> directory) \<Rightarrow> store_id \<Rightarrow> 'a op" where
  "call f = syscall (\<lambda>part d. d) f"

definition maxRecord :: nat where "maxRecord = 1048576"

definition read_file :: "string \<Rightarrow> directory \<Rightarrow> bytes outcome \<times> directory" where
  "read_file name d =
     (case gm_lookup (dr_live d) name of
        None \<Rightarrow> (Err ENotExist, d)
      | Some f \<Rightarrow>
          if \<not> fl_safe f then (Err EUnsafe, d)
          else if length (fl_data f) > maxRecord then (Err ETooLarge, d)
          else (Val (fl_data f), d))"

definition read :: "store_id \<Rightarrow> string \<Rightarrow> bytes op" where
  "read s name = call (read_file name) s"

definition lstat :: "store_id \<Rightarrow> string \<Rightarrow> bool op" where
  "lstat s name = call (\<lambda>d. (Val (gm_lookup (dr_live d) name \<noteq> None), d)) s"

definition remove :: "store_id \<Rightarrow> string \<Rightarrow> unit op" where
  "remove s name =
     call (\<lambda>d. case gm_lookup (dr_live d) name of
                 None \<Rightarrow> (Err ENotExist, d)
               | Some f \<Rightarrow> (Val (), d\<lparr>dr_live := gm_delete name (dr_live d)\<rparr>)) s"

text \<open>\<open>O_CREATE|O_EXCL\<close>.\<close>

definition create :: "store_id \<Rightarrow> string \<Rightarrow> unit op" where
  "create s name =
     call (\<lambda>d. case gm_lookup (dr_live d) name of
                 Some f \<Rightarrow> (Err EExist, d)
               | None \<Rightarrow> (Val (), d\<lparr>dr_live := gm_update name \<lparr>fl_data = [], fl_safe = True, fl_synced = False\<rparr> (dr_live d)\<rparr>)) s"

definition put_data :: "string \<Rightarrow> bytes \<Rightarrow> directory \<Rightarrow> directory" where
  "put_data name data d =
     (case gm_lookup (dr_live d) name of
        None \<Rightarrow> d
      | Some f \<Rightarrow> d\<lparr>dr_live := gm_update name (f\<lparr>fl_data := data, fl_synced := False\<rparr>) (dr_live d)\<rparr>)"

definition write_data :: "store_id \<Rightarrow> string \<Rightarrow> bytes \<Rightarrow> unit op" where
  "write_data s name data = syscall (put_data name) (\<lambda>d. (Val (), put_data name data d)) s"

text \<open>Ownership and mode of a file the tool has created; they are right already when they cannot be changed.\<close>

definition set_owner :: "store_id \<Rightarrow> unit op" where
  "set_owner s = call (Pair (Val ())) s"

definition sync_data :: "string \<Rightarrow> directory \<Rightarrow> directory" where
  "sync_data name d =
     (case gm_lookup (dr_live d) name of
        None \<Rightarrow> d
      | Some f \<Rightarrow> d\<lparr>dr_live := gm_update name (f\<lparr>fl_synced := True\<rparr>) (dr_live d)\<rparr>)"

definition fsync :: "store_id \<Rightarrow> string \<Rightarrow> unit op" where
  "fsync s name = call (\<lambda>d. (Val (), sync_data name d)) s"

definition link :: "store_id \<Rightarrow> string \<Rightarrow> string \<Rightarrow> unit op" where
  "link s pending name =
     call (\<lambda>d. case (gm_lookup (dr_live d) pending, gm_lookup (dr_live d) name) of
                 (Some f, None) \<Rightarrow> (Val (), d\<lparr>dr_live := gm_update name f (dr_live d)\<rparr>)
               | (Some f, Some g) \<Rightarrow> (Err EExist, d)
               | (None, g) \<Rightarrow> (Err ENotExist, d)) s"

definition rename :: "store_id \<Rightarrow> string \<Rightarrow> string \<Rightarrow> unit op" where
  "rename s pending name =
     call (\<lambda>d. case gm_lookup (dr_live d) pending of
                 None \<Rightarrow> (Err ENotExist, d)
               | Some f \<Rightarrow> (Val (), d\<lparr>dr_live := gm_update name f (gm_delete pending (dr_live d))\<rparr>)) s"

definition dir_of :: "string \<Rightarrow> string" where
  "dir_of name = (case CutLast (CHR ''/'') name of None \<Rightarrow> ''.'' | Some (d, base) \<Rightarrow> d)"

definition sync_entries :: "string \<Rightarrow> directory \<Rightarrow> directory" where
  "sync_entries sub d =
     d\<lparr>dr_disk := filter (\<lambda>(n, f). dir_of n = sub) (dr_live d) @ filter (\<lambda>(n, f). dir_of n \<noteq> sub) (dr_disk d)\<rparr>"

definition sync_sub :: "store_id \<Rightarrow> string \<Rightarrow> unit op" where
  "sync_sub s sub = call (\<lambda>d. (Val (), sync_entries sub d)) s"

definition syncDir :: "store_id \<Rightarrow> unit op" where
  "syncDir s = sync_sub s ''.''"

definition syncObjectParent :: "string \<Rightarrow> unit op" where
  "syncObjectParent name = sync_sub Repository (dir_of name)"

definition directoryNames :: "store_id \<Rightarrow> string list op" where
  "directoryNames s = call (\<lambda>d. (Val (gm_keys (dr_live d)), d)) s"

text \<open>\<open>mkdir\<close> of the tool treats an existing directory as made; \<open>subdir\<close> opens one that exists.\<close>

definition mkdir :: "store_id \<Rightarrow> unit op" where
  "mkdir s = call (\<lambda>d. (Val (), d\<lparr>dr_made := True\<rparr>)) s"

definition subdir :: "store_id \<Rightarrow> unit op" where
  "subdir s = call (\<lambda>d. (if dr_made d then Val () else Err ENotExist, d)) s"

section \<open>Installing and replacing files\<close>

definition pending_name :: "string \<Rightarrow> string" where
  "pending_name name = name @ ''.pending''"

text \<open>Reading where only absence is tolerated.\<close>

definition try_read :: "store_id \<Rightarrow> string \<Rightarrow> bytes option op" where
  "try_read s name =
     andthen (trying (read s name)) (\<lambda>r.
       case r of
         Inr data \<Rightarrow> ret (Some data)
       | Inl e \<Rightarrow> if e = ENotExist then ret None else throw e)"

text \<open>A new temporary file with its bytes on disk; \<open>mode\<close> is the call that sets the mode of a public file.\<close>

definition write_temp :: "store_id \<Rightarrow> string \<Rightarrow> bytes \<Rightarrow> bool \<Rightarrow> unit op" where
  "write_temp s name data mode =
     andthen (create s name) (\<lambda>u.
     andthen (set_owner s) (\<lambda>u.
     andthen (write_data s name data) (\<lambda>u.
     andthen (if mode then set_owner s else ret ()) (\<lambda>u.
     fsync s name))))"

definition drop_temp :: "store_id \<Rightarrow> string \<Rightarrow> unit op" where
  "drop_temp s name = andthen (try_read s name) (\<lambda>p. if p = None then ret () else remove s name)"

definition install_new :: "store_id \<Rightarrow> string \<Rightarrow> bytes \<Rightarrow> unit op" where
  "install_new s name data =
     andthen (try_read s (pending_name name)) (\<lambda>old.
     andthen (if old = Some data then andthen (set_owner s) (\<lambda>u. fsync s (pending_name name))
              else andthen (if old = None then ret () else remove s (pending_name name)) (\<lambda>u.
                   write_temp s (pending_name name) data False)) (\<lambda>u.
     andthen (link s (pending_name name) name) (\<lambda>u.
     andthen (syncDir s) (\<lambda>u.
     andthen (remove s (pending_name name)) (\<lambda>u.
     syncDir s)))))"

definition install :: "store_id \<Rightarrow> string \<Rightarrow> bytes \<Rightarrow> unit op" where
  "install s name data =
     andthen (try_read s name) (\<lambda>existing.
       case existing of
         Some old \<Rightarrow> guard (old = data) ERefuse
       | None \<Rightarrow> install_new s name data)"

definition cleanPending :: "store_id \<Rightarrow> string list \<Rightarrow> unit op" where
  "cleanPending s names =
     andthen (for_each names (\<lambda>name. drop_temp s (pending_name name))) (\<lambda>u. syncDir s)"

definition replaceRecord :: "store_id \<Rightarrow> string \<Rightarrow> bytes \<Rightarrow> unit op" where
  "replaceRecord s name data =
     andthen (try_read s name) (\<lambda>old.
     andthen (drop_temp s (pending_name name)) (\<lambda>u.
     andthen (write_temp s (pending_name name) data False) (\<lambda>u.
     andthen (rename s (pending_name name) name) (\<lambda>u.
     syncDir s))))"

text \<open>The public repository: immutable objects are linked, the timestamp is renamed into place.\<close>

definition write_object_new :: "string \<Rightarrow> bytes \<Rightarrow> bool \<Rightarrow> unit op" where
  "write_object_new name data mutable =
     andthen (drop_temp Repository (pending_name name)) (\<lambda>u.
     andthen (write_temp Repository (pending_name name) data True) (\<lambda>u.
       if mutable then
         andthen (rename Repository (pending_name name) name) (\<lambda>u.
         syncObjectParent name)
       else
         andthen (link Repository (pending_name name) name) (\<lambda>u.
         andthen (syncObjectParent name) (\<lambda>u.
         andthen (remove Repository (pending_name name)) (\<lambda>u.
         syncObjectParent name)))))"

definition writeObject :: "string \<Rightarrow> bytes \<Rightarrow> bool \<Rightarrow> unit op" where
  "writeObject name data mutable =
     andthen (try_read Repository name) (\<lambda>existing.
       if existing = Some data then
         andthen (fsync Repository name) (\<lambda>u. syncObjectParent name)
       else if existing \<noteq> None \<and> \<not> mutable then throw ERefuse
       else write_object_new name data mutable)"

text \<open>
  Temporary files with a byte-identical final file are removed, after that file and its entry are durable; \<open>sub\<close> is the
  directory within the store.
\<close>

definition clean_twin :: "store_id \<Rightarrow> string \<Rightarrow> string \<Rightarrow> unit op" where
  "clean_twin s sub pending =
     (let name = take (length pending - length ''.pending'') pending
      in andthen (try_read s name) (\<lambda>final.
           case final of
             None \<Rightarrow> ret ()
           | Some data \<Rightarrow>
               andthen (read s pending) (\<lambda>temporary.
                 if temporary \<noteq> data then ret ()
                 else andthen (fsync s name) (\<lambda>u.
                      andthen (sync_sub s sub) (\<lambda>u.
                      andthen (remove s pending) (\<lambda>u.
                      sync_sub s sub))))))"

definition cleanPendingTwins :: "store_id \<Rightarrow> string \<Rightarrow> unit op" where
  "cleanPendingTwins s sub =
     andthen (directoryNames s) (\<lambda>names.
       for_each (filter (\<lambda>n. dir_of n = sub \<and> HasSuffix n ''.pending'') names) (clean_twin s sub))"

section \<open>Power loss\<close>

text \<open>
  After a power loss an entry is the one of the last synchronisation or the latest one; data that was not
  synchronised can be anything.
\<close>

definition survives :: "fnode option \<Rightarrow> fnode option \<Rightarrow> fnode option \<Rightarrow> bool" where
  "survives live disk after \<longleftrightarrow>
     (case after of
        None \<Rightarrow> live = None \<or> disk = None
      | Some f \<Rightarrow> fl_synced f \<and>
          (\<exists>g. (live = Some g \<or> disk = Some g) \<and> fl_safe f = fl_safe g \<and> (fl_synced g \<longrightarrow> fl_data f = fl_data g)))"

definition dir_loss :: "directory \<Rightarrow> directory \<Rightarrow> bool" where
  "dir_loss d d' \<longleftrightarrow> dr_disk d' = dr_live d' \<and> (dr_made d' \<longrightarrow> dr_made d) \<and>
     (\<forall>n. survives (gm_lookup (dr_live d) n) (gm_lookup (dr_disk d) n) (gm_lookup (dr_live d') n))"

definition power_loss :: "(store_id \<Rightarrow> directory) \<Rightarrow> (store_id \<Rightarrow> directory) \<Rightarrow> bool" where
  "power_loss ds ds' \<longleftrightarrow> (\<forall>s. dir_loss (ds s) (ds' s))"

end
