(* ===== verification/Omega_Release.thy ===== *)
theory Omega_Release
  imports Bootstrap_Manifest Omega_Store
begin

text \<open>
  Releases of the operator tool, \<open>src/internal/omega/release.go\<close>, with the root transitions of \<open>rotation_roots.go\<close> and
  \<open>root_rotation.go\<close> and the approvals of \<open>membership_rotation.go\<close> they rest on. go-tuf, the JSON codec, signing and SHA-256
  are the fields of the record \<open>omega_lib\<close>: parsing of metadata, the verifications of its trusted metadata set, and
  signing with an encoded private key. Times are nanoseconds since the Unix epoch.
\<close>

section \<open>Metadata and the library\<close>

definition no_time :: gotime where "no_time = - 62135596800000000000"

definition hours :: "int \<Rightarrow> duration" where "hours n = n * 3600 * nsec"

definition days :: "int \<Rightarrow> duration" where "days n = hours (24 * n)"

definition truncate_second :: "gotime \<Rightarrow> gotime" where "truncate_second t = t div nsec * nsec"

text \<open>The signed part of root metadata; \<open>rm_policy\<close> stands for its other fields.\<close>

record root_meta =
  rm_version :: int
  rm_expires :: gotime
  rm_roles :: "(string, tuf_role) gomap"
  rm_keys :: "(string, tuf_key) gomap"
  rm_policy :: string

record meta_file =
  me_version :: int
  me_length :: int
  me_sha256 :: string

text \<open>Timestamp and snapshot metadata.\<close>

record meta_list =
  ml_version :: int
  ml_expires :: gotime
  ml_meta :: "(string, meta_file) gomap"

record target_info =
  ti_length :: int
  ti_sha256 :: string

record targets_meta =
  tm_version :: int
  tm_expires :: gotime
  tm_targets :: "(string, target_info) gomap"

record release =
  rl_schema :: int
  rl_version :: int
  rl_previous :: string
  rl_fingerprint :: string
  rl_created :: gotime
  rl_manifest :: bytes
  rl_targets :: bytes
  rl_snapshot :: bytes
  rl_timestamp :: bytes
  rl_targets_version :: int
  rl_approved_at :: gotime
  rl_roots :: "bytes list"
  rl_timestamp_days :: int

type_synonym 'a codec = "('a \<Rightarrow> bytes) \<times> (bytes \<Rightarrow> 'a option)"

record omega_lib = tuf_root_lib +
  ol_json :: "bytes \<Rightarrow> json option"
  ol_valid :: "bytes \<Rightarrow> bool"
  ol_manifest :: "Manifest \<Rightarrow> bytes"
  ol_new_root :: "bytes \<Rightarrow> root_meta option"
  ol_parse_root :: "bytes \<Rightarrow> root_meta option"
  ol_update_root :: "root_meta \<Rightarrow> bytes \<Rightarrow> root_meta option"
  ol_key_id :: "tuf_key \<Rightarrow> string option"
  ol_parse_list :: "bytes \<Rightarrow> meta_list option"
  ol_timestamp_ok :: "root_meta \<Rightarrow> gotime \<Rightarrow> bytes \<Rightarrow> bool"
  ol_snapshot_ok :: "root_meta \<Rightarrow> gotime \<Rightarrow> bytes \<Rightarrow> bytes \<Rightarrow> bool"
  ol_parse_targets :: "bytes \<Rightarrow> targets_meta option"
  ol_targets_ok :: "root_meta \<Rightarrow> gotime \<Rightarrow> bytes \<Rightarrow> bytes \<Rightarrow> bool"
  ol_target_ok :: "target_info \<Rightarrow> bytes \<Rightarrow> bool"
  ol_delegate_ok :: "root_meta \<Rightarrow> bytes \<Rightarrow> bool"
  ol_sign_list :: "string \<Rightarrow> string \<Rightarrow> meta_list \<Rightarrow> bytes option"
  ol_sign_targets :: "string \<Rightarrow> targets_meta \<Rightarrow> bytes option"
  ol_release :: "release codec"

definition record_of :: "'a codec \<Rightarrow> 'a \<Rightarrow> bytes" where
  "record_of c v = fst c v"

definition decodeRecord :: "'a codec \<Rightarrow> bytes \<Rightarrow> 'a option" where
  "decodeRecord c data = (case snd c data of None \<Rightarrow> None | Some v \<Rightarrow> if record_of c v = data then Some v else None)"

definition omega_fingerprint :: "omega_lib \<Rightarrow> Bundle \<Rightarrow> string" where
  "omega_fingerprint lib b = Fingerprint (tuf_root_lib.truncate lib) b"

definition maxReleases :: int where "maxReleases = 10000"
definition timestampDays :: int where "timestampDays = 7"
definition maxRootVersion :: nat where "maxRootVersion = 64"

definition validTimestampDays :: "int \<Rightarrow> bool" where
  "validTimestampDays n \<longleftrightarrow> n = 0 \<or> n = timestampDays"

definition timestampLifetime :: "int \<Rightarrow> duration" where
  "timestampLifetime n = days (if n = 0 then 1 else n)"

definition minTime :: "gotime \<Rightarrow> gotime \<Rightarrow> gotime" where
  "minTime a b = (if a < b then a else b)"

definition releaseName :: "int \<Rightarrow> string" where
  "releaseName version = Itoa version @ ''.release.json''"

definition approvedManifest :: "omega_lib \<Rightarrow> bytes \<Rightarrow> string \<Rightarrow> bytes option" where
  "approvedManifest lib data network =
     (case ParseManifest (ol_json lib) data network of
        None \<Rightarrow> None
      | Some m \<Rightarrow> if length (mf_roots m) \<noteq> 3 then None else Some (ol_manifest lib m))"

definition metadataFile :: "omega_lib \<Rightarrow> int \<Rightarrow> bytes \<Rightarrow> meta_file" where
  "metadataFile lib version data = \<lparr>me_version = version, me_length = int (length data), me_sha256 = lib_sha256 lib data\<rparr>"

section \<open>Root transitions\<close>

text \<open>Equality of two maps, as the comparison of their JSON texts, whose keys are sorted.\<close>

definition gm_same :: "('k, 'v) gomap \<Rightarrow> ('k, 'v) gomap \<Rightarrow> bool" where
  "gm_same a b \<longleftrightarrow> list_all (\<lambda>k. gm_lookup a k = gm_lookup b k) (gm_keys a @ gm_keys b)"

definition same_root :: "root_meta \<Rightarrow> root_meta \<Rightarrow> bool" where
  "same_root a b \<longleftrightarrow> rm_version a = rm_version b \<and> rm_expires a = rm_expires b \<and> gm_same (rm_roles a) (rm_roles b) \<and>
     gm_same (rm_keys a) (rm_keys b) \<and> rm_policy a = rm_policy b"

text \<open>Number of entries of a Go map.\<close>

definition gm_size :: "('k, 'v) gomap \<Rightarrow> nat" where
  "gm_size m = length (remdups (gm_keys m))"

definition ed25519_key :: "tuf_key \<Rightarrow> bool" where
  "ed25519_key k \<longleftrightarrow> tk_parses k \<and> tk_ed25519 k"

text \<open>
  One role of \<open>roleSuccessor\<close>: the successor with the old assignment of \<open>role\<close> put back, when it was a fresh single key. An
  old key ID without a key is put back as a null entry, which no root has, so the comparison fails.
\<close>

definition restore_role :: "omega_lib \<Rightarrow> root_meta \<Rightarrow> root_meta \<Rightarrow> string \<Rightarrow> root_meta \<Rightarrow> root_meta option" where
  "restore_role lib previous nxt role copy =
     (case (gm_lookup (rm_roles nxt) role, gm_lookup (rm_roles previous) role) of
        (Some assignment, Some old) \<Rightarrow>
          (case (tr_keyids assignment, tr_keyids old) of
             ([i], [old_id]) \<Rightarrow>
               (case gm_lookup (rm_keys nxt) i of
                  None \<Rightarrow> None
                | Some key \<Rightarrow>
                    if tr_threshold assignment \<noteq> 1 \<or> gm_lookup (rm_keys previous) i \<noteq> None \<or> \<not> ed25519_key key \<or> ol_key_id lib key \<noteq> Some i then None
                    else map_option
                      (\<lambda>old_key. copy\<lparr>rm_keys := gm_update old_id old_key (gm_delete i (rm_keys copy)), rm_roles := gm_update role old (rm_roles copy)\<rparr>)
                      (gm_lookup (rm_keys previous) old_id))
           | _ \<Rightarrow> None)
      | _ \<Rightarrow> None)"

fun restore_roles :: "omega_lib \<Rightarrow> root_meta \<Rightarrow> root_meta \<Rightarrow> string list \<Rightarrow> root_meta \<Rightarrow> root_meta option" where
  "restore_roles lib previous nxt [] copy = Some copy"
| "restore_roles lib previous nxt (role # roles) copy =
     (case restore_role lib previous nxt role copy of None \<Rightarrow> None | Some c \<Rightarrow> restore_roles lib previous nxt roles c)"

definition roleSuccessor :: "omega_lib \<Rightarrow> root_meta \<Rightarrow> root_meta \<Rightarrow> string list \<Rightarrow> bool" where
  "roleSuccessor lib previous nxt roles =
     (if rm_version nxt \<noteq> rm_version previous + 1 \<or> gm_size (rm_keys nxt) \<noteq> 6 then False
      else case restore_roles lib previous nxt roles nxt of
        None \<Rightarrow> False
      | Some copy \<Rightarrow> same_root (copy\<lparr>rm_version := rm_version previous\<rparr>) previous)"

definition validateRootKeys :: "omega_lib \<Rightarrow> tuf_key option list \<Rightarrow> root_meta \<Rightarrow> bool" where
  "validateRootKeys lib keys old \<longleftrightarrow> length keys = 3 \<and> list_all (\<lambda>k. k \<noteq> None) keys \<and>
     (let ks = map the keys; ids = map (ol_key_id lib) ks
      in list_all ed25519_key ks \<and> list_all (\<lambda>i. i \<noteq> None) ids \<and> distinct ids \<and>
         list_all (\<lambda>i. gm_lookup (rm_keys old) (the i) = None) ids)"

definition rootSuccessor :: "omega_lib \<Rightarrow> root_meta \<Rightarrow> root_meta \<Rightarrow> bool" where
  "rootSuccessor lib old nxt =
     (case (gm_lookup (rm_roles nxt) ''root'', gm_lookup (rm_roles old) ''root'') of
        (Some assignment, Some previous) \<Rightarrow>
          tr_threshold assignment = 2 \<and> length (tr_keyids assignment) = 3 \<and> tr_threshold previous = 2 \<and> length (tr_keyids previous) = 3 \<and>
          gm_size (rm_keys nxt) = 6 \<and> rm_version nxt = rm_version old + 1 \<and> rm_expires nxt > rm_expires old \<and>
          list_all (\<lambda>i. case gm_lookup (rm_keys nxt) i of None \<Rightarrow> False | Some k \<Rightarrow> ol_key_id lib k = Some i) (tr_keyids assignment) \<and>
          validateRootKeys lib (map (gm_lookup (rm_keys nxt)) (tr_keyids assignment)) old \<and>
          list_all (\<lambda>i. gm_lookup (rm_keys old) i \<noteq> None) (tr_keyids previous) \<and>
          (let keys = fold gm_delete (tr_keyids assignment) (rm_keys nxt);
               keys' = fold (\<lambda>i. gm_update i (the (gm_lookup (rm_keys old) i))) (tr_keyids previous) keys
           in same_root (nxt\<lparr>rm_keys := keys', rm_roles := gm_update ''root'' previous (rm_roles nxt), rm_version := rm_version old,
                             rm_expires := rm_expires old\<rparr>) old)
      | _ \<Rightarrow> False)"

definition successorRole :: "omega_lib \<Rightarrow> root_meta \<Rightarrow> root_meta \<Rightarrow> string option" where
  "successorRole lib previous nxt =
     (if roleSuccessor lib previous nxt [''snapshot'', ''timestamp''] then Some ''online''
      else if roleSuccessor lib previous nxt [''targets''] then Some ''targets''
      else if rootSuccessor lib previous nxt then Some ''root''
      else None)"

fun advance_roots :: "omega_lib \<Rightarrow> root_meta \<Rightarrow> bytes list \<Rightarrow> root_meta option" where
  "advance_roots lib trusted [] = Some trusted"
| "advance_roots lib trusted (raw # raws) =
     (case ol_update_root lib trusted raw of
        None \<Rightarrow> None
      | Some nxt \<Rightarrow> if successorRole lib trusted nxt = None then None else advance_roots lib nxt raws)"

definition trustedRoots :: "omega_lib \<Rightarrow> Bundle \<Rightarrow> bytes list \<Rightarrow> root_meta option" where
  "trustedRoots lib bundle roots =
     (if length roots \<ge> maxRootVersion then None
      else case ol_new_root lib (bd_root bundle) of None \<Rightarrow> None | Some root \<Rightarrow> advance_roots lib root roots)"

section \<open>Releases\<close>

definition isRenewal :: "release \<Rightarrow> bool" where
  "isRenewal r \<longleftrightarrow> rl_schema r = 2 \<or> rl_schema r = 4"

definition currentRoot :: "Bundle \<Rightarrow> release \<Rightarrow> bytes" where
  "currentRoot bundle r = (if rl_roots r = [] then bd_root bundle else last (rl_roots r))"

definition targets_version :: "release \<Rightarrow> int" where
  "targets_version r = (if isRenewal r then rl_targets_version r else rl_version r)"

definition root_version :: "release \<Rightarrow> int" where
  "root_version r = int (length (rl_roots r)) + 1"

definition approvalTime :: "release \<Rightarrow> gotime" where
  "approvalTime r = (if isRenewal r \<or> rl_schema r = 5 then rl_approved_at r else rl_created r)"

definition same_targets :: "targets_meta \<Rightarrow> targets_meta \<Rightarrow> int \<Rightarrow> bool" where
  "same_targets old t version \<longleftrightarrow> tm_version t = version \<and> t\<lparr>tm_version := tm_version old\<rparr> = old"

definition sameTargetsApproval :: "omega_lib \<Rightarrow> bytes \<Rightarrow> bytes \<Rightarrow> int \<Rightarrow> bool" where
  "sameTargetsApproval lib previous nxt version =
     (case (ol_parse_targets lib previous, ol_parse_targets lib nxt) of
        (Some old, Some t) \<Rightarrow> same_targets old t version
      | _ \<Rightarrow> False)"

definition renewedTargetsApproval :: "omega_lib \<Rightarrow> bytes \<Rightarrow> bytes \<Rightarrow> int \<Rightarrow> gotime \<Rightarrow> gotime \<Rightarrow> bool" where
  "renewedTargetsApproval lib previous nxt version created expires =
     (case (ol_parse_targets lib previous, ol_parse_targets lib nxt) of
        (Some old, Some t) \<Rightarrow> tm_expires t = minTime (created + days 90) expires \<and> same_targets old (t\<lparr>tm_expires := tm_expires old\<rparr>) version
      | _ \<Rightarrow> False)"

definition continuedTargetsApproval :: "omega_lib \<Rightarrow> bytes \<Rightarrow> bytes \<Rightarrow> int \<Rightarrow> gotime \<Rightarrow> root_meta \<Rightarrow> bool" where
  "continuedTargetsApproval lib previous nxt version created root \<longleftrightarrow>
     sameTargetsApproval lib previous nxt version \<or> renewedTargetsApproval lib previous nxt version created (rm_expires root)"

record expiries =
  ex_root :: gotime
  ex_targets :: gotime
  ex_snapshot :: gotime
  ex_timestamp :: gotime

text \<open>Schemas 5 and 6: the last root must be the announced kind of successor of the one before.\<close>

definition transition_ok :: "omega_lib \<Rightarrow> Bundle \<Rightarrow> release \<Rightarrow> root_meta \<Rightarrow> bool" where
  "transition_ok lib bundle r root =
     (if rl_schema r \<noteq> 5 \<and> rl_schema r \<noteq> 6 then True
      else case ol_parse_root lib (if length (rl_roots r) > 1 then rl_roots r ! (length (rl_roots r) - 2) else bd_root bundle) of
        None \<Rightarrow> False
      | Some old \<Rightarrow> if rl_schema r = 6 then rootSuccessor lib old root else roleSuccessor lib old root [''targets''])"

text \<open>The trusted metadata set accepts the three files at the creation time, and they refer to each other's exact bytes.\<close>

definition metadata_ok :: "omega_lib \<Rightarrow> release \<Rightarrow> root_meta \<Rightarrow> expiries option" where
  "metadata_ok lib r root =
     (if \<not> ol_timestamp_ok lib root (rl_created r) (rl_timestamp r) \<or>
         \<not> ol_snapshot_ok lib root (rl_created r) (rl_timestamp r) (rl_snapshot r) \<or>
         \<not> ol_targets_ok lib root (rl_created r) (rl_snapshot r) (rl_targets r) then None
      else case (ol_parse_list lib (rl_timestamp r), ol_parse_list lib (rl_snapshot r), ol_parse_targets lib (rl_targets r)) of
        (Some ts, Some sn, Some tg) \<Rightarrow>
          (case gm_lookup (tm_targets tg) ''bootstrap.json'' of
             None \<Rightarrow> None
           | Some target \<Rightarrow>
               if gm_size (tm_targets tg) \<noteq> 1 \<or> gm_size (ml_meta sn) \<noteq> 1 \<or> gm_size (ml_meta ts) \<noteq> 1 \<or>
                  ml_version ts \<noteq> rl_version r \<or> ml_version sn \<noteq> rl_version r \<or> tm_version tg \<noteq> targets_version r then None
               else if \<not> ol_target_ok lib target (rl_manifest r) then None
               else if gm_lookup (ml_meta sn) ''targets.json'' \<noteq> Some (metadataFile lib (targets_version r) (rl_targets r)) \<or>
                       gm_lookup (ml_meta ts) ''snapshot.json'' \<noteq> Some (metadataFile lib (rl_version r) (rl_snapshot r)) then None
               else Some \<lparr>ex_root = rm_expires root, ex_targets = tm_expires tg, ex_snapshot = ml_expires sn, ex_timestamp = ml_expires ts\<rparr>)
      | _ \<Rightarrow> None)"

definition identity_ok :: "omega_lib \<Rightarrow> Bundle \<Rightarrow> release \<Rightarrow> bool" where
  "identity_ok lib bundle r \<longleftrightarrow>
     validTimestampDays (rl_timestamp_days r) \<and> rl_schema r \<ge> 1 \<and> rl_schema r \<le> 6 \<and> (rl_schema r > 2) = (rl_roots r \<noteq> []) \<and>
     rl_version r \<ge> 1 \<and> rl_version r \<le> maxReleases \<and> rl_fingerprint r = omega_fingerprint lib bundle \<and> rl_created r \<noteq> no_time"

definition approval_ok :: "release \<Rightarrow> bool" where
  "approval_ok r \<longleftrightarrow>
     (if isRenewal r then rl_targets_version r \<ge> 1 \<and> rl_targets_version r < rl_version r \<and> approvalTime r \<noteq> no_time \<and> rl_created r \<ge> approvalTime r
      else if rl_schema r = 5 then rl_targets_version r = 0 \<and> approvalTime r \<noteq> no_time \<and> rl_created r \<ge> approvalTime r
      else rl_targets_version r = 0 \<and> rl_approved_at r = no_time)"

definition expiry_ok :: "release \<Rightarrow> expiries \<Rightarrow> bool" where
  "expiry_ok r ex \<longleftrightarrow>
     (let deadline = (if isRenewal r \<or> rl_schema r = 5 then minTime (ex_root ex) (ex_targets ex) else ex_root ex)
      in ex_targets ex = minTime (approvalTime r + days 90) (ex_root ex) \<and>
         ex_snapshot ex = minTime (rl_created r + days 7) deadline \<and>
         ex_timestamp ex = minTime (rl_created r + timestampLifetime (rl_timestamp_days r)) deadline) \<and>
     (isRenewal r \<or> rl_schema r = 5 \<or> ex_root ex - rl_created r \<ge> hours 24)"

definition validate :: "omega_lib \<Rightarrow> Bundle \<Rightarrow> release \<Rightarrow> (Manifest \<times> expiries) option" where
  "validate lib bundle r =
     (if \<not> identity_ok lib bundle r then None
      else if approvedManifest lib (rl_manifest r) (bd_network bundle) \<noteq> Some (rl_manifest r) then None
      else case trustedRoots lib bundle (rl_roots r) of
        None \<Rightarrow> None
      | Some root \<Rightarrow>
          if \<not> transition_ok lib bundle r root then None
          else case metadata_ok lib r root of
            None \<Rightarrow> None
          | Some ex \<Rightarrow>
              if \<not> approval_ok r \<or> \<not> expiry_ok r ex then None
              else map_option (\<lambda>m. (m, ex)) (ParseManifest (ol_json lib) (rl_manifest r) (bd_network bundle)))"

definition rl_objects :: "omega_lib \<Rightarrow> Bundle \<Rightarrow> release \<Rightarrow> (string \<times> bytes) list" where
  "rl_objects lib bundle r =
     [(''1.root.json'', bd_root bundle),
      (''targets/'' @ lib_sha256 lib (rl_manifest r) @ ''.bootstrap.json'', rl_manifest r),
      (Itoa (targets_version r) @ ''.targets.json'', rl_targets r),
      (Itoa (rl_version r) @ ''.snapshot.json'', rl_snapshot r)]
     @ map (\<lambda>(i, root). (Itoa (int i) @ ''.root.json'', root)) (enumerate 2 (rl_roots r))"

definition release_digest :: "omega_lib \<Rightarrow> release \<Rightarrow> string" where
  "release_digest lib r = lib_sha256 lib (record_of (ol_release lib) r)"

section \<open>Preparing releases\<close>

text \<open>Snapshot and timestamp over the given targets, then the check of the result.\<close>

definition sign_online ::
    "omega_lib \<Rightarrow> Bundle \<Rightarrow> (string \<Rightarrow> string) \<Rightarrow> gotime \<Rightarrow> release \<Rightarrow> release option" where
  "sign_online lib bundle keys deadline r =
     (case ol_sign_list lib (keys ''snapshot'') ''snapshot''
             \<lparr>ml_version = rl_version r, ml_expires = minTime (rl_created r + days 7) deadline,
              ml_meta = [(''targets.json'', metadataFile lib (targets_version r) (rl_targets r))]\<rparr> of
        None \<Rightarrow> None
      | Some sn \<Rightarrow>
          (case ol_sign_list lib (keys ''timestamp'') ''timestamp''
                  \<lparr>ml_version = rl_version r, ml_expires = minTime (rl_created r + timestampLifetime (rl_timestamp_days r)) deadline,
                   ml_meta = [(''snapshot.json'', metadataFile lib (rl_version r) sn)]\<rparr> of
             None \<Rightarrow> None
           | Some ts \<Rightarrow>
               let r' = r\<lparr>rl_snapshot := sn, rl_timestamp := ts\<rparr>
               in if validate lib bundle r' = None then None else Some r'))"

definition prepareRelease ::
    "omega_lib \<Rightarrow> Bundle \<Rightarrow> (string \<Rightarrow> string) \<Rightarrow> int \<Rightarrow> string \<Rightarrow> bytes \<Rightarrow> gotime \<Rightarrow> bytes list \<Rightarrow> release option" where
  "prepareRelease lib bundle keys version previous manifest now roots =
     (case trustedRoots lib bundle roots of
        None \<Rightarrow> None
      | Some root \<Rightarrow>
          if rm_expires root - now < hours 24 then None
          else case ol_sign_targets lib (keys ''targets'')
                 \<lparr>tm_version = version, tm_expires = minTime (now + days 90) (rm_expires root),
                  tm_targets = [(''bootstrap.json'', \<lparr>ti_length = int (length manifest), ti_sha256 = lib_sha256 lib manifest\<rparr>)]\<rparr> of
            None \<Rightarrow> None
          | Some tg \<Rightarrow>
              sign_online lib bundle keys (rm_expires root)
                \<lparr>rl_schema = (if roots = [] then 1 else 3), rl_version = version, rl_previous = previous,
                 rl_fingerprint = omega_fingerprint lib bundle, rl_created = now, rl_manifest = manifest, rl_targets = tg,
                 rl_snapshot = [], rl_timestamp = [], rl_targets_version = 0, rl_approved_at = no_time, rl_roots = roots,
                 rl_timestamp_days = timestampDays\<rparr>)"

text \<open>\<open>prepareContinuedRelease\<close>: a renewal, or with \<open>rotatedTargets\<close> a transition of the membership key or of the root.\<close>

definition continued_base :: "omega_lib \<Rightarrow> Bundle \<Rightarrow> release \<Rightarrow> gotime \<Rightarrow> bytes list \<Rightarrow> int \<Rightarrow> release" where
  "continued_base lib bundle previous now roots dys =
     \<lparr>rl_schema = (if roots = [] then 2 else 4), rl_version = rl_version previous + 1, rl_previous = release_digest lib previous,
      rl_fingerprint = omega_fingerprint lib bundle, rl_created = truncate_second now, rl_manifest = rl_manifest previous,
      rl_targets = rl_targets previous, rl_snapshot = [], rl_timestamp = [], rl_targets_version = targets_version previous,
      rl_approved_at = approvalTime previous, rl_roots = roots, rl_timestamp_days = dys\<rparr>"

definition continued_schema ::
    "omega_lib \<Rightarrow> Bundle \<Rightarrow> release \<Rightarrow> bytes list \<Rightarrow> bytes option \<Rightarrow> release \<Rightarrow> release option" where
  "continued_schema lib bundle previous roots rotatedTargets r =
     (case rotatedTargets of
        None \<Rightarrow> Some r
      | Some tg \<Rightarrow>
          (case (ol_parse_root lib (currentRoot bundle previous), trustedRoots lib bundle roots) of
             (Some old, Some root) \<Rightarrow>
               let r5 = r\<lparr>rl_schema := 5, rl_targets_version := 0, rl_targets := tg\<rparr>
               in Some (if rootSuccessor lib old root then r5\<lparr>rl_schema := 6, rl_approved_at := no_time\<rparr> else r5)
           | _ \<Rightarrow> None))"

definition continued_deadline :: "omega_lib \<Rightarrow> Bundle \<Rightarrow> release \<Rightarrow> release \<Rightarrow> gotime option" where
  "continued_deadline lib bundle previous r =
     (case validate lib bundle previous of
        None \<Rightarrow> None
      | Some (m, ex) \<Rightarrow>
          if rl_schema r \<noteq> 6 then Some (minTime (ex_root ex) (ex_targets ex))
          else case ol_parse_root lib (currentRoot bundle r) of
            None \<Rightarrow> None
          | Some root \<Rightarrow>
              if continuedTargetsApproval lib (rl_targets previous) (rl_targets r) (rl_version r) (rl_created r) root
              then Some (rm_expires root) else None)"

definition prepareContinuedRelease ::
    "omega_lib \<Rightarrow> Bundle \<Rightarrow> (string \<Rightarrow> string) \<Rightarrow> release \<Rightarrow> gotime \<Rightarrow> bytes list \<Rightarrow> bytes option \<Rightarrow> int \<Rightarrow> release option" where
  "prepareContinuedRelease lib bundle keys previous now roots rotatedTargets dys =
     (case continued_schema lib bundle previous roots rotatedTargets (continued_base lib bundle previous now roots dys) of
        None \<Rightarrow> None
      | Some r \<Rightarrow>
          (case continued_deadline lib bundle previous r of
             None \<Rightarrow> None
           | Some deadline \<Rightarrow> if now < rl_created previous \<or> now \<ge> deadline then None else sign_online lib bundle keys deadline r))"

definition prepareRenewal :: "omega_lib \<Rightarrow> Bundle \<Rightarrow> (string \<Rightarrow> string) \<Rightarrow> release \<Rightarrow> gotime \<Rightarrow> int \<Rightarrow> release option" where
  "prepareRenewal lib bundle keys previous now dys =
     prepareContinuedRelease lib bundle keys previous now (rl_roots previous) None dys"

definition prepareMembershipRelease ::
    "omega_lib \<Rightarrow> Bundle \<Rightarrow> (string \<Rightarrow> string) \<Rightarrow> release \<Rightarrow> gotime \<Rightarrow> bytes list \<Rightarrow> bytes \<Rightarrow> int \<Rightarrow> release option" where
  "prepareMembershipRelease lib bundle keys previous now roots targets dys =
     (if sameTargetsApproval lib (rl_targets previous) targets (rl_version previous + 1)
      then prepareContinuedRelease lib bundle keys previous now roots (Some targets) dys else None)"

text \<open>\<open>follows\<close>: what a release may change of the one before it.\<close>

definition follows :: "omega_lib \<Rightarrow> release \<Rightarrow> release \<Rightarrow> bool" where
  "follows lib previous r \<longleftrightarrow>
     rl_created r \<ge> rl_created previous \<and>
     length (rl_roots r) \<ge> length (rl_roots previous) \<and> length (rl_roots r) \<le> length (rl_roots previous) + 1 \<and>
     (length (rl_roots r) > length (rl_roots previous) \<longrightarrow> isRenewal r \<or> rl_schema r = 5 \<or> rl_schema r = 6) \<and>
     take (length (rl_roots previous)) (rl_roots r) = rl_roots previous \<and>
     (isRenewal r \<longrightarrow> rl_targets_version r = targets_version previous \<and> rl_approved_at r = approvalTime previous \<and>
        rl_targets r = rl_targets previous \<and> rl_manifest r = rl_manifest previous) \<and>
     (rl_schema r = 5 \<longrightarrow> length (rl_roots r) = length (rl_roots previous) + 1 \<and> rl_approved_at r = approvalTime previous \<and>
        rl_manifest r = rl_manifest previous \<and> sameTargetsApproval lib (rl_targets previous) (rl_targets r) (rl_version r)) \<and>
     (rl_schema r = 6 \<longrightarrow> length (rl_roots r) = length (rl_roots previous) + 1 \<and> rl_manifest r = rl_manifest previous \<and>
        (case ol_parse_root lib (last (rl_roots r)) of
           None \<Rightarrow> False
         | Some root \<Rightarrow> renewedTargetsApproval lib (rl_targets previous) (rl_targets r) (rl_version r) (rl_created r) (rm_expires root)))"

end
