(* ===== verification/Omega_Hosting.thy ===== *)
theory Omega_Hosting
  imports Omega_Release
begin

text \<open>
  Hosting of the public repository, \<open>src/internal/omega/vercel.go\<close> and \<open>vercel_publication.go\<close>. The answers of the hosting
  service and of the served site are the fields of \<open>hosting\<close>: one answer per request, a list where the code polls, in which
  the end of the list is the end of the command's time. The text of the uploaded files and routes is not modelled.
\<close>

definition vercelBindingName :: string where "vercelBindingName = ''vercel-binding.json''"
definition vercelDeploymentName :: string where "vercelDeploymentName = ''vercel-deployment.json''"

record VercelConfig =
  vc_schema :: int
  vc_project :: string
  vc_team :: string
  vc_name :: string

definition vercelID :: "string \<Rightarrow> bool" where
  "vercelID s \<longleftrightarrow> s \<noteq> [] \<and> length s \<le> 128 \<and> list_all (\<lambda>c. is_alpha c \<or> is_digit c \<or> c = CHR ''_'' \<or> c = CHR ''-'') s"

definition vercelName :: "string \<Rightarrow> bool" where
  "vercelName s \<longleftrightarrow>
     (case s of
        [] \<Rightarrow> False
      | c # cs \<Rightarrow>
          let word = (\<lambda>c. (CHR ''a'' \<le> c \<and> c \<le> CHR ''z'') \<or> is_digit c)
          in word c \<and> length cs \<le> 99 \<and> list_all (\<lambda>c. word c \<or> c = CHR ''-'') cs)"

definition config_ok :: "VercelConfig \<Rightarrow> bool" where
  "config_ok c \<longleftrightarrow> vc_schema c = 1 \<and> HasPrefix (vc_project c) ''prj_'' \<and> vercelID (vc_project c) \<and>
     HasPrefix (vc_team c) ''team_'' \<and> vercelID (vc_team c) \<and> vercelName (vc_name c)"

datatype promotion = NoPhase | Staged | Promoting | Settled

record vercelReceipt =
  vr_schema :: int
  vr_version :: int
  vr_release :: string
  vr_config :: string
  vr_deployment :: string
  vr_phase :: promotion

definition no_receipt :: vercelReceipt where
  "no_receipt = \<lparr>vr_schema = 0, vr_version = 0, vr_release = [], vr_config = [], vr_deployment = [], vr_phase = NoPhase\<rparr>"

record vercelDeployment =
  vd_id :: string
  vd_url :: string
  vd_project :: string
  vd_state :: string

record vercelProject =
  vp_id :: string
  vp_name :: string
  vp_account :: string
  vp_linked :: bool
  vp_rolling :: bool
  vp_production :: string
  vp_job :: string
  vp_to :: string

record http_answer =
  ha_status :: int
  ha_body :: bytes
  ha_cache :: string
  ha_type :: string

record hosting =
  ho_config :: VercelConfig
  ho_config_codec :: "VercelConfig codec"
  ho_receipt_codec :: "vercelReceipt codec"
  ho_project :: "vercelProject option"
  ho_settle_old :: "vercelProject option list"
  ho_settle_active :: "vercelProject option list"
  ho_settle_new :: "vercelProject option list"
  ho_ready_old :: "vercelDeployment option list"
  ho_ready_new :: "vercelDeployment option list"
  ho_stage :: "vercelDeployment option"
  ho_promote :: bool
  ho_url_ok :: "string \<Rightarrow> bool"
  ho_timestamp :: "http_answer option"
  ho_staged_site :: "string \<Rightarrow> http_answer option"
  ho_site :: "(string \<Rightarrow> http_answer option) list"

section \<open>The binding of the journal to a project\<close>

definition bindVercel :: "hosting option \<Rightarrow> unit op" where
  "bindVercel ho =
     andthen (try_read Journal vercelBindingName) (\<lambda>data.
       case ho of
         None \<Rightarrow>
           if data \<noteq> None then throw EHosting
           else andthen (trying (read Journal (pending_name vercelBindingName))) (\<lambda>p. guard (p = Inl ENotExist) EHosting)
       | Some h \<Rightarrow>
           let expected = record_of (ho_config_codec h) (ho_config h)
           in if \<not> config_ok (ho_config h) then throw EHosting
              else case data of
                Some d \<Rightarrow> guard (d = expected) EHosting
              | None \<Rightarrow>
                  andthen (try_read Journal (pending_name vercelBindingName)) (\<lambda>p.
                    if p \<noteq> None \<and> p \<noteq> Some [] \<and> decodeRecord (ho_config_codec h) (the p) \<noteq> None \<and> p \<noteq> Some expected then throw EHosting
                    else install Journal vercelBindingName expected))"

section \<open>Requests\<close>

text \<open>The checks of \<open>project\<close> on its answer.\<close>

definition project_ok :: "hosting \<Rightarrow> vercelProject option \<Rightarrow> vercelProject option" where
  "project_ok h answer =
     (case answer of
        None \<Rightarrow> None
      | Some p \<Rightarrow>
          if vp_id p \<noteq> vc_project (ho_config h) \<or> vp_name p \<noteq> vc_name (ho_config h) \<or> vp_account p \<noteq> vc_team (ho_config h) then None
          else if vp_linked p \<or> vp_rolling p then None else Some p)"

datatype settled = SettleDone | SettleFailed | SettleUnknown

fun settle :: "hosting \<Rightarrow> vercelProject option list \<Rightarrow> string \<Rightarrow> settled" where
  "settle h [] i = SettleUnknown"
| "settle h (answer # answers) i =
     (case project_ok h answer of
        None \<Rightarrow> SettleUnknown
      | Some p \<Rightarrow>
          if vp_job p = [] \<and> vp_production p = i then SettleDone
          else if vp_to p \<noteq> i then SettleUnknown
          else if vp_job p = ''succeeded'' then SettleDone
          else if vp_job p = ''failed'' \<or> vp_job p = ''skipped'' then SettleFailed
          else if vp_job p = ''pending'' \<or> vp_job p = ''in-progress'' then settle h answers i
          else SettleUnknown)"

text \<open>\<open>ready\<close>: the deployment and whether the call succeeded; \<open>None\<close> without an answer or when time runs out.\<close>

fun ready :: "hosting \<Rightarrow> vercelDeployment option list \<Rightarrow> string \<Rightarrow> (vercelDeployment \<times> bool) option" where
  "ready h [] i = None"
| "ready h (answer # answers) i =
     (case answer of
        None \<Rightarrow> None
      | Some d \<Rightarrow>
          if vd_id d \<noteq> i \<or> vd_project d \<noteq> vc_project (ho_config h) then Some (d, False)
          else if vd_state d = ''READY'' then Some (d, True)
          else if vd_state d = ''QUEUED'' \<or> vd_state d = ''INITIALIZING'' \<or> vd_state d = ''BUILDING'' then ready h answers i
          else Some (d, False))"

text \<open>Every object of the history, each name with one content, and the latest timestamp, in the order of names.\<close>

fun retain :: "(string \<times> bytes) list \<Rightarrow> (string, bytes) gomap \<Rightarrow> (string, bytes) gomap option" where
  "retain [] m = Some m"
| "retain ((name, data) # objs) m =
     (case gm_lookup m name of
        None \<Rightarrow> retain objs (gm_update name data m)
      | Some old \<Rightarrow> if old \<noteq> data then None else retain objs (gm_update name data m))"

definition retainedObjects :: "omega_lib \<Rightarrow> Bundle \<Rightarrow> release list \<Rightarrow> (string \<times> bytes) list option" where
  "retainedObjects lib bundle history =
     (case retain (concat (map (rl_objects lib bundle) history)) [] of
        None \<Rightarrow> None
      | Some m \<Rightarrow> let all = gm_update ''timestamp.json'' (rl_timestamp (last history)) m
                  in Some (map (\<lambda>n. (n, the (gm_lookup all n))) (sort (remdups (gm_keys all)))))"

definition immutableCache :: string where "immutableCache = ''public, max-age=31536000, immutable''"

definition hosted_ok :: "(string \<Rightarrow> http_answer option) \<Rightarrow> string \<times> bytes \<Rightarrow> bool" where
  "hosted_ok site obj =
     (let (name, data) = obj
      in case site name of
           None \<Rightarrow> False
         | Some a \<Rightarrow> ha_status a = 200 \<and> ha_body a = data \<and> ha_cache a = (if name = ''timestamp.json'' then ''no-store'' else immutableCache))"

definition root_number :: "string \<Rightarrow> int" where
  "root_number name =
     (if HasSuffix name ''.root.json''
      then case Atoi (take (length name - length ''.root.json'') name) of None \<Rightarrow> 0 | Some n \<Rightarrow> n else 0)"

definition verifyHostedObjects :: "(string \<Rightarrow> http_answer option) \<Rightarrow> (string \<times> bytes) list \<Rightarrow> bool" where
  "verifyHostedObjects site objects \<longleftrightarrow>
     list_all (hosted_ok site) objects \<and>
     (case site (Itoa (fold max (map (root_number \<circ> fst) objects) 1 + 1) @ ''.root.json'') of
        None \<Rightarrow> False
      | Some a \<Rightarrow> ha_status a = 404 \<and> ha_cache a = ''no-store'' \<and> HasPrefix (ha_type a) ''application/json'')"

definition checkHostedTimestamp :: "http_answer option \<Rightarrow> release list \<Rightarrow> bool" where
  "checkHostedTimestamp answer history =
     (case answer of
        None \<Rightarrow> False
      | Some a \<Rightarrow>
          if ha_status a = 404 then ha_cache a = ''no-store'' \<and> HasPrefix (ha_type a) ''application/json''
          else if ha_status a \<noteq> 200 then False
          else list_ex (\<lambda>r. take 16385 (ha_body a) = rl_timestamp r) history)"

section \<open>Receipts and deployment\<close>

definition save_receipt :: "hosting \<Rightarrow> vercelReceipt \<Rightarrow> unit op" where
  "save_receipt h v = replaceRecord Journal vercelDeploymentName (record_of (ho_receipt_codec h) v)"

definition receipt_ok :: "omega_lib \<Rightarrow> hosting \<Rightarrow> release list \<Rightarrow> vercelReceipt \<Rightarrow> bool" where
  "receipt_ok lib h history v \<longleftrightarrow> vr_schema v = 1 \<and> vr_version v \<ge> 1 \<and> vr_version v \<le> int (length history) \<and>
     vr_release v = release_digest lib (history ! (nat (vr_version v) - 1)) \<and>
     vr_config v = lib_sha256 lib (record_of (ho_config_codec h) (ho_config h)) \<and>
     HasPrefix (vr_deployment v) ''dpl_'' \<and> vercelID (vr_deployment v) \<and> vr_phase v \<noteq> NoPhase"

definition readVercelReceipt :: "omega_lib \<Rightarrow> hosting \<Rightarrow> release list \<Rightarrow> vercelReceipt op" where
  "readVercelReceipt lib h history =
     (let decoded = (\<lambda>data. case decodeRecord (ho_receipt_codec h) data of
                              Some v \<Rightarrow> if receipt_ok lib h history v then ret v else throw EHosting
                            | None \<Rightarrow> throw EHosting)
      in andthen (try_read Journal vercelDeploymentName) (\<lambda>data.
           case data of
             Some d \<Rightarrow> decoded d
           | None \<Rightarrow>
               andthen (try_read Journal (pending_name vercelDeploymentName)) (\<lambda>p.
                 case p of
                   None \<Rightarrow> ret no_receipt
                 | Some d \<Rightarrow>
                     if \<not> ol_valid lib d then
                       andthen (remove Journal (pending_name vercelDeploymentName)) (\<lambda>u. andthen (syncDir Journal) (\<lambda>u. ret no_receipt))
                     else andthen (decoded d) (\<lambda>v.
                       if vr_phase v \<noteq> Staged then throw EHosting
                       else andthen (replaceRecord Journal vercelDeploymentName d) (\<lambda>u. ret v)))))"

text \<open>The old promotion is settled first, whatever its result.\<close>

definition settle_old :: "hosting \<Rightarrow> release \<Rightarrow> vercelReceipt \<Rightarrow> vercelReceipt op" where
  "settle_old h r v =
     (if vr_phase v = Promoting \<and> vr_version v \<noteq> rl_version r then
        if settle h (ho_settle_old h) (vr_deployment v) = SettleUnknown then throw EHosting
        else andthen (save_receipt h (v\<lparr>vr_phase := Settled\<rparr>)) (\<lambda>u. ret (v\<lparr>vr_phase := Settled\<rparr>))
      else ret v)"

definition settle_active :: "hosting \<Rightarrow> vercelProject \<Rightarrow> vercelReceipt \<Rightarrow> unit op" where
  "settle_active h p v =
     (if vp_job p = ''pending'' \<or> vp_job p = ''in-progress'' then
        guard (vp_to p = vr_deployment v \<and> settle h (ho_settle_active h) (vr_deployment v) = SettleDone) EHosting
      else ret ())"

text \<open>The deployment recorded for this release, or a new one when there is none or it has failed.\<close>

definition stage_release ::
    "omega_lib \<Rightarrow> hosting \<Rightarrow> release \<Rightarrow> (string \<times> bytes) list \<Rightarrow> vercelReceipt \<Rightarrow> (vercelReceipt \<times> vercelDeployment) op" where
  "stage_release lib h r objects v =
     (let fresh =
        (if sum_list (map (length \<circ> snd) objects) > 33554432 then throw EHosting
         else case ho_stage h of
           None \<Rightarrow> throw EHosting
         | Some d \<Rightarrow>
             if \<not> (HasPrefix (vd_id d) ''dpl_'' \<and> vercelID (vd_id d)) then throw EHosting
             else let v' = \<lparr>vr_schema = 1, vr_version = rl_version r, vr_release = release_digest lib r,
                           vr_config = lib_sha256 lib (record_of (ho_config_codec h) (ho_config h)), vr_deployment = vd_id d, vr_phase = Staged\<rparr>
                  in andthen (save_receipt h v') (\<lambda>u.
                       case ready h (ho_ready_new h) (vd_id d) of
                         Some (d', True) \<Rightarrow> ret (v', d')
                       | _ \<Rightarrow> throw EHosting))
      in if vr_version v \<noteq> rl_version r then fresh
         else case ready h (ho_ready_old h) (vr_deployment v) of
           None \<Rightarrow> throw EHosting
         | Some (d, True) \<Rightarrow> ret (v, d)
         | Some (d, False) \<Rightarrow> if vd_state d = ''ERROR'' \<or> vd_state d = ''CANCELED'' then fresh else throw EHosting)"

definition promote_release :: "hosting \<Rightarrow> vercelProject \<Rightarrow> vercelReceipt \<Rightarrow> unit op" where
  "promote_release h p v =
     (let completed = (vp_job p = [] \<and> vp_production p = vr_deployment v);
          v' = v\<lparr>vr_phase := Promoting\<rparr>
      in andthen
           (if vr_phase v \<noteq> Promoting \<or> (\<not> completed \<and> (vp_to p \<noteq> vr_deployment v \<or> vp_job p = ''failed'' \<or> vp_job p = ''skipped''))
            then andthen (save_receipt h v') (\<lambda>u. guard (ho_promote h) EHosting)
            else ret ()) (\<lambda>u.
         andthen (guard (settle h (ho_settle_new h) (vr_deployment v) = SettleDone) EHosting) (\<lambda>u.
         save_receipt h (v'\<lparr>vr_phase := Settled\<rparr>))))"

definition wait_hosted :: "hosting \<Rightarrow> (string \<times> bytes) list \<Rightarrow> unit op" where
  "wait_hosted h objects = guard (list_ex (\<lambda>site. verifyHostedObjects site objects) (ho_site h)) EHosting"

definition deployVercel :: "omega_lib \<Rightarrow> Bundle \<Rightarrow> gotime \<Rightarrow> release list \<Rightarrow> hosting option \<Rightarrow> unit op" where
  "deployVercel lib bundle now history ho =
     (case ho of
        None \<Rightarrow> ret ()
      | Some h \<Rightarrow>
          let r = last history
          in andthen (readVercelReceipt lib h history) (\<lambda>v0.
             andthen (opt (project_ok h (ho_project h)) EHosting) (\<lambda>p.
             andthen (settle_old h r v0) (\<lambda>v.
             andthen (settle_active h p v) (\<lambda>u.
             andthen (opt (retainedObjects lib bundle history) EHosting) (\<lambda>objects.
               if vr_version v = rl_version r \<and> vr_phase v = Settled then wait_hosted h objects
               else
                 andthen (guard (checkHostedTimestamp (ho_timestamp h) history) EHosting) (\<lambda>u.
                 andthen (stage_release lib h r objects v) (\<lambda>(v1, d).
                 andthen (guard (ho_url_ok h (vd_url d)) EHosting) (\<lambda>u.
                 andthen (guard (verifyHostedObjects (ho_staged_site h) objects) EHosting) (\<lambda>u.
                 andthen (opt (validate lib bundle r) EInvalid) (\<lambda>(m, ex).
                 andthen (guard (now < ex_timestamp ex) EExpired) (\<lambda>u.
                 andthen (promote_release h p v1) (\<lambda>u.
                 wait_hosted h objects)))))))))))))"

end
