(* ===== verification/Omega_Journal.thy ===== *)
theory Omega_Journal
  imports Omega_Hosting Bootstrap_Client Go_Base64
begin

text \<open>
  The publication journal of the operator tool: \<open>publication_store.go\<close>, the checks of \<open>publish.go\<close> against the public
  repository, its receipts and \<open>publication_verify.go\<close>. The records of rotations (\<open>rotation_store.go\<close>,
  \<open>membership_rotation.go\<close>, \<open>root_rotation.go\<close>) and custody (\<open>renewal_custody.go\<close>) are declared here with their codecs.
\<close>

section \<open>Records\<close>

record publicationBinding =
  pb_schema :: int
  pb_network :: string
  pb_fingerprint :: string
  pb_directory :: string

text \<open>\<open>ve_error\<close> is \<open>None\<close> for the empty text.\<close>

record verificationRecord =
  ve_schema :: int
  ve_version :: int
  ve_release :: string
  ve_checked :: gotime
  ve_verified :: gotime
  ve_error :: "omega_error option"

record renewalIntent =
  ri_schema :: int
  ri_version :: int
  ri_previous :: string
  ri_created :: gotime
  ri_days :: int

record rotationIntent =
  rn_schema :: int
  rn_mode :: string
  rn_fingerprint :: string
  rn_root_version :: int
  rn_previous_root :: string
  rn_created :: gotime
  rn_keys :: "(string, string) gomap"
  rn_custody :: string
  rn_online_keys :: "(string, tuf_key) gomap"
  rn_key_digests :: "(string, string) gomap"
  rn_targets_key :: "tuf_key option"
  rn_root_keys :: "(string, tuf_key) gomap"
  rn_root_expires :: gotime

record rotationRecord =
  rr_schema :: int
  rr_fingerprint :: string
  rr_root_version :: int
  rr_intent :: string
  rr_root :: bytes

record rotationApply =
  ra_schema :: int
  ra_version :: int
  ra_previous :: string
  ra_root_version :: int
  ra_root :: string
  ra_created :: gotime
  ra_days :: int

record membershipCustody =
  mc_schema :: int
  mc_mode :: string
  mc_fingerprint :: string
  mc_root_version :: int
  mc_previous_root :: string
  mc_created :: gotime
  mc_key :: string

record rootPreparation =
  rp_schema :: int
  rp_mode :: string
  rp_fingerprint :: string
  rp_root_version :: int
  rp_previous_root :: string
  rp_created :: gotime
  rp_expires :: gotime

record onlineKeyMaterial =
  ok_schema :: int
  ok_mode :: string
  ok_fingerprint :: string
  ok_generation :: int
  ok_previous :: string
  ok_role :: string
  ok_key :: string

record renewalCustody =
  rc_schema :: int
  rc_mode :: string
  rc_bundle :: Bundle
  rc_keys :: "(string, string) gomap"
  rc_custody :: string
  rc_digests :: "(string, string) gomap"

text \<open>The authorities and the encrypted keys.\<close>

record authority_record =
  au_schema :: int
  au_mode :: string
  au_network :: string
  au_repository :: string
  au_created :: gotime
  au_expires :: gotime
  au_keys :: "(string, string) gomap"

record publicAuthority =
  pu_schema :: int
  pu_mode :: string
  pu_custody :: string
  pu_transaction :: string
  pu_network :: string
  pu_repository :: string
  pu_created :: gotime
  pu_expires :: gotime
  pu_fingerprint :: string
  pu_keys :: "(string, string) gomap"
  pu_digests :: "(string, string) gomap"

record keyBinding =
  kb_transaction :: string
  kb_network :: string
  kb_repository :: string
  kb_name :: string
  kb_generation :: int

record keyPayload =
  kp_schema :: int
  kp_binding :: keyBinding
  kp_public :: string
  kp_private :: string

record encryptedRotationPlan =
  ep_schema :: int
  ep_mode :: string
  ep_fingerprint :: string
  ep_root_version :: int
  ep_previous_root :: string
  ep_created :: gotime
  ep_role :: string
  ep_root_expires :: gotime

record encryptedGenerationKey =
  eg_schema :: int
  eg_plan :: string
  eg_name :: string
  eg_public :: string
  eg_ciphertext :: bytes

text \<open>
  \<open>jl_schema\<close> reads the schema of a record, 0 when there is none; \<open>jl_encrypt\<close> takes a salt, a password and a text.
\<close>

record journal_lib = omega_lib +
  jl_binding :: "publicationBinding codec"
  jl_verification :: "verificationRecord codec"
  jl_renewal :: "renewalIntent codec"
  jl_intent :: "rotationIntent codec"
  jl_rotation :: "rotationRecord codec"
  jl_apply :: "rotationApply codec"
  jl_membership :: "membershipCustody codec"
  jl_plan :: "rootPreparation codec"
  jl_online_key :: "onlineKeyMaterial codec"
  jl_custody :: "renewalCustody codec"
  jl_bundle_ok :: "Bundle \<Rightarrow> bool"
  jl_from_seed :: "bytes \<Rightarrow> bytes"
  jl_key :: "bytes \<Rightarrow> tuf_key option"
  jl_revoke_key :: "string \<Rightarrow> string \<Rightarrow> root_meta \<Rightarrow> root_meta option"
  jl_add_key :: "tuf_key \<Rightarrow> string \<Rightarrow> root_meta \<Rightarrow> root_meta option"
  jl_sign_root :: "string list \<Rightarrow> root_meta \<Rightarrow> bytes option"
  jl_authority :: "authority_record codec"
  jl_public :: "publicAuthority codec"
  jl_payload :: "keyPayload codec"
  jl_encrypted_plan :: "encryptedRotationPlan codec"
  jl_generation :: "encryptedGenerationKey codec"
  jl_schema :: "bytes \<Rightarrow> int"
  jl_encrypt :: "string \<Rightarrow> bytes \<Rightarrow> bytes \<Rightarrow> bytes option"
  jl_decrypt :: "bytes \<Rightarrow> bytes \<Rightarrow> bytes option"

abbreviation ol :: "journal_lib \<Rightarrow> omega_lib" where
  "ol lib \<equiv> omega_lib.truncate lib"

definition renewalIntentName :: "int \<Rightarrow> string" where "renewalIntentName n = Itoa n @ ''.renewal-intent.json''"
definition rotationName :: "int \<Rightarrow> string" where "rotationName n = Itoa n @ ''.rotation.json''"
definition rotationIntentName :: "int \<Rightarrow> string" where "rotationIntentName n = Itoa n @ ''.rotation-intent.json''"
definition rotationApplyName :: "int \<Rightarrow> string" where "rotationApplyName n = Itoa n @ ''.rotation-apply.json''"
definition rotationTargetsName :: "int \<Rightarrow> string" where "rotationTargetsName n = Itoa n @ ''.rotation-targets.json''"
definition verificationName :: "release \<Rightarrow> string" where "verificationName r = Itoa (rl_version r) @ ''.verification.json''"

text \<open>
  \<open>decodeKey\<close>: canonical base64 of an Ed25519 private key whose public half belongs to its seed. \<open>jl_bundle_ok\<close> is the
  parse of a re-encoded bundle, \<open>jl_key\<close> the metadata key of a public key.
\<close>

definition decodeKey :: "journal_lib \<Rightarrow> string \<Rightarrow> bytes option" where
  "decodeKey lib encoded =
     (case b64_decode encoded of
        None \<Rightarrow> None
      | Some key \<Rightarrow>
          if length key = 64 \<and> b64_encode key = encoded \<and> key = jl_from_seed lib (take 32 key) then Some key else None)"

definition public_key :: "journal_lib \<Rightarrow> string \<Rightarrow> tuf_key option" where
  "public_key lib encoded = (case decodeKey lib encoded of None \<Rightarrow> None | Some key \<Rightarrow> jl_key lib (drop 32 key))"

definition gm_get :: "(string, string) gomap \<Rightarrow> string \<Rightarrow> string" where
  "gm_get m k = (case gm_lookup m k of None \<Rightarrow> [] | Some v \<Rightarrow> v)"

section \<open>Loading the journal\<close>

text \<open>Whether \<open>r\<close>, read from its file, extends the releases before it.\<close>

definition extends_history :: "omega_lib \<Rightarrow> Bundle \<Rightarrow> release list \<Rightarrow> release \<Rightarrow> bool" where
  "extends_history lib bundle rs r \<longleftrightarrow>
     rl_version r = int (length rs) + 1 \<and>
     rl_previous r = (if rs = [] then [] else release_digest lib (last rs)) \<and>
     validate lib bundle r \<noteq> None \<and>
     (if rs = [] then rl_schema r = 1 else follows lib (last rs) r)"

text \<open>The numbers of the release files; \<open>None\<close> for a name that is not canonical.\<close>

fun release_numbers :: "string list \<Rightarrow> int list option" where
  "release_numbers [] = Some []"
| "release_numbers (name # names) =
     (if \<not> HasSuffix name ''.release.json'' then release_numbers names
      else case Atoi (take (length name - length ''.release.json'') name) of
        None \<Rightarrow> None
      | Some n \<Rightarrow>
          if n < 1 \<or> n > maxReleases \<or> name \<noteq> releaseName n then None
          else map_option ((#) n) (release_numbers names))"

fun load_numbered :: "omega_lib \<Rightarrow> Bundle \<Rightarrow> int list \<Rightarrow> release list \<Rightarrow> release list op" where
  "load_numbered lib bundle [] rs = ret rs"
| "load_numbered lib bundle (n # ns) rs =
     (if n \<noteq> int (length rs) + 1 then throw EHistory
      else andthen (read Journal (releaseName n)) (\<lambda>data.
        case decodeRecord (ol_release lib) data of
          None \<Rightarrow> throw EHistory
        | Some r \<Rightarrow> if extends_history lib bundle rs r then load_numbered lib bundle ns (rs @ [r]) else throw EHistory))"

definition loadReleases :: "omega_lib \<Rightarrow> Bundle \<Rightarrow> release list op" where
  "loadReleases lib bundle =
     andthen (directoryNames Journal) (\<lambda>names.
     andthen (opt (release_numbers names) EHistory) (\<lambda>numbers.
     load_numbered lib bundle (sort numbers) []))"

section \<open>Opening a journal\<close>

definition repo_empty :: "bool op" where
  "repo_empty = andthen (directoryNames Repository) (\<lambda>names. ret (names = []))"

definition new_binding :: "journal_lib \<Rightarrow> Bundle \<Rightarrow> string \<Rightarrow> bytes op" where
  "new_binding lib bundle path =
     (let data = record_of (jl_binding lib)
            \<lparr>pb_schema = 1, pb_network = bd_network bundle, pb_fingerprint = omega_fingerprint (ol lib) bundle, pb_directory = path\<rparr>
      in andthen (directoryNames Journal) (\<lambda>entries.
         andthen (guard (list_all (\<lambda>e. e = pending_name ''binding.json'') entries) EHistory) (\<lambda>u.
         andthen repo_empty (\<lambda>empty.
         andthen (guard empty EDestination) (\<lambda>u.
         andthen (try_read Journal (pending_name ''binding.json'')) (\<lambda>p.
           if p \<noteq> None \<and> p \<noteq> Some [] \<and> decodeRecord (jl_binding lib) (the p) \<noteq> None \<and> p \<noteq> Some data then throw EConfig
           else andthen (install Journal ''binding.json'' data) (\<lambda>u. ret data)))))))"

definition openPublication :: "journal_lib \<Rightarrow> Bundle \<Rightarrow> string option \<Rightarrow> bool \<Rightarrow> publicationBinding op" where
  "openPublication lib bundle repo fresh =
     andthen (if fresh then andthen (mkdir Journal) (\<lambda>u. syncDir Operational) else ret ()) (\<lambda>u.
     andthen (subdir Journal) (\<lambda>u.
     andthen (trying (read Journal ''binding.json'')) (\<lambda>r.
     andthen (case r of
                Inr data \<Rightarrow> ret data
              | Inl e \<Rightarrow> if e = ENotExist \<and> fresh \<and> repo \<noteq> None then new_binding lib bundle (the repo) else throw EHistory) (\<lambda>data.
       case decodeRecord (jl_binding lib) data of
         None \<Rightarrow> throw EInvalid
       | Some b \<Rightarrow>
           if pb_schema b \<noteq> 1 \<or> pb_network b \<noteq> bd_network bundle \<or> pb_fingerprint b \<noteq> omega_fingerprint (ol lib) bundle then throw EInvalid
           else if repo \<noteq> None \<and> repo \<noteq> Some (pb_directory b) then throw EConfig
           else ret b))))"

section \<open>The public repository\<close>

text \<open>\<open>targetsDir\<close>: the directory entry itself is a name of the repository.\<close>

definition targetsDir :: "unit op" where
  "targetsDir =
     andthen (call (\<lambda>d. (Val (), case gm_lookup (dr_live d) ''targets'' of
                Some f \<Rightarrow> d
              | None \<Rightarrow> d\<lparr>dr_live := gm_update ''targets'' \<lparr>fl_data = [], fl_safe = True, fl_synced = True\<rparr> (dr_live d)\<rparr>)) Repository) (\<lambda>u.
     syncDir Repository)"

definition checkTimestamp :: "release \<Rightarrow> release list \<Rightarrow> unit op" where
  "checkTimestamp r history =
     andthen (try_read Repository ''timestamp.json'') (\<lambda>data.
       case data of
         None \<Rightarrow> ret ()
       | Some d \<Rightarrow> guard (d = rl_timestamp r \<or> list_ex (\<lambda>old. rl_version old < rl_version r \<and> d = rl_timestamp old) history) ERollback)"

definition number_of :: "string \<Rightarrow> string \<Rightarrow> int option" where
  "number_of sfx name = ParseInt (take (length name - length sfx) name)"

definition check_name :: "release list \<Rightarrow> string \<Rightarrow> unit op" where
  "check_name history name =
     andthen
       (if HasSuffix name ''.root.json'' then
          (case number_of ''.root.json'' name of
             None \<Rightarrow> throw EDestination
           | Some n \<Rightarrow>
               if n < 1 \<or> name \<noteq> Itoa n @ ''.root.json'' \<or> history = [] \<or> n > root_version (last history) then throw EDestination
               else if n > 1 then
                 andthen (trying (read Repository name)) (\<lambda>data. guard (data = Inr (rl_roots (last history) ! nat (n - 2))) EDestination)
               else ret ())
        else ret ()) (\<lambda>u.
     for_each [''.targets.json'', ''.snapshot.json''] (\<lambda>sfx.
       if HasSuffix name sfx then
         (case number_of sfx name of
            None \<Rightarrow> throw EDestination
          | Some n \<Rightarrow> guard (n \<ge> 1 \<and> n \<le> int (length history)) EDestination)
       else ret ()))"

definition checkRecordedDestination :: "release list \<Rightarrow> unit op" where
  "checkRecordedDestination history =
     andthen (try_read Repository ''timestamp.json'') (\<lambda>data.
     andthen (guard (data = None \<or> list_ex (\<lambda>r. data = Some (rl_timestamp r)) history) EDestination) (\<lambda>u.
     andthen (directoryNames Repository) (\<lambda>names.
     for_each (filter (\<lambda>n. dir_of n = ''.'') names) (check_name history))))"

section \<open>Receipts\<close>

definition verification_ok :: "omega_lib \<Rightarrow> release \<Rightarrow> verificationRecord \<Rightarrow> bool" where
  "verification_ok lib r v \<longleftrightarrow> ve_schema v = 1 \<and> ve_version v = rl_version r \<and> ve_release v = release_digest lib r \<and>
     ve_checked v \<noteq> no_time \<and> ve_verified v \<le> ve_checked v \<and> (ve_error v = None \<longrightarrow> ve_verified v \<noteq> no_time)"

definition readVerification :: "journal_lib \<Rightarrow> release \<Rightarrow> verificationRecord option op" where
  "readVerification lib r =
     andthen (try_read Journal (verificationName r)) (\<lambda>data.
       case data of
         None \<Rightarrow> ret None
       | Some d \<Rightarrow>
           (case decodeRecord (jl_verification lib) d of
              None \<Rightarrow> throw EInvalid
            | Some v \<Rightarrow> if verification_ok (ol lib) r v then ret (Some v) else throw EInvalid))"

definition saveVerification :: "journal_lib \<Rightarrow> release \<Rightarrow> omega_error option \<Rightarrow> gotime \<Rightarrow> unit op" where
  "saveVerification lib r result now =
     andthen (readVerification lib r) (\<lambda>previous.
       let checked = (case previous of None \<Rightarrow> no_time | Some v \<Rightarrow> ve_checked v);
           verified = (case previous of None \<Rightarrow> no_time | Some v \<Rightarrow> ve_verified v)
       in if now < checked then throw EClock
          else replaceRecord Journal (verificationName r)
            (record_of (jl_verification lib)
               \<lparr>ve_schema = 1, ve_version = rl_version r, ve_release = release_digest (ol lib) r, ve_checked = now,
                ve_verified = (if result = None then now else verified), ve_error = result\<rparr>))"

section \<open>Verification over HTTPS\<close>

text \<open>What the served repository answers: whether a fresh client could be set up, its view, and the numbered roots.\<close>

record served =
  se_client :: bool
  se_view :: "View option"
  se_roots :: "int \<Rightarrow> (int \<times> bytes) option"
  se_now :: gotime

definition release_versions :: "release \<Rightarrow> Versions" where
  "release_versions r = \<lparr>v_root = root_version r, v_timestamp = rl_version r, v_snapshot = rl_version r, v_targets = targets_version r\<rparr>"

definition verify_served :: "omega_lib \<Rightarrow> Bundle \<Rightarrow> served \<Rightarrow> release \<Rightarrow> bool" where
  "verify_served lib bundle se r \<longleftrightarrow>
     (case se_view se of
        None \<Rightarrow> False
      | Some view \<Rightarrow>
          vw_versions view = release_versions r \<and> ol_manifest lib (vw_manifest view) = rl_manifest r \<and>
          list_all (\<lambda>(role, data). gm_lookup (vw_digests view) role = Some (lib_sha256 lib data))
            [(''root'', currentRoot bundle r), (''targets'', rl_targets r), (''snapshot'', rl_snapshot r), (''timestamp'', rl_timestamp r)] \<and>
          list_all (\<lambda>(i, root). se_roots se (int i) = Some (200, root)) (enumerate 1 (bd_root bundle # rl_roots r)) \<and>
          se_now se < vw_expires view)"

end
