(* ===== verification/Omega_Rotation.thy ===== *)
theory Omega_Rotation
  imports Omega_Journal
begin

text \<open>
  Key rotation of the operator tool: \<open>rotation_roots.go\<close>, \<open>rotation_store.go\<close>, \<open>membership_rotation.go\<close>,
  \<open>root_rotation.go\<close>, \<open>online_keys.go\<close> and the readers of \<open>renewal_custody.go\<close> and \<open>operator_keys.go\<close>. A rotation is prepared
  (intent, then signed successor root), applied by a reservation of the next release, and completed by that release. Keys
  drawn at random are arguments; unlocking an encrypted key file is a field of the operator's session.
\<close>

section \<open>Modes and intents\<close>

definition root_key_names :: "string list" where "root_key_names = [''root-1'', ''root-2'', ''root-3'']"
definition online_roles :: "string list" where "online_roles = [''snapshot'', ''timestamp'']"
definition encryptedCustody :: string where "encryptedCustody = ''age-scrypt''"
definition rootLifetime :: duration where "rootLifetime = days 365"

definition validCustodyMode :: "string \<Rightarrow> bool" where
  "validCustodyMode mode \<longleftrightarrow> mode = ''disposable'' \<or> mode = ''production''"

definition custodyMode :: "bool \<Rightarrow> string" where
  "custodyMode disposable = (if disposable then ''disposable'' else ''production'')"

definition lower_hex :: "char \<Rightarrow> bool" where
  "lower_hex c \<longleftrightarrow> is_digit c \<or> (CHR ''a'' \<le> c \<and> c \<le> CHR ''f'')"

definition validDigest :: "string \<Rightarrow> bool" where
  "validDigest s \<longleftrightarrow> length s = 64 \<and> list_all lower_hex s"

definition intent_roles :: "rotationIntent \<Rightarrow> string list" where
  "intent_roles i = (if rn_schema i = 3 then [] else if rn_schema i = 2 then [''targets''] else online_roles)"

definition publicKey :: "journal_lib \<Rightarrow> rotationIntent \<Rightarrow> string \<Rightarrow> tuf_key option" where
  "publicKey lib i role =
     (if rn_schema i = 4 then gm_lookup (rn_online_keys i) role
      else if rn_schema i = 2 \<and> role = ''targets'' \<and> rn_targets_key i \<noteq> None then rn_targets_key i
      else public_key lib (gm_get (rn_keys i) role))"

definition rootExpiry :: "gotime \<Rightarrow> gotime \<Rightarrow> gotime" where
  "rootExpiry previous created = (if created + rootLifetime > previous then created + rootLifetime else previous + nsec)"

definition intent_shape :: "omega_lib \<Rightarrow> Bundle \<Rightarrow> bytes \<Rightarrow> int \<Rightarrow> rotationIntent \<Rightarrow> bool" where
  "intent_shape lib bundle previous version i \<longleftrightarrow>
     rn_schema i \<ge> 1 \<and> rn_schema i \<le> 4 \<and> validCustodyMode (rn_mode i) \<and> rn_fingerprint i = omega_fingerprint lib bundle \<and>
     rn_root_version i = version \<and> version \<ge> 2 \<and> version \<le> int maxRootVersion \<and> rn_previous_root i = lib_sha256 lib previous \<and>
     rn_created i \<noteq> no_time \<and>
     (rn_schema i = 1 \<longrightarrow> gm_size (rn_keys i) = 2 \<and> rn_targets_key i = None) \<and>
     (rn_schema i = 4 \<longrightarrow> rn_keys i = [] \<and> rn_targets_key i = None) \<and>
     (rn_schema i = 2 \<longrightarrow> rn_keys i = [] \<and> rn_targets_key i \<noteq> None) \<and>
     (rn_schema i \<noteq> 3 \<longrightarrow> rn_root_keys i = [] \<and> rn_root_expires i = no_time) \<and>
     (rn_schema i = 3 \<longrightarrow> rn_keys i = [] \<and> rn_targets_key i = None \<and> gm_size (rn_root_keys i) = 3)"

definition intent_custody :: "rotationIntent \<Rightarrow> bool" where
  "intent_custody i =
     (if rn_custody i = encryptedCustody then
        let names = (if rn_schema i = 2 then [''targets''] else if rn_schema i = 3 then root_key_names else online_roles)
        in rn_schema i \<noteq> 1 \<and> rn_keys i = [] \<and> gm_size (rn_key_digests i) = length names \<and>
           gm_size (rn_online_keys i) = (if rn_schema i = 4 then 2 else 0) \<and>
           list_all (\<lambda>n. validDigest (gm_get (rn_key_digests i) n)) names
      else rn_custody i = [] \<and> rn_mode i = ''disposable'' \<and> rn_schema i \<noteq> 4 \<and> rn_online_keys i = [] \<and> rn_key_digests i = [])"

definition fresh_keys :: "journal_lib \<Rightarrow> root_meta \<Rightarrow> rotationIntent \<Rightarrow> bool" where
  "fresh_keys lib root i \<longleftrightarrow>
     (let keys = map (publicKey lib i) (intent_roles i); ids = map (\<lambda>k. case k of None \<Rightarrow> None | Some key \<Rightarrow> ol_key_id lib key) keys
      in list_all (\<lambda>k. case k of None \<Rightarrow> False | Some key \<Rightarrow> ed25519_key key) keys \<and>
         list_all (\<lambda>k. case k of None \<Rightarrow> False | Some n \<Rightarrow> gm_lookup (rm_keys root) n = None) ids \<and> distinct ids)"

definition intent_valid :: "journal_lib \<Rightarrow> Bundle \<Rightarrow> bytes \<Rightarrow> int \<Rightarrow> rotationIntent \<Rightarrow> bool" where
  "intent_valid lib bundle previous version i \<longleftrightarrow>
     intent_shape (ol lib) bundle previous version i \<and> intent_custody i \<and>
     (case ol_parse_root lib previous of
        None \<Rightarrow> False
      | Some root \<Rightarrow>
          if rn_schema i = 3 then
            rn_root_expires i = rootExpiry (rm_expires root) (rn_created i) \<and>
            validateRootKeys (ol lib) (map (gm_lookup (rn_root_keys i)) root_key_names) root
          else fresh_keys lib root i)"

text \<open>\<open>rotationRecord.validate\<close>: the signed successor is the one the intent describes.\<close>

definition rotation_valid :: "journal_lib \<Rightarrow> Bundle \<Rightarrow> bytes \<Rightarrow> rotationIntent \<Rightarrow> rotationRecord \<Rightarrow> bool" where
  "rotation_valid lib bundle previous i r \<longleftrightarrow>
     rr_schema r = 1 \<and> rr_fingerprint r = omega_fingerprint (ol lib) bundle \<and> rr_root_version r = rn_root_version i \<and>
     rr_intent r = lib_sha256 lib (record_of (jl_intent lib) i) \<and>
     (case ol_new_root lib previous of
        None \<Rightarrow> False
      | Some old \<Rightarrow>
          (case ol_update_root lib old (rr_root r) of
             None \<Rightarrow> False
           | Some nxt \<Rightarrow>
               (if rn_schema i = 3 then
                  rootSuccessor (ol lib) old nxt \<and> rm_expires nxt = rn_root_expires i \<and>
                  list_all (\<lambda>(n, key). case ol_key_id lib key of None \<Rightarrow> False | Some k \<Rightarrow> gm_lookup (rm_keys nxt) k = Some key) (rn_root_keys i)
                else roleSuccessor (ol lib) old nxt (intent_roles i)) \<and>
               list_all (\<lambda>role. case (publicKey lib i role, gm_lookup (rm_roles nxt) role) of
                   (Some key, Some assignment) \<Rightarrow> ol_key_id lib key \<noteq> None \<and> tr_keyids assignment \<noteq> [] \<and> ol_key_id lib key = Some (hd (tr_keyids assignment))
                 | _ \<Rightarrow> False) (intent_roles i)))"

definition readRotation :: "journal_lib \<Rightarrow> Bundle \<Rightarrow> bytes \<Rightarrow> int \<Rightarrow> (rotationRecord \<times> rotationIntent) op" where
  "readRotation lib bundle previous version =
     andthen (read Journal (rotationIntentName version)) (\<lambda>data.
     andthen (opt (decodeRecord (jl_intent lib) data) EInvalid) (\<lambda>i.
     andthen (guard (intent_valid lib bundle previous version i) EInvalid) (\<lambda>u.
     andthen (read Journal (rotationName version)) (\<lambda>data.
     andthen (opt (decodeRecord (jl_rotation lib) data) EInvalid) (\<lambda>r.
     andthen (guard (rotation_valid lib bundle previous i r) EInvalid) (\<lambda>u.
     ret (r, i)))))))"

fun rotation_chain :: "journal_lib \<Rightarrow> Bundle \<Rightarrow> int list \<Rightarrow> bytes \<Rightarrow> (bytes \<times> rotationIntent list) op" where
  "rotation_chain lib bundle [] raw = ret (raw, [])"
| "rotation_chain lib bundle (v # vs) raw =
     andthen (readRotation lib bundle raw v) (\<lambda>(r, i).
     andthen (rotation_chain lib bundle vs (rr_root r)) (\<lambda>(final, is).
     ret (final, i # is)))"

definition rotationHistory :: "journal_lib \<Rightarrow> Bundle \<Rightarrow> bytes \<Rightarrow> rotationIntent list op" where
  "rotationHistory lib bundle previous =
     andthen (opt (ol_parse_root lib previous) EMetadata) (\<lambda>root.
     andthen (rotation_chain lib bundle [2..rm_version root] (bd_root bundle)) (\<lambda>(raw, is).
     andthen (guard (raw = previous) EHistory) (\<lambda>u.
     ret is)))"

section \<open>Online keys and renewal custody\<close>

definition onlineKeyName :: "int \<Rightarrow> string \<Rightarrow> string" where
  "onlineKeyName version role = Itoa version @ ''.'' @ role @ ''-key.json''"

definition online_key_ok :: "journal_lib \<Rightarrow> Bundle \<Rightarrow> string \<Rightarrow> int \<Rightarrow> string \<Rightarrow> string \<Rightarrow> onlineKeyMaterial \<Rightarrow> bool" where
  "online_key_ok lib bundle mode generation previous role c \<longleftrightarrow>
     ok_schema c = 1 \<and> validCustodyMode mode \<and> ok_mode c = mode \<and> ok_fingerprint c = omega_fingerprint (ol lib) bundle \<and>
     ok_generation c = generation \<and> ok_previous c = previous \<and> ok_role c = role \<and> List.member online_roles role \<and>
     decodeKey lib (ok_key c) \<noteq> None"

definition read_online_key ::
    "journal_lib \<Rightarrow> Bundle \<Rightarrow> string \<Rightarrow> int \<Rightarrow> string \<Rightarrow> (string, string) gomap \<Rightarrow> string \<Rightarrow> string op" where
  "read_online_key lib bundle mode generation previous hashes role =
     andthen (read OnlineKeys (onlineKeyName generation role)) (\<lambda>data.
     andthen (guard (lib_sha256 lib data = gm_get hashes role) EKey) (\<lambda>u.
     andthen (opt (decodeRecord (jl_online_key lib) data) EKey) (\<lambda>c.
     andthen (guard (online_key_ok lib bundle mode generation previous role c) EKey) (\<lambda>u.
     ret (ok_key c)))))"

definition readOnlineKeys ::
    "journal_lib \<Rightarrow> Bundle \<Rightarrow> string \<Rightarrow> int \<Rightarrow> string \<Rightarrow> (string, string) gomap \<Rightarrow> (string, string) gomap op" where
  "readOnlineKeys lib bundle mode generation previous hashes =
     andthen (guard (gm_size hashes = 2) EKey) (\<lambda>u.
     andthen (subdir OnlineKeys) (\<lambda>u.
     andthen (read_online_key lib bundle mode generation previous hashes ''snapshot'') (\<lambda>sn.
     andthen (read_online_key lib bundle mode generation previous hashes ''timestamp'') (\<lambda>ts.
     ret [(''snapshot'', sn), (''timestamp'', ts)]))))"

definition install_online_key :: "journal_lib \<Rightarrow> Bundle \<Rightarrow> string \<Rightarrow> int \<Rightarrow> string \<Rightarrow> (string, string) gomap \<Rightarrow> string \<Rightarrow> string op" where
  "install_online_key lib bundle mode generation previous keys role =
     (let c = \<lparr>ok_schema = 1, ok_mode = mode, ok_fingerprint = omega_fingerprint (ol lib) bundle, ok_generation = generation,
               ok_previous = previous, ok_role = role, ok_key = gm_get keys role\<rparr>;
          data = record_of (jl_online_key lib) c
      in andthen (guard (online_key_ok lib bundle mode generation previous role c) EKey) (\<lambda>u.
         andthen (install OnlineKeys (onlineKeyName generation role) data) (\<lambda>u.
         ret (lib_sha256 lib data))))"

definition installOnlineKeys ::
    "journal_lib \<Rightarrow> Bundle \<Rightarrow> string \<Rightarrow> int \<Rightarrow> string \<Rightarrow> (string, string) gomap \<Rightarrow> (string, string) gomap op" where
  "installOnlineKeys lib bundle mode generation previous keys =
     andthen (mkdir OnlineKeys) (\<lambda>u.
     andthen (syncDir Operational) (\<lambda>u.
     andthen (subdir OnlineKeys) (\<lambda>u.
     andthen (install_online_key lib bundle mode generation previous keys ''snapshot'') (\<lambda>sn.
     andthen (install_online_key lib bundle mode generation previous keys ''timestamp'') (\<lambda>ts.
       let hashes = [(''snapshot'', sn), (''timestamp'', ts)]
       in andthen (readOnlineKeys lib bundle mode generation previous hashes) (\<lambda>ks.
          andthen (cleanPendingTwins OnlineKeys ''.'') (\<lambda>u.
          andthen (syncDir OnlineKeys) (\<lambda>u.
          ret hashes))))))))"

definition verifyOnlineKeys :: "journal_lib \<Rightarrow> (string, string) gomap \<Rightarrow> bytes \<Rightarrow> bool" where
  "verifyOnlineKeys lib keys raw \<longleftrightarrow>
     (case ol_parse_root lib raw of
        None \<Rightarrow> False
      | Some root \<Rightarrow>
          list_all (\<lambda>role. case (public_key lib (gm_get keys role), gm_lookup (rm_roles root) role) of
              (Some key, Some assignment) \<Rightarrow>
                tr_threshold assignment = 1 \<and> (\<exists>i \<in> set (tr_keyids assignment). tr_keyids assignment = [i] \<and> ol_key_id lib key = Some i)
            | _ \<Rightarrow> False) online_roles)"

definition rotationOnlineKeys :: "journal_lib \<Rightarrow> Bundle \<Rightarrow> rotationIntent \<Rightarrow> (string, string) gomap op" where
  "rotationOnlineKeys lib bundle i =
     (if rn_schema i = 1 then ret (rn_keys i)
      else if rn_schema i \<noteq> 4 then throw EKey
      else andthen (readOnlineKeys lib bundle (rn_mode i) (rn_root_version i) (rn_previous_root i) (rn_key_digests i)) (\<lambda>keys.
           andthen (guard (list_all (\<lambda>role. public_key lib (gm_get keys role) \<noteq> None \<and>
                       public_key lib (gm_get keys role) = gm_lookup (rn_online_keys i) role) online_roles) EKey) (\<lambda>u.
           ret keys)))"

text \<open>The roots of a release from the newest to the oldest, each with its version and its predecessor.\<close>

definition root_steps :: "Bundle \<Rightarrow> release \<Rightarrow> (int \<times> bytes \<times> bytes) list" where
  "root_steps bundle r = rev (zip [2..root_version r] (zip (bd_root bundle # rl_roots r) (rl_roots r)))"

fun newest_online :: "journal_lib \<Rightarrow> Bundle \<Rightarrow> (int \<times> bytes \<times> bytes) list \<Rightarrow> rotationIntent option op" where
  "newest_online lib bundle [] = ret None"
| "newest_online lib bundle ((version, previous, root) # steps) =
     andthen (readRotation lib bundle previous version) (\<lambda>(r, i).
     andthen (guard (rr_root r = root) EHistory) (\<lambda>u.
       if rn_schema i = 1 \<or> rn_schema i = 4 then ret (Some i) else newest_online lib bundle steps))"

definition activeOnlineKeys ::
    "journal_lib \<Rightarrow> Bundle \<Rightarrow> release \<Rightarrow> (string, string) gomap option \<Rightarrow> (string, string) gomap option op" where
  "activeOnlineKeys lib bundle latest initial =
     andthen (newest_online lib bundle (root_steps bundle latest)) (\<lambda>found.
     andthen (case found of
                Some i \<Rightarrow> andthen (rotationOnlineKeys lib bundle i) (\<lambda>keys. ret (Some keys))
              | None \<Rightarrow> ret initial) (\<lambda>keys.
       case keys of
         None \<Rightarrow> ret None
       | Some ks \<Rightarrow> andthen (guard (verifyOnlineKeys lib ks (currentRoot bundle latest)) EKey) (\<lambda>u. ret (Some ks))))"

definition custody_ok :: "journal_lib \<Rightarrow> string \<Rightarrow> renewalCustody \<Rightarrow> bool" where
  "custody_ok lib network c \<longleftrightarrow>
     bd_network (rc_bundle c) = network \<and> jl_bundle_ok lib (rc_bundle c) \<and>
     (if rc_schema c = 1 then
        rc_mode c = ''disposable'' \<and> gm_size (rc_keys c) = 2 \<and> rc_custody c = [] \<and> rc_digests c = [] \<and>
        verifyOnlineKeys lib (rc_keys c) (bd_root (rc_bundle c))
      else rc_schema c = 2 \<and> validCustodyMode (rc_mode c) \<and> rc_custody c = encryptedCustody \<and> rc_keys c = [] \<and>
        gm_size (rc_digests c) = 2 \<and> validDigest (gm_get (rc_digests c) ''snapshot'') \<and> validDigest (gm_get (rc_digests c) ''timestamp''))"

definition readRenewal :: "journal_lib \<Rightarrow> string \<Rightarrow> renewalCustody op" where
  "readRenewal lib network =
     andthen (read Operational (network @ ''.renewal.json'')) (\<lambda>data.
     andthen (opt (decodeRecord (jl_custody lib) data) ECustody) (\<lambda>c.
     andthen (guard (custody_ok lib network c) ECustody) (\<lambda>u.
     ret c)))"

definition initialKeys :: "journal_lib \<Rightarrow> renewalCustody \<Rightarrow> (string, string) gomap op" where
  "initialKeys lib c =
     (if rc_schema c = 1 then ret (rc_keys c)
      else andthen (readOnlineKeys lib (rc_bundle c) (rc_mode c) 1 [] (rc_digests c)) (\<lambda>keys.
           andthen (guard (verifyOnlineKeys lib keys (bd_root (rc_bundle c))) EKey) (\<lambda>u.
           ret keys)))"

definition activeKeys :: "journal_lib \<Rightarrow> renewalCustody \<Rightarrow> release \<Rightarrow> (string, string) gomap op" where
  "activeKeys lib c latest =
     andthen (rotationHistory lib (rc_bundle c) (currentRoot (rc_bundle c) latest)) (\<lambda>is.
     andthen (guard (list_all (\<lambda>i. rn_mode i = rc_mode c \<and> rn_custody i = rc_custody c) is) ECustody) (\<lambda>u.
     andthen (activeOnlineKeys lib (rc_bundle c) latest None) (\<lambda>keys.
       case keys of Some ks \<Rightarrow> ret ks | None \<Rightarrow> initialKeys lib c)))"

section \<open>Preparing a rotation\<close>

text \<open>\<open>json.Valid\<close> of a committed or pending record; the flag says that the committed file exists.\<close>

definition read_either :: "store_id \<Rightarrow> string \<Rightarrow> (bool \<times> bytes option) op" where
  "read_either s name =
     andthen (try_read s name) (\<lambda>data.
       case data of
         Some d \<Rightarrow> ret (True, Some d)
       | None \<Rightarrow> andthen (try_read s (pending_name name)) (\<lambda>p. ret (False, p)))"

definition absent :: "store_id \<Rightarrow> string list \<Rightarrow> omega_error \<Rightarrow> unit op" where
  "absent s names e = for_each names (\<lambda>n. andthen (trying (lstat s n)) (\<lambda>r. guard (r = Inr False) e))"

definition with_pending :: "string list \<Rightarrow> string list" where
  "with_pending names = concat (map (\<lambda>n. [n, pending_name n]) names)"

text \<open>The successor root an intent describes, before it is signed.\<close>

definition replace_role :: "journal_lib \<Rightarrow> string \<Rightarrow> tuf_key option \<Rightarrow> root_meta \<Rightarrow> root_meta option" where
  "replace_role lib role key root =
     (case (gm_lookup (rm_roles root) role, key) of
        (Some assignment, Some k) \<Rightarrow>
          (case tr_keyids assignment of
             [] \<Rightarrow> None
           | old # rest \<Rightarrow> (case jl_revoke_key lib old role root of None \<Rightarrow> None | Some r \<Rightarrow> jl_add_key lib k role r))
      | _ \<Rightarrow> None)"

fun revoke_all :: "journal_lib \<Rightarrow> string list \<Rightarrow> root_meta \<Rightarrow> root_meta option" where
  "revoke_all lib [] root = Some root"
| "revoke_all lib (i # is) root = (case jl_revoke_key lib i ''root'' root of None \<Rightarrow> None | Some r \<Rightarrow> revoke_all lib is r)"

fun add_all :: "journal_lib \<Rightarrow> tuf_key option list \<Rightarrow> root_meta \<Rightarrow> root_meta option" where
  "add_all lib [] root = Some root"
| "add_all lib (None # ks) root = None"
| "add_all lib (Some k # ks) root = (case jl_add_key lib k ''root'' root of None \<Rightarrow> None | Some r \<Rightarrow> add_all lib ks r)"

definition replace_root_keys :: "journal_lib \<Rightarrow> rotationIntent \<Rightarrow> root_meta \<Rightarrow> root_meta option" where
  "replace_root_keys lib i root =
     (case gm_lookup (rm_roles root) ''root'' of
        None \<Rightarrow> None
      | Some assignment \<Rightarrow>
          (case revoke_all lib (tr_keyids assignment) root of
             None \<Rightarrow> None
           | Some r \<Rightarrow> map_option (\<lambda>r. r\<lparr>rm_expires := rn_root_expires i\<rparr>) (add_all lib (map (gm_lookup (rn_root_keys i)) root_key_names) r)))"

fun replace_roles :: "journal_lib \<Rightarrow> rotationIntent \<Rightarrow> string list \<Rightarrow> root_meta \<Rightarrow> root_meta option" where
  "replace_roles lib i [] root = Some root"
| "replace_roles lib i (role # roles) root =
     (case replace_role lib role (publicKey lib i role) root of None \<Rightarrow> None | Some r \<Rightarrow> replace_roles lib i roles r)"

definition successor_root :: "journal_lib \<Rightarrow> rotationIntent \<Rightarrow> root_meta \<Rightarrow> root_meta option" where
  "successor_root lib i root =
     (let numbered = root\<lparr>rm_version := rn_root_version i\<rparr>
      in case (if rn_schema i = 3 then replace_root_keys lib i numbered else Some numbered) of
           None \<Rightarrow> None
         | Some r \<Rightarrow> replace_roles lib i (intent_roles i) r)"

text \<open>The keys that sign it: two of the current root keys, and two of the successors for a root rotation.\<close>

definition rotation_signers :: "rotationIntent \<Rightarrow> (string, string) gomap \<Rightarrow> string list \<Rightarrow> string list option" where
  "rotation_signers i keys successors =
     (let current = take 2 (filter (\<lambda>k. k \<noteq> []) (map (gm_get keys) root_key_names))
      in if length current \<noteq> 2 then None
         else if rn_schema i = 3 then (if length successors < 2 then None else Some (current @ take 2 successors))
         else Some current)"

definition finish_existing ::
    "journal_lib \<Rightarrow> Bundle \<Rightarrow> bytes \<Rightarrow> int \<Rightarrow> rotationIntent \<Rightarrow> bytes \<Rightarrow> rotationRecord op" where
  "finish_existing lib bundle previous version i data =
     andthen (opt (decodeRecord (jl_rotation lib) data) EInvalid) (\<lambda>r.
     andthen (guard (rotation_valid lib bundle previous i r) EInvalid) (\<lambda>u.
     andthen (install Journal (rotationName version) data) (\<lambda>u.
     andthen (syncDir Journal) (\<lambda>u.
     andthen (cleanPendingTwins Journal ''.'') (\<lambda>u.
     ret r)))))"

definition finish_signing ::
    "journal_lib \<Rightarrow> Bundle \<Rightarrow> bytes \<Rightarrow> int \<Rightarrow> (string, string) gomap \<Rightarrow> rotationIntent \<Rightarrow> string list \<Rightarrow> rotationRecord op" where
  "finish_signing lib bundle previous version keys i successors =
     andthen (opt (ol_parse_root lib previous) EMetadata) (\<lambda>root.
     andthen (opt (successor_root lib i root) EMetadata) (\<lambda>nxt.
     andthen (opt (rotation_signers i keys successors) EKey) (\<lambda>signers.
     andthen (guard (list_all (\<lambda>k. decodeKey lib k \<noteq> None) signers) EKey) (\<lambda>u.
     andthen (opt (jl_sign_root lib signers nxt) EMetadata) (\<lambda>raw.
       let r = \<lparr>rr_schema = 1, rr_fingerprint = omega_fingerprint (ol lib) bundle, rr_root_version = version,
                rr_intent = lib_sha256 lib (record_of (jl_intent lib) i), rr_root = raw\<rparr>
       in andthen (guard (rotation_valid lib bundle previous i r) EInvalid) (\<lambda>u.
          andthen (install Journal (rotationName version) (record_of (jl_rotation lib) r)) (\<lambda>u.
          andthen (syncDir Journal) (\<lambda>u.
          andthen (readRotation lib bundle previous version) (\<lambda>checked.
          andthen (cleanPendingTwins Journal ''.'') (\<lambda>u.
          ret r))))))))))"

definition finishRotation ::
    "journal_lib \<Rightarrow> Bundle \<Rightarrow> bytes \<Rightarrow> int \<Rightarrow> (string, string) gomap \<Rightarrow> gotime \<Rightarrow> rotationIntent \<Rightarrow> string list \<Rightarrow> rotationRecord op" where
  "finishRotation lib bundle previous version keys now i successors =
     andthen (guard (\<not> now < rn_created i) EClock) (\<lambda>u.
     andthen (install Journal (rotationIntentName version) (record_of (jl_intent lib) i)) (\<lambda>u.
     andthen (syncDir Journal) (\<lambda>u.
     andthen (try_read Journal (rotationName version)) (\<lambda>committed.
       case committed of
         Some data \<Rightarrow> finish_existing lib bundle previous version i data
       | None \<Rightarrow>
           andthen (try_read Journal (pending_name (rotationName version))) (\<lambda>p.
             if p \<noteq> None \<and> ol_valid lib (the p) then finish_existing lib bundle previous version i (the p)
             else finish_signing lib bundle previous version keys i successors)))))"

definition new_online_intent ::
    "journal_lib \<Rightarrow> Bundle \<Rightarrow> bytes \<Rightarrow> int \<Rightarrow> gotime \<Rightarrow> (string, string) gomap \<Rightarrow> rotationIntent" where
  "new_online_intent lib bundle previous version now drawn =
     \<lparr>rn_schema = 1, rn_mode = ''disposable'', rn_fingerprint = omega_fingerprint (ol lib) bundle, rn_root_version = version,
      rn_previous_root = lib_sha256 lib previous, rn_created = truncate_second now, rn_keys = drawn, rn_custody = [],
      rn_online_keys = [], rn_key_digests = [], rn_targets_key = None, rn_root_keys = [], rn_root_expires = no_time\<rparr>"

text \<open>\<open>prepareRotation\<close>: new online keys, drawn once; a torn first intent has signed nothing.\<close>

definition prepareRotation ::
    "journal_lib \<Rightarrow> Bundle \<Rightarrow> bytes \<Rightarrow> int \<Rightarrow> (string, string) gomap \<Rightarrow> gotime \<Rightarrow> (string, string) gomap \<Rightarrow> rotationRecord op" where
  "prepareRotation lib bundle previous version keys now drawn =
     andthen (read_either Journal (rotationIntentName version)) (\<lambda>(committed, data).
     andthen (if data \<noteq> None \<and> ol_valid lib (the data) then opt (decodeRecord (jl_intent lib) (the data)) EInvalid
              else if committed then throw EInvalid
              else andthen (absent Journal (with_pending [rotationName version]) EReserved) (\<lambda>u.
                   ret (new_online_intent lib bundle previous version now drawn))) (\<lambda>i.
     andthen (guard (intent_valid lib bundle previous version i) EInvalid) (\<lambda>u.
     andthen (guard (rn_schema i = 1) EReserved) (\<lambda>u.
     finishRotation lib bundle previous version keys now i []))))"

end
