(* ===== verification/Omega_Keys.thy ===== *)
theory Omega_Keys
  imports Omega_Rotation
begin

text \<open>
  The encrypted custody of offline keys, \<open>src/internal/omega/encrypted_keys.go\<close>, and the key session of a command,
  \<open>operator_keys.go\<close>. A private key is stored as an \<open>age\<close> ciphertext of a payload that is bound to its network,
  repository, transaction, name and generation. \<open>age\<close> itself is an argument, and so is what is drawn at random. A session
  reads the committed authority, asks for the password and unlocks what a command signs with.
\<close>

section \<open>Names and public authorities\<close>

definition keyNames :: "string list" where
  "keyNames = [''root-1'', ''root-2'', ''root-3'', ''targets'', ''snapshot'', ''timestamp'']"

definition encryptedKeyName :: "string \<Rightarrow> string" where "encryptedKeyName name = name @ ''.key.age''"

definition networkID :: "string \<Rightarrow> bool" where
  "networkID s \<longleftrightarrow>
     (case s of [] \<Rightarrow> False
      | c # cs \<Rightarrow> (is_alpha c \<or> is_digit c) \<and> length cs \<le> 63 \<and> list_all (\<lambda>c. ident_char c \<and> c \<noteq> CHR ''.'') cs)"

definition decodePublicKey :: "string \<Rightarrow> bytes option" where
  "decodePublicKey encoded =
     (case b64_decode encoded of
        None \<Rightarrow> None
      | Some key \<Rightarrow> if length key = 32 \<and> b64_encode key = encoded then Some key else None)"

fun distinct_keys :: "bytes option list \<Rightarrow> bool" where
  "distinct_keys [] = True"
| "distinct_keys (None # ks) = False"
| "distinct_keys (Some k # ks) = (\<not> List.member ks (Some k) \<and> distinct_keys ks)"

definition validatePublicIdentity :: "string \<Rightarrow> string \<Rightarrow> string \<Rightarrow> gotime \<Rightarrow> gotime \<Rightarrow> bool" where
  "validatePublicIdentity network repository transaction created expires \<longleftrightarrow>
     ValidateLocation network repository = Some repository \<and> networkID network \<and> validDigest transaction \<and>
     created \<noteq> no_time \<and> expires = created + rootLifetime"

definition maxEncryptedKey :: nat where "maxEncryptedKey = 16384"
definition maxKeyPayload :: nat where "maxKeyPayload = 4096"

definition public_authority_ok :: "publicAuthority \<Rightarrow> bool" where
  "public_authority_ok p \<longleftrightarrow>
     validatePublicIdentity (pu_network p) (pu_repository p) (pu_transaction p) (pu_created p) (pu_expires p) \<and>
     pu_schema p = 2 \<and> validCustodyMode (pu_mode p) \<and> pu_custody p = encryptedCustody \<and> validDigest (pu_fingerprint p) \<and>
     gm_size (pu_keys p) = length keyNames \<and> gm_size (pu_digests p) = length keyNames \<and>
     distinct_keys (map (\<lambda>n. decodePublicKey (gm_get (pu_keys p) n)) keyNames) \<and>
     list_all (\<lambda>n. validDigest (gm_get (pu_digests p) n)) keyNames"

section \<open>Encrypted keys\<close>

definition key_binding :: "int \<Rightarrow> string \<Rightarrow> string \<Rightarrow> string \<Rightarrow> string \<Rightarrow> keyBinding" where
  "key_binding generation transaction network repository name =
     \<lparr>kb_transaction = transaction, kb_network = network, kb_repository = repository, kb_name = name, kb_generation = generation\<rparr>"

text \<open>\<open>utf8.Valid\<close> and \<open>utf8.RuneCount\<close>: the number of characters of valid UTF-8.\<close>

function rune_count :: "bytes \<Rightarrow> nat option" where
  "rune_count [] = Some 0"
| "rune_count (c # rest) =
     (if rune_ok c rest then map_option Suc (rune_count (drop (rune_length (of_char c) - 1) rest)) else None)"
  by pat_completeness auto
termination by (relation "measure length") auto

definition ValidateNewPassphrase :: "bytes \<Rightarrow> bool" where
  "ValidateNewPassphrase password \<longleftrightarrow> (case rune_count password of None \<Rightarrow> False | Some n \<Rightarrow> n \<ge> 12)"

text \<open>\<open>create\<close> of the codec, with the private key and the salt it draws.\<close>

definition create_key :: "journal_lib \<Rightarrow> keyBinding \<Rightarrow> bytes \<Rightarrow> string \<Rightarrow> string \<Rightarrow> bytes option" where
  "create_key lib b password salt drawn =
     (if \<not> ValidateNewPassphrase password then None
      else case decodeKey lib drawn of
             None \<Rightarrow> None
           | Some key \<Rightarrow>
               jl_encrypt lib salt password
                 (record_of (jl_payload lib) \<lparr>kp_schema = 1, kp_binding = b, kp_public = b64_encode (drop 32 key), kp_private = drawn\<rparr>))"

definition unlock_key :: "journal_lib \<Rightarrow> bytes \<Rightarrow> keyBinding \<Rightarrow> bytes \<Rightarrow> bytes option" where
  "unlock_key lib ciphertext b password =
     (if ciphertext = [] \<or> length ciphertext > maxEncryptedKey then None
      else case jl_decrypt lib password ciphertext of
             None \<Rightarrow> None
           | Some plaintext \<Rightarrow>
               if length plaintext > maxKeyPayload then None
               else case decodeRecord (jl_payload lib) plaintext of
                      None \<Rightarrow> None
                    | Some p \<Rightarrow>
                        if kp_schema p \<noteq> 1 \<or> kp_binding p \<noteq> b then None
                        else case decodeKey lib (kp_private p) of
                               None \<Rightarrow> None
                             | Some key \<Rightarrow> if b64_encode (drop 32 key) = kp_public p then Some key else None)"

section \<open>The key session\<close>

text \<open>
  \<open>ss_legacy\<close> is the zero record when the authority is encrypted. A password that has been typed is used again; \<open>ss_prompt\<close>
  stands for both.
\<close>

record operatorKeys =
  ss_public :: "publicAuthority option"
  ss_legacy :: authority_record
  ss_prompt :: "(bool \<Rightarrow> bytes option) option"

definition no_authority :: authority_record where
  "no_authority =
     \<lparr>au_schema = 0, au_mode = [], au_network = [], au_repository = [], au_created = no_time, au_expires = no_time, au_keys = []\<rparr>"

definition ss_encrypted :: "operatorKeys \<Rightarrow> bool" where "ss_encrypted ss \<longleftrightarrow> ss_public ss \<noteq> None"

definition ss_mode :: "operatorKeys \<Rightarrow> string" where
  "ss_mode ss = (case ss_public ss of Some p \<Rightarrow> pu_mode p | None \<Rightarrow> au_mode (ss_legacy ss))"

definition readPublicAuthority :: "journal_lib \<Rightarrow> store_id \<Rightarrow> publicAuthority op" where
  "readPublicAuthority lib s =
     andthen (read s ''authority.json'') (\<lambda>data.
     andthen (opt (decodeRecord (jl_public lib) data) EInvalid) (\<lambda>p.
     andthen (guard (public_authority_ok p) EInvalid) (\<lambda>u.
     ret p)))"

definition openOperatorKeys :: "journal_lib \<Rightarrow> (bool \<Rightarrow> bytes option) option \<Rightarrow> operatorKeys op" where
  "openOperatorKeys lib prompt =
     andthen (read Authority ''authority.json'') (\<lambda>data.
       if jl_schema lib data = 2 then
         andthen (readPublicAuthority lib Authority) (\<lambda>p.
         ret \<lparr>ss_public = Some p, ss_legacy = no_authority, ss_prompt = prompt\<rparr>)
       else
         andthen (opt (decodeRecord (jl_authority lib) data) EInvalid) (\<lambda>a.
         ret \<lparr>ss_public = None, ss_legacy = a, ss_prompt = prompt\<rparr>))"

definition secret :: "operatorKeys \<Rightarrow> bytes op" where
  "secret ss = andthen (opt (ss_prompt ss) EKey) (\<lambda>ask. opt (ask False) EKey)"

definition unlock_signer :: "journal_lib \<Rightarrow> operatorKeys \<Rightarrow> bytes \<Rightarrow> keyBinding \<Rightarrow> string \<Rightarrow> string op" where
  "unlock_signer lib ss data b expected =
     andthen (secret ss) (\<lambda>password.
     andthen (opt (unlock_key lib data b password) EKey) (\<lambda>key.
     andthen (guard (b64_encode (drop 32 key) = expected) EKey) (\<lambda>u.
     ret (b64_encode key))))"

definition session_initial :: "journal_lib \<Rightarrow> operatorKeys \<Rightarrow> string \<Rightarrow> string op" where
  "session_initial lib ss name =
     (case ss_public ss of
        None \<Rightarrow> ret (gm_get (au_keys (ss_legacy ss)) name)
      | Some p \<Rightarrow>
          andthen (read Authority (encryptedKeyName name)) (\<lambda>data.
          andthen (guard (lib_sha256 lib data = gm_get (pu_digests p) name) EKey) (\<lambda>u.
          unlock_signer lib ss data (key_binding 1 (pu_transaction p) (pu_network p) (pu_repository p) name) (gm_get (pu_keys p) name))))"

section \<open>Encrypted generations\<close>

text \<open>The first part of \<open>encrypted_rotation.go\<close>: names, plans and the generations they fix.\<close>

definition encryptedPlanName :: "int \<Rightarrow> string" where "encryptedPlanName n = Itoa n @ ''.encrypted-plan.json''"

definition encryptedGenerationName :: "int \<Rightarrow> string \<Rightarrow> string" where
  "encryptedGenerationName n name = Itoa n @ ''.'' @ name @ ''-key.age.json''"

definition plan_binding :: "journal_lib \<Rightarrow> Bundle \<Rightarrow> encryptedRotationPlan \<Rightarrow> string \<Rightarrow> keyBinding" where
  "plan_binding lib bundle plan name =
     key_binding (ep_root_version plan) (lib_sha256 lib (record_of (jl_encrypted_plan lib) plan)) (bd_network bundle) (bd_repository bundle) name"

definition planFromIntent :: "rotationIntent \<Rightarrow> encryptedRotationPlan" where
  "planFromIntent i =
     \<lparr>ep_schema = 1, ep_mode = rn_mode i, ep_fingerprint = rn_fingerprint i, ep_root_version = rn_root_version i,
      ep_previous_root = rn_previous_root i, ep_created = rn_created i,
      ep_role = (if rn_schema i = 2 then ''targets'' else if rn_schema i = 3 then ''root'' else ''online''),
      ep_root_expires = rn_root_expires i\<rparr>"

definition generation_ok :: "journal_lib \<Rightarrow> encryptedRotationPlan \<Rightarrow> string \<Rightarrow> encryptedGenerationKey \<Rightarrow> bool" where
  "generation_ok lib plan name c \<longleftrightarrow>
     eg_schema c = 1 \<and> eg_plan c = lib_sha256 lib (record_of (jl_encrypted_plan lib) plan) \<and> eg_name c = name \<and>
     eg_ciphertext c \<noteq> [] \<and> length (eg_ciphertext c) \<le> maxEncryptedKey \<and> decodePublicKey (eg_public c) \<noteq> None"

definition membershipStore :: "bool \<Rightarrow> unit op" where
  "membershipStore fresh = andthen (if fresh then andthen (mkdir Rotations) (\<lambda>u. syncDir Home) else ret ()) (\<lambda>u. subdir Rotations)"

definition generationKey :: "journal_lib \<Rightarrow> Bundle \<Rightarrow> operatorKeys \<Rightarrow> rotationIntent \<Rightarrow> string \<Rightarrow> string op" where
  "generationKey lib bundle ss i name =
     (let plan = planFromIntent i
      in andthen (guard (rn_custody i = encryptedCustody \<and> rn_mode i = ss_mode ss) ECustody) (\<lambda>u.
         andthen (membershipStore False) (\<lambda>u.
         andthen (read Rotations (encryptedGenerationName (rn_root_version i) name)) (\<lambda>data.
         andthen (guard (lib_sha256 lib data = gm_get (rn_key_digests i) name) EKey) (\<lambda>u.
         andthen (opt (decodeRecord (jl_generation lib) data) EInvalid) (\<lambda>c.
         andthen (guard (generation_ok lib plan name c) EInvalid) (\<lambda>u.
         andthen (opt (Option.bind (decodePublicKey (eg_public c)) (jl_key lib)) EKey) (\<lambda>key.
         andthen (guard (Some key = (if rn_schema i = 3 then gm_lookup (rn_root_keys i) name else rn_targets_key i)) EKey) (\<lambda>u.
         unlock_signer lib ss (eg_ciphertext c) (plan_binding lib bundle plan name) (eg_public c))))))))))"

end
