(* ===== verification/Omega_Handoff.thy ===== *)
theory Omega_Handoff
  imports Omega_Keys
begin

text \<open>
  Rotations that involve the offline authority, and their application: \<open>membership_rotation.go\<close>, \<open>root_rotation.go\<close> and
  the second half of \<open>rotation_store.go\<close>. The key session is that of \<open>operator_keys.go\<close>.
\<close>

section \<open>Offline custody\<close>

definition membershipKeyName :: "int \<Rightarrow> string" where "membershipKeyName n = Itoa n @ ''.targets-key.json''"
definition rootPlanName :: "int \<Rightarrow> string" where "rootPlanName n = Itoa n @ ''.root-plan.json''"
definition rootKeyName :: "int \<Rightarrow> string \<Rightarrow> string" where "rootKeyName n name = Itoa n @ ''.'' @ name @ ''-key.json''"

definition custody_intent :: "journal_lib \<Rightarrow> membershipCustody \<Rightarrow> Bundle \<Rightarrow> bytes \<Rightarrow> int \<Rightarrow> rotationIntent option" where
  "custody_intent lib c bundle previous version =
     (if mc_schema c \<noteq> 1 \<or> mc_mode c \<noteq> ''disposable'' then None
      else case public_key lib (mc_key c) of
        None \<Rightarrow> None
      | Some key \<Rightarrow>
          let i = \<lparr>rn_schema = 2, rn_mode = mc_mode c, rn_fingerprint = mc_fingerprint c, rn_root_version = mc_root_version c,
                   rn_previous_root = mc_previous_root c, rn_created = mc_created c, rn_keys = [], rn_custody = [], rn_online_keys = [],
                   rn_key_digests = [], rn_targets_key = Some key, rn_root_keys = [], rn_root_expires = no_time\<rparr>
          in if intent_valid lib bundle previous version i then Some i else None)"

text \<open>The intents that are already recorded for a version, committed or completely written, must satisfy \<open>ok\<close>.\<close>

definition check_intents :: "journal_lib \<Rightarrow> int \<Rightarrow> (bytes \<Rightarrow> bool) \<Rightarrow> unit op" where
  "check_intents lib version ok =
     for_each [rotationIntentName version, pending_name (rotationIntentName version)] (\<lambda>name.
       andthen (try_read Journal name) (\<lambda>data.
         guard (case data of None \<Rightarrow> True | Some d \<Rightarrow> ol_valid lib d \<longrightarrow> ok d) EReserved))"

definition schema_is :: "journal_lib \<Rightarrow> int \<Rightarrow> bytes \<Rightarrow> bool" where
  "schema_is lib n data = (case decodeRecord (jl_intent lib) data of None \<Rightarrow> False | Some i \<Rightarrow> rn_schema i = n)"

definition handoff_outputs :: "int \<Rightarrow> string list" where
  "handoff_outputs version = with_pending [rotationIntentName version, rotationName version]"

definition prepareMembershipRotation ::
    "journal_lib \<Rightarrow> Bundle \<Rightarrow> bytes \<Rightarrow> int \<Rightarrow> (string, string) gomap \<Rightarrow> gotime \<Rightarrow> string \<Rightarrow> rotationRecord op" where
  "prepareMembershipRotation lib bundle previous version keys now drawn =
     andthen (check_intents lib version (schema_is lib 2)) (\<lambda>u.
     andthen (membershipStore True) (\<lambda>u.
     andthen (read_either Rotations (membershipKeyName version)) (\<lambda>(committed, data).
     andthen (if data \<noteq> None \<and> ol_valid lib (the data) then opt (decodeRecord (jl_membership lib) (the data)) EInvalid
              else if committed then throw EInvalid
              else andthen (absent Journal (handoff_outputs version) EHandoff) (\<lambda>u.
                   ret \<lparr>mc_schema = 1, mc_mode = ''disposable'', mc_fingerprint = omega_fingerprint (ol lib) bundle, mc_root_version = version,
                        mc_previous_root = lib_sha256 lib previous, mc_created = truncate_second now, mc_key = drawn\<rparr>)) (\<lambda>c.
     andthen (opt (custody_intent lib c bundle previous version) EInvalid) (\<lambda>i.
     andthen (check_intents lib version (\<lambda>d. d = record_of (jl_intent lib) i)) (\<lambda>u.
     andthen (guard (\<not> now < mc_created c) EClock) (\<lambda>u.
     andthen (install Rotations (membershipKeyName version) (record_of (jl_membership lib) c)) (\<lambda>u.
     andthen (syncDir Rotations) (\<lambda>u.
     andthen (finishRotation lib bundle previous version keys now i []) (\<lambda>r.
     andthen (cleanPendingTwins Rotations ''.'') (\<lambda>u.
     ret r)))))))))))"

definition membershipPrivateKey :: "journal_lib \<Rightarrow> Bundle \<Rightarrow> bytes \<Rightarrow> int \<Rightarrow> string op" where
  "membershipPrivateKey lib bundle previous version =
     andthen (readRotation lib bundle previous version) (\<lambda>(r, i).
     andthen (membershipStore False) (\<lambda>u.
     andthen (read Rotations (membershipKeyName version)) (\<lambda>data.
     andthen (opt (decodeRecord (jl_membership lib) data) EInvalid) (\<lambda>c.
     andthen (opt (custody_intent lib c bundle previous version) EInvalid) (\<lambda>expected.
     andthen (guard (record_of (jl_intent lib) expected = record_of (jl_intent lib) i) EHandoff) (\<lambda>u.
     ret (mc_key c)))))))"

fun newest_membership :: "journal_lib \<Rightarrow> Bundle \<Rightarrow> (int \<times> bytes \<times> bytes) list \<Rightarrow> string \<Rightarrow> string op" where
  "newest_membership lib bundle [] initial = ret initial"
| "newest_membership lib bundle ((version, previous, root) # steps) initial =
     andthen (readRotation lib bundle previous version) (\<lambda>(r, i).
     andthen (guard (rr_root r = root) EHistory) (\<lambda>u.
       if rn_schema i = 2 then membershipPrivateKey lib bundle previous version else newest_membership lib bundle steps initial))"

definition activeMembershipKey :: "journal_lib \<Rightarrow> Bundle \<Rightarrow> release \<Rightarrow> string \<Rightarrow> string op" where
  "activeMembershipKey lib bundle latest initial = newest_membership lib bundle (root_steps bundle latest) initial"

section \<open>Root rotation\<close>

definition root_signer_ok :: "journal_lib \<Rightarrow> rotationIntent \<Rightarrow> string \<Rightarrow> membershipCustody \<Rightarrow> bool" where
  "root_signer_ok lib i name c \<longleftrightarrow>
     mc_schema c = 1 \<and> mc_mode c = ''disposable'' \<and> mc_fingerprint c = rn_fingerprint i \<and> mc_root_version c = rn_root_version i \<and>
     mc_previous_root c = rn_previous_root i \<and> mc_created c = rn_created i \<and>
     public_key lib (mc_key c) \<noteq> None \<and> public_key lib (mc_key c) = gm_lookup (rn_root_keys i) name"

definition readRootPrivate :: "journal_lib \<Rightarrow> rotationIntent \<Rightarrow> string \<Rightarrow> string op" where
  "readRootPrivate lib i name =
     andthen (read Rotations (rootKeyName (rn_root_version i) name)) (\<lambda>data.
     andthen (opt (decodeRecord (jl_membership lib) data) EInvalid) (\<lambda>c.
     andthen (guard (root_signer_ok lib i name c) EKey) (\<lambda>u.
     ret (mc_key c))))"

fun collect_keys :: "string list \<Rightarrow> (string \<Rightarrow> string op) \<Rightarrow> (string, string) gomap op" where
  "collect_keys [] get = ret []"
| "collect_keys (n # ns) get =
     andthen (trying (get n)) (\<lambda>r.
       case r of
         Inr key \<Rightarrow> andthen (collect_keys ns get) (\<lambda>m. ret ((n, key) # m))
       | Inl e \<Rightarrow> if e = ENotExist then collect_keys ns get else throw e)"

definition rootGenerationKeys :: "journal_lib \<Rightarrow> rotationIntent \<Rightarrow> (string, string) gomap op" where
  "rootGenerationKeys lib i =
     andthen (membershipStore False) (\<lambda>u.
     andthen (collect_keys root_key_names (readRootPrivate lib i)) (\<lambda>keys.
     andthen (guard (length keys \<ge> 2) EKey) (\<lambda>u.
     ret keys)))"

definition activeRootKeys :: "journal_lib \<Rightarrow> Bundle \<Rightarrow> bytes \<Rightarrow> (string, string) gomap \<Rightarrow> (string, string) gomap op" where
  "activeRootKeys lib bundle previous legacy =
     andthen (rotationHistory lib bundle previous) (\<lambda>is.
       case filter (\<lambda>i. rn_schema i = 3) is of
         [] \<Rightarrow> ret (map (\<lambda>n. (n, gm_get legacy n)) root_key_names)
       | gens \<Rightarrow> rootGenerationKeys lib (last gens))"

definition checkOfflineReservation :: "int \<Rightarrow> string \<Rightarrow> unit op" where
  "checkOfflineReservation version role =
     absent Rotations (with_pending
       ((if role \<noteq> ''targets'' then [membershipKeyName version] else []) @
        (if role \<noteq> ''root'' then rootPlanName version # map (rootKeyName version) root_key_names else []))) EReserved"

definition plan_ok :: "omega_lib \<Rightarrow> Bundle \<Rightarrow> bytes \<Rightarrow> int \<Rightarrow> gotime \<Rightarrow> gotime \<Rightarrow> rootPreparation \<Rightarrow> bool" where
  "plan_ok lib bundle previous version old_expires now p \<longleftrightarrow>
     rp_schema p = 1 \<and> rp_mode p = ''disposable'' \<and> rp_fingerprint p = omega_fingerprint lib bundle \<and> rp_root_version p = version \<and>
     rp_previous_root p = lib_sha256 lib previous \<and> rp_created p \<noteq> no_time \<and> \<not> now < rp_created p \<and>
     rp_expires p = rootExpiry old_expires (rp_created p)"

text \<open>The intents already handed to the journal: they agree, and \<open>None\<close> when there is none.\<close>

definition existing_root_intent :: "journal_lib \<Rightarrow> Bundle \<Rightarrow> bytes \<Rightarrow> int \<Rightarrow> rotationIntent option op" where
  "existing_root_intent lib bundle previous version =
     (let decoded = (\<lambda>data. case data of
            Some d \<Rightarrow> if ol_valid lib d then
                        andthen (opt (decodeRecord (jl_intent lib) d) EInvalid) (\<lambda>i.
                        andthen (guard (rn_schema i = 3 \<and> intent_valid lib bundle previous version i) EReserved) (\<lambda>u. ret (Some i)))
                      else ret None
          | None \<Rightarrow> ret None)
      in andthen (andthen (try_read Journal (rotationIntentName version)) decoded) (\<lambda>a.
         andthen (andthen (try_read Journal (pending_name (rotationIntentName version))) decoded) (\<lambda>b.
           case (a, b) of
             (Some i, Some j) \<Rightarrow> if record_of (jl_intent lib) i = record_of (jl_intent lib) j then ret (Some j) else throw EHandoff
           | (Some i, None) \<Rightarrow> ret (Some i)
           | (None, c) \<Rightarrow> ret c)))"

definition read_plan :: "journal_lib \<Rightarrow> Bundle \<Rightarrow> bytes \<Rightarrow> int \<Rightarrow> gotime \<Rightarrow> gotime \<Rightarrow> rotationIntent option \<Rightarrow> rootPreparation op" where
  "read_plan lib bundle previous version old_expires now existing =
     andthen (read_either Rotations (rootPlanName version)) (\<lambda>(committed, data).
     andthen (if data \<noteq> None \<and> ol_valid lib (the data) then opt (decodeRecord (jl_plan lib) (the data)) EInvalid
              else if committed \<or> existing \<noteq> None then throw EHandoff
              else andthen (absent Rotations (with_pending (map (rootKeyName version) root_key_names)) EHandoff) (\<lambda>u.
                   andthen (absent Journal (handoff_outputs version) EHandoff) (\<lambda>u.
                   ret \<lparr>rp_schema = 1, rp_mode = ''disposable'', rp_fingerprint = omega_fingerprint (ol lib) bundle, rp_root_version = version,
                        rp_previous_root = lib_sha256 lib previous, rp_created = truncate_second now,
                        rp_expires = rootExpiry old_expires (truncate_second now)\<rparr>))) (\<lambda>p.
     andthen (guard (plan_ok (ol lib) bundle previous version old_expires now p) EInvalid) (\<lambda>u.
     ret p)))"

text \<open>One successor signer: recovered, missing but already handed off (\<open>None\<close>), or drawn once.\<close>

definition root_signer ::
    "journal_lib \<Rightarrow> rootPreparation \<Rightarrow> int \<Rightarrow> rotationIntent option \<Rightarrow> (string, string) gomap \<Rightarrow> string \<Rightarrow> (tuf_key option \<times> string option) op" where
  "root_signer lib p version existing drawn name =
     andthen (read_either Rotations (rootKeyName version name)) (\<lambda>(committed, data).
       if data = None \<and> existing \<noteq> None then ret (gm_lookup (rn_root_keys (the existing)) name, None)
       else
         andthen (if data \<noteq> None \<and> ol_valid lib (the data) then opt (decodeRecord (jl_membership lib) (the data)) EInvalid
                  else if committed \<or> existing \<noteq> None then throw EHandoff
                  else andthen (absent Journal (handoff_outputs version) EHandoff) (\<lambda>u.
                       ret \<lparr>mc_schema = 1, mc_mode = ''disposable'', mc_fingerprint = rp_fingerprint p, mc_root_version = version,
                            mc_previous_root = rp_previous_root p, mc_created = rp_created p, mc_key = gm_get drawn name\<rparr>)) (\<lambda>c.
         andthen (guard (mc_schema c = 1 \<and> mc_mode c = ''disposable'' \<and> mc_fingerprint c = rp_fingerprint p \<and> mc_root_version c = version \<and>
                         mc_previous_root c = rp_previous_root p \<and> mc_created c = rp_created p) EHandoff) (\<lambda>u.
         andthen (opt (public_key lib (mc_key c)) EKey) (\<lambda>public.
         andthen (guard (existing = None \<or> gm_lookup (rn_root_keys (the existing)) name = Some public) EHandoff) (\<lambda>u.
         andthen (install Rotations (rootKeyName version name) (record_of (jl_membership lib) c)) (\<lambda>u.
         andthen (syncDir Rotations) (\<lambda>u.
         ret (Some public, Some (mc_key c)))))))))"

fun root_signers ::
    "journal_lib \<Rightarrow> rootPreparation \<Rightarrow> int \<Rightarrow> rotationIntent option \<Rightarrow> (string, string) gomap \<Rightarrow> string list
       \<Rightarrow> ((string, tuf_key) gomap \<times> string list) op" where
  "root_signers lib p version existing drawn [] = ret ([], [])"
| "root_signers lib p version existing drawn (n # ns) =
     andthen (root_signer lib p version existing drawn n) (\<lambda>(public, key).
     andthen (root_signers lib p version existing drawn ns) (\<lambda>(publics, keys).
     ret ((case public of None \<Rightarrow> publics | Some k \<Rightarrow> (n, k) # publics), (case key of None \<Rightarrow> keys | Some k \<Rightarrow> k # keys))))"

definition prepareRootRotation ::
    "journal_lib \<Rightarrow> Bundle \<Rightarrow> bytes \<Rightarrow> int \<Rightarrow> (string, string) gomap \<Rightarrow> gotime \<Rightarrow> (string, string) gomap \<Rightarrow> rotationRecord op" where
  "prepareRootRotation lib bundle previous version keys now drawn =
     andthen (existing_root_intent lib bundle previous version) (\<lambda>existing.
     andthen (membershipStore True) (\<lambda>u.
     andthen (opt (ol_parse_root lib previous) EMetadata) (\<lambda>root.
     andthen (read_plan lib bundle previous version (rm_expires root) now existing) (\<lambda>p.
     andthen (install Rotations (rootPlanName version) (record_of (jl_plan lib) p)) (\<lambda>u.
     andthen (syncDir Rotations) (\<lambda>u.
     andthen (root_signers lib p version existing drawn root_key_names) (\<lambda>(publics, signers).
       let i = \<lparr>rn_schema = 3, rn_mode = ''disposable'', rn_fingerprint = rp_fingerprint p, rn_root_version = version,
                rn_previous_root = rp_previous_root p, rn_created = rp_created p, rn_keys = [], rn_custody = [], rn_online_keys = [],
                rn_key_digests = [], rn_targets_key = None, rn_root_keys = publics, rn_root_expires = rp_expires p\<rparr>
       in andthen (guard (intent_valid lib bundle previous version i) EInvalid) (\<lambda>u.
          andthen (guard (existing = None \<or> record_of (jl_intent lib) i = record_of (jl_intent lib) (the existing)) EHandoff) (\<lambda>u.
          andthen (guard (length signers \<ge> 2) EKey) (\<lambda>u.
          andthen (finishRotation lib bundle previous version keys now i signers) (\<lambda>r.
          andthen (cleanPendingTwins Rotations ''.'') (\<lambda>u.
          ret r))))))))))))"

section \<open>The operator's session\<close>

definition session_membership :: "journal_lib \<Rightarrow> Bundle \<Rightarrow> operatorKeys \<Rightarrow> release \<Rightarrow> string op" where
  "session_membership lib bundle ss latest =
     (if \<not> ss_encrypted ss then activeMembershipKey lib bundle latest (gm_get (au_keys (ss_legacy ss)) ''targets'')
      else andthen (rotationHistory lib bundle (currentRoot bundle latest)) (\<lambda>is.
        let recent = dropWhile (\<lambda>i. rn_schema i \<noteq> 2) (rev is);
            checked = (case recent of [] \<Rightarrow> is | i # rest \<Rightarrow> i # takeWhile (\<lambda>i. rn_schema i \<noteq> 2) (rev is))
        in andthen (guard (list_all (\<lambda>i. rn_custody i = encryptedCustody \<and> rn_mode i = ss_mode ss) checked) ECustody) (\<lambda>u.
             case recent of
               [] \<Rightarrow> session_initial lib ss ''targets''
             | i # rest \<Rightarrow> generationKey lib bundle ss i ''targets'')))"

section \<open>Applying a rotation\<close>

definition reserve_names :: "int \<Rightarrow> string list" where
  "reserve_names version = pending_name (releaseName version) # with_pending [renewalIntentName version, rotationTargetsName version]"

definition reserveRotationApply ::
    "journal_lib \<Rightarrow> Bundle \<Rightarrow> release \<Rightarrow> rotationRecord \<Rightarrow> gotime \<Rightarrow> unit op" where
  "reserveRotationApply lib bundle latest rotation now =
     andthen (readRotation lib bundle (currentRoot bundle latest) (rr_root_version rotation)) (\<lambda>(r, preparation).
     andthen (guard (\<not> now < rn_created preparation) EClock) (\<lambda>u.
       let version = rl_version latest + 1; name = rotationApplyName version
       in andthen (guard (version \<le> maxReleases) ELimit) (\<lambda>u.
          andthen (read_either Journal name) (\<lambda>(committed, data).
            if data \<noteq> None \<and> ol_valid lib (the data) then ret ()
            else if committed then throw EInvalid
            else
              andthen (absent Journal (reserve_names version) EReserved) (\<lambda>u.
              andthen (opt (validate (ol lib) bundle latest) EInvalid) (\<lambda>(m, ex).
              andthen (if rn_schema preparation = 3 then guard (rn_root_expires preparation - now \<ge> hours 24) EExpired
                       else if \<not> now < ex_targets ex \<or> \<not> now < ex_root ex then
                         andthen (if data \<noteq> None then andthen (remove Journal (pending_name name)) (\<lambda>u. syncDir Journal) else ret ()) (\<lambda>u.
                         throw EExpired)
                       else ret ()) (\<lambda>u.
              andthen (readVerification lib latest) (\<lambda>receipt.
              andthen (guard (receipt = None \<or> \<not> now < ve_checked (the receipt)) EClock) (\<lambda>u.
              install Journal name (record_of (jl_apply lib)
                \<lparr>ra_schema = 1, ra_version = version, ra_previous = release_digest (ol lib) latest, ra_root_version = rr_root_version rotation,
                 ra_root = lib_sha256 lib (rr_root rotation), ra_created = truncate_second now, ra_days = timestampDays\<rparr>))))))))))"

definition apply_identity :: "omega_lib \<Rightarrow> release \<Rightarrow> gotime \<Rightarrow> rotationApply \<Rightarrow> bool" where
  "apply_identity lib latest now a \<longleftrightarrow>
     validTimestampDays (ra_days a) \<and> ra_schema a = 1 \<and> ra_version a = rl_version latest + 1 \<and> ra_version a \<le> maxReleases \<and>
     ra_previous a = release_digest lib latest \<and> ra_root_version a = root_version latest + 1 \<and> ra_created a \<noteq> no_time \<and>
     \<not> ra_created a < rl_created latest \<and> \<not> now < ra_created a"

definition validateRotationTargets :: "omega_lib \<Rightarrow> bytes \<Rightarrow> release \<Rightarrow> rotationRecord \<Rightarrow> int \<Rightarrow> gotime \<Rightarrow> bool" where
  "validateRotationTargets lib data latest r version created \<longleftrightarrow>
     (case ol_parse_root lib (rr_root r) of
        None \<Rightarrow> False
      | Some root \<Rightarrow> ol_parse_targets lib data \<noteq> None \<and>
          continuedTargetsApproval lib (rl_targets latest) data version created root \<and> ol_delegate_ok lib root data)"

text \<open>The offline signature over the unchanged membership, made once for a reserved release.\<close>

definition handoff_key :: "journal_lib \<Rightarrow> Bundle \<Rightarrow> operatorKeys \<Rightarrow> release \<Rightarrow> rotationRecord \<Rightarrow> rotationIntent \<Rightarrow> string op" where
  "handoff_key lib bundle ss latest r preparation =
     (if ss_encrypted ss then
        if rn_schema preparation = 3 then session_membership lib bundle ss latest
        else generationKey lib bundle ss preparation ''targets''
      else if rn_schema preparation = 3 then activeMembershipKey lib bundle latest (gm_get (au_keys (ss_legacy ss)) ''targets'')
      else membershipPrivateKey lib bundle (currentRoot bundle latest) (rr_root_version r))"

definition sign_targets_handoff ::
    "journal_lib \<Rightarrow> Bundle \<Rightarrow> operatorKeys \<Rightarrow> release \<Rightarrow> rotationRecord \<Rightarrow> rotationIntent \<Rightarrow> rotationApply \<Rightarrow> unit op" where
  "sign_targets_handoff lib bundle ss latest r preparation a =
     andthen (handoff_key lib bundle ss latest r preparation) (\<lambda>private.
     andthen (opt (ol_parse_targets lib (rl_targets latest)) EMetadata) (\<lambda>t.
       let t' = t\<lparr>tm_version := ra_version a,
                   tm_expires := (if rn_schema preparation = 3 then minTime (ra_created a + days 90) (rn_root_expires preparation) else tm_expires t)\<rparr>
       in andthen (opt (ol_sign_targets lib private t') EMetadata) (\<lambda>raw.
          andthen (guard (validateRotationTargets (ol lib) raw latest r (ra_version a) (ra_created a)) EHandoff) (\<lambda>u.
          andthen (install Journal (rotationTargetsName (ra_version a)) raw) (\<lambda>u.
          syncDir Journal)))))"

definition prepareRotationTargets ::
    "journal_lib \<Rightarrow> Bundle \<Rightarrow> release \<Rightarrow> rotationRecord \<Rightarrow> gotime \<Rightarrow> operatorKeys \<Rightarrow> unit op" where
  "prepareRotationTargets lib bundle latest r now ss =
     (let name = rotationApplyName (rl_version latest + 1)
      in andthen (read_either Journal name) (\<lambda>(committed, d).
         andthen (opt d ENotExist) (\<lambda>data.
         andthen (opt (decodeRecord (jl_apply lib) data) EInvalid) (\<lambda>a.
         andthen (readRotation lib bundle (currentRoot bundle latest) (rr_root_version r)) (\<lambda>(r0, preparation).
         andthen (guard (apply_identity (ol lib) latest now a \<and> ra_root_version a = rr_root_version r \<and>
                         ra_root a = lib_sha256 lib (rr_root r) \<and> \<not> ra_created a < rn_created preparation) EHandoff) (\<lambda>u.
         andthen (install Journal name data) (\<lambda>u.
         andthen (syncDir Journal) (\<lambda>u.
           let tname = rotationTargetsName (ra_version a)
           in andthen (try_read Journal tname) (\<lambda>committed.
              andthen (if committed \<noteq> None then ret committed
                       else andthen (try_read Journal (pending_name tname)) (\<lambda>p. ret (if p \<noteq> None \<and> ol_valid lib (the p) then p else None))) (\<lambda>known.
                case known of
                  Some t \<Rightarrow>
                    andthen (guard (validateRotationTargets (ol lib) t latest r (ra_version a) (ra_created a)) EHandoff) (\<lambda>u.
                    install Journal tname t)
                | None \<Rightarrow> sign_targets_handoff lib bundle ss latest r preparation a))))))))))"

definition readRotationTargets :: "journal_lib \<Rightarrow> release \<Rightarrow> rotationRecord \<Rightarrow> int \<Rightarrow> gotime \<Rightarrow> bytes op" where
  "readRotationTargets lib latest r version created =
     andthen (read_either Journal (rotationTargetsName version)) (\<lambda>(committed, d).
     andthen (opt d ENotExist) (\<lambda>data.
     andthen (guard (validateRotationTargets (ol lib) data latest r version created) EHandoff) (\<lambda>u.
     andthen (install Journal (rotationTargetsName version) data) (\<lambda>u.
     andthen (syncDir Journal) (\<lambda>u.
     ret data)))))"

text \<open>The release that completes the rotation \<open>r\<close> with intent \<open>i\<close>.\<close>

definition rotation_release ::
    "journal_lib \<Rightarrow> Bundle \<Rightarrow> release \<Rightarrow> rotationRecord \<Rightarrow> rotationIntent \<Rightarrow> rotationApply \<Rightarrow> (string, string) gomap \<Rightarrow> release op" where
  "rotation_release lib bundle latest r i a initial =
     (let roots = rl_roots latest @ [rr_root r]
      in if rn_schema i = 2 \<or> rn_schema i = 3 then
           andthen (activeOnlineKeys lib bundle latest (Some initial)) (\<lambda>keys.
           andthen (trying (readRotationTargets lib latest r (ra_version a) (ra_created a))) (\<lambda>t.
             case t of
               Inl e \<Rightarrow> throw EHandoff
             | Inr targets \<Rightarrow>
                 opt (if rn_schema i = 3
                      then prepareContinuedRelease (ol lib) bundle (gm_get (the keys)) latest (ra_created a) roots (Some targets) (ra_days a)
                      else prepareMembershipRelease (ol lib) bundle (gm_get (the keys)) latest (ra_created a) roots targets (ra_days a)) EMetadata))
         else
           andthen (rotationOnlineKeys lib bundle i) (\<lambda>keys.
           opt (prepareContinuedRelease (ol lib) bundle (gm_get keys) latest (ra_created a) roots None (ra_days a)) EMetadata))"

text \<open>A pending file of the release must hold the same bytes when it is complete.\<close>

definition check_pending_release :: "journal_lib \<Rightarrow> release \<Rightarrow> unit op" where
  "check_pending_release lib r =
     andthen (try_read Journal (pending_name (releaseName (rl_version r)))) (\<lambda>p.
       guard (\<not> (p \<noteq> None \<and> ol_valid lib (the p) \<and> p \<noteq> Some (record_of (ol_release lib) r))) EReserved)"

definition resumeRotationApply ::
    "journal_lib \<Rightarrow> Bundle \<Rightarrow> release list \<Rightarrow> gotime \<Rightarrow> renewalCustody \<Rightarrow> (string, string) gomap \<Rightarrow> (release list \<times> bool) op" where
  "resumeRotationApply lib bundle history now custody initial =
     (let latest = last history; name = rotationApplyName (rl_version latest + 1)
      in andthen (read_either Journal name) (\<lambda>(committed, d).
           case d of
             None \<Rightarrow> ret (history, False)
           | Some data \<Rightarrow>
               andthen (opt (decodeRecord (jl_apply lib) data) EInvalid) (\<lambda>a.
               andthen (guard (apply_identity (ol lib) latest now a) EHistory) (\<lambda>u.
               andthen (readRotation lib bundle (currentRoot bundle latest) (ra_root_version a)) (\<lambda>(r, i).
               andthen (guard (rn_mode i = rc_mode custody \<and> rn_custody i = rc_custody custody) ECustody) (\<lambda>u.
               andthen (guard (ra_root a = lib_sha256 lib (rr_root r) \<and> \<not> ra_created a < rn_created i) EHistory) (\<lambda>u.
               andthen (absent Journal (with_pending [renewalIntentName (ra_version a)]) EReserved) (\<lambda>u.
               andthen (install Journal name data) (\<lambda>u.
               andthen (syncDir Journal) (\<lambda>u.
               andthen (rotation_release lib bundle latest r i a initial) (\<lambda>nxt.
               andthen (guard (follows (ol lib) latest nxt) EHistory) (\<lambda>u.
               andthen (check_pending_release lib nxt) (\<lambda>u.
               andthen (install Journal (releaseName (rl_version nxt)) (record_of (ol_release lib) nxt)) (\<lambda>u.
               ret (history @ [nxt], True)))))))))))))))"

section \<open>Inspecting rotations\<close>

datatype rotation_state = RotPreparing | RotPrepared | RotApplying | RotApplied

fun verified_since :: "journal_lib \<Rightarrow> int \<Rightarrow> release list \<Rightarrow> bool op" where
  "verified_since lib version [] = ret False"
| "verified_since lib version (r # rs) =
     (if root_version r < version then ret False
      else andthen (readVerification lib r) (\<lambda>v.
        if v \<noteq> None \<and> ve_verified (the v) \<noteq> no_time then ret True else verified_since lib version rs))"

definition appliedRotationState :: "journal_lib \<Rightarrow> release list \<Rightarrow> int \<Rightarrow> rotation_state op" where
  "appliedRotationState lib history version =
     andthen (verified_since lib version (rev history)) (\<lambda>b. ret (if b then RotApplied else RotApplying))"

fun any_readable :: "string list \<Rightarrow> bool op" where
  "any_readable [] = ret False"
| "any_readable (n # ns) = andthen (try_read Journal n) (\<lambda>d. if d \<noteq> None then ret True else any_readable ns)"

text \<open>The first root a release starts from when its own root version is at least 2.\<close>

definition root_before :: "Bundle \<Rightarrow> release \<Rightarrow> int \<Rightarrow> bytes" where
  "root_before bundle latest version = (if version > 2 then rl_roots latest ! nat (version - 3) else bd_root bundle)"

definition inspectRotation :: "journal_lib \<Rightarrow> Bundle \<Rightarrow> release list \<Rightarrow> (rotation_state \<times> int) option op" where
  "inspectRotation lib bundle history =
     (let latest = last history; version = root_version latest; current = currentRoot bundle latest
      in andthen (if version > 1 then andthen (rotationHistory lib bundle current) (\<lambda>is. ret ()) else ret ()) (\<lambda>u.
         andthen (lstat Journal (rotationName (version + 1))) (\<lambda>prepared.
           if prepared then
             andthen (readRotation lib bundle current (version + 1)) (\<lambda>(r, i).
             andthen (any_readable (with_pending [rotationApplyName (rl_version latest + 1)])) (\<lambda>applying.
             ret (Some (if applying then RotApplying else RotPrepared, version + 1))))
           else
             andthen (any_readable [rotationIntentName (version + 1), pending_name (rotationIntentName (version + 1)), pending_name (rotationName (version + 1))]) (\<lambda>preparing.
               if preparing then ret (Some (RotPreparing, version + 1))
               else if version = 1 then ret None
               else
                 andthen (readRotation lib bundle (root_before bundle latest version) version) (\<lambda>(r, i).
                 andthen (guard (rr_root r = current) EHistory) (\<lambda>u.
                 andthen (appliedRotationState lib history version) (\<lambda>st.
                 ret (Some (st, version)))))))))"

end
