(* ===== verification/Omega_Encrypted.thy ===== *)
theory Omega_Encrypted
  imports Omega_Handoff
begin

text \<open>
  Rotations of an encrypted authority: the preparation of \<open>src/internal/omega/encrypted_rotation.go\<close> and the signers of
  \<open>operator_keys.go\<close>. One plan fixes the time and the role of a version before any key exists; every generated key refers to
  the digest of that plan, and a retry reads what an earlier attempt made. What is drawn at random is an argument.
\<close>

section \<open>The signers of the current root\<close>

text \<open>The first two keys that can be had; a file that is absent is skipped.\<close>

fun collect_quorum :: "string list \<Rightarrow> (string \<Rightarrow> string op) \<Rightarrow> (string, string) gomap \<Rightarrow> (string, string) gomap op" where
  "collect_quorum [] get keys = ret keys"
| "collect_quorum (n # ns) get keys =
     andthen (trying (get n)) (\<lambda>r.
       case r of
         Inr key \<Rightarrow> (let keys' = keys @ [(n, key)] in if length keys' = 2 then ret keys' else collect_quorum ns get keys')
       | Inl e \<Rightarrow> if e = ENotExist then collect_quorum ns get keys else throw e)"

definition root_getter :: "journal_lib \<Rightarrow> Bundle \<Rightarrow> operatorKeys \<Rightarrow> rotationIntent list \<Rightarrow> string \<Rightarrow> string op" where
  "root_getter lib bundle ss is name =
     (case filter (\<lambda>i. rn_schema i = 3) is of
        [] \<Rightarrow> session_initial lib ss name
      | gens \<Rightarrow> generationKey lib bundle ss (last gens) name)"

definition session_roots :: "journal_lib \<Rightarrow> Bundle \<Rightarrow> operatorKeys \<Rightarrow> bytes \<Rightarrow> (string, string) gomap op" where
  "session_roots lib bundle ss previous =
     (if \<not> ss_encrypted ss then activeRootKeys lib bundle previous (au_keys (ss_legacy ss))
      else
        andthen (rotationHistory lib bundle previous) (\<lambda>is.
        andthen (guard (list_all (\<lambda>i. rn_custody i = encryptedCustody \<and> rn_mode i = ss_mode ss) is) ECustody) (\<lambda>u.
        andthen (collect_quorum root_key_names (root_getter lib bundle ss is) []) (\<lambda>keys.
        andthen (guard (length keys \<ge> 2) EKey) (\<lambda>u.
        ret keys)))))"

section \<open>The plan\<close>

definition new_plan :: "journal_lib \<Rightarrow> Bundle \<Rightarrow> operatorKeys \<Rightarrow> bytes \<Rightarrow> int \<Rightarrow> string \<Rightarrow> gotime \<Rightarrow> gotime \<Rightarrow> encryptedRotationPlan" where
  "new_plan lib bundle ss previous version role old_expires now =
     \<lparr>ep_schema = 1, ep_mode = ss_mode ss, ep_fingerprint = omega_fingerprint (ol lib) bundle, ep_root_version = version,
      ep_previous_root = lib_sha256 lib previous, ep_created = truncate_second now, ep_role = role,
      ep_root_expires = (if role = ''root'' then rootExpiry old_expires (truncate_second now) else no_time)\<rparr>"

definition encrypted_plan_ok ::
    "journal_lib \<Rightarrow> Bundle \<Rightarrow> operatorKeys \<Rightarrow> bytes \<Rightarrow> int \<Rightarrow> string \<Rightarrow> gotime \<Rightarrow> gotime \<Rightarrow> encryptedRotationPlan \<Rightarrow> bool" where
  "encrypted_plan_ok lib bundle ss previous version role old_expires now p \<longleftrightarrow>
     ep_schema p = 1 \<and> ep_mode p = ss_mode ss \<and> ep_fingerprint p = omega_fingerprint (ol lib) bundle \<and> ep_root_version p = version \<and>
     ep_previous_root p = lib_sha256 lib previous \<and> ep_role p = role \<and> ep_created p \<noteq> no_time \<and> \<not> now < ep_created p \<and>
     ep_root_expires p = (if role = ''root'' then rootExpiry old_expires (ep_created p) else no_time)"

text \<open>Before a plan exists there is no key and no handoff of its version.\<close>

definition no_generation :: "int \<Rightarrow> unit op" where
  "no_generation version =
     andthen (directoryNames Rotations) (\<lambda>entries.
     andthen (guard (list_all (\<lambda>e. HasPrefix e (Itoa version @ ''.'') \<longrightarrow> e = pending_name (encryptedPlanName version)) entries) EHandoff) (\<lambda>u.
     andthen (absent Journal (handoff_outputs version) EHandoff) (\<lambda>u.
     absent OnlineKeys (with_pending (map (onlineKeyName version) online_roles)) EHandoff)))"

definition loadEncryptedPlan ::
    "journal_lib \<Rightarrow> Bundle \<Rightarrow> operatorKeys \<Rightarrow> bytes \<Rightarrow> int \<Rightarrow> string \<Rightarrow> gotime \<Rightarrow> rotationIntent option \<Rightarrow> encryptedRotationPlan op" where
  "loadEncryptedPlan lib bundle ss previous version role now existing =
     (let name = encryptedPlanName version
      in andthen (read_either Rotations name) (\<lambda>(committed, data).
         andthen (opt (ol_parse_root lib previous) EMetadata) (\<lambda>root.
         andthen (if data \<noteq> None \<and> ol_valid lib (the data) then opt (decodeRecord (jl_encrypted_plan lib) (the data)) EInvalid
                  else if committed \<or> existing \<noteq> None then throw EHandoff
                  else andthen (no_generation version) (\<lambda>u. ret (new_plan lib bundle ss previous version role (rm_expires root) now))) (\<lambda>p.
         andthen (guard (encrypted_plan_ok lib bundle ss previous version role (rm_expires root) now p) EInvalid) (\<lambda>u.
         andthen (guard (existing = None \<or>
                    record_of (jl_encrypted_plan lib) p = record_of (jl_encrypted_plan lib) (planFromIntent (the existing))) EHandoff) (\<lambda>u.
         andthen (install Rotations name (record_of (jl_encrypted_plan lib) p)) (\<lambda>u.
         andthen (syncDir Rotations) (\<lambda>u.
         ret p))))))))"

section \<open>Generating a key\<close>

text \<open>A key of its own: unlocked from what was encrypted, before it is named anywhere.\<close>

definition draw_generation ::
    "journal_lib \<Rightarrow> Bundle \<Rightarrow> operatorKeys \<Rightarrow> encryptedRotationPlan \<Rightarrow> string \<Rightarrow> string \<Rightarrow> string \<Rightarrow> (encryptedGenerationKey \<times> string) op" where
  "draw_generation lib bundle ss plan name drawn salt =
     (let b = plan_binding lib bundle plan name
      in andthen (secret ss) (\<lambda>password.
         andthen (opt (create_key lib b password salt drawn) EKey) (\<lambda>ciphertext.
         andthen (opt (unlock_key lib ciphertext b password) EKey) (\<lambda>private.
         ret (\<lparr>eg_schema = 1, eg_plan = lib_sha256 lib (record_of (jl_encrypted_plan lib) plan), eg_name = name,
               eg_public = b64_encode (drop 32 private), eg_ciphertext = ciphertext\<rparr>, b64_encode private)))))"

definition prepareGenerationKey ::
    "journal_lib \<Rightarrow> Bundle \<Rightarrow> operatorKeys \<Rightarrow> encryptedRotationPlan \<Rightarrow> string \<Rightarrow> bool \<Rightarrow> string \<Rightarrow> string \<Rightarrow> (string \<times> tuf_key \<times> string) op" where
  "prepareGenerationKey lib bundle ss plan name handedOff drawn salt =
     (let filename = encryptedGenerationName (ep_root_version plan) name
      in andthen (read_either Rotations filename) (\<lambda>(committed, data).
         andthen (guard (\<not> (data = None \<and> handedOff)) ENotExist) (\<lambda>u.
         andthen (if data \<noteq> None \<and> ol_valid lib (the data) then
                    andthen (opt (decodeRecord (jl_generation lib) (the data)) EInvalid) (\<lambda>c. ret (c, []))
                  else if committed \<or> handedOff then throw EKey
                  else draw_generation lib bundle ss plan name drawn salt) (\<lambda>(c, fresh).
         andthen (guard (generation_ok lib plan name c) EInvalid) (\<lambda>u.
         andthen (if fresh = [] then unlock_signer lib ss (eg_ciphertext c) (plan_binding lib bundle plan name) (eg_public c) else ret fresh) (\<lambda>encoded.
         andthen (opt (Option.bind (decodePublicKey (eg_public c)) (jl_key lib)) EKey) (\<lambda>public.
           let record = record_of (jl_generation lib) c
           in andthen (install Rotations filename record) (\<lambda>u.
              andthen (syncDir Rotations) (\<lambda>u.
              andthen (read Rotations filename) (\<lambda>stored.
              andthen (guard (stored = record) EKey) (\<lambda>u.
              ret (encoded, public, lib_sha256 lib record))))))))))))"

definition prepareOnlineGeneration ::
    "journal_lib \<Rightarrow> Bundle \<Rightarrow> operatorKeys \<Rightarrow> encryptedRotationPlan \<Rightarrow> string \<Rightarrow> bool \<Rightarrow> string \<Rightarrow> (string \<times> tuf_key \<times> string) op" where
  "prepareOnlineGeneration lib bundle ss plan role handedOff drawn =
     andthen (mkdir OnlineKeys) (\<lambda>u.
     andthen (syncDir Operational) (\<lambda>u.
     andthen (subdir OnlineKeys) (\<lambda>u.
       let name = onlineKeyName (ep_root_version plan) role
       in andthen (read_either OnlineKeys name) (\<lambda>(committed, data).
          andthen (if data \<noteq> None \<and> ol_valid lib (the data) then opt (decodeRecord (jl_online_key lib) (the data)) EInvalid
                   else if committed \<or> handedOff then throw EKey
                   else ret \<lparr>ok_schema = 1, ok_mode = ss_mode ss, ok_fingerprint = omega_fingerprint (ol lib) bundle,
                             ok_generation = ep_root_version plan, ok_previous = ep_previous_root plan, ok_role = role, ok_key = drawn\<rparr>) (\<lambda>c.
          andthen (guard (online_key_ok lib bundle (ss_mode ss) (ep_root_version plan) (ep_previous_root plan) role c) EKey) (\<lambda>u.
          andthen (opt (public_key lib (ok_key c)) EKey) (\<lambda>public.
            let record = record_of (jl_online_key lib) c
            in andthen (install OnlineKeys name record) (\<lambda>u.
               andthen (syncDir OnlineKeys) (\<lambda>u.
               andthen (cleanPendingTwins OnlineKeys ''.'') (\<lambda>u.
               andthen (read OnlineKeys name) (\<lambda>verified.
               andthen (guard (verified = record) EKey) (\<lambda>u.
               ret (ok_key c, public, lib_sha256 lib record)))))))))))))"

text \<open>One key of a rotation. The third root key may be missing once the handoff has fixed it.\<close>

record generated =
  gn_public :: "tuf_key option"
  gn_digest :: string
  gn_private :: "string option"

definition generate ::
    "journal_lib \<Rightarrow> Bundle \<Rightarrow> operatorKeys \<Rightarrow> encryptedRotationPlan \<Rightarrow> string \<Rightarrow> bool \<Rightarrow> rotationIntent option \<Rightarrow>
     (string, string) gomap \<Rightarrow> (string, string) gomap \<Rightarrow> string \<Rightarrow> generated op" where
  "generate lib bundle ss plan role handedOff existing drawn salts name =
     andthen (trying (if role = ''online'' then prepareOnlineGeneration lib bundle ss plan name handedOff (gm_get drawn name)
                      else prepareGenerationKey lib bundle ss plan name handedOff (gm_get drawn name) (gm_get salts name))) (\<lambda>r.
       case r of
         Inr (private, public, hash) \<Rightarrow> ret \<lparr>gn_public = Some public, gn_digest = hash, gn_private = Some private\<rparr>
       | Inl e \<Rightarrow>
           if e = ENotExist \<and> role = ''root'' \<and> existing \<noteq> None then
             ret \<lparr>gn_public = gm_lookup (rn_root_keys (the existing)) name, gn_digest = gm_get (rn_key_digests (the existing)) name, gn_private = None\<rparr>
           else throw e)"

fun generate_all :: "string list \<Rightarrow> (string \<Rightarrow> generated op) \<Rightarrow> (string, generated) gomap op" where
  "generate_all [] gen = ret []"
| "generate_all (n # ns) gen = andthen (gen n) (\<lambda>g. andthen (generate_all ns gen) (\<lambda>gs. ret ((n, g) # gs)))"

definition generated_publics :: "(string, generated) gomap \<Rightarrow> (string, tuf_key) gomap" where
  "generated_publics gs = concat (map (\<lambda>(n, g). case gn_public g of None \<Rightarrow> [] | Some k \<Rightarrow> [(n, k)]) gs)"

definition generated_privates :: "(string, generated) gomap \<Rightarrow> string list" where
  "generated_privates gs = concat (map (\<lambda>(n, g). case gn_private g of None \<Rightarrow> [] | Some k \<Rightarrow> [k]) gs)"

definition generated_intent :: "journal_lib \<Rightarrow> Bundle \<Rightarrow> operatorKeys \<Rightarrow> bytes \<Rightarrow> encryptedRotationPlan \<Rightarrow> string \<Rightarrow> (string, generated) gomap \<Rightarrow> rotationIntent" where
  "generated_intent lib bundle ss previous plan role gs =
     \<lparr>rn_schema = (if role = ''root'' then 3 else if role = ''targets'' then 2 else 4), rn_mode = ss_mode ss,
      rn_fingerprint = omega_fingerprint (ol lib) bundle, rn_root_version = ep_root_version plan, rn_previous_root = lib_sha256 lib previous,
      rn_created = ep_created plan, rn_keys = [], rn_custody = encryptedCustody,
      rn_online_keys = (if role = ''online'' then generated_publics gs else []),
      rn_key_digests = map (\<lambda>(n, g). (n, gn_digest g)) gs,
      rn_targets_key = (if role = ''targets'' then gm_lookup (generated_publics gs) ''targets'' else None),
      rn_root_keys = (if role = ''root'' then generated_publics gs else []),
      rn_root_expires = (if role = ''root'' then ep_root_expires plan else no_time)\<rparr>"

section \<open>Preparing a rotation\<close>

text \<open>Whether any output of the version is there, or cannot be ruled out.\<close>

fun any_output :: "string list \<Rightarrow> bool op" where
  "any_output [] = ret False"
| "any_output (n # ns) =
     andthen (trying (lstat Journal n)) (\<lambda>r.
     andthen (any_output ns) (\<lambda>b.
     ret (r \<noteq> Inr False \<or> b)))"

definition same_custody :: "operatorKeys \<Rightarrow> string \<Rightarrow> rotationIntent \<Rightarrow> bool" where
  "same_custody ss role i \<longleftrightarrow> rn_custody i = encryptedCustody \<and> rn_mode i = ss_mode ss \<and> ep_role (planFromIntent i) = role"

fun existing_encrypted_intent ::
    "journal_lib \<Rightarrow> Bundle \<Rightarrow> operatorKeys \<Rightarrow> bytes \<Rightarrow> int \<Rightarrow> string \<Rightarrow> string list \<Rightarrow> rotationIntent option \<Rightarrow> rotationIntent option op" where
  "existing_encrypted_intent lib bundle ss previous version role [] existing = ret existing"
| "existing_encrypted_intent lib bundle ss previous version role (name # names) existing =
     andthen (try_read Journal name) (\<lambda>data.
       if data = None \<or> \<not> ol_valid lib (the data) \<and> name \<noteq> rotationIntentName version
       then existing_encrypted_intent lib bundle ss previous version role names existing
       else
         andthen (opt (decodeRecord (jl_intent lib) (the data)) EInvalid) (\<lambda>i.
         andthen (guard (intent_valid lib bundle previous version i) EInvalid) (\<lambda>u.
         andthen (guard (same_custody ss role i) ECustody) (\<lambda>u.
         andthen (guard (existing = None \<or> record_of (jl_intent lib) (the existing) = record_of (jl_intent lib) i) EHandoff) (\<lambda>u.
         existing_encrypted_intent lib bundle ss previous version role names (Some i))))))"

definition rotation_names :: "string \<Rightarrow> string list" where
  "rotation_names role = (if role = ''root'' then root_key_names else if role = ''targets'' then [''targets''] else online_roles)"

text \<open>Keys first, then the public handoff, then the signature.\<close>

definition generate_rotation ::
    "journal_lib \<Rightarrow> Bundle \<Rightarrow> operatorKeys \<Rightarrow> bytes \<Rightarrow> int \<Rightarrow> string \<Rightarrow> gotime \<Rightarrow> (string, string) gomap \<Rightarrow> (string, string) gomap \<Rightarrow>
     bool \<Rightarrow> rotationIntent option \<Rightarrow> rotationRecord op" where
  "generate_rotation lib bundle ss previous version role now drawn salts handedOff existing =
     andthen (membershipStore True) (\<lambda>u.
     andthen (loadEncryptedPlan lib bundle ss previous version role now existing) (\<lambda>plan.
     andthen (session_roots lib bundle ss previous) (\<lambda>rootKeys.
     andthen (generate_all (rotation_names role) (generate lib bundle ss plan role handedOff existing drawn salts)) (\<lambda>gs.
       let i = generated_intent lib bundle ss previous plan role gs; successors = (if role = ''root'' then generated_privates gs else [])
       in andthen (guard (intent_valid lib bundle previous version i) EInvalid) (\<lambda>u.
          andthen (guard (existing = None \<or> record_of (jl_intent lib) (the existing) = record_of (jl_intent lib) i) EHandoff) (\<lambda>u.
          andthen (guard (role \<noteq> ''root'' \<or> length successors \<ge> 2) EKey) (\<lambda>u.
          andthen (finishRotation lib bundle previous version rootKeys now i successors) (\<lambda>r.
          andthen (cleanPendingTwins Rotations ''.'') (\<lambda>u.
          ret r)))))))))"

definition prepareEncryptedRotation ::
    "journal_lib \<Rightarrow> Bundle \<Rightarrow> operatorKeys \<Rightarrow> bytes \<Rightarrow> int \<Rightarrow> string \<Rightarrow> gotime \<Rightarrow> (string, string) gomap \<Rightarrow> (string, string) gomap \<Rightarrow> rotationRecord op" where
  "prepareEncryptedRotation lib bundle ss previous version role now drawn salts =
     andthen (any_output (handoff_outputs version)) (\<lambda>handedOff.
     andthen (existing_encrypted_intent lib bundle ss previous version role
                [rotationIntentName version, pending_name (rotationIntentName version)] None) (\<lambda>existing.
     andthen (trying (readRotation lib bundle previous version)) (\<lambda>prepared.
       case prepared of
         Inr (r, i) \<Rightarrow>
           andthen (guard (same_custody ss role i) ECustody) (\<lambda>u.
           andthen (cleanPendingTwins Journal ''.'') (\<lambda>u.
           ret r))
       | Inl e \<Rightarrow> generate_rotation lib bundle ss previous version role now drawn salts handedOff existing)))"

end
