(* ===== verification/Omega_Publish.thy ===== *)
theory Omega_Publish
  imports Omega_Encrypted
begin

text \<open>
  The publishing commands of the operator tool: \<open>publish.go\<close>, \<open>renew.go\<close> and \<open>rotation.go\<close>, from the point where the homes are
  open and locked. The bundle and the mode are those of the inspected authority, \<open>separate\<close> says that an operational home
  has been provisioned, and each clock reading is an argument. Reports are reduced to what decides: an operation returns
  when the release was verified over HTTPS.
\<close>

section \<open>Publishing a prepared release\<close>

record publish_env =
  pe_now :: gotime
  pe_ready :: gotime
  pe_promote :: gotime
  pe_failed :: gotime
  pe_checked :: gotime
  pe_served :: served
  pe_hosting :: "hosting option"

definition release_object :: "string \<times> bytes \<Rightarrow> unit op" where
  "release_object obj = writeObject (fst obj) (snd obj) False"

text \<open>From the checks of the destination to the verification over HTTPS.\<close>

definition publish_objects :: "journal_lib \<Rightarrow> Bundle \<Rightarrow> release list \<Rightarrow> release \<Rightarrow> expiries \<Rightarrow> publish_env \<Rightarrow> unit op" where
  "publish_objects lib bundle history r ex env =
     andthen (guard (pe_now env < ex_timestamp ex) EExpired) (\<lambda>u.
     andthen (checkTimestamp r history) (\<lambda>u.
     andthen (guard (se_client (pe_served env)) EVerify) (\<lambda>u.
     andthen targetsDir (\<lambda>u.
     andthen (for_each [''.'', ''targets''] (cleanPendingTwins Repository)) (\<lambda>u.
     andthen (for_each (rl_objects (ol lib) bundle r) release_object) (\<lambda>u.
     andthen (guard (pe_ready env < ex_timestamp ex) EExpired) (\<lambda>u.
     andthen (checkTimestamp r history) (\<lambda>u.
     andthen (writeObject ''timestamp.json'' (rl_timestamp r) True) (\<lambda>u.
     andthen (deployVercel (ol lib) bundle (pe_promote env) history (pe_hosting env)) (\<lambda>u.
     guard (verify_served (ol lib) bundle (pe_served env) r) EVerify))))))))))"

text \<open>\<open>inspect\<close>: the caller has no rotation report yet. A failure is recorded in the receipt, if that is possible.\<close>

definition publishPrepared :: "journal_lib \<Rightarrow> Bundle \<Rightarrow> release list \<Rightarrow> release \<Rightarrow> bool \<Rightarrow> publish_env \<Rightarrow> unit op" where
  "publishPrepared lib bundle history r inspect env =
     andthen (bindVercel (pe_hosting env)) (\<lambda>u.
     andthen (syncDir Journal) (\<lambda>u.
     andthen (opt (validate (ol lib) bundle r) EInvalid) (\<lambda>(m, ex).
     andthen (guard (ol_parse_root lib (currentRoot bundle r) \<noteq> None) EMetadata) (\<lambda>u.
     andthen (if inspect then andthen (inspectRotation lib bundle history) (\<lambda>x. ret ()) else ret ()) (\<lambda>u.
     andthen (cleanPendingTwins Journal ''.'') (\<lambda>u.
     andthen (trying (publish_objects lib bundle history r ex env)) (\<lambda>res.
       case res of
         Inl e \<Rightarrow> andthen (trying (saveVerification lib r (Some e) (pe_failed env))) (\<lambda>saved. throw e)
       | Inr u \<Rightarrow> saveVerification lib r None (pe_checked env))))))))"

section \<open>Approving a new release\<close>

record publish_request =
  pr_network :: string
  pr_directory :: string
  pr_manifest :: bytes
  pr_version :: int
  pr_separate :: bool

definition is_transition :: "release \<Rightarrow> bool" where
  "is_transition r \<longleftrightarrow> isRenewal r \<or> rl_schema r = 5 \<or> rl_schema r = 6"

definition previous_digest :: "omega_lib \<Rightarrow> release list \<Rightarrow> string" where
  "previous_digest lib history = (if history = [] then [] else release_digest lib (last history))"

text \<open>The keys of the online roles: those of the operational home, or the initial ones and what rotations made of them.\<close>

definition publish_online_keys :: "journal_lib \<Rightarrow> Bundle \<Rightarrow> operatorKeys \<Rightarrow> bool \<Rightarrow> string \<Rightarrow> release list \<Rightarrow> release \<Rightarrow> (string, string) gomap op" where
  "publish_online_keys lib bundle ss separate network history latest =
     (if separate then andthen (readRenewal lib network) (\<lambda>c. activeKeys lib c latest)
      else
        andthen (session_initial lib ss ''snapshot'') (\<lambda>sn.
        andthen (session_initial lib ss ''timestamp'') (\<lambda>ts.
          let keys = [(''snapshot'', sn), (''timestamp'', ts)]
          in if history = [] then ret keys
             else andthen (activeOnlineKeys lib bundle latest (Some keys)) (\<lambda>ks. ret (the ks)))))"

definition no_release :: release where
  "no_release = \<lparr>rl_schema = 0, rl_version = 0, rl_previous = [], rl_fingerprint = [], rl_created = no_time, rl_manifest = [],
     rl_targets = [], rl_snapshot = [], rl_timestamp = [], rl_targets_version = 0, rl_approved_at = no_time, rl_roots = [], rl_timestamp_days = 0\<rparr>"

definition approve_release ::
    "journal_lib \<Rightarrow> Bundle \<Rightarrow> ((bool \<Rightarrow> bytes option) option) \<Rightarrow> publish_request \<Rightarrow> bytes \<Rightarrow> release list \<Rightarrow> gotime \<Rightarrow> release op" where
  "approve_release lib bundle prompt req manifest history now =
     (let latest = (if history = [] then no_release else last history)
      in andthen (openOperatorKeys lib prompt) (\<lambda>ss.
         andthen (session_membership lib bundle ss latest) (\<lambda>tg.
         andthen (publish_online_keys lib bundle ss (pr_separate req) (pr_network req) history latest) (\<lambda>keys.
         opt (prepareRelease (ol lib) bundle (gm_get (gm_update ''targets'' tg keys)) (pr_version req) (previous_digest (ol lib) history)
                manifest now (rl_roots latest)) EMetadata))))"

text \<open>A complete pending release is resumed byte for byte, anything else is signed anew.\<close>

definition next_release ::
    "journal_lib \<Rightarrow> Bundle \<Rightarrow> ((bool \<Rightarrow> bytes option) option) \<Rightarrow> publish_request \<Rightarrow> bytes \<Rightarrow> release list \<Rightarrow> gotime \<Rightarrow> release op" where
  "next_release lib bundle prompt req manifest history now =
     andthen (try_read Journal (pending_name (releaseName (pr_version req)))) (\<lambda>p.
       if p \<noteq> None \<and> ol_valid lib (the p) then
         andthen (opt (decodeRecord (ol_release lib) (the p)) EInvalid) (\<lambda>r.
         andthen (guard (\<not> is_transition r \<and> rl_version r = pr_version req \<and> rl_previous r = previous_digest (ol lib) history \<and>
                         rl_manifest r = manifest) EApproval) (\<lambda>u.
         andthen (opt (validate (ol lib) bundle r) EInvalid) (\<lambda>v.
         ret r)))
       else approve_release lib bundle prompt req manifest history now)"

definition publish :: "journal_lib \<Rightarrow> Bundle \<Rightarrow> ((bool \<Rightarrow> bytes option) option) \<Rightarrow> publish_request \<Rightarrow> publish_env \<Rightarrow> unit op" where
  "publish lib bundle prompt req env =
     andthen (guard (pr_version req \<ge> 1 \<and> pr_version req \<le> maxReleases) EVersion) (\<lambda>u.
     andthen (opt (approvedManifest (ol lib) (pr_manifest req) (pr_network req)) EInvalid) (\<lambda>manifest.
     andthen (openPublication lib bundle (Some (pr_directory req)) True) (\<lambda>b.
     andthen (loadReleases (ol lib) bundle) (\<lambda>history.
     andthen (checkRecordedDestination history) (\<lambda>u.
       let latest = int (length history); version = pr_version req
       in andthen (guard (version \<ge> latest \<and> version \<le> latest + 1) EVersion) (\<lambda>u.
            if version = latest then
              andthen (guard (\<not> is_transition (last history) \<and> rl_manifest (last history) = manifest) EApproval) (\<lambda>u.
              publishPrepared lib bundle history (last history) True env)
            else
              andthen (absent Journal (with_pending [renewalIntentName version, rotationApplyName version, rotationTargetsName version]) EReserved) (\<lambda>u.
              andthen (next_release lib bundle prompt req manifest history (pe_now env)) (\<lambda>r.
              andthen (guard (history = [] \<or> follows (ol lib) (last history) r) EHistory) (\<lambda>u.
              andthen (install Journal (releaseName version) (record_of (ol_release lib) r)) (\<lambda>u.
              publishPrepared lib bundle (history @ [r]) r True env))))))))))"

section \<open>Renewal\<close>

definition renewalInterval :: duration where "renewalInterval = hours 24"

definition renewal_due :: "release \<Rightarrow> expiries \<Rightarrow> gotime \<Rightarrow> bool" where
  "renewal_due r ex now \<longleftrightarrow>
     \<not> now < minTime (rl_created r + (if rl_timestamp_days r = 0 then hours 6 else renewalInterval)) (ex_timestamp ex)"

definition intent_ok :: "omega_lib \<Rightarrow> release \<Rightarrow> gotime \<Rightarrow> renewalIntent \<Rightarrow> bool" where
  "intent_ok lib latest now i \<longleftrightarrow>
     validTimestampDays (ri_days i) \<and> ri_schema i = 1 \<and> ri_version i = rl_version latest + 1 \<and> ri_previous i = release_digest lib latest \<and>
     ri_created i \<noteq> no_time \<and> \<not> ri_created i < rl_created latest \<and> \<not> now < ri_created i"

text \<open>
  What \<open>renew\<close> does about the next version: complete an intent that was written, publish the latest release again, or
  make a new intent. A torn intent has signed nothing and is given up when the approval has expired.
\<close>

definition renewal_intent ::
    "journal_lib \<Rightarrow> release \<Rightarrow> expiries \<Rightarrow> verificationRecord option \<Rightarrow> gotime \<Rightarrow> bytes option \<Rightarrow> renewalIntent option op" where
  "renewal_intent lib latest ex receipt now pending =
     (let name = renewalIntentName (rl_version latest + 1)
      in andthen (read_either Journal name) (\<lambda>(committed, data).
         andthen (guard (\<not> (pending \<noteq> None \<and> data = None)) EReserved) (\<lambda>u.
           if data \<noteq> None \<and> ol_valid lib (the data) then
             andthen (opt (decodeRecord (jl_renewal lib) (the data)) EInvalid) (\<lambda>i.
             andthen (guard (intent_ok (ol lib) latest now i) EInvalid) (\<lambda>u.
             ret (Some i)))
           else
             andthen (guard (pending = None) EReserved) (\<lambda>u.
             andthen (guard (\<not> committed) EInvalid) (\<lambda>u.
               if \<not> now < ex_targets ex then
                 andthen (if data \<noteq> None then andthen (remove Journal (pending_name name)) (\<lambda>u. syncDir Journal) else ret ()) (\<lambda>u.
                 throw EExpired)
               else
                 let expired = (\<not> now < ex_timestamp ex);
                     verified = (receipt \<noteq> None \<and> ve_error (the receipt) = None \<and> ve_verified (the receipt) \<noteq> no_time)
                 in if data = None \<and> \<not> expired \<and> (\<not> verified \<or> \<not> renewal_due latest ex now) then ret None
                    else ret (Some \<lparr>ri_schema = 1, ri_version = rl_version latest + 1, ri_previous = release_digest (ol lib) latest,
                                    ri_created = truncate_second now, ri_days = timestampDays\<rparr>))))))"

definition sign_renewal ::
    "journal_lib \<Rightarrow> Bundle \<Rightarrow> (string, string) gomap \<Rightarrow> release list \<Rightarrow> renewalIntent \<Rightarrow> bytes option \<Rightarrow> release op" where
  "sign_renewal lib bundle keys history i pending =
     (let latest = last history
      in andthen (guard (ri_version i \<le> maxReleases) ELimit) (\<lambda>u.
         andthen (install Journal (renewalIntentName (rl_version latest + 1)) (record_of (jl_renewal lib) i)) (\<lambda>u.
         andthen (syncDir Journal) (\<lambda>u.
         andthen (opt (prepareRenewal (ol lib) bundle (gm_get keys) latest (ri_created i) (ri_days i)) EMetadata) (\<lambda>r.
         andthen (guard (\<not> (pending \<noteq> None \<and> ol_valid lib (the pending) \<and> pending \<noteq> Some (record_of (ol_release lib) r))) EReserved) (\<lambda>u.
         andthen (install Journal (releaseName (rl_version latest + 1)) (record_of (ol_release lib) r)) (\<lambda>u.
         ret r)))))))"

definition renew :: "journal_lib \<Rightarrow> string \<Rightarrow> bool \<Rightarrow> publish_env \<Rightarrow> unit op" where
  "renew lib network disposable env =
     andthen (readRenewal lib network) (\<lambda>custody.
     andthen (guard (rc_mode custody = custodyMode disposable) ECustody) (\<lambda>u.
       let bundle = rc_bundle custody; now = pe_now env
       in andthen (guard (ol_parse_root lib (bd_root bundle) \<noteq> None) EMetadata) (\<lambda>u.
          andthen (openPublication lib bundle None False) (\<lambda>b.
          andthen (loadReleases (ol lib) bundle) (\<lambda>history.
          andthen (guard (history \<noteq> []) EHistory) (\<lambda>u.
            let latest = last history
            in andthen (guard (ol_parse_root lib (currentRoot bundle latest) \<noteq> None) EMetadata) (\<lambda>u.
               andthen (opt (validate (ol lib) bundle latest) EInvalid) (\<lambda>(m, ex).
               andthen (guard (\<not> now < rl_created latest) EClock) (\<lambda>u.
               andthen (readVerification lib latest) (\<lambda>receipt.
               andthen (guard (receipt = None \<or> \<not> now < ve_checked (the receipt)) EClock) (\<lambda>u.
               andthen (checkRecordedDestination history) (\<lambda>u.
               andthen (activeKeys lib custody latest) (\<lambda>keys.
               andthen (resumeRotationApply lib bundle history now custody keys) (\<lambda>(history', resumed).
                 if resumed then publishPrepared lib bundle history' (last history') True env
                 else
                   andthen (absent Journal (with_pending [rotationTargetsName (rl_version latest + 1)]) EReserved) (\<lambda>u.
                   andthen (try_read Journal (pending_name (releaseName (rl_version latest + 1)))) (\<lambda>pending.
                   andthen (renewal_intent lib latest ex receipt now pending) (\<lambda>i.
                     case i of
                       None \<Rightarrow> publishPrepared lib bundle history latest True env
                     | Some intent \<Rightarrow>
                         andthen (sign_renewal lib bundle keys history intent pending) (\<lambda>r.
                         publishPrepared lib bundle (history @ [r]) r True env))))))))))))))))))"

section \<open>Rotation\<close>

record rotate_request =
  ro_network :: string
  ro_version :: int
  ro_role :: string
  ro_apply :: string
  ro_renew_approval :: bool
  ro_drawn :: "(string, string) gomap"
  ro_salts :: "(string, string) gomap"

text \<open>The custody of the session decides how a rotation is prepared.\<close>

definition prepare_role ::
    "journal_lib \<Rightarrow> Bundle \<Rightarrow> operatorKeys \<Rightarrow> rotate_request \<Rightarrow> bytes \<Rightarrow> gotime \<Rightarrow> rotationRecord op" where
  "prepare_role lib bundle ss req previous now =
     (if ss_encrypted ss then prepareEncryptedRotation lib bundle ss previous (ro_version req) (ro_role req) now (ro_drawn req) (ro_salts req)
      else
        andthen (activeRootKeys lib bundle previous (au_keys (ss_legacy ss))) (\<lambda>keys.
        andthen (checkOfflineReservation (ro_version req) (ro_role req)) (\<lambda>u.
          if ro_role req = ''targets'' then prepareMembershipRotation lib bundle previous (ro_version req) keys now (gm_get (ro_drawn req) ''targets'')
          else if ro_role req = ''root'' then prepareRootRotation lib bundle previous (ro_version req) keys now (ro_drawn req)
          else
            andthen (absent Rotations (with_pending [membershipKeyName (ro_version req)]) EReserved) (\<lambda>u.
            prepareRotation lib bundle previous (ro_version req) keys now (ro_drawn req)))))"

definition rotation_role :: "journal_lib \<Rightarrow> bytes \<Rightarrow> rotationRecord \<Rightarrow> string option" where
  "rotation_role lib previous r =
     (case (ol_parse_root lib previous, ol_parse_root lib (rr_root r)) of
        (Some old, Some nxt) \<Rightarrow> successorRole (ol lib) old nxt
      | _ \<Rightarrow> None)"

definition apply_rotation ::
    "journal_lib \<Rightarrow> Bundle \<Rightarrow> operatorKeys \<Rightarrow> rotate_request \<Rightarrow> release list \<Rightarrow> rotationRecord \<Rightarrow> gotime \<Rightarrow> release list op" where
  "apply_rotation lib bundle ss req history rotation now =
     (let latest = last history
      in if ro_version req \<noteq> root_version latest + 1 then ret history
         else
           andthen (reserveRotationApply lib bundle latest rotation now) (\<lambda>u.
           andthen (if ro_role req = ''targets'' \<or> ro_role req = ''root'' then prepareRotationTargets lib bundle latest rotation now ss else ret ()) (\<lambda>u.
           andthen (readRenewal lib (ro_network req)) (\<lambda>custody.
           andthen (activeKeys lib custody latest) (\<lambda>keys.
           andthen (resumeRotationApply lib bundle history now custody keys) (\<lambda>(history', resumed).
           andthen (guard resumed EHandoff) (\<lambda>u.
           ret history')))))))"

definition rotate_request_ok :: "rotate_request \<Rightarrow> bool" where
  "rotate_request_ok req \<longleftrightarrow>
     List.member [''online'', ''targets'', ''root''] (ro_role req) \<and>
     \<not> (ro_renew_approval req \<and> (ro_role req \<noteq> ''root'' \<or> ro_apply req = [])) \<and>
     \<not> (ro_role req = ''root'' \<and> ro_apply req \<noteq> [] \<and> \<not> ro_renew_approval req) \<and>
     ro_version req \<ge> 2 \<and> ro_version req \<le> int maxRootVersion"

text \<open>The prepared rotation of the requested version, made now or read back.\<close>

definition rotation_for ::
    "journal_lib \<Rightarrow> Bundle \<Rightarrow> operatorKeys \<Rightarrow> rotate_request \<Rightarrow> release \<Rightarrow> gotime \<Rightarrow> rotationRecord op" where
  "rotation_for lib bundle ss req latest now =
     (let previous = root_before bundle latest (ro_version req)
      in andthen (if ro_apply req = [] \<and> ro_version req = root_version latest + 1 then prepare_role lib bundle ss req previous now
                  else andthen (readRotation lib bundle previous (ro_version req)) (\<lambda>(r, i). ret r)) (\<lambda>rotation.
         andthen (readRotation lib bundle previous (ro_version req)) (\<lambda>(r, i).
         andthen (guard (rn_mode i = ss_mode ss \<and> rn_custody i = (if ss_encrypted ss then encryptedCustody else [])) ECustody) (\<lambda>u.
         andthen (guard (rotation_role lib previous rotation = Some (ro_role req)) EReserved) (\<lambda>u.
         andthen (guard (ro_apply req = [] \<or> ro_apply req = lib_sha256 lib (rr_root rotation)) EConfig) (\<lambda>u.
         andthen (guard (ro_version req > root_version latest \<or> rr_root rotation = rl_roots latest ! nat (ro_version req - 2)) EHistory) (\<lambda>u.
         ret rotation)))))))"

definition rotate :: "journal_lib \<Rightarrow> Bundle \<Rightarrow> ((bool \<Rightarrow> bytes option) option) \<Rightarrow> rotate_request \<Rightarrow> publish_env \<Rightarrow> unit op" where
  "rotate lib bundle prompt req env =
     andthen (guard (rotate_request_ok req) EConfig) (\<lambda>u.
     andthen (openOperatorKeys lib prompt) (\<lambda>ss.
     andthen (openPublication lib bundle None False) (\<lambda>b.
     andthen (loadReleases (ol lib) bundle) (\<lambda>history.
     andthen (guard (history \<noteq> []) EHistory) (\<lambda>u.
       let latest = last history; now = pe_now env
       in andthen (opt (ol_parse_root lib (currentRoot bundle latest)) EMetadata) (\<lambda>root.
          andthen (guard (ro_role req = ''root'' \<or> now < rm_expires root) EExpired) (\<lambda>u.
          andthen (guard (\<not> now < rl_created latest) EClock) (\<lambda>u.
          andthen (guard (ro_version req \<le> root_version latest + 1) EVersion) (\<lambda>u.
          andthen (rotation_for lib bundle ss req latest now) (\<lambda>rotation.
          andthen (if ro_version req \<le> root_version latest then andthen (appliedRotationState lib history (ro_version req)) (\<lambda>st. ret ()) else ret ()) (\<lambda>u.
            if ro_apply req = [] then andthen (opt (validate (ol lib) bundle latest) EInvalid) (\<lambda>v. ret ())
            else
              andthen (checkRecordedDestination history) (\<lambda>u.
              andthen (apply_rotation lib bundle ss req history rotation now) (\<lambda>history'.
              publishPrepared lib bundle history' (last history') False env)))))))))))))"

end
