(* ===== verification/Omega_Hoare.thy ===== *)
theory Omega_Hoare
  imports Omega_Store
begin

text \<open>
  Rules for the operations of \<open>Omega_Store\<close>. A triple has a precondition and postconditions for a result and for
  every other end, by an error or by the death of the process; assertions are about the directories only. An invariant of
  the directories is kept by the file operations when it ignores temporary names and is kept by synchronisation, so
  what is left for a client is the moment a file gets its final name.
\<close>

type_synonym dirs = "store_id \<Rightarrow> directory"

definition triple :: "(dirs \<Rightarrow> bool) \<Rightarrow> 'a op \<Rightarrow> ('a \<Rightarrow> dirs \<Rightarrow> bool) \<Rightarrow> (dirs \<Rightarrow> bool) \<Rightarrow> bool" where
  "triple P m Q X \<longleftrightarrow>
     (\<forall>w. P (w_dirs w) \<longrightarrow> (case m w of
        (Val x, w') \<Rightarrow> Q x (w_dirs w')
      | (Err e, w') \<Rightarrow> X (w_dirs w')
      | (Died, w') \<Rightarrow> X (w_dirs w')))"

abbreviation keeps :: "(dirs \<Rightarrow> bool) \<Rightarrow> 'a op \<Rightarrow> bool" where
  "keeps J m \<equiv> triple J m (\<lambda>x. J) J"

lemma tripleI:
  assumes "\<And>w. P (w_dirs w) \<Longrightarrow> case m w of
        (Val x, w') \<Rightarrow> Q x (w_dirs w') | (Err e, w') \<Rightarrow> X (w_dirs w') | (Died, w') \<Rightarrow> X (w_dirs w')"
  shows "triple P m Q X"
  using assms by (auto simp: triple_def)

lemma tripleD: "triple P m Q X \<Longrightarrow> P (w_dirs w) \<Longrightarrow> case m w of
        (Val x, w') \<Rightarrow> Q x (w_dirs w') | (Err e, w') \<Rightarrow> X (w_dirs w') | (Died, w') \<Rightarrow> X (w_dirs w')"
  by (simp add: triple_def)

lemma keeps_snd: "keeps J m \<Longrightarrow> J (w_dirs w) \<Longrightarrow> J (w_dirs (snd (m w)))"
  using tripleD [of J m "\<lambda>x. J" J w] by (auto split: prod.splits outcome.splits)

lemma triple_conseq:
  assumes "triple P' m Q' X'" "\<And>ds. P ds \<Longrightarrow> P' ds" "\<And>x ds. Q' x ds \<Longrightarrow> Q x ds" "\<And>ds. X' ds \<Longrightarrow> X ds"
  shows "triple P m Q X"
proof (rule tripleI)
  fix w :: world assume "P (w_dirs w)"
  then show "case m w of (Val x, w') \<Rightarrow> Q x (w_dirs w') | (Err e, w') \<Rightarrow> X (w_dirs w') | (Died, w') \<Rightarrow> X (w_dirs w')"
    using tripleD [OF assms(1), of w] assms(2-4) by (auto split: prod.splits outcome.splits)
qed

lemma triple_pre: "triple P' m Q X \<Longrightarrow> (\<And>ds. P ds \<Longrightarrow> P' ds) \<Longrightarrow> triple P m Q X"
  by (erule triple_conseq) auto

lemma triple_post: "triple P m Q' X \<Longrightarrow> (\<And>x ds. Q' x ds \<Longrightarrow> Q x ds) \<Longrightarrow> triple P m Q X"
  by (erule triple_conseq) auto

lemma triple_assume: "(\<And>ds. P ds \<Longrightarrow> triple (\<lambda>d. d = ds) m Q X) \<Longrightarrow> triple P m Q X"
  by (auto simp: triple_def)

lemma triple_const: "(b \<Longrightarrow> triple P m Q X) \<Longrightarrow> triple (\<lambda>ds. b \<and> P ds) m Q X"
  by (auto simp: triple_def)

lemma triple_ret [intro]: "(\<And>ds. P ds \<Longrightarrow> Q x ds) \<Longrightarrow> triple P (ret x) Q X"
  by (simp add: triple_def ret_def)

lemma triple_throw [intro]: "(\<And>ds. P ds \<Longrightarrow> X ds) \<Longrightarrow> triple P (throw e) Q X"
  by (simp add: triple_def throw_def)

lemma triple_andthen:
  assumes "triple P m R X" "\<And>x. triple (R x) (k x) Q X"
  shows "triple P (andthen m k) Q X"
proof (rule tripleI)
  fix w :: world assume P: "P (w_dirs w)"
  obtain r w1 where m: "m w = (r, w1)" by force
  show "case andthen m k w of (Val x, w') \<Rightarrow> Q x (w_dirs w') | (Err e, w') \<Rightarrow> X (w_dirs w') | (Died, w') \<Rightarrow> X (w_dirs w')"
  proof (cases r)
    case (Val x)
    then show ?thesis using tripleD [OF assms(1) P] tripleD [OF assms(2) [of x], of w1] m by (simp add: andthen_def)
  qed (use tripleD [OF assms(1) P] m in \<open>simp_all add: andthen_def\<close>)
qed

lemma triple_trying:
  assumes "triple P m Q X"
  shows "triple P (trying m) (\<lambda>r ds. case r of Inl e \<Rightarrow> X ds | Inr x \<Rightarrow> Q x ds) X"
proof (rule tripleI)
  fix w :: world assume "P (w_dirs w)"
  then show "case trying m w of
      (Val r, w') \<Rightarrow> (case r of Inl e \<Rightarrow> X (w_dirs w') | Inr x \<Rightarrow> Q x (w_dirs w')) | (Err e, w') \<Rightarrow> X (w_dirs w') | (Died, w') \<Rightarrow> X (w_dirs w')"
    using tripleD [OF assms, of w] by (auto simp: trying_def split: prod.splits outcome.splits)
qed

lemma triple_guard [intro]:
  assumes "\<And>ds. P ds \<Longrightarrow> b \<Longrightarrow> Q () ds" "\<And>ds. P ds \<Longrightarrow> X ds"
  shows "triple P (guard b e) Q X"
  using assms by (auto simp: guard_def)

lemma triple_opt [intro]:
  assumes "\<And>ds v. P ds \<Longrightarrow> x = Some v \<Longrightarrow> Q v ds" "\<And>ds. P ds \<Longrightarrow> X ds"
  shows "triple P (opt x e) Q X"
  using assms by (auto simp: opt_def split: option.split)

lemma triple_if: "(b \<Longrightarrow> triple P m Q X) \<Longrightarrow> (\<not> b \<Longrightarrow> triple P m' Q X) \<Longrightarrow> triple P (if b then m else m') Q X"
  by simp

text \<open>Closure of invariants under the combinators.\<close>

named_theorems keeps_rules "operations that keep an invariant of the directories"

lemma keeps_ret [keeps_rules]: "keeps J (ret x)" by blast
lemma keeps_throw [keeps_rules]: "keeps J (throw e)" by blast
lemma keeps_guard [keeps_rules]: "keeps J (guard b e)" by blast
lemma keeps_opt [keeps_rules]: "keeps J (opt x e)" by blast

lemma keeps_andthen [keeps_rules]: "keeps J m \<Longrightarrow> (\<And>x. keeps J (k x)) \<Longrightarrow> keeps J (andthen m k)"
  by (rule triple_andthen)

lemma keeps_trying [keeps_rules]: "keeps J m \<Longrightarrow> keeps J (trying m)"
  by (rule triple_post [OF triple_trying [of J m "\<lambda>x. J" J]]) (simp_all split: sum.split_asm)

lemma keeps_if [keeps_rules]: "(b \<Longrightarrow> keeps J m) \<Longrightarrow> (\<not> b \<Longrightarrow> keeps J m') \<Longrightarrow> keeps J (if b then m else m')"
  by simp

lemma keeps_option [keeps_rules]: "(x = None \<Longrightarrow> keeps J m) \<Longrightarrow> (\<And>v. x = Some v \<Longrightarrow> keeps J (k v)) \<Longrightarrow> keeps J (case x of None \<Rightarrow> m | Some v \<Rightarrow> k v)"
  by (cases x) auto

lemma keeps_sum [keeps_rules]: "(\<And>e. x = Inl e \<Longrightarrow> keeps J (m e)) \<Longrightarrow> (\<And>v. x = Inr v \<Longrightarrow> keeps J (k v)) \<Longrightarrow> keeps J (case x of Inl e \<Rightarrow> m e | Inr v \<Rightarrow> k v)"
  by (cases x) auto

lemma keeps_prod [keeps_rules]: "(\<And>a b. x = (a, b) \<Longrightarrow> keeps J (k a b)) \<Longrightarrow> keeps J (case x of (a, b) \<Rightarrow> k a b)"
  by (cases x) auto

lemma keeps_let [keeps_rules]: "(\<And>v. v = e \<Longrightarrow> keeps J (k v)) \<Longrightarrow> keeps J (let v = e in k v)"
  by (simp add: Let_def)

lemma keeps_for_each [keeps_rules]: "(\<And>x. x \<in> set xs \<Longrightarrow> keeps J (f x)) \<Longrightarrow> keeps J (for_each xs f)"
  by (induction xs) (auto intro: keeps_rules)

text \<open>Rules that use what a check has shown.\<close>

lemma keeps_opt_then: "(\<And>v. x = Some v \<Longrightarrow> keeps J (k v)) \<Longrightarrow> keeps J (andthen (opt x e) k)"
  by (rule triple_andthen [of _ _ "\<lambda>v ds. x = Some v \<and> J ds"]) (auto intro: triple_const)

lemma keeps_guard_then: "(b \<Longrightarrow> keeps J (k ())) \<Longrightarrow> keeps J (andthen (guard b e) k)"
  by (rule triple_andthen [of _ _ "\<lambda>u ds. b \<and> J ds"]) (auto intro: triple_const)

lemma keeps_then: "triple J m (\<lambda>x ds. P x \<and> J ds) J \<Longrightarrow> (\<And>x. P x \<Longrightarrow> keeps J (k x)) \<Longrightarrow> keeps J (andthen m k)"
  by (rule triple_andthen) (auto intro: triple_const)

section \<open>System calls\<close>

lemma triple_syscall:
  assumes "\<And>ds. P ds \<Longrightarrow> X ds"
    and "\<And>ds. P ds \<Longrightarrow> case f (ds s) of (Val x, d) \<Rightarrow> Q x (ds(s := d)) | (Err e, d) \<Rightarrow> X (ds(s := d)) | (Died, d) \<Rightarrow> X (ds(s := d))"
    and "\<And>ds part. P ds \<Longrightarrow> X (ds(s := torn part (ds s)))"
  shows "triple P (syscall torn f s) Q X"
proof (rule tripleI)
  fix w :: world assume "P (w_dirs w)"
  then show "case syscall torn f s w of (Val x, w') \<Rightarrow> Q x (w_dirs w') | (Err e, w') \<Rightarrow> X (w_dirs w') | (Died, w') \<Rightarrow> X (w_dirs w')"
    using assms(1,3) assms(2) [of "w_dirs w"]
    by (auto simp: syscall_def dir_step_def Let_def split: list.split fault.split prod.splits outcome.splits)
qed

lemma triple_call:
  assumes "\<And>ds. P ds \<Longrightarrow> X ds"
    and "\<And>ds. P ds \<Longrightarrow> case f (ds s) of (Val x, d) \<Rightarrow> Q x (ds(s := d)) | (Err e, d) \<Rightarrow> X (ds(s := d)) | (Died, d) \<Rightarrow> X (ds(s := d))"
  shows "triple P (call f s) Q X"
  unfolding call_def by (rule triple_syscall) (use assms in auto)

text \<open>Calls that only look at a directory.\<close>

definition file_data :: "directory \<Rightarrow> string \<Rightarrow> bytes option" where
  "file_data d name = map_option fl_data (gm_lookup (dr_live d) name)"

lemma triple_look:
  assumes "\<And>d. snd (f d) = d" and "\<And>ds. P ds \<Longrightarrow> X ds" and "\<And>ds x. P ds \<Longrightarrow> fst (f (ds s)) = Val x \<Longrightarrow> Q x ds"
  shows "triple P (call f s) Q X"
proof (rule triple_call)
  fix ds assume P: "P ds"
  have "snd (f (ds s)) = ds s" by (rule assms(1))
  then show "case f (ds s) of (Val x, d) \<Rightarrow> Q x (ds(s := d)) | (Err e, d) \<Rightarrow> X (ds(s := d)) | (Died, d) \<Rightarrow> X (ds(s := d))"
    using assms(2,3) [OF P] by (cases "f (ds s)") (auto split: outcome.split)
qed (rule assms(2))

lemma read_file_same [simp]: "snd (read_file name d) = d"
  by (simp add: read_file_def split: option.split)

lemma read_file_data: "fst (read_file name d) = Val data \<Longrightarrow> file_data d name = Some data"
  by (auto simp: read_file_def file_data_def split: option.splits if_splits)

lemma triple_read:
  assumes "\<And>ds. P ds \<Longrightarrow> X ds"
  shows "triple P (read s name) (\<lambda>data ds. P ds \<and> file_data (ds s) name = Some data) X"
  unfolding read_def by (rule triple_look) (use assms in \<open>auto dest: read_file_data\<close>)

lemma try_read_result:
  "try_read s name w = (case read s name w of (Val x, w') \<Rightarrow> (Val (Some x), w')
      | (Err e, w') \<Rightarrow> (if e = ENotExist then (Val None, w') else (Err e, w')) | (Died, w') \<Rightarrow> (Died, w'))"
  by (auto simp: try_read_def andthen_def trying_def ret_def throw_def split: prod.splits outcome.splits)

lemma read_absent: "read s name w = (Err ENotExist, w') \<Longrightarrow> gm_lookup (dr_live (w_dirs w s)) name = None"
  by (auto simp: read_def call_def syscall_def dir_step_def read_file_def Let_def
      split: list.splits fault.splits option.splits if_splits)

lemma read_world: "read s name w = (r, w') \<Longrightarrow> w_dirs w' = w_dirs w"
  by (auto simp: read_def call_def syscall_def dir_step_def Let_def fun_upd_idem split: list.splits fault.splits prod.splits)
     (metis read_file_same snd_conv fun_upd_triv)+

lemma triple_try_read:
  assumes "\<And>ds. P ds \<Longrightarrow> X ds"
  shows "triple P (try_read s name) (\<lambda>r ds. P ds \<and> file_data (ds s) name = r) X"
proof (rule tripleI)
  fix w :: world assume P: "P (w_dirs w)"
  obtain r w' where r: "read s name w = (r, w')" by force
  have same: "w_dirs w' = w_dirs w" by (rule read_world [OF r])
  have data: "file_data (w_dirs w s) name = Some x" if "r = Val x" for x
    using tripleD [OF triple_read [where P = "\<lambda>ds. ds = w_dirs w" and X = "\<lambda>ds. True" and s = s and name = name], of w] r that by auto
  have absent: "file_data (w_dirs w s) name = None" if "r = Err ENotExist"
    using read_absent r that by (auto simp: file_data_def)
  show "case try_read s name w of (Val r, w') \<Rightarrow> P (w_dirs w') \<and> file_data (w_dirs w' s) name = r | (Err e, w') \<Rightarrow> X (w_dirs w') | (Died, w') \<Rightarrow> X (w_dirs w')"
    using P assms same data absent by (cases r) (auto simp: try_read_result r)
qed

lemma keeps_look: "(\<And>d. snd (f d) = d) \<Longrightarrow> keeps J (call f s)"
  by (rule triple_look) auto

lemma keeps_read [keeps_rules]: "keeps J (read s name)"
  unfolding read_def by (rule keeps_look) simp

lemma keeps_try_read [keeps_rules]: "keeps J (try_read s name)"
  unfolding try_read_def by (intro keeps_rules)

lemma keeps_lstat [keeps_rules]: "keeps J (lstat s name)"
  unfolding lstat_def by (rule keeps_look) simp

lemma keeps_set_owner [keeps_rules]: "keeps J (set_owner s)"
  unfolding set_owner_def by (rule keeps_look) simp

lemma keeps_directoryNames [keeps_rules]: "keeps J (directoryNames s)"
  unfolding directoryNames_def by (rule keeps_look) simp

lemma keeps_subdir [keeps_rules]: "keeps J (subdir s)"
  unfolding subdir_def by (rule keeps_look) simp

section \<open>Files that get a final name\<close>

text \<open>
  \<open>stable J s\<close>: the invariant \<open>J\<close> does not depend on temporary files of the store \<open>s\<close> and is kept when entries or data become
  durable. \<open>admits J s name data\<close>: it is kept when a synchronised file with these bytes gets an unused final name.
\<close>

definition is_pending :: "string \<Rightarrow> bool" where
  "is_pending name \<longleftrightarrow> HasSuffix name ''.pending''"

lemma is_pending_name [simp]: "is_pending (pending_name name)"
  by (auto simp: is_pending_def pending_name_def HasSuffix_def HasPrefix_def)

definition with_live :: "dirs \<Rightarrow> store_id \<Rightarrow> (string, fnode) gomap \<Rightarrow> dirs" where
  "with_live ds s m = ds(s := (ds s)\<lparr>dr_live := m\<rparr>)"

definition stable :: "(dirs \<Rightarrow> bool) \<Rightarrow> store_id \<Rightarrow> bool" where
  "stable J s \<longleftrightarrow>
     (\<forall>ds n. J ds \<longrightarrow> is_pending n \<longrightarrow> J (with_live ds s (gm_delete n (dr_live (ds s))))) \<and>
     (\<forall>ds n f. J ds \<longrightarrow> is_pending n \<longrightarrow> J (with_live ds s (gm_update n f (dr_live (ds s))))) \<and>
     (\<forall>ds n f. J ds \<longrightarrow> gm_lookup (dr_live (ds s)) n = Some f \<longrightarrow> J (with_live ds s (gm_update n (f\<lparr>fl_synced := True\<rparr>) (dr_live (ds s))))) \<and>
     (\<forall>ds sub. J ds \<longrightarrow> J (ds(s := sync_entries sub (ds s))))"

definition admits :: "(dirs \<Rightarrow> bool) \<Rightarrow> store_id \<Rightarrow> string \<Rightarrow> bytes \<Rightarrow> bool" where
  "admits J s name data \<longleftrightarrow>
     (\<forall>ds f. J ds \<longrightarrow> gm_lookup (dr_live (ds s)) name = None \<longrightarrow> fl_data f = data \<longrightarrow> fl_synced f \<longrightarrow>
        J (with_live ds s (gm_update name f (dr_live (ds s)))))"

text \<open>The same for a file that may replace one.\<close>

definition admits_replace :: "(dirs \<Rightarrow> bool) \<Rightarrow> store_id \<Rightarrow> string \<Rightarrow> bytes \<Rightarrow> bool" where
  "admits_replace J s name data \<longleftrightarrow>
     (\<forall>ds f. J ds \<longrightarrow> fl_data f = data \<longrightarrow> fl_synced f \<longrightarrow> J (with_live ds s (gm_update name f (dr_live (ds s)))))"

lemma stable_facts:
  assumes "stable J s" "J ds"
  shows stable_delete: "is_pending n \<Longrightarrow> J (with_live ds s (gm_delete n (dr_live (ds s))))"
    and stable_update: "is_pending n \<Longrightarrow> J (with_live ds s (gm_update n f (dr_live (ds s))))"
    and stable_fsync: "gm_lookup (dr_live (ds s)) n = Some f \<Longrightarrow> J (with_live ds s (gm_update n (f\<lparr>fl_synced := True\<rparr>) (dr_live (ds s))))"
    and stable_sync: "J (ds(s := sync_entries sub (ds s)))"
  using assms unfolding stable_def by blast+

text \<open>What the temporary file of an operation holds.\<close>

definition holds :: "store_id \<Rightarrow> string \<Rightarrow> bytes \<Rightarrow> dirs \<Rightarrow> bool" where
  "holds s n data ds \<longleftrightarrow> (\<exists>f. gm_lookup (dr_live (ds s)) n = Some f \<and> fl_data f = data)"

definition holds_synced :: "store_id \<Rightarrow> string \<Rightarrow> bytes \<Rightarrow> dirs \<Rightarrow> bool" where
  "holds_synced s n data ds \<longleftrightarrow> (\<exists>f. gm_lookup (dr_live (ds s)) n = Some f \<and> fl_data f = data \<and> fl_synced f)"

lemma with_live_upd: "ds(s := (ds s)\<lparr>dr_live := m\<rparr>) = with_live ds s m"
  by (simp add: with_live_def)

lemma live_with_live [simp]: "dr_live (with_live ds s m s) = m"
  by (simp add: with_live_def)

lemma keeps_remove: "stable J s \<Longrightarrow> is_pending n \<Longrightarrow> keeps J (remove s n)"
  unfolding remove_def
  by (rule triple_call) (auto simp: with_live_upd stable_delete split: option.split)

lemma keeps_create: "stable J s \<Longrightarrow> is_pending n \<Longrightarrow> keeps J (create s n)"
  unfolding create_def
  by (rule triple_call) (auto simp: with_live_upd stable_update split: option.split)

lemma put_data_keeps: "stable J s \<Longrightarrow> is_pending n \<Longrightarrow> J ds \<Longrightarrow> J (ds(s := put_data n data (ds s)))"
  by (auto simp: put_data_def with_live_upd stable_update split: option.split)

lemma keeps_fsync: "stable J s \<Longrightarrow> keeps J (fsync s n)"
  unfolding fsync_def
  by (rule triple_call) (auto simp: sync_data_def with_live_upd stable_fsync split: option.split)

lemma keeps_sync_sub: "stable J s \<Longrightarrow> keeps J (sync_sub s sub)"
  unfolding sync_sub_def by (rule triple_call) (auto simp: stable_sync)

lemma keeps_syncDir: "stable J s \<Longrightarrow> keeps J (syncDir s)"
  unfolding syncDir_def by (rule keeps_sync_sub)

lemma keeps_syncObjectParent: "stable J Repository \<Longrightarrow> keeps J (syncObjectParent name)"
  unfolding syncObjectParent_def by (rule keeps_sync_sub)

lemma set_owner_any: "(\<And>ds. P ds \<Longrightarrow> X ds) \<Longrightarrow> triple P (set_owner s) (\<lambda>u. P) X"
  by (rule triple_conseq [OF keeps_set_owner [of P]]) auto

lemma create_triple:
  assumes "stable J s" "is_pending n"
  shows "triple J (create s n) (\<lambda>u ds. J ds \<and> gm_lookup (dr_live (ds s)) n \<noteq> None) J"
  unfolding create_def
  by (rule triple_call) (use assms in \<open>auto simp: with_live_upd stable_update split: option.split\<close>)

lemma write_triple:
  assumes "stable J s" "is_pending n"
  shows "triple (\<lambda>ds. J ds \<and> gm_lookup (dr_live (ds s)) n \<noteq> None) (write_data s n data) (\<lambda>u ds. J ds \<and> holds s n data ds) J"
  unfolding write_data_def
  by (rule triple_syscall) (use assms in \<open>auto simp: with_live_upd stable_update holds_def put_data_def split: option.split\<close>)

lemma fsync_triple:
  assumes "stable J s"
  shows "triple (\<lambda>ds. J ds \<and> holds s n data ds) (fsync s n) (\<lambda>u ds. J ds \<and> holds_synced s n data ds) J"
  unfolding fsync_def
  by (rule triple_call) (use assms in \<open>auto simp: sync_data_def with_live_upd stable_fsync holds_def holds_synced_def split: option.split\<close>)

lemma link_triple:
  assumes "stable J s" "admits J s name data"
  shows "triple (\<lambda>ds. (J ds \<and> gm_lookup (dr_live (ds s)) name = None) \<and> holds_synced s n data ds) (link s n name)
           (\<lambda>u ds. J ds \<and> file_data (ds s) name = Some data) J"
  unfolding link_def
  by (rule triple_call) (use assms in \<open>auto simp: with_live_upd holds_synced_def admits_def file_data_def split: option.split\<close>)

lemma rename_triple:
  assumes "stable J s" "is_pending n" "admits_replace J s name data"
  shows "triple (\<lambda>ds. J ds \<and> holds_synced s n data ds) (rename s n name) (\<lambda>u. J) J"
  unfolding rename_def
proof (rule triple_call)
  fix ds assume ds: "J ds \<and> holds_synced s n data ds"
  then obtain f where f: "gm_lookup (dr_live (ds s)) n = Some f" "fl_data f = data" "fl_synced f" by (auto simp: holds_synced_def)
  have "J (with_live ds s (gm_delete n (dr_live (ds s))))" using stable_delete assms ds by blast
  then have "J (with_live (with_live ds s (gm_delete n (dr_live (ds s)))) s (gm_update name f (gm_delete n (dr_live (ds s)))))"
    using assms(3) f(2,3) unfolding admits_replace_def by (metis live_with_live)
  moreover have "with_live (with_live ds s m) s m' = with_live ds s m'" for m m' by (simp add: with_live_def)
  ultimately show "case case gm_lookup (dr_live (ds s)) n of None \<Rightarrow> (Err ENotExist, ds s)
        | Some f \<Rightarrow> (Val (), (ds s)\<lparr>dr_live := gm_update name f (gm_delete n (dr_live (ds s)))\<rparr>) of
      (Val x, d) \<Rightarrow> J (ds(s := d)) | (Err e, d) \<Rightarrow> J (ds(s := d)) | (Died, d) \<Rightarrow> J (ds(s := d))"
    by (simp add: f(1) with_live_upd)
qed simp

lemma stable_file_data:
  assumes "stable J s" "\<not> is_pending name"
  shows "stable (\<lambda>ds. J ds \<and> file_data (ds s) name = x) s"
proof -
  show ?thesis unfolding stable_def
    using stable_delete [OF assms(1)] stable_update [OF assms(1)] stable_fsync [OF assms(1)] stable_sync [OF assms(1)]
    using assms(2) by (auto simp: sync_entries_def file_data_def)
qed

lemma stable_absent:
  assumes "stable J s" "\<not> is_pending name"
  shows "stable (\<lambda>ds. J ds \<and> gm_lookup (dr_live (ds s)) name = None) s"
proof -
  have ne: "n \<noteq> name" if "is_pending n" for n using that assms(2) by auto
  show ?thesis unfolding stable_def
    using stable_delete [OF assms(1)] stable_update [OF assms(1)] stable_fsync [OF assms(1)] stable_sync [OF assms(1)] ne
    by (auto simp: sync_entries_def) (metis option.distinct(1))+
qed

lemma holds_file_data: "file_data (ds s) n = Some data \<Longrightarrow> holds s n data ds"
  by (auto simp: file_data_def holds_def)

text \<open>A temporary file with the bytes \<open>data\<close>, made durable: the common part of the operations below.\<close>

lemma keeps_drop_temp: "stable J s \<Longrightarrow> is_pending n \<Longrightarrow> keeps J (drop_temp s n)"
  unfolding drop_temp_def by (intro keeps_rules keeps_remove)

lemma write_temp_triple:
  assumes J: "stable J s" "is_pending n"
  shows "triple J (write_temp s n data mode) (\<lambda>u ds. J ds \<and> holds_synced s n data ds) J"
  unfolding write_temp_def
proof (rule triple_andthen [OF create_triple [OF J]], rule triple_andthen [OF set_owner_any], simp,
       rule triple_andthen [OF write_triple [OF J]], rule triple_andthen)
  show "triple (\<lambda>ds. J ds \<and> holds s n data ds) (if mode then set_owner s else ret ()) (\<lambda>u ds. J ds \<and> holds s n data ds) J"
    by (rule triple_if) (auto intro: set_owner_any)
qed (rule fsync_triple [OF J(1)])

lemma install_new_keeps:
  assumes J: "stable J s" and np: "\<not> is_pending name" and ad: "admits J s name data"
  shows "triple (\<lambda>ds. J ds \<and> gm_lookup (dr_live (ds s)) name = None) (install_new s name data)
           (\<lambda>u ds. J ds \<and> file_data (ds s) name = Some data) J"
proof -
  let ?D = "\<lambda>ds. J ds \<and> file_data (ds s) name = Some data"
  have D: "stable ?D s" by (rule stable_file_data [OF J np])
  let ?A = "\<lambda>ds. J ds \<and> gm_lookup (dr_live (ds s)) name = None" and ?n = "pending_name name"
  have A: "stable ?A s" by (rule stable_absent [OF J np])
  have temp: "triple (\<lambda>ds. ?A ds \<and> file_data (ds s) ?n = old)
      (if old = Some data then andthen (set_owner s) (\<lambda>u. fsync s ?n)
       else andthen (if old = None then ret () else remove s ?n) (\<lambda>u. write_temp s ?n data False))
      (\<lambda>u ds. ?A ds \<and> holds_synced s ?n data ds) ?A" (is "triple ?P _ ?Q _") for old
  proof (rule triple_if)
    assume "old = Some data"
    then show "triple ?P (andthen (set_owner s) (\<lambda>u. fsync s ?n)) ?Q ?A"
      by (intro triple_andthen [OF set_owner_any] triple_pre [OF fsync_triple [OF A]]) (auto simp: holds_file_data)
  next
    have "keeps ?A (if old = None then ret () else remove s ?n)" by (intro keeps_rules keeps_remove A is_pending_name)
    then show "triple ?P (andthen (if old = None then ret () else remove s ?n) (\<lambda>u. write_temp s ?n data False)) ?Q ?A"
      by (rule triple_pre [OF triple_andthen [OF _ write_temp_triple [OF A is_pending_name]]]) simp
  qed
  have X: "triple P m Q ?A \<Longrightarrow> triple P m Q J" for P and m :: "unit op" and Q by (erule triple_conseq) auto
  have last: "keeps ?D (andthen (syncDir s) (\<lambda>u. andthen (remove s ?n) (\<lambda>u. syncDir s)))"
    by (intro keeps_andthen keeps_syncDir keeps_remove D is_pending_name)
  show ?thesis unfolding install_new_def
    by (rule triple_andthen [OF triple_try_read], blast, rule triple_andthen [OF X [OF temp]], rule triple_andthen [OF link_triple [OF J ad]])
       (rule triple_conseq [OF last], auto)
qed

lemma install_triple:
  assumes "stable J s" "\<not> is_pending name" "admits J s name data"
  shows "triple J (install s name data) (\<lambda>u ds. J ds \<and> file_data (ds s) name = Some data) J"
  unfolding install_def
proof (rule triple_andthen [OF triple_try_read], simp)
  fix r
  show "triple (\<lambda>ds. J ds \<and> file_data (ds s) name = r)
      (case r of None \<Rightarrow> install_new s name data | Some old \<Rightarrow> guard (old = data) ERefuse)
      (\<lambda>u ds. J ds \<and> file_data (ds s) name = Some data) J"
  proof (cases r)
    case None
    then show ?thesis using triple_pre [OF install_new_keeps [OF assms]] by (simp add: file_data_def)
  qed auto
qed

lemma install_keeps:
  assumes "stable J s" "\<not> is_pending name" "admits J s name data"
  shows "keeps J (install s name data)"
  by (rule triple_post [OF install_triple [OF assms]]) simp

lemma replaceRecord_keeps:
  assumes J: "stable J s" and ad: "admits_replace J s name data"
  shows "keeps J (replaceRecord s name data)"
  unfolding replaceRecord_def
  by (rule keeps_andthen [OF keeps_try_read], rule keeps_andthen [OF keeps_drop_temp [OF J is_pending_name]],
      rule triple_andthen [OF write_temp_triple [OF J is_pending_name]],
      rule triple_andthen [OF rename_triple [OF J is_pending_name ad]], rule keeps_syncDir [OF J])

text \<open>An immutable public object is admitted once, the timestamp replaces its predecessor.\<close>

lemma writeObject_immutable_keeps:
  assumes J: "stable J Repository" and np: "\<not> is_pending name" and ad: "admits J Repository name data"
  shows "keeps J (writeObject name data False)"
proof -
  let ?A = "\<lambda>ds. J ds \<and> gm_lookup (dr_live (ds Repository)) name = None" and ?n = "pending_name name"
  have A: "stable ?A Repository" by (rule stable_absent [OF J np])
  have X: "triple P m Q ?A \<Longrightarrow> triple P m Q J" for P and m :: "unit op" and Q by (erule triple_conseq) auto
  have new: "triple ?A (write_object_new name data False) (\<lambda>u. J) J"
    unfolding write_object_new_def
    by (rule triple_andthen [OF X [OF keeps_drop_temp [OF A is_pending_name]]],
        rule triple_andthen [OF X [OF write_temp_triple [OF A is_pending_name]]], simp only: if_False,
        rule triple_andthen [OF triple_post [OF link_triple [OF J ad], where Q = "\<lambda>u. J"]], simp)
       (intro keeps_andthen keeps_syncObjectParent keeps_remove J is_pending_name)
  have same: "keeps J (andthen (fsync Repository name) (\<lambda>u. syncObjectParent name))"
    by (intro keeps_andthen keeps_fsync keeps_syncObjectParent J)
  show ?thesis unfolding writeObject_def
  proof (rule triple_andthen [OF triple_try_read], simp)
    fix r
    show "triple (\<lambda>ds. J ds \<and> file_data (ds Repository) name = r)
        (if r = Some data then andthen (fsync Repository name) (\<lambda>u. syncObjectParent name)
         else if r \<noteq> None \<and> \<not> False then throw ERefuse else write_object_new name data False) (\<lambda>u. J) J"
      by (intro triple_if triple_pre [OF same] triple_pre [OF new] triple_throw) (auto simp: file_data_def)
  qed
qed

lemma writeObject_mutable_keeps:
  assumes J: "stable J Repository" and ad: "admits_replace J Repository name data"
  shows "keeps J (writeObject name data True)"
proof -
  have "keeps J (write_object_new name data True)"
    unfolding write_object_new_def
    by (rule keeps_andthen [OF keeps_drop_temp [OF J is_pending_name]],
        rule triple_andthen [OF write_temp_triple [OF J is_pending_name]], simp only: if_True,
        rule triple_andthen [OF rename_triple [OF J is_pending_name ad]], rule keeps_syncObjectParent [OF J])
  then show ?thesis unfolding writeObject_def
    by (intro keeps_rules keeps_fsync keeps_syncObjectParent J)
qed

lemma cleanPending_keeps: "stable J s \<Longrightarrow> keeps J (cleanPending s names)"
  unfolding cleanPending_def by (intro keeps_rules keeps_drop_temp keeps_syncDir is_pending_name)

lemma cleanPendingTwins_keeps: "stable J s \<Longrightarrow> keeps J (cleanPendingTwins s sub)"
  unfolding cleanPendingTwins_def clean_twin_def
  by (intro keeps_rules keeps_fsync keeps_sync_sub keeps_remove) (auto simp: is_pending_def)

end
