(* ===== verification/Omega_Inv.thy ===== *)
theory Omega_Inv
  imports Omega_Publish Omega_Hoare
begin

text \<open>
  The invariant of publication. It relates the journal and the public repository: a release file, once durable, keeps
  its bytes; every public object belongs to a release that is durable in the journal; the timestamp does not go back. This
  theory shows which changes of the directories keep it.
\<close>

section \<open>The invariant\<close>

definition record_codec :: "'a codec \<Rightarrow> bool" where
  "record_codec c \<longleftrightarrow> (\<forall>v. snd c (fst c v) = Some v)"

lemma decode_record: "record_codec c \<Longrightarrow> decodeRecord c (record_of c v) = Some v"
  by (simp add: record_codec_def decodeRecord_def record_of_def)

lemma decodeRecord_Some: "decodeRecord c data = Some v \<Longrightarrow> record_of c v = data"
  by (auto simp: decodeRecord_def split: option.splits if_splits)

lemma record_inject: "record_codec c \<Longrightarrow> record_of c v = record_of c v' \<longleftrightarrow> v = v'"
  by (metis decode_record option.inject)

lemma ol_release_truncate [simp]: "ol_release (ol lib) = ol_release lib"
  by (simp add: omega_lib.defs)

definition is_release :: "string \<Rightarrow> bool" where
  "is_release name \<longleftrightarrow> HasSuffix name ''.release.json''"

definition good_file :: "journal_lib \<Rightarrow> Bundle \<Rightarrow> string \<Rightarrow> bytes \<Rightarrow> bool" where
  "good_file lib bundle name data \<longleftrightarrow>
     (\<exists>r. data = record_of (ol_release lib) r \<and> name = releaseName (rl_version r) \<and> validate (ol lib) bundle r \<noteq> None)"

definition has_release :: "journal_lib \<Rightarrow> (string, fnode) gomap \<Rightarrow> release \<Rightarrow> bool" where
  "has_release lib m r \<longleftrightarrow> (\<exists>f. gm_lookup m (releaseName (rl_version r)) = Some f \<and> fl_data f = record_of (ol_release lib) r)"

abbreviation live_release :: "journal_lib \<Rightarrow> dirs \<Rightarrow> release \<Rightarrow> bool" where
  "live_release lib ds r \<equiv> has_release lib (dr_live (ds Journal)) r"

abbreviation durable :: "journal_lib \<Rightarrow> dirs \<Rightarrow> release \<Rightarrow> bool" where
  "durable lib ds r \<equiv> has_release lib (dr_disk (ds Journal)) r"

definition journal_inv :: "journal_lib \<Rightarrow> Bundle \<Rightarrow> dirs \<Rightarrow> bool" where
  "journal_inv lib bundle ds \<longleftrightarrow>
     (\<forall>n f. is_release n \<longrightarrow> gm_lookup (dr_live (ds Journal)) n = Some f \<longrightarrow> fl_synced f \<and> good_file lib bundle n (fl_data f)) \<and>
     (\<forall>n f. is_release n \<longrightarrow> gm_lookup (dr_disk (ds Journal)) n = Some f \<longrightarrow>
        fl_synced f \<and> (\<exists>g. gm_lookup (dr_live (ds Journal)) n = Some g \<and> fl_data g = fl_data f))"

text \<open>Releases in their order, each continuing the one before it.\<close>

definition linked :: "omega_lib \<Rightarrow> Bundle \<Rightarrow> release list \<Rightarrow> release \<Rightarrow> bool" where
  "linked lib bundle rs r \<longleftrightarrow>
     rl_version r = int (length rs) + 1 \<and> rl_previous r = previous_digest lib rs \<and> validate lib bundle r \<noteq> None \<and>
     (rs \<noteq> [] \<longrightarrow> take (length (rl_roots (last rs))) (rl_roots r) = rl_roots (last rs) \<and>
        (isRenewal r \<longrightarrow> targets_version r = targets_version (last rs) \<and> rl_targets r = rl_targets (last rs)) \<and>
        (is_transition r \<longrightarrow> rl_manifest r = rl_manifest (last rs)))"

definition chained :: "omega_lib \<Rightarrow> Bundle \<Rightarrow> release list \<Rightarrow> bool" where
  "chained lib bundle rs \<longleftrightarrow> (\<forall>i < length rs. linked lib bundle (take i rs) (rs ! i))"

text \<open>An object is public on the authority of a chain of durable releases.\<close>

definition public_ok :: "journal_lib \<Rightarrow> Bundle \<Rightarrow> dirs \<Rightarrow> string \<Rightarrow> bytes \<Rightarrow> bool" where
  "public_ok lib bundle ds name data \<longleftrightarrow>
     (\<exists>rs. rs \<noteq> [] \<and> chained (ol lib) bundle rs \<and> (\<forall>r \<in> set rs. durable lib ds r) \<and>
        ((name, data) \<in> set (rl_objects (ol lib) bundle (last rs)) \<or> name = ''timestamp.json'' \<and> data = rl_timestamp (last rs)))"

definition public_name :: "string \<Rightarrow> bool" where
  "public_name n \<longleftrightarrow> \<not> is_pending n \<and> n \<noteq> ''targets''"

definition entry :: "directory \<Rightarrow> string \<Rightarrow> fnode \<Rightarrow> bool" where
  "entry d n f \<longleftrightarrow> gm_lookup (dr_live d) n = Some f \<or> gm_lookup (dr_disk d) n = Some f"

definition public_inv :: "journal_lib \<Rightarrow> Bundle \<Rightarrow> dirs \<Rightarrow> bool" where
  "public_inv lib bundle ds \<longleftrightarrow>
     (\<forall>n f. public_name n \<longrightarrow> entry (ds Repository) n f \<longrightarrow> fl_synced f \<and> public_ok lib bundle ds n (fl_data f))"

text \<open>The custody record of the operational home is about this bundle.\<close>

definition custody_inv :: "journal_lib \<Rightarrow> Bundle \<Rightarrow> dirs \<Rightarrow> bool" where
  "custody_inv lib bundle ds \<longleftrightarrow>
     (\<forall>f. entry (ds Operational) (bd_network bundle @ ''.renewal.json'') f \<longrightarrow>
        fl_synced f \<and> (\<forall>c. decodeRecord (jl_custody lib) (fl_data f) = Some c \<longrightarrow> rc_bundle c = bundle))"

text \<open>\<open>v\<close> is a version whose timestamp, or that of a later one, is being served.\<close>

definition served_since :: "journal_lib \<Rightarrow> Bundle \<Rightarrow> int \<Rightarrow> dirs \<Rightarrow> bool" where
  "served_since lib bundle v ds \<longleftrightarrow>
     (v > 0 \<longrightarrow> (\<exists>r. durable lib ds r \<and> validate (ol lib) bundle r \<noteq> None \<and> rl_version r \<ge> v \<and>
        file_data (ds Repository) ''timestamp.json'' = Some (rl_timestamp r)))"

definition omega_inv :: "journal_lib \<Rightarrow> Bundle \<Rightarrow> release set \<Rightarrow> release set \<Rightarrow> int \<Rightarrow> dirs \<Rightarrow> bool" where
  "omega_inv lib bundle R L v ds \<longleftrightarrow>
     journal_inv lib bundle ds \<and> public_inv lib bundle ds \<and> custody_inv lib bundle ds \<and>
     (\<forall>r \<in> R. durable lib ds r) \<and> (\<forall>r \<in> L. live_release lib ds r) \<and> served_since lib bundle v ds"

section \<open>Names\<close>

lemma HasSuffix_append [simp]: "HasSuffix (x @ s) s"
  by (simp add: HasSuffix_def HasPrefix_def)

lemma release_is_release [simp]: "is_release (releaseName n)"
  by (simp add: is_release_def releaseName_def)

lemma suffix_facts:
  "\<not> is_release (x @ ''.pending'')" "\<not> is_release (x @ ''.verification.json'')" "\<not> is_release (x @ ''.renewal-intent.json'')"
  "\<not> is_release (x @ ''.rotation.json'')" "\<not> is_release (x @ ''.rotation-intent.json'')" "\<not> is_release (x @ ''.rotation-apply.json'')"
  "\<not> is_release (x @ ''.rotation-targets.json'')" "\<not> is_release ''binding.json''" "\<not> is_release ''vercel-binding.json''"
  "\<not> is_release ''vercel-deployment.json''"
  by (simp_all add: is_release_def HasSuffix_def HasPrefix_def)

lemma not_pending_facts:
  "\<not> is_pending (x @ ''.release.json'')" "\<not> is_pending (x @ ''.verification.json'')" "\<not> is_pending (x @ ''.renewal-intent.json'')"
  "\<not> is_pending (x @ ''.rotation.json'')" "\<not> is_pending (x @ ''.rotation-intent.json'')" "\<not> is_pending (x @ ''.rotation-apply.json'')"
  "\<not> is_pending (x @ ''.rotation-targets.json'')" "\<not> is_pending ''binding.json''" "\<not> is_pending ''vercel-binding.json''"
  "\<not> is_pending ''vercel-deployment.json''" "\<not> is_pending (x @ ''.targets-key.json'')" "\<not> is_pending (x @ ''.root-plan.json'')"
  "\<not> is_pending (x @ y @ ''-key.json'')" "\<not> is_pending (x @ ''.root.json'')" "\<not> is_pending (x @ ''.targets.json'')"
  "\<not> is_pending (x @ ''.snapshot.json'')" "\<not> is_pending (x @ y @ ''.bootstrap.json'')" "\<not> is_pending ''timestamp.json''"
  "\<not> is_pending ''1.root.json''" "\<not> is_pending (x @ ''.renewal.json'')"
  "\<not> is_pending (x @ ''.encrypted-plan.json'')" "\<not> is_pending (x @ y @ ''-key.age.json'')"
  by (simp_all add: is_pending_def HasSuffix_def HasPrefix_def)

lemma HasSuffix_split: "HasSuffix n s \<Longrightarrow> \<exists>x. n = x @ s"
proof -
  assume "HasSuffix n s"
  then have "take (length s) (rev n) = rev s" by (simp add: HasSuffix_def HasPrefix_def)
  then have "rev (rev s @ drop (length s) (rev n)) = n" by (metis append_take_drop_id rev_rev_ident)
  then have "rev (drop (length s) (rev n)) @ s = n" by simp
  then show ?thesis by metis
qed

lemma pending_not_release [simp]: "is_pending n \<Longrightarrow> \<not> is_release n"
  unfolding is_pending_def by (drule HasSuffix_split) (use suffix_facts(1) in blast)

lemma Itoa_inject: "0 \<le> m \<Longrightarrow> 0 \<le> n \<Longrightarrow> Itoa m = Itoa n \<longleftrightarrow> m = n"
proof -
  assume "0 \<le> m" "0 \<le> n"
  moreover have "nat_digits (nat m) = nat_digits (nat n) \<Longrightarrow> nat m = nat n" by (metis option.inject parse_nat_digits)
  ultimately show ?thesis by (auto simp: Itoa_def)
qed

lemma releaseName_inject: "0 \<le> m \<Longrightarrow> 0 \<le> n \<Longrightarrow> releaseName m = releaseName n \<longleftrightarrow> m = n"
  by (simp add: releaseName_def Itoa_inject)

lemma dir_of_plain: "CHR ''/'' \<notin> set n \<Longrightarrow> dir_of n = ''.''"
  using Cut_None [of "CHR ''/''" "rev n"] by (simp add: dir_of_def CutLast_def)

lemma dir_of_release [simp]: "dir_of (releaseName n) = ''.''"
proof -
  have "CHR ''/'' \<notin> set (Itoa n)" by (rule Itoa_no_char) (simp_all add: digit_val_def)
  then show ?thesis by (intro dir_of_plain) (simp add: releaseName_def)
qed

lemma lookup_sync [simp]:
  "gm_lookup (dr_disk (sync_entries sub d)) n = gm_lookup (if dir_of n = sub then dr_live d else dr_disk d) n"
proof -
  have "map_of (filter (\<lambda>(n, f). P n) m) n = (if P n then map_of m n else None)" for P and m :: "(string, fnode) gomap"
    by (induction m) auto
  then show ?thesis by (auto simp: sync_entries_def gm_lookup_def map_add_def split: option.split)
qed

lemma live_sync [simp]: "dr_live (sync_entries sub d) = dr_live d"
  by (simp add: sync_entries_def)

section \<open>Changes that keep the invariant\<close>

text \<open>The entries the invariant speaks of, and changes that leave such bytes alone and make nothing less durable.\<close>

definition watched :: "Bundle \<Rightarrow> store_id \<Rightarrow> string \<Rightarrow> bool" where
  "watched bundle s n \<longleftrightarrow>
     (case s of
        Journal \<Rightarrow> is_release n
      | Repository \<Rightarrow> public_name n
      | Operational \<Rightarrow> n = bd_network bundle @ ''.renewal.json''
      | _ \<Rightarrow> False)"

definition entry_le :: "fnode \<Rightarrow> fnode \<Rightarrow> bool" where
  "entry_le g f \<longleftrightarrow> fl_data g = fl_data f \<and> (fl_synced g \<longrightarrow> fl_synced f)"

abbreviation entries_le :: "fnode option \<Rightarrow> fnode option \<Rightarrow> bool" where
  "entries_le \<equiv> rel_option entry_le"

definition quiet :: "(store_id \<Rightarrow> string \<Rightarrow> bool) \<Rightarrow> dirs \<Rightarrow> dirs \<Rightarrow> bool" where
  "quiet W ds ds' \<longleftrightarrow>
     (\<forall>s n. W s n \<longrightarrow>
        entries_le (gm_lookup (dr_live (ds s)) n) (gm_lookup (dr_live (ds' s)) n) \<and>
        (entries_le (gm_lookup (dr_disk (ds s)) n) (gm_lookup (dr_disk (ds' s)) n) \<or>
         entries_le (gm_lookup (dr_live (ds s)) n) (gm_lookup (dr_disk (ds' s)) n)))"

lemma entries_le_refl [simp]: "entries_le x x"
  by (cases x) (auto simp: entry_le_def)

lemma entries_le_Some: "entries_le x (Some f) \<Longrightarrow> \<exists>g. x = Some g \<and> fl_data g = fl_data f \<and> (fl_synced g \<longrightarrow> fl_synced f)"
  by (auto simp: entry_le_def option_rel_Some2)

lemma entries_le_Some1: "entries_le (Some g) y \<Longrightarrow> \<exists>f. y = Some f \<and> fl_data g = fl_data f \<and> (fl_synced g \<longrightarrow> fl_synced f)"
  by (auto simp: entry_le_def option_rel_Some1)

lemma watched_not_pending: "watched bundle s n \<Longrightarrow> \<not> is_pending n"
  using pending_not_release not_pending_facts(20) by (auto simp: watched_def public_name_def split: store_id.splits)

lemma watched_facts [simp]:
  "watched bundle Journal n = is_release n" "watched bundle Repository n = public_name n"
  "watched bundle Operational n = (n = bd_network bundle @ ''.renewal.json'')"
  by (simp_all add: watched_def)

lemma public_timestamp [simp]: "public_name ''timestamp.json''"
  by (simp add: public_name_def not_pending_facts)

lemma quiet_entry:
  assumes "quiet W ds ds'" "W s n" "entry (ds' s) n f"
  obtains g where "entry (ds s) n g" "fl_data g = fl_data f" "fl_synced g \<longrightarrow> fl_synced f"
  using assms unfolding quiet_def entry_def by (metis entries_le_Some)

lemma quiet_live:
  assumes "quiet W ds ds'" "W s n" "gm_lookup (dr_live (ds s)) n = Some g"
  obtains f where "gm_lookup (dr_live (ds' s)) n = Some f" "fl_data g = fl_data f" "fl_synced g \<longrightarrow> fl_synced f"
  using assms unfolding quiet_def by (metis entries_le_Some1)

lemma quiet_journal:
  assumes q: "quiet (watched bundle) ds ds'" and J: "journal_inv lib bundle ds"
  shows "journal_inv lib bundle ds'"
  unfolding journal_inv_def
proof (intro conjI allI impI)
  fix n f assume n: "is_release n"
  have w: "watched bundle Journal n" using n by simp
  { assume "gm_lookup (dr_live (ds' Journal)) n = Some f"
    then obtain g where "gm_lookup (dr_live (ds Journal)) n = Some g" "fl_data g = fl_data f" "fl_synced g \<longrightarrow> fl_synced f"
      using q w unfolding quiet_def by (metis entries_le_Some)
    then show "fl_synced f" "good_file lib bundle n (fl_data f)" using J n unfolding journal_inv_def by metis+ }
  assume "gm_lookup (dr_disk (ds' Journal)) n = Some f"
  then have "entry (ds' Journal) n f" by (simp add: entry_def)
  then obtain g where g: "entry (ds Journal) n g" "fl_data g = fl_data f" "fl_synced g \<longrightarrow> fl_synced f"
    using quiet_entry [OF q w] by blast
  then obtain h where h: "gm_lookup (dr_live (ds Journal)) n = Some h" "fl_data h = fl_data g" "fl_synced g"
    using J n unfolding journal_inv_def entry_def by metis
  then show "fl_synced f" "\<exists>g. gm_lookup (dr_live (ds' Journal)) n = Some g \<and> fl_data g = fl_data f"
    using g quiet_live [OF q w h(1)] by metis+
qed

lemma quiet_durable:
  assumes q: "quiet (watched bundle) ds ds'" and J: "journal_inv lib bundle ds" and d: "durable lib ds r"
  shows "durable lib ds' r"
proof -
  let ?n = "releaseName (rl_version r)"
  obtain f where f: "gm_lookup (dr_disk (ds Journal)) ?n = Some f" "fl_data f = record_of (ol_release lib) r"
    using d by (auto simp: has_release_def)
  obtain g where g: "gm_lookup (dr_live (ds Journal)) ?n = Some g" "fl_data g = fl_data f"
    using J f(1) release_is_release unfolding journal_inv_def by metis
  have "\<exists>h. gm_lookup (dr_disk (ds' Journal)) ?n = Some h \<and> fl_data h = fl_data f"
    using q f(1) g unfolding quiet_def by (metis entries_le_Some1 watched_facts(1) release_is_release)
  then show ?thesis using f(2) by (auto simp: has_release_def)
qed

lemma quiet_live_release: "quiet (watched bundle) ds ds' \<Longrightarrow> live_release lib ds r \<Longrightarrow> live_release lib ds' r"
  unfolding has_release_def by (metis quiet_live watched_facts(1) release_is_release)

lemma public_ok_mono: "(\<And>r. durable lib ds r \<Longrightarrow> durable lib ds' r) \<Longrightarrow> public_ok lib bundle ds n data \<Longrightarrow> public_ok lib bundle ds' n data"
  unfolding public_ok_def by (elim exE, rule exI) (auto simp only:)

lemma quiet_inv:
  assumes q: "quiet (watched bundle) ds ds'" and J: "omega_inv lib bundle R L v ds"
  shows "omega_inv lib bundle R L v ds'"
proof -
  note J = J [unfolded omega_inv_def]
  have dur: "durable lib ds r \<Longrightarrow> durable lib ds' r" for r using quiet_durable [OF q] J by blast
  have pub: "public_ok lib bundle ds n d \<Longrightarrow> public_ok lib bundle ds' n d" for n d
    by (rule public_ok_mono [of lib ds]) (rule dur)
  have "public_inv lib bundle ds'" unfolding public_inv_def
  proof (intro allI impI)
    fix n f assume n: "public_name n" "entry (ds' Repository) n f"
    then obtain g where "entry (ds Repository) n g" "fl_data g = fl_data f" "fl_synced g \<longrightarrow> fl_synced f"
      using quiet_entry [OF q, of Repository n f] by auto
    then show "fl_synced f \<and> public_ok lib bundle ds' n (fl_data f)"
      using J n(1) pub unfolding public_inv_def by metis
  qed
  moreover have "custody_inv lib bundle ds'"
    unfolding custody_inv_def using quiet_entry [OF q, of Operational] J unfolding custody_inv_def by (metis watched_facts(3))
  moreover have "file_data (ds' Repository) ''timestamp.json'' = Some d" if "file_data (ds Repository) ''timestamp.json'' = Some d" for d
    using that quiet_live [OF q, of Repository "''timestamp.json''"] by (auto simp: file_data_def) metis
  then have "served_since lib bundle v ds'" using J dur unfolding served_since_def by meson
  ultimately show ?thesis
    using J dur quiet_journal [OF q] quiet_live_release [OF q] unfolding omega_inv_def by blast
qed

lemma quiet_unwatched:
  assumes "\<not> W s n"
  shows "quiet W ds (with_live ds s (gm_update n f (dr_live (ds s))))"
    and "quiet W ds (with_live ds s (gm_delete n (dr_live (ds s))))"
  using assms by (auto simp: quiet_def with_live_def)

lemma quiet_fsync:
  "gm_lookup (dr_live (ds s)) n = Some f \<Longrightarrow> quiet W ds (with_live ds s (gm_update n (f\<lparr>fl_synced := True\<rparr>) (dr_live (ds s))))"
  by (auto simp: quiet_def with_live_def entry_le_def)

lemma quiet_sync: "quiet W ds (ds(s := sync_entries sub (ds s)))"
  by (auto simp: quiet_def)

lemma quiet_made: "quiet W ds (ds(s := (ds s)\<lparr>dr_made := b\<rparr>))"
  by (auto simp: quiet_def)

text \<open>An invariant that quiet changes keep ignores temporary files and admits what it does not watch.\<close>

lemma quiet_stable:
  assumes J: "\<And>ds ds'. quiet W ds ds' \<Longrightarrow> J ds \<Longrightarrow> J ds'" and W: "\<And>n. W s n \<Longrightarrow> \<not> is_pending n"
  shows "stable J s"
proof -
  have "\<not> W s n" if "is_pending n" for n using W that by blast
  then show ?thesis unfolding stable_def using J quiet_unwatched [of W s] quiet_fsync [of ds s for ds] quiet_sync [of W] by blast
qed

lemma quiet_admits_replace:
  assumes "\<And>ds ds'. quiet W ds ds' \<Longrightarrow> J ds \<Longrightarrow> J ds'" "\<not> W s n"
  shows "admits_replace J s n data"
  unfolding admits_replace_def using assms quiet_unwatched(1) [of W s] by blast

lemma stable_inv: "stable (omega_inv lib bundle R L v) s"
  by (rule quiet_stable [where W = "watched bundle"]) (auto intro: quiet_inv simp: watched_not_pending)

lemma admits_unwatched: "\<not> watched bundle s n \<Longrightarrow> admits_replace (omega_inv lib bundle R L v) s n data"
  by (rule quiet_admits_replace [where W = "watched bundle"]) (auto intro: quiet_inv)

text \<open>A validated release gets its name.\<close>

lemma validate_facts:
  assumes "validate lib bundle r \<noteq> None"
  shows validate_version: "rl_version r \<ge> 1" and validate_timestamp: "\<exists>ts. ol_parse_list lib (rl_timestamp r) = Some ts \<and> ml_version ts = rl_version r"
  using assms
  by (auto simp: validate_def identity_ok_def metadata_ok_def split: if_splits option.splits)

lemma chained_validate:
  assumes "chained lib bundle rs" "r \<in> set rs"
  shows "validate lib bundle r \<noteq> None"
  using assms unfolding chained_def linked_def by (metis in_set_conv_nth)

lemma chained_last: "chained lib bundle rs \<Longrightarrow> rs \<noteq> [] \<Longrightarrow> validate lib bundle (last rs) \<noteq> None"
  using chained_validate last_in_set by blast

lemma chained_append: "chained lib bundle (rs @ [r]) \<longleftrightarrow> chained lib bundle rs \<and> linked lib bundle rs r"
  by (auto simp: chained_def less_Suc_eq nth_append)

lemma chained_Nil [simp]: "chained lib bundle []"
  by (simp add: chained_def)

lemma same_timestamp:
  assumes "validate lib bundle r \<noteq> None" "validate lib bundle r' \<noteq> None" "rl_timestamp r = rl_timestamp r'"
  shows "rl_version r = rl_version r'"
  using validate_timestamp [OF assms(1)] validate_timestamp [OF assms(2)] assms(3) by auto

lemma admits_release:
  assumes r: "validate (ol lib) bundle r \<noteq> None"
  shows "admits (omega_inv lib bundle R L v) Journal (releaseName (rl_version r)) (record_of (ol_release lib) r)"
  unfolding admits_def
proof (intro allI impI)
  fix ds f
  let ?n = "releaseName (rl_version r)"
  let ?ds' = "with_live ds Journal (gm_update ?n f (dr_live (ds Journal)))"
  assume J: "omega_inv lib bundle R L v ds" and none: "gm_lookup (dr_live (ds Journal)) ?n = None"
    and f: "fl_data f = record_of (ol_release lib) r" "fl_synced f"
  note J = J [unfolded omega_inv_def]
  have Jl: "dr_live (?ds' Journal) = gm_update ?n f (dr_live (ds Journal))" "dr_disk (?ds' Journal) = dr_disk (ds Journal)"
    and same: "?ds' s = ds s" if "s \<noteq> Journal" for s
    using that by (auto simp: with_live_def)
  have Jd: "dr_disk (?ds' Journal) = dr_disk (ds Journal)" by (simp add: with_live_def)
  have j: "journal_inv lib bundle ds" using J by blast
  have good: "good_file lib bundle ?n (fl_data f)" using r f(1) by (auto simp: good_file_def)
  have ne: "gm_lookup (dr_disk (ds Journal)) ?n = None"
    using j none release_is_release unfolding journal_inv_def by (metis not_Some_eq option.distinct(1))
  have "journal_inv lib bundle ?ds'"
    using j good f(2) ne unfolding journal_inv_def by (auto simp: with_live_def)
  moreover have dur: "durable lib ?ds' r' = durable lib ds r'" for r' by (simp add: Jd)
  have "public_inv lib bundle ?ds'" using J by (simp add: public_inv_def public_ok_def dur same)
  moreover have "custody_inv lib bundle ?ds'" using J by (simp add: custody_inv_def same)
  moreover have "served_since lib bundle v ?ds'" using J by (simp add: served_since_def dur same)
  moreover have "live_release lib ?ds' r'" if "live_release lib ds r'" for r'
    using that none by (auto simp: has_release_def with_live_def)
  ultimately show "omega_inv lib bundle R L v ?ds'" using J dur by (auto simp: omega_inv_def)
qed

text \<open>A file of the public repository: an object of a durable release, or its timestamp.\<close>

lemma repository_update:
  assumes J: "omega_inv lib bundle R L v ds" and f: "fl_synced f" "public_ok lib bundle ds n (fl_data f)"
    and ts: "n = ''timestamp.json'' \<Longrightarrow> served_since lib bundle v (with_live ds Repository (gm_update n f (dr_live (ds Repository))))"
  shows "omega_inv lib bundle R L v (with_live ds Repository (gm_update n f (dr_live (ds Repository))))" (is "omega_inv _ _ _ _ _ ?ds'")
proof -
  note J = J [unfolded omega_inv_def]
  have same: "?ds' s = ds s" if "s \<noteq> Repository" for s using that by (simp add: with_live_def)
  have ok: "public_ok lib bundle ?ds' m d = public_ok lib bundle ds m d" for m d by (simp add: public_ok_def same)
  have "public_inv lib bundle ?ds'" unfolding public_inv_def
  proof (intro allI impI)
    fix m g assume m: "public_name m" "entry (?ds' Repository) m g"
    then have "entry (ds Repository) m g \<or> m = n \<and> g = f" by (auto simp: entry_def with_live_def split: if_splits)
    then show "fl_synced g \<and> public_ok lib bundle ?ds' m (fl_data g)" using J f m(1) ok unfolding public_inv_def by metis
  qed
  moreover have "served_since lib bundle v ?ds'"
  proof (cases "n = ''timestamp.json''")
    case False
    then have "file_data (?ds' Repository) ''timestamp.json'' = file_data (ds Repository) ''timestamp.json''"
      by (simp add: file_data_def with_live_def)
    then show ?thesis using J by (simp add: served_since_def same)
  qed (rule ts)
  ultimately show ?thesis using J by (simp add: omega_inv_def journal_inv_def custody_inv_def same)
qed

lemma admits_object:
  assumes "rs \<noteq> []" "set rs \<subseteq> R" "chained (ol lib) bundle rs" "(n, data) \<in> set (rl_objects (ol lib) bundle (last rs))" "n \<noteq> ''timestamp.json''"
  shows "admits (omega_inv lib bundle R L v) Repository n data"
  unfolding admits_def
proof (intro allI impI)
  fix ds and f :: fnode
  assume J: "omega_inv lib bundle R L v ds" and f: "fl_data f = data" "fl_synced f"
  have "public_ok lib bundle ds n (fl_data f)" using J assms f(1) unfolding omega_inv_def public_ok_def by blast
  then show "omega_inv lib bundle R L v (with_live ds Repository (gm_update n f (dr_live (ds Repository))))"
    using repository_update [OF J f(2)] assms(5) by blast
qed

lemma admits_timestamp:
  assumes rs: "rs \<noteq> []" "set rs \<subseteq> R" "chained (ol lib) bundle rs" and v: "v > 0 \<Longrightarrow> rl_version (last rs) \<ge> v"
  shows "admits_replace (omega_inv lib bundle R L v) Repository ''timestamp.json'' (rl_timestamp (last rs))"
  unfolding admits_replace_def
proof (intro allI impI)
  fix ds and f :: fnode
  assume J: "omega_inv lib bundle R L v ds" and f: "fl_data f = rl_timestamp (last rs)" "fl_synced f"
  have d: "\<forall>r \<in> set rs. durable lib ds r" using J rs unfolding omega_inv_def by blast
  let ?ds' = "with_live ds Repository (gm_update ''timestamp.json'' f (dr_live (ds Repository)))"
  have "durable lib ?ds' (last rs)" using d last_in_set [OF rs(1)] by (simp add: with_live_def)
  moreover have "validate (ol lib) bundle (last rs) \<noteq> None" by (rule chained_last [OF rs(3,1)])
  moreover have "file_data (?ds' Repository) ''timestamp.json'' = Some (rl_timestamp (last rs))"
    using f(1) by (simp add: file_data_def with_live_def)
  ultimately have "served_since lib bundle v ?ds'" using v unfolding served_since_def by blast
  moreover have "public_ok lib bundle ds ''timestamp.json'' (fl_data f)" using d rs(1,3) f(1) unfolding public_ok_def by blast
  ultimately show "omega_inv lib bundle R L v ?ds'" by (intro repository_update [OF J f(2)])
qed

lemma sync_journal:
  assumes "omega_inv lib bundle R L v ds"
  shows "omega_inv lib bundle (R \<union> L) L v (ds(Journal := sync_entries ''.'' (ds Journal)))"
proof -
  let ?ds' = "ds(Journal := sync_entries ''.'' (ds Journal))"
  have "durable lib ?ds' r" if "live_release lib ds r" for r using that by (simp add: has_release_def)
  then show ?thesis
    using quiet_inv [OF quiet_sync [where s = Journal and sub = "''.''"] assms] assms unfolding omega_inv_def by blast
qed

lemma syncDir_journal:
  "triple (omega_inv lib bundle R L v) (syncDir Journal) (\<lambda>u. omega_inv lib bundle (R \<union> L) L v) (omega_inv lib bundle R L v)"
  unfolding syncDir_def sync_sub_def
  by (rule triple_call) (simp_all add: sync_journal)

lemma omega_inv_mono: "omega_inv lib bundle R' L' v ds \<Longrightarrow> R \<subseteq> R' \<Longrightarrow> L \<subseteq> L' \<Longrightarrow> omega_inv lib bundle R L v ds"
  unfolding omega_inv_def by blast

lemma omega_inv_live: "omega_inv lib bundle R (insert r L) v ds \<longleftrightarrow> omega_inv lib bundle R L v ds \<and> live_release lib ds r"
  unfolding omega_inv_def by blast

section \<open>Power loss\<close>

lemma survivor:
  assumes "power_loss ds ds'" "gm_lookup (dr_live (ds' s)) n = Some f"
  obtains g where "entry (ds s) n g" "fl_synced f" "fl_synced g \<longrightarrow> fl_data f = fl_data g"
proof -
  have "survives (gm_lookup (dr_live (ds s)) n) (gm_lookup (dr_disk (ds s)) n) (Some f)"
    using assms unfolding power_loss_def dir_loss_def by metis
  then show ?thesis using that by (auto simp: survives_def entry_def)
qed

lemma loss_entry: "power_loss ds ds' \<Longrightarrow> entry (ds' s) n f \<longleftrightarrow> gm_lookup (dr_live (ds' s)) n = Some f"
  by (simp add: entry_def power_loss_def dir_loss_def)

lemma journal_entry:
  assumes "journal_inv lib bundle ds" "is_release n" "entry (ds Journal) n g"
  obtains h where "gm_lookup (dr_live (ds Journal)) n = Some h" "fl_data h = fl_data g" "fl_synced g" "good_file lib bundle n (fl_data g)"
  using assms unfolding journal_inv_def entry_def by metis

lemma loss_journal:
  assumes "journal_inv lib bundle ds" "power_loss ds ds'"
  shows "journal_inv lib bundle ds'"
proof -
  have "fl_synced f \<and> good_file lib bundle n (fl_data f)" if "is_release n" "gm_lookup (dr_live (ds' Journal)) n = Some f" for n f
    using survivor [OF assms(2) that(2)] journal_entry [OF assms(1) that(1)] by metis
  moreover have "dr_disk (ds' Journal) = dr_live (ds' Journal)" using assms(2) by (simp add: power_loss_def dir_loss_def)
  ultimately show ?thesis by (simp add: journal_inv_def)
qed

lemma loss_durable:
  assumes "journal_inv lib bundle ds" "power_loss ds ds'" "durable lib ds r"
  shows "durable lib ds' r \<and> live_release lib ds' r"
proof -
  let ?n = "releaseName (rl_version r)"
  obtain f where f: "gm_lookup (dr_disk (ds Journal)) ?n = Some f" "fl_data f = record_of (ol_release lib) r"
    using assms(3) by (auto simp: has_release_def)
  obtain g where g: "gm_lookup (dr_live (ds Journal)) ?n = Some g" "fl_data g = fl_data f"
    using assms(1) f(1) release_is_release unfolding journal_inv_def by metis
  have "survives (Some g) (Some f) (gm_lookup (dr_live (ds' Journal)) ?n)"
    using assms(2) f g unfolding power_loss_def dir_loss_def by metis
  then obtain h where h: "gm_lookup (dr_live (ds' Journal)) ?n = Some h" by (auto simp: survives_def split: option.splits)
  obtain k where k: "entry (ds Journal) ?n k" "fl_synced k \<longrightarrow> fl_data h = fl_data k" using survivor [OF assms(2) h] by metis
  have "fl_data k = fl_data f" "fl_synced k"
    using journal_entry [OF assms(1) release_is_release k(1)] g by (metis option.inject)+
  moreover have "dr_disk (ds' Journal) = dr_live (ds' Journal)" using assms(2) by (simp add: power_loss_def dir_loss_def)
  ultimately show ?thesis using h k(2) f(2) by (simp add: has_release_def)
qed

lemma loss_inv:
  assumes J: "omega_inv lib bundle R L v ds" and p: "power_loss ds ds'"
  shows "omega_inv lib bundle R R 0 ds'"
proof -
  note J = J [unfolded omega_inv_def]
  have dur: "durable lib ds r \<Longrightarrow> durable lib ds' r \<and> live_release lib ds' r" for r using loss_durable [OF _ p] J by blast
  have pub: "public_ok lib bundle ds n d \<Longrightarrow> public_ok lib bundle ds' n d" for n d
    by (rule public_ok_mono [of lib ds]) (use dur in blast)
  have "public_inv lib bundle ds'" unfolding public_inv_def
  proof (intro allI impI)
    fix n f assume n: "public_name n" "entry (ds' Repository) n f"
    then obtain g where "entry (ds Repository) n g" "fl_synced f" "fl_synced g \<longrightarrow> fl_data f = fl_data g"
      using survivor [OF p] loss_entry [OF p] by metis
    then show "fl_synced f \<and> public_ok lib bundle ds' n (fl_data f)" using J n(1) pub unfolding public_inv_def by metis
  qed
  moreover have "custody_inv lib bundle ds'"
    unfolding custody_inv_def
  proof (intro allI impI)
    fix f assume "entry (ds' Operational) (bd_network bundle @ ''.renewal.json'') f"
    then have f: "gm_lookup (dr_live (ds' Operational)) (bd_network bundle @ ''.renewal.json'') = Some f" by (simp only: loss_entry [OF p])
    obtain g where "entry (ds Operational) (bd_network bundle @ ''.renewal.json'') g" "fl_synced f" "fl_synced g \<longrightarrow> fl_data f = fl_data g"
      by (rule survivor [OF p f])
    then show "fl_synced f \<and> (\<forall>c. decodeRecord (jl_custody lib) (fl_data f) = Some c \<longrightarrow> rc_bundle c = bundle)"
      using J by (simp add: custody_inv_def)
  qed
  ultimately show ?thesis
    using J dur loss_journal [OF _ p] unfolding omega_inv_def served_since_def by simp
qed

end
