(* ===== verification/Omega_Keeps.thy ===== *)
theory Omega_Keeps
  imports Omega_Inv
begin

text \<open>
  What the commands of the operator tool may do to an invariant that is indifferent to private records. The interface
  is the locale \<open>private_files\<close>: an invariant that ignores temporary files, is kept by synchronisation and lets records other
  than releases be installed and replaced. Hosting, receipts, rotations and reservations keep every such invariant. It is
  interpreted on the publication invariant of \<open>Omega_Inv\<close>.
\<close>

definition is_intent :: "string \<Rightarrow> bool" where
  "is_intent n \<longleftrightarrow> HasSuffix n ''.rotation-intent.json''"

definition private_name :: "store_id \<Rightarrow> string \<Rightarrow> bool" where
  "private_name s n \<longleftrightarrow> \<not> is_pending n \<and> (s = Journal \<and> \<not> is_release n \<and> \<not> is_intent n \<or> s = Rotations \<or> s = OnlineKeys)"

lemmas name_defs = renewalIntentName_def rotationName_def rotationIntentName_def rotationApplyName_def rotationTargetsName_def
  verificationName_def vercelBindingName_def vercelDeploymentName_def membershipKeyName_def rootPlanName_def rootKeyName_def onlineKeyName_def
  encryptedPlanName_def encryptedGenerationName_def

lemma private_names [simp]:
  "private_name Journal (renewalIntentName n)" "private_name Journal (rotationName n)"
  "private_name Journal (rotationApplyName n)" "private_name Journal (rotationTargetsName n)" "private_name Journal (verificationName r)"
  "private_name Journal vercelBindingName" "private_name Journal vercelDeploymentName" "private_name Journal ''binding.json''"
  "private_name Rotations (membershipKeyName n)" "private_name Rotations (rootPlanName n)" "private_name Rotations (rootKeyName n name)"
  "private_name OnlineKeys (onlineKeyName n name)" "private_name Rotations (encryptedPlanName n)"
  "private_name Rotations (encryptedGenerationName n name)"
  using not_pending_facts(13) [of "Itoa n" "''.'' @ name"] not_pending_facts(22) [of "Itoa n" "''.'' @ name"]
  by (simp_all add: private_name_def name_defs suffix_facts not_pending_facts is_intent_def HasSuffix_def HasPrefix_def)

lemma admits_replace_admits: "admits_replace J s n data \<Longrightarrow> admits J s n data"
  by (simp add: admits_replace_def admits_def)

lemma intent_names [simp]:
  "\<not> is_pending (rotationIntentName n)" "\<not> is_release (rotationIntentName n)" "is_intent (rotationIntentName n)"
  by (simp_all add: name_defs suffix_facts not_pending_facts is_intent_def)

locale private_files =
  fixes J :: "dirs \<Rightarrow> bool" and jlib :: journal_lib
  assumes stable: "stable J s"
    and made: "J ds \<Longrightarrow> J (ds(s := (ds s)\<lparr>dr_made := b\<rparr>))"
    and own: "private_name s n \<Longrightarrow> admits J s n data"
    and own_replace: "private_name Journal n \<Longrightarrow> admits_replace J Journal n data"
    and own_intent: "rn_custody i \<noteq> encryptedCustody \<Longrightarrow> admits J Journal (rotationIntentName v) (record_of (jl_intent jlib) i)"
begin

lemma keeps_install [keeps_rules]: "private_name s n \<Longrightarrow> keeps J (install s n data)"
  by (rule install_keeps [OF stable _ own]) (auto simp: private_name_def)

lemma keeps_replaceRecord [keeps_rules]: "private_name Journal n \<Longrightarrow> keeps J (replaceRecord Journal n data)"
  by (rule replaceRecord_keeps [OF stable own_replace])

lemma keeps_mkdir [keeps_rules]: "keeps J (mkdir s)"
  unfolding mkdir_def by (rule triple_call) (auto simp: made)

lemmas stable_rules [keeps_rules] = keeps_syncDir [OF stable] cleanPendingTwins_keeps [OF stable] keeps_remove [OF stable]

lemma keeps_absent [keeps_rules]: "keeps J (absent s names e)"
  unfolding absent_def by (intro keeps_rules)

lemma keeps_read_either [keeps_rules]: "keeps J (read_either s n)"
  unfolding read_either_def by (intro keeps_rules)

text \<open>Hosting and receipts.\<close>

lemma keeps_bindVercel [keeps_rules]: "keeps J (bindVercel ho)"
  unfolding bindVercel_def Let_def by (intro keeps_rules private_names)

lemma keeps_save_receipt [keeps_rules]: "keeps J (save_receipt h v)"
  unfolding save_receipt_def by (intro keeps_rules private_names)

lemma keeps_readVercelReceipt [keeps_rules]: "keeps J (readVercelReceipt l h history)"
  unfolding readVercelReceipt_def Let_def by (intro keeps_rules private_names is_pending_name)

lemma keeps_settle_old [keeps_rules]: "keeps J (settle_old h r v)"
  unfolding settle_old_def by (intro keeps_rules)

lemma keeps_settle_active [keeps_rules]: "keeps J (settle_active h p v)"
  unfolding settle_active_def by (intro keeps_rules)

lemma keeps_bool_case [keeps_rules]: "keeps J (case b of True \<Rightarrow> m | False \<Rightarrow> m')" if "b \<Longrightarrow> keeps J m" "\<not> b \<Longrightarrow> keeps J m'"
  using that by (cases b) auto

lemma keeps_stage_release [keeps_rules]: "keeps J (stage_release l h r objects v)"
  unfolding stage_release_def Let_def by (intro keeps_rules)

lemma keeps_promote_release [keeps_rules]: "keeps J (promote_release h p v)"
  unfolding promote_release_def Let_def by (intro keeps_rules)

lemma keeps_wait_hosted [keeps_rules]: "keeps J (wait_hosted h objects)"
  unfolding wait_hosted_def by (intro keeps_rules)

lemma keeps_deployVercel [keeps_rules]: "keeps J (deployVercel l bundle now history ho)"
  unfolding deployVercel_def Let_def by (intro keeps_rules)

lemma keeps_readVerification [keeps_rules]: "keeps J (readVerification l r)"
  unfolding readVerification_def by (intro keeps_rules)

lemma keeps_saveVerification [keeps_rules]: "keeps J (saveVerification l r result now)"
  unfolding saveVerification_def Let_def by (intro keeps_rules private_names)

text \<open>Opening the journal and the checks of the destination.\<close>

lemma keeps_repo_empty [keeps_rules]: "keeps J (repo_empty)"
  unfolding repo_empty_def by (intro keeps_rules)

lemma keeps_new_binding [keeps_rules]: "keeps J (new_binding l bundle path)"
  unfolding new_binding_def Let_def by (intro keeps_rules private_names)

lemma keeps_openPublication [keeps_rules]: "keeps J (openPublication l bundle repo fresh)"
  unfolding openPublication_def by (intro keeps_rules)

lemma keeps_load_numbered [keeps_rules]: "keeps J (load_numbered l bundle ns rs)"
  by (induction ns arbitrary: rs) (simp_all only: load_numbered.simps, (intro keeps_rules | assumption)+)

lemma keeps_loadReleases [keeps_rules]: "keeps J (loadReleases l bundle)"
  unfolding loadReleases_def by (intro keeps_rules)

lemma keeps_checkTimestamp [keeps_rules]: "keeps J (checkTimestamp r history)"
  unfolding checkTimestamp_def by (intro keeps_rules)

lemma keeps_check_name [keeps_rules]: "keeps J (check_name history name)"
  unfolding check_name_def by (intro keeps_rules)

lemma keeps_checkRecordedDestination [keeps_rules]: "keeps J (checkRecordedDestination history)"
  unfolding checkRecordedDestination_def by (intro keeps_rules)

text \<open>Rotations.\<close>

lemma keeps_readRotation [keeps_rules]: "keeps J (readRotation l bd previous version)"
  unfolding readRotation_def by (intro keeps_rules)

lemma keeps_rotation_chain [keeps_rules]: "keeps J (rotation_chain l bd vs raw)"
  by (induction vs arbitrary: raw) (simp_all only: rotation_chain.simps split_paired_all, (intro keeps_rules | assumption)+)

lemma keeps_rotationHistory [keeps_rules]: "keeps J (rotationHistory l bd previous)"
  unfolding rotationHistory_def by (intro keeps_rules)

lemma keeps_read_online_key [keeps_rules]: "keeps J (read_online_key l bd mode generation previous hashes role)"
  unfolding read_online_key_def by (intro keeps_rules)

lemma keeps_readOnlineKeys [keeps_rules]: "keeps J (readOnlineKeys l bd mode generation previous hashes)"
  unfolding readOnlineKeys_def by (intro keeps_rules)

lemma keeps_rotationOnlineKeys [keeps_rules]: "keeps J (rotationOnlineKeys l bd i)"
  unfolding rotationOnlineKeys_def by (intro keeps_rules)

lemma keeps_newest_online [keeps_rules]: "keeps J (newest_online l bd steps)"
  by (induction steps) (simp_all only: newest_online.simps split_paired_all, (intro keeps_rules | assumption)+)

lemma keeps_activeOnlineKeys [keeps_rules]: "keeps J (activeOnlineKeys l bd latest initial)"
  unfolding activeOnlineKeys_def by (intro keeps_rules)

lemma keeps_readRenewal [keeps_rules]: "keeps J (readRenewal l network)"
  unfolding readRenewal_def by (intro keeps_rules)

lemma keeps_initialKeys [keeps_rules]: "keeps J (initialKeys l c)"
  unfolding initialKeys_def by (intro keeps_rules)

lemma keeps_activeKeys [keeps_rules]: "keeps J (activeKeys l c latest)"
  unfolding activeKeys_def by (intro keeps_rules)

lemma keeps_finish_existing [keeps_rules]: "keeps J (finish_existing l bd previous version i data)"
  unfolding finish_existing_def by (intro keeps_rules private_names)

lemma keeps_finish_signing [keeps_rules]: "keeps J (finish_signing l bd previous version keys i successors)"
  unfolding finish_signing_def Let_def by (intro keeps_rules private_names)

lemma keeps_finishRotation:
  assumes "admits J Journal (rotationIntentName version) (record_of (jl_intent jlib) i)"
  shows "keeps J (finishRotation jlib bd previous version keys now i successors)"
  unfolding finishRotation_def by (intro keeps_rules private_names install_keeps [OF stable _ assms]) simp

lemma keeps_finish_plain [keeps_rules]:
  "rn_custody i \<noteq> encryptedCustody \<Longrightarrow> keeps J (finishRotation jlib bd previous version keys now i successors)"
  by (rule keeps_finishRotation [OF own_intent])

lemma keeps_prepareRotation [keeps_rules]: "keeps J (prepareRotation jlib bd previous version keys now drawn)"
  unfolding prepareRotation_def
  by (intro keeps_rules keeps_guard_then) (auto simp: intent_valid_def intent_custody_def Let_def split: if_splits)

text \<open>The key session.\<close>

lemma keeps_openOperatorKeys [keeps_rules]: "keeps J (openOperatorKeys l prompt)"
  unfolding openOperatorKeys_def readPublicAuthority_def by (intro keeps_rules)

lemma keeps_secret [keeps_rules]: "keeps J (secret ss)"
  unfolding secret_def by (intro keeps_rules)

lemma keeps_unlock_signer [keeps_rules]: "keeps J (unlock_signer l ss data b expected)"
  unfolding unlock_signer_def by (intro keeps_rules)

lemma keeps_session_initial [keeps_rules]: "keeps J (session_initial l ss name)"
  unfolding session_initial_def by (intro keeps_rules)

lemma keeps_membershipStore [keeps_rules]: "keeps J (membershipStore fresh)"
  unfolding membershipStore_def by (intro keeps_rules)

lemma keeps_generationKey [keeps_rules]: "keeps J (generationKey l bd ss i name)"
  unfolding generationKey_def Let_def by (intro keeps_rules)

text \<open>Handing over with the offline authority.\<close>

lemma keeps_check_intents [keeps_rules]: "keeps J (check_intents l version ok)"
  unfolding check_intents_def by (intro keeps_rules)

lemma plain_intent: "custody_intent lib c bundle previous version = Some i \<Longrightarrow> rn_custody i \<noteq> encryptedCustody"
  by (auto simp: custody_intent_def Let_def encryptedCustody_def split: option.splits if_splits)

lemma keeps_prepareMembershipRotation [keeps_rules]: "keeps J (prepareMembershipRotation jlib bd previous version keys now drawn)"
  unfolding prepareMembershipRotation_def by (intro keeps_rules keeps_opt_then private_names) (erule plain_intent)

lemma keeps_membershipPrivateKey [keeps_rules]: "keeps J (membershipPrivateKey l bd previous version)"
  unfolding membershipPrivateKey_def by (intro keeps_rules)

lemma keeps_newest_membership [keeps_rules]: "keeps J (newest_membership l bd steps initial)"
  by (induction steps) (simp_all only: newest_membership.simps split_paired_all, (intro keeps_rules | assumption)+)

lemma keeps_activeMembershipKey [keeps_rules]: "keeps J (activeMembershipKey l bd latest initial)"
  unfolding activeMembershipKey_def by (intro keeps_rules)

lemma keeps_readRootPrivate [keeps_rules]: "keeps J (readRootPrivate l i name)"
  unfolding readRootPrivate_def by (intro keeps_rules)

lemma keeps_collect_keys:
  assumes get: "\<And>n. keeps J (get n)"
  shows "keeps J (collect_keys ns get)"
  by (induction ns) (simp_all only: collect_keys.simps, (intro keeps_rules get | assumption)+)

lemma keeps_rootGenerationKeys [keeps_rules]: "keeps J (rootGenerationKeys l i)"
  unfolding rootGenerationKeys_def by (intro keeps_rules keeps_collect_keys)

lemma keeps_list [keeps_rules]: "(xs = [] \<Longrightarrow> keeps J m) \<Longrightarrow> (\<And>y ys. xs = y # ys \<Longrightarrow> keeps J (k y ys)) \<Longrightarrow> keeps J (case xs of [] \<Rightarrow> m | y # ys \<Rightarrow> k y ys)"
  by (cases xs) auto

lemma keeps_activeRootKeys [keeps_rules]: "keeps J (activeRootKeys l bd previous legacy)"
  unfolding activeRootKeys_def by (intro keeps_rules)

lemma keeps_checkOfflineReservation [keeps_rules]: "keeps J (checkOfflineReservation version role)"
  unfolding checkOfflineReservation_def by (intro keeps_rules)

lemma keeps_existing_root_intent [keeps_rules]: "keeps J (existing_root_intent l bd previous version)"
  unfolding existing_root_intent_def Let_def by (intro keeps_rules)

lemma keeps_read_plan [keeps_rules]: "keeps J (read_plan l bd previous version old_expires now existing)"
  unfolding read_plan_def by (intro keeps_rules)

lemma keeps_root_signer [keeps_rules]: "keeps J (root_signer l p version existing drawn name)"
  unfolding root_signer_def by (intro keeps_rules private_names)

lemma keeps_root_signers [keeps_rules]: "keeps J (root_signers l p version existing drawn ns)"
  by (induction ns) (simp_all only: root_signers.simps split_paired_all, (intro keeps_rules | assumption)+)

lemma keeps_prepareRootRotation [keeps_rules]: "keeps J (prepareRootRotation jlib bd previous version keys now drawn)"
  unfolding prepareRootRotation_def Let_def by (intro keeps_rules private_names) (simp add: encryptedCustody_def)

lemma keeps_session_membership [keeps_rules]: "keeps J (session_membership l bd ss latest)"
  unfolding session_membership_def Let_def by (intro keeps_rules)

lemma keeps_reserveRotationApply [keeps_rules]: "keeps J (reserveRotationApply l bd latest rotation now)"
  unfolding reserveRotationApply_def Let_def by (intro keeps_rules private_names is_pending_name)

lemma keeps_handoff_key [keeps_rules]: "keeps J (handoff_key l bd ss latest r preparation)"
  unfolding handoff_key_def by (intro keeps_rules)

lemma keeps_sign_targets_handoff [keeps_rules]: "keeps J (sign_targets_handoff l bd ss latest r preparation a)"
  unfolding sign_targets_handoff_def Let_def by (intro keeps_rules private_names)

lemma keeps_prepareRotationTargets [keeps_rules]: "keeps J (prepareRotationTargets l bd latest r now ss)"
  unfolding prepareRotationTargets_def Let_def by (intro keeps_rules private_names)

lemma keeps_readRotationTargets [keeps_rules]: "keeps J (readRotationTargets l latest r version created)"
  unfolding readRotationTargets_def by (intro keeps_rules private_names)

lemma keeps_rotation_release [keeps_rules]: "keeps J (rotation_release l bd latest r i a initial)"
  unfolding rotation_release_def Let_def by (intro keeps_rules)

lemma keeps_check_pending_release [keeps_rules]: "keeps J (check_pending_release l r)"
  unfolding check_pending_release_def by (intro keeps_rules)

lemma keeps_verified_since [keeps_rules]: "keeps J (verified_since l version rs)"
  by (induction rs) (simp_all only: verified_since.simps split_paired_all, (intro keeps_rules | assumption)+)

lemma keeps_appliedRotationState [keeps_rules]: "keeps J (appliedRotationState l history version)"
  unfolding appliedRotationState_def by (intro keeps_rules)

lemma keeps_any_readable [keeps_rules]: "keeps J (any_readable ns)"
  by (induction ns) (simp_all only: any_readable.simps split_paired_all, (intro keeps_rules | assumption)+)

lemma keeps_inspectRotation [keeps_rules]: "keeps J (inspectRotation l bd history)"
  unfolding inspectRotation_def Let_def by (intro keeps_rules)

text \<open>Parts of the commands.\<close>

lemma keeps_publish_online_keys [keeps_rules]: "keeps J (publish_online_keys l bd ss separate network history latest)"
  unfolding publish_online_keys_def Let_def by (intro keeps_rules)

lemma keeps_approve_release [keeps_rules]: "keeps J (approve_release l bd ss req manifest history now)"
  unfolding approve_release_def Let_def by (intro keeps_rules)

lemma keeps_next_release [keeps_rules]: "keeps J (next_release l bd ss req manifest history now)"
  unfolding next_release_def by (intro keeps_rules)

lemma keeps_renewal_intent [keeps_rules]: "keeps J (renewal_intent l latest ex receipt now pending)"
  unfolding renewal_intent_def Let_def by (intro keeps_rules is_pending_name)

text \<open>Encrypted rotations.\<close>

lemma keeps_collect_quorum:
  assumes get: "\<And>n. keeps J (get n)"
  shows "keeps J (collect_quorum ns get keys)"
  by (induction ns arbitrary: keys) (simp_all only: collect_quorum.simps Let_def, (intro keeps_rules get | assumption | simp)+)

lemma keeps_root_getter [keeps_rules]: "keeps J (root_getter l bd ss is name)"
  unfolding root_getter_def by (intro keeps_rules)

lemma keeps_session_roots [keeps_rules]: "keeps J (session_roots l bd ss previous)"
  unfolding session_roots_def by (intro keeps_rules keeps_collect_quorum)

lemma keeps_no_generation [keeps_rules]: "keeps J (no_generation version)"
  unfolding no_generation_def by (intro keeps_rules)

lemma keeps_loadEncryptedPlan [keeps_rules]: "keeps J (loadEncryptedPlan l bd ss previous version role now existing)"
  unfolding loadEncryptedPlan_def Let_def by (intro keeps_rules private_names)

lemma keeps_draw_generation [keeps_rules]: "keeps J (draw_generation l bd ss plan name drawn salt)"
  unfolding draw_generation_def Let_def by (intro keeps_rules)

lemma keeps_prepareGenerationKey [keeps_rules]: "keeps J (prepareGenerationKey l bd ss plan name handedOff drawn salt)"
  unfolding prepareGenerationKey_def Let_def by (intro keeps_rules private_names)

lemma keeps_prepareOnlineGeneration [keeps_rules]: "keeps J (prepareOnlineGeneration l bd ss plan role handedOff drawn)"
  unfolding prepareOnlineGeneration_def Let_def by (intro keeps_rules private_names)

lemma keeps_generate [keeps_rules]: "keeps J (generate l bd ss plan role handedOff existing drawn salts name)"
  unfolding generate_def by (intro keeps_rules)

lemma keeps_generate_all:
  assumes gen: "\<And>n. keeps J (gen n)"
  shows "keeps J (generate_all ns gen)"
  by (induction ns) (simp_all only: generate_all.simps, (intro keeps_rules gen | assumption)+)

lemma keeps_any_output [keeps_rules]: "keeps J (any_output ns)"
  by (induction ns) (simp_all only: any_output.simps, (intro keeps_rules | assumption)+)

lemma keeps_existing_encrypted_intent [keeps_rules]: "keeps J (existing_encrypted_intent l bd ss previous version role names existing)"
  by (induction names arbitrary: existing) (simp_all only: existing_encrypted_intent.simps, (intro keeps_rules | assumption | simp)+)

text \<open>Preparing a rotation, when the generation of its keys keeps the invariant.\<close>

lemma keeps_prepareEncrypted_if:
  assumes "\<And>handedOff existing. keeps J (generate_rotation jlib bd ss previous version role now drawn salts handedOff existing)"
  shows "keeps J (prepareEncryptedRotation jlib bd ss previous version role now drawn salts)"
  unfolding prepareEncryptedRotation_def by (intro keeps_rules assms)

lemma keeps_rotation_for_if:
  assumes "\<And>previous handedOff existing.
    keeps J (generate_rotation jlib bd ss previous (ro_version req) (ro_role req) now (ro_drawn req) (ro_salts req) handedOff existing)"
  shows "keeps J (rotation_for jlib bd ss req latest now)"
  unfolding rotation_for_def prepare_role_def Let_def by (intro keeps_rules keeps_prepareEncrypted_if assms)

end

text \<open>Invariants that do not depend on the public handoffs.\<close>

locale handoff_files = private_files +
  assumes any_intent: "admits J Journal (rotationIntentName v) data"
begin

lemma keeps_generate_rotation: "keeps J (generate_rotation jlib bd ss previous version role now drawn salts handedOff existing)"
  unfolding generate_rotation_def Let_def by (intro keeps_rules keeps_generate_all keeps_finishRotation any_intent)

lemma keeps_rotation_for [keeps_rules]: "keeps J (rotation_for jlib bd ss req latest now)"
  by (rule keeps_rotation_for_if) (rule keeps_generate_rotation)

end

lemma not_watched_private: "private_name s n \<Longrightarrow> \<not> watched bundle s n"
  by (auto simp: private_name_def watched_def)

interpretation om: handoff_files "omega_inv lib bd R L v" lib for lib bd R L v
proof
  show "stable (omega_inv lib bd R L v) s" for s by (rule stable_inv)
  show "omega_inv lib bd R L v (ds(s := (ds s)\<lparr>dr_made := b\<rparr>))" if "omega_inv lib bd R L v ds" for ds s b
    by (rule quiet_inv [OF quiet_made that])
  show "admits_replace (omega_inv lib bd R L v) Journal n data" if "private_name Journal n" for n data
    by (rule admits_unwatched [OF not_watched_private [OF that]])
  show "admits (omega_inv lib bd R L v) s n data" if "private_name s n" for s n data
    by (rule admits_replace_admits [OF admits_unwatched [OF not_watched_private [OF that]]])
  have intent: "admits (omega_inv lib bd R L v) Journal (rotationIntentName v') data" for v' data
    by (rule admits_replace_admits [OF admits_unwatched]) simp
  show "admits (omega_inv lib bd R L v) Journal (rotationIntentName v') (record_of (jl_intent lib) i)" if "rn_custody i \<noteq> encryptedCustody" for v' i
    by (rule intent)
  show "admits (omega_inv lib bd R L v) Journal (rotationIntentName v') data" for v' data by (rule intent)
qed

end
