(* ===== verification/Omega_Safety.thy ===== *)
theory Omega_Safety
  imports Omega_Keeps
begin

text \<open>
  The commands of the operator tool keep the publication invariant, whatever fails, and the consequences: what is
  public belongs to a durable chain of releases, numbered metadata is never replaced by other bytes, and the served
  timestamp does not go back.
\<close>

lemma not_pending_release [simp]: "\<not> is_pending (releaseName n)"
  by (simp add: releaseName_def not_pending_facts)

section \<open>Publishing a prepared release\<close>

lemma object_names:
  assumes "(n, data) \<in> set (rl_objects lib bundle r)"
  shows "\<not> is_pending n \<and> n \<noteq> ''timestamp.json''"
proof -
  have "n = ''1.root.json'' \<or> (\<exists>h. n = ''targets/'' @ h @ ''.bootstrap.json'') \<or> (\<exists>i. n = Itoa i @ ''.targets.json'' \<or> n = Itoa i @ ''.snapshot.json'' \<or> n = Itoa i @ ''.root.json'')"
    using assms by (auto simp: rl_objects_def)
  moreover have "Itoa i @ s \<noteq> ''timestamp.json''" for i s
  proof
    assume eq: "Itoa i @ s = ''timestamp.json''"
    then have "CHR ''t'' \<in> set (Itoa i)" by (cases "Itoa i") (auto simp: Itoa_def split: if_splits)
    moreover have "CHR ''t'' \<notin> set (Itoa i)" by (rule Itoa_no_char) (simp_all add: digit_val_def)
    ultimately show False by blast
  qed
  ultimately show ?thesis using not_pending_facts(17) [of "''targets/''"] by (elim disjE exE) (auto simp: not_pending_facts)
qed

lemma targetsDir_inv: "keeps (omega_inv lib bundle R L v) targetsDir"
  unfolding targetsDir_def
proof (rule keeps_andthen)
  have "\<not> watched bundle Repository ''targets''" by (simp add: public_name_def)
  from quiet_inv [OF quiet_unwatched(1) [of "watched bundle", OF this]]
  show "keeps (omega_inv lib bundle R L v) (call (\<lambda>d. (Val (), case gm_lookup (dr_live d) ''targets'' of
                Some f \<Rightarrow> d
              | None \<Rightarrow> d\<lparr>dr_live := gm_update ''targets'' \<lparr>fl_data = [], fl_safe = True, fl_synced = True\<rparr> (dr_live d)\<rparr>)) Repository)"
    by (intro triple_call) (auto simp: with_live_upd split: option.split)
qed (intro keeps_syncDir stable_inv)

text \<open>The timestamp that is there is the release's own or an older one of the history.\<close>

lemma checkTimestamp_forward:
  assumes "\<forall>old \<in> set history. validate (ol lib) bundle old \<noteq> None" "validate (ol lib) bundle r \<noteq> None"
  shows "triple (omega_inv lib bundle R L v) (checkTimestamp r history)
           (\<lambda>u ds. (v > 0 \<longrightarrow> rl_version r \<ge> v) \<and> omega_inv lib bundle R L v ds) (omega_inv lib bundle R L v)"
  unfolding checkTimestamp_def
proof (rule triple_andthen [OF triple_try_read], blast)
  fix data
  let ?J = "omega_inv lib bundle R L v" and ?P = "\<lambda>ds. omega_inv lib bundle R L v ds \<and> file_data (ds Repository) ''timestamp.json'' = data"
  have served: "\<exists>r'. validate (ol lib) bundle r' \<noteq> None \<and> rl_version r' \<ge> v \<and> data = Some (rl_timestamp r')" if "?P ds" "v > 0" for ds
    using that unfolding omega_inv_def served_since_def by metis
  show "triple ?P (case data of None \<Rightarrow> ret () | Some d \<Rightarrow>
      guard (d = rl_timestamp r \<or> list_ex (\<lambda>old. rl_version old < rl_version r \<and> d = rl_timestamp old) history) ERollback)
      (\<lambda>u ds. (v > 0 \<longrightarrow> rl_version r \<ge> v) \<and> ?J ds) ?J"
  proof (cases data)
    case None
    then show ?thesis using served by auto
  next
    case (Some d)
    have "rl_version r \<ge> v"
      if P: "?P ds" "v > 0" and d: "d = rl_timestamp r \<or> list_ex (\<lambda>old. rl_version old < rl_version r \<and> d = rl_timestamp old) history" for ds
    proof -
      obtain r' where r': "validate (ol lib) bundle r' \<noteq> None" "rl_version r' \<ge> v" "d = rl_timestamp r'"
        using served [OF P] Some by auto
      from d obtain old where "old = r \<or> old \<in> set history \<and> rl_version old < rl_version r" "d = rl_timestamp old"
        by (auto simp: list_ex_iff)
      moreover then have "rl_version old = rl_version r'" using same_timestamp r' assms by metis
      ultimately show ?thesis using r'(2) by auto
    qed
    then show ?thesis using Some by auto
  qed
qed

lemma publish_objects_keeps:
  assumes h: "history \<noteq> []" "set history \<subseteq> R" "chained (ol lib) bundle history"
  shows "keeps (omega_inv lib bundle R L v) (publish_objects lib bundle history (last history) ex env)"
proof -
  let ?J = "omega_inv lib bundle R L v" and ?r = "last history"
  have val: "\<forall>old \<in> set history. validate (ol lib) bundle old \<noteq> None" "validate (ol lib) bundle ?r \<noteq> None"
    using chained_validate [OF h(3)] last_in_set [OF h(1)] by auto
  have obj: "keeps ?J (release_object x)" if "x \<in> set (rl_objects (ol lib) bundle ?r)" for x
    unfolding release_object_def
    using that object_names [of "fst x" "snd x" "ol lib" "bundle" ?r]
    by (intro writeObject_immutable_keeps stable_inv admits_object [OF h]) auto
  have ts: "keeps ?J (writeObject ''timestamp.json'' (rl_timestamp ?r) True)" if "v > 0 \<longrightarrow> rl_version ?r \<ge> v"
    using that by (intro writeObject_mutable_keeps stable_inv admits_timestamp [OF h]) auto
  show ?thesis unfolding publish_objects_def
    by (rule keeps_andthen [OF keeps_guard], rule keeps_andthen [OF om.keeps_checkTimestamp], rule keeps_andthen [OF keeps_guard],
        rule keeps_andthen [OF targetsDir_inv], rule keeps_andthen [OF keeps_for_each [OF cleanPendingTwins_keeps [OF stable_inv]]],
        rule keeps_andthen [OF keeps_for_each [OF obj]], assumption, rule keeps_andthen [OF keeps_guard],
        rule keeps_then [OF checkTimestamp_forward [OF val]], rule keeps_andthen [OF ts], assumption,
        rule keeps_andthen [OF om.keeps_deployVercel], rule keeps_guard)
qed

text \<open>Going on with more releases known to be durable or in the journal.\<close>

lemma keeps_grow:
  assumes "triple (omega_inv lib bundle R L v) m (\<lambda>x ds. P x \<and> omega_inv lib bundle (R' x) (L' x) v ds) (omega_inv lib bundle R L v)"
    and "\<And>x. R \<subseteq> R' x" "\<And>x. L \<subseteq> L' x" and "\<And>x. P x \<Longrightarrow> keeps (omega_inv lib bundle (R' x) (L' x) v) (k x)"
  shows "keeps (omega_inv lib bundle R L v) (andthen m k)"
proof (rule triple_andthen [OF assms(1)], rule triple_const)
  fix x assume "P x"
  have mono: "omega_inv lib bundle (R' x) (L' x) v ds \<Longrightarrow> omega_inv lib bundle R L v ds" for ds
    by (rule omega_inv_mono [OF _ assms(2,3)])
  show "triple (omega_inv lib bundle (R' x) (L' x) v) (k x) (\<lambda>u. omega_inv lib bundle R L v) (omega_inv lib bundle R L v)"
    by (rule triple_conseq [OF assms(4) [OF \<open>P x\<close>]]) (auto intro: mono)
qed

lemma publishPrepared_keeps:
  assumes h: "history \<noteq> []" "set history \<subseteq> L" "chained (ol lib) bundle history"
  shows "keeps (omega_inv lib bundle R L v) (publishPrepared lib bundle history (last history) inspect env)"
  unfolding publishPrepared_def
proof (rule keeps_andthen [OF om.keeps_bindVercel], rule keeps_grow [where P = "\<lambda>u. True" and R' = "\<lambda>u. R \<union> L" and L' = "\<lambda>u. L"])
  let ?J = "omega_inv lib bundle (R \<union> L) L v"
  have objects: "keeps ?J (publish_objects lib bundle history (last history) ex env)" for ex
    by (rule publish_objects_keeps) (use h in auto)
  show "keeps ?J (andthen (opt (validate (ol lib) bundle (last history)) EInvalid) (\<lambda>(m, ex).
     andthen (guard (ol_parse_root lib (currentRoot bundle (last history)) \<noteq> None) EMetadata) (\<lambda>u.
     andthen (if inspect then andthen (inspectRotation lib bundle history) (\<lambda>x. ret ()) else ret ()) (\<lambda>u.
     andthen (cleanPendingTwins Journal ''.'') (\<lambda>u.
     andthen (trying (publish_objects lib bundle history (last history) ex env)) (\<lambda>res.
       case res of
         Inl e \<Rightarrow> andthen (trying (saveVerification lib (last history) (Some e) (pe_failed env))) (\<lambda>saved. throw e)
       | Inr u \<Rightarrow> saveVerification lib (last history) None (pe_checked env)))))))"
    by (intro keeps_rules om.keeps_inspectRotation om.stable_rules om.keeps_saveVerification objects)
qed (use syncDir_journal in auto)

lemma publishPrepared_new:
  assumes "chained (ol lib) bundle history" "linked (ol lib) bundle history r" "set history \<subseteq> L"
  shows "keeps (omega_inv lib bundle R (insert r L) v) (publishPrepared lib bundle (history @ [r]) r inspect env)"
proof -
  have "keeps (omega_inv lib bundle R (insert r L) v) (publishPrepared lib bundle (history @ [r]) (last (history @ [r])) inspect env)"
    by (rule publishPrepared_keeps) (use assms in \<open>auto simp: chained_append\<close>)
  then show ?thesis by simp
qed

section \<open>The history of the journal\<close>

lemma extends_linked: "extends_history lib bundle rs r \<Longrightarrow> linked lib bundle rs r"
  by (auto simp: extends_history_def linked_def previous_digest_def follows_def isRenewal_def targets_version_def is_transition_def)

lemma load_numbered_history:
  assumes "chained (ol lib) bundle rs"
  shows "triple (omega_inv lib bundle R (L \<union> set rs) v) (load_numbered (ol lib) bundle ns rs)
     (\<lambda>hs ds. chained (ol lib) bundle hs \<and> omega_inv lib bundle R (L \<union> set hs) v ds) (omega_inv lib bundle R L v)"
  using assms
proof (induction ns arbitrary: rs)
  case Nil
  then show ?case by auto
next
  case (Cons n ns)
  let ?J = "omega_inv lib bundle R L v" and ?H = "\<lambda>hs. omega_inv lib bundle R (L \<union> set hs) v"
  have weak: "?H hs ds \<Longrightarrow> ?J ds" for hs ds by (erule omega_inv_mono) auto
  show ?case unfolding load_numbered.simps
  proof (rule triple_if, (rule triple_throw, erule weak), rule triple_andthen [OF triple_read], erule weak)
    fix data
    assume n: "\<not> n \<noteq> int (length rs) + 1"
    show "triple (\<lambda>ds. ?H rs ds \<and> file_data (ds Journal) (releaseName n) = Some data)
        (case decodeRecord (ol_release (ol lib)) data of None \<Rightarrow> throw EHistory
         | Some r \<Rightarrow> if extends_history (ol lib) bundle rs r then load_numbered (ol lib) bundle ns (rs @ [r]) else throw EHistory)
        (\<lambda>hs ds. chained (ol lib) bundle hs \<and> ?H hs ds) ?J"
    proof (cases "decodeRecord (ol_release (ol lib)) data")
      case None
      then show ?thesis by (auto intro: weak)
    next
      case (Some r)
      show ?thesis
      proof (cases "extends_history (ol lib) bundle rs r")
        case True
        have "chained (ol lib) bundle (rs @ [r])" using Cons.prems extends_linked [OF True] by (simp add: chained_append)
        moreover have "?H (rs @ [r]) ds" if "?H rs ds \<and> file_data (ds Journal) (releaseName n) = Some data" for ds
        proof -
          have "n = rl_version r" using n True by (simp add: extends_history_def)
          then have "live_release lib ds r"
            using that decodeRecord_Some [OF Some] by (auto simp: has_release_def file_data_def)
          then show ?thesis using that omega_inv_live [of lib "bundle" R r "L \<union> set rs"] by simp
        qed
        ultimately show ?thesis using triple_pre [OF Cons.IH] Some True by simp
      qed (use Some in \<open>auto intro: weak\<close>)
    qed
  qed
qed

lemma loadReleases_history:
  "triple (omega_inv lib bundle R L v) (loadReleases (ol lib) bundle)
     (\<lambda>hs ds. chained (ol lib) bundle hs \<and> omega_inv lib bundle R (L \<union> set hs) v ds) (omega_inv lib bundle R L v)"
  unfolding loadReleases_def
  by (rule triple_andthen [OF keeps_directoryNames], rule triple_andthen [OF keeps_opt])
     (use load_numbered_history [of lib "bundle" "[]"] in simp)

lemma install_release:
  assumes "validate (ol lib) bundle r \<noteq> None"
  shows "triple (omega_inv lib bundle R L v) (install Journal (releaseName (rl_version r)) (record_of (ol_release lib) r))
           (\<lambda>u. omega_inv lib bundle R (insert r L) v) (omega_inv lib bundle R L v)"
  by (rule triple_post [OF install_triple [OF stable_inv _ admits_release [OF assms]]])
     (auto simp: omega_inv_live has_release_def file_data_def)

section \<open>Prepared releases\<close>

lemma sign_online_facts:
  assumes "sign_online lib bundle keys deadline r = Some r'"
  shows "validate lib bundle r' \<noteq> None" "\<exists>sn ts. r' = r\<lparr>rl_snapshot := sn, rl_timestamp := ts\<rparr>"
  using assms by (auto simp: sign_online_def Let_def split: option.splits if_splits)

lemma prepareRelease_facts:
  assumes "prepareRelease lib bundle keys version previous manifest now roots = Some r"
  shows "validate lib bundle r \<noteq> None \<and> rl_version r = version \<and> rl_previous r = previous \<and> rl_manifest r = manifest \<and> \<not> is_transition r"
proof -
  obtain r0 deadline where sign: "sign_online lib bundle keys deadline r0 = Some r"
    and r0: "rl_version r0 = version" "rl_previous r0 = previous" "rl_manifest r0 = manifest" "\<not> is_transition r0"
    using assms by (auto simp: prepareRelease_def is_transition_def isRenewal_def split: option.splits if_splits)
  show ?thesis using sign_online_facts [OF sign] r0 by (auto simp: is_transition_def isRenewal_def)
qed

lemma continued_schema_facts:
  assumes "continued_schema lib bundle previous roots targets r = Some r'"
  shows "rl_version r' = rl_version r \<and> rl_previous r' = rl_previous r \<and> rl_roots r' = rl_roots r \<and> rl_manifest r' = rl_manifest r \<and>
    (targets = None \<longrightarrow> r' = r)"
  using assms by (auto simp: continued_schema_def Let_def split: option.splits if_splits)

lemma prepareContinued_facts:
  assumes "prepareContinuedRelease lib bundle keys previous now roots targets dys = Some r"
  shows "validate lib bundle r \<noteq> None \<and> rl_version r = rl_version previous + 1 \<and> rl_previous r = release_digest lib previous \<and>
    rl_roots r = roots \<and> rl_manifest r = rl_manifest previous"
    and "targets = None \<Longrightarrow> targets_version r = targets_version previous \<and> rl_targets r = rl_targets previous"
proof -
  obtain r0 deadline where r0: "continued_schema lib bundle previous roots targets (continued_base lib bundle previous now roots dys) = Some r0"
    and sign: "sign_online lib bundle keys deadline r0 = Some r"
    using assms by (auto simp: prepareContinuedRelease_def split: option.splits if_splits)
  obtain sn ts where r: "r = r0\<lparr>rl_snapshot := sn, rl_timestamp := ts\<rparr>" using sign_online_facts(2) [OF sign] by blast
  show "validate lib bundle r \<noteq> None \<and> rl_version r = rl_version previous + 1 \<and> rl_previous r = release_digest lib previous \<and>
    rl_roots r = roots \<and> rl_manifest r = rl_manifest previous"
    using sign_online_facts(1) [OF sign] continued_schema_facts [OF r0] r by (simp add: continued_base_def)
  show "targets_version r = targets_version previous \<and> rl_targets r = rl_targets previous" if "targets = None"
    using continued_schema_facts [OF r0] that r by (simp add: continued_base_def targets_version_def isRenewal_def)
qed

lemma prepareMembership_facts:
  "prepareMembershipRelease lib bundle keys previous now roots targets dys = Some r \<Longrightarrow>
   validate lib bundle r \<noteq> None \<and> rl_version r = rl_version previous + 1 \<and> rl_previous r = release_digest lib previous"
  by (auto simp: prepareMembershipRelease_def split: if_splits dest!: prepareContinued_facts(1))

lemma renewal_linked:
  assumes h: "history \<noteq> []" "rl_version (last history) = int (length history)"
    and r: "prepareRenewal lib bundle keys (last history) now dys = Some r"
  shows "linked lib bundle history r"
  using h prepareContinued_facts [OF r [unfolded prepareRenewal_def]] by (simp add: linked_def previous_digest_def)

lemma follows_linked:
  assumes "history = [] \<or> follows lib (last history) r" "rl_version r = int (length history) + 1"
    "rl_previous r = previous_digest lib history" "validate lib bundle r \<noteq> None"
  shows "linked lib bundle history r"
proof (cases "history = []")
  case False
  then have f: "follows lib (last history) r" using assms(1) by simp
  have "take (length (rl_roots (last history))) (rl_roots r) = rl_roots (last history)"
    and "isRenewal r \<Longrightarrow> targets_version r = targets_version (last history) \<and> rl_targets r = rl_targets (last history)"
    and "is_transition r \<Longrightarrow> rl_manifest r = rl_manifest (last history)"
    using f by (auto simp: follows_def targets_version_def is_transition_def)
  then show ?thesis using assms(2-4) unfolding linked_def by blast
qed (use assms(2-4) in \<open>simp add: linked_def\<close>)

lemma chained_version: "chained lib bundle rs \<Longrightarrow> rs \<noteq> [] \<Longrightarrow> rl_version (last rs) = int (length rs)"
proof -
  assume c: "chained lib bundle rs" "rs \<noteq> []"
  then have "linked lib bundle (take (length rs - 1) rs) (rs ! (length rs - 1))" unfolding chained_def by simp
  then have "rl_version (rs ! (length rs - 1)) = int (length (take (length rs - 1) rs)) + 1" unfolding linked_def by blast
  then show ?thesis using c(2) by (simp add: last_conv_nth of_nat_diff Suc_leI)
qed

section \<open>Publishing\<close>

definition fits :: "omega_lib \<Rightarrow> Bundle \<Rightarrow> release list \<Rightarrow> int \<Rightarrow> release \<Rightarrow> bool" where
  "fits lib bundle history version r \<longleftrightarrow> validate lib bundle r \<noteq> None \<and> rl_version r = version \<and> rl_previous r = previous_digest lib history"

lemma approve_release_fits:
  "triple (omega_inv lib bundle R L v) (approve_release lib bundle prompt req manifest history now)
     (\<lambda>r ds. fits (ol lib) bundle history (pr_version req) r \<and> omega_inv lib bundle R L v ds) (omega_inv lib bundle R L v)"
  unfolding approve_release_def Let_def
  by (rule triple_andthen [OF om.keeps_openOperatorKeys], rule triple_andthen [OF om.keeps_session_membership], rule triple_andthen [OF om.keeps_publish_online_keys], rule triple_opt)
     (auto simp: fits_def dest!: prepareRelease_facts)

lemma next_release_fits:
  "triple (omega_inv lib bundle R L v) (next_release lib bundle prompt req manifest history now)
     (\<lambda>r ds. fits (ol lib) bundle history (pr_version req) r \<and> omega_inv lib bundle R L v ds) (omega_inv lib bundle R L v)"
    (is "triple ?J _ ?Q _")
  unfolding next_release_def
proof (rule triple_andthen [OF keeps_try_read], rule triple_if)
  fix p
  show "triple ?J (andthen (opt (decodeRecord (ol_release lib) (the p)) EInvalid) (\<lambda>r.
         andthen (guard (\<not> is_transition r \<and> rl_version r = pr_version req \<and> rl_previous r = previous_digest (ol lib) history \<and>
                         rl_manifest r = manifest) EApproval) (\<lambda>u.
         andthen (opt (validate (ol lib) bundle r) EInvalid) (\<lambda>v.
         ret r)))) ?Q ?J"
  proof (rule triple_andthen [OF keeps_opt])
    fix r
    let ?b = "\<not> is_transition r \<and> rl_version r = pr_version req \<and> rl_previous r = previous_digest (ol lib) history \<and> rl_manifest r = manifest"
    show "triple ?J (andthen (guard ?b EApproval) (\<lambda>u. andthen (opt (validate (ol lib) bundle r) EInvalid) (\<lambda>v. ret r))) ?Q ?J"
      by (rule triple_andthen [where R = "\<lambda>u ds. ?b \<and> ?J ds"], blast, rule triple_const,
          rule triple_andthen [where R = "\<lambda>x ds. validate (ol lib) bundle r = Some x \<and> ?J ds"], blast, rule triple_const, rule triple_ret)
         (simp add: fits_def)
  qed
qed (rule approve_release_fits)

lemma publish_keeps: "keeps (omega_inv lib bundle R L v) (publish lib bundle prompt req env)"
  unfolding publish_def Let_def
proof (rule keeps_guard_then, rule keeps_opt_then, rule keeps_andthen [OF om.keeps_openPublication],
       rule keeps_grow [OF loadReleases_history], simp, blast)
  fix manifest history
  let ?J = "omega_inv lib bundle R (L \<union> set history) v" and ?n = "int (length history)" and ?v = "pr_version req"
  assume v: "1 \<le> ?v \<and> ?v \<le> maxReleases" and h: "chained (ol lib) bundle history"
  have again: "keeps ?J (publishPrepared lib bundle history (last history) True env)" if "history \<noteq> []"
    by (rule publishPrepared_keeps) (use h that in auto)
  have new: "keeps ?J (andthen (install Journal (releaseName ?v) (record_of (ol_release lib) r)) (\<lambda>u. publishPrepared lib bundle (history @ [r]) r True env))"
    if "?v = ?n + 1" and r: "fits (ol lib) bundle history ?v r" and f: "history = [] \<or> follows (ol lib) (last history) r" for r
  proof (rule keeps_grow [where P = "\<lambda>u. True" and R' = "\<lambda>u. R" and L' = "\<lambda>u. insert r (L \<union> set history)"])
    have "linked (ol lib) bundle history r" using follows_linked [OF f] that(1) r by (simp add: fits_def)
    then show "keeps (omega_inv lib bundle R (insert r (L \<union> set history)) v) (publishPrepared lib bundle (history @ [r]) r True env)"
      by (intro publishPrepared_new h) auto
  qed (use install_release [of lib "bundle" r] r in \<open>auto simp: fits_def\<close>)
  show "keeps ?J (andthen (checkRecordedDestination history) (\<lambda>u.
       andthen (guard (?n \<le> ?v \<and> ?v \<le> ?n + 1) EVersion) (\<lambda>u.
            if ?v = ?n then
              andthen (guard (\<not> is_transition (last history) \<and> rl_manifest (last history) = manifest) EApproval) (\<lambda>u.
              publishPrepared lib bundle history (last history) True env)
            else
              andthen (absent Journal (with_pending [renewalIntentName ?v, rotationApplyName ?v, rotationTargetsName ?v]) EReserved) (\<lambda>u.
              andthen (next_release lib bundle prompt req manifest history (pe_now env)) (\<lambda>r.
              andthen (guard (history = [] \<or> follows (ol lib) (last history) r) EHistory) (\<lambda>u.
              andthen (install Journal (releaseName ?v) (record_of (ol_release lib) r)) (\<lambda>u.
              publishPrepared lib bundle (history @ [r]) r True env)))))))"
    by (rule keeps_andthen [OF om.keeps_checkRecordedDestination], rule keeps_guard_then, rule keeps_if)
       (rule keeps_andthen [OF keeps_guard], rule again, use v in force,
        rule keeps_andthen [OF om.keeps_absent], rule keeps_then [OF next_release_fits], rule keeps_guard_then, rule new, linarith)
qed

section \<open>Completing a rotation\<close>

lemma rotation_release_fits:
  assumes "history \<noteq> []" "chained (ol lib) bundle history"
  shows "triple (omega_inv lib bundle R L v) (rotation_release lib bundle (last history) r i a initial)
     (\<lambda>nxt ds. fits (ol lib) bundle history (int (length history) + 1) nxt \<and> omega_inv lib bundle R L v ds) (omega_inv lib bundle R L v)"
    (is "triple ?J _ ?Q _")
proof -
  have v: "rl_version (last history) = int (length history)" by (rule chained_version [OF assms(2,1)])
  have fit: "fits (ol lib) bundle history (int (length history) + 1) nxt"
    if "prepareContinuedRelease (ol lib) bundle keys (last history) now roots targets dys = Some nxt \<or>
        prepareMembershipRelease (ol lib) bundle keys (last history) now roots targets' dys = Some nxt" for keys now roots targets targets' dys nxt
    using that v assms(1) prepareContinued_facts(1) prepareMembership_facts unfolding fits_def previous_digest_def by metis
  have last: "triple ?J (opt x EMetadata) ?Q ?J" if "\<And>nxt. x = Some nxt \<Longrightarrow> fits (ol lib) bundle history (int (length history) + 1) nxt" for x
    by (rule triple_opt) (use that in auto)
  show ?thesis unfolding rotation_release_def Let_def
  proof (rule triple_if, rule triple_andthen [OF om.keeps_activeOnlineKeys],
         rule triple_andthen [OF keeps_trying [OF om.keeps_readRotationTargets]])
    fix keys and t :: "omega_error + bytes"
    show "triple ?J (case t of Inl e \<Rightarrow> throw EHandoff | Inr targets \<Rightarrow>
        opt (if rn_schema i = 3
             then prepareContinuedRelease (ol lib) bundle (gm_get (the keys)) (last history) (ra_created a) (rl_roots (last history) @ [rr_root r]) (Some targets) (ra_days a)
             else prepareMembershipRelease (ol lib) bundle (gm_get (the keys)) (last history) (ra_created a) (rl_roots (last history) @ [rr_root r]) targets (ra_days a)) EMetadata) ?Q ?J"
    proof (cases t)
      case (Inr targets)
      then show ?thesis using fit by (simp only: sum.case, intro last) (metis (full_types))
    qed auto
  qed (rule triple_andthen [OF om.keeps_rotationOnlineKeys], rule last, use fit in blast)
qed

lemma resumeRotationApply_history:
  assumes h: "history \<noteq> []" "chained (ol lib) bundle history" "set history \<subseteq> L"
  shows "triple (omega_inv lib bundle R L v) (resumeRotationApply lib bundle history now custody initial)
     (\<lambda>x ds. (fst x \<noteq> [] \<and> chained (ol lib) bundle (fst x)) \<and> omega_inv lib bundle R (L \<union> set (fst x)) v ds) (omega_inv lib bundle R L v)"
    (is "triple ?J _ ?Q _")
proof -
  have same: "?Q (history, b) ds" if "?J ds" for b ds
    using that h by (simp add: Un_absorb2)
  have done_: "?Q (history @ [nxt], b) ds"
    if "omega_inv lib bundle R (insert nxt L) v ds" "fits (ol lib) bundle history (int (length history) + 1) nxt" "follows (ol lib) (last history) nxt" for nxt b ds
    using that h follows_linked [of history "ol lib" nxt "bundle"] by (simp add: chained_append fits_def Un_absorb2 insert_commute)
  have finish: "triple ?J (andthen (guard (follows (ol lib) (last history) nxt) EHistory) (\<lambda>u.
               andthen (check_pending_release lib nxt) (\<lambda>u.
               andthen (install Journal (releaseName (rl_version nxt)) (record_of (ol_release lib) nxt)) (\<lambda>u.
               ret (history @ [nxt], True))))) ?Q ?J"
    if f: "fits (ol lib) bundle history (int (length history) + 1) nxt" for nxt
  proof -
    have val: "validate (ol lib) bundle nxt \<noteq> None" using f by (simp add: fits_def)
    show ?thesis
      by (rule triple_andthen [where R = "\<lambda>u ds. follows (ol lib) (last history) nxt \<and> ?J ds"], blast, rule triple_const,
          rule triple_andthen [OF om.keeps_check_pending_release], rule triple_andthen [OF install_release [OF val]], rule triple_ret)
         (rule done_ [OF _ f])
  qed
  show ?thesis unfolding resumeRotationApply_def Let_def
  proof (rule triple_andthen [OF om.keeps_read_either])
    fix x
    let ?a = "rotationApplyName (rl_version (last history) + 1)"
    show "triple ?J (case x of (committed, None) \<Rightarrow> ret (history, False) | (committed, Some data) \<Rightarrow>
               andthen (opt (decodeRecord (jl_apply lib) data) EInvalid) (\<lambda>a.
               andthen (guard (apply_identity (ol lib) (last history) now a) EHistory) (\<lambda>u.
               andthen (readRotation lib bundle (currentRoot bundle (last history)) (ra_root_version a)) (\<lambda>(r, i).
               andthen (guard (rn_mode i = rc_mode custody \<and> rn_custody i = rc_custody custody) ECustody) (\<lambda>u.
               andthen (guard (ra_root a = lib_sha256 lib (rr_root r) \<and> \<not> ra_created a < rn_created i) EHistory) (\<lambda>u.
               andthen (absent Journal (with_pending [renewalIntentName (ra_version a)]) EReserved) (\<lambda>u.
               andthen (install Journal ?a data) (\<lambda>u.
               andthen (syncDir Journal) (\<lambda>u.
               andthen (rotation_release lib bundle (last history) r i a initial) (\<lambda>nxt.
               andthen (guard (follows (ol lib) (last history) nxt) EHistory) (\<lambda>u.
               andthen (check_pending_release lib nxt) (\<lambda>u.
               andthen (install Journal (releaseName (rl_version nxt)) (record_of (ol_release lib) nxt)) (\<lambda>u.
               ret (history @ [nxt], True)))))))))))))) ?Q ?J"
    proof (cases x)
      case (Pair committed d)
      show ?thesis
      proof (cases d)
        case None
        then show ?thesis using Pair same by (auto intro!: triple_ret)
      next
        case (Some data)
        show ?thesis unfolding Pair Some prod.case option.case
          by (rule triple_andthen [OF keeps_opt], rule triple_andthen [OF keeps_guard], rule triple_andthen [OF om.keeps_readRotation],
              unfold split_beta, rule triple_andthen [OF keeps_guard], rule triple_andthen [OF keeps_guard],
              rule triple_andthen [OF om.keeps_absent], rule triple_andthen [OF om.keeps_install], simp,
              rule triple_andthen [OF keeps_syncDir [OF stable_inv]], rule triple_andthen [OF rotation_release_fits [OF h(1,2)]], rule triple_const)
             (rule finish)
      qed
    qed
  qed
qed

section \<open>Renewal\<close>

lemma readRenewal_bundle:
  "triple (omega_inv lib bundle R L v) (readRenewal lib (bd_network bundle))
     (\<lambda>c ds. rc_bundle c = bundle \<and> omega_inv lib bundle R L v ds) (omega_inv lib bundle R L v)"
  unfolding readRenewal_def
proof (rule triple_andthen [OF triple_read], blast)
  let ?J = "omega_inv lib bundle R L v" and ?n = "bd_network bundle @ ''.renewal.json''"
  fix data
  have b: "rc_bundle c = bundle" if J: "?J ds" and d: "file_data (ds Operational) ?n = Some data" and c: "decodeRecord (jl_custody lib) data = Some c" for ds c
  proof -
    obtain f where "gm_lookup (dr_live (ds Operational)) ?n = Some f" "fl_data f = data" using d by (auto simp: file_data_def)
    then show ?thesis using J c by (simp add: omega_inv_def custody_inv_def entry_def)
  qed
  show "triple (\<lambda>ds. ?J ds \<and> file_data (ds Operational) ?n = Some data)
     (andthen (opt (decodeRecord (jl_custody lib) data) ECustody) (\<lambda>c.
      andthen (guard (custody_ok lib (bd_network bundle) c) ECustody) (\<lambda>u. ret c))) (\<lambda>c ds. rc_bundle c = bundle \<and> ?J ds) ?J"
    by (rule triple_andthen [where R = "\<lambda>c ds. rc_bundle c = bundle \<and> ?J ds"], rule triple_opt, use b in blast, blast,
        rule triple_andthen [where R = "\<lambda>u ds. rc_bundle c = bundle \<and> ?J ds" for c]) blast+
qed

lemma sign_renewal_linked:
  assumes h: "history \<noteq> []" "chained (ol lib) bundle history"
  shows "triple (omega_inv lib bundle R L v) (sign_renewal lib bundle keys history i pending)
     (\<lambda>r ds. linked (ol lib) bundle history r \<and> omega_inv lib bundle R (insert r L) v ds) (omega_inv lib bundle R L v)"
    (is "triple ?J _ ?Q _")
proof -
  let ?latest = "last history"
  have v: "rl_version ?latest = int (length history)" by (rule chained_version [OF h(2,1)])
  have finish: "triple ?J (andthen (guard b EReserved) (\<lambda>u.
         andthen (install Journal (releaseName (rl_version ?latest + 1)) (record_of (ol_release lib) r)) (\<lambda>u. ret r))) ?Q ?J"
    if "prepareRenewal (ol lib) bundle keys ?latest now dys = Some r" for r b keys now dys
  proof -
    have r: "linked (ol lib) bundle history r" by (rule renewal_linked [OF h(1) v that])
    then have "validate (ol lib) bundle r \<noteq> None" "releaseName (rl_version ?latest + 1) = releaseName (rl_version r)"
      using v by (simp_all add: linked_def)
    then show ?thesis
      by (intro triple_andthen [OF keeps_guard]) (simp only:, rule triple_andthen [OF install_release], use r in auto)
  qed
  show ?thesis unfolding sign_renewal_def Let_def
    by (rule triple_andthen [OF keeps_guard], rule triple_andthen [OF om.keeps_install], simp, rule triple_andthen [OF keeps_syncDir [OF stable_inv]],
        rule triple_andthen [where R = "\<lambda>r ds. prepareRenewal (ol lib) bundle (gm_get keys) ?latest (ri_created i) (ri_days i) = Some r \<and> ?J ds"],
        blast, rule triple_const, rule finish)
qed

lemma renew_latest_keeps:
  assumes h: "history \<noteq> []" "chained (ol lib) bundle history"
  shows "keeps (omega_inv lib bundle R (L \<union> set history) v)
      (andthen (resumeRotationApply lib bundle history now custody keys) (\<lambda>(history', resumed).
                 if resumed then publishPrepared lib bundle history' (last history') True env
                 else
                   andthen (absent Journal names EReserved) (\<lambda>u.
                   andthen (try_read Journal name) (\<lambda>pending.
                   andthen (renewal_intent lib (last history) ex receipt now pending) (\<lambda>i.
                     case i of
                       None \<Rightarrow> publishPrepared lib bundle history (last history) True env
                     | Some intent \<Rightarrow>
                         andthen (sign_renewal lib bundle keys history intent pending) (\<lambda>r.
                         publishPrepared lib bundle (history @ [r]) r True env))))))"
proof (rule keeps_grow [OF resumeRotationApply_history [OF h]], simp_all only: subset_refl Un_upper1 Un_upper2 split_beta)
  fix x :: "release list \<times> bool"
  assume x: "fst x \<noteq> [] \<and> chained (ol lib) bundle (fst x)"
  let ?L = "L \<union> set history \<union> set (fst x)"
  have again: "keeps (omega_inv lib bundle R ?L v) (publishPrepared lib bundle history (last history) True env)"
    by (rule publishPrepared_keeps) (use h in auto)
  have new: "keeps (omega_inv lib bundle R ?L v) (andthen (sign_renewal lib bundle keys history intent pending) (\<lambda>r.
      publishPrepared lib bundle (history @ [r]) r True env))" for intent pending
    by (rule keeps_grow [OF sign_renewal_linked [OF h]]) (use h in \<open>auto intro: publishPrepared_new\<close>)
  have "keeps (omega_inv lib bundle R ?L v) (publishPrepared lib bundle (fst x) (last (fst x)) True env)"
    by (rule publishPrepared_keeps) (use x in auto)
  then show "keeps (omega_inv lib bundle R ?L v)
     (if snd x then publishPrepared lib bundle (fst x) (last (fst x)) True env
      else andthen (absent Journal names EReserved) (\<lambda>u.
           andthen (try_read Journal name) (\<lambda>pending.
           andthen (renewal_intent lib (last history) ex receipt now pending) (\<lambda>i.
             case i of
               None \<Rightarrow> publishPrepared lib bundle history (last history) True env
             | Some intent \<Rightarrow>
                 andthen (sign_renewal lib bundle keys history intent pending) (\<lambda>r.
                 publishPrepared lib bundle (history @ [r]) r True env)))))"
    by (intro keeps_if keeps_andthen [OF om.keeps_absent] keeps_andthen [OF keeps_try_read] keeps_andthen [OF om.keeps_renewal_intent]
        keeps_option again new)
qed

lemma renew_keeps: "keeps (omega_inv lib bundle R L v) (renew lib (bd_network bundle) disposable env)"
  unfolding renew_def Let_def
  by (rule keeps_then [OF readRenewal_bundle], rule keeps_andthen [OF keeps_guard], simp only:,
      rule keeps_andthen [OF keeps_guard], rule keeps_andthen [OF om.keeps_openPublication], rule keeps_grow [OF loadReleases_history],
      simp, simp, rule keeps_guard_then, rule keeps_andthen [OF keeps_guard], rule keeps_andthen [OF keeps_opt], rule keeps_prod,
      rule keeps_andthen [OF keeps_guard], rule keeps_andthen [OF om.keeps_readVerification], rule keeps_andthen [OF keeps_guard],
      rule keeps_andthen [OF om.keeps_checkRecordedDestination], rule keeps_andthen [OF om.keeps_activeKeys])
     (rule renew_latest_keeps)

section \<open>Rotation\<close>

lemma apply_rotation_history:
  assumes h: "history \<noteq> []" "chained (ol lib) bundle history" "set history \<subseteq> L" and n: "ro_network req = bd_network bundle"
  shows "triple (omega_inv lib bundle R L v) (apply_rotation lib bundle ss req history rotation now)
     (\<lambda>x ds. (x \<noteq> [] \<and> chained (ol lib) bundle x) \<and> omega_inv lib bundle R (L \<union> set x) v ds) (omega_inv lib bundle R L v)"
    (is "triple ?J _ ?Q _")
proof -
  have same: "?J ds \<Longrightarrow> ?Q history ds" for ds using h by (simp add: Un_absorb2)
  have done_: "triple (\<lambda>ds. (fst x \<noteq> [] \<and> chained (ol lib) bundle (fst x)) \<and> omega_inv lib bundle R (L \<union> set (fst x)) v ds)
      (case x of (history', resumed) \<Rightarrow> andthen (guard resumed EHandoff) (\<lambda>u. ret history')) ?Q ?J" for x
    by (cases x) (auto intro!: triple_andthen [OF triple_guard [where Q = "\<lambda>u. ?Q (fst x)"]] triple_ret elim: omega_inv_mono)
  show ?thesis unfolding apply_rotation_def Let_def n
    by (rule triple_if, rule triple_ret, erule same, rule triple_andthen [OF om.keeps_reserveRotationApply],
        rule triple_andthen [where R = "\<lambda>u. ?J"], intro keeps_rules om.keeps_prepareRotationTargets,
        rule triple_andthen [OF om.keeps_readRenewal], rule triple_andthen [OF om.keeps_activeKeys],
        rule triple_andthen [OF resumeRotationApply_history [OF h]], rule done_)
qed

lemma rotate_keeps:
  assumes n: "ro_network req = bd_network bundle"
  shows "keeps (omega_inv lib bundle R L v) (rotate lib bundle prompt req env)"
  unfolding rotate_def Let_def
proof (rule keeps_andthen [OF keeps_guard], rule keeps_andthen [OF om.keeps_openOperatorKeys], rule keeps_andthen [OF om.keeps_openPublication], rule keeps_grow [OF loadReleases_history],
       simp, simp, rule keeps_guard_then, rule keeps_andthen [OF keeps_opt], rule keeps_andthen [OF keeps_guard], rule keeps_andthen [OF keeps_guard],
       rule keeps_andthen [OF keeps_guard], rule keeps_andthen [OF om.keeps_rotation_for])
  fix ss history root and rotation :: rotationRecord
  assume h: "chained (ol lib) bundle history" "history \<noteq> []"
  let ?J = "omega_inv lib bundle R (L \<union> set history) v"
  have publish: "keeps (omega_inv lib bundle R (L \<union> set history \<union> set hs) v) (publishPrepared lib bundle hs (last hs) False env)"
    if "hs \<noteq> [] \<and> chained (ol lib) bundle hs" for hs
    by (rule publishPrepared_keeps) (use that in auto)
  have apply_: "keeps ?J (andthen (apply_rotation lib bundle ss req history rotation (pe_now env)) (\<lambda>history'.
      publishPrepared lib bundle history' (last history') False env))"
    by (rule keeps_grow [OF apply_rotation_history [OF h(2,1) _ n]]) (use publish in auto)
  show "keeps ?J (andthen (if ro_version req \<le> root_version (last history) then andthen (appliedRotationState lib history (ro_version req)) (\<lambda>st. ret ()) else ret ()) (\<lambda>u.
            if ro_apply req = [] then andthen (opt (validate (ol lib) bundle (last history)) EInvalid) (\<lambda>v. ret ())
            else
              andthen (checkRecordedDestination history) (\<lambda>u.
              andthen (apply_rotation lib bundle ss req history rotation (pe_now env)) (\<lambda>history'.
              publishPrepared lib bundle history' (last history') False env))))"
    by (rule keeps_andthen, intro keeps_rules om.keeps_appliedRotationState, rule keeps_if, intro keeps_rules,
        rule keeps_andthen [OF om.keeps_checkRecordedDestination], rule apply_)
qed

end
