(* ===== verification/Omega_Operator.thy ===== *)
theory Omega_Operator
  imports Omega_Safety
begin

text \<open>
  The operator tool over time: commands that are run one after the other, each interrupted anywhere by failures, and power
  losses between them. The theorems are about every such sequence.
\<close>

datatype command =
    Publish "(bool \<Rightarrow> bytes option) option" publish_request publish_env
  | Renew bool publish_env
  | Rotate "(bool \<Rightarrow> bytes option) option" rotate_request publish_env

text \<open>The commands for one network, with the prompt for the password of its keys.\<close>

definition run_command :: "journal_lib \<Rightarrow> Bundle \<Rightarrow> command \<Rightarrow> unit op" where
  "run_command lib bundle c =
     (case c of
        Publish prompt req env \<Rightarrow> publish lib bundle prompt req env
      | Renew disposable env \<Rightarrow> renew lib (bd_network bundle) disposable env
      | Rotate prompt req env \<Rightarrow> rotate lib bundle prompt (req\<lparr>ro_network := bd_network bundle\<rparr>) env)"

inductive command_step :: "journal_lib \<Rightarrow> Bundle \<Rightarrow> dirs \<Rightarrow> dirs \<Rightarrow> bool" for lib :: journal_lib and bd :: Bundle where
  command_run: "command_step lib bd ds (w_dirs (snd (run_command lib bd c \<lparr>w_dirs = ds, w_faults = fs\<rparr>)))"

inductive operator_step :: "journal_lib \<Rightarrow> Bundle \<Rightarrow> dirs \<Rightarrow> dirs \<Rightarrow> bool" for lib :: journal_lib and bd :: Bundle where
  operator_run: "command_step lib bd ds ds' \<Longrightarrow> operator_step lib bd ds ds'"
| operator_loss: "power_loss ds ds' \<Longrightarrow> operator_step lib bd ds ds'"

inductive_cases operator_stepE: "operator_step lib bundle ds ds'"

text \<open>A network that has never been published.\<close>

definition unpublished :: "journal_lib \<Rightarrow> Bundle \<Rightarrow> dirs \<Rightarrow> bool" where
  "unpublished lib bundle ds \<longleftrightarrow>
     (\<forall>n f. entry (ds Journal) n f \<longrightarrow> \<not> is_release n) \<and> (\<forall>n f. entry (ds Repository) n f \<longrightarrow> \<not> public_name n) \<and> custody_inv lib bundle ds"

lemma unpublished_inv: "unpublished lib bundle ds \<Longrightarrow> omega_inv lib bundle {} {} 0 ds"
  by (auto simp: unpublished_def omega_inv_def journal_inv_def public_inv_def served_since_def entry_def)

lemma run_command_keeps: "keeps (omega_inv lib bundle R L v) (run_command lib bundle c)"
  by (cases c) (auto simp: run_command_def intro!: publish_keeps renew_keeps rotate_keeps)

lemma command_step_inv: "command_step lib bundle ds ds' \<Longrightarrow> omega_inv lib bundle R L v ds \<Longrightarrow> omega_inv lib bundle R L v ds'"
proof (induction rule: command_step.induct)
  case (command_run ds c fs)
  then show ?case using keeps_snd [OF run_command_keeps, of lib "bundle" R L v "\<lparr>w_dirs = ds, w_faults = fs\<rparr>" c] by simp
qed

lemma operator_step_inv: "operator_step lib bundle ds ds' \<Longrightarrow> omega_inv lib bundle R {} 0 ds \<Longrightarrow> omega_inv lib bundle R {} 0 ds'"
proof (erule operator_stepE)
  assume J: "omega_inv lib bundle R {} 0 ds"
  { assume "command_step lib bundle ds ds'"
    then show ?thesis by (rule command_step_inv [OF _ J]) }
  assume "power_loss ds ds'"
  then have "omega_inv lib bundle R R 0 ds'" by (rule loss_inv [OF J])
  then show ?thesis by (rule omega_inv_mono) auto
qed

lemma operator_steps_inv: "(operator_step lib bundle)\<^sup>*\<^sup>* ds ds' \<Longrightarrow> omega_inv lib bundle R {} 0 ds \<Longrightarrow> omega_inv lib bundle R {} 0 ds'"
  by (induction rule: rtranclp_induct) (auto intro: operator_step_inv)

lemma command_steps_inv: "(command_step lib bundle)\<^sup>*\<^sup>* ds ds' \<Longrightarrow> omega_inv lib bundle R L v ds \<Longrightarrow> omega_inv lib bundle R L v ds'"
  by (induction rule: rtranclp_induct) (auto intro: command_step_inv)

section \<open>Two chains of durable releases agree\<close>

lemma chained_nth: "chained lib bundle rs \<Longrightarrow> i < length rs \<Longrightarrow> rl_version (rs ! i) = int i + 1"
  unfolding chained_def linked_def by simp

lemma durable_unique:
  assumes "record_codec (ol_release lib)" "durable lib ds r" "durable lib ds r'" "rl_version r = rl_version r'"
  shows "r = r'"
  using assms by (auto simp: has_release_def record_inject)

lemma chains_agree:
  assumes c: "record_codec (ol_release lib)" and rs: "chained (ol lib) bundle rs" "\<forall>r \<in> set rs. durable lib ds r"
    and rs': "chained (ol lib) bundle rs'" "\<forall>r \<in> set rs'. durable lib ds r" and le: "length rs \<le> length rs'"
  shows "rs = take (length rs) rs'"
proof (rule nth_equalityI)
  fix i assume i: "i < length rs"
  then have i': "i < length rs'" using le by simp
  have "rs ! i = rs' ! i"
    by (rule durable_unique [OF c]) (use i i' rs rs' chained_nth in auto)
  then show "rs ! i = take (length rs) rs' ! i" using i by simp
qed (use le in simp)

lemma chained_step:
  assumes "chained lib bundle rs" "Suc i < length rs"
  shows "take (length (rl_roots (rs ! i))) (rl_roots (rs ! Suc i)) = rl_roots (rs ! i)"
    and "isRenewal (rs ! Suc i) \<Longrightarrow> targets_version (rs ! Suc i) = targets_version (rs ! i) \<and> rl_targets (rs ! Suc i) = rl_targets (rs ! i)"
proof -
  have l: "linked lib bundle (take (Suc i) rs) (rs ! Suc i)" using assms unfolding chained_def by blast
  have "take (Suc i) rs \<noteq> [] \<and> last (take (Suc i) rs) = rs ! i" using assms(2) by (simp add: take_Suc_conv_app_nth)
  then show "take (length (rl_roots (rs ! i))) (rl_roots (rs ! Suc i)) = rl_roots (rs ! i)"
    and "isRenewal (rs ! Suc i) \<Longrightarrow> targets_version (rs ! Suc i) = targets_version (rs ! i) \<and> rl_targets (rs ! Suc i) = rl_targets (rs ! i)"
    using l unfolding linked_def by metis+
qed

lemma chained_roots:
  assumes "chained lib bundle rs" "j < length rs" "i \<le> j"
  shows "\<exists>more. rl_roots (rs ! j) = rl_roots (rs ! i) @ more"
  using assms(3,2)
proof (induction j rule: dec_induct)
  case (step j)
  then obtain more where "rl_roots (rs ! j) = rl_roots (rs ! i) @ more" by auto
  moreover have "rl_roots (rs ! Suc j) = rl_roots (rs ! j) @ drop (length (rl_roots (rs ! j))) (rl_roots (rs ! Suc j))"
    using chained_step(1) [OF assms(1) step(4)] by (metis append_take_drop_id)
  ultimately show ?case by (metis append_assoc)
qed simp

text \<open>The offline signed targets of a version are those of the release with that number.\<close>

lemma chained_targets:
  assumes "chained lib bundle rs" "j < length rs"
  shows "\<exists>k \<le> j. targets_version (rs ! j) = int k + 1 \<and> rl_targets (rs ! j) = rl_targets (rs ! k)"
  using assms(2)
proof (induction j)
  case 0
  then have "validate lib bundle (rs ! 0) \<noteq> None" "rl_version (rs ! 0) = 1"
    using chained_validate [OF assms(1)] chained_nth [OF assms(1), of 0] by auto
  then have "\<not> isRenewal (rs ! 0)" by (auto simp: validate_def approval_ok_def split: if_splits option.splits)
  then show ?case using \<open>rl_version (rs ! 0) = 1\<close> by (simp add: targets_version_def)
next
  case (Suc j)
  show ?case
  proof (cases "isRenewal (rs ! Suc j)")
    case True
    then show ?thesis using chained_step(2) [OF assms(1) Suc.prems] Suc by (metis Suc_lessD le_SucI)
  next
    case False
    then show ?thesis using chained_nth [OF assms(1) Suc.prems] by (auto simp: targets_version_def)
  qed
qed

text \<open>Numbered metadata: roots, targets and snapshots.\<close>

definition numbered :: "string \<Rightarrow> bool" where
  "numbered n \<longleftrightarrow> HasSuffix n ''.root.json'' \<or> HasSuffix n ''.targets.json'' \<or> HasSuffix n ''.snapshot.json''"

lemma numbered_public:
  assumes "numbered n"
  shows "public_name n" "n \<noteq> ''timestamp.json''"
proof -
  have "n \<noteq> ''targets''" "n \<noteq> ''timestamp.json''" using assms by (auto simp: numbered_def HasSuffix_def HasPrefix_def)
  moreover have "\<not> is_pending n" using assms unfolding numbered_def by (auto dest!: HasSuffix_split simp: not_pending_facts)
  ultimately show "public_name n" "n \<noteq> ''timestamp.json''" by (auto simp: public_name_def)
qed

lemma suffixes_differ:
  "Itoa a @ ''.root.json'' \<noteq> Itoa b @ ''.targets.json''" "Itoa a @ ''.root.json'' \<noteq> Itoa b @ ''.snapshot.json''"
  "Itoa a @ ''.targets.json'' \<noteq> Itoa b @ ''.snapshot.json''"
proof -
  have "take 8 (rev (Itoa a @ ''.root.json'')) \<noteq> take 8 (rev (Itoa b @ ''.targets.json''))" by simp
  then show "Itoa a @ ''.root.json'' \<noteq> Itoa b @ ''.targets.json''" by metis
  have "take 8 (rev (Itoa a @ ''.root.json'')) \<noteq> take 8 (rev (Itoa b @ ''.snapshot.json''))" by simp
  then show "Itoa a @ ''.root.json'' \<noteq> Itoa b @ ''.snapshot.json''" by metis
  have "take 8 (rev (Itoa a @ ''.targets.json'')) \<noteq> take 8 (rev (Itoa b @ ''.snapshot.json''))" by simp
  then show "Itoa a @ ''.targets.json'' \<noteq> Itoa b @ ''.snapshot.json''" by metis
qed

text \<open>The three kinds of objects with a number.\<close>

lemma numbered_object:
  assumes "(n, d) \<in> set (rl_objects lib bundle r)" "numbered n"
  obtains (root) i where "n = Itoa (int i + 1) @ ''.root.json''" "i \<le> length (rl_roots r)" "d = (bd_root bundle # rl_roots r) ! i"
    | (targets) "n = Itoa (targets_version r) @ ''.targets.json''" "d = rl_targets r"
    | (snapshot) "n = Itoa (rl_version r) @ ''.snapshot.json''" "d = rl_snapshot r"
proof -
  have one: "''1.root.json'' = Itoa (int 0 + 1) @ ''.root.json''" by code_simp
  have "\<not> numbered (''targets/'' @ h @ ''.bootstrap.json'')" for h by (simp add: numbered_def HasSuffix_def HasPrefix_def)
  then consider "n = ''1.root.json''" "d = bd_root bundle" | "n = Itoa (targets_version r) @ ''.targets.json''" "d = rl_targets r"
    | "n = Itoa (rl_version r) @ ''.snapshot.json''" "d = rl_snapshot r"
    | a where "2 \<le> a" "a < length (rl_roots r) + 2" "n = Itoa (int a) @ ''.root.json''" "d = rl_roots r ! (a - 2)"
    using assms by (auto simp: rl_objects_def in_set_enumerate_eq)
  then show ?thesis
  proof cases
    case 1
    show ?thesis by (rule root [of 0]) (use 1 one in auto)
  next
    case (4 a)
    show ?thesis by (rule root [of "a - 1"]) (use 4 in \<open>auto simp: of_nat_diff nth_Cons' numeral_2_eq_2\<close>)
  qed (use targets snapshot in auto)
qed

lemma chained_object:
  assumes c: "chained lib bundle rs" "i < length rs" "j < length rs"
    and o: "(n, d) \<in> set (rl_objects lib bundle (rs ! i))" "(n, d') \<in> set (rl_objects lib bundle (rs ! j))" and n: "numbered n"
  shows "d = d'"
proof -
  have v: "rl_version (rs ! i) = int i + 1" "rl_version (rs ! j) = int j + 1" using chained_nth [OF c(1)] c by auto
  obtain k l where t: "targets_version (rs ! i) = int k + 1" "rl_targets (rs ! i) = rl_targets (rs ! k)"
    "targets_version (rs ! j) = int l + 1" "rl_targets (rs ! j) = rl_targets (rs ! l)"
    using chained_targets [OF c(1)] c(2,3) by metis
  have roots: "(bd_root bundle # rl_roots (rs ! i)) ! m = (bd_root bundle # rl_roots (rs ! j)) ! m"
    if "m \<le> length (rl_roots (rs ! i))" "m \<le> length (rl_roots (rs ! j))" for m
    using chained_roots [OF c(1,3), of i] chained_roots [OF c(1,2), of j] that by (cases "i \<le> j"; cases m) (auto simp: nth_append)
  from o(1) n show ?thesis
  proof (cases rule: numbered_object)
    case (root a)
    from o(2) n show ?thesis
    proof (cases rule: numbered_object)
      case (root b)
      then show ?thesis using \<open>n = Itoa (int a + 1) @ ''.root.json''\<close> \<open>a \<le> length (rl_roots (rs ! i))\<close> \<open>d = _\<close> roots [of a]
        by (simp add: Itoa_inject)
    qed (use root suffixes_differ in auto)
  next
    case targets
    from o(2) n show ?thesis
    proof (cases rule: numbered_object)
      case targets
      then show ?thesis using \<open>n = Itoa (targets_version (rs ! i)) @ ''.targets.json''\<close> \<open>d = _\<close> t by (simp add: Itoa_inject)
    qed (use targets suffixes_differ suffixes_differ [symmetric] in metis)+
  next
    case snapshot
    from o(2) n show ?thesis
    proof (cases rule: numbered_object)
      case snapshot
      then show ?thesis using \<open>n = Itoa (rl_version (rs ! i)) @ ''.snapshot.json''\<close> \<open>d = _\<close> v by (simp add: Itoa_inject)
    qed (use snapshot suffixes_differ suffixes_differ [symmetric] in metis)+
  qed
qed

lemma durable_object:
  assumes c: "record_codec (ol_release lib)"
    and rs: "rs \<noteq> []" "chained (ol lib) bundle rs" "\<forall>r \<in> set rs. durable lib ds r"
    and rs': "rs' \<noteq> []" "chained (ol lib) bundle rs'" "\<forall>r \<in> set rs'. durable lib ds r"
    and o: "(n, d) \<in> set (rl_objects (ol lib) bundle (last rs))" "(n, d') \<in> set (rl_objects (ol lib) bundle (last rs'))"
    and n: "numbered n" and le: "length rs \<le> length rs'"
  shows "d = d'"
proof -
  have "rs = take (length rs) rs'" by (rule chains_agree [where ds = ds, OF c rs(2,3) rs'(2,3) le])
  then have "last rs = rs' ! (length rs - 1)" using rs(1) by (metis diff_less last_conv_nth length_greater_0_conv nth_take zero_less_one)
  moreover have "last rs' = rs' ! (length rs' - 1)" using rs'(1) by (simp add: last_conv_nth)
  moreover have "length rs - 1 < length rs'" "length rs' - 1 < length rs'" using rs(1) rs'(1) le by (cases rs; cases rs'; simp)+
  ultimately show ?thesis using chained_object [OF rs'(2) _ _ _ _ n] o by metis
qed

section \<open>Properties\<close>

lemma public_entry:
  assumes "omega_inv lib bundle R L v ds" "entry (ds Repository) n f" "public_name n"
  shows "public_ok lib bundle ds n (fl_data f)"
  using assms unfolding omega_inv_def public_inv_def by blast

text \<open>
  C2. What the public repository holds, before or after a power loss, belongs to a chain of validated releases that is
  durable in the journal, the last of which has the object or is the one with this timestamp.
\<close>

theorem published_is_recorded:
  assumes "unpublished lib bundle ds0" "(operator_step lib bundle)\<^sup>*\<^sup>* ds0 ds" "entry (ds Repository) n f" "public_name n"
  shows "public_ok lib bundle ds n (fl_data f)"
  using public_entry [OF operator_steps_inv [OF assms(2) unpublished_inv [OF assms(1)]] assms(3,4)] .

text \<open>
  C3. Numbered metadata is never replaced: whatever commands run, fail or are cut off, and whatever power losses undo, two
  files that are public under the same number at different times have the same bytes.
\<close>

theorem no_equivocation:
  assumes c: "record_codec (ol_release lib)" and u: "unpublished lib bundle ds0"
    and steps: "(operator_step lib bundle)\<^sup>*\<^sup>* ds0 ds1" "(operator_step lib bundle)\<^sup>*\<^sup>* ds1 ds2"
    and f: "entry (ds1 Repository) n f" "entry (ds2 Repository) n g" and n: "numbered n"
  shows "fl_data f = fl_data g"
proof -
  note p = numbered_public [OF n]
  have J1: "omega_inv lib bundle {} {} 0 ds1" by (rule operator_steps_inv [OF steps(1) unpublished_inv [OF u]])
  obtain rs where rs: "rs \<noteq> []" "chained (ol lib) bundle rs" "\<forall>r \<in> set rs. durable lib ds1 r" "(n, fl_data f) \<in> set (rl_objects (ol lib) bundle (last rs))"
    using public_entry [OF J1 f(1) p(1)] p(2) unfolding public_ok_def by blast
  have "omega_inv lib bundle (set rs) {} 0 ds1" using J1 rs(3) by (simp add: omega_inv_def)
  then have J2: "omega_inv lib bundle (set rs) {} 0 ds2" by (rule operator_steps_inv [OF steps(2)])
  obtain rs' where rs': "rs' \<noteq> []" "chained (ol lib) bundle rs'" "\<forall>r \<in> set rs'. durable lib ds2 r" "(n, fl_data g) \<in> set (rl_objects (ol lib) bundle (last rs'))"
    using public_entry [OF J2 f(2) p(1)] p(2) unfolding public_ok_def by blast
  have d: "\<forall>r \<in> set rs. durable lib ds2 r" using J2 by (simp add: omega_inv_def)
  show ?thesis
    using durable_object [where ds = ds2, OF c rs(1,2) d rs'(1,2,3) rs(4) rs'(4) n]
      durable_object [where ds = ds2, OF c rs'(1,2,3) rs(1,2) d rs'(4) rs(4) n] by (metis nat_le_linear)
qed

text \<open>
  C16. While there is no power loss the served timestamp is never replaced by one with a smaller version, whatever fails.
\<close>

theorem timestamp_forward:
  assumes u: "unpublished lib bundle ds0" and steps: "(operator_step lib bundle)\<^sup>*\<^sup>* ds0 ds1" "(command_step lib bundle)\<^sup>*\<^sup>* ds1 ds2"
    and d: "file_data (ds1 Repository) ''timestamp.json'' = Some d1"
  shows "\<exists>m1 d2 m2. ol_parse_list lib d1 = Some m1 \<and> file_data (ds2 Repository) ''timestamp.json'' = Some d2 \<and>
    ol_parse_list lib d2 = Some m2 \<and> ml_version m1 \<le> ml_version m2"
proof -
  have parse: "ol_parse_list (ol lib) = ol_parse_list lib" by (simp add: omega_lib.defs)
  have J1: "omega_inv lib bundle {} {} 0 ds1" by (rule operator_steps_inv [OF steps(1) unpublished_inv [OF u]])
  obtain f where f: "entry (ds1 Repository) ''timestamp.json'' f" "fl_data f = d1" using d by (auto simp: file_data_def entry_def)
  obtain rs where rs: "rs \<noteq> []" "chained (ol lib) bundle rs" "\<forall>r \<in> set rs. durable lib ds1 r" "d1 = rl_timestamp (last rs)"
    using public_entry [OF J1 f(1) public_timestamp] f(2) object_names unfolding public_ok_def by blast
  let ?r = "last rs"
  have r: "validate (ol lib) bundle ?r \<noteq> None" "durable lib ds1 ?r" using chained_last rs last_in_set by blast+
  have "served_since lib bundle (rl_version ?r) ds1"
    unfolding served_since_def using r d rs(4) by auto
  then have "omega_inv lib bundle {} {} (rl_version ?r) ds1" using J1 by (simp add: omega_inv_def)
  then have "omega_inv lib bundle {} {} (rl_version ?r) ds2" by (rule command_steps_inv [OF steps(2)])
  then have "served_since lib bundle (rl_version ?r) ds2" by (simp add: omega_inv_def)
  moreover have "rl_version ?r > 0" using validate_version [OF r(1)] by simp
  ultimately obtain r' where r': "validate (ol lib) bundle r' \<noteq> None" "rl_version r' \<ge> rl_version ?r"
      "file_data (ds2 Repository) ''timestamp.json'' = Some (rl_timestamp r')"
    unfolding served_since_def by blast
  show ?thesis using validate_timestamp [OF r(1)] validate_timestamp [OF r'(1)] r'(2,3) rs(4) by (auto simp: parse)
qed

end
