(* ===== verification/Omega_Custody.thy ===== *)
theory Omega_Custody
  imports Omega_Operator
begin

text \<open>
  Custody of the keys of encrypted rotations. A public handoff names its keys by their digests; it is only recorded when the
  files of these keys are durable, and a durable key file keeps its bytes. The commands of the operator tool keep this,
  whatever fails and whatever a power loss undoes.
\<close>

section \<open>Commands and invariants about private files\<close>

text \<open>An invariant that depends neither on releases nor on the public repository.\<close>

locale indifferent_files = private_files +
  assumes release: "admits J Journal (releaseName number) data"
    and public: "admits_replace J Repository n data"
    and generate: "keeps J (generate_rotation jlib bd ss previous version role now drawn salts handedOff existing)"
begin

lemma keeps_install_release [keeps_rules]: "keeps J (install Journal (releaseName n) data)"
  by (rule install_keeps [OF stable _ release]) simp

lemma keeps_targetsDir [keeps_rules]: "keeps J targetsDir"
  unfolding targetsDir_def
  by (intro keeps_rules triple_call) (use public in \<open>auto simp: with_live_upd admits_replace_def split: option.split\<close>)

lemma keeps_release_object [keeps_rules]: "x \<in> set (rl_objects l bd r) \<Longrightarrow> keeps J (release_object x)"
  unfolding release_object_def
  using object_names [of "fst x" "snd x" l bd r] by (intro writeObject_immutable_keeps stable admits_replace_admits public) auto

lemma keeps_publish_objects [keeps_rules]: "keeps J (publish_objects l bd history r ex env)"
  unfolding publish_objects_def by (intro keeps_rules writeObject_mutable_keeps stable public cleanPendingTwins_keeps)

lemma keeps_publishPrepared [keeps_rules]: "keeps J (publishPrepared l bd history r inspect env)"
  unfolding publishPrepared_def by (intro keeps_rules)

lemma keeps_publish [keeps_rules]: "keeps J (publish l bd prompt req env)"
  unfolding publish_def Let_def by (intro keeps_rules)

lemma keeps_sign_renewal [keeps_rules]: "keeps J (sign_renewal l bd keys history i pending)"
  unfolding sign_renewal_def Let_def by (intro keeps_rules private_names)

lemma keeps_resumeRotationApply [keeps_rules]: "keeps J (resumeRotationApply l bd history now custody initial)"
  unfolding resumeRotationApply_def Let_def by (intro keeps_rules private_names)

lemma keeps_renew [keeps_rules]: "keeps J (renew l network disposable env)"
  unfolding renew_def Let_def by (intro keeps_rules)

lemma keeps_apply_rotation [keeps_rules]: "keeps J (apply_rotation l bd ss req history rotation now)"
  unfolding apply_rotation_def Let_def by (intro keeps_rules)

lemma keeps_rotation_for [keeps_rules]: "keeps J (rotation_for jlib bd ss req latest now)"
  by (rule keeps_rotation_for_if) (rule generate)

lemma keeps_rotate [keeps_rules]: "keeps J (rotate jlib bd prompt req env)"
  unfolding rotate_def Let_def by (intro keeps_rules)

lemma keeps_command: "keeps J (run_command jlib bd c)"
  by (cases c) (auto simp: run_command_def intro: keeps_rules)

end

section \<open>The invariant\<close>

text \<open>A file that is there and durable, with bytes that satisfy \<open>P\<close>.\<close>

definition kept_file :: "directory \<Rightarrow> string \<Rightarrow> (bytes \<Rightarrow> bool) \<Rightarrow> bool" where
  "kept_file d n P \<longleftrightarrow>
     (\<exists>f g. gm_lookup (dr_live d) n = Some f \<and> gm_lookup (dr_disk d) n = Some g \<and> fl_synced f \<and> fl_synced g \<and> fl_data f = fl_data g \<and> P (fl_data f))"

definition key_file :: "store_id \<Rightarrow> string \<Rightarrow> bool" where
  "key_file s n \<longleftrightarrow> (s = Rotations \<or> s = OnlineKeys) \<and> \<not> is_pending n"

text \<open>Where a rotation keeps the key \<open>name\<close>.\<close>

definition key_place :: "rotationIntent \<Rightarrow> string \<Rightarrow> store_id \<times> string" where
  "key_place i name =
     (if rn_schema i = 4 then (OnlineKeys, onlineKeyName (rn_root_version i) name)
      else (Rotations, encryptedGenerationName (rn_root_version i) name))"

definition key_backed :: "journal_lib \<Rightarrow> dirs \<Rightarrow> rotationIntent \<Rightarrow> string \<Rightarrow> bool" where
  "key_backed lib ds i name \<longleftrightarrow>
     (case key_place i name of (s, n) \<Rightarrow> kept_file (ds s) n (\<lambda>data. lib_sha256 lib data = gm_get (rn_key_digests i) name))"

text \<open>All keys of a handoff are kept; of new root keys a quorum, which is what the successor is signed with.\<close>

definition handoff_backed :: "journal_lib \<Rightarrow> dirs \<Rightarrow> rotationIntent \<Rightarrow> bool" where
  "handoff_backed lib ds i \<longleftrightarrow>
     (if rn_schema i = 3 then \<exists>a \<in> set root_key_names. \<exists>b \<in> set root_key_names. a \<noteq> b \<and> key_backed lib ds i a \<and> key_backed lib ds i b
      else \<forall>name \<in> set (if rn_schema i = 2 then [''targets''] else online_roles). key_backed lib ds i name)"

definition handoff_ok :: "journal_lib \<Rightarrow> dirs \<Rightarrow> bytes \<Rightarrow> bool" where
  "handoff_ok lib ds data \<longleftrightarrow>
     (\<exists>i. data = record_of (jl_intent lib) i \<and> (rn_custody i = encryptedCustody \<longrightarrow> handoff_backed lib ds i))"

type_synonym kept_files = "(store_id \<times> string \<times> (bytes \<Rightarrow> bool)) set"

definition custody_kept :: "journal_lib \<Rightarrow> kept_files \<Rightarrow> dirs \<Rightarrow> bool" where
  "custody_kept lib K ds \<longleftrightarrow>
     (\<forall>s n f. key_file s n \<longrightarrow> entry (ds s) n f \<longrightarrow> fl_synced f) \<and>
     (\<forall>(s, n, P) \<in> K. key_file s n \<and> kept_file (ds s) n P) \<and>
     (\<forall>v f. entry (ds Journal) (rotationIntentName v) f \<longrightarrow> fl_synced f \<and> handoff_ok lib ds (fl_data f))"

lemma custody_kept_insert:
  "custody_kept lib (insert (s, n, P) K) ds \<longleftrightarrow> custody_kept lib K ds \<and> key_file s n \<and> kept_file (ds s) n P"
  by (auto simp: custody_kept_def)

lemma custody_kept_mono: "custody_kept lib K' ds \<Longrightarrow> K \<subseteq> K' \<Longrightarrow> custody_kept lib K ds"
  by (auto simp: custody_kept_def)

lemma kept_file_mono: "kept_file d n P \<Longrightarrow> (\<And>data. P data \<Longrightarrow> Q data) \<Longrightarrow> kept_file d n Q"
  by (auto simp: kept_file_def)

text \<open>Directories in which every key file is still kept.\<close>

definition keeps_files :: "dirs \<Rightarrow> dirs \<Rightarrow> bool" where
  "keeps_files ds ds' \<longleftrightarrow> (\<forall>s n P. key_file s n \<longrightarrow> kept_file (ds s) n P \<longrightarrow> kept_file (ds' s) n P)"

lemma key_place_file: "key_place i name = (s, n) \<Longrightarrow> key_file s n"
  using private_names(12,14) by (auto simp: key_place_def key_file_def private_name_def split: if_splits)

lemma key_backed_keeps: "keeps_files ds ds' \<Longrightarrow> key_backed lib ds i name \<Longrightarrow> key_backed lib ds' i name"
  unfolding key_backed_def keeps_files_def by (auto split: prod.splits dest: key_place_file)

lemma handoff_keeps:
  assumes "keeps_files ds ds'" "handoff_ok lib ds data"
  shows "handoff_ok lib ds' data"
proof -
  have "handoff_backed lib ds i \<Longrightarrow> handoff_backed lib ds' i" for i
    using key_backed_keeps [OF assms(1)] unfolding handoff_backed_def by (auto split: if_split_asm) blast+
  then show ?thesis using assms(2) unfolding handoff_ok_def by blast
qed

lemma custody_keptI:
  assumes J: "custody_kept lib K ds" and k: "keeps_files ds ds'"
    and s: "\<And>s n f. key_file s n \<Longrightarrow> entry (ds' s) n f \<Longrightarrow> fl_synced f"
    and i: "\<And>v f. entry (ds' Journal) (rotationIntentName v) f \<Longrightarrow> fl_synced f \<and> handoff_ok lib ds (fl_data f)"
  shows "custody_kept lib K ds'"
  unfolding custody_kept_def
proof (intro conjI allI impI ballI)
  fix x assume "x \<in> K"
  then show "case x of (s, n, P) \<Rightarrow> key_file s n \<and> kept_file (ds' s) n P"
    using J k unfolding custody_kept_def keeps_files_def by (cases x) blast
qed (use s i handoff_keeps [OF k] in blast)+

text \<open>Changes that are quiet about key files and handoffs.\<close>

definition custody_watched :: "store_id \<Rightarrow> string \<Rightarrow> bool" where
  "custody_watched s n \<longleftrightarrow> key_file s n \<or> s = Journal \<and> is_intent n"

lemma quiet_kept_file:
  assumes q: "quiet W ds ds'" and w: "W s n" and k: "kept_file (ds s) n P"
  shows "kept_file (ds' s) n P"
proof -
  obtain f g where f: "gm_lookup (dr_live (ds s)) n = Some f" "fl_synced f" and g: "gm_lookup (dr_disk (ds s)) n = Some g" "fl_synced g"
    and eq: "fl_data f = fl_data g" and P: "P (fl_data f)" using k by (auto simp: kept_file_def)
  obtain f' where f': "gm_lookup (dr_live (ds' s)) n = Some f'" "fl_data f = fl_data f'" "fl_synced f \<longrightarrow> fl_synced f'"
    by (rule quiet_live [OF q w f(1)])
  have "entries_le (Some g) (gm_lookup (dr_disk (ds' s)) n) \<or> entries_le (Some f) (gm_lookup (dr_disk (ds' s)) n)"
    using q w f(1) g(1) unfolding quiet_def by metis
  then obtain g' where "gm_lookup (dr_disk (ds' s)) n = Some g'" "fl_data g' = fl_data f" "fl_synced g'"
    using entries_le_Some1 f(2) g(2) eq by metis
  then show ?thesis using f' f(2) P by (auto simp: kept_file_def)
qed

lemma quiet_custody:
  assumes q: "quiet custody_watched ds ds'" and J: "custody_kept lib K ds"
  shows "custody_kept lib K ds'"
proof (rule custody_keptI [OF J])
  show "keeps_files ds ds'" unfolding keeps_files_def using quiet_kept_file [OF q] by (auto simp: custody_watched_def)
  show "fl_synced f" if k: "key_file s n" and e: "entry (ds' s) n f" for s n f
    using quiet_entry [OF q _ e] k J unfolding custody_kept_def custody_watched_def by metis
  show "fl_synced f \<and> handoff_ok lib ds (fl_data f)" if e: "entry (ds' Journal) (rotationIntentName v) f" for v f
    using quiet_entry [OF q _ e] J intent_names(3) unfolding custody_kept_def custody_watched_def by metis
qed

lemma custody_watched_not_pending: "custody_watched s n \<Longrightarrow> \<not> is_pending n"
  by (auto simp: custody_watched_def key_file_def is_intent_def not_pending_facts dest!: HasSuffix_split)

lemma custody_stable: "stable (custody_kept lib K) s"
  by (rule quiet_stable [where W = custody_watched]) (auto intro: quiet_custody simp: custody_watched_not_pending)

lemma custody_unwatched: "\<not> custody_watched s n \<Longrightarrow> admits_replace (custody_kept lib K) s n data"
  by (rule quiet_admits_replace [where W = custody_watched]) (auto intro: quiet_custody)

lemma kept_file_live:
  "s' \<noteq> s \<or> n' \<noteq> n \<Longrightarrow> kept_file (with_live ds s (gm_update n f (dr_live (ds s))) s') n' P \<longleftrightarrow> kept_file (ds s') n' P"
  by (auto simp: kept_file_def with_live_def)

lemma entry_live:
  "entry (with_live ds s (gm_update n f (dr_live (ds s))) s') n' g \<Longrightarrow> s' = s \<and> n' = n \<and> g = f \<or> entry (ds s') n' g"
  by (auto simp: entry_def with_live_def split: if_splits)

lemma kept_file_present: "kept_file d n P \<Longrightarrow> gm_lookup (dr_live d) n \<noteq> None"
  by (auto simp: kept_file_def)

lemma custody_admits_key: "key_file s n \<Longrightarrow> admits (custody_kept lib K) s n data"
  unfolding admits_def
proof (intro allI impI)
  fix ds and f :: fnode
  assume k: "key_file s n" and J: "custody_kept lib K ds" and none: "gm_lookup (dr_live (ds s)) n = None" and f: "fl_synced f"
  let ?ds' = "with_live ds s (gm_update n f (dr_live (ds s)))"
  show "custody_kept lib K ?ds'"
  proof (rule custody_keptI [OF J])
    show "keeps_files ds ?ds'" unfolding keeps_files_def using none kept_file_present kept_file_live by metis
    show "fl_synced g" if "key_file s' m" "entry (?ds' s') m g" for s' m g
      using entry_live [OF that(2)] that(1) f J unfolding custody_kept_def by blast
    show "fl_synced g \<and> handoff_ok lib ds (fl_data g)" if "entry (?ds' Journal) (rotationIntentName v) g" for v g
      using entry_live [OF that] k J unfolding custody_kept_def key_file_def by blast
  qed
qed

lemma custody_admits_intent:
  assumes "\<And>ds. custody_kept lib K ds \<Longrightarrow> rn_custody i = encryptedCustody \<Longrightarrow> handoff_backed lib ds i"
  shows "admits (custody_kept lib K) Journal (rotationIntentName v) (record_of (jl_intent lib) i)"
  unfolding admits_def
proof (intro allI impI)
  fix ds and f :: fnode
  let ?n = "rotationIntentName v"
  let ?ds' = "with_live ds Journal (gm_update ?n f (dr_live (ds Journal)))"
  assume J: "custody_kept lib K ds" and d: "fl_data f = record_of (jl_intent lib) i" and f: "fl_synced f"
  have ok: "handoff_ok lib ds (fl_data f)" using assms [OF J] d unfolding handoff_ok_def by blast
  show "custody_kept lib K ?ds'"
  proof (rule custody_keptI [OF J])
    show "keeps_files ds ?ds'" unfolding keeps_files_def key_file_def by (auto simp: kept_file_live)
    show "fl_synced g" if "key_file s' m" "entry (?ds' s') m g" for s' m g
      using entry_live [OF that(2)] that(1) f J unfolding custody_kept_def by blast
    show "fl_synced g \<and> handoff_ok lib ds (fl_data g)" if "entry (?ds' Journal) (rotationIntentName w) g" for w g
      using entry_live [OF that] ok f J unfolding custody_kept_def by blast
  qed
qed

interpretation cu: private_files "custody_kept lib K" lib for lib K
proof
  show "stable (custody_kept lib K) s" for s by (rule custody_stable)
  show "custody_kept lib K (ds(s := (ds s)\<lparr>dr_made := b\<rparr>))" if "custody_kept lib K ds" for ds s b
    by (rule quiet_custody [OF quiet_made that])
  show "admits (custody_kept lib K) s n data" if "private_name s n" for s n data
  proof (cases "s = Journal")
    case True
    then show ?thesis using that by (intro admits_replace_admits [OF custody_unwatched]) (auto simp: custody_watched_def private_name_def key_file_def)
  qed (use that in \<open>auto intro: custody_admits_key simp: private_name_def key_file_def\<close>)
  show "admits_replace (custody_kept lib K) Journal n data" if "private_name Journal n" for n data
    by (rule custody_unwatched) (use that in \<open>auto simp: custody_watched_def private_name_def key_file_def\<close>)
  show "admits (custody_kept lib K) Journal (rotationIntentName v) (record_of (jl_intent lib) i)" if "rn_custody i \<noteq> encryptedCustody" for v i
    by (rule custody_admits_intent) (use that in simp)
qed

section \<open>Keys before the handoff\<close>

lemma dir_of_numbered: "CHR ''/'' \<notin> set x \<Longrightarrow> dir_of (Itoa n @ x) = ''.''"
proof -
  assume "CHR ''/'' \<notin> set x"
  moreover have "CHR ''/'' \<notin> set (Itoa n)" by (rule Itoa_no_char) (simp_all add: digit_val_def)
  ultimately show ?thesis by (intro dir_of_plain) simp
qed

lemma key_place_dir: "CHR ''/'' \<notin> set name \<Longrightarrow> key_place i name = (s, n) \<Longrightarrow> dir_of n = ''.''"
  by (auto simp: key_place_def onlineKeyName_def encryptedGenerationName_def dir_of_numbered split: if_splits)

lemma sync_kept:
  assumes k: "key_file s n" "dir_of n = ''.''"
  shows "triple (\<lambda>ds. custody_kept lib K ds \<and> file_data (ds s) n = Some r) (syncDir s)
           (\<lambda>u. custody_kept lib (insert (s, n, (=) r) K)) (custody_kept lib K)"
  unfolding syncDir_def sync_sub_def
proof (rule triple_call)
  fix ds assume P: "custody_kept lib K ds \<and> file_data (ds s) n = Some r"
  then obtain f where f: "gm_lookup (dr_live (ds s)) n = Some f" "fl_data f = r" by (auto simp: file_data_def)
  then have "fl_synced f" using P k(1) unfolding custody_kept_def entry_def by blast
  then have "kept_file (sync_entries ''.'' (ds s)) n ((=) r)" using f k(2) by (auto simp: kept_file_def)
  moreover have "custody_kept lib K (ds(s := sync_entries ''.'' (ds s)))" using quiet_custody [OF quiet_sync] P by blast
  ultimately show "case (Val (), sync_entries ''.'' (ds s)) of (Val x, d) \<Rightarrow> custody_kept lib (insert (s, n, (=) r) K) (ds(s := d))
      | (Err e, d) \<Rightarrow> custody_kept lib K (ds(s := d)) | (Died, d) \<Rightarrow> custody_kept lib K (ds(s := d))"
    using k(1) by (simp add: custody_kept_insert)
qed simp

text \<open>A key that was stored, under the digest that is returned.\<close>

abbreviation stored :: "journal_lib \<Rightarrow> store_id \<Rightarrow> string \<Rightarrow> kept_files \<Rightarrow> string \<times> tuf_key \<times> string \<Rightarrow> dirs \<Rightarrow> bool" where
  "stored lib s n K x \<equiv> custody_kept lib (insert (s, n, \<lambda>data. lib_sha256 lib data = snd (snd x)) K)"

lemma store_key:
  assumes k: "key_file s n" "dir_of n = ''.''" and m: "\<And>K. triple (custody_kept lib K) m (\<lambda>x ds. snd (snd x) = lib_sha256 lib r \<and> custody_kept lib K ds) (custody_kept lib K)"
  shows "triple (custody_kept lib K) (andthen (install s n r) (\<lambda>u. andthen (syncDir s) (\<lambda>u. m))) (stored lib s n K) (custody_kept lib K)"
proof (rule triple_andthen [OF install_triple [OF custody_stable _ custody_admits_key [OF k(1)]]])
  show "\<not> is_pending n" using k(1) by (simp add: key_file_def)
  show "triple (\<lambda>ds. custody_kept lib K ds \<and> file_data (ds s) n = Some r) (andthen (syncDir s) (\<lambda>u. m)) (stored lib s n K) (custody_kept lib K)"
  proof (rule triple_andthen [OF sync_kept [OF k]])
    show "triple (custody_kept lib (insert (s, n, (=) r) K)) m (stored lib s n K) (custody_kept lib K)"
      by (rule triple_conseq [OF m [of "insert (s, n, (=) r) K"]]) (auto simp: custody_kept_insert intro: kept_file_mono [of _ _ "(=) r"])
  qed
qed

lemma prepareGenerationKey_kept:
  assumes name: "CHR ''/'' \<notin> set name"
  shows "triple (custody_kept lib K) (prepareGenerationKey lib bd ss plan name handedOff drawn salt)
           (stored lib Rotations (encryptedGenerationName (ep_root_version plan) name) K) (custody_kept lib K)"
proof -
  let ?n = "encryptedGenerationName (ep_root_version plan) name"
  have k: "key_file Rotations ?n" "dir_of ?n = ''.''"
    using private_names(14) [of "ep_root_version plan" name] name
    by (auto simp: key_file_def private_name_def encryptedGenerationName_def dir_of_numbered)
  have last: "triple (custody_kept lib K) (andthen (read Rotations ?n) (\<lambda>stored. andthen (guard (stored = r) EKey) (\<lambda>u. ret (e, p, lib_sha256 lib r))))
      (\<lambda>x ds. snd (snd x) = lib_sha256 lib r \<and> custody_kept lib K ds) (custody_kept lib K)" for K r e p
    by (rule triple_andthen [OF keeps_read], rule triple_andthen [OF keeps_guard]) auto
  show ?thesis unfolding prepareGenerationKey_def Let_def
    by (rule triple_andthen [OF cu.keeps_read_either], unfold split_beta, rule triple_andthen [OF keeps_guard],
        rule triple_andthen [where R = "\<lambda>u. custody_kept lib K"], intro keeps_rules cu.keeps_draw_generation, rule triple_andthen [OF keeps_guard],
        rule triple_andthen [where R = "\<lambda>u. custody_kept lib K"], intro keeps_rules cu.keeps_unlock_signer, rule triple_andthen [OF keeps_opt])
       (rule store_key [OF k last])
qed

lemma prepareOnlineGeneration_kept:
  assumes name: "CHR ''/'' \<notin> set name"
  shows "triple (custody_kept lib K) (prepareOnlineGeneration lib bd ss plan name handedOff drawn)
           (stored lib OnlineKeys (onlineKeyName (ep_root_version plan) name) K) (custody_kept lib K)"
proof -
  let ?n = "onlineKeyName (ep_root_version plan) name"
  have k: "key_file OnlineKeys ?n" "dir_of ?n = ''.''"
    using private_names(12) [of "ep_root_version plan" name] name
    by (auto simp: key_file_def private_name_def onlineKeyName_def dir_of_numbered)
  have last: "triple (custody_kept lib K) (andthen (cleanPendingTwins OnlineKeys ''.'') (\<lambda>u. andthen (read OnlineKeys ?n) (\<lambda>verified.
        andthen (guard (verified = r) EKey) (\<lambda>u. ret (e, p, lib_sha256 lib r)))))
      (\<lambda>x ds. snd (snd x) = lib_sha256 lib r \<and> custody_kept lib K ds) (custody_kept lib K)" for K r e p
    by (rule triple_andthen [OF cleanPendingTwins_keeps [OF custody_stable]], rule triple_andthen [OF keeps_read], rule triple_andthen [OF keeps_guard]) auto
  show ?thesis unfolding prepareOnlineGeneration_def Let_def
    by (rule triple_andthen [OF cu.keeps_mkdir], rule triple_andthen [OF keeps_syncDir [OF custody_stable]], rule triple_andthen [OF keeps_subdir],
        rule triple_andthen [OF cu.keeps_read_either], unfold split_beta, rule triple_andthen [where R = "\<lambda>u. custody_kept lib K"], intro keeps_rules,
        rule triple_andthen [OF keeps_guard], rule triple_andthen [OF keeps_opt])
       (rule store_key [OF k last])
qed

text \<open>The files of the keys that were generated for a version.\<close>

definition role_place :: "string \<Rightarrow> int \<Rightarrow> string \<Rightarrow> store_id \<times> string" where
  "role_place role version name =
     (if role = ''online'' then (OnlineKeys, onlineKeyName version name) else (Rotations, encryptedGenerationName version name))"

definition generated_file :: "journal_lib \<Rightarrow> string \<Rightarrow> int \<Rightarrow> string \<times> generated \<Rightarrow> store_id \<times> string \<times> (bytes \<Rightarrow> bool)" where
  "generated_file lib role version x =
     (case role_place role version (fst x) of (s, n) \<Rightarrow> (s, n, \<lambda>data. lib_sha256 lib data = gn_digest (snd x)))"

definition generated_files :: "journal_lib \<Rightarrow> string \<Rightarrow> int \<Rightarrow> (string, generated) gomap \<Rightarrow> kept_files" where
  "generated_files lib role version gs = generated_file lib role version ` {x \<in> set gs. gn_private (snd x) \<noteq> None}"

lemma generated_files_Nil [simp]: "generated_files lib role version [] = {}"
  by (simp add: generated_files_def)

lemma generated_files_Cons [simp]:
  "generated_files lib role version (x # gs) =
     (if gn_private (snd x) = None then generated_files lib role version gs
      else insert (generated_file lib role version x) (generated_files lib role version gs))"
  by (auto simp: generated_files_def)

lemma generate_kept:
  assumes name: "CHR ''/'' \<notin> set name"
  shows "triple (custody_kept lib K) (generate lib bd ss plan role handedOff existing drawn salts name)
           (\<lambda>g ds. (role \<noteq> ''root'' \<longrightarrow> gn_private g \<noteq> None) \<and> custody_kept lib (generated_files lib role (ep_root_version plan) [(name, g)] \<union> K) ds)
           (custody_kept lib K)"
proof -
  let ?p = "role_place role (ep_root_version plan) name"
  let ?S = "\<lambda>x. stored lib (fst ?p) (snd ?p) K x"
  have m: "triple (custody_kept lib K)
      (if role = ''online'' then prepareOnlineGeneration lib bd ss plan name handedOff (gm_get drawn name)
       else prepareGenerationKey lib bd ss plan name handedOff (gm_get drawn name) (gm_get salts name)) ?S (custody_kept lib K)"
    using prepareOnlineGeneration_kept [OF name] prepareGenerationKey_kept [OF name] by (simp add: role_place_def)
  show ?thesis unfolding generate_def
  proof (rule triple_andthen [OF triple_trying [OF m]])
    fix r :: "omega_error + string \<times> tuf_key \<times> string"
    show "triple (\<lambda>ds. case r of Inl e \<Rightarrow> custody_kept lib K ds | Inr x \<Rightarrow> ?S x ds)
       (case r of
         Inr (private, public, hash) \<Rightarrow> ret \<lparr>gn_public = Some public, gn_digest = hash, gn_private = Some private\<rparr>
       | Inl e \<Rightarrow>
           if e = ENotExist \<and> role = ''root'' \<and> existing \<noteq> None then
             ret \<lparr>gn_public = gm_lookup (rn_root_keys (the existing)) name, gn_digest = gm_get (rn_key_digests (the existing)) name, gn_private = None\<rparr>
           else throw e)
       (\<lambda>g ds. (role \<noteq> ''root'' \<longrightarrow> gn_private g \<noteq> None) \<and> custody_kept lib (generated_files lib role (ep_root_version plan) [(name, g)] \<union> K) ds)
       (custody_kept lib K)"
      by (cases r) (auto simp: generated_file_def split_beta intro!: triple_ret triple_if)
  qed
qed

lemma generate_all_kept:
  assumes "\<forall>name \<in> set ns. CHR ''/'' \<notin> set name"
  shows "triple (custody_kept lib K) (generate_all ns (generate lib bd ss plan role handedOff existing drawn salts))
           (\<lambda>gs ds. (map fst gs = ns \<and> (\<forall>x \<in> set gs. role \<noteq> ''root'' \<longrightarrow> gn_private (snd x) \<noteq> None)) \<and>
              custody_kept lib (generated_files lib role (ep_root_version plan) gs \<union> K) ds) (custody_kept lib K)"
  using assms
proof (induction ns arbitrary: K)
  case Nil
  then show ?case by auto
next
  case (Cons n ns)
  let ?F = "generated_files lib role (ep_root_version plan)"
  have X: "triple (custody_kept lib (A \<union> K)) m Q (custody_kept lib (A \<union> K)) \<Longrightarrow> triple (custody_kept lib (A \<union> K)) m Q (custody_kept lib K)"
    for A Q and m :: "'x op" by (erule triple_conseq) (auto elim: custody_kept_mono)
  show ?case unfolding generate_all.simps
    by (rule triple_andthen [OF generate_kept], use Cons.prems in simp, rule triple_const, rule triple_andthen [OF X [OF Cons.IH]], use Cons.prems in simp)
       (auto intro!: triple_ret elim!: custody_kept_mono)
qed

lemma generated_digest:
  assumes "distinct (map fst gs)" "(n, g) \<in> set gs"
  shows "gm_get (map (\<lambda>(n, g). (n, gn_digest g)) gs) n = gn_digest g"
proof -
  have "map_of (map (\<lambda>(n, g). (n, gn_digest g)) gs) n = map_option gn_digest (map_of gs n)" by (induction gs) auto
  moreover have "map_of gs n = Some g" using assms by (rule map_of_is_SomeI)
  ultimately show ?thesis by (simp add: gm_get_def gm_lookup_def)
qed

text \<open>Keys that were generated under the names of their role, and are kept.\<close>

definition generation_kept :: "journal_lib \<Rightarrow> string \<Rightarrow> int \<Rightarrow> (string, generated) gomap \<Rightarrow> kept_files \<Rightarrow> dirs \<Rightarrow> bool" where
  "generation_kept lib role version gs K ds \<longleftrightarrow>
     (map fst gs = rotation_names role \<and> (\<forall>x \<in> set gs. role \<noteq> ''root'' \<longrightarrow> gn_private (snd x) \<noteq> None)) \<and>
     custody_kept lib (generated_files lib role version gs \<union> K) ds"

lemma generated_backed:
  assumes kept: "generation_kept lib role (ep_root_version plan) gs K ds" and role: "role \<in> {''root'', ''targets'', ''online''}"
    and g: "(n, g) \<in> set gs" "gn_private g \<noteq> None"
  shows "key_backed lib ds (generated_intent lib bd ss previous plan role gs) n"
proof -
  let ?i = "generated_intent lib bd ss previous plan role gs"
  have k: "custody_kept lib (generated_files lib role (ep_root_version plan) gs \<union> K) ds" "map fst gs = rotation_names role"
    using kept by (simp_all add: generation_kept_def)
  obtain s f where p: "role_place role (ep_root_version plan) n = (s, f)" by force
  have "(s, f, \<lambda>data. lib_sha256 lib data = gn_digest g) \<in> generated_files lib role (ep_root_version plan) gs"
    unfolding generated_files_def by (rule image_eqI [of _ _ "(n, g)"]) (use g p in \<open>simp_all add: generated_file_def\<close>)
  then have "kept_file (ds s) f (\<lambda>data. lib_sha256 lib data = gn_digest g)" using k(1) unfolding custody_kept_def by blast
  moreover have "key_place ?i n = (s, f)" using p role by (auto simp: key_place_def role_place_def generated_intent_def split: if_splits)
  moreover have "distinct (map fst gs)" by (simp add: k(2) rotation_names_def root_key_names_def online_roles_def)
  then have "gm_get (rn_key_digests ?i) n = gn_digest g" using generated_digest [OF _ g(1)] by (simp add: generated_intent_def)
  ultimately show ?thesis by (simp add: key_backed_def)
qed

lemma generated_handoff:
  assumes kept: "generation_kept lib role (ep_root_version plan) gs K ds" and role: "role \<in> {''root'', ''targets'', ''online''}"
    and quorum: "role = ''root'' \<Longrightarrow> length (generated_privates gs) \<ge> 2"
  shows "handoff_backed lib ds (generated_intent lib bd ss previous plan role gs)"
proof -
  let ?i = "generated_intent lib bd ss previous plan role gs"
  define B where "B = key_backed lib ds ?i"
  have names: "map fst gs = rotation_names role" and all: "\<And>x. x \<in> set gs \<Longrightarrow> role \<noteq> ''root'' \<Longrightarrow> gn_private (snd x) \<noteq> None"
    using kept by (auto simp: generation_kept_def)
  have b: "B n" if "(n, g) \<in> set gs" "gn_private g \<noteq> None" for n g unfolding B_def by (rule generated_backed [OF kept role that])
  show ?thesis
  proof (cases "role = ''root''")
    case True
    obtain a b c where gs: "gs = [(''root-1'', a), (''root-2'', b), (''root-3'', c)]"
      using names True by (auto simp: rotation_names_def root_key_names_def map_eq_Cons_conv)
    have "gn_private a \<noteq> None \<and> gn_private b \<noteq> None \<or> gn_private a \<noteq> None \<and> gn_private c \<noteq> None \<or> gn_private b \<noteq> None \<and> gn_private c \<noteq> None"
      using quorum [OF True] by (auto simp: gs generated_privates_def split: option.splits)
    then have "B ''root-1'' \<and> B ''root-2'' \<or> B ''root-1'' \<and> B ''root-3'' \<or> B ''root-2'' \<and> B ''root-3''"
      using b [of "''root-1''" a] b [of "''root-2''" b] b [of "''root-3''" c] by (simp add: gs) blast
    then have "\<exists>x \<in> set root_key_names. \<exists>y \<in> set root_key_names. x \<noteq> y \<and> B x \<and> B y" by (auto simp: root_key_names_def)
    moreover have "rn_schema ?i = 3" using True by (simp add: generated_intent_def)
    ultimately show ?thesis by (simp add: handoff_backed_def B_def)
  next
    case False
    have "B n" if "n \<in> set (rotation_names role)" for n
    proof -
      obtain g where g: "(n, g) \<in> set gs" using \<open>n \<in> _\<close> unfolding names [symmetric] by auto
      show ?thesis by (rule b [OF g]) (use all [OF g False] in simp)
    qed
    moreover have "rn_schema ?i \<noteq> 3" "(if rn_schema ?i = 2 then [''targets''] else online_roles) = rotation_names role"
      using False by (auto simp: generated_intent_def rotation_names_def)
    ultimately show ?thesis by (simp add: handoff_backed_def B_def)
  qed
qed

lemma generated_role:
  assumes "intent_valid lib bd previous version (generated_intent lib bd ss prev plan role gs)"
  shows "role \<in> {''root'', ''targets'', ''online''}"
proof (rule ccontr)
  assume n: "\<not> ?thesis"
  have "intent_custody (generated_intent lib bd ss prev plan role gs)" using assms by (simp add: intent_valid_def)
  then show False using n by (auto simp: intent_custody_def generated_intent_def Let_def gm_size_def gm_keys_def split: if_splits)
qed

text \<open>Keys are durable before the intent that names them is recorded.\<close>

lemma generate_rotation_kept:
  "keeps (custody_kept lib K) (generate_rotation lib bd ss previous version role now drawn salts handedOff existing)"
proof -
  let ?J = "custody_kept lib K"
  have hand: "triple (generation_kept lib role (ep_root_version plan) gs K)
      (let i = generated_intent lib bd ss previous plan role gs; successors = (if role = ''root'' then generated_privates gs else [])
       in andthen (guard (intent_valid lib bd previous version i) EInvalid) (\<lambda>u.
          andthen (guard (existing = None \<or> record_of (jl_intent lib) (the existing) = record_of (jl_intent lib) i) EHandoff) (\<lambda>u.
          andthen (guard (role \<noteq> ''root'' \<or> length successors \<ge> 2) EKey) (\<lambda>u.
          andthen (finishRotation lib bd previous version rootKeys now i successors) (\<lambda>r.
          andthen (cleanPendingTwins Rotations ''.'') (\<lambda>u.
          ret r)))))) (\<lambda>x. ?J) ?J" for plan gs rootKeys
  proof -
    let ?i = "generated_intent lib bd ss previous plan role gs"
    let ?K = "generated_files lib role (ep_root_version plan) gs \<union> K"
    let ?names = "map fst gs = rotation_names role \<and> (\<forall>x \<in> set gs. role \<noteq> ''root'' \<longrightarrow> gn_private (snd x) \<noteq> None)"
    let ?successors = "if role = ''root'' then generated_privates gs else []"
    have admit: "admits (custody_kept lib ?K) Journal (rotationIntentName version) (record_of (jl_intent lib) ?i)"
      if "?names" "intent_valid lib bd previous version ?i" "role \<noteq> ''root'' \<or> length ?successors \<ge> 2"
      by (rule custody_admits_intent, rule generated_handoff [of lib role plan gs K])
         (use that generated_role [OF that(2)] in \<open>auto simp: generation_kept_def\<close>)
    have "keeps (custody_kept lib ?K)
        (andthen (guard (intent_valid lib bd previous version ?i) EInvalid) (\<lambda>u.
          andthen (guard (existing = None \<or> record_of (jl_intent lib) (the existing) = record_of (jl_intent lib) ?i) EHandoff) (\<lambda>u.
          andthen (guard (role \<noteq> ''root'' \<or> length ?successors \<ge> 2) EKey) (\<lambda>u.
          andthen (finishRotation lib bd previous version rootKeys now ?i ?successors) (\<lambda>r.
          andthen (cleanPendingTwins Rotations ''.'') (\<lambda>u. ret r))))))" if n: "?names"
      by (rule keeps_guard_then, rule keeps_andthen [OF keeps_guard], rule keeps_guard_then,
          rule keeps_andthen [OF cu.keeps_finishRotation [OF admit [OF n]]], assumption+,
          intro keeps_rules cleanPendingTwins_keeps custody_stable)
    then show ?thesis unfolding generation_kept_def Let_def
      by (rule triple_const [OF triple_conseq]) (auto intro: custody_kept_mono [of lib ?K])
  qed
  show ?thesis unfolding generate_rotation_def
    by (rule keeps_andthen [OF cu.keeps_membershipStore], rule keeps_andthen [OF cu.keeps_loadEncryptedPlan],
        rule keeps_andthen [OF cu.keeps_session_roots], rule triple_andthen [OF generate_all_kept])
       (simp add: rotation_names_def root_key_names_def online_roles_def, rule hand [unfolded generation_kept_def])
qed

interpretation cu: indifferent_files "custody_kept lib K" lib for lib K
proof
  show "admits (custody_kept lib K) Journal (releaseName number) data" for number data
    by (intro admits_replace_admits [OF custody_unwatched])
       (simp add: custody_watched_def key_file_def is_intent_def releaseName_def HasSuffix_def HasPrefix_def)
  show "admits_replace (custody_kept lib K) Repository n data" for n data
    by (rule custody_unwatched) (simp add: custody_watched_def key_file_def)
qed (rule generate_rotation_kept)

section \<open>Every sequence of commands and power losses\<close>

lemma loss_kept_file:
  assumes p: "power_loss ds ds'" and k: "kept_file (ds s) n P"
  shows "kept_file (ds' s) n P"
proof -
  obtain f g where f: "gm_lookup (dr_live (ds s)) n = Some f" and g: "gm_lookup (dr_disk (ds s)) n = Some g"
    and eq: "fl_synced f" "fl_synced g" "fl_data f = fl_data g" "P (fl_data f)" using k by (auto simp: kept_file_def)
  have "survives (Some f) (Some g) (gm_lookup (dr_live (ds' s)) n)" and d: "dr_disk (ds' s) = dr_live (ds' s)"
    using p f g unfolding power_loss_def dir_loss_def by metis+
  then obtain h where "gm_lookup (dr_live (ds' s)) n = Some h" "fl_synced h" "fl_data h = fl_data f"
    using eq by (auto simp: survives_def split: option.splits)
  then show ?thesis using d eq(4) by (auto simp: kept_file_def)
qed

lemma loss_custody:
  assumes p: "power_loss ds ds'" and J: "custody_kept lib K ds"
  shows "custody_kept lib K ds'"
proof (rule custody_keptI [OF J])
  show "keeps_files ds ds'" unfolding keeps_files_def using loss_kept_file [OF p] by blast
  show "fl_synced f" if "key_file s n" "entry (ds' s) n f" for s n f
    using survivor [OF p] that(2) unfolding loss_entry [OF p] by metis
  show "fl_synced f \<and> handoff_ok lib ds (fl_data f)" if e: "entry (ds' Journal) (rotationIntentName v) f" for v f
  proof -
    obtain g where "entry (ds Journal) (rotationIntentName v) g" "fl_synced f" "fl_synced g \<longrightarrow> fl_data f = fl_data g"
      using survivor [OF p] e unfolding loss_entry [OF p] by metis
    then show ?thesis using J unfolding custody_kept_def by metis
  qed
qed

lemma operator_custody: "operator_step lib bd ds ds' \<Longrightarrow> custody_kept lib K ds \<Longrightarrow> custody_kept lib K ds'"
proof (induction rule: operator_step.induct)
  case (operator_run ds ds')
  then show ?case
  proof (induction rule: command_step.induct)
    case (command_run ds c fs)
    then show ?case using keeps_snd [OF cu.keeps_command, of lib K "\<lparr>w_dirs = ds, w_faults = fs\<rparr>" bd c] by simp
  qed
qed (rule loss_custody)

lemma operator_steps_custody: "(operator_step lib bd)\<^sup>*\<^sup>* ds ds' \<Longrightarrow> custody_kept lib K ds \<Longrightarrow> custody_kept lib K ds'"
  by (induction rule: rtranclp_induct) (auto intro: operator_custody)

section \<open>Properties\<close>

text \<open>Custody is in order, as it is when there are no keys and no handoffs yet.\<close>

abbreviation custody_sound :: "journal_lib \<Rightarrow> dirs \<Rightarrow> bool" where
  "custody_sound lib \<equiv> custody_kept lib {}"

lemma custody_sound_fresh:
  assumes "\<And>s n f. key_file s n \<Longrightarrow> \<not> entry (ds s) n f" "\<And>v f. \<not> entry (ds Journal) (rotationIntentName v) f"
  shows "custody_sound lib ds"
  using assms by (auto simp: custody_kept_def)


text \<open>
  C19. No command ever replaces or removes a key of a rotation: a key file that is durable has the same bytes ever after,
  whatever fails and whatever power losses undo.
\<close>

theorem key_files_permanent:
  assumes start: "custody_sound lib ds0" and steps: "(operator_step lib bd)\<^sup>*\<^sup>* ds0 ds1" "(operator_step lib bd)\<^sup>*\<^sup>* ds1 ds2"
    and k: "key_file s n" "kept_file (ds1 s) n ((=) data)"
  shows "kept_file (ds2 s) n ((=) data)"
proof -
  have "custody_kept lib {(s, n, (=) data)} ds1"
    using operator_steps_custody [OF steps(1) start] k by (simp add: custody_kept_insert)
  then have "custody_kept lib {(s, n, (=) data)} ds2" by (rule operator_steps_custody [OF steps(2)])
  then show ?thesis by (simp add: custody_kept_insert)
qed

end
