(* ===== verification/Omega_Demo.thy ===== *)
theory Omega_Demo
  imports Omega_Operator
begin

text \<open>
  A concrete instance of the libraries the operator tool relies on, and a first publication with it. It shows that the
  hypotheses of the theorems on publication can hold, on a run of the commands themselves.
\<close>

section \<open>A codec of records\<close>

fun encode_texts :: "string list \<Rightarrow> string" where
  "encode_texts [] = []"
| "encode_texts (s # ss) = concat (map (\<lambda>c. [CHR ''c'', c]) s) @ CHR ''.'' # encode_texts ss"

fun decode_texts :: "string \<Rightarrow> string \<Rightarrow> string list" where
  "decode_texts acc [] = []"
| "decode_texts acc (x # cs) =
     (if x = CHR ''.'' then rev acc # decode_texts [] cs
      else case cs of [] \<Rightarrow> [] | c # rest \<Rightarrow> decode_texts (c # acc) rest)"

lemma decode_text: "decode_texts acc (concat (map (\<lambda>c. [CHR ''c'', c]) s) @ cs) = decode_texts (rev s @ acc) cs"
  by (induction s arbitrary: acc) auto

lemma decode_encode_texts [simp]: "decode_texts [] (encode_texts ss) = ss"
  by (induction ss) (simp_all add: decode_text)

text \<open>Integers in binary, the lowest digit first.\<close>

function show_pos :: "int \<Rightarrow> string" where
  "show_pos i = (if i \<le> 0 then [] else (if i mod 2 = 1 then CHR ''1'' else CHR ''0'') # show_pos (i div 2))"
  by auto
termination by (relation "measure nat") auto

declare show_pos.simps [simp del]

fun read_pos :: "string \<Rightarrow> int" where
  "read_pos [] = 0"
| "read_pos (c # cs) = (if c = CHR ''1'' then 1 else 0) + 2 * read_pos cs"

lemma read_show_pos: "i \<ge> 0 \<Longrightarrow> read_pos (show_pos i) = i"
proof (induction i rule: show_pos.induct)
  case (1 i)
  show ?case
  proof (cases "i \<le> 0")
    case False
    then have "read_pos (show_pos (i div 2)) = i div 2" using 1 by simp
    then show ?thesis using False by (subst show_pos.simps) (simp; presburger)
  qed (use 1 in \<open>simp add: show_pos.simps\<close>)
qed

definition show_int :: "int \<Rightarrow> string" where
  "show_int i = (if i = no_time then ''z'' else if i < 0 then CHR ''-'' # show_pos (- i) else CHR ''+'' # show_pos i)"

definition read_int :: "string \<Rightarrow> int" where
  "read_int s = (case s of [] \<Rightarrow> 0 | c # cs \<Rightarrow> if c = CHR ''z'' then no_time else if c = CHR ''-'' then - read_pos cs else read_pos cs)"

lemma read_show_int [simp]: "read_int (show_int i) = i"
  by (simp add: read_int_def show_int_def read_show_pos)

definition show_release :: "release \<Rightarrow> bytes" where
  "show_release r =
     encode_texts ([show_int (rl_schema r), show_int (rl_version r), rl_previous r, rl_fingerprint r, show_int (rl_created r), rl_manifest r, rl_targets r,
       rl_snapshot r, rl_timestamp r, show_int (rl_targets_version r), show_int (rl_approved_at r), show_int (rl_timestamp_days r)] @ rl_roots r)"

definition read_release :: "bytes \<Rightarrow> release option" where
  "read_release data =
     (case decode_texts [] data of
        sc # ve # pr # fi # cr # ma # ta # sn # ts # tv # ap # dy # roots \<Rightarrow>
          Some \<lparr>rl_schema = read_int sc, rl_version = read_int ve, rl_previous = pr, rl_fingerprint = fi, rl_created = read_int cr,
                rl_manifest = ma, rl_targets = ta, rl_snapshot = sn, rl_timestamp = ts, rl_targets_version = read_int tv,
                rl_approved_at = read_int ap, rl_roots = roots, rl_timestamp_days = read_int dy\<rparr>
      | _ \<Rightarrow> None)"

lemma release_codec: "record_codec (show_release, read_release)"
  by (simp add: record_codec_def show_release_def read_release_def del: encode_texts.simps)

section \<open>Metadata\<close>

text \<open>The clock stands at the epoch, and the metadata of the first release are fixed texts.\<close>

definition demo_now :: gotime where "demo_now = 0"

definition demo_parse_list :: "bytes \<Rightarrow> meta_list option" where
  "demo_parse_list data =
     (if data = ''S'' then Some \<lparr>ml_version = 1, ml_expires = days 7, ml_meta = [(''targets.json'', \<lparr>me_version = 1, me_length = 1, me_sha256 = ''1''\<rparr>)]\<rparr>
      else if data = ''T'' then Some \<lparr>ml_version = 1, ml_expires = days 7, ml_meta = [(''snapshot.json'', \<lparr>me_version = 1, me_length = 1, me_sha256 = ''1''\<rparr>)]\<rparr>
      else None)"

definition demo_targets :: targets_meta where
  "demo_targets = \<lparr>tm_version = 1, tm_expires = days 90, tm_targets = [(''bootstrap.json'', \<lparr>ti_length = 1, ti_sha256 = ''1''\<rparr>)]\<rparr>"

definition demo_root :: root_meta where
  "demo_root = \<lparr>rm_version = 1, rm_expires = demo_now + days 300, rm_roles = [], rm_keys = [], rm_policy = []\<rparr>"

definition demo_tuf_root :: tuf_root where
  "demo_tuf_root = \<lparr>tr_version = 1, tr_expires_set = True, tr_consistent = True, tr_roles = [], tr_keys = []\<rparr>"

definition demo_manifest :: json where
  "demo_manifest = JObj [(''schema'', JNum ''1''), (''network'', JStr ''n''), (''enclave'', JStr ''default''),
     (''roots'', JArr [JObj [(''id'', JStr ''a''), (''origin'', JStr ''https://a'')], JObj [(''id'', JStr ''b''), (''origin'', JStr ''https://b'')],
        JObj [(''id'', JStr ''c''), (''origin'', JStr ''https://c'')]])]"

definition demo_codec :: "'a \<Rightarrow> 'a codec" where
  "demo_codec x = ((\<lambda>v. ''x''), (\<lambda>data. Some x))"

definition demo_binding :: publicationBinding where
  "demo_binding = \<lparr>pb_schema = 1, pb_network = ''n'', pb_fingerprint = ''f'', pb_directory = ''d''\<rparr>"

definition no_codec :: "'a codec" where
  "no_codec = ((\<lambda>v. ''x''), (\<lambda>data. None))"

definition demo_private :: authority_record where
  "demo_private = no_authority\<lparr>au_schema := 1, au_mode := ''disposable''\<rparr>"

text \<open>Digests are short here: the length of the data.\<close>

definition demo_lib :: journal_lib where
  "demo_lib = \<lparr>lib_root = (\<lambda>_. Some demo_tuf_root), lib_normal = Some, lib_trusted = (\<lambda>_. True),
     lib_sha256 = (\<lambda>d. if d = ''root'' then ''f'' else Itoa (int (length d))),
     ol_json = (\<lambda>d. if d = ''m'' then Some demo_manifest else None), ol_valid = (\<lambda>_. True), ol_manifest = (\<lambda>_. ''m''),
     ol_new_root = (\<lambda>_. Some demo_root), ol_parse_root = (\<lambda>_. Some demo_root), ol_update_root = (\<lambda>_ _. None), ol_key_id = (\<lambda>_. None),
     ol_parse_list = demo_parse_list, ol_timestamp_ok = (\<lambda>_ _ _. True), ol_snapshot_ok = (\<lambda>_ _ _ _. True),
     ol_parse_targets = (\<lambda>d. if d = ''G'' then Some demo_targets else None), ol_targets_ok = (\<lambda>_ _ _ _. True), ol_target_ok = (\<lambda>_ _. True), ol_delegate_ok = (\<lambda>_ _. True),
     ol_sign_list = (\<lambda>key role m. Some (if role = ''snapshot'' then ''S'' else ''T'')), ol_sign_targets = (\<lambda>key t. Some ''G''), ol_release = (show_release, read_release),
     jl_binding = demo_codec demo_binding, jl_verification = no_codec, jl_renewal = no_codec, jl_intent = no_codec, jl_rotation = no_codec,
     jl_apply = no_codec, jl_membership = no_codec, jl_plan = no_codec, jl_online_key = no_codec, jl_custody = no_codec,
     jl_bundle_ok = (\<lambda>_. True), jl_from_seed = (\<lambda>s. s), jl_key = (\<lambda>_. None), jl_revoke_key = (\<lambda>_ _ _. None),
     jl_add_key = (\<lambda>_ _ _. None), jl_sign_root = (\<lambda>_ _. None),
     jl_authority = demo_codec demo_private, jl_public = no_codec, jl_payload = no_codec, jl_encrypted_plan = no_codec, jl_generation = no_codec,
     jl_schema = (\<lambda>_. 1), jl_encrypt = (\<lambda>_ _ _. None), jl_decrypt = (\<lambda>_ _. None)\<rparr>"

definition demo_bundle :: Bundle where
  "demo_bundle = \<lparr>bd_schema = 1, bd_network = ''n'', bd_repository = ''https://r'', bd_root = ''root''\<rparr>"

text \<open>The size limits, compared as integers.\<close>

lemma read_file_code [code]:
  "read_file name d =
     (case gm_lookup (dr_live d) name of
        None \<Rightarrow> (Err ENotExist, d)
      | Some f \<Rightarrow>
          if \<not> fl_safe f then (Err EUnsafe, d)
          else if int (length (fl_data f)) > 1048576 then (Err ETooLarge, d)
          else (Val (fl_data f), d))"
  by (simp add: read_file_def maxRecord_def split: option.split)

definition demo_parsed :: Manifest where
  "demo_parsed = \<lparr>mf_schema = 1, mf_network = ''n'', mf_enclave = ''default'',
     mf_roots = [\<lparr>rt_id = ''a'', rt_origin = ''https://a''\<rparr>, \<lparr>rt_id = ''b'', rt_origin = ''https://b''\<rparr>, \<lparr>rt_id = ''c'', rt_origin = ''https://c''\<rparr>]\<rparr>"

lemma demo_origins: "httpsOrigin ''https://a'' = Some ''https://a''" "httpsOrigin ''https://b'' = Some ''https://b''" "httpsOrigin ''https://c'' = Some ''https://c''"
  by code_simp+

lemma demo_strict: "strict_manifest (\<lambda>d. Some demo_manifest) data = Some demo_parsed"
  by (simp add: strict_manifest_def demo_manifest_def) code_simp

lemma demo_parse: "ParseManifest (\<lambda>d. Some demo_manifest) ''m'' ''n'' = Some demo_parsed"
  by (simp add: ParseManifest_def demo_strict) (simp add: demo_parsed_def manifestLimit_def identifier_match_def is_alpha_def demo_origins)

text \<open>The one manifest of this theory is parsed once.\<close>

lemma ParseManifest_code [code]:
  "ParseManifest rd data network =
     (if data = ''m'' \<and> network = ''n'' \<and> rd ''m'' = Some demo_manifest then Some demo_parsed
      else if int (length data) > 65536 then None
      else case strict_manifest rd data of
        None \<Rightarrow> None
      | Some m \<Rightarrow>
          if mf_schema m \<noteq> 1 \<or> \<not> identifier_match (mf_network m) \<or> mf_network m \<noteq> network \<or> mf_enclave m \<noteq> ''default'' then None
          else if mf_roots m = [] \<or> length (mf_roots m) > 16 then None
          else map_option (\<lambda>rs. m\<lparr>mf_roots := rs\<rparr>) (check_roots [] [] (mf_roots m)))"
proof -
  have memo: "ParseManifest rd ''m'' ''n'' = Some demo_parsed" if "rd ''m'' = Some demo_manifest"
  proof -
    have "strict_manifest rd ''m'' = strict_manifest (\<lambda>d. Some demo_manifest) ''m''" by (simp only: strict_manifest_def that)
    then show ?thesis using demo_parse by (simp only: ParseManifest_def)
  qed
  show ?thesis
  proof (cases "data = ''m'' \<and> network = ''n'' \<and> rd ''m'' = Some demo_manifest")
    case False
    show ?thesis unfolding if_not_P [OF False] by (simp add: ParseManifest_def manifestLimit_def)
  qed (use memo in simp)
qed

section \<open>A first publication\<close>

definition demo_request :: publish_request where
  "demo_request = \<lparr>pr_network = ''n'', pr_directory = ''d'', pr_manifest = ''m'', pr_version = 1, pr_separate = False\<rparr>"

definition demo_view :: View where
  "demo_view = \<lparr>vw_manifest = empty_manifest, vw_expires = days 7, vw_versions = \<lparr>v_root = 1, v_timestamp = 1, v_snapshot = 1, v_targets = 1\<rparr>,
     vw_digests = [(''root'', ''f''), (''targets'', ''1''), (''snapshot'', ''1''), (''timestamp'', ''1'')]\<rparr>"

definition demo_served :: served where
  "demo_served = \<lparr>se_client = True, se_view = Some demo_view, se_roots = (\<lambda>_. Some (200, ''root'')), se_now = demo_now\<rparr>"

definition demo_env :: publish_env where
  "demo_env = \<lparr>pe_now = demo_now, pe_ready = demo_now, pe_promote = demo_now, pe_failed = demo_now, pe_checked = demo_now, pe_served = demo_served, pe_hosting = None\<rparr>"

text \<open>A disposable authority and nothing else.\<close>

definition authority_file :: fnode where
  "authority_file = \<lparr>fl_data = ''x'', fl_safe = True, fl_synced = True\<rparr>"

definition empty_dirs :: dirs where
  "empty_dirs = (\<lambda>s. let files = (if s = Authority then [(''authority.json'', authority_file)] else [])
     in \<lparr>dr_made = True, dr_live = files, dr_disk = files\<rparr>)"

definition demo_dirs :: dirs where
  "demo_dirs = w_dirs (snd (run_command demo_lib demo_bundle (Publish None demo_request demo_env) \<lparr>w_dirs = empty_dirs, w_faults = []\<rparr>))"

lemma demo_run:
  "(case run_command demo_lib demo_bundle (Publish None demo_request demo_env) \<lparr>w_dirs = empty_dirs, w_faults = []\<rparr> of
      (r, w) \<Rightarrow> (r, map (file_data (w_dirs w Repository)) [''1.root.json'', ''1.targets.json'', ''1.snapshot.json'', ''timestamp.json'']))
   = (Val (), map Some [''root'', ''G'', ''S'', ''T''])"
  by code_simp

lemma demo_files:
  "file_data (demo_dirs Repository) ''1.snapshot.json'' = Some ''S''" "file_data (demo_dirs Repository) ''timestamp.json'' = Some ''T''"
  using demo_run by (simp_all add: demo_dirs_def split: prod.splits)

lemma demo_unpublished: "unpublished demo_lib demo_bundle empty_dirs"
  by (simp add: unpublished_def custody_inv_def entry_def empty_dirs_def)

lemma demo_step: "command_step demo_lib demo_bundle empty_dirs demo_dirs"
  unfolding demo_dirs_def by (rule command_run)

text \<open>A renewal that dies in its first system call.\<close>

lemma demo_dies: "command_step demo_lib demo_bundle ds ds"
proof -
  have "w_dirs (snd (run_command demo_lib demo_bundle (Renew True demo_env) \<lparr>w_dirs = ds, w_faults = [Dies]\<rparr>)) = ds"
    by (simp add: run_command_def renew_def readRenewal_def andthen_def read_def call_def syscall_def)
  then show ?thesis using command_run [of demo_lib demo_bundle ds "Renew True demo_env" "[Dies]"] by simp
qed

lemma demo_entry: "file_data (ds Repository) n = Some d \<Longrightarrow> \<exists>f. entry (ds Repository) n f \<and> fl_data f = d"
  by (auto simp: file_data_def entry_def)

lemma demo_reachable: "(operator_step demo_lib demo_bundle)\<^sup>*\<^sup>* empty_dirs demo_dirs"
  using operator_run [OF demo_step] by simp

theorem published_is_recorded_witness:
  "\<exists>f. entry (demo_dirs Repository) ''timestamp.json'' f \<and> public_ok demo_lib demo_bundle demo_dirs ''timestamp.json'' (fl_data f)"
  using demo_entry [of demo_dirs, OF demo_files(2)] published_is_recorded [OF demo_unpublished demo_reachable _ public_timestamp] by blast

theorem no_equivocation_witness:
  "\<exists>f g. entry (demo_dirs Repository) ''1.snapshot.json'' f \<and> entry (demo_dirs Repository) ''1.snapshot.json'' g \<and> fl_data f = fl_data g"
proof -
  have c: "record_codec (ol_release demo_lib)" using release_codec by (simp add: demo_lib_def)
  have n: "numbered ''1.snapshot.json''" by (simp add: numbered_def HasSuffix_def HasPrefix_def)
  obtain f where f: "entry (demo_dirs Repository) ''1.snapshot.json'' f" using demo_entry [of demo_dirs, OF demo_files(1)] by blast
  have "(operator_step demo_lib demo_bundle)\<^sup>*\<^sup>* demo_dirs demo_dirs" using operator_run [OF demo_dies] by simp
  from no_equivocation [OF c demo_unpublished demo_reachable this f f n] f show ?thesis by blast
qed

theorem timestamp_forward_witness:
  "\<exists>m1 d2 m2. ol_parse_list demo_lib ''T'' = Some m1 \<and> file_data (demo_dirs Repository) ''timestamp.json'' = Some d2 \<and>
    ol_parse_list demo_lib d2 = Some m2 \<and> ml_version m1 \<le> ml_version m2"
  using timestamp_forward [OF demo_unpublished demo_reachable r_into_rtranclp [of "command_step demo_lib demo_bundle", OF demo_dies] demo_files(2)] .

end
