(* ===== verification/Omega_Custody_Demo.thy ===== *)
theory Omega_Custody_Demo
  imports Omega_Custody Omega_Demo
begin

text \<open>
  A codec of rotation intents and a network whose membership key has been handed over, as an instance of the theorems on
  custody.
\<close>

section \<open>A codec of intents\<close>

fun show_pairs :: "('a \<Rightarrow> string) \<Rightarrow> (string, 'a) gomap \<Rightarrow> string list" where
  "show_pairs sh [] = []"
| "show_pairs sh ((k, v) # m) = k # sh v # show_pairs sh m"

fun read_pairs :: "(string \<Rightarrow> 'a) \<Rightarrow> string list \<Rightarrow> (string, 'a) gomap" where
  "read_pairs rd (k # v # rest) = (k, rd v) # read_pairs rd rest"
| "read_pairs rd rest = []"

lemma read_show_pairs: "(\<And>v. rd (sh v) = v) \<Longrightarrow> read_pairs rd (show_pairs sh m) = m"
  by (induction sh m rule: show_pairs.induct) auto

definition show_map :: "('a \<Rightarrow> string) \<Rightarrow> (string, 'a) gomap \<Rightarrow> string" where "show_map sh m = encode_texts (show_pairs sh m)"
definition read_map :: "(string \<Rightarrow> 'a) \<Rightarrow> string \<Rightarrow> (string, 'a) gomap" where "read_map rd s = read_pairs rd (decode_texts [] s)"

lemma read_show_map: "(\<And>v. rd (sh v) = v) \<Longrightarrow> read_map rd (show_map sh m) = m"
  by (simp add: read_map_def show_map_def read_show_pairs)

definition show_key :: "tuf_key \<Rightarrow> string" where
  "show_key k = (if tk_ed25519 k then CHR ''1'' else CHR ''0'') # (if tk_parses k then CHR ''1'' else CHR ''0'') # tk_public k"

definition read_key :: "string \<Rightarrow> tuf_key" where
  "read_key s = \<lparr>tk_ed25519 = s ! 0 = CHR ''1'', tk_parses = s ! 1 = CHR ''1'', tk_public = drop 2 s\<rparr>"

lemma read_show_key [simp]: "read_key (show_key k) = k"
  by (simp add: read_key_def show_key_def)

definition show_option :: "tuf_key option \<Rightarrow> string" where
  "show_option x = (case x of None \<Rightarrow> [] | Some k \<Rightarrow> show_key k)"

definition read_option :: "string \<Rightarrow> tuf_key option" where
  "read_option s = (if s = [] then None else Some (read_key s))"

lemma read_show_option [simp]: "read_option (show_option x) = x"
  by (cases x) (simp_all add: read_option_def show_option_def show_key_def read_key_def)

definition show_intent :: "rotationIntent \<Rightarrow> bytes" where
  "show_intent i =
     encode_texts [show_int (rn_schema i), rn_mode i, rn_fingerprint i, show_int (rn_root_version i), rn_previous_root i, show_int (rn_created i),
       show_map id (rn_keys i), rn_custody i, show_map show_key (rn_online_keys i), show_map id (rn_key_digests i), show_option (rn_targets_key i),
       show_map show_key (rn_root_keys i), show_int (rn_root_expires i)]"

definition read_intent :: "bytes \<Rightarrow> rotationIntent option" where
  "read_intent data =
     (case decode_texts [] data of
        [sc, mo, fi, ve, pr, cr, ke, cu, ok, di, ta, rk, ex] \<Rightarrow>
          Some \<lparr>rn_schema = read_int sc, rn_mode = mo, rn_fingerprint = fi, rn_root_version = read_int ve, rn_previous_root = pr,
                rn_created = read_int cr, rn_keys = read_map id ke, rn_custody = cu, rn_online_keys = read_map read_key ok,
                rn_key_digests = read_map id di, rn_targets_key = read_option ta, rn_root_keys = read_map read_key rk, rn_root_expires = read_int ex\<rparr>
      | _ \<Rightarrow> None)"

lemma intent_codec: "record_codec (show_intent, read_intent)"
  by (simp add: record_codec_def show_intent_def read_intent_def read_show_map del: encode_texts.simps)

section \<open>A key that was handed over\<close>

definition custody_lib :: journal_lib where
  "custody_lib = demo_lib\<lparr>jl_intent := (show_intent, read_intent)\<rparr>"

text \<open>The digest of the key file is its length.\<close>

definition demo_intent :: rotationIntent where
  "demo_intent =
     \<lparr>rn_schema = 2, rn_mode = ''production'', rn_fingerprint = ''f'', rn_root_version = 2, rn_previous_root = ''f'', rn_created = demo_now,
      rn_keys = [], rn_custody = encryptedCustody, rn_online_keys = [], rn_key_digests = [(''targets'', ''3'')],
      rn_targets_key = Some \<lparr>tk_ed25519 = True, tk_parses = True, tk_public = ''p''\<rparr>, rn_root_keys = [], rn_root_expires = no_time\<rparr>"

definition synced_file :: "bytes \<Rightarrow> fnode" where
  "synced_file data = \<lparr>fl_data = data, fl_safe = True, fl_synced = True\<rparr>"

definition handed_files :: "store_id \<Rightarrow> (string, fnode) gomap" where
  "handed_files s =
     (if s = Rotations then [(encryptedGenerationName 2 ''targets'', synced_file ''key'')]
      else if s = Journal then [(rotationIntentName 2, synced_file (record_of (jl_intent custody_lib) demo_intent))] else [])"

definition handed_over :: dirs where
  "handed_over s = \<lparr>dr_made = True, dr_live = handed_files s, dr_disk = handed_files s\<rparr>"

lemma handed_over_entry: "entry (handed_over s) n f \<Longrightarrow> fl_synced f"
  by (auto simp: entry_def handed_over_def handed_files_def synced_file_def split: if_splits)

lemma handed_over_key:
  "kept_file (handed_over Rotations) (encryptedGenerationName 2 ''targets'') ((=) ''key'')"
  by (simp add: kept_file_def handed_over_def handed_files_def synced_file_def)

lemma handed_over_backed: "handoff_backed custody_lib handed_over demo_intent"
proof -
  have "lib_sha256 custody_lib ''key'' = ''3''" by code_simp
  then have "kept_file (handed_over Rotations) (encryptedGenerationName 2 ''targets'') (\<lambda>data. lib_sha256 custody_lib data = ''3'')"
    by (intro kept_file_mono [OF handed_over_key]) simp
  then show ?thesis by (simp add: handoff_backed_def key_backed_def key_place_def demo_intent_def gm_get_def)
qed

lemma handed_over_intent:
  assumes "entry (handed_over Journal) (rotationIntentName v) f"
  shows "fl_data f = record_of (jl_intent custody_lib) demo_intent"
  using assms by (auto simp: entry_def handed_over_def handed_files_def synced_file_def split: if_splits)

lemma handed_over_sound: "custody_sound custody_lib handed_over"
  unfolding custody_kept_def handoff_ok_def
  using handed_over_entry handed_over_intent handed_over_backed by fastforce

lemma handed_over_loss: "power_loss handed_over handed_over"
  unfolding power_loss_def dir_loss_def
  by (auto simp: handed_over_def handed_files_def survives_def synced_file_def split: option.split)

lemma handed_over_steps: "(operator_step custody_lib demo_bundle)\<^sup>*\<^sup>* handed_over handed_over"
  using operator_loss [OF handed_over_loss] by blast


theorem key_files_permanent_witness:
  "kept_file (handed_over Rotations) (encryptedGenerationName 2 ''targets'') ((=) ''key'')"
proof (rule key_files_permanent [OF handed_over_sound handed_over_steps handed_over_steps _ handed_over_key])
  show "key_file Rotations (encryptedGenerationName 2 ''targets'')"
    using private_names(14) by (simp add: key_file_def private_name_def)
qed

end
