(* ===== verification/Omega_Authority.thy ===== *)
theory Omega_Authority
  imports Omega_Keys
begin

text \<open>
  The initialization of an authority, \<open>src/internal/omega/authority.go\<close> and \<open>encrypted_authority.go\<close>.
  The home, its staging directory and the committed slot of a network are the stores \<open>Home\<close>,
  \<open>Stage\<close> and \<open>Authority\<close>; the entry of the slot in the home is kept as an entry of \<open>Home\<close>. Drawn keys, salts and the
  transaction identifier are arguments, and so are \<open>age\<close> and the fresh root of go-tuf. Reports lose their texts.
\<close>

section \<open>Records\<close>

definition authorityFiles :: "string list" where
  "authorityFiles = [''authority.json'', ''1.root.json'', ''bundle.json'', ''complete.json'']"

definition allocationName :: string where "allocationName = ''init-keys.json''"

definition encryptedAuthorityFiles :: "string list" where
  "encryptedAuthorityFiles = authorityFiles @ [allocationName] @ map encryptedKeyName keyNames"

record encryptedAllocation =
  ea_schema :: int
  ea_type :: string
  ea_mode :: string
  ea_transaction :: string
  ea_network :: string
  ea_repository :: string
  ea_created :: gotime
  ea_expires :: gotime
  ea_keys :: "(string, bytes) gomap"

record completion =
  co_schema :: int
  co_fingerprint :: string
  co_files :: "(string, string) gomap"

text \<open>\<open>il_fresh_root\<close> is \<open>metadata.Root\<close> with consistent snapshots.\<close>

record init_lib = journal_lib +
  il_allocation :: "encryptedAllocation codec"
  il_completion :: "completion codec"
  il_bundle :: "Bundle codec"
  il_fresh_root :: "gotime \<Rightarrow> root_meta"

abbreviation jl :: "init_lib \<Rightarrow> journal_lib" where
  "jl lib \<equiv> journal_lib.truncate lib"

record init_options =
  io_network :: string
  io_repository :: string
  io_disposable :: bool
  io_encrypted :: bool
  io_passphrase :: "(bool \<Rightarrow> bytes option) option"
  io_now :: gotime
  io_drawn :: "(string, string) gomap"
  io_salts :: "(string, string) gomap"
  io_transaction :: string

text \<open>\<open>Report\<close>: an expired root is reported by the state and by an error, here by the state alone.\<close>

record init_report =
  ir_state :: string
  ir_mode :: string
  ir_custody :: string
  ir_network :: string
  ir_repository :: string
  ir_fingerprint :: string
  ir_root_version :: int
  ir_root_expires :: gotime
  ir_roles :: "(string, tuf_role) gomap"
  ir_key_files :: "(string, string) gomap"

section \<open>Validation\<close>

definition authority_ok :: "init_lib \<Rightarrow> authority_record \<Rightarrow> bool" where
  "authority_ok lib p \<longleftrightarrow>
     ValidateLocation (au_network p) (au_repository p) = Some (au_repository p) \<and> au_schema p = 1 \<and> au_mode p = ''disposable'' \<and>
     networkID (au_network p) \<and> au_created p \<noteq> no_time \<and> au_expires p = au_created p + rootLifetime \<and>
     gm_size (au_keys p) = length keyNames \<and>
     distinct_keys (map (\<lambda>n. map_option (drop 32) (decodeKey (jl lib) (gm_get (au_keys p) n))) keyNames)"

definition allocation_ok :: "encryptedAllocation \<Rightarrow> bool" where
  "allocation_ok p \<longleftrightarrow>
     validatePublicIdentity (ea_network p) (ea_repository p) (ea_transaction p) (ea_created p) (ea_expires p) \<and>
     ea_schema p = 1 \<and> ea_type p = ''encrypted-authority-allocation'' \<and> validCustodyMode (ea_mode p) \<and>
     gm_size (ea_keys p) = length keyNames \<and>
     list_all (\<lambda>n. let c = gm_get (ea_keys p) n in c \<noteq> [] \<and> length c \<le> maxEncryptedKey) keyNames"

section \<open>Public outputs\<close>

definition role_of_key :: "string \<Rightarrow> string" where
  "role_of_key name = (if length name > 4 \<and> take 4 name = ''root'' then ''root'' else name)"

fun add_keys :: "init_lib \<Rightarrow> (string, string) gomap \<Rightarrow> string list \<Rightarrow> root_meta \<Rightarrow> root_meta option" where
  "add_keys lib publics [] root = Some root"
| "add_keys lib publics (name # names) root =
     (case decodePublicKey (gm_get publics name) of
        None \<Rightarrow> None
      | Some raw \<Rightarrow>
          (case jl_key lib raw of
             None \<Rightarrow> None
           | Some key \<Rightarrow>
               (case jl_add_key lib key (role_of_key name) root of None \<Rightarrow> None | Some r \<Rightarrow> add_keys lib publics names r)))"

text \<open>The initial root, with a quorum of two, and the bundle around it; \<open>signer\<close> gives encoded private keys.\<close>

definition initial_root :: "init_lib \<Rightarrow> gotime \<Rightarrow> root_meta" where
  "initial_root lib expires =
     (let fresh = il_fresh_root lib expires
      in fresh\<lparr>rm_roles := gm_update ''root''
           (case gm_lookup (rm_roles fresh) ''root'' of None \<Rightarrow> \<lparr>tr_threshold = 2, tr_keyids = []\<rparr> | Some r \<Rightarrow> r\<lparr>tr_threshold := 2\<rparr>) (rm_roles fresh)\<rparr>)"

definition parse_bundle :: "init_lib \<Rightarrow> bytes \<Rightarrow> Bundle option" where
  "parse_bundle lib = ParseBundle (tuf_root_lib.truncate lib) (snd (il_bundle lib))"

definition buildPublicOutputs ::
    "init_lib \<Rightarrow> string \<Rightarrow> string \<Rightarrow> gotime \<Rightarrow> (string, string) gomap \<Rightarrow> (string \<Rightarrow> string) \<Rightarrow> (bytes \<times> bytes) option" where
  "buildPublicOutputs lib network repository expires publics signer =
     (case add_keys lib publics keyNames (initial_root lib expires) of
        None \<Rightarrow> None
      | Some root \<Rightarrow>
          (case jl_sign_root lib (map signer (take 2 keyNames)) root of
             None \<Rightarrow> None
           | Some raw \<Rightarrow>
               let encoded = record_of (il_bundle lib) \<lparr>bd_schema = 1, bd_network = network, bd_repository = repository, bd_root = raw\<rparr>
               in if parse_bundle lib encoded = None then None else Some (raw, encoded)))"

definition public_half :: "init_lib \<Rightarrow> string \<Rightarrow> string" where
  "public_half lib encoded = (case decodeKey (jl lib) encoded of None \<Rightarrow> [] | Some key \<Rightarrow> b64_encode (drop 32 key))"

definition public_keys :: "init_lib \<Rightarrow> authority_record \<Rightarrow> (string, string) gomap" where
  "public_keys lib p = map (\<lambda>n. (n, public_half lib (gm_get (au_keys p) n))) keyNames"

definition buildOutputs :: "init_lib \<Rightarrow> authority_record \<Rightarrow> (bytes \<times> bytes) option" where
  "buildOutputs lib p =
     (if \<not> authority_ok lib p then None
      else buildPublicOutputs lib (au_network p) (au_repository p) (au_expires p) (public_keys lib p) (gm_get (au_keys p)))"

section \<open>Verification of a directory\<close>

text \<open>The keys of a role are the expected ones, each named once.\<close>

fun take_expected :: "(string, tuf_key) gomap \<Rightarrow> string list \<Rightarrow> string list \<Rightarrow> bool" where
  "take_expected keys expected [] = True"
| "take_expected keys expected (i # is) =
     (case gm_lookup keys i of
        None \<Rightarrow> False
      | Some k \<Rightarrow> ed25519_key k \<and> List.member expected (tk_public k) \<and> take_expected keys (removeAll (tk_public k) expected) is)"

definition role_keys :: "string \<Rightarrow> string list \<times> int" where
  "role_keys role = (if role = ''root'' then (root_key_names, 2) else ([role], 1))"

definition role_verified :: "init_lib \<Rightarrow> (string, string) gomap \<Rightarrow> root_meta \<Rightarrow> string \<Rightarrow> bool" where
  "role_verified lib publics root role =
     (let (names, threshold) = role_keys role;
          expected = map (\<lambda>n. Option.bind (decodePublicKey (gm_get publics n)) (jl_key lib)) names
      in case gm_lookup (rm_roles root) role of
           None \<Rightarrow> False
         | Some r \<Rightarrow>
             tr_threshold r = threshold \<and> length (tr_keyids r) = length names \<and> list_all (\<lambda>k. k \<noteq> None) expected \<and>
             take_expected (rm_keys root) (map (\<lambda>k. tk_public (the k)) expected) (tr_keyids r))"

definition verifyPublicRoot ::
    "init_lib \<Rightarrow> string \<Rightarrow> string \<Rightarrow> gotime \<Rightarrow> (string, string) gomap \<Rightarrow> Bundle \<Rightarrow> bytes \<Rightarrow> bool" where
  "verifyPublicRoot lib network repository expires publics bundle raw \<longleftrightarrow>
     bd_network bundle = network \<and> bd_repository bundle = repository \<and> raw = bd_root bundle \<and>
     (case ol_parse_root lib raw of
        None \<Rightarrow> False
      | Some root \<Rightarrow>
          rm_version root = 1 \<and> rm_expires root = expires \<and> gm_size (rm_keys root) = 6 \<and> gm_size (rm_roles root) = 4 \<and>
          list_all (role_verified lib publics root) top_level_roles)"

definition verifyAuthorityRoot :: "init_lib \<Rightarrow> authority_record \<Rightarrow> Bundle \<Rightarrow> bytes \<Rightarrow> bool" where
  "verifyAuthorityRoot lib p bundle raw \<longleftrightarrow>
     list_all (\<lambda>n. decodeKey (jl lib) (gm_get (au_keys p) n) \<noteq> None) keyNames \<and>
     verifyPublicRoot lib (au_network p) (au_repository p) (au_expires p) (public_keys lib p) bundle raw"

definition receipt_for :: "init_lib \<Rightarrow> int \<Rightarrow> Bundle \<Rightarrow> bytes \<Rightarrow> bytes \<Rightarrow> bytes \<Rightarrow> completion" where
  "receipt_for lib schema bundle data raw encoded =
     \<lparr>co_schema = schema, co_fingerprint = omega_fingerprint (ol (jl lib)) bundle,
      co_files = [(''authority.json'', lib_sha256 lib data), (''1.root.json'', lib_sha256 lib raw), (''bundle.json'', lib_sha256 lib encoded)]\<rparr>"

definition verifyPublicAuthority :: "init_lib \<Rightarrow> store_id \<Rightarrow> bytes \<Rightarrow> (completion \<times> Bundle) op" where
  "verifyPublicAuthority lib s data =
     andthen (opt (decodeRecord (jl_public lib) data) EInvalid) (\<lambda>p.
     andthen (guard (public_authority_ok p) EInvalid) (\<lambda>u.
     andthen (read s ''1.root.json'') (\<lambda>raw.
     andthen (read s ''bundle.json'') (\<lambda>encoded.
     andthen (opt (parse_bundle lib encoded) EInvalid) (\<lambda>bundle.
     andthen (guard (omega_fingerprint (ol (jl lib)) bundle = pu_fingerprint p) EInvalid) (\<lambda>u.
     andthen (guard (verifyPublicRoot lib (pu_network p) (pu_repository p) (pu_expires p) (pu_keys p) bundle raw) EInvalid) (\<lambda>u.
     ret (receipt_for lib 2 bundle data raw encoded, bundle))))))))"

definition verify_private :: "init_lib \<Rightarrow> store_id \<Rightarrow> bytes \<Rightarrow> (completion \<times> Bundle) op" where
  "verify_private lib s data =
     andthen (opt (decodeRecord (jl_authority lib) data) EInvalid) (\<lambda>p.
     andthen (guard (authority_ok lib p) EInvalid) (\<lambda>u.
     andthen (read s ''1.root.json'') (\<lambda>raw.
     andthen (read s ''bundle.json'') (\<lambda>encoded.
     andthen (opt (parse_bundle lib encoded) EInvalid) (\<lambda>bundle.
     andthen (guard (verifyAuthorityRoot lib p bundle raw) EInvalid) (\<lambda>u.
     ret (receipt_for lib 1 bundle data raw encoded, bundle)))))))"

definition verify_authority :: "init_lib \<Rightarrow> store_id \<Rightarrow> (completion \<times> Bundle) op" where
  "verify_authority lib s =
     andthen (read s ''authority.json'') (\<lambda>data.
       if jl_schema lib data = 2 then verifyPublicAuthority lib s data else verify_private lib s data)"

text \<open>The entries of a directory itself: no other names, and every file that is looked at is safe.\<close>

definition entry_safe :: "store_id \<Rightarrow> string \<Rightarrow> unit op" where
  "entry_safe s name =
     call (\<lambda>d. (case gm_lookup (dr_live d) name of None \<Rightarrow> Err ENotExist | Some f \<Rightarrow> if fl_safe f then Val () else Err EUnsafe, d)) s"

definition allowed_names :: "bool \<Rightarrow> bool \<Rightarrow> string list" where
  "allowed_names pending encrypted =
     (let names = filter (\<lambda>n. pending \<or> n \<noteq> allocationName) (if encrypted then encryptedAuthorityFiles else authorityFiles)
      in names @ (if pending then map pending_name names else []))"

definition checkEntries :: "store_id \<Rightarrow> bool \<Rightarrow> bool \<Rightarrow> unit op" where
  "checkEntries s pending encrypted =
     andthen (directoryNames s) (\<lambda>entries.
       for_each (filter (\<lambda>n. dir_of n = ''.'') entries) (\<lambda>n.
         andthen (guard (List.member (allowed_names pending encrypted) n) EInvalid) (\<lambda>u.
           if encrypted \<and> \<not> pending \<and> List.member (map encryptedKeyName keyNames) n then ret () else entry_safe s n)))"

definition key_status :: "init_lib \<Rightarrow> string \<Rightarrow> (omega_error + bytes) \<Rightarrow> string" where
  "key_status lib expected r =
     (case r of
        Inl e \<Rightarrow> if e = ENotExist then ''missing'' else ''damaged''
      | Inr data \<Rightarrow> if length data > maxEncryptedKey \<or> lib_sha256 lib data \<noteq> expected then ''damaged'' else ''locked'')"

fun encryptedKeyStatus :: "init_lib \<Rightarrow> store_id \<Rightarrow> publicAuthority \<Rightarrow> string list \<Rightarrow> (string, string) gomap op" where
  "encryptedKeyStatus lib s p [] = ret []"
| "encryptedKeyStatus lib s p (n # names) =
     andthen (trying (read s (encryptedKeyName n))) (\<lambda>r.
     andthen (encryptedKeyStatus lib s p names) (\<lambda>rest.
     ret ((n, key_status lib (gm_get (pu_digests p) n) r) # rest)))"

definition requireKeyFiles :: "(string, string) gomap \<Rightarrow> unit op" where
  "requireKeyFiles files = guard (list_all (\<lambda>n. List.member [''locked'', ''verified''] (gm_get files n)) keyNames) EKey"

definition role_status :: "root_meta \<Rightarrow> string \<Rightarrow> string \<times> tuf_role" where
  "role_status root role =
     (role, case gm_lookup (rm_roles root) role of None \<Rightarrow> \<lparr>tr_threshold = 0, tr_keyids = []\<rparr> | Some r \<Rightarrow> r)"

definition inspectBundle :: "init_lib \<Rightarrow> Bundle \<Rightarrow> gotime \<Rightarrow> init_report op" where
  "inspectBundle lib bundle now =
     andthen (opt (ol_parse_root lib (bd_root bundle)) EMetadata) (\<lambda>root.
     ret \<lparr>ir_state = (if \<not> now < rm_expires root then ''expired'' else ''initialized''), ir_mode = ''disposable'', ir_custody = [],
          ir_network = bd_network bundle, ir_repository = bd_repository bundle,
          ir_fingerprint = omega_fingerprint (ol (jl lib)) bundle, ir_root_version = rm_version root, ir_root_expires = rm_expires root,
          ir_roles = map (role_status root) top_level_roles, ir_key_files = []\<rparr>)"

definition inspect_authority :: "init_lib \<Rightarrow> store_id \<Rightarrow> gotime \<Rightarrow> init_report op" where
  "inspect_authority lib s now =
     andthen (read s ''authority.json'') (\<lambda>data.
       let encrypted = (jl_schema lib data = 2)
       in andthen (checkEntries s False encrypted) (\<lambda>u.
          andthen (verify_authority lib s) (\<lambda>(receipt, bundle).
          andthen (read s ''complete.json'') (\<lambda>stored.
          andthen (guard (map_option (record_of (il_completion lib)) (decodeRecord (il_completion lib) stored) =
                          Some (record_of (il_completion lib) receipt)) EInvalid) (\<lambda>u.
          andthen (inspectBundle lib bundle now) (\<lambda>report.
            if encrypted then
              andthen (readPublicAuthority (jl lib) s) (\<lambda>p.
              andthen (encryptedKeyStatus lib s p keyNames) (\<lambda>files.
              ret (report\<lparr>ir_mode := pu_mode p, ir_custody := encryptedCustody, ir_key_files := files\<rparr>)))
            else ret report))))))"

text \<open>A caller that does not go on with an expired root.\<close>

definition inspect_current :: "init_lib \<Rightarrow> store_id \<Rightarrow> gotime \<Rightarrow> init_report op" where
  "inspect_current lib s now =
     andthen (inspect_authority lib s now) (\<lambda>report.
     andthen (guard (ir_state report \<noteq> ''expired'') EExpired) (\<lambda>u.
     ret report))"

section \<open>Preparation of the staged authority\<close>

definition new_authority :: "init_options \<Rightarrow> authority_record" where
  "new_authority cfg =
     \<lparr>au_schema = 1, au_mode = ''disposable'', au_network = io_network cfg, au_repository = io_repository cfg, au_created = io_now cfg,
      au_expires = io_now cfg + rootLifetime, au_keys = map (\<lambda>n. (n, gm_get (io_drawn cfg) n)) keyNames\<rparr>"

text \<open>The record of a disposable authority: the committed one, a complete pending one, or a new one before any output.\<close>

definition planned_data :: "init_lib \<Rightarrow> init_options \<Rightarrow> bytes op" where
  "planned_data lib cfg =
     andthen (try_read Stage ''authority.json'') (\<lambda>committed.
       case committed of
         Some data \<Rightarrow> ret data
       | None \<Rightarrow>
           andthen (absent Stage (with_pending (tl authorityFiles)) ECustody) (\<lambda>u.
           andthen (try_read Stage (pending_name ''authority.json'')) (\<lambda>pending.
             if pending \<noteq> None \<and> ol_valid lib (the pending) then
               andthen (opt (decodeRecord (jl_authority lib) (the pending)) EInvalid) (\<lambda>p.
               andthen (guard (authority_ok lib p) EInvalid) (\<lambda>u.
               ret (the pending)))
             else ret (record_of (jl_authority lib) (new_authority cfg)))))"

definition prepareAuthority :: "init_lib \<Rightarrow> init_options \<Rightarrow> authority_record op" where
  "prepareAuthority lib cfg =
     andthen (planned_data lib cfg) (\<lambda>data.
     andthen (opt (decodeRecord (jl_authority lib) data) EInvalid) (\<lambda>p.
     andthen (guard (authority_ok lib p) EInvalid) (\<lambda>u.
     andthen (guard (au_network p = io_network cfg \<and> au_repository p = io_repository cfg) EConfig) (\<lambda>u.
     andthen (install Stage ''authority.json'' data) (\<lambda>u.
     andthen (syncDir Stage) (\<lambda>u.
     ret p))))))"

definition prepareDisposable :: "init_lib \<Rightarrow> init_options \<Rightarrow> unit op" where
  "prepareDisposable lib cfg =
     andthen (prepareAuthority lib cfg) (\<lambda>p.
     andthen (guard (io_now cfg < au_expires p) EExpired) (\<lambda>u.
     andthen (opt (buildOutputs lib p) EMetadata) (\<lambda>(raw, encoded).
     andthen (install Stage ''1.root.json'' raw) (\<lambda>u.
     install Stage ''bundle.json'' encoded))))"

fun create_keys :: "init_lib \<Rightarrow> init_options \<Rightarrow> bytes \<Rightarrow> string list \<Rightarrow> (string, bytes) gomap option" where
  "create_keys lib cfg password [] = Some []"
| "create_keys lib cfg password (n # names) =
     (case create_key (jl lib) (key_binding 1 (io_transaction cfg) (io_network cfg) (io_repository cfg) n) password (gm_get (io_salts cfg) n) (gm_get (io_drawn cfg) n) of
        None \<Rightarrow> None
      | Some c \<Rightarrow> map_option ((#) (n, c)) (create_keys lib cfg password names))"

definition new_allocation :: "init_options \<Rightarrow> (string, bytes) gomap \<Rightarrow> encryptedAllocation" where
  "new_allocation cfg keys =
     \<lparr>ea_schema = 1, ea_type = ''encrypted-authority-allocation'', ea_mode = custodyMode (io_disposable cfg), ea_transaction = io_transaction cfg,
      ea_network = io_network cfg, ea_repository = io_repository cfg, ea_created = io_now cfg, ea_expires = io_now cfg + rootLifetime, ea_keys = keys\<rparr>"

text \<open>Each key is unlocked and gets a file of its own.\<close>

fun unlock_keys :: "init_lib \<Rightarrow> encryptedAllocation \<Rightarrow> bytes \<Rightarrow> string list \<Rightarrow> (string, bytes) gomap op" where
  "unlock_keys lib a password [] = ret []"
| "unlock_keys lib a password (n # names) =
     andthen (opt (unlock_key (jl lib) (gm_get (ea_keys a) n) (key_binding 1 (ea_transaction a) (ea_network a) (ea_repository a) n) password) EKey) (\<lambda>key.
     andthen (install Stage (encryptedKeyName n) (gm_get (ea_keys a) n)) (\<lambda>u.
     andthen (unlock_keys lib a password names) (\<lambda>rest.
     ret ((n, key) # rest))))"

text \<open>The public record without its fingerprint.\<close>

definition public_record :: "init_lib \<Rightarrow> encryptedAllocation \<Rightarrow> (string, bytes) gomap \<Rightarrow> publicAuthority" where
  "public_record lib a keys =
     \<lparr>pu_schema = 2, pu_mode = ea_mode a, pu_custody = encryptedCustody, pu_transaction = ea_transaction a, pu_network = ea_network a,
      pu_repository = ea_repository a, pu_created = ea_created a, pu_expires = ea_expires a, pu_fingerprint = [],
      pu_keys = map (\<lambda>(n, key). (n, b64_encode (drop 32 key))) keys,
      pu_digests = map (\<lambda>(n, key). (n, lib_sha256 lib (gm_get (ea_keys a) n))) keys\<rparr>"

definition publish_allocation :: "init_lib \<Rightarrow> encryptedAllocation \<Rightarrow> bytes \<Rightarrow> bytes \<Rightarrow> unit op" where
  "publish_allocation lib a data password =
     andthen (install Stage allocationName data) (\<lambda>u.
     andthen (syncDir Stage) (\<lambda>u.
     andthen (unlock_keys lib a password keyNames) (\<lambda>keys.
       let p = public_record lib a keys
       in andthen (opt (buildPublicOutputs lib (pu_network p) (pu_repository p) (pu_expires p) (pu_keys p) (\<lambda>n. b64_encode (gm_get keys n))) EMetadata) (\<lambda>(raw, encoded).
          andthen (opt (parse_bundle lib encoded) EInvalid) (\<lambda>bundle.
            let p' = p\<lparr>pu_fingerprint := omega_fingerprint (ol (jl lib)) bundle\<rparr>
            in andthen (guard (public_authority_ok p') EInvalid) (\<lambda>u.
               andthen (install Stage ''authority.json'' (record_of (jl_public lib) p')) (\<lambda>u.
               andthen (install Stage ''1.root.json'' raw) (\<lambda>u.
               install Stage ''bundle.json'' encoded))))))))"

definition password_for :: "init_options \<Rightarrow> bool \<Rightarrow> bytes op" where
  "password_for cfg confirm =
     andthen (opt (io_passphrase cfg) EKey) (\<lambda>ask.
     andthen (opt (ask confirm) EKey) (\<lambda>password.
     andthen (guard (password \<noteq> []) EKey) (\<lambda>u.
     ret password)))"

definition resume_allocation :: "init_lib \<Rightarrow> init_options \<Rightarrow> bytes \<Rightarrow> unit op" where
  "resume_allocation lib cfg data =
     andthen (opt (decodeRecord (il_allocation lib) data) EInvalid) (\<lambda>a.
     andthen (guard (allocation_ok a) EInvalid) (\<lambda>u.
     andthen (guard (ea_mode a = custodyMode (io_disposable cfg) \<and> ea_network a = io_network cfg \<and> ea_repository a = io_repository cfg) EConfig) (\<lambda>u.
     andthen (guard (io_now cfg < ea_expires a) EExpired) (\<lambda>u.
     andthen (password_for cfg False) (\<lambda>password.
     publish_allocation lib a data password)))))"

definition begin_allocation :: "init_lib \<Rightarrow> init_options \<Rightarrow> bool \<Rightarrow> unit op" where
  "begin_allocation lib cfg committed =
     andthen (guard (\<not> committed) EInvalid) (\<lambda>u.
     andthen (absent Stage (with_pending (filter (\<lambda>n. n \<noteq> allocationName) encryptedAuthorityFiles)) ECustody) (\<lambda>u.
     andthen (password_for cfg True) (\<lambda>password.
     andthen (opt (create_keys lib cfg password keyNames) EKey) (\<lambda>keys.
       let a = new_allocation cfg keys
       in publish_allocation lib a (record_of (il_allocation lib) a) password))))"

definition same_configuration :: "init_options \<Rightarrow> init_report \<Rightarrow> bool" where
  "same_configuration cfg report \<longleftrightarrow>
     ir_mode report = custodyMode (io_disposable cfg) \<and> ir_network report = io_network cfg \<and> ir_repository report = io_repository cfg \<and>
     io_encrypted cfg = (ir_custody report = encryptedCustody)"

text \<open>
  A stage whose allocation has been retired is complete: it is only inspected. A torn allocation is written anew as
  long as there is no other file.
\<close>

definition prepareEncrypted :: "init_lib \<Rightarrow> init_options \<Rightarrow> unit op" where
  "prepareEncrypted lib cfg =
     andthen (read_either Stage allocationName) (\<lambda>(committed, data).
     andthen (if data = None then trying (read Stage ''complete.json'') else ret (Inl EIO)) (\<lambda>finished.
       case finished of
         Inr c \<Rightarrow>
           andthen (inspect_current lib Stage (io_now cfg)) (\<lambda>report.
           andthen (guard (same_configuration (cfg\<lparr>io_encrypted := True\<rparr>) report) EConfig) (\<lambda>u.
           requireKeyFiles (ir_key_files report)))
       | Inl e \<Rightarrow>
           if data \<noteq> None \<and> ol_valid lib (the data) then resume_allocation lib cfg (the data)
           else begin_allocation lib cfg committed))"

section \<open>Initialization\<close>

text \<open>
  The directory entry of the slot appears in the home when the stage is renamed to it. The rename never replaces
  (\<open>RENAME_NOREPLACE\<close>), and it is durable once the home has been synchronised.
\<close>

definition slot_entry :: fnode where
  "slot_entry = \<lparr>fl_data = [], fl_safe = True, fl_synced = True\<rparr>"

definition no_directory :: directory where
  "no_directory = \<lparr>dr_made = False, dr_live = [], dr_disk = []\<rparr>"

definition promoted :: "string \<Rightarrow> (store_id \<Rightarrow> directory) \<Rightarrow> store_id \<Rightarrow> directory" where
  "promoted network ds =
     ds(Authority := ds Stage, Stage := no_directory,
        Home := (ds Home)\<lparr>dr_live := gm_update network slot_entry (dr_live (ds Home))\<rparr>)"

definition promote :: "string \<Rightarrow> unit op" where
  "promote network w =
     (let run = (\<lambda>w. if dr_made (w_dirs w Authority) then (Err EExist, w)
                     else if \<not> dr_made (w_dirs w Stage) then (Err ENotExist, w)
                     else (Val (), w\<lparr>w_dirs := promoted network (w_dirs w)\<rparr>))
      in case w_faults w of
           [] \<Rightarrow> run w
         | NoFault # fs \<Rightarrow> run (w\<lparr>w_faults := fs\<rparr>)
         | Dies # fs \<Rightarrow> (Died, w\<lparr>w_faults := fs\<rparr>)
         | f # fs \<Rightarrow> (Err EIO, w\<lparr>w_faults := fs\<rparr>))"

definition rejectOrphanedOperationalState :: "string \<Rightarrow> unit op" where
  "rejectOrphanedOperationalState network =
     absent Home (map ((@) network) [''.renewal.json'', ''.renewal.json.pending'', ''.publisher.json'', ''.publisher.json.pending'',
       ''.publication'', ''.rotations'', ''.online-keys'']) ECustody"

text \<open>A network that has an authority is only inspected.\<close>

definition existing_authority :: "init_lib \<Rightarrow> init_options \<Rightarrow> init_report op" where
  "existing_authority lib cfg =
     andthen (inspect_current lib Authority (io_now cfg)) (\<lambda>report.
     andthen (guard (same_configuration cfg report) EConfig) (\<lambda>u.
     andthen (if io_encrypted cfg then requireKeyFiles (ir_key_files report) else ret ()) (\<lambda>u.
     andthen (syncDir Home) (\<lambda>u.
     ret report))))"

definition retire_allocation :: "init_lib \<Rightarrow> unit op" where
  "retire_allocation lib =
     andthen (trying (remove Stage allocationName)) (\<lambda>r.
     andthen (case r of Inl e \<Rightarrow> guard (e = ENotExist) e | Inr u \<Rightarrow> ret ()) (\<lambda>u.
     syncDir Stage))"

text \<open>The receipt, the last look at the encrypted files, and the removal of temporary files and of the allocation.\<close>

definition complete_stage :: "init_lib \<Rightarrow> bool \<Rightarrow> unit op" where
  "complete_stage lib encrypted =
     andthen (verify_authority lib Stage) (\<lambda>(receipt, bundle).
     andthen (install Stage ''complete.json'' (record_of (il_completion lib) receipt)) (\<lambda>u.
     andthen
       (if encrypted then
          andthen (readPublicAuthority (jl lib) Stage) (\<lambda>p.
          andthen (encryptedKeyStatus lib Stage p keyNames) requireKeyFiles)
        else ret ()) (\<lambda>u.
     andthen (cleanPending Stage (if encrypted then encryptedAuthorityFiles else authorityFiles)) (\<lambda>u.
     if encrypted then retire_allocation lib else ret ()))))"

text \<open>A new authority: prepared and verified in the stage, then made visible at once.\<close>

definition stage_authority :: "init_lib \<Rightarrow> init_options \<Rightarrow> init_report op" where
  "stage_authority lib cfg =
     andthen (rejectOrphanedOperationalState (io_network cfg)) (\<lambda>u.
     andthen (mkdir Stage) (\<lambda>u.
     andthen (syncDir Home) (\<lambda>u.
     andthen (subdir Stage) (\<lambda>u.
     andthen (checkEntries Stage True (io_encrypted cfg)) (\<lambda>u.
     andthen (if io_encrypted cfg then prepareEncrypted lib cfg else prepareDisposable lib cfg) (\<lambda>u.
     andthen (complete_stage lib (io_encrypted cfg)) (\<lambda>u.
     andthen (inspect_current lib Stage (io_now cfg)) (\<lambda>report.
     andthen (if io_encrypted cfg then requireKeyFiles (ir_key_files report) else ret ()) (\<lambda>u.
     andthen (promote (io_network cfg)) (\<lambda>u.
     andthen (syncDir Home) (\<lambda>u.
     ret report)))))))))))"

text \<open>Without the option a custody that is not disposable is encrypted.\<close>

definition initialize :: "init_lib \<Rightarrow> init_options \<Rightarrow> init_report op" where
  "initialize lib opts =
     andthen (guard (networkID (io_network opts)) EConfig) (\<lambda>u.
     andthen (opt (ValidateLocation (io_network opts) (io_repository opts)) EConfig) (\<lambda>repository.
       let cfg = opts\<lparr>io_encrypted := (io_encrypted opts \<or> \<not> io_disposable opts), io_repository := repository\<rparr>
       in andthen (trying (subdir Authority)) (\<lambda>slot.
            case slot of
              Inr u \<Rightarrow> existing_authority lib cfg
            | Inl e \<Rightarrow> andthen (guard (e = ENotExist) e) (\<lambda>u. stage_authority lib cfg))))"

end
