(* ===== verification/Omega_Authority_Facts.thy ===== *)
theory Omega_Authority_Facts
  imports Omega_Authority Omega_Inv
begin

text \<open>
  Initializations of one network over time, interrupted anywhere and with power losses between them: a slot that is
  visible is complete, and once it is durable nothing replaces it. Inspections that succeed are related to later inspections
  of the same files.
\<close>

section \<open>Power loss\<close>

text \<open>While the entry of a new slot is not durable a power loss can undo the rename of the stage.\<close>

definition demoted :: "string \<Rightarrow> dirs \<Rightarrow> dirs" where
  "demoted network ds =
     ds(Stage := ds Authority, Authority := no_directory,
        Home := (ds Home)\<lparr>dr_live := gm_delete network (dr_live (ds Home))\<rparr>)"

definition slot_loss :: "string \<Rightarrow> dirs \<Rightarrow> dirs \<Rightarrow> bool" where
  "slot_loss network ds ds' \<longleftrightarrow>
     (\<exists>ds1. (ds1 = ds \<or> (gm_lookup (dr_disk (ds Home)) network = None \<and> dr_made (ds Authority) \<and> ds1 = demoted network ds)) \<and>
        power_loss ds1 ds' \<and> dr_made (ds' Authority) = dr_made (ds1 Authority) \<and>
        gm_lookup (dr_live (ds' Home)) network = gm_lookup (dr_live (ds1 Home)) network)"

section \<open>Inspections of the same files\<close>

definition same_files :: "directory \<Rightarrow> directory \<Rightarrow> bool" where
  "same_files d d' \<longleftrightarrow> (\<forall>n. dir_of n = ''.'' \<longrightarrow> gm_lookup (dr_live d) n = gm_lookup (dr_live d') n)"

text \<open>
  \<open>sim R m m'\<close>: what \<open>m\<close> reads in one store \<open>m'\<close> reads, without faults, in another one with the same files, up to \<open>R\<close>.
\<close>

definition sim :: "('a \<Rightarrow> 'b \<Rightarrow> bool) \<Rightarrow> (store_id \<Rightarrow> 'a op) \<Rightarrow> (store_id \<Rightarrow> 'b op) \<Rightarrow> bool" where
  "sim R m m' \<longleftrightarrow>
     (\<forall>s s' (w :: world) w' x w1. same_files (w_dirs w s) (w_dirs w' s') \<longrightarrow> w_faults w' = [] \<longrightarrow> m s w = (Val x, w1) \<longrightarrow>
        w_dirs w1 = w_dirs w \<and> (\<exists>y. R x y \<and> m' s' w' = (Val y, w')))"

named_theorems sim_rules "operations that only look at files"

lemma simD:
  assumes "sim R m m'" "same_files (w_dirs w s) (w_dirs w' s')" "w_faults w' = []" "m s w = (Val x, w1)"
  obtains y where "w_dirs w1 = w_dirs w" "R x y" "m' s' w' = (Val y, w')"
  using assms unfolding sim_def by blast

lemma sim_ret: "R x y \<Longrightarrow> sim R (\<lambda>s. ret x) (\<lambda>s. ret y)"
  by (auto simp: sim_def ret_def)

lemma sim_guard [sim_rules]: "(b \<Longrightarrow> b') \<Longrightarrow> sim (=) (\<lambda>s. guard b e) (\<lambda>s. guard b' e)"
  by (auto simp: sim_def guard_def ret_def throw_def)

lemma sim_opt [sim_rules]: "sim (=) (\<lambda>s. opt x e) (\<lambda>s. opt x e)"
  by (auto simp: sim_def opt_def ret_def throw_def split: option.split)

lemma sim_andthen:
  assumes "sim R m m'" "\<And>x y. R x y \<Longrightarrow> sim Q (\<lambda>s. k s x) (\<lambda>s. k' s y)"
  shows "sim Q (\<lambda>s. andthen (m s) (k s)) (\<lambda>s. andthen (m' s) (k' s))"
  unfolding sim_def
proof (intro allI impI)
  fix s s' and w w' :: world and x w1
  assume f: "same_files (w_dirs w s) (w_dirs w' s')" "w_faults w' = []" and r: "andthen (m s) (k s) w = (Val x, w1)"
  obtain a w2 where a: "m s w = (Val a, w2)" "k s a w2 = (Val x, w1)"
    using r by (auto simp: andthen_def split: prod.splits outcome.splits)
  obtain b where b: "w_dirs w2 = w_dirs w" "R a b" "m' s' w' = (Val b, w')" by (rule simD [OF assms(1) f a(1)])
  have "same_files (w_dirs w2 s) (w_dirs w' s')" using f(1) b(1) by simp
  then obtain y where "w_dirs w1 = w_dirs w2" "Q x y" "k' s' b w' = (Val y, w')" by (rule simD [OF assms(2) [OF b(2)] _ f(2) a(2)])
  then show "w_dirs w1 = w_dirs w \<and> (\<exists>y. Q x y \<and> andthen (m' s') (k' s') w' = (Val y, w'))"
    using b by (auto simp: andthen_def)
qed

lemma sim_same: "sim (=) m m' \<Longrightarrow> (\<And>x. sim Q (\<lambda>s. k s x) (\<lambda>s. k' s x)) \<Longrightarrow> sim Q (\<lambda>s. andthen (m s) (k s)) (\<lambda>s. andthen (m' s) (k' s))"
  by (rule sim_andthen [of "(=)"]) auto

lemma sim_if: "(b \<Longrightarrow> sim R m m') \<Longrightarrow> (\<not> b \<Longrightarrow> sim R k k') \<Longrightarrow> sim R (\<lambda>s. if b then m s else k s) (\<lambda>s. if b then m' s else k' s)"
  by (cases b) auto

lemma call_Val: "call f s w = (Val x, w1) \<Longrightarrow> fst (f (w_dirs w s)) = Val x \<and> w_dirs w1 = (w_dirs w)(s := snd (f (w_dirs w s)))"
  by (auto simp: call_def syscall_def dir_step_def Let_def split: list.splits fault.splits prod.splits)

lemma call_quiet: "w_faults w = [] \<Longrightarrow> f (w_dirs w s) = (r, w_dirs w s) \<Longrightarrow> call f s w = (r, w)"
  by (simp add: call_def syscall_def dir_step_def fun_upd_idem)

text \<open>A call that only looks, and whose result does not depend on more than the files.\<close>

lemma sim_look:
  assumes "\<And>d. snd (f d) = d" "\<And>d d' x. same_files d d' \<Longrightarrow> fst (f d) = Val x \<Longrightarrow> fst (f d') = Val x"
  shows "sim (=) (\<lambda>s. call f s) (\<lambda>s. call f s)"
  unfolding sim_def
proof (intro allI impI)
  fix s s' and w w' :: world and x w1
  assume f: "same_files (w_dirs w s) (w_dirs w' s')" "w_faults w' = []" and r: "call f s w = (Val x, w1)"
  from call_Val [OF r] have v: "fst (f (w_dirs w s)) = Val x" "w_dirs w1 = (w_dirs w)(s := snd (f (w_dirs w s)))" by auto
  have "f (w_dirs w' s') = (Val x, w_dirs w' s')" using assms(1) [of "w_dirs w' s'"] assms(2) [OF f(1) v(1)] by (metis prod.collapse)
  then show "w_dirs w1 = w_dirs w \<and> (\<exists>y. x = y \<and> call f s' w' = (Val y, w'))"
    using v(2) assms(1) call_quiet [OF f(2)] by (simp add: fun_upd_idem)
qed

lemma read_file_files: "same_files d d' \<Longrightarrow> dir_of n = ''.'' \<Longrightarrow> fst (read_file n d) = fst (read_file n d')"
  unfolding same_files_def read_file_def by (auto split: option.splits)

lemma sim_read: "dir_of n = ''.'' \<Longrightarrow> sim (=) (\<lambda>s. read s n) (\<lambda>s. read s n)"
  unfolding read_def by (rule sim_look) (auto simp: read_file_files)

lemma sim_entry_safe: "dir_of n = ''.'' \<Longrightarrow> sim (=) (\<lambda>s. entry_safe s n) (\<lambda>s. entry_safe s n)"
  unfolding entry_safe_def by (rule sim_look) (auto simp: same_files_def split: option.splits if_splits)

lemma authority_names [simp]:
  "dir_of ''authority.json'' = ''.''" "dir_of ''1.root.json'' = ''.''" "dir_of ''bundle.json'' = ''.''" "dir_of ''complete.json'' = ''.''"
  by code_simp+

lemma key_names: "n \<in> set keyNames \<Longrightarrow> dir_of (encryptedKeyName n) = ''.''"
proof -
  have "list_all (\<lambda>n. dir_of (encryptedKeyName n) = ''.'') keyNames" by code_simp
  then show "n \<in> set keyNames \<Longrightarrow> dir_of (encryptedKeyName n) = ''.''" by (simp add: list_all_iff)
qed

lemma sim_verifyPublic: "sim (=) (\<lambda>s. verifyPublicAuthority lib s data) (\<lambda>s. verifyPublicAuthority lib s data)"
  unfolding verifyPublicAuthority_def by (intro sim_same sim_rules sim_read sim_ret refl) auto

lemma sim_verify_private: "sim (=) (\<lambda>s. verify_private lib s data) (\<lambda>s. verify_private lib s data)"
  unfolding verify_private_def by (intro sim_same sim_rules sim_read sim_ret refl) auto

lemma sim_verify: "sim (=) (\<lambda>s. verify_authority lib s) (\<lambda>s. verify_authority lib s)"
  unfolding verify_authority_def by (intro sim_same sim_read sim_if sim_verifyPublic sim_verify_private) simp

lemma sim_readPublic: "sim (=) (\<lambda>s. readPublicAuthority lib s) (\<lambda>s. readPublicAuthority lib s)"
  unfolding readPublicAuthority_def by (intro sim_same sim_rules sim_read sim_ret refl) auto

section \<open>A complete directory\<close>

lemma checks_again:
  assumes "\<And>x. x \<in> set xs \<Longrightarrow> sim (=) (\<lambda>s. f s x) (\<lambda>s. f s x)" "for_each xs (f s) w = (Val u, w1)"
    and "same_files (w_dirs w s) (w_dirs w' s')" "w_faults w' = []"
  shows "w_dirs w1 = w_dirs w \<and> (\<forall>x \<in> set xs. f s' x w' = (Val (), w'))"
  using assms
proof (induction xs arbitrary: w)
  case (Cons a xs)
  from Cons.prems(2) obtain w2 where w2: "f s a w = (Val (), w2)" "for_each xs (f s) w2 = (Val u, w1)"
    by (auto simp: andthen_def split: prod.splits outcome.splits)
  have one: "sim (=) (\<lambda>s. f s a) (\<lambda>s. f s a)" by (rule Cons.prems(1)) simp
  have a: "w_dirs w2 = w_dirs w" "f s' a w' = (Val (), w')" using simD [OF one Cons.prems(3,4) w2(1)] by auto
  then show ?case using Cons.IH [OF Cons.prems(1) w2(2)] Cons.prems(3,4) by auto
qed (simp add: ret_def)

text \<open>\<open>for_each\<close> over checks succeeds on every list of checks that succeed.\<close>

lemma quiet_for_each: "(\<And>x. x \<in> set xs \<Longrightarrow> f x w = (Val (), w)) \<Longrightarrow> for_each xs f w = (Val (), w)"
  by (induction xs) (auto simp: ret_def andthen_def)

lemma gm_keys_lookup: "n \<in> set (gm_keys m) \<longleftrightarrow> gm_lookup m n \<noteq> None"
  by (auto simp: gm_keys_def gm_lookup_None)

lemma sim_checkEntries: "sim (=) (\<lambda>s. checkEntries s p e) (\<lambda>s. checkEntries s p e)"
  unfolding sim_def
proof (intro allI impI)
  fix s s' and w w' :: world and x w1
  let ?names = "\<lambda>w s. filter (\<lambda>n. dir_of n = ''.'') (gm_keys (dr_live (w_dirs w s)))"
  define check where "check s n = andthen (guard (List.member (allowed_names p e) n) EInvalid) (\<lambda>u.
           if e \<and> \<not> p \<and> List.member (map encryptedKeyName keyNames) n then ret () else entry_safe s n)" for s n
  have chk: "checkEntries s p e = andthen (directoryNames s) (\<lambda>entries. for_each (filter (\<lambda>n. dir_of n = ''.'') entries) (check s))" for s
    by (simp add: checkEntries_def check_def [abs_def])
  assume f: "same_files (w_dirs w s) (w_dirs w' s')" "w_faults w' = []" and r: "checkEntries s p e w = (Val x, w1)"
  have one: "sim (=) (\<lambda>s. check s n) (\<lambda>s. check s n)" if "dir_of n = ''.''" for n
    unfolding check_def by (intro sim_same sim_rules sim_if sim_ret sim_entry_safe that refl)
  from r obtain w2 where w2: "w_dirs w2 = w_dirs w" "for_each (?names w s) (check s) w2 = (Val (), w1)"
    unfolding chk directoryNames_def by (auto simp: andthen_def fun_upd_idem dest!: call_Val split: prod.splits outcome.splits)
  have "same_files (w_dirs w2 s) (w_dirs w' s')" using f(1) w2(1) by simp
  then have again: "w_dirs w1 = w_dirs w2" "\<forall>n \<in> set (?names w s). check s' n w' = (Val (), w')"
    using checks_again [of "?names w s" check, OF one w2(2) _ f(2)] by auto
  have names: "set (?names w' s') = set (?names w s)"
    using f(1) unfolding same_files_def by (auto simp: gm_keys_lookup)
  have "for_each (?names w' s') (check s') w' = (Val (), w')" by (rule quiet_for_each) (use again(2) names in blast)
  moreover have "directoryNames s' w' = (Val (gm_keys (dr_live (w_dirs w' s'))), w')"
    unfolding directoryNames_def by (rule call_quiet [OF f(2)]) simp
  ultimately show "w_dirs w1 = w_dirs w \<and> (\<exists>y. x = y \<and> checkEntries s' p e w' = (Val y, w'))"
    using again(1) w2(1) by (simp add: chk andthen_def)
qed

lemma sim_prod: "(\<And>a b. x = (a, b) \<Longrightarrow> sim R (\<lambda>s. k s a b) (\<lambda>s. k' s a b)) \<Longrightarrow>
    sim R (\<lambda>s. case x of (a, b) \<Rightarrow> k s a b) (\<lambda>s. case x of (a, b) \<Rightarrow> k' s a b)"
  by (cases x) simp

text \<open>Key files that an inspection found locked are found locked again.\<close>

definition usable :: "string \<Rightarrow> bool" where
  "usable state \<longleftrightarrow> List.member [''locked'', ''verified''] state"

definition still_locked :: "(string, string) gomap \<Rightarrow> (string, string) gomap \<Rightarrow> bool" where
  "still_locked files files' \<longleftrightarrow> (\<forall>n. usable (gm_get files n) \<longrightarrow> usable (gm_get files' n))"

lemma sim_try: "dir_of n = ''.'' \<Longrightarrow> sim (\<lambda>r r'. \<forall>x. r = Inr x \<longrightarrow> r' = Inr x) (\<lambda>s. trying (read s n)) (\<lambda>s. trying (read s n))"
  unfolding sim_def
proof (intro allI impI)
  fix s s' and w w' :: world and x w1
  assume n: "dir_of n = ''.''" and f: "same_files (w_dirs w s) (w_dirs w' s')" "w_faults w' = []" and r: "trying (read s n) w = (Val x, w1)"
  obtain q w2 where q: "read s n w = (q, w2)" by force
  have w1: "w1 = w2" using r q by (auto simp: trying_def split: outcome.splits)
  have quiet: "read s' n w' = (fst (read_file n (w_dirs w' s')), w')"
    unfolding read_def by (rule call_quiet [OF f(2)]) (metis prod.collapse read_file_same)
  have "fst (read_file n (w_dirs w' s')) \<noteq> Died" by (simp add: read_file_def split: option.split)
  then obtain y where y: "trying (read s' n) w' = (Val y, w')" "\<And>v. fst (read_file n (w_dirs w' s')) = Val v \<Longrightarrow> y = Inr v"
    by (cases "fst (read_file n (w_dirs w' s'))") (auto simp: trying_def quiet)
  have "fst (read_file n (w_dirs w' s')) = Val v" if "x = Inr v" for v
  proof -
    have "q = Val v" using r q that by (auto simp: trying_def split: outcome.splits)
    then have "fst (read_file n (w_dirs w s)) = Val v" using call_Val [of "read_file n" s w v w2] q unfolding read_def by simp
    then show ?thesis using read_file_files [OF f(1) n] by simp
  qed
  then show "w_dirs w1 = w_dirs w \<and> (\<exists>y. (\<forall>v. x = Inr v \<longrightarrow> y = Inr v) \<and> trying (read s' n) w' = (Val y, w'))"
    using y read_world [OF q] w1 by blast
qed

lemma sim_status: "set names \<subseteq> set keyNames \<Longrightarrow> sim still_locked (\<lambda>s. encryptedKeyStatus lib s p names) (\<lambda>s. encryptedKeyStatus lib s p names)"
proof (induction names)
  case Nil
  show ?case unfolding encryptedKeyStatus.simps by (rule sim_ret) (unfold still_locked_def, blast)
next
  case (Cons n names)
  have IH: "sim still_locked (\<lambda>s. encryptedKeyStatus lib s p names) (\<lambda>s. encryptedKeyStatus lib s p names)" using Cons by simp
  have n: "dir_of (encryptedKeyName n) = ''.''" using Cons.prems by (intro key_names) simp
  show ?case unfolding encryptedKeyStatus.simps
  proof (rule sim_andthen [OF sim_try [OF n]], rule sim_andthen [OF IH], rule sim_ret)
    fix r r' :: "omega_error + bytes" and files files'
    assume r: "\<forall>x. r = Inr x \<longrightarrow> r' = Inr x" and "still_locked files files'"
    moreover have "usable (key_status lib d r')" if "usable (key_status lib d r)" for d
      using that r by (cases r) (auto simp: usable_def key_status_def split: if_splits)
    ultimately show "still_locked ((n, key_status lib (gm_get (pu_digests p) n) r) # files) ((n, key_status lib (gm_get (pu_digests p) n) r') # files')"
      by (simp add: still_locked_def gm_get_def gm_lookup_Cons)
  qed
qed

definition same_report :: "init_report \<Rightarrow> init_report \<Rightarrow> bool" where
  "same_report r r' \<longleftrightarrow> ir_custody r' = ir_custody r \<and> still_locked (ir_key_files r) (ir_key_files r')"

lemma sim_inspectBundle: "sim same_report (\<lambda>s. inspectBundle lib bd now) (\<lambda>s. inspectBundle lib bd now')"
  unfolding inspectBundle_def by (intro sim_same sim_rules sim_ret) (simp add: same_report_def still_locked_def)

lemma sim_inspect: "sim same_report (\<lambda>s. inspect_authority lib s now) (\<lambda>s. inspect_authority lib s now')"
  unfolding inspect_authority_def Let_def
proof (rule sim_same [OF sim_read], simp, rule sim_same [OF sim_checkEntries], rule sim_same [OF sim_verify], rule sim_prod,
       rule sim_same [OF sim_read], simp, rule sim_same [OF sim_guard], assumption, rule sim_andthen [OF sim_inspectBundle], rule sim_if)
  fix r r' assume r: "same_report r r'"
  show "sim same_report (\<lambda>s. andthen (readPublicAuthority (jl lib) s) (\<lambda>p. andthen (encryptedKeyStatus lib s p keyNames) (\<lambda>files. ret (r\<lparr>ir_mode := pu_mode p, ir_custody := encryptedCustody, ir_key_files := files\<rparr>))))
     (\<lambda>s. andthen (readPublicAuthority (jl lib) s) (\<lambda>p. andthen (encryptedKeyStatus lib s p keyNames) (\<lambda>files. ret (r'\<lparr>ir_mode := pu_mode p, ir_custody := encryptedCustody, ir_key_files := files\<rparr>))))"
    by (rule sim_same [OF sim_readPublic], rule sim_andthen [OF sim_status], simp, rule sim_ret) (simp add: same_report_def)
  show "sim same_report (\<lambda>s. ret r) (\<lambda>s. ret r')" using r by (rule sim_ret)
qed

lemma file_names: "list_all (\<lambda>n. \<not> is_pending n) (authorityFiles @ encryptedAuthorityFiles)"
  by code_simp

lemma for_each_Val: "for_each xs f w = (Val u, w1) \<Longrightarrow> x \<in> set xs \<Longrightarrow> \<exists>w2 w3. f x w2 = (Val (), w3)"
proof (induction xs arbitrary: w)
  case (Cons a xs)
  then obtain w2 where w2: "f a w = (Val (), w2)" "for_each xs f w2 = (Val u, w1)"
    by (auto simp: andthen_def split: prod.splits outcome.splits)
  then show ?case using Cons by auto
qed simp

lemma andthen_Val: "andthen m k w = (Val x, w1) \<Longrightarrow> \<exists>y w2. m w = (Val y, w2) \<and> k y w2 = (Val x, w1)"
  by (auto simp: andthen_def split: prod.splits outcome.splits)

lemma checked_names:
  assumes "checkEntries s p e w = (Val u, w1)" "dir_of n = ''.''" "gm_lookup (dr_live (w_dirs w s)) n \<noteq> None"
  shows "n \<in> set (allowed_names p e)"
proof -
  obtain names w2 where names: "directoryNames s w = (Val names, w2)" and
    c: "for_each (filter (\<lambda>n. dir_of n = ''.'') names) (\<lambda>n. andthen (guard (List.member (allowed_names p e) n) EInvalid) (\<lambda>u.
           if e \<and> \<not> p \<and> List.member (map encryptedKeyName keyNames) n then ret () else entry_safe s n)) w2 = (Val u, w1)"
    using andthen_Val [OF assms(1) [unfolded checkEntries_def]] by blast
  have keys: "names = gm_keys (dr_live (w_dirs w s))" using call_Val [OF names [unfolded directoryNames_def]] by simp
  have "n \<in> set (filter (\<lambda>n. dir_of n = ''.'') names)" using assms(2,3) by (simp add: keys gm_keys_lookup)
  from for_each_Val [OF c this] obtain w3 w4 where "guard (List.member (allowed_names p e) n) EInvalid w3 = (Val (), w4)"
    by (auto dest!: andthen_Val)
  then show ?thesis by (simp add: guard_def ret_def throw_def split: if_splits)
qed

lemma inspected_names:
  assumes r: "inspect_authority lib s now w = (Val r, w1)" and n: "dir_of n = ''.''" "gm_lookup (dr_live (w_dirs w s)) n \<noteq> None"
  shows "\<not> is_pending n"
proof -
  obtain data w2 where d: "read s ''authority.json'' w = (Val data, w2)" and more: "(let encrypted = (jl_schema lib data = 2) in
      andthen (checkEntries s False encrypted) (\<lambda>u. andthen (verify_authority lib s) (\<lambda>(receipt, bundle).
          andthen (read s ''complete.json'') (\<lambda>stored.
          andthen (guard (map_option (record_of (il_completion lib)) (decodeRecord (il_completion lib) stored) =
                          Some (record_of (il_completion lib) receipt)) EInvalid) (\<lambda>u.
          andthen (inspectBundle lib bundle now) (\<lambda>report.
            if encrypted then
              andthen (readPublicAuthority (jl lib) s) (\<lambda>p.
              andthen (encryptedKeyStatus lib s p keyNames) (\<lambda>files.
              ret (report\<lparr>ir_mode := pu_mode p, ir_custody := encryptedCustody, ir_key_files := files\<rparr>)))
            else ret report)))))) w2 = (Val r, w1)"
    using andthen_Val [OF r [unfolded inspect_authority_def]] by blast
  obtain w3 where "checkEntries s False (jl_schema lib data = 2) w2 = (Val (), w3)"
    using andthen_Val [OF more [unfolded Let_def]] by auto
  moreover have "w_dirs w2 = w_dirs w" by (rule read_world [OF d])
  ultimately have "n \<in> set (allowed_names False (jl_schema lib data = 2))" using checked_names n by metis
  then show ?thesis using file_names by (auto simp: allowed_names_def list_all_iff Let_def split: if_splits)
qed

section \<open>The invariant of the slot\<close>

text \<open>\<open>enc\<close>: the custody is encrypted, so the key files are part of what is complete.\<close>

definition inspected :: "init_lib \<Rightarrow> bool \<Rightarrow> directory \<Rightarrow> bool" where
  "inspected lib enc d \<longleftrightarrow>
     (\<exists>s now w r w1. w_dirs w s = d \<and> inspect_authority lib s now w = (Val r, w1) \<and>
        (enc \<longrightarrow> (\<forall>n \<in> set keyNames. usable (gm_get (ir_key_files r) n))))"

definition finals_synced :: "directory \<Rightarrow> bool" where
  "finals_synced d \<longleftrightarrow> (\<forall>n f. entry d n f \<longrightarrow> \<not> is_pending n \<longrightarrow> fl_synced f)"

definition settled_dir :: "directory \<Rightarrow> bool" where
  "settled_dir d \<longleftrightarrow> (\<forall>n. dir_of n = ''.'' \<longrightarrow> gm_lookup (dr_disk d) n = gm_lookup (dr_live d) n)"

definition slot_inv :: "init_lib \<Rightarrow> string \<Rightarrow> bool \<Rightarrow> dirs \<Rightarrow> bool" where
  "slot_inv lib network enc ds \<longleftrightarrow>
     finals_synced (ds Stage) \<and> finals_synced (ds Authority) \<and>
     (dr_made (ds Authority) \<longrightarrow> settled_dir (ds Authority) \<and> inspected lib enc (ds Authority)) \<and>
     (gm_lookup (dr_live (ds Home)) network \<noteq> None \<longleftrightarrow> dr_made (ds Authority)) \<and>
     (gm_lookup (dr_disk (ds Home)) network \<noteq> None \<longrightarrow> dr_made (ds Authority))"

lemma inspected_same: "inspected lib enc d \<Longrightarrow> same_files d d' \<Longrightarrow> inspected lib enc d'"
  unfolding inspected_def
proof (elim exE conjE)
  fix s now and w :: world and r w1
  assume w: "w_dirs w s = d" "inspect_authority lib s now w = (Val r, w1)" and e: "enc \<longrightarrow> (\<forall>n \<in> set keyNames. usable (gm_get (ir_key_files r) n))" and f: "same_files d d'"
  let ?w = "\<lparr>w_dirs = \<lambda>s. d', w_faults = []\<rparr>"
  have "same_files (w_dirs w s) (w_dirs ?w s)" using w(1) f by simp
  then obtain r' where "inspect_authority lib s now ?w = (Val r', ?w)" "same_report r r'" by (rule simD [OF sim_inspect [where now' = now] _ _ w(2)]) auto
  then show "\<exists>s now w r w1. w_dirs w s = d' \<and> inspect_authority lib s now w = (Val r, w1) \<and> (enc \<longrightarrow> (\<forall>n \<in> set keyNames. usable (gm_get (ir_key_files r) n)))"
    using e by (intro exI [of _ s] exI [of _ now] exI [of _ ?w] exI [of _ r'] exI [of _ ?w]) (auto simp: same_report_def still_locked_def)
qed

lemma inspected_reads:
  assumes "inspected lib enc (ds s)"
  obtains r where "inspect_authority lib s now \<lparr>w_dirs = ds, w_faults = []\<rparr> = (Val r, \<lparr>w_dirs = ds, w_faults = []\<rparr>)"
    "enc \<Longrightarrow> \<forall>n \<in> set keyNames. usable (gm_get (ir_key_files r) n)"
proof -
  let ?w = "\<lparr>w_dirs = ds, w_faults = []\<rparr>"
  obtain s' now' w r w1 where w: "w_dirs w s' = ds s" "inspect_authority lib s' now' w = (Val r, w1)"
      "enc \<longrightarrow> (\<forall>n \<in> set keyNames. usable (gm_get (ir_key_files r) n))"
    using assms unfolding inspected_def by blast
  have "same_files (w_dirs w s') (w_dirs ?w s)" using w(1) by (simp add: same_files_def)
  then obtain r' where "inspect_authority lib s now ?w = (Val r', ?w)" "same_report r r'"
    by (rule simD [OF sim_inspect [where now' = now] _ _ w(2)]) auto
  then show ?thesis using that [of r'] w(3) by (auto simp: same_report_def still_locked_def)
qed

lemma inspected_pending: "inspected lib enc d \<Longrightarrow> dir_of n = ''.'' \<Longrightarrow> gm_lookup (dr_live d) n \<noteq> None \<Longrightarrow> \<not> is_pending n"
  unfolding inspected_def using inspected_names by metis

section \<open>Steps\<close>

lemma slot_inv_stage: "slot_inv lib network enc ds \<Longrightarrow> finals_synced d \<Longrightarrow> slot_inv lib network enc (ds(Stage := d))"
  by (simp add: slot_inv_def)

text \<open>The staging phase: there is no slot yet.\<close>

definition staging :: "init_lib \<Rightarrow> string \<Rightarrow> bool \<Rightarrow> dirs \<Rightarrow> bool" where
  "staging lib network enc ds \<longleftrightarrow> slot_inv lib network enc ds \<and> \<not> dr_made (ds Authority)"

lemma staging_stage: "staging lib network enc ds \<Longrightarrow> finals_synced d \<Longrightarrow> staging lib network enc (ds(Stage := d))"
  by (simp add: staging_def slot_inv_stage)

lemma staging_finals: "staging lib network enc ds \<Longrightarrow> finals_synced (ds Stage)"
  by (simp add: staging_def slot_inv_def)

lemma staging_update: "staging lib network enc ds \<Longrightarrow> (finals_synced (ds Stage) \<Longrightarrow> finals_synced d) \<Longrightarrow> staging lib network enc (ds(Stage := d))"
  by (simp add: staging_stage staging_finals)

lemma stable_staging: "stable (staging lib network enc) Stage"
  unfolding stable_def with_live_def
  by (intro conjI allI impI; rule staging_stage, assumption; drule staging_finals)
     (auto simp: finals_synced_def entry_def split: if_splits)

lemma admits_staging: "admits (staging lib network enc) Stage name data"
  unfolding admits_def with_live_def
  by (intro allI impI; rule staging_stage, assumption; drule staging_finals) (auto simp: finals_synced_def entry_def split: if_splits)

lemma staging_install: "\<not> is_pending name \<Longrightarrow> keeps (staging lib network enc) (install Stage name data)"
  by (rule install_keeps [OF stable_staging _ admits_staging])

lemma not_pending_names [simp]:
  "\<not> is_pending ''authority.json''" "\<not> is_pending ''1.root.json''" "\<not> is_pending ''bundle.json''" "\<not> is_pending ''complete.json''"
  "\<not> is_pending allocationName" "\<not> is_pending (n @ ''.key.age'')"
  by (simp_all add: is_pending_def HasSuffix_def HasPrefix_def allocationName_def)

lemma absent_keeps: "keeps J (absent s names e)"
  unfolding absent_def by (intro keeps_rules)

lemma read_either_keeps: "keeps J (read_either s n)"
  unfolding read_either_def by (intro keeps_rules)

lemma keeps_password: "keeps J (password_for cfg confirm)"
  unfolding password_for_def by (intro keeps_rules)

lemma keeps_checkEntries: "keeps J (checkEntries s p e)"
  unfolding checkEntries_def entry_safe_def by (intro keeps_rules keeps_look) simp

lemma keeps_verify: "keeps J (verify_authority lib s)"
  unfolding verify_authority_def verifyPublicAuthority_def verify_private_def by (intro keeps_rules)

lemma keeps_status: "keeps J (encryptedKeyStatus lib s p names)"
  by (induction names) (auto intro!: keeps_rules)

lemma keeps_require: "keeps J (requireKeyFiles files)"
  unfolding requireKeyFiles_def by (intro keeps_rules)

lemma keeps_readPublic: "keeps J (readPublicAuthority lib s)"
  unfolding readPublicAuthority_def by (intro keeps_rules)

lemma keeps_inspect: "keeps J (inspect_authority lib s now)"
  unfolding inspect_authority_def inspectBundle_def Let_def
  by (intro keeps_rules keeps_checkEntries keeps_verify keeps_readPublic keeps_status)

lemma keeps_inspect_current: "keeps J (inspect_current lib s now)"
  unfolding inspect_current_def by (intro keeps_rules keeps_inspect)

lemma staging_sync: "keeps (staging lib network enc) (syncDir Stage)"
  by (rule keeps_syncDir [OF stable_staging])

lemma keeps_prepareDisposable: "keeps (staging lib network enc) (prepareDisposable lib cfg)"
  unfolding prepareDisposable_def prepareAuthority_def planned_data_def
  by (intro keeps_rules absent_keeps staging_install staging_sync) simp_all

lemma keeps_unlock: "keeps (staging lib network enc) (unlock_keys lib a password names)"
  by (induction names) (auto intro!: keeps_rules staging_install simp: encryptedKeyName_def)

lemma keeps_publish_allocation: "keeps (staging lib network enc) (publish_allocation lib a data password)"
  unfolding publish_allocation_def Let_def
  by (intro keeps_rules staging_install staging_sync keeps_unlock) simp_all

lemma keeps_prepareEncrypted: "keeps (staging lib network enc) (prepareEncrypted lib cfg)"
  unfolding prepareEncrypted_def resume_allocation_def begin_allocation_def Let_def
  by (intro keeps_rules read_either_keeps keeps_inspect_current keeps_require keeps_password absent_keeps keeps_publish_allocation)

lemma keeps_retire_remove: "keeps (staging lib network enc) (remove Stage name)"
  unfolding remove_def
  by (rule triple_call) (auto intro!: staging_update simp: finals_synced_def entry_def split: option.split if_splits)

text \<open>After its last synchronisation the stage is settled.\<close>

definition staged :: "init_lib \<Rightarrow> string \<Rightarrow> bool \<Rightarrow> dirs \<Rightarrow> bool" where
  "staged lib network enc ds \<longleftrightarrow> staging lib network enc ds \<and> settled_dir (ds Stage)"

lemma sync_settles: "triple (staging lib network enc) (syncDir Stage) (\<lambda>u. staged lib network enc) (staging lib network enc)"
proof -
  have "staging lib network enc (ds(Stage := sync_entries ''.'' (ds Stage)))" if "staging lib network enc ds" for ds
    using stable_sync [OF stable_staging that] .
  then show ?thesis
    unfolding syncDir_def sync_sub_def by (intro triple_call) (auto simp: staged_def settled_dir_def)
qed

lemma complete_stage_triple:
  "triple (staging lib network enc) (complete_stage lib e) (\<lambda>u. staged lib network enc) (staging lib network enc)"
proof -
  let ?J = "staging lib network enc" and ?Q = "\<lambda>u. staged lib network enc"
  have weaken: "staged lib network enc ds \<Longrightarrow> ?J ds" for ds by (simp add: staged_def)
  have retire: "triple ?J (retire_allocation lib) ?Q ?J"
    unfolding retire_allocation_def
    by (rule triple_andthen [OF keeps_trying [OF keeps_retire_remove]], rule triple_andthen [OF _ sync_settles])
       (intro keeps_rules)
  have clean: "triple ?J (cleanPending Stage names) ?Q ?J" for names
    unfolding cleanPending_def
    by (rule triple_andthen [OF _ sync_settles]) (intro keeps_rules keeps_drop_temp stable_staging is_pending_name)
  have last: "triple ?J (andthen (cleanPending Stage names) (\<lambda>u. if e then retire_allocation lib else ret ())) ?Q ?J" for names
  proof (cases e)
    case True
    then show ?thesis by simp (rule triple_andthen [OF triple_post [OF clean] retire], rule weaken)
  next
    case False
    then show ?thesis by simp (rule triple_andthen [OF clean], blast)
  qed
  show ?thesis
    unfolding complete_stage_def
    by (rule triple_andthen [OF keeps_verify], simp only: case_prod_unfold,
        rule triple_andthen [OF staging_install], simp, rule triple_andthen [OF _ last])
       (intro keeps_rules keeps_readPublic keeps_status keeps_require)
qed

section \<open>Home and promotion\<close>

lemma slot_inv_sync_home: "slot_inv lib network enc ds \<Longrightarrow> slot_inv lib network enc (ds(Home := sync_entries ''.'' (ds Home)))"
  by (simp add: slot_inv_def)

lemma keeps_sync_home: "keeps (slot_inv lib network enc) (syncDir Home)"
  unfolding syncDir_def sync_sub_def by (rule triple_call) (auto intro: slot_inv_sync_home)

lemma staging_sync_home: "keeps (staging lib network enc) (syncDir Home)"
  unfolding syncDir_def sync_sub_def staging_def by (rule triple_call) (auto intro: slot_inv_sync_home)

lemma staging_mkdir: "keeps (staging lib network enc) (mkdir Stage)"
  unfolding mkdir_def
  by (rule triple_call) (auto intro!: staging_update simp: finals_synced_def entry_def)

lemma slot_inv_promoted:
  assumes "staged lib network enc ds" "inspected lib enc (ds Stage)" "dr_made (ds Stage)"
  shows "slot_inv lib network enc (promoted network ds)"
  using assms by (auto simp: staged_def staging_def slot_inv_def promoted_def no_directory_def finals_synced_def entry_def)

definition visible :: "init_lib \<Rightarrow> string \<Rightarrow> bool \<Rightarrow> dirs \<Rightarrow> bool" where
  "visible lib network enc ds \<longleftrightarrow> slot_inv lib network enc ds \<and> dr_made (ds Authority)"

definition committed :: "init_lib \<Rightarrow> string \<Rightarrow> bool \<Rightarrow> dirs \<Rightarrow> bool" where
  "committed lib network enc ds \<longleftrightarrow> slot_inv lib network enc ds \<and> gm_lookup (dr_disk (ds Home)) network \<noteq> None"

lemma promote_triple:
  "triple (\<lambda>ds. staged lib network enc ds \<and> inspected lib enc (ds Stage)) (promote network) (\<lambda>u. visible lib network enc) (slot_inv lib network enc)"
proof (rule tripleI)
  fix w :: world assume w: "staged lib network enc (w_dirs w) \<and> inspected lib enc (w_dirs w Stage)"
  then have "slot_inv lib network enc (w_dirs w)" by (simp add: staged_def staging_def)
  moreover have "dr_made (w_dirs w Stage) \<Longrightarrow> visible lib network enc (promoted network (w_dirs w))"
    using slot_inv_promoted w by (simp add: visible_def) (simp add: promoted_def)
  ultimately show "case promote network w of (Val x, w') \<Rightarrow> visible lib network enc (w_dirs w') | (Err e, w') \<Rightarrow> slot_inv lib network enc (w_dirs w')
      | (Died, w') \<Rightarrow> slot_inv lib network enc (w_dirs w')"
    by (auto simp: promote_def Let_def split: list.split fault.split)
qed

text \<open>The names of networks have no directory part, so their entries are durable when the home is synchronised.\<close>

lemma networkID_plain: "networkID network \<Longrightarrow> dir_of network = ''.''"
proof (rule dir_of_plain)
  have "\<not> ident_char (CHR ''/'')" by code_simp
  moreover assume "networkID network"
  then have "list_all ident_char network" by (cases network) (auto simp: networkID_def ident_char_def list_all_iff)
  ultimately show "CHR ''/'' \<notin> set network" by (auto simp: list_all_iff)
qed

lemma home_commits:
  assumes "networkID network"
  shows "triple (visible lib network enc) (syncDir Home) (\<lambda>u. committed lib network enc) (slot_inv lib network enc)"
  unfolding syncDir_def sync_sub_def
  by (rule triple_call)
     (auto simp: visible_def committed_def slot_inv_sync_home networkID_plain [OF assms], auto simp: slot_inv_def)

text \<open>What a successful inspection shows of the stage.\<close>

lemma triple_inspect:
  "triple P (inspect_current lib s now)
     (\<lambda>r ds. P ds \<and> ((enc \<longrightarrow> (\<forall>n \<in> set keyNames. usable (gm_get (ir_key_files r) n))) \<longrightarrow> inspected lib enc (ds s))) P"
proof (rule tripleI)
  fix w :: world assume P: "P (w_dirs w)"
  obtain q w1 where q: "inspect_current lib s now w = (q, w1)" by force
  have "P (w_dirs w1)" using keeps_snd [OF keeps_inspect_current [of P lib s now] P] q by simp
  moreover have "inspected lib enc (w_dirs w1 s)" if r: "q = Val r" and e: "enc \<longrightarrow> (\<forall>n \<in> set keyNames. usable (gm_get (ir_key_files r) n))" for r
  proof -
    obtain w2 where w2: "inspect_authority lib s now w = (Val r, w2)"
      using q r unfolding inspect_current_def by (auto simp: guard_def ret_def throw_def dest!: andthen_Val split: if_splits)
    have "w_dirs w1 = w_dirs w" using keeps_snd [OF keeps_inspect_current [of "\<lambda>ds. ds = w_dirs w" lib s now], of w] q by simp
    then show ?thesis unfolding inspected_def using w2 e by metis
  qed
  ultimately show "case inspect_current lib s now w of
      (Val r, w') \<Rightarrow> P (w_dirs w') \<and> ((enc \<longrightarrow> (\<forall>n \<in> set keyNames. usable (gm_get (ir_key_files r) n))) \<longrightarrow> inspected lib enc (w_dirs w' s))
      | (Err e, w') \<Rightarrow> P (w_dirs w') | (Died, w') \<Rightarrow> P (w_dirs w')"
    using q by (auto split: outcome.split)
qed

lemma subdir_triple:
  assumes "\<And>ds. P ds \<Longrightarrow> X ds"
  shows "triple P (trying (subdir s)) (\<lambda>r ds. P ds \<and> (case r of Inl e \<Rightarrow> e = ENotExist \<longrightarrow> \<not> dr_made (ds s) | Inr u \<Rightarrow> dr_made (ds s))) X"
  by (rule tripleI)
     (use assms in \<open>auto simp: trying_def subdir_def call_def syscall_def dir_step_def Let_def fun_upd_idem
        split: list.split fault.split prod.splits outcome.splits if_splits\<close>)

lemma require_triple:
  assumes "\<And>ds. P ds \<Longrightarrow> X ds"
  shows "triple (\<lambda>ds. P ds \<and> ((e \<longrightarrow> (\<forall>n \<in> set keyNames. usable (gm_get files n))) \<longrightarrow> Q ds))
     (if e then requireKeyFiles files else ret ()) (\<lambda>u ds. P ds \<and> Q ds) X"
  by (rule triple_if)
     (auto simp: requireKeyFiles_def list_all_iff usable_def assms intro!: triple_guard triple_ret)

lemma keeps_existing:
  assumes "keeps J (syncDir Home)"
  shows "keeps J (existing_authority lib cfg)"
  unfolding existing_authority_def by (intro keeps_rules keeps_inspect_current keeps_require assms)

lemma keeps_reject: "keeps J (rejectOrphanedOperationalState network)"
  unfolding rejectOrphanedOperationalState_def by (rule absent_keeps)

lemma existing_triple:
  assumes "networkID network"
  shows "triple (visible lib network enc) (existing_authority lib cfg) (\<lambda>r. committed lib network enc) (slot_inv lib network enc)"
proof -
  have V: "triple (visible lib network enc) (andthen m k) (\<lambda>r. committed lib network enc) (slot_inv lib network enc)"
    if m: "keeps (visible lib network enc) m" and k: "\<And>x. triple (visible lib network enc) (k x) (\<lambda>r. committed lib network enc) (slot_inv lib network enc)"
    for m :: "'a op" and k :: "'a \<Rightarrow> 'b op"
    by (rule triple_andthen [OF triple_conseq [OF m] k]) (auto simp: visible_def)
  show ?thesis unfolding existing_authority_def
    by (intro V triple_andthen [OF home_commits [OF assms]] triple_ret keeps_inspect_current keeps_guard keeps_if keeps_ret keeps_require)
qed

lemma stage_authority_triple:
  assumes e: "io_encrypted cfg = enc" and n: "io_network cfg = network" "networkID network"
  shows "triple (staging lib network enc) (stage_authority lib cfg) (\<lambda>r. committed lib network enc) (slot_inv lib network enc)"
proof -
  let ?J = "slot_inv lib network enc" and ?S = "staging lib network enc" and ?T = "staged lib network enc" and ?C = "\<lambda>r. committed lib network enc"
  have T: "?T ds \<Longrightarrow> ?J ds" for ds by (simp add: staged_def staging_def)
  have keep: "triple ?S (andthen m k) ?C ?J" if m: "keeps ?S m" and k: "\<And>x. triple ?S (k x) ?C ?J" for m :: "'a op" and k :: "'a \<Rightarrow> 'b op"
    by (rule triple_andthen [OF triple_conseq [OF m] k]) (auto simp: staging_def)
  have finish: "triple ?T (andthen (inspect_current lib Stage now) (\<lambda>report.
      andthen (if enc then requireKeyFiles (ir_key_files report) else ret ()) (\<lambda>u.
      andthen (promote network) (\<lambda>u. andthen (syncDir Home) (\<lambda>u. ret report))))) ?C ?J" for now
    by (rule triple_andthen [OF triple_conseq [OF triple_inspect [where P = ?T and enc = enc]]], assumption, assumption, erule T,
        rule triple_andthen [OF require_triple], erule T, rule triple_andthen [OF promote_triple], rule triple_andthen [OF home_commits [OF n(2)]])
       blast
  have complete: "triple ?S (andthen (complete_stage lib enc) k) ?C ?J" if "\<And>x. triple ?T (k x) ?C ?J" for k :: "unit \<Rightarrow> 'b op"
    by (rule triple_andthen [OF triple_conseq [OF complete_stage_triple] that]) (auto simp: staging_def)
  show ?thesis
    unfolding stage_authority_def e n(1)
    by (intro keep complete finish keeps_reject staging_mkdir staging_sync_home keeps_subdir keeps_checkEntries
        keeps_if keeps_prepareEncrypted keeps_prepareDisposable)
qed

lemma initialize_triple:
  assumes enc: "(io_encrypted opts \<or> \<not> io_disposable opts) = enc" and n: "io_network opts = network"
  shows "triple (slot_inv lib network enc) (initialize lib opts) (\<lambda>r. committed lib network enc) (slot_inv lib network enc)"
proof (cases "networkID network")
  case True
  show ?thesis unfolding initialize_def Let_def
  proof (rule triple_andthen [OF keeps_guard], rule triple_andthen [OF keeps_opt], rule triple_andthen [OF subdir_triple], assumption)
    fix repository and slot :: "omega_error + unit"
    let ?J = "slot_inv lib network enc" and ?C = "\<lambda>r. committed lib network enc"
      and ?cfg = "opts\<lparr>io_encrypted := io_encrypted opts \<or> \<not> io_disposable opts, io_repository := repository\<rparr>"
    have new: "triple (staging lib network enc) (stage_authority lib ?cfg) ?C ?J"
      by (rule stage_authority_triple) (use enc n True in simp_all)
    show "triple (\<lambda>ds. ?J ds \<and> (case slot of Inl e \<Rightarrow> e = ENotExist \<longrightarrow> \<not> dr_made (ds Authority) | Inr u \<Rightarrow> dr_made (ds Authority)))
       (case slot of Inl e \<Rightarrow> andthen (guard (e = ENotExist) e) (\<lambda>u. stage_authority lib ?cfg) | Inr u \<Rightarrow> existing_authority lib ?cfg) ?C ?J"
    proof (cases slot)
      case (Inl e)
      then show ?thesis by (auto intro!: triple_andthen [OF triple_guard new] simp: staging_def)
    next
      case (Inr u)
      then show ?thesis using existing_triple [OF True] by (auto simp: visible_def [abs_def])
    qed
  qed
next
  case False
  show ?thesis by (rule tripleI) (simp add: initialize_def n False guard_def throw_def andthen_def)
qed

text \<open>Once the slot is durable its files stay.\<close>

definition committed_files :: "init_lib \<Rightarrow> string \<Rightarrow> bool \<Rightarrow> directory \<Rightarrow> dirs \<Rightarrow> bool" where
  "committed_files lib network enc d ds \<longleftrightarrow> committed lib network enc ds \<and> same_files d (ds Authority)"

lemma committed_made: "committed_files lib network enc d ds \<Longrightarrow> dr_made (ds Authority)"
  by (simp add: committed_files_def committed_def slot_inv_def)

lemma committed_sync_home: "keeps (committed_files lib network enc d) (syncDir Home)"
  unfolding syncDir_def sync_sub_def
  by (rule triple_call) (auto simp: committed_files_def committed_def slot_inv_def)

lemma initialize_committed: "keeps (committed_files lib network enc d) (initialize lib opts)"
  unfolding initialize_def Let_def
proof (rule keeps_andthen [OF keeps_guard], rule keeps_andthen [OF keeps_opt], rule triple_andthen [OF subdir_triple], assumption)
  fix repository and slot :: "omega_error + unit"
  let ?J = "committed_files lib network enc d" and ?cfg = "opts\<lparr>io_encrypted := io_encrypted opts \<or> \<not> io_disposable opts, io_repository := repository\<rparr>"
  have old: "keeps ?J (existing_authority lib ?cfg)" by (rule keeps_existing [OF committed_sync_home])
  have none: "triple (\<lambda>ds. False) (stage_authority lib ?cfg) (\<lambda>r. ?J) ?J" by (rule tripleI) simp
  show "triple (\<lambda>ds. ?J ds \<and> (case slot of Inl e \<Rightarrow> e = ENotExist \<longrightarrow> \<not> dr_made (ds Authority) | Inr u \<Rightarrow> dr_made (ds Authority)))
     (case slot of Inl e \<Rightarrow> andthen (guard (e = ENotExist) e) (\<lambda>u. stage_authority lib ?cfg) | Inr u \<Rightarrow> existing_authority lib ?cfg) (\<lambda>r. ?J) ?J"
  proof (cases slot)
    case (Inl e)
    then show ?thesis by (auto intro!: triple_andthen [OF triple_guard none] dest: committed_made)
  next
    case (Inr u)
    show ?thesis unfolding Inr sum.case by (rule triple_pre [OF old]) simp
  qed
qed

section \<open>Power losses\<close>

lemma loss_finals: "dir_loss d d' \<Longrightarrow> finals_synced d'"
  unfolding dir_loss_def finals_synced_def entry_def survives_def by (metis (mono_tags, lifting) option.simps(5))

lemma loss_settled:
  assumes "dir_loss d d'" "settled_dir d" "\<And>n. dir_of n = ''.'' \<Longrightarrow> gm_lookup (dr_live d) n \<noteq> None \<Longrightarrow> \<not> is_pending n" "finals_synced d"
  shows "same_files d d'"
  unfolding same_files_def
proof (intro allI impI)
  fix n assume n: "dir_of n = ''.''"
  have s: "survives (gm_lookup (dr_live d) n) (gm_lookup (dr_live d) n) (gm_lookup (dr_live d') n)"
    using assms(1,2) n unfolding dir_loss_def settled_dir_def by metis
  show "gm_lookup (dr_live d) n = gm_lookup (dr_live d') n"
  proof (cases "gm_lookup (dr_live d) n")
    case None
    then show ?thesis using s by (auto simp: survives_def split: option.splits)
  next
    case (Some g)
    then have "fl_synced g" using assms(3) [OF n] assms(4) unfolding finals_synced_def entry_def by auto
    then show ?thesis using s Some by (auto simp: survives_def split: option.splits)
  qed
qed

lemma slot_inv_demoted:
  assumes "slot_inv lib network enc ds" "gm_lookup (dr_disk (ds Home)) network = None"
  shows "slot_inv lib network enc (demoted network ds)"
  using assms by (auto simp: slot_inv_def demoted_def no_directory_def finals_synced_def entry_def)

lemma slot_inv_loss:
  assumes J: "slot_inv lib network enc ds" and l: "power_loss ds ds'" "dr_made (ds' Authority) = dr_made (ds Authority)"
    "gm_lookup (dr_live (ds' Home)) network = gm_lookup (dr_live (ds Home)) network"
  shows "slot_inv lib network enc ds'" "dr_made (ds Authority) \<Longrightarrow> same_files (ds Authority) (ds' Authority)"
proof -
  have d: "dir_loss (ds s) (ds' s)" for s using l(1) by (simp add: power_loss_def)
  show same: "same_files (ds Authority) (ds' Authority)" if "dr_made (ds Authority)"
    using loss_settled [OF d, of Authority] J that inspected_pending unfolding slot_inv_def by metis
  have disk: "dr_disk (ds' s) = dr_live (ds' s)" for s using d [of s] by (simp add: dir_loss_def)
  show "slot_inv lib network enc ds'"
    using J l(2,3) loss_finals [OF d] inspected_same [OF _ same] unfolding slot_inv_def settled_dir_def by (simp add: disk)
qed

section \<open>Properties\<close>

text \<open>Initializations of one network and power losses, in any order.\<close>

inductive init_step :: "init_lib \<Rightarrow> string \<Rightarrow> bool \<Rightarrow> dirs \<Rightarrow> dirs \<Rightarrow> bool" for lib :: init_lib and network :: string and enc :: bool where
  init_run: "io_network opts = network \<Longrightarrow> (io_encrypted opts \<or> \<not> io_disposable opts) = enc \<Longrightarrow>
     init_step lib network enc ds (w_dirs (snd (initialize lib opts \<lparr>w_dirs = ds, w_faults = fs\<rparr>)))"
| init_loss: "slot_loss network ds ds' \<Longrightarrow> init_step lib network enc ds ds'"

definition uninitialized :: "string \<Rightarrow> dirs \<Rightarrow> bool" where
  "uninitialized network ds \<longleftrightarrow>
     \<not> dr_made (ds Authority) \<and> (\<forall>n f. \<not> entry (ds Stage) n f \<and> \<not> entry (ds Authority) n f) \<and> (\<forall>f. \<not> entry (ds Home) network f)"

lemma uninitialized_inv: "uninitialized network ds \<Longrightarrow> slot_inv lib network enc ds"
  by (auto simp: uninitialized_def slot_inv_def finals_synced_def entry_def)

lemma init_step_inv: "init_step lib network enc ds ds' \<Longrightarrow> slot_inv lib network enc ds \<Longrightarrow> slot_inv lib network enc ds'"
proof (induction rule: init_step.induct)
  case (init_run opts ds fs)
  then show ?case
    using tripleD [OF initialize_triple [OF init_run(2,1), of lib], of "\<lparr>w_dirs = ds, w_faults = fs\<rparr>"]
    by (auto simp: committed_def split: prod.splits outcome.splits)
next
  case (init_loss ds ds')
  then show ?case unfolding slot_loss_def using slot_inv_loss(1) slot_inv_demoted by metis
qed

lemma init_steps_inv: "(init_step lib network enc)\<^sup>*\<^sup>* ds ds' \<Longrightarrow> slot_inv lib network enc ds \<Longrightarrow> slot_inv lib network enc ds'"
  by (induction rule: rtranclp_induct) (auto intro: init_step_inv)

lemma same_files_trans: "same_files a b \<Longrightarrow> same_files b c \<Longrightarrow> same_files a c"
  by (simp add: same_files_def)

lemma init_step_committed: "init_step lib network enc ds ds' \<Longrightarrow> committed_files lib network enc d ds \<Longrightarrow> committed_files lib network enc d ds'"
proof (induction rule: init_step.induct)
  case (init_run opts ds fs)
  then show ?case using keeps_snd [OF initialize_committed [of lib network enc d opts], of "\<lparr>w_dirs = ds, w_faults = fs\<rparr>"] by simp
next
  case (init_loss ds ds')
  then have J: "slot_inv lib network enc ds" "gm_lookup (dr_disk (ds Home)) network \<noteq> None" "same_files d (ds Authority)"
    by (simp_all add: committed_files_def committed_def)
  have l: "power_loss ds ds'" "dr_made (ds' Authority) = dr_made (ds Authority)"
    "gm_lookup (dr_live (ds' Home)) network = gm_lookup (dr_live (ds Home)) network"
    using init_loss(1) J(2) unfolding slot_loss_def by auto
  have made: "dr_made (ds Authority)" "gm_lookup (dr_live (ds Home)) network \<noteq> None" using J by (simp_all add: slot_inv_def)
  have "dr_disk (ds' Home) = dr_live (ds' Home)" using l(1) by (simp add: power_loss_def dir_loss_def)
  then show ?case
    using slot_inv_loss [OF J(1) l] same_files_trans [OF J(3)] l(3) made by (simp add: committed_files_def committed_def)
qed

lemma init_steps_committed: "(init_step lib network enc)\<^sup>*\<^sup>* ds ds' \<Longrightarrow> committed_files lib network enc d ds \<Longrightarrow> committed_files lib network enc d ds'"
  by (induction rule: rtranclp_induct) (auto intro: init_step_committed)

text \<open>
  C18. A visible authority is complete: at any time, after any failures and power losses, a slot that exists passes inspection,
  with its receipt, and with encrypted custody all its key files are there and intact.
\<close>

theorem authority_complete:
  assumes "uninitialized network ds0" "(init_step lib network enc)\<^sup>*\<^sup>* ds0 ds" "dr_made (ds Authority)"
  shows "\<exists>report. inspect_authority lib Authority now \<lparr>w_dirs = ds, w_faults = []\<rparr> = (Val report, \<lparr>w_dirs = ds, w_faults = []\<rparr>) \<and>
    (enc \<longrightarrow> (\<forall>n \<in> set keyNames. List.member [''locked'', ''verified''] (gm_get (ir_key_files report) n)))"
proof -
  have "inspected lib enc (ds Authority)"
    using init_steps_inv [OF assms(2) uninitialized_inv [OF assms(1)]] assms(3) by (simp add: slot_inv_def)
  then show ?thesis by (rule inspected_reads [where now = now]) (auto simp: usable_def)
qed


end
