(* ===== verification/Omega_Authority_Demo.thy ===== *)
theory Omega_Authority_Demo
  imports Omega_Authority_Facts Omega_Demo
begin

text \<open>
  A network whose disposable authority is initialized without faults, with six keys of repeated bytes: the theorems of
  \<open>Omega_Authority_Facts\<close> at a concrete input.
\<close>

definition demo_drawn :: "(string, string) gomap" where
  "demo_drawn = map (\<lambda>(n, c). (n, b64_encode (replicate 64 c))) (zip keyNames ''abcdef'')"

definition demo_options :: init_options where
  "demo_options = \<lparr>io_network = ''n'', io_repository = ''https://r'', io_disposable = True, io_encrypted = False, io_passphrase = None,
     io_now = demo_now, io_drawn = demo_drawn, io_salts = [], io_transaction = []\<rparr>"

definition demo_public :: "char \<Rightarrow> tuf_key" where
  "demo_public c = \<lparr>tk_ed25519 = True, tk_parses = True, tk_public = replicate 32 c\<rparr>"

definition demo_first_root :: root_meta where
  "demo_first_root = \<lparr>rm_version = 1, rm_expires = demo_now + rootLifetime,
     rm_roles = [(''root'', \<lparr>tr_threshold = 2, tr_keyids = [''a'', ''b'', ''c'']\<rparr>), (''targets'', \<lparr>tr_threshold = 1, tr_keyids = [''d'']\<rparr>),
       (''snapshot'', \<lparr>tr_threshold = 1, tr_keyids = [''e'']\<rparr>), (''timestamp'', \<lparr>tr_threshold = 1, tr_keyids = [''f'']\<rparr>)],
     rm_keys = map (\<lambda>c. ([c], demo_public c)) ''abcdef'', rm_policy = []\<rparr>"

definition demo_tuf :: tuf_root where
  "demo_tuf = \<lparr>tr_version = 1, tr_expires_set = True, tr_consistent = True, tr_roles = rm_roles demo_first_root, tr_keys = rm_keys demo_first_root\<rparr>"

definition demo_authority :: authority_record where "demo_authority = new_authority demo_options"

definition demo_receipt :: completion where
  "demo_receipt = \<lparr>co_schema = 1, co_fingerprint = ''f'', co_files = []\<rparr>"

definition demo_init :: init_lib where
  "demo_init = journal_lib.extend
     (demo_lib\<lparr>lib_root := (\<lambda>_. Some demo_tuf), ol_parse_root := (\<lambda>_. Some demo_first_root), jl_from_seed := (\<lambda>s. s @ s),
        jl_key := (\<lambda>raw. Some \<lparr>tk_ed25519 = True, tk_parses = True, tk_public = raw\<rparr>), jl_add_key := (\<lambda>_ _ r. Some r), jl_sign_root := (\<lambda>_ _. Some ''root''),
        jl_authority := ((\<lambda>v. ''A''), (\<lambda>d. if d = ''A'' then Some demo_authority else None))\<rparr>)
     (init_lib.fields no_codec ((\<lambda>v. ''C''), (\<lambda>d. if d = ''C'' then Some demo_receipt else None))
        ((\<lambda>v. ''B''), (\<lambda>d. if d = ''B'' then Some demo_bundle else None)) (\<lambda>t. demo_first_root))"

section \<open>Pure parts\<close>

lemma demo_location: "ValidateLocation ''n'' ''https://r'' = Some ''https://r''" by code_simp

lemma demo_fields:
  "jl_from_seed (jl demo_init) = (\<lambda>s. s @ s)" "jl_from_seed demo_init = (\<lambda>s. s @ s)"
  "jl_key demo_init = (\<lambda>raw. Some \<lparr>tk_ed25519 = True, tk_parses = True, tk_public = raw\<rparr>)"
  "jl_add_key demo_init = (\<lambda>_ _ r. Some r)" "jl_sign_root demo_init = (\<lambda>_ _. Some ''root'')"
  "ol_parse_root demo_init = (\<lambda>_. Some demo_first_root)" "il_fresh_root demo_init = (\<lambda>t. demo_first_root)" "jl_schema demo_init = (\<lambda>d. 1)"
  "jl_authority demo_init = ((\<lambda>v. ''A''), (\<lambda>d. if d = ''A'' then Some demo_authority else None))"
  "il_completion demo_init = ((\<lambda>v. ''C''), (\<lambda>d. if d = ''C'' then Some demo_receipt else None))"
  "il_bundle demo_init = ((\<lambda>v. ''B''), (\<lambda>d. if d = ''B'' then Some demo_bundle else None))"
  by (simp_all add: demo_init_def journal_lib.defs init_lib.defs demo_lib_def)

text \<open>The names with their repeated bytes.\<close>

definition demo_bytes :: "(string \<times> char) list" where
  "demo_bytes = zip keyNames ''abcdef''"

lemma demo_drawn_key: "(n, c) \<in> set demo_bytes \<Longrightarrow> gm_get (au_keys demo_authority) n = b64_encode (replicate 64 c)"
  by (auto simp: demo_bytes_def keyNames_def demo_authority_def new_authority_def demo_options_def demo_drawn_def gm_get_def gm_lookup_Cons)

lemma demo_decoded: "(n, c) \<in> set demo_bytes \<Longrightarrow> decodeKey (jl demo_init) (gm_get (au_keys demo_authority) n) = Some (replicate 64 c)"
  by (simp add: demo_drawn_key decodeKey_def b64_round_trip demo_fields replicate_add [symmetric])

lemma demo_half: "(n, c) \<in> set demo_bytes \<Longrightarrow> public_half demo_init (gm_get (au_keys demo_authority) n) = b64_encode (replicate 32 c)"
  by (simp add: public_half_def demo_decoded)

lemma demo_names: "(''root-1'', CHR ''a'') \<in> set demo_bytes" "(''root-2'', CHR ''b'') \<in> set demo_bytes" "(''root-3'', CHR ''c'') \<in> set demo_bytes"
  "(''targets'', CHR ''d'') \<in> set demo_bytes" "(''snapshot'', CHR ''e'') \<in> set demo_bytes" "(''timestamp'', CHR ''f'') \<in> set demo_bytes"
  by (simp_all add: demo_bytes_def keyNames_def)

lemmas demo_key_simps = demo_names [THEN demo_decoded] demo_names [THEN demo_half]

lemma demo_public_key: "decodePublicKey (b64_encode (replicate 32 c)) = Some (replicate 32 c)"
  by (simp add: decodePublicKey_def b64_round_trip)

lemma demo_publics: "(n, c) \<in> set demo_bytes \<Longrightarrow> gm_get (public_keys demo_init demo_authority) n = b64_encode (replicate 32 c)"
proof -
  have "gm_lookup (map (\<lambda>n. (n, f n)) ns) n = Some (f n)" if "n \<in> set ns" for ns f
    using that by (induction ns) (auto simp: gm_lookup_Cons)
  moreover assume c: "(n, c) \<in> set demo_bytes"
  then have "n \<in> set keyNames" unfolding demo_bytes_def by (rule set_zip_leftD)
  ultimately have "gm_lookup (public_keys demo_init demo_authority) n = Some (public_half demo_init (gm_get (au_keys demo_authority) n))"
    by (simp add: public_keys_def)
  then show ?thesis unfolding gm_get_def [of "public_keys demo_init demo_authority"] by (simp add: demo_half [OF c])
qed

lemma demo_ok: "authority_ok demo_init demo_authority"
proof -
  have keys: "gm_keys (au_keys demo_authority) = keyNames" by (simp add: demo_authority_def new_authority_def gm_keys_def comp_def)
  have "ValidateLocation (au_network demo_authority) (au_repository demo_authority) = Some (au_repository demo_authority)"
    "au_schema demo_authority = 1" "au_mode demo_authority = ''disposable''" "au_expires demo_authority = au_created demo_authority + rootLifetime"
    by (simp_all add: demo_authority_def new_authority_def demo_options_def demo_location)
  moreover have "networkID (au_network demo_authority)" "au_created demo_authority \<noteq> no_time"
    by (simp_all add: demo_authority_def new_authority_def demo_options_def demo_now_def no_time_def networkID_def is_alpha_def)
  moreover have "gm_size (au_keys demo_authority) = length keyNames" by (simp add: gm_size_def keys keyNames_def)
  moreover have "distinct_keys (map (\<lambda>n. map_option (drop 32) (decodeKey (jl demo_init) (gm_get (au_keys demo_authority) n))) keyNames)"
    by (simp add: keyNames_def demo_key_simps)
  ultimately show ?thesis unfolding authority_ok_def by blast
qed

lemma demo_valid: "Validate (tuf_root_lib.truncate demo_init) demo_bundle"
proof -
  have "tuf_root_lib.truncate demo_init = \<lparr>lib_root = (\<lambda>_. Some demo_tuf), lib_normal = Some, lib_trusted = (\<lambda>_. True),
     lib_sha256 = (\<lambda>d. if d = ''root'' then ''f'' else Itoa (int (length d)))\<rparr>"
    by (simp add: demo_init_def journal_lib.defs init_lib.defs demo_lib_def tuf_root_lib.defs)
  moreover have "list_all (role_ok demo_tuf) top_level_roles"
    by (simp add: top_level_roles_def role_ok_def key_ok_def demo_tuf_def demo_first_root_def demo_public_def gm_lookup_Cons)
  ultimately show ?thesis
    by (simp add: Validate_def validateRoot_def demo_bundle_def demo_location metadataLimit_def) (simp add: demo_tuf_def)
qed

lemma demo_bundle_parsed: "parse_bundle demo_init ''B'' = Some demo_bundle"
  by (simp add: parse_bundle_def ParseBundle_def demo_fields demo_valid)

lemma demo_outputs: "buildOutputs demo_init demo_authority = Some (''root'', ''B'')"
proof -
  have "add_keys demo_init (public_keys demo_init demo_authority) keyNames r = Some r" for r
    by (simp add: keyNames_def demo_names [THEN demo_publics] demo_public_key demo_fields)
  then show ?thesis
    by (simp add: buildOutputs_def demo_ok buildPublicOutputs_def demo_fields record_of_def demo_bundle_parsed)
qed

lemma demo_verified: "verifyAuthorityRoot demo_init demo_authority demo_bundle ''root''"
proof -
  have "list_all (role_verified demo_init (public_keys demo_init demo_authority) demo_first_root) top_level_roles"
    by (simp add: top_level_roles_def role_verified_def role_keys_def root_key_names_def demo_names [THEN demo_publics] demo_public_key demo_fields
        demo_first_root_def demo_public_def gm_lookup_Cons ed25519_key_def)
  moreover have "gm_size (rm_keys demo_first_root) = 6" "gm_size (rm_roles demo_first_root) = 4"
    by (simp_all add: demo_first_root_def gm_size_def gm_keys_def)
  ultimately show ?thesis
    by (simp add: verifyAuthorityRoot_def verifyPublicRoot_def keyNames_def demo_key_simps demo_fields)
       (simp add: demo_authority_def new_authority_def demo_options_def demo_bundle_def demo_first_root_def)
qed

section \<open>The run\<close>

text \<open>A world without faults in which only the stage exists.\<close>

definition quiet_stage :: "directory \<Rightarrow> world" where
  "quiet_stage d = \<lparr>w_dirs = (\<lambda>s. no_directory)(Stage := d), w_faults = []\<rparr>"

definition stored :: "bytes \<Rightarrow> fnode" where
  "stored data = \<lparr>fl_data = data, fl_safe = True, fl_synced = True\<rparr>"

definition small :: "bytes \<Rightarrow> bool" where "small data \<longleftrightarrow> length data \<le> maxRecord"

lemma call_stage: "call f Stage (quiet_stage d) = (let (r, d') = f d in (r, quiet_stage d'))"
  by (simp add: call_def syscall_def dir_step_def quiet_stage_def split: prod.split)

lemma call_home: "f no_directory = (r, no_directory) \<Longrightarrow> s \<noteq> Stage \<Longrightarrow> call f s (quiet_stage d) = (r, quiet_stage d)"
  by (simp add: call_def syscall_def dir_step_def quiet_stage_def fun_upd_idem)

lemma read_stage: "gm_lookup (dr_live d) n = Some (stored data) \<Longrightarrow> small data \<Longrightarrow> read Stage n (quiet_stage d) = (Val data, quiet_stage d)"
  by (simp add: read_def call_stage read_file_def stored_def small_def)

lemma read_stage_absent: "gm_lookup (dr_live d) n = None \<Longrightarrow> read Stage n (quiet_stage d) = (Err ENotExist, quiet_stage d)"
  by (simp add: read_def call_stage read_file_def)

lemma syncDir_stage: "syncDir Stage (quiet_stage d) = (Val (), quiet_stage (sync_entries ''.'' d))"
  by (simp add: syncDir_def sync_sub_def call_stage)

lemma syncDir_home: "syncDir Home (quiet_stage d) = (Val (), quiet_stage d)"
  unfolding syncDir_def sync_sub_def by (rule call_home) (simp_all add: no_directory_def sync_entries_def)

text \<open>The directory after an installation.\<close>

definition installed :: "string \<Rightarrow> bytes \<Rightarrow> directory \<Rightarrow> directory" where
  "installed n data d =
     (let p = pending_name n; d1 = d\<lparr>dr_live := gm_update n (stored data) (gm_update p (stored data) (dr_live d))\<rparr>; d2 = sync_entries ''.'' d1
      in sync_entries ''.'' (d2\<lparr>dr_live := gm_delete p (dr_live d2)\<rparr>))"

lemma pending_neq [simp]: "pending_name n \<noteq> n" "n \<noteq> pending_name n"
  by (simp_all add: pending_name_def)

lemma installed_lookup [simp]:
  "gm_lookup (dr_live (installed n data d)) m = (if m = n then Some (stored data) else if m = pending_name n then None else gm_lookup (dr_live d) m)"
  by (simp add: installed_def Let_def)

lemma installed_made [simp]: "dr_made (installed n data d) = dr_made d"
  by (simp add: installed_def Let_def sync_entries_def)

lemma gm_update_twice: "gm_update n f (gm_update n g m) = gm_update n f m"
  unfolding gm_update_def by (induction m) auto

lemma try_read_none: "gm_lookup (dr_live d) n = None \<Longrightarrow> try_read Stage n (quiet_stage d) = (Val None, quiet_stage d)"
  by (simp add: try_read_result read_stage_absent)

lemma try_read_some: "gm_lookup (dr_live d) n = Some (stored data) \<Longrightarrow> small data \<Longrightarrow> try_read Stage n (quiet_stage d) = (Val (Some data), quiet_stage d)"
  by (simp add: try_read_result read_stage)

lemma write_stage: "write_data Stage n data (quiet_stage d) = (Val (), quiet_stage (put_data n data d))"
  by (simp add: write_data_def syscall_def dir_step_def quiet_stage_def)

lemma install_stage:
  assumes "gm_lookup (dr_live d) n = None" "gm_lookup (dr_live d) (pending_name n) = None"
  shows "install Stage n data (quiet_stage d) = (Val (), quiet_stage (installed n data d))"
  using assms
  by (simp add: install_def install_new_def write_temp_def try_read_none andthen_def ret_def
      create_def set_owner_def write_stage fsync_def link_def remove_def syncDir_stage call_stage call_def [symmetric] put_data_def sync_data_def
      installed_def Let_def stored_def gm_update_twice)


section \<open>Stages of the run\<close>

lemma demo_codecs:
  "decodeRecord (jl_authority demo_init) ''A'' = Some demo_authority" "record_of (jl_authority demo_init) a = ''A''"
  "decodeRecord (il_completion demo_init) ''C'' = Some demo_receipt" "record_of (il_completion demo_init) c = ''C''"
  by (simp_all add: decodeRecord_def record_of_def demo_fields)

lemma demo_schema: "jl_schema demo_init d = 1" "ol_parse_root demo_init d = Some demo_first_root"
  by (simp_all add: demo_fields)

definition demo_cfg :: init_options where "demo_cfg = demo_options\<lparr>io_repository := ''https://r''\<rparr>"

lemma demo_cfg_simps:
  "io_network demo_cfg = ''n''" "io_repository demo_cfg = ''https://r''" "\<not> io_encrypted demo_cfg" "io_disposable demo_cfg" "io_now demo_cfg = demo_now"
  by (simp_all add: demo_cfg_def demo_options_def)

lemma demo_same: "new_authority demo_cfg = demo_authority"
  by (simp add: demo_authority_def demo_cfg_def demo_options_def)

lemma demo_authority_simps: "au_network demo_authority = ''n''" "au_repository demo_authority = ''https://r''" "demo_now < au_expires demo_authority"
  by (simp_all add: demo_authority_def new_authority_def demo_options_def rootLifetime_def days_def hours_def nsec_def)

definition made :: directory where "made = no_directory\<lparr>dr_made := True\<rparr>"

lemma made_simps [simp]: "dr_made made" "dr_live made = []" "gm_lookup (dr_live made) n = None"
  by (simp_all add: made_def no_directory_def)

lemma absent_stage: "(\<And>n. n \<in> set names \<Longrightarrow> gm_lookup (dr_live d) n = None) \<Longrightarrow> absent Stage names e (quiet_stage d) = (Val (), quiet_stage d)"
  unfolding absent_def
  by (rule quiet_for_each) (simp add: lstat_def trying_def andthen_def guard_def ret_def call_stage)

lemma absent_home: "absent Home names e (quiet_stage d) = (Val (), quiet_stage d)"
  unfolding absent_def
proof (rule quiet_for_each)
  fix n
  have "lstat Home n (quiet_stage d) = (Val False, quiet_stage d)" unfolding lstat_def by (rule call_home) (simp_all add: no_directory_def)
  then show "andthen (trying (lstat Home n)) (\<lambda>r. guard (r = Inr False) e) (quiet_stage d) = (Val (), quiet_stage d)"
    by (simp add: trying_def andthen_def guard_def ret_def)
qed

definition demo_prepared :: directory where
  "demo_prepared = installed ''bundle.json'' ''B'' (installed ''1.root.json'' ''root'' (sync_entries ''.'' (installed ''authority.json'' ''A'' made)))"

lemma sync_live [simp]: "dr_live (sync_entries sub d) = dr_live d"
  by simp

lemma run_prepare: "prepareDisposable demo_init demo_cfg (quiet_stage made) = (Val (), quiet_stage demo_prepared)"
  by (simp add: prepareDisposable_def prepareAuthority_def planned_data_def andthen_def ret_def opt_def guard_def try_read_none absent_stage
      install_stage syncDir_stage demo_same demo_codecs demo_ok demo_outputs demo_cfg_simps demo_authority_simps demo_prepared_def
      pending_name_def)

lemma demo_small: "small ''A''" "small ''B''" "small ''C''" "small ''root''"
  by (simp_all add: small_def maxRecord_def)

definition demo_complete :: directory where
  "demo_complete = sync_entries ''.'' (installed ''complete.json'' ''C'' demo_prepared)"

lemma demo_prepared_files:
  "gm_lookup (dr_live demo_prepared) n =
     (if n = ''bundle.json'' then Some (stored ''B'') else if n = ''1.root.json'' then Some (stored ''root'')
      else if n = ''authority.json'' then Some (stored ''A'') else None)"
  by (simp add: demo_prepared_def pending_name_def)

lemma demo_complete_files:
  "gm_lookup (dr_live demo_complete) n = (if n = ''complete.json'' then Some (stored ''C'') else gm_lookup (dr_live demo_prepared) n)"
  by (simp add: demo_complete_def demo_prepared_files pending_name_def)

lemma run_verify:
  assumes "d = demo_prepared \<or> d = demo_complete"
  shows "\<exists>receipt. verify_authority demo_init Stage (quiet_stage d) = (Val (receipt, demo_bundle), quiet_stage d)"
  using assms
  by (auto simp: verify_authority_def verify_private_def andthen_def ret_def opt_def guard_def read_stage demo_small demo_prepared_files demo_complete_files
      demo_codecs demo_ok demo_bundle_parsed demo_verified demo_schema)

lemma run_drop: "gm_lookup (dr_live d) n = None \<Longrightarrow> drop_temp Stage n (quiet_stage d) = (Val (), quiet_stage d)"
  by (simp add: drop_temp_def andthen_def ret_def try_read_none)

lemma run_complete: "complete_stage demo_init False (quiet_stage demo_prepared) = (Val (), quiet_stage demo_complete)"
proof -
  obtain receipt where v: "verify_authority demo_init Stage (quiet_stage demo_prepared) = (Val (receipt, demo_bundle), quiet_stage demo_prepared)"
    using run_verify by blast
  have i: "install Stage ''complete.json'' ''C'' (quiet_stage demo_prepared) = (Val (), quiet_stage (installed ''complete.json'' ''C'' demo_prepared))"
    by (rule install_stage) (simp_all add: demo_prepared_files pending_name_def)
  have c: "for_each authorityFiles (\<lambda>n. drop_temp Stage (pending_name n)) (quiet_stage (installed ''complete.json'' ''C'' demo_prepared)) =
      (Val (), quiet_stage (installed ''complete.json'' ''C'' demo_prepared))"
    by (rule quiet_for_each, rule run_drop) (auto simp: authorityFiles_def demo_prepared_files pending_name_def)
  show ?thesis
    by (simp add: complete_stage_def andthen_def ret_def v i demo_codecs cleanPending_def c syncDir_stage demo_complete_def)
qed

lemma run_entries:
  assumes "\<And>n f. gm_lookup (dr_live d) n = Some f \<Longrightarrow> fl_safe f \<and> n \<in> set (allowed_names p False)"
  shows "checkEntries Stage p False (quiet_stage d) = (Val (), quiet_stage d)"
proof -
  have "for_each (filter (\<lambda>n. dir_of n = ''.'') (gm_keys (dr_live d)))
      (\<lambda>n. andthen (guard (List.member (allowed_names p False) n) EInvalid) (\<lambda>u. entry_safe Stage n)) (quiet_stage d) = (Val (), quiet_stage d)"
  proof (rule quiet_for_each)
    fix n assume "n \<in> set (filter (\<lambda>n. dir_of n = ''.'') (gm_keys (dr_live d)))"
    then obtain f where "gm_lookup (dr_live d) n = Some f" by (auto simp: gm_keys_lookup)
    with assms [OF this] show "andthen (guard (List.member (allowed_names p False) n) EInvalid) (\<lambda>u. entry_safe Stage n) (quiet_stage d) = (Val (), quiet_stage d)"
      by (simp add: andthen_def guard_def ret_def entry_safe_def call_stage)
  qed
  then show ?thesis by (simp add: checkEntries_def directoryNames_def call_stage andthen_def)
qed

lemma run_inspect: "\<exists>r. inspect_current demo_init Stage demo_now (quiet_stage demo_complete) = (Val r, quiet_stage demo_complete)"
proof -
  obtain receipt where v: "verify_authority demo_init Stage (quiet_stage demo_complete) = (Val (receipt, demo_bundle), quiet_stage demo_complete)"
    using run_verify by blast
  have e: "checkEntries Stage False False (quiet_stage demo_complete) = (Val (), quiet_stage demo_complete)"
    by (rule run_entries)
       (auto simp: demo_complete_files demo_prepared_files stored_def allowed_names_def authorityFiles_def allocationName_def split: if_splits)
  have f: "demo_now < rm_expires demo_first_root" by (simp add: demo_first_root_def rootLifetime_def days_def hours_def nsec_def)
  show ?thesis
    by (simp add: inspect_current_def inspect_authority_def Let_def andthen_def ret_def opt_def guard_def read_stage demo_small demo_complete_files demo_prepared_files
        e v demo_codecs inspectBundle_def demo_schema f)
qed

text \<open>The world after it: the slot has the files of the stage, and its entry is durable.\<close>

definition demo_done :: world where
  "demo_done = snd (initialize demo_init demo_options (quiet_stage no_directory))"

lemma run_initialize: "\<exists>r. initialize demo_init demo_options (quiet_stage no_directory) = (Val r, demo_done)"
  "w_dirs demo_done Authority = demo_complete"
proof -
  obtain r where r: "inspect_current demo_init Stage demo_now (quiet_stage demo_complete) = (Val r, quiet_stage demo_complete)"
    using run_inspect by blast
  let ?w = "\<lparr>w_dirs = promoted ''n'' (w_dirs (quiet_stage demo_complete)), w_faults = []\<rparr>"
  have s: "subdir Authority (quiet_stage no_directory) = (Err ENotExist, quiet_stage no_directory)"
    unfolding subdir_def by (rule call_home) (simp_all add: no_directory_def)
  have m: "mkdir Stage (quiet_stage no_directory) = (Val (), quiet_stage made)" "subdir Stage (quiet_stage made) = (Val (), quiet_stage made)"
    by (simp_all add: mkdir_def subdir_def call_stage made_def)
  have e: "checkEntries Stage True False (quiet_stage made) = (Val (), quiet_stage made)" by (rule run_entries) simp
  have made: "dr_made demo_complete" by (simp add: demo_complete_def demo_prepared_def sync_entries_def)
  have p: "promote ''n'' (quiet_stage demo_complete) = (Val (), ?w)"
    using made by (simp add: promote_def Let_def quiet_stage_def no_directory_def)
  have h: "syncDir Home ?w = (Val (), ?w\<lparr>w_dirs := (w_dirs ?w)(Home := sync_entries ''.'' (w_dirs ?w Home))\<rparr>)"
    by (simp add: syncDir_def sync_sub_def call_def syscall_def dir_step_def)
  have c: "demo_options\<lparr>io_encrypted := False, io_repository := ''https://r''\<rparr> = demo_cfg" "io_network demo_options = ''n''"
      "io_repository demo_options = ''https://r''" "\<not> io_encrypted demo_options" "io_disposable demo_options" "io_now demo_options = demo_now"
    by (simp_all add: demo_cfg_def demo_options_def)
  have i: "initialize demo_init demo_options (quiet_stage no_directory) = (Val r, ?w\<lparr>w_dirs := (w_dirs ?w)(Home := sync_entries ''.'' (w_dirs ?w Home))\<rparr>)"
    by (simp add: initialize_def Let_def c demo_location demo_cfg_simps stage_authority_def rejectOrphanedOperationalState_def absent_home networkID_def is_alpha_def
        andthen_def ret_def opt_def guard_def trying_def s m e syncDir_home run_prepare run_complete r p h)
  then show "\<exists>r. initialize demo_init demo_options (quiet_stage no_directory) = (Val r, demo_done)" by (simp add: demo_done_def)
  show "w_dirs demo_done Authority = demo_complete" unfolding demo_done_def i by (simp add: promoted_def quiet_stage_def)
qed

section \<open>Witnesses\<close>

definition demo_home :: dirs where "demo_home = w_dirs (quiet_stage no_directory)"

lemma demo_uninitialized: "uninitialized ''n'' demo_home"
  by (simp add: demo_home_def uninitialized_def quiet_stage_def no_directory_def entry_def)

lemma demo_quiet: "quiet_stage no_directory = \<lparr>w_dirs = demo_home, w_faults = []\<rparr>"
  by (simp add: demo_home_def quiet_stage_def)

lemma demo_custody: "io_network demo_options = ''n''" "(io_encrypted demo_options \<or> \<not> io_disposable demo_options) = False"
  by (simp_all add: demo_options_def)

lemma demo_initialized: "(init_step demo_init ''n'' False)\<^sup>*\<^sup>* demo_home (w_dirs demo_done)"
  using init_run [where lib = demo_init and ds = demo_home and fs = "[]", OF demo_custody] by (simp add: demo_done_def demo_quiet)

theorem authority_complete_witness:
  "\<exists>report. inspect_authority demo_init Authority (days 30) \<lparr>w_dirs = w_dirs demo_done, w_faults = []\<rparr> =
     (Val report, \<lparr>w_dirs = w_dirs demo_done, w_faults = []\<rparr>)"
proof -
  have "dr_made (w_dirs demo_done Authority)" by (simp add: run_initialize(2) demo_complete_def demo_prepared_def sync_entries_def)
  from authority_complete [OF demo_uninitialized demo_initialized this, of "days 30"] show ?thesis by blast
qed

text \<open>A second initialization, whose second system call fails.\<close>

definition demo_again :: dirs where
  "demo_again = w_dirs (snd (initialize demo_init demo_options \<lparr>w_dirs = w_dirs demo_done, w_faults = [NoFault, Fails]\<rparr>))"


end
