(* ===== verification/Soph_Flags.thy ===== *)
theory Soph_Flags
  imports Dashboard_Loop
begin

text \<open>
  The command line of \<open>soph\<close>: what the client uses of Go's \<open>flag\<close> package, and \<open>parseInterspersed\<close> of
  \<open>src/cmd/soph/main.go\<close>, which accepts flags before and after positional arguments. A flag set has its formal
  flags, the variables they write, and the names that were set; two names can share a variable, as \<open>-h\<close> and
  \<open>--help\<close> do. Error messages are not modelled.
\<close>

section \<open>Values\<close>

datatype flag_kind = BoolFlag | IntFlag | DurationFlag | StringFlag

datatype flag_value = BoolValue bool | IntValue int | DurationValue duration | StringValue string

text \<open>\<open>strconv.ParseBool\<close>.\<close>

definition ParseBool :: "string \<Rightarrow> bool option" where
  "ParseBool s =
     (if List.member [''1'', ''t'', ''T'', ''TRUE'', ''true'', ''True''] s then Some True
      else if List.member [''0'', ''f'', ''F'', ''FALSE'', ''false'', ''False''] s then Some False else None)"

text \<open>\<open>strconv.ParseInt(s, 0, 64)\<close>: a sign, a base prefix and underscores between digits.\<close>

definition base_digit :: "char \<Rightarrow> nat option" where
  "base_digit c =
     (let n = of_char (lower_char c)
      in if 48 \<le> n \<and> n \<le> 57 then Some (n - 48) else if 97 \<le> n \<and> n \<le> 122 then Some (n - 87) else None)"

fun base_digits :: "nat \<Rightarrow> nat \<Rightarrow> string \<Rightarrow> nat option" where
  "base_digits base n [] = Some n"
| "base_digits base n (c # cs) =
     (if c = CHR ''_'' then base_digits base n cs
      else case base_digit c of
        None \<Rightarrow> None
      | Some d \<Rightarrow> if d \<ge> base \<or> n * base + d \<ge> 2 ^ 64 then None else base_digits base (n * base + d) cs)"

definition base_prefix :: "string \<Rightarrow> nat option" where
  "base_prefix s =
     (if length s \<ge> 2 \<and> hd s = CHR ''0''
      then map_of [(CHR ''b'', 2), (CHR ''o'', 8), (CHR ''x'', 16)] (lower_char (s ! 1)) else None)"

text \<open>\<open>underscoreOK\<close> after the sign: \<open>after\<close> says that the character before was a digit or the base prefix, \<open>us\<close>
  that it was an underscore.\<close>

fun underscores_ok :: "bool \<Rightarrow> bool \<Rightarrow> bool \<Rightarrow> string \<Rightarrow> bool" where
  "underscores_ok ishex after us [] = (\<not> us)"
| "underscores_ok ishex after us (c # cs) =
     (if is_digit c \<or> (ishex \<and> 97 \<le> (of_char (lower_char c) :: nat) \<and> (of_char (lower_char c) :: nat) \<le> 102)
      then underscores_ok ishex True False cs
      else if c = CHR ''_'' then after \<and> underscores_ok ishex False True cs
      else \<not> us \<and> underscores_ok ishex False False cs)"

definition underscoreOK :: "string \<Rightarrow> bool" where
  "underscoreOK s =
     (case base_prefix s of
        None \<Rightarrow> underscores_ok False False False s
      | Some b \<Rightarrow> underscores_ok (b = 16) True False (drop 2 s))"

definition parse_base0 :: "string \<Rightarrow> nat option" where
  "parse_base0 s =
     (let (base, digits) =
        (if s = [] \<or> hd s \<noteq> CHR ''0'' then (10, s)
         else case base_prefix s of Some b \<Rightarrow> if length s \<ge> 3 then (b, drop 2 s) else (8, tl s) | None \<Rightarrow> (8, tl s))
      in if s = [] then None
         else case base_digits base 0 digits of
           None \<Rightarrow> None
         | Some n \<Rightarrow> if List.member digits (CHR ''_'') \<and> \<not> underscoreOK s then None else Some n)"

definition ParseInt0 :: "string \<Rightarrow> int option" where
  "ParseInt0 s =
     (let neg = HasPrefix s ''-''; u = (if neg \<or> HasPrefix s ''+'' then tl s else s)
      in case parse_base0 u of
           None \<Rightarrow> None
         | Some n \<Rightarrow>
             if neg then (if n > 2 ^ 63 then None else Some (- int n)) else if n \<ge> 2 ^ 63 then None else Some (int n))"

definition flag_parse :: "flag_kind \<Rightarrow> string \<Rightarrow> flag_value option" where
  "flag_parse k s =
     (case k of
        BoolFlag \<Rightarrow> map_option BoolValue (ParseBool s)
      | IntFlag \<Rightarrow> map_option IntValue (ParseInt0 s)
      | DurationFlag \<Rightarrow> map_option DurationValue (ParseDuration s)
      | StringFlag \<Rightarrow> Some (StringValue s))"

section \<open>Flag sets\<close>

record FlagSet =
  fs_formal :: "(string, flag_kind \<times> string) gomap"
  fs_vars :: "(string, flag_value) gomap"
  fs_actual :: "string list"

text \<open>A flag set in which every flag has a variable of its own name, with its default.\<close>

definition kind_of :: "flag_value \<Rightarrow> flag_kind" where
  "kind_of v = (case v of BoolValue _ \<Rightarrow> BoolFlag | IntValue _ \<Rightarrow> IntFlag | DurationValue _ \<Rightarrow> DurationFlag | StringValue _ \<Rightarrow> StringFlag)"

definition NewFlagSet :: "(string, flag_value) gomap \<Rightarrow> FlagSet" where
  "NewFlagSet defaults = \<lparr>fs_formal = map (\<lambda>(n, v). (n, kind_of v, n)) defaults, fs_vars = defaults, fs_actual = []\<rparr>"

definition bool_of :: "FlagSet \<Rightarrow> string \<Rightarrow> bool" where
  "bool_of fs n = (case gm_lookup (fs_vars fs) n of Some (BoolValue b) \<Rightarrow> b | _ \<Rightarrow> False)"

definition int_of :: "FlagSet \<Rightarrow> string \<Rightarrow> int" where
  "int_of fs n = (case gm_lookup (fs_vars fs) n of Some (IntValue i) \<Rightarrow> i | _ \<Rightarrow> 0)"

definition duration_of :: "FlagSet \<Rightarrow> string \<Rightarrow> duration" where
  "duration_of fs n = (case gm_lookup (fs_vars fs) n of Some (DurationValue d) \<Rightarrow> d | _ \<Rightarrow> 0)"

definition string_of :: "FlagSet \<Rightarrow> string \<Rightarrow> string" where
  "string_of fs n = (case gm_lookup (fs_vars fs) n of Some (StringValue s) \<Rightarrow> s | _ \<Rightarrow> [])"

definition fs_set :: "string \<Rightarrow> string \<Rightarrow> flag_value \<Rightarrow> FlagSet \<Rightarrow> FlagSet" where
  "fs_set n var v fs = fs\<lparr>fs_vars := gm_update var v (fs_vars fs), fs_actual := n # fs_actual fs\<rparr>"

lemma fs_formal_set [simp]: "fs_formal (fs_set n var v fs) = fs_formal fs"
  by (simp add: fs_set_def)

section \<open>Parsing\<close>

datatype flag_error = ErrHelp | ErrFlag

datatype parse_step = Seen FlagSet "string list" | Stop "string list" | Failed flag_error

definition parseOne :: "FlagSet \<Rightarrow> string list \<Rightarrow> parse_step" where
  "parseOne fs args =
     (case args of
        [] \<Rightarrow> Stop []
      | s # rest \<Rightarrow>
          if length s < 2 \<or> hd s \<noteq> CHR ''-'' then Stop args
          else if s = ''--'' then Stop rest
          else let word = drop (if s ! 1 = CHR ''-'' then 2 else 1) s
               in if word = [] \<or> hd word = CHR ''-'' \<or> hd word = CHR ''='' then Failed ErrFlag
                  else let (n, val) = (case Cut (CHR ''='') word of None \<Rightarrow> (word, None) | Some (n, v) \<Rightarrow> (n, Some v))
                       in case gm_lookup (fs_formal fs) n of
                            None \<Rightarrow> Failed (if n = ''help'' \<or> n = ''h'' then ErrHelp else ErrFlag)
                          | Some (k, var) \<Rightarrow>
                              let assign = \<lambda>v rest. (case flag_parse k v of None \<Rightarrow> Failed ErrFlag | Some x \<Rightarrow> Seen (fs_set n var x fs) rest)
                              in case val of
                                   Some v \<Rightarrow> assign v rest
                                 | None \<Rightarrow>
                                     if k = BoolFlag then Seen (fs_set n var (BoolValue True) fs) rest
                                     else case rest of [] \<Rightarrow> Failed ErrFlag | v # rest' \<Rightarrow> assign v rest')"

lemma parseOne_shorter: "parseOne fs args = Seen fs' rest \<Longrightarrow> length rest < length args"
  by (auto simp: parseOne_def Let_def split: list.splits if_splits option.splits prod.splits)

lemma parseOne_stop: "parseOne fs args = Stop rest \<Longrightarrow> length rest \<le> length args"
  by (auto simp: parseOne_def Let_def split: list.splits if_splits option.splits prod.splits)

function FlagSet_Parse :: "FlagSet \<Rightarrow> string list \<Rightarrow> flag_error + FlagSet \<times> string list" where
  "FlagSet_Parse fs args =
     (case parseOne fs args of Seen fs' rest \<Rightarrow> FlagSet_Parse fs' rest | Stop rest \<Rightarrow> Inr (fs, rest) | Failed e \<Rightarrow> Inl e)"
  by pat_completeness auto
termination
  by (relation "measure (\<lambda>(fs, args). length args)") (auto simp: parseOne_shorter)

declare FlagSet_Parse.simps [simp del]

lemma FlagSet_Parse_shorter: "FlagSet_Parse fs args = Inr (fs', rest) \<Longrightarrow> length rest \<le> length args"
proof (induction fs args rule: FlagSet_Parse.induct)
  case (1 fs args)
  show ?case
  proof (cases "parseOne fs args")
    case (Seen fs1 rest1)
    then show ?thesis using 1 parseOne_shorter [OF Seen] by (simp add: FlagSet_Parse.simps [of fs args])
  qed (use 1 parseOne_stop in \<open>auto simp: FlagSet_Parse.simps [of fs args]\<close>)
qed

text \<open>The loop of \<open>parseInterspersed\<close>: each call of \<open>Parse\<close> stops at a positional argument.\<close>

function parse_positionals :: "FlagSet \<Rightarrow> string list \<Rightarrow> string list \<Rightarrow> flag_error + FlagSet \<times> string list" where
  "parse_positionals fs args acc =
     (case FlagSet_Parse fs args of
        Inl e \<Rightarrow> Inl e
      | Inr (fs', []) \<Rightarrow> Inr (fs', acc)
      | Inr (fs', p # rest) \<Rightarrow> parse_positionals fs' rest (acc @ [p]))"
  by pat_completeness auto
termination
  by (relation "measure (\<lambda>(fs, args, acc). length args)") (auto dest: FlagSet_Parse_shorter)

declare parse_positionals.simps [simp del]

definition parseInterspersed :: "FlagSet \<Rightarrow> string list \<Rightarrow> flag_error + FlagSet \<times> string list" where
  "parseInterspersed fs args =
     (case parse_positionals fs (takeWhile (\<lambda>a. a \<noteq> ''--'') args) [] of
        Inl e \<Rightarrow> Inl e
      | Inr (fs', ps) \<Rightarrow> Inr (fs', ps @ tl (dropWhile (\<lambda>a. a \<noteq> ''--'') args)))"

section \<open>Every interleaving of flags and arguments means the same\<close>

text \<open>What a user can write: positional arguments, and flags in each of their forms (\<open>True\<close> for two dashes).\<close>

datatype cli_token =
    Positional string
  | Switch bool string
  | Assign bool string string
  | Spaced bool string string

definition dashed :: "bool \<Rightarrow> string \<Rightarrow> string" where
  "dashed long n = (if long then ''--'' @ n else ''-'' @ n)"

definition token_words :: "cli_token \<Rightarrow> string list" where
  "token_words t =
     (case t of
        Positional p \<Rightarrow> [p]
      | Switch long n \<Rightarrow> [dashed long n]
      | Assign long n v \<Rightarrow> [dashed long n @ CHR ''='' # v]
      | Spaced long n v \<Rightarrow> [dashed long n, v])"

definition flag_name :: "string \<Rightarrow> bool" where
  "flag_name n \<longleftrightarrow> n \<noteq> [] \<and> hd n \<noteq> CHR ''-'' \<and> CHR ''='' \<notin> set n"

definition positional_word :: "string \<Rightarrow> bool" where
  "positional_word p \<longleftrightarrow> length p < 2 \<or> hd p \<noteq> CHR ''-''"

definition token_ok :: "(string, flag_kind \<times> string) gomap \<Rightarrow> cli_token \<Rightarrow> bool" where
  "token_ok formal t =
     (case t of
        Positional p \<Rightarrow> positional_word p
      | Switch _ n \<Rightarrow> flag_name n \<and> (case gm_lookup formal n of Some (k, var) \<Rightarrow> k = BoolFlag | None \<Rightarrow> False)
      | Assign _ n v \<Rightarrow> flag_name n \<and> (case gm_lookup formal n of Some (k, var) \<Rightarrow> flag_parse k v \<noteq> None | None \<Rightarrow> False)
      | Spaced _ n v \<Rightarrow> flag_name n \<and> v \<noteq> ''--'' \<and>
          (case gm_lookup formal n of Some (k, var) \<Rightarrow> k \<noteq> BoolFlag \<and> flag_parse k v \<noteq> None | None \<Rightarrow> False))"

definition token_set :: "cli_token \<Rightarrow> FlagSet \<Rightarrow> FlagSet" where
  "token_set t fs =
     (let put = \<lambda>n s. (case gm_lookup (fs_formal fs) n of
                Some (k, var) \<Rightarrow> (case s of None \<Rightarrow> fs_set n var (BoolValue True) fs
                                   | Some v \<Rightarrow> (case flag_parse k v of Some x \<Rightarrow> fs_set n var x fs | None \<Rightarrow> fs))
              | None \<Rightarrow> fs)
      in case t of Positional _ \<Rightarrow> fs | Switch _ n \<Rightarrow> put n None | Assign _ n v \<Rightarrow> put n (Some v) | Spaced _ n v \<Rightarrow> put n (Some v))"

definition is_positional :: "cli_token \<Rightarrow> bool" where
  "is_positional t = (case t of Positional _ \<Rightarrow> True | _ \<Rightarrow> False)"

definition command_line :: "cli_token list \<Rightarrow> string list" where
  "command_line ts = concat (map token_words ts)"

definition set_flags :: "cli_token list \<Rightarrow> FlagSet \<Rightarrow> FlagSet" where
  "set_flags ts fs = foldl (\<lambda>fs t. token_set t fs) fs (filter (\<lambda>t. \<not> is_positional t) ts)"

definition positionals :: "cli_token list \<Rightarrow> string list" where
  "positionals ts = command_line (filter is_positional ts)"

lemma fs_formal_token [simp]: "fs_formal (token_set t fs) = fs_formal fs"
  by (auto simp: token_set_def Let_def split: cli_token.split option.split)

lemma dashed_simps [simp]:
  "dashed long n \<noteq> []" "hd (dashed long n @ s) = CHR ''-''"
  by (auto simp: dashed_def)

lemma dashed_word:
  assumes "flag_name n"
  shows "\<not> length (dashed long n @ s) < 2" "dashed long n @ s \<noteq> ''--''"
    "drop (if (dashed long n @ s) ! 1 = CHR ''-'' then 2 else 1) (dashed long n @ s) = n @ s"
  using assms by (cases n; auto simp: flag_name_def dashed_def)+

lemma flag_name_hd: "flag_name n \<Longrightarrow> n \<noteq> [] \<and> hd (n @ s) \<noteq> CHR ''-'' \<and> hd (n @ s) \<noteq> CHR ''=''"
  by (cases n) (auto simp: flag_name_def)

lemma Cut_flag_name: "flag_name n \<Longrightarrow> Cut (CHR ''='') n = None"
  by (simp add: Cut_None flag_name_def)

lemma Cut_assigned: "flag_name n \<Longrightarrow> Cut (CHR ''='') (n @ CHR ''='' # v) = Some (n, v)"
  by (simp add: Cut_append flag_name_def)

lemma parseOne_word:
  assumes "flag_name n" "gm_lookup (fs_formal fs) n = Some (k, var)" "Cut (CHR ''='') (n @ s) = (case val of None \<Rightarrow> None | Some v \<Rightarrow> Some (n, v))"
    and "val = None \<Longrightarrow> s = []"
  shows "parseOne fs ((dashed long n @ s) # rest) =
      (let assign = \<lambda>v rest. (case flag_parse k v of None \<Rightarrow> Failed ErrFlag | Some x \<Rightarrow> Seen (fs_set n var x fs) rest)
       in case val of
            Some v \<Rightarrow> assign v rest
          | None \<Rightarrow> if k = BoolFlag then Seen (fs_set n var (BoolValue True) fs) rest
                    else case rest of [] \<Rightarrow> Failed ErrFlag | v # rest' \<Rightarrow> assign v rest')"
proof -
  define w where "w = dashed long n @ s"
  define u where "u = n @ s"
  have "\<not> length w < 2" "hd w = CHR ''-''" "w \<noteq> ''--''" "drop (if w ! 1 = CHR ''-'' then 2 else 1) w = u"
    using dashed_word [OF assms(1), of long s] by (simp_all add: w_def u_def)
  moreover have "u \<noteq> []" "hd u \<noteq> CHR ''-''" "hd u \<noteq> CHR ''=''"
    unfolding u_def using flag_name_hd [OF assms(1), of s] by (simp, blast+)
  moreover have "(case Cut (CHR ''='') u of None \<Rightarrow> (u, None) | Some (n, v) \<Rightarrow> (n, Some v)) = (n, val)"
    using assms(3,4) by (auto simp: u_def split: option.splits)
  ultimately show ?thesis using assms(2) unfolding w_def [symmetric] by (simp add: parseOne_def Let_def)
qed

lemma parseOne_dashed:
  assumes "flag_name n" "gm_lookup (fs_formal fs) n = Some (k, var)"
  shows "parseOne fs (dashed long n # rest) =
      (if k = BoolFlag then Seen (fs_set n var (BoolValue True) fs) rest
       else case rest of [] \<Rightarrow> Failed ErrFlag
         | v # rest' \<Rightarrow> (case flag_parse k v of None \<Rightarrow> Failed ErrFlag | Some x \<Rightarrow> Seen (fs_set n var x fs) rest'))"
    and "parseOne fs ((dashed long n @ CHR ''='' # v) # rest) =
      (case flag_parse k v of None \<Rightarrow> Failed ErrFlag | Some x \<Rightarrow> Seen (fs_set n var x fs) rest)"
  using parseOne_word [OF assms, of "[]" None long rest] parseOne_word [OF assms, of "CHR ''='' # v" "Some v" long rest]
  by (simp_all add: Cut_flag_name [OF assms(1)] Cut_assigned [OF assms(1)])

lemma parseOne_positional: "positional_word p \<Longrightarrow> parseOne fs (p # rest) = Stop (p # rest)"
  by (auto simp: parseOne_def positional_word_def)

lemma parseOne_token:
  assumes "token_ok (fs_formal fs) t" "\<not> is_positional t"
  shows "parseOne fs (token_words t @ rest) = Seen (token_set t fs) rest"
  using assms
  by (cases t) (auto simp: token_ok_def token_words_def token_set_def is_positional_def Let_def parseOne_dashed split: option.splits)

lemma FlagSet_Parse_token:
  assumes "token_ok (fs_formal fs) t" "\<not> is_positional t"
  shows "FlagSet_Parse fs (token_words t @ rest) = FlagSet_Parse (token_set t fs) rest"
  by (subst FlagSet_Parse.simps) (simp add: parseOne_token [OF assms])

lemma parse_positionals_token:
  assumes "token_ok (fs_formal fs) t" "\<not> is_positional t"
  shows "parse_positionals fs (token_words t @ rest) acc = parse_positionals (token_set t fs) rest acc"
  by (subst (1 2) parse_positionals.simps) (simp add: FlagSet_Parse_token [OF assms])

lemma parse_positionals_positional:
  "positional_word p \<Longrightarrow> parse_positionals fs (p # rest) acc = parse_positionals fs rest (acc @ [p])"
  by (subst parse_positionals.simps) (simp add: FlagSet_Parse.simps [of fs "p # rest"] parseOne_positional)

lemma parse_positionals_line:
  "list_all (token_ok (fs_formal fs)) ts \<Longrightarrow>
     parse_positionals fs (command_line ts) acc = Inr (set_flags ts fs, acc @ positionals ts)"
proof (induction ts arbitrary: fs acc)
  case Nil
  show ?case
    by (simp add: command_line_def set_flags_def positionals_def parse_positionals.simps [of fs "[]"] FlagSet_Parse.simps [of fs "[]"]
        parseOne_def)
next
  case (Cons t ts)
  show ?case
  proof (cases "is_positional t")
    case True
    then obtain p where "t = Positional p" by (cases t) (auto simp: is_positional_def)
    with Cons show ?thesis
      by (simp add: command_line_def set_flags_def positionals_def token_words_def token_ok_def is_positional_def
          parse_positionals_positional)
  next
    case False
    with Cons show ?thesis by (simp add: command_line_def set_flags_def positionals_def parse_positionals_token)
  qed
qed

lemma token_words_no_terminator: "token_ok formal t \<Longrightarrow> ''--'' \<notin> set (token_words t)"
  using dashed_word(2) [of _ _ "[]", THEN not_sym] dashed_word(2) [THEN not_sym]
  by (cases t) (auto simp: token_ok_def token_words_def positional_word_def)

lemma command_line_no_terminator: "list_all (token_ok formal) ts \<Longrightarrow> ''--'' \<notin> set (command_line ts)"
  by (induction ts) (auto simp: command_line_def dest: token_words_no_terminator)

text \<open>
  C40. The order of a command line does not matter: however positional arguments and flags, in any of their forms,
  are interleaved, \<open>parseInterspersed\<close> returns the positional arguments in their order and the flag set that
  results from the flags alone; and what follows a \<open>--\<close> is taken as it is, also when it looks like a flag.
\<close>

theorem interspersed_line:
  assumes "list_all (token_ok (fs_formal fs)) ts"
  shows "parseInterspersed fs (command_line ts) = Inr (set_flags ts fs, positionals ts) \<and>
    parseInterspersed fs (command_line ts @ ''--'' # rest) = Inr (set_flags ts fs, positionals ts @ rest)"
proof -
  note n = command_line_no_terminator [OF assms]
  then have t: "takeWhile (\<lambda>a. a \<noteq> ''--'') (command_line ts) = command_line ts"
      "dropWhile (\<lambda>a. a \<noteq> ''--'') (command_line ts) = []"
    by (auto simp: takeWhile_eq_all_conv)
  have r: "takeWhile (\<lambda>a. a \<noteq> ''--'') (command_line ts @ ''--'' # rest) = command_line ts"
      "dropWhile (\<lambda>a. a \<noteq> ''--'') (command_line ts @ ''--'' # rest) = ''--'' # rest"
    using n by (subst takeWhile_append2 dropWhile_append2; force)+
  show ?thesis unfolding parseInterspersed_def t r by (simp add: parse_positionals_line [OF assms])
qed

text \<open>\<open>k --ttl 0x12c --require-confirmed -- -x\<close>, and the same with the key last.\<close>

definition ex_put_flags :: FlagSet where
  "ex_put_flags = NewFlagSet [(''ttl'', IntValue 0), (''file'', StringValue []), (''require-confirmed'', BoolValue False)]"

lemma ex_put_ttl: "flag_parse IntFlag ''0x12c'' = Some (IntValue 300)"
  by (simp add: flag_parse_def ParseInt0_def parse_base0_def base_prefix_def lower_char_def base_digit_def HasPrefix_def)

theorem interspersed_line_witness:
  "\<exists>fs. parseInterspersed ex_put_flags [''k'', ''--ttl'', ''0x12c'', ''-require-confirmed'', ''--'', ''-x''] = Inr (fs, [''k'', ''-x'']) \<and>
    parseInterspersed ex_put_flags [''--ttl'', ''0x12c'', ''-require-confirmed'', ''k''] = Inr (fs, [''k'']) \<and>
    int_of fs ''ttl'' = 300 \<and> bool_of fs ''require-confirmed''"
proof -
  let ?ttl = "Spaced True ''ttl'' ''0x12c''" and ?rc = "Switch False ''require-confirmed''"
  let ?fs = "set_flags [?ttl, ?rc] ex_put_flags"
  have ok: "token_ok (fs_formal ex_put_flags) t" if "t \<in> {?ttl, ?rc, Positional ''k''}" for t
    using that ex_put_ttl
    by (auto simp: token_ok_def ex_put_flags_def NewFlagSet_def kind_of_def flag_name_def positional_word_def)
  have l: "list_all (token_ok (fs_formal ex_put_flags)) [Positional ''k'', ?ttl, ?rc]"
      "list_all (token_ok (fs_formal ex_put_flags)) [?ttl, ?rc, Positional ''k'']"
    using ok by simp_all
  have w: "command_line [Positional ''k'', ?ttl, ?rc] @ ''--'' # [''-x''] = [''k'', ''--ttl'', ''0x12c'', ''-require-confirmed'', ''--'', ''-x'']"
      "command_line [?ttl, ?rc, Positional ''k''] = [''--ttl'', ''0x12c'', ''-require-confirmed'', ''k'']"
    by (simp_all add: command_line_def token_words_def dashed_def)
  have p: "set_flags [Positional ''k'', ?ttl, ?rc] ex_put_flags = ?fs" "set_flags [?ttl, ?rc, Positional ''k''] ex_put_flags = ?fs"
      "positionals [Positional ''k'', ?ttl, ?rc] = [''k'']" "positionals [?ttl, ?rc, Positional ''k''] = [''k'']"
    by (simp_all add: set_flags_def positionals_def is_positional_def command_line_def token_words_def)
  have v: "int_of ?fs ''ttl'' = 300" "bool_of ?fs ''require-confirmed''"
    using ex_put_ttl
    by (simp_all add: set_flags_def is_positional_def token_set_def ex_put_flags_def NewFlagSet_def kind_of_def fs_set_def int_of_def bool_of_def)
  have "parseInterspersed ex_put_flags [''k'', ''--ttl'', ''0x12c'', ''-require-confirmed'', ''--'', ''-x''] = Inr (?fs, [''k'', ''-x''])"
    using conjunct2 [OF interspersed_line [OF l(1), of "[''-x'']"]] unfolding w(1) p by simp
  moreover have "parseInterspersed ex_put_flags [''--ttl'', ''0x12c'', ''-require-confirmed'', ''k''] = Inr (?fs, [''k''])"
    using conjunct1 [OF interspersed_line [OF l(2)]] unfolding w(2) p by simp
  ultimately show ?thesis using v by blast
qed

end
