(* ===== verification/Soph_Config.thy ===== *)
theory Soph_Config
  imports Soph_Flags Discovery
begin

text \<open>
  The saved networks of the command line client, \<open>src/cmd/soph/config.go\<close>: the records, the file with every point
  at which writing it can stop, network names, and the location of the file (with what it needs of
  \<open>path/filepath\<close>). The JSON codec is a pair of functions.
\<close>

section \<open>Names\<close>

definition label_char :: "char \<Rightarrow> bool" where
  "label_char c \<longleftrightarrow> is_alpha c \<or> is_digit c \<or> List.member ''-_.'' c"

definition validateNetworkName :: "string \<Rightarrow> bool" where
  "validateNetworkName name \<longleftrightarrow> name \<noteq> [] \<and> length name \<le> 64 \<and> list_all label_char name"

text \<open>\<open>strings.Cut\<close> and \<open>strings.Trim\<close>.\<close>

fun CutString :: "string \<Rightarrow> string \<Rightarrow> (string \<times> string) option" where
  "CutString sep [] = (if sep = [] then Some ([], []) else None)"
| "CutString sep (c # cs) =
     (if HasPrefix (c # cs) sep then Some ([], drop (length sep) (c # cs))
      else map_option (\<lambda>(a, b). (c # a, b)) (CutString sep cs))"

definition TrimChars :: "string \<Rightarrow> string \<Rightarrow> string" where
  "TrimChars cs s = (let inside = \<lambda>s. dropWhile (List.member cs) s in rev (inside (rev (inside s))))"

text \<open>Every character that is not allowed becomes one dash, also when its encoding has several bytes.\<close>

function dash_names :: "string \<Rightarrow> string" where
  "dash_names [] = []"
| "dash_names (c # rest) =
     (if label_char c then c # dash_names rest
      else CHR ''-'' # dash_names (drop (if rune_ok c rest then rune_length (of_char c) - 1 else 0) rest))"
  by pat_completeness auto
termination by (relation "measure length") auto

definition defaultNetworkName :: "string \<Rightarrow> string" where
  "defaultNetworkName endpoint =
     (let name = (case CutString ''://'' endpoint of None \<Rightarrow> endpoint | Some (_, b) \<Rightarrow> b);
          name = (if HasSuffix name ''/'' then butlast name else name);
          name = (case CutLast (CHR '':'') name of
                    Some (host, port) \<Rightarrow> if host \<noteq> [] \<and> \<not> Contains port '']'' then host else name
                  | None \<Rightarrow> name);
          out = TrimChars ''-'' (dash_names (TrimChars ''[]'' name))
      in if out = [] then ''node'' else take 64 out)"

lemma dash_names_chars: "c \<in> set (dash_names s) \<Longrightarrow> label_char c"
proof (induction s rule: dash_names.induct)
  case (2 d rest)
  have "label_char (CHR ''-'')" by (simp add: label_char_def)
  with 2 show ?case by (auto split: if_splits)
qed simp

lemma TrimChars_subset: "set (TrimChars cs s) \<subseteq> set s"
  by (auto simp: TrimChars_def Let_def dest!: set_dropWhileD)

lemma defaultNetworkName_valid: "validateNetworkName (defaultNetworkName endpoint)"
proof -
  have ok: "validateNetworkName (let out = TrimChars ''-'' (dash_names t) in if out = [] then ''node'' else take 64 out)" for t
    using TrimChars_subset [of "''-''" "dash_names t"] dash_names_chars [of _ t] set_take_subset [of 64 "TrimChars ''-'' (dash_names t)"]
    by (auto simp: validateNetworkName_def list_all_iff Let_def) (simp_all add: label_char_def is_alpha_def)
  show ?thesis unfolding defaultNetworkName_def Let_def by (rule ok [unfolded Let_def])
qed

section \<open>Paths\<close>

fun clean_parts :: "bool \<Rightarrow> string list \<Rightarrow> string list \<Rightarrow> string list" where
  "clean_parts rooted acc [] = acc"
| "clean_parts rooted acc (p # ps) =
     (if p = [] \<or> p = ''.'' then clean_parts rooted acc ps
      else if p = ''..''
      then (case acc of
              x # xs \<Rightarrow> if x = ''..'' then clean_parts rooted (p # acc) ps else clean_parts rooted xs ps
            | [] \<Rightarrow> if rooted then clean_parts rooted acc ps else clean_parts rooted [p] ps)
      else clean_parts rooted (p # acc) ps)"

definition path_Clean :: "string \<Rightarrow> string" where
  "path_Clean path =
     (let rooted = HasPrefix path ''/''; body = Join (CHR ''/'') (rev (clean_parts rooted [] (Split (CHR ''/'') path)))
      in if rooted then CHR ''/'' # body else if body = [] then ''.'' else body)"

definition path_Join :: "string list \<Rightarrow> string" where
  "path_Join elems =
     (case dropWhile (\<lambda>e. e = []) elems of [] \<Rightarrow> [] | es \<Rightarrow> path_Clean (Join (CHR ''/'') es))"

definition configFileName :: string where "configFileName = ''soph.json''"

text \<open>\<open>user_home\<close> is the result of \<open>os.UserHomeDir\<close>, asked when \<open>HOME\<close> is empty.\<close>

definition resolveConfigDir :: "(string \<Rightarrow> string) \<Rightarrow> string option \<Rightarrow> string option" where
  "resolveConfigDir getenv user_home =
     (if getenv ''SOPH_CONFIG_DIR'' \<noteq> [] then Some (getenv ''SOPH_CONFIG_DIR'')
      else if getenv ''XDG_CONFIG_HOME'' \<noteq> [] then Some (path_Join [getenv ''XDG_CONFIG_HOME'', ''sopholeth''])
      else case (if getenv ''HOME'' \<noteq> [] then Some (getenv ''HOME'') else user_home) of
             None \<Rightarrow> None
           | Some h \<Rightarrow> if h = [] then None else Some (path_Join [h, ''.config'', ''sopholeth'']))"

section \<open>Saved networks\<close>

definition modePrivate :: string where "modePrivate = ''private''"
definition modePublic :: string where "modePublic = ''public''"
definition discoveryHTTPS :: string where "discoveryHTTPS = ''https''"
definition discoveryOperatorSupplied :: string where "discoveryOperatorSupplied = ''operator-supplied''"

text \<open>The discovery time is \<open>None\<close> for the zero time.\<close>

record Network =
  nw_endpoint :: string
  nw_mode :: string
  nw_discovery :: string
  nw_roots :: "string list"
  nw_roots_expire :: int
  nw_authority :: Identity
  nw_checked :: "gotime option"
  nw_node_id :: string
  nw_node_network :: string
  nw_enclave :: string
  nw_joined :: gotime

definition no_identity :: Identity where
  "no_identity = \<lparr>id_network = [], id_repository = [], id_fingerprint = []\<rparr>"

record Config =
  cf_current :: string
  cf_networks :: "(string, Network) gomap"

definition newConfig :: Config where
  "newConfig = \<lparr>cf_current = [], cf_networks = []\<rparr>"

definition Names :: "Config \<Rightarrow> string list" where
  "Names c = sort (gm_keys (cf_networks c))"

text \<open>
  The files of the client: the config file and whether only its owner can read it, temporary files left beside
  it, and the directory of the trust client, \<open>None\<close> while it does not exist.
\<close>

record soph_files =
  sf_config :: "bytes option"
  sf_private :: bool
  sf_temps :: "bytes list"
  sf_trust :: "state_dir option"

record config_codec =
  cc_marshal :: "Config \<Rightarrow> bytes option"
  cc_unmarshal :: "bytes \<Rightarrow> (string \<times> (string, Network) gomap option) option"

text \<open>\<open>loadConfig\<close> of a path; \<open>readable\<close> is false when reading fails other than because the file is missing.\<close>

definition loadConfig :: "config_codec \<Rightarrow> bool \<Rightarrow> soph_files \<Rightarrow> Config option" where
  "loadConfig codec readable fs =
     (if \<not> readable then None
      else case sf_config fs of
        None \<Rightarrow> Some newConfig
      | Some data \<Rightarrow>
          (case cc_unmarshal codec data of
             None \<Rightarrow> None
           | Some (current, networks) \<Rightarrow>
               Some \<lparr>cf_current = current, cf_networks = (case networks of None \<Rightarrow> [] | Some m \<Rightarrow> m)\<rparr>))"

text \<open>
  Where \<open>saveConfig\<close> can fail, and where the process can die: with some part of the data in the temporary file,
  or after the rename. \<open>removed\<close> says whether the deferred removal of the temporary file works.
\<close>

datatype save_fault =
    NoDirectory | NoTemp | NoChmod | NoWrite bytes | NoClose | NoRename | DiedWriting bytes | DiedRenamed

definition saveConfig :: "config_codec \<Rightarrow> save_fault option \<Rightarrow> bool \<Rightarrow> Config \<Rightarrow> soph_files \<Rightarrow> soph_files \<times> bool" where
  "saveConfig codec fault removed cfg fs =
     (if fault = Some NoDirectory then (fs, False)
      else case cc_marshal codec cfg of
        None \<Rightarrow> (fs, False)
      | Some json \<Rightarrow>
          let data = json @ [CHR 0x0A];
              left = (\<lambda>part. if removed then fs else fs\<lparr>sf_temps := part # sf_temps fs\<rparr>);
              renamed = fs\<lparr>sf_config := Some data, sf_private := True\<rparr>
          in case fault of
               None \<Rightarrow> (renamed, True)
             | Some NoDirectory \<Rightarrow> (fs, False)
             | Some NoTemp \<Rightarrow> (fs, False)
             | Some NoChmod \<Rightarrow> (left [], False)
             | Some (NoWrite part) \<Rightarrow> (left part, False)
             | Some NoClose \<Rightarrow> (left data, False)
             | Some NoRename \<Rightarrow> (left data, False)
             | Some (DiedWriting part) \<Rightarrow> (fs\<lparr>sf_temps := part # sf_temps fs\<rparr>, False)
             | Some DiedRenamed \<Rightarrow> (renamed, False))"

section \<open>The file always holds a whole configuration\<close>

text \<open>What the codec promises of a configuration it can encode: the newline is ignored and the same names are
  mapped to the same networks.\<close>

definition config_same :: "Config \<Rightarrow> Config \<Rightarrow> bool" where
  "config_same c d \<longleftrightarrow> cf_current c = cf_current d \<and> gm_ok (cf_networks d) \<and>
     (\<forall>k. gm_lookup (cf_networks c) k = gm_lookup (cf_networks d) k)"

definition config_codec_ok :: "config_codec \<Rightarrow> bool" where
  "config_codec_ok codec \<longleftrightarrow>
     (\<forall>c json. cc_marshal codec c = Some json \<and> gm_ok (cf_networks c) \<longrightarrow>
        (\<exists>m. cc_unmarshal codec (json @ [CHR 0x0A]) = Some (cf_current c, Some m) \<and>
           config_same c \<lparr>cf_current = cf_current c, cf_networks = m\<rparr>))"

lemma saveConfig_cases:
  assumes "saveConfig codec fault removed cfg fs = (fs', ok)"
  shows "sf_config fs' = sf_config fs \<and> \<not> ok \<or>
    (\<exists>json. cc_marshal codec cfg = Some json \<and> sf_config fs' = Some (json @ [CHR 0x0A]) \<and> sf_private fs')"
  using assms by (auto simp: saveConfig_def Let_def split: option.splits save_fault.splits if_splits)

lemma saveConfig_trust [simp]: "saveConfig codec fault removed cfg fs = (fs', ok) \<Longrightarrow> sf_trust fs' = sf_trust fs"
  by (auto simp: saveConfig_def Let_def split: option.splits save_fault.splits if_splits)

lemma load_after_save:
  assumes "config_codec_ok codec" "gm_ok (cf_networks cfg)" "saveConfig codec fault removed cfg fs = (fs', ok)"
  shows "loadConfig codec True fs' = loadConfig codec True fs \<and> \<not> ok \<or>
    (\<exists>d. loadConfig codec True fs' = Some d \<and> config_same cfg d)"
  using saveConfig_cases [OF assms(3)]
proof (elim disjE exE conjE)
  fix json
  assume j: "cc_marshal codec cfg = Some json" "sf_config fs' = Some (json @ [CHR 0x0A])"
  then obtain m where "cc_unmarshal codec (json @ [CHR 0x0A]) = Some (cf_current cfg, Some m)"
      "config_same cfg \<lparr>cf_current = cf_current cfg, cf_networks = m\<rparr>"
    using assms(1,2) unfolding config_codec_ok_def by blast
  then show ?thesis using j(2) by (simp add: loadConfig_def)
qed (simp add: loadConfig_def)

end
