(* ===== verification/Soph_Connect.thy ===== *)
theory Soph_Connect
  imports Soph_Config Node_Client Mcp
begin

text \<open>
  How the command line client finds the node of a command: \<open>src/cmd/soph/discovery.go\<close> (the trusted view and a
  healthy signed root) and \<open>selectNetwork\<close> and \<open>connect\<close> of \<open>commands.go\<close>. The view comes from a \<open>Session\<close>
  (theory \<open>Discovery\<close>) over the durable trust client beside the config file. What the environment contributes to
  one command is the record \<open>soph_env\<close>.
\<close>

section \<open>Errors and exit codes\<close>

datatype soph_error =
    UsageError
  | HelpRequested
  | FromClient client_error
  | Cancelled
  | PendingError
  | LocalError

text \<open>\<open>exitCodeFor\<close>; \<open>help\<close> is handled before it.\<close>

definition exitOK :: int where "exitOK = 0"

definition exitCodeFor :: "soph_error \<Rightarrow> int" where
  "exitCodeFor e =
     (case e of
        UsageError \<Rightarrow> 2
      | FromClient ErrNotFound \<Rightarrow> 3
      | FromClient Unreachable \<Rightarrow> 4
      | Cancelled \<Rightarrow> 4
      | PendingError \<Rightarrow> 5
      | FromClient ErrEmptyKey \<Rightarrow> 2
      | FromClient ErrBadKey \<Rightarrow> 2
      | _ \<Rightarrow> 1)"

section \<open>Requests of a client\<close>

record Health =
  hl_status :: string
  hl_node_id :: string
  hl_network :: string
  hl_enclave :: string

type_synonym exchange = "api_request \<Rightarrow> api_response option"

definition TrimRightSlash :: "string \<Rightarrow> string" where
  "TrimRightSlash s = rev (dropWhile (\<lambda>c. c = CHR ''/'') (rev s))"

definition get_request :: "string \<Rightarrow> api_request" where
  "get_request url = \<lparr>aq_method = ''GET'', aq_url = url, aq_ttl = [], aq_body = []\<rparr>"

definition getRaw :: "exchange \<Rightarrow> string \<Rightarrow> client_error + bytes" where
  "getRaw http url =
     (case http (get_request url) of
        None \<Rightarrow> Inl Unreachable
      | Some resp \<Rightarrow>
          if as_status resp \<noteq> 200 then Inl (UnexpectedStatus (as_status resp))
          else case as_body resp of None \<Rightarrow> Inl Unreachable | Some body \<Rightarrow> Inr body)"

definition getJSON :: "(bytes \<Rightarrow> 'a option) \<Rightarrow> exchange \<Rightarrow> string \<Rightarrow> client_error + 'a" where
  "getJSON decode http url =
     (case getRaw http url of
        Inl e \<Rightarrow> Inl e
      | Inr body \<Rightarrow> (case decode body of None \<Rightarrow> Inl (UnexpectedStatus 200) | Some x \<Rightarrow> Inr x))"

definition client_Health :: "(bytes \<Rightarrow> Health option) \<Rightarrow> exchange \<Rightarrow> string \<Rightarrow> client_error + Health" where
  "client_Health decode http endpoint = getJSON decode http (endpoint @ ''/v1/health'')"

text \<open>\<open>url.QueryEscape\<close> and \<open>Values.Encode\<close>, which sorts by name.\<close>

definition QueryEscape :: "string \<Rightarrow> string" where
  "QueryEscape s =
     concat (map (\<lambda>c. if is_alpha c \<or> is_digit c \<or> List.member ''-_.~'' c then [c] else if c = CHR '' '' then ''+''
                      else [CHR ''%'', upper_hex (of_char c div 16), upper_hex (of_char c mod 16)]) s)"

definition keys_url :: "string \<Rightarrow> string \<Rightarrow> string \<Rightarrow> string \<Rightarrow> string" where
  "keys_url endpoint pfx limit cursor =
     (let params = filter (\<lambda>(n, v). v \<noteq> []) [(''cursor'', cursor), (''limit'', limit), (''prefix'', pfx)];
          words = map (\<lambda>(n, v). QueryEscape n @ CHR ''='' # QueryEscape v) params
      in endpoint @ ''/v1/keys'' @ (if params = [] then [] else CHR ''?'' # Join (CHR ''&'') words))"

definition client_ListKeys ::
    "(bytes \<Rightarrow> (string list option \<times> string) option) \<Rightarrow> exchange \<Rightarrow> string \<Rightarrow> string \<Rightarrow> int \<Rightarrow> string \<Rightarrow> client_error + KeyPage" where
  "client_ListKeys decode http endpoint =
     ListKeys (\<lambda>pfx limit cursor.
       case getJSON decode http (keys_url endpoint pfx limit cursor) of
         Inl e \<Rightarrow> Inl e
       | Inr (keys, next) \<Rightarrow> Inr \<lparr>kp_keys = (case keys of None \<Rightarrow> [] | Some ks \<Rightarrow> ks), kp_next = next\<rparr>)"

section \<open>The environment of a command\<close>

text \<open>
  What a discovery meets: the bundle built in, the outcomes of opening the trust client, the clock readings and the
  run of the updater, and whether the deadline ended the opening or a signal the refresh.
\<close>

record discover_env =
  de_bundle :: bundle_result
  de_mkdir :: bool
  de_store :: store_env
  de_stop :: "save_stop option"
  de_clock :: "nat \<Rightarrow> gotime"
  de_update :: "store_env \<times> bool \<times> updater_run"
  de_open_stopped :: bool
  de_cancelled :: bool

text \<open>
  Of one command: \<open>ev_http\<close> is the exchange of its k-th request over an HTTP client, \<open>ev_probe\<close> that of the k-th
  health check of a discovery. \<open>ev_clock\<close> are the clock readings of \<open>publicNetwork\<close>: 0 for the age of the
  last check, \<open>2k + 1\<close> and \<open>2k + 2\<close> around the k-th root. \<open>ev_done\<close> says at which root the command is cancelled.
\<close>

record soph_env =
  ev_getenv :: "string \<Rightarrow> string"
  ev_user_home :: "string option"
  ev_codec :: config_codec
  ev_readable :: bool
  ev_fault :: "nat \<Rightarrow> save_fault option"
  ev_removed :: bool
  ev_client :: HTTPClient
  ev_http :: "HTTPClient \<Rightarrow> nat \<Rightarrow> exchange"
  ev_probe :: "HTTPClient \<Rightarrow> nat \<Rightarrow> exchange"
  ev_health_json :: "bytes \<Rightarrow> Health option"
  ev_keys_json :: "bytes \<Rightarrow> (string list option \<times> string) option"
  ev_valid_time :: "string \<Rightarrow> bool"
  ev_clock :: "nat \<Rightarrow> gotime"
  ev_done :: "nat \<Rightarrow> bool"
  ev_now :: gotime
  ev_discover :: discover_env

text \<open>Global flags.\<close>

record app =
  ap_config :: string
  ap_network :: string
  ap_json :: bool
  ap_timeout :: duration

text \<open>\<open>loadConfig\<close> of the application: without a place for the file it is an error of usage.\<close>

definition app_loadConfig :: "soph_env \<Rightarrow> app \<Rightarrow> soph_files \<Rightarrow> soph_error + Config" where
  "app_loadConfig env a fs =
     (if ap_config a = [] \<and> resolveConfigDir (ev_getenv env) (ev_user_home env) = None then Inl UsageError
      else case loadConfig (ev_codec env) (ev_readable env) fs of None \<Rightarrow> Inl LocalError | Some cfg \<Rightarrow> Inr cfg)"

definition store_config :: "soph_env \<Rightarrow> nat \<Rightarrow> Config \<Rightarrow> soph_files \<Rightarrow> soph_files \<times> soph_error option" where
  "store_config env k cfg fs =
     (case saveConfig (ev_codec env) (ev_fault env k) (ev_removed env) cfg fs of
        (fs', ok) \<Rightarrow> (fs', if ok then None else Some LocalError))"

section \<open>Discovery\<close>

definition empty_dir :: state_dir where
  "empty_dir = \<lparr>sd_state = None, sd_private = True, sd_pending = None\<rparr>"

text \<open>Whether opening the trust client creates its directory.\<close>

definition makes_dir :: "tuf_lib \<Rightarrow> Bundle \<Rightarrow> discover_env \<Rightarrow> HTTPClient \<Rightarrow> bool" where
  "makes_dir lib b de hc =
     (Validate (tuf_root_lib.truncate lib) b \<and> Client (Some hc) \<noteq> None \<and>
      list_all (\<lambda>(is_dir, safe). is_dir \<and> safe) (se_ancestors (de_store de)) \<and> se_mkdir (de_store de) = MkdirCreated)"

text \<open>\<open>discovery.Open\<close>: the bundle with its normalised repository, and the session.\<close>

definition discovery_Open ::
    "tuf_lib \<Rightarrow> Bundle \<Rightarrow> discover_env \<Rightarrow> HTTPClient \<Rightarrow> state_dir option
       \<Rightarrow> state_dir option \<times> (Bundle \<times> Session) option" where
  "discovery_Open lib b de hc trust =
     (if \<not> Validate (tuf_root_lib.truncate lib) b \<or> \<not> de_mkdir de then (trust, None)
      else let dir = (case trust of None \<Rightarrow> empty_dir | Some d \<Rightarrow> d);
               (dir', opened) = New lib b (de_store de) (Some hc) (de_stop de) dir;
               trust' = (if trust = None \<and> \<not> makes_dir lib b de hc then None else Some dir')
           in case opened of
                Inl e \<Rightarrow> (trust', None)
              | Inr b' \<Rightarrow>
                  (trust', Some (b', session_open (de_clock de 1) (Current lib b' (de_store de) (de_clock de 0) dir'))))"

text \<open>
  \<open>discoverBundle\<close>. Without a rollback history no saved public connection is trusted again. A view that is still
  usable is taken unless a refresh is asked for; after a refresh the session's view is read once more.
\<close>

definition discoverBundle ::
    "tuf_lib \<Rightarrow> soph_env \<Rightarrow> app \<Rightarrow> Bundle \<Rightarrow> bool \<Rightarrow> soph_files
       \<Rightarrow> soph_files \<times> (soph_error + Identity \<times> View)" where
  "discoverBundle lib env a b refresh fs =
     (let de = ev_discover env; ident = BundleIdentity (tuf_root_lib.truncate lib) b
      in case app_loadConfig env a fs of
           Inl e \<Rightarrow> (fs, Inl e)
         | Inr cfg \<Rightarrow>
             if sf_trust fs = None \<and> list_ex (\<lambda>(k, n). nw_discovery n = discoveryHTTPS) (cf_networks cfg)
             then (fs, Inl LocalError)
             else case discovery_Open lib b de (ev_client env) (sf_trust fs) of
               (trust1, None) \<Rightarrow> (fs\<lparr>sf_trust := trust1\<rparr>, Inl (if de_open_stopped de then Cancelled else LocalError))
             | (trust1, Some (b', s)) \<Rightarrow>
                 let fs1 = fs\<lparr>sf_trust := trust1\<rparr>; dir1 = (case trust1 of None \<Rightarrow> empty_dir | Some d \<Rightarrow> d)
                 in case (if refresh then None else session_Current (de_clock de 2) s) of
                      Some v \<Rightarrow> (fs1, Inr (ident, v))
                    | None \<Rightarrow>
                        (case session_exec lib b' (SRefresh (de_update de) (de_clock de 3) (de_store de) (de_clock de 4)) (dir1, s) of
                           (dir2, s2) \<Rightarrow>
                             let fs2 = fs\<lparr>sf_trust := Some dir2\<rparr>
                             in if de_cancelled de then (fs2, Inl Cancelled)
                                else case session_Current (de_clock de 5) s2 of
                                  None \<Rightarrow> (fs2, Inl LocalError)
                                | Some v \<Rightarrow> (fs2, Inr (ident, v))))"

definition discover ::
    "tuf_lib \<Rightarrow> soph_env \<Rightarrow> app \<Rightarrow> bool \<Rightarrow> soph_files \<Rightarrow> soph_files \<times> (soph_error + Identity \<times> View)" where
  "discover lib env a refresh fs =
     (case de_bundle (ev_discover env) of
        GoodBundle b \<Rightarrow> discoverBundle lib env a b refresh fs
      | _ \<Rightarrow> (fs, Inl LocalError))"

section \<open>A healthy signed root\<close>

text \<open>\<open>client.New\<close>: redirects are not followed.\<close>

definition client_New :: "HTTPClient \<Rightarrow> HTTPClient" where
  "client_New hc = hc\<lparr>hc_redirects := UseLastResponse\<rparr>"

text \<open>The endpoint of before goes first while it is still listed.\<close>

definition prefer_endpoint :: "string \<Rightarrow> Root list \<Rightarrow> Root list" where
  "prefer_endpoint e rs =
     (let i = length (takeWhile (\<lambda>r. rt_origin r \<noteq> e) rs)
      in if i < length rs then rs[0 := rs ! i, i := rs ! 0] else rs)"

definition health_agrees :: "Health \<Rightarrow> Root \<Rightarrow> View \<Rightarrow> bool" where
  "health_agrees h r v \<longleftrightarrow> hl_status h = ''healthy'' \<and> hl_node_id h = rt_id r \<and> hl_network h = modePublic \<and>
     hl_enclave h = mf_enclave (vw_manifest v)"

definition public_profile :: "Identity \<Rightarrow> View \<Rightarrow> Root \<Rightarrow> Health \<Rightarrow> gotime \<Rightarrow> Network option \<Rightarrow> bool \<Rightarrow> Network" where
  "public_profile ident v r h now previous refresh =
     (let joined = (case previous of None \<Rightarrow> now | Some p \<Rightarrow> nw_joined p);
          checked = (case previous of None \<Rightarrow> None | Some p \<Rightarrow> nw_checked p)
      in \<lparr>nw_endpoint = rt_origin r, nw_mode = modePublic, nw_discovery = discoveryHTTPS,
          nw_roots = map rt_origin (mf_roots (vw_manifest v)), nw_roots_expire = vw_expires v div nsec,
          nw_authority = ident, nw_checked = (if refresh \<or> checked = None then Some now else checked),
          nw_node_id = hl_node_id h, nw_node_network = hl_network h, nw_enclave = hl_enclave h, nw_joined = joined\<rparr>)"

text \<open>The loop over the roots; \<open>err\<close> is the last error.\<close>

fun probe_roots ::
    "soph_env \<Rightarrow> HTTPClient \<Rightarrow> View \<Rightarrow> soph_error \<Rightarrow> nat \<Rightarrow> Root list \<Rightarrow> soph_error + Root \<times> Health" where
  "probe_roots env hc v err k [] = Inl err"
| "probe_roots env hc v err k (r # rs) =
     (if ev_done env k then Inl Cancelled
      else if \<not> ev_clock env (2 * k + 1) < vw_expires v then Inl LocalError
      else case client_Health (ev_health_json env) (ev_probe env (client_New hc) k) (TrimRightSlash (rt_origin r)) of
             Inl e \<Rightarrow> probe_roots env hc v (FromClient e) (Suc k) rs
           | Inr h \<Rightarrow>
               if \<not> health_agrees h r v then probe_roots env hc v LocalError (Suc k) rs
               else if \<not> ev_clock env (2 * k + 2) < vw_expires v then Inl LocalError
               else Inr (r, h))"

definition publicNetwork ::
    "tuf_lib \<Rightarrow> soph_env \<Rightarrow> app \<Rightarrow> Network option \<Rightarrow> bool \<Rightarrow> soph_files \<Rightarrow> soph_files \<times> (soph_error + Network)" where
  "publicNetwork lib env a previous force fs =
     (let refresh = (force \<or> (case previous of None \<Rightarrow> True
                              | Some p \<Rightarrow> (case nw_checked p of None \<Rightarrow> True | Some t \<Rightarrow> ev_clock env 0 - t \<ge> RefreshInterval)))
      in case discover lib env a refresh fs of
           (fs1, Inl e) \<Rightarrow> (fs1, Inl e)
         | (fs1, Inr (ident, v)) \<Rightarrow>
             if (case previous of None \<Rightarrow> False | Some p \<Rightarrow> nw_authority p \<noteq> ident \<or> nw_enclave p \<noteq> mf_enclave (vw_manifest v))
             then (fs1, Inl LocalError)
             else case Client (Some (ev_client env)) of
                    None \<Rightarrow> (fs1, Inl LocalError)
                  | Some hc \<Rightarrow>
                      let roots = (case previous of None \<Rightarrow> mf_roots (vw_manifest v)
                                   | Some p \<Rightarrow> prefer_endpoint (nw_endpoint p) (mf_roots (vw_manifest v)))
                      in case probe_roots env hc v LocalError 0 roots of
                           Inl e \<Rightarrow> (fs1, Inl e)
                         | Inr (r, h) \<Rightarrow> (fs1, Inr (public_profile ident v r h (ev_now env) previous refresh)))"

section \<open>The network of a command\<close>

definition selected_name :: "soph_env \<Rightarrow> app \<Rightarrow> Config \<Rightarrow> string" where
  "selected_name env a cfg =
     (if ap_network a \<noteq> [] then ap_network a
      else if ev_getenv env ''SOPH_NETWORK'' \<noteq> [] then ev_getenv env ''SOPH_NETWORK'' else cf_current cfg)"

definition selectNetwork :: "soph_env \<Rightarrow> app \<Rightarrow> Config \<Rightarrow> soph_error + string \<times> Network" where
  "selectNetwork env a cfg =
     (let name = selected_name env a cfg
      in if name = [] then Inl UsageError
         else case gm_lookup (cf_networks cfg) name of None \<Rightarrow> Inl UsageError | Some n \<Rightarrow> Inr (name, n))"

record connection =
  co_name :: string
  co_network :: Network
  co_endpoint :: string
  co_client :: HTTPClient

text \<open>The end of \<open>connect\<close>: the HTTP client for the saved network.\<close>

definition open_client :: "soph_env \<Rightarrow> string \<Rightarrow> Network \<Rightarrow> soph_error + connection" where
  "open_client env name n =
     (case (if nw_discovery n = discoveryHTTPS then Client (Some (ev_client env)) else Some (ev_client env)) of
        None \<Rightarrow> Inl LocalError
      | Some hc \<Rightarrow> Inr \<lparr>co_name = name, co_network = n, co_endpoint = TrimRightSlash (nw_endpoint n), co_client = client_New hc\<rparr>)"

definition connect :: "tuf_lib \<Rightarrow> soph_env \<Rightarrow> app \<Rightarrow> soph_files \<Rightarrow> soph_files \<times> (soph_error + connection)" where
  "connect lib env a fs =
     (case app_loadConfig env a fs of
        Inl e \<Rightarrow> (fs, Inl e)
      | Inr cfg \<Rightarrow>
          (case selectNetwork env a cfg of
             Inl e \<Rightarrow> (fs, Inl e)
           | Inr (name, n) \<Rightarrow>
               if nw_mode n = modePublic \<and> nw_discovery n \<noteq> discoveryOperatorSupplied
               then (if nw_discovery n \<noteq> discoveryHTTPS then (fs, Inl UsageError)
                     else case publicNetwork lib env a (Some n) False fs of
                       (fs1, Inl e) \<Rightarrow> (fs1, Inl e)
                     | (fs1, Inr n') \<Rightarrow>
                         (case store_config env 0 (cfg\<lparr>cf_networks := gm_update name n' (cf_networks cfg)\<rparr>) fs1 of
                            (fs2, Some e) \<Rightarrow> (fs2, Inl e)
                          | (fs2, None) \<Rightarrow> (fs2, open_client env name n')))
               else (fs, open_client env name n)))"

end
