(* ===== verification/Soph_Commands.thy ===== *)
theory Soph_Commands
  imports Soph_Connect
begin

text \<open>
  The commands of \<open>soph\<close>, \<open>src/cmd/soph/commands.go\<close>. A command returns the files it leaves, what it wrote to its
  standard output and output file, and its error. The messages on standard error and the layout of reports are not modelled (\<open>OutReport\<close>).
\<close>

section \<open>Input and output\<close>

datatype out_value = VString string | VInt int | VBool bool | VKeys "string list" | VNetwork Network
  | VMeta "(string \<times> out_value) list"

datatype out_item =
    OutText string
  | OutBytes bytes
  | OutJson "(string \<times> out_value) list"
  | OutNetworks string "(string \<times> bool \<times> Network) list"
  | OutFile string bytes
  | OutReport

text \<open>
  The rest of the environment: the input, whether it is cut off by a signal, which writes to standard output
  succeed, the output file, randomness, and the printing of times and documents.
\<close>

record soph_io =
  io_stdin :: "bytes option"
  io_file :: "string \<Rightarrow> bytes option"
  io_stopped :: bool
  io_write :: "nat \<Rightarrow> bool"
  io_create :: bool
  io_random :: "nat list option"
  io_utc :: "string \<Rightarrow> string"
  io_health :: "Health \<Rightarrow> bytes"
  io_indent :: "bytes \<Rightarrow> bytes option"

type_synonym outcome = "soph_files \<times> out_item list \<times> soph_error option"

fun emit_from :: "soph_io \<Rightarrow> nat \<Rightarrow> out_item list \<Rightarrow> out_item list \<times> soph_error option" where
  "emit_from io k [] = ([], None)"
| "emit_from io k (x # xs) =
     (if io_write io k then (case emit_from io (Suc k) xs of (ys, e) \<Rightarrow> (x # ys, e)) else ([], Some LocalError))"

definition emit :: "soph_io \<Rightarrow> out_item list \<Rightarrow> soph_files \<Rightarrow> outcome" where
  "emit io xs fs = (case emit_from io 0 xs of (ys, e) \<Rightarrow> (fs, ys, e))"

definition fails :: "soph_error \<Rightarrow> soph_files \<Rightarrow> outcome" where
  "fails e fs = (fs, [], Some e)"

definition cli_parse :: "(string, flag_value) gomap \<Rightarrow> string list \<Rightarrow> soph_error + FlagSet \<times> string list" where
  "cli_parse defaults args =
     (case parseInterspersed (NewFlagSet defaults) args of
        Inl ErrHelp \<Rightarrow> Inl HelpRequested
      | Inl ErrFlag \<Rightarrow> Inl UsageError
      | Inr r \<Rightarrow> Inr r)"

definition readInput :: "soph_io \<Rightarrow> string \<Rightarrow> soph_error + bytes" where
  "readInput io path =
     (if io_stopped io then Inl Cancelled
      else case (if path \<noteq> [] then io_file io path else io_stdin io) of None \<Rightarrow> Inl LocalError | Some data \<Rightarrow> Inr data)"

definition metadataJSON :: "soph_io \<Rightarrow> Metadata \<Rightarrow> (string \<times> out_value) list" where
  "metadataJSON io m =
     [(''key'', VString (md_key m)), (''created_at'', VString (io_utc io (md_created m))),
      (''ttl_seconds'', VInt (int_seconds (md_original m))), (''remaining_seconds'', VInt (int_seconds (md_remaining m)))]"

section \<open>Networks\<close>

definition probe :: "soph_env \<Rightarrow> string \<Rightarrow> soph_error + Health" where
  "probe env endpoint =
     (case client_Health (ev_health_json env) (ev_http env (client_New (ev_client env)) 0) (TrimRightSlash endpoint) of
        Inl e \<Rightarrow> Inl (FromClient e)
      | Inr h \<Rightarrow>
          if hl_status h \<noteq> ''healthy'' then Inl LocalError
          else if TrimSpace (hl_node_id h) = [] \<or> TrimSpace (hl_enclave h) = [] \<or>
                  (hl_network h \<noteq> modePrivate \<and> hl_network h \<noteq> modePublic) then Inl LocalError
          else Inr h)"

definition joined_network :: "string \<Rightarrow> Health \<Rightarrow> gotime \<Rightarrow> bool \<Rightarrow> Network" where
  "joined_network endpoint h now public =
     \<lparr>nw_endpoint = endpoint, nw_mode = (if public then modePublic else modePrivate),
      nw_discovery = (if public then discoveryOperatorSupplied else []), nw_roots = [], nw_roots_expire = 0,
      nw_authority = no_identity, nw_checked = None, nw_node_id = hl_node_id h, nw_node_network = hl_network h,
      nw_enclave = hl_enclave h, nw_joined = now\<rparr>"

text \<open>The switch of \<open>cmdJoin\<close>: the label and the network.\<close>

definition join_target ::
    "tuf_lib \<Rightarrow> soph_env \<Rightarrow> app \<Rightarrow> string list \<Rightarrow> string \<Rightarrow> bool \<Rightarrow> soph_files \<Rightarrow> soph_files \<times> (soph_error + string \<times> Network)" where
  "join_target lib env a pos name public fs =
     (case pos of
        [] \<Rightarrow>
          (case publicNetwork lib env a None True fs of
             (fs1, Inl e) \<Rightarrow> (fs1, Inl e)
           | (fs1, Inr n) \<Rightarrow> (fs1, Inr (if name \<noteq> [] then name else ''public'', n)))
      | p # _ \<Rightarrow>
          (case Normalize p of
             None \<Rightarrow> (fs, Inl UsageError)
           | Some endpoint \<Rightarrow>
               (case probe env endpoint of
                  Inl e \<Rightarrow> (fs, Inl e)
                | Inr h \<Rightarrow>
                    (fs, Inr (if name \<noteq> [] then name else defaultNetworkName endpoint,
                              joined_network endpoint h (ev_now env) public)))))"

definition cmdJoin :: "tuf_lib \<Rightarrow> soph_env \<Rightarrow> soph_io \<Rightarrow> app \<Rightarrow> string list \<Rightarrow> soph_files \<Rightarrow> outcome" where
  "cmdJoin lib env io a args fs =
     (case cli_parse [(''name'', StringValue []), (''public'', BoolValue False)] args of
        Inl e \<Rightarrow> fails e fs
      | Inr (flags, pos) \<Rightarrow>
          let name = string_of flags ''name''
          in if length pos > 1 \<or> (name \<noteq> [] \<and> \<not> validateNetworkName name) then fails UsageError fs
             else case app_loadConfig env a fs of
               Inl e \<Rightarrow> fails e fs
             | Inr cfg \<Rightarrow>
                 (case join_target lib env a pos name (bool_of flags ''public'') fs of
                    (fs1, Inl e) \<Rightarrow> fails e fs1
                  | (fs1, Inr (label, n)) \<Rightarrow>
                      (case store_config env 0 \<lparr>cf_current = label, cf_networks = gm_update label n (cf_networks cfg)\<rparr> fs1 of
                         (fs2, Some e) \<Rightarrow> fails e fs2
                       | (fs2, None) \<Rightarrow>
                           emit io [if ap_json a then OutJson [(''name'', VString label), (''current'', VBool True), (''network'', VNetwork n)]
                                    else OutReport] fs2)))"

definition cmdUse :: "soph_env \<Rightarrow> soph_io \<Rightarrow> app \<Rightarrow> string list \<Rightarrow> soph_files \<Rightarrow> outcome" where
  "cmdUse env io a args fs =
     (case cli_parse [] args of
        Inl e \<Rightarrow> fails e fs
      | Inr (_, pos) \<Rightarrow>
          if length pos \<noteq> 1 then fails UsageError fs
          else case app_loadConfig env a fs of
            Inl e \<Rightarrow> fails e fs
          | Inr cfg \<Rightarrow>
              (case gm_lookup (cf_networks cfg) (hd pos) of
                 None \<Rightarrow> fails UsageError fs
               | Some n \<Rightarrow>
                   (case store_config env 0 (cfg\<lparr>cf_current := hd pos\<rparr>) fs of
                      (fs1, Some e) \<Rightarrow> fails e fs1
                    | (fs1, None) \<Rightarrow>
                        emit io [if ap_json a then OutJson [(''name'', VString (hd pos)), (''current'', VBool True), (''network'', VNetwork n)]
                                 else OutReport] fs1)))"

definition network_entries :: "Config \<Rightarrow> (string \<times> bool \<times> Network) list" where
  "network_entries cfg =
     List.map_filter (\<lambda>name. map_option (\<lambda>n. (name, name = cf_current cfg, n)) (gm_lookup (cf_networks cfg) name)) (Names cfg)"

definition cmdNetworks :: "soph_env \<Rightarrow> soph_io \<Rightarrow> app \<Rightarrow> string list \<Rightarrow> soph_files \<Rightarrow> outcome" where
  "cmdNetworks env io a args fs =
     (case cli_parse [] args of
        Inl e \<Rightarrow> fails e fs
      | Inr (_, pos) \<Rightarrow>
          if pos \<noteq> [] then fails UsageError fs
          else case app_loadConfig env a fs of
            Inl e \<Rightarrow> fails e fs
          | Inr cfg \<Rightarrow>
              if ap_json a then emit io [OutNetworks (cf_current cfg) (network_entries cfg)] fs
              else if cf_networks cfg = [] then emit io [OutReport] fs
              else emit io (map (\<lambda>entry. OutNetworks [] [entry]) (network_entries cfg)) fs)"

definition cmdForget :: "soph_env \<Rightarrow> soph_io \<Rightarrow> app \<Rightarrow> string list \<Rightarrow> soph_files \<Rightarrow> outcome" where
  "cmdForget env io a args fs =
     (case cli_parse [] args of
        Inl e \<Rightarrow> fails e fs
      | Inr (_, pos) \<Rightarrow>
          if length pos \<noteq> 1 then fails UsageError fs
          else case app_loadConfig env a fs of
            Inl e \<Rightarrow> fails e fs
          | Inr cfg \<Rightarrow>
              if gm_lookup (cf_networks cfg) (hd pos) = None then fails UsageError fs
              else let cfg' = \<lparr>cf_current = (if cf_current cfg = hd pos then [] else cf_current cfg),
                               cf_networks = gm_delete (hd pos) (cf_networks cfg)\<rparr>
                   in case store_config env 0 cfg' fs of
                        (fs1, Some e) \<Rightarrow> fails e fs1
                      | (fs1, None) \<Rightarrow>
                          emit io (if ap_json a then [OutJson [(''forgot'', VString (hd pos)), (''current'', VString (cf_current cfg'))]]
                                   else OutReport # (if cf_current cfg' = [] then [OutReport] else [])) fs1)"

section \<open>Data\<close>

definition quorum_text :: "WriteStatus \<Rightarrow> string" where
  "quorum_text st = (case st of WriteConfirmed \<Rightarrow> ''confirmed'' | WritePending \<Rightarrow> ''pending'')"

text \<open>What \<open>put\<close> prints: the key alone, or the JSON object with what the node now reports for the key.\<close>

definition put_output ::
    "soph_io \<Rightarrow> app \<Rightarrow> string \<Rightarrow> bool \<Rightarrow> bytes \<Rightarrow> int \<Rightarrow> PutResult \<Rightarrow> connection \<Rightarrow> Metadata option \<Rightarrow> out_item" where
  "put_output io a key generated data ttl res c observed =
     (if ap_json a
      then OutJson ([(''key'', VString key), (''generated_key'', VBool generated), (''bytes'', VInt (int (length data))),
                     (''quorum_status'', VString (quorum_text (pr_status res))), (''network'', VString (co_name c)),
                     (''endpoint'', VString (nw_endpoint (co_network c)))]
                    @ (if ttl > 0 then [(''ttl_requested'', VInt ttl)] else [])
                    @ (case observed of None \<Rightarrow> [] | Some m \<Rightarrow> [(''observed_current_key'', VMeta (metadataJSON io m))]))
      else OutText (key @ [CHR 0x0A]))"

text \<open>After the flags: the request is sent once the input is complete, and the observation is a request of its own.\<close>

definition put_value ::
    "tuf_lib \<Rightarrow> soph_env \<Rightarrow> soph_io \<Rightarrow> app \<Rightarrow> string \<Rightarrow> bool \<Rightarrow> int \<Rightarrow> string \<Rightarrow> bool \<Rightarrow> soph_files \<Rightarrow> outcome" where
  "put_value lib env io a key generated ttl path require fs =
     (case connect lib env a fs of
        (fs1, Inl e) \<Rightarrow> fails e fs1
      | (fs1, Inr c) \<Rightarrow>
          (case readInput io path of
             Inl e \<Rightarrow> fails e fs1
           | Inr data \<Rightarrow>
               (case client_Put (ev_http env (co_client c) 0) (co_endpoint c) key data ttl of
                  Inl e \<Rightarrow> fails (FromClient e) fs1
                | Inr res \<Rightarrow>
                    let observed = (case client_Exists (ev_valid_time env) (ev_http env (co_client c) 1) (co_endpoint c) key of
                                      Inl _ \<Rightarrow> None | Inr m \<Rightarrow> Some m)
                    in case emit io [put_output io a key generated data ttl res c observed] fs1 of
                         (fs2, out, Some e) \<Rightarrow> (fs2, out, Some e)
                       | (fs2, out, None) \<Rightarrow>
                           (fs2, out, if require \<and> pr_status res \<noteq> WriteConfirmed then Some PendingError else None))))"

definition cmdPut :: "tuf_lib \<Rightarrow> soph_env \<Rightarrow> soph_io \<Rightarrow> app \<Rightarrow> string list \<Rightarrow> soph_files \<Rightarrow> outcome" where
  "cmdPut lib env io a args fs =
     (case cli_parse [(''ttl'', IntValue 0), (''file'', StringValue []), (''require-confirmed'', BoolValue False)] args of
        Inl e \<Rightarrow> fails e fs
      | Inr (flags, pos) \<Rightarrow>
          if length pos > 1 \<or> int_of flags ''ttl'' < 0 \<or> pos = [[]] then fails UsageError fs
          else put_value lib env io a (case pos of [] \<Rightarrow> newKey (io_random io) (ev_now env) | k # _ \<Rightarrow> k) (pos = [])
                 (int_of flags ''ttl'') (string_of flags ''file'') (bool_of flags ''require-confirmed'') fs)"

definition get_output :: "soph_io \<Rightarrow> app \<Rightarrow> string \<Rightarrow> Metadata \<times> bytes \<Rightarrow> soph_files \<Rightarrow> outcome" where
  "get_output io a path val fs =
     (case val of (m, data) \<Rightarrow>
        if path \<noteq> []
        then (if \<not> io_create io then fails LocalError fs
              else if ap_json a
              then (case emit io [OutJson (metadataJSON io m @ [(''bytes'', VInt (int (length data))), (''output'', VString path)])] fs of
                      (fs1, out, e) \<Rightarrow> (fs1, OutFile path data # out, e))
              else (fs, [OutFile path data], None))
        else if ap_json a
        then emit io [OutJson (metadataJSON io m @ [(''bytes'', VInt (int (length data))), (''encoding'', VString ''base64''),
                        (''value_base64'', VString (b64_encode data))])] fs
        else emit io [OutBytes data] fs)"

definition cmdGet :: "tuf_lib \<Rightarrow> soph_env \<Rightarrow> soph_io \<Rightarrow> app \<Rightarrow> string list \<Rightarrow> soph_files \<Rightarrow> outcome" where
  "cmdGet lib env io a args fs =
     (case cli_parse [(''output'', StringValue [])] args of
        Inl e \<Rightarrow> fails e fs
      | Inr (flags, pos) \<Rightarrow>
          if length pos \<noteq> 1 then fails UsageError fs
          else case connect lib env a fs of
            (fs1, Inl e) \<Rightarrow> fails e fs1
          | (fs1, Inr c) \<Rightarrow>
              (case client_Get (ev_valid_time env) (ev_http env (co_client c) 0) (co_endpoint c) (hd pos) of
                 Inl e \<Rightarrow> fails (FromClient e) fs1
               | Inr val \<Rightarrow> get_output io a (string_of flags ''output'') val fs1))"

definition cmdExists :: "tuf_lib \<Rightarrow> soph_env \<Rightarrow> soph_io \<Rightarrow> app \<Rightarrow> string list \<Rightarrow> soph_files \<Rightarrow> outcome" where
  "cmdExists lib env io a args fs =
     (case cli_parse [] args of
        Inl e \<Rightarrow> fails e fs
      | Inr (_, pos) \<Rightarrow>
          if length pos \<noteq> 1 then fails UsageError fs
          else case connect lib env a fs of
            (fs1, Inl e) \<Rightarrow> fails e fs1
          | (fs1, Inr c) \<Rightarrow>
              (case client_Exists (ev_valid_time env) (ev_http env (co_client c) 0) (co_endpoint c) (hd pos) of
                 Inl e \<Rightarrow>
                   (if e = ErrNotFound \<and> ap_json a
                    then (case emit io [OutJson [(''key'', VString (hd pos)), (''exists'', VBool False),
                                                 (''endpoint'', VString (nw_endpoint (co_network c)))]] fs1 of
                            (fs2, out, Some w) \<Rightarrow> (fs2, out, Some w)
                          | (fs2, out, None) \<Rightarrow> (fs2, out, Some (FromClient e)))
                    else fails (FromClient e) fs1)
               | Inr m \<Rightarrow>
                   emit io [if ap_json a
                            then OutJson (metadataJSON io m @ [(''exists'', VBool True), (''endpoint'', VString (nw_endpoint (co_network c)))])
                            else OutText (hd pos @ [CHR 0x09] @ ''remaining '' @ Itoa (int_seconds (md_remaining m)) @ ''s of ''
                                   @ Itoa (int_seconds (md_original m)) @ ''s'' @ [CHR 0x09] @ ''created '' @ io_utc io (md_created m) @ [CHR 0x0A])] fs1))"

text \<open>The page of \<open>list\<close>, \<open>None\<close> if the walk over all pages does not end; a request per page.\<close>

definition list_page :: "soph_env \<Rightarrow> connection \<Rightarrow> string \<Rightarrow> int \<Rightarrow> string \<Rightarrow> bool \<Rightarrow> (client_error + KeyPage) option" where
  "list_page env c pfx limit cursor everything =
     (let request = (\<lambda>k. client_ListKeys (ev_keys_json env) (ev_http env (co_client c) k) (co_endpoint c) pfx)
      in if everything
         then map_option (\<lambda>r. case r of Inl e \<Rightarrow> Inl e | Inr keys \<Rightarrow> Inr \<lparr>kp_keys = keys, kp_next = []\<rparr>)
                (list_pages (\<lambda>k cur. request k (if limit = 0 then 1000 else limit) cur) 0 [] [])
         else Some (request 0 limit cursor))"

definition list_output :: "soph_io \<Rightarrow> app \<Rightarrow> connection \<Rightarrow> KeyPage \<Rightarrow> soph_files \<Rightarrow> outcome" where
  "list_output io a c page fs =
     (if ap_json a
      then emit io [OutJson ([(''keys'', VKeys (kp_keys page)), (''endpoint'', VString (nw_endpoint (co_network c)))]
                      @ (if kp_next page \<noteq> [] then [(''next_cursor'', VString (kp_next page))] else []))] fs
      else emit io (map (\<lambda>k. OutText (k @ [CHR 0x0A])) (kp_keys page)) fs)"

definition cmdList :: "tuf_lib \<Rightarrow> soph_env \<Rightarrow> soph_io \<Rightarrow> app \<Rightarrow> string list \<Rightarrow> soph_files \<Rightarrow> outcome option" where
  "cmdList lib env io a args fs =
     (case cli_parse [(''prefix'', StringValue []), (''limit'', IntValue 0), (''cursor'', StringValue []), (''all'', BoolValue False)] args of
        Inl e \<Rightarrow> Some (fails e fs)
      | Inr (flags, pos) \<Rightarrow>
          let limit = int_of flags ''limit''; cursor = string_of flags ''cursor''; everything = bool_of flags ''all''
          in if pos \<noteq> [] \<or> limit < 0 \<or> (everything \<and> cursor \<noteq> []) then Some (fails UsageError fs)
             else case connect lib env a fs of
               (fs1, Inl e) \<Rightarrow> Some (fails e fs1)
             | (fs1, Inr c) \<Rightarrow>
                 map_option (\<lambda>r. case r of Inl e \<Rightarrow> fails (FromClient e) fs1 | Inr page \<Rightarrow> list_output io a c page fs1)
                   (list_page env c (string_of flags ''prefix'') limit cursor everything))"

section \<open>Diagnostics\<close>

definition cmdDiagnostic :: "tuf_lib \<Rightarrow> soph_env \<Rightarrow> soph_io \<Rightarrow> app \<Rightarrow> string \<Rightarrow> string list \<Rightarrow> soph_files \<Rightarrow> outcome" where
  "cmdDiagnostic lib env io a which args fs =
     (case cli_parse [] args of
        Inl e \<Rightarrow> fails e fs
      | Inr (_, pos) \<Rightarrow>
          if pos \<noteq> [] then fails UsageError fs
          else case connect lib env a fs of
            (fs1, Inl e) \<Rightarrow> fails e fs1
          | (fs1, Inr c) \<Rightarrow>
              let http = ev_http env (co_client c) 0
              in case (if which = ''health'' then map_sum FromClient (io_health io) (client_Health (ev_health_json env) http (co_endpoint c))
                       else map_sum FromClient (\<lambda>x. x) (getRaw http (co_endpoint c @ ''/v1/'' @ which))) of
                   Inl e \<Rightarrow> fails e fs1
                 | Inr raw \<Rightarrow>
                     if which = ''metrics'' then emit io [OutBytes raw] fs1
                     else if ap_json a then emit io [OutBytes (TrimSpace raw @ [CHR 0x0A])] fs1
                     else emit io [OutBytes (case io_indent io (TrimSpace raw) of None \<Rightarrow> raw | Some doc \<Rightarrow> doc @ [CHR 0x0A])] fs1)"

definition cmdVersion :: "soph_io \<Rightarrow> string list \<Rightarrow> soph_files \<Rightarrow> outcome" where
  "cmdVersion io args fs =
     (case cli_parse [] args of
        Inl e \<Rightarrow> fails e fs
      | Inr (_, pos) \<Rightarrow> if pos \<noteq> [] then fails UsageError fs else emit io [OutReport] fs)"

end
