(* ===== verification/Soph_Serve.thy ===== *)
theory Soph_Serve
  imports Soph_Commands
begin

text \<open>
  The local viewer, \<open>src/cmd/soph/serve.go\<close> and \<open>viewer_discovery.go\<close>: the choice of the node, the lease under which
  requests of the browser are passed on, its renewal from signed discovery, and the handler. The lease's context is
  a number that changes whenever the context is cancelled, with its deadline.
\<close>

section \<open>The lease\<close>

record viewerLease =
  vl_target :: "string option"
  vl_deadline :: "gotime option"
  vl_context :: nat

definition lease_clear :: "viewerLease \<Rightarrow> viewerLease" where
  "lease_clear l = l\<lparr>vl_target := None, vl_context := Suc (vl_context l)\<rparr>"

definition lease_set :: "Network \<Rightarrow> viewerLease \<Rightarrow> viewerLease" where
  "lease_set n l =
     \<lparr>vl_target = (if url_parse (nw_endpoint n) = None then None else Some (nw_endpoint n)),
      vl_deadline = (if nw_discovery n = discoveryHTTPS then Some (nw_roots_expire n * nsec) else None),
      vl_context = Suc (vl_context l)\<rparr>"

definition lease_open :: "gotime \<Rightarrow> viewerLease \<Rightarrow> bool" where
  "lease_open now l = (case vl_deadline l of None \<Rightarrow> True | Some d \<Rightarrow> now < d)"

definition lease_current :: "gotime \<Rightarrow> viewerLease \<Rightarrow> (string \<times> nat) option" where
  "lease_current now l =
     (case vl_target l of None \<Rightarrow> None | Some t \<Rightarrow> if lease_open now l then Some (t, vl_context l) else None)"

text \<open>A stream that was opened under a context ends with it.\<close>

definition stream_alive :: "gotime \<Rightarrow> viewerLease \<Rightarrow> string \<times> nat \<Rightarrow> bool" where
  "stream_alive now l s \<longleftrightarrow> vl_context l = snd s \<and> lease_open now l"

definition refresh_delay :: "int \<Rightarrow> gotime \<Rightarrow> duration" where
  "refresh_delay expires now = min RefreshInterval (max nsec (go_quot (expires * nsec - now) 2))"

section \<open>Renewal\<close>

record viewer_state =
  vt_files :: soph_files
  vt_lease :: viewerLease
  vt_selected :: Network
  vt_delay :: duration

definition viewer_start :: "Network \<Rightarrow> gotime \<Rightarrow> soph_files \<Rightarrow> viewer_state" where
  "viewer_start n now fs =
     \<lparr>vt_files = fs, vt_lease = lease_set n \<lparr>vl_target = None, vl_deadline = None, vl_context = 0\<rparr>, vt_selected = n,
      vt_delay = refresh_delay (nw_roots_expire n) now\<rparr>"

text \<open>
  The loop of \<open>refreshViewer\<close> in its two parts: the lease is withdrawn before the network is asked, and set again only
  by a discovery that succeeds. \<open>VStop\<close> is the end of the process's context.
\<close>

datatype viewer_event = VWithdraw | VDiscovered soph_env | VStop

fun viewer_step :: "tuf_lib \<Rightarrow> app \<Rightarrow> viewer_event \<Rightarrow> viewer_state \<Rightarrow> viewer_state" where
  "viewer_step lib a VWithdraw s = s\<lparr>vt_lease := lease_clear (vt_lease s)\<rparr>"
| "viewer_step lib a (VDiscovered env) s =
     (case publicNetwork lib env a (Some (vt_selected s)) True (vt_files s) of
        (fs, Inl _) \<Rightarrow> s\<lparr>vt_files := fs, vt_delay := RetryMin\<rparr>
      | (fs, Inr n) \<Rightarrow>
          s\<lparr>vt_files := fs, vt_lease := lease_set n (vt_lease s), vt_selected := n,
            vt_delay := refresh_delay (nw_roots_expire n) (ev_now env)\<rparr>)"
| "viewer_step lib a VStop s = s\<lparr>vt_lease := lease_clear (vt_lease s)\<rparr>"

definition viewer_run :: "tuf_lib \<Rightarrow> app \<Rightarrow> viewer_event list \<Rightarrow> viewer_state \<Rightarrow> viewer_state" where
  "viewer_run lib a es s = foldl (\<lambda>s e. viewer_step lib a e s) s es"

section \<open>The handler\<close>

text \<open>A request of the browser with its decoded path and that path as it was written; the query and every header
  but \<open>Accept\<close> are dropped on the way to the node.\<close>

record viewer_request =
  vr_method :: string
  vr_path :: string
  vr_escaped :: string
  vr_query :: string
  vr_accept :: string

record proxied =
  px_url :: string
  px_accept :: string
  px_agent :: string
  px_context :: nat

datatype viewer_reply =
    VError int
  | VConfig "(string \<times> string) option"
  | VProxy proxied
  | VAssets string

definition serveViewerHandler :: "string \<Rightarrow> gotime \<Rightarrow> viewerLease \<Rightarrow> viewer_request \<Rightarrow> viewer_reply" where
  "serveViewerHandler query now l r =
     (if vr_path r = ''/config.json''
      then (if vr_method r \<noteq> ''GET'' \<and> vr_method r \<noteq> ''HEAD'' then VError 405
            else case lease_current now l of
              None \<Rightarrow> VError 503
            | Some (target, _) \<Rightarrow> VConfig (if vr_method r = ''GET'' then Some (target, query) else None))
      else if vr_path r = ''/v1/stream'' \<or> HasPrefix (vr_path r) ''/v1/data/''
      then (if vr_method r \<noteq> ''GET'' then VError 405
            else case lease_current now l of
              None \<Rightarrow> VError 503
            | Some (target, context) \<Rightarrow>
                VProxy \<lparr>px_url = target @ vr_escaped r, px_accept = vr_accept r, px_agent = ''soph'', px_context = context\<rparr>)
      else VAssets (vr_path r))"

text \<open>\<open>ModifyResponse\<close>: a redirect of the node becomes an error of the proxy; the flag is \<open>Set-Cookie\<close>.\<close>

definition modifyResponse :: "int \<Rightarrow> bool \<Rightarrow> int \<times> bool" where
  "modifyResponse status cookie = (if 300 \<le> status \<and> status < 400 then (502, False) else (status, False))"

section \<open>The command\<close>

text \<open>The address the listener got, the events of the viewer, and how serving ends.\<close>

record serve_env =
  sv_listen :: "(string \<times> string) option"
  sv_events :: "viewer_event list"
  sv_ends_well :: bool

definition unspecified_ip :: "string \<Rightarrow> bool" where
  "unspecified_ip host \<longleftrightarrow>
     parse_ipv4 host = Some [0, 0, 0, 0] \<or> parse_ipv6 host = Some (replicate 8 0) \<or>
     parse_ipv6 host = Some (replicate 5 0 @ [65535, 0, 0])"

definition viewer_link :: "string \<times> string \<Rightarrow> string \<Rightarrow> string \<Rightarrow> string" where
  "viewer_link addr endpoint query =
     (let host = (if unspecified_ip (fst addr) then ''localhost'' else fst addr)
      in ''http://'' @ JoinHostPort host (snd addr) @ ''/?node='' @ QueryEscape endpoint
           @ (if query \<noteq> [] then ''&q='' @ QueryEscape query else []))"

definition bare_network :: "string \<Rightarrow> Network" where
  "bare_network endpoint =
     \<lparr>nw_endpoint = endpoint, nw_mode = [], nw_discovery = [], nw_roots = [], nw_roots_expire = 0, nw_authority = no_identity,
      nw_checked = None, nw_node_id = [], nw_node_network = [], nw_enclave = [], nw_joined = 0\<rparr>"

definition serveSelection ::
    "tuf_lib \<Rightarrow> soph_env \<Rightarrow> app \<Rightarrow> string \<Rightarrow> soph_files \<Rightarrow> soph_files \<times> (soph_error + Network)" where
  "serveSelection lib env a override fs =
     (if override \<noteq> []
      then (fs, case Normalize override of None \<Rightarrow> Inl UsageError | Some e \<Rightarrow> Inr (bare_network e))
      else case app_loadConfig env a fs of
        Inl e \<Rightarrow> (fs, Inl e)
      | Inr cfg \<Rightarrow>
          if selected_name env a cfg = []
          then (fs, case Normalize ''localhost'' of None \<Rightarrow> Inl LocalError | Some e \<Rightarrow> Inr (bare_network e))
          else case connect lib env a fs of (fs1, Inl e) \<Rightarrow> (fs1, Inl e) | (fs1, Inr c) \<Rightarrow> (fs1, Inr (co_network c)))"

definition cmdServe ::
    "tuf_lib \<Rightarrow> soph_env \<Rightarrow> soph_io \<Rightarrow> serve_env \<Rightarrow> app \<Rightarrow> string list \<Rightarrow> soph_files \<Rightarrow> outcome" where
  "cmdServe lib env io sv a args fs =
     (case cli_parse [(''node'', StringValue []), (''port'', IntValue 8181), (''bind'', StringValue ''127.0.0.1''),
                      (''q'', StringValue []), (''open'', BoolValue False)] args of
        Inl e \<Rightarrow> fails e fs
      | Inr (flags, pos) \<Rightarrow>
          if pos \<noteq> [] \<or> int_of flags ''port'' < 0 \<or> int_of flags ''port'' > 65535 \<or> string_of flags ''bind'' = []
          then fails UsageError fs
          else case serveSelection lib env a (string_of flags ''node'') fs of
            (fs1, Inl e) \<Rightarrow> fails e fs1
          | (fs1, Inr n) \<Rightarrow>
              (case probe env (nw_endpoint n) of
                 Inl e \<Rightarrow> fails e fs1
               | Inr h \<Rightarrow>
                   (case sv_listen sv of
                      None \<Rightarrow> fails LocalError fs1
                    | Some addr \<Rightarrow>
                        let link = viewer_link addr (nw_endpoint n) (string_of flags ''q'')
                        in case emit io [if ap_json a
                                         then OutJson [(''url'', VString link), (''endpoint'', VString (nw_endpoint n)),
                                                       (''node'', VString (hl_node_id h)), (''enclave'', VString (hl_enclave h))]
                                         else OutText (link @ [CHR 0x0A])] fs1 of
                             (fs2, out, Some e) \<Rightarrow> (fs2, out, Some e)
                           | (fs2, out, None) \<Rightarrow>
                               let s = viewer_run lib a (if nw_discovery n = discoveryHTTPS then sv_events sv else []) (viewer_start n (ev_now env) fs2)
                               in if nw_discovery n = discoveryHTTPS \<and> Client (Some (ev_client env)) = None
                                  then (vt_files s, out, Some LocalError)
                                  else (vt_files s, out, if sv_ends_well sv then None else Some LocalError))))"

end
