(* ===== verification/Soph_Run.thy ===== *)
theory Soph_Run
  imports Soph_Serve
begin

text \<open>
  The entry of the command line client, \<open>run\<close> of \<open>src/cmd/soph/main.go\<close>: global flags, the choice of the command, help,
  and exit codes.
\<close>

section \<open>Dispatch\<close>

definition defaultTimeout :: duration where "defaultTimeout = 15 * nsec"

text \<open>The global flags; \<open>-h\<close> and \<open>--help\<close> set the same variable.\<close>

definition global_flags :: FlagSet where
  "global_flags =
     \<lparr>fs_formal = [(''network'', StringFlag, ''network''), (''json'', BoolFlag, ''json''), (''timeout'', DurationFlag, ''timeout''),
                   (''config'', StringFlag, ''config''), (''help'', BoolFlag, ''help''), (''h'', BoolFlag, ''help'')],
      fs_vars = [(''network'', StringValue []), (''json'', BoolValue False), (''timeout'', DurationValue defaultTimeout),
                 (''config'', StringValue []), (''help'', BoolValue False)],
      fs_actual = []\<rparr>"

definition app_of :: "FlagSet \<Rightarrow> app" where
  "app_of fs = \<lparr>ap_config = string_of fs ''config'', ap_network = string_of fs ''network'', ap_json = bool_of fs ''json'',
     ap_timeout = duration_of fs ''timeout''\<rparr>"

text \<open>\<open>omega\<close> stands for the operator tool behind the command of that name.\<close>

definition soph_dispatch ::
    "serve_env \<Rightarrow> (app \<Rightarrow> string list \<Rightarrow> soph_files \<Rightarrow> outcome) \<Rightarrow>
       tuf_lib \<Rightarrow> soph_env \<Rightarrow> soph_io \<Rightarrow> app \<Rightarrow> string \<Rightarrow> string list \<Rightarrow> soph_files \<Rightarrow> outcome option" where
  "soph_dispatch sv omega lib env io a cmd args fs =
     (if List.member [''help'', ''-h'', ''--help''] cmd then Some (emit io [OutReport] fs)
      else if cmd = ''join'' then Some (cmdJoin lib env io a args fs)
      else if cmd = ''use'' then Some (cmdUse env io a args fs)
      else if cmd = ''networks'' then Some (cmdNetworks env io a args fs)
      else if cmd = ''forget'' then Some (cmdForget env io a args fs)
      else if cmd = ''put'' then Some (cmdPut lib env io a args fs)
      else if cmd = ''get'' then Some (cmdGet lib env io a args fs)
      else if cmd = ''exists'' \<or> cmd = ''head'' then Some (cmdExists lib env io a args fs)
      else if cmd = ''list'' then cmdList lib env io a args fs
      else if cmd = ''serve'' then Some (cmdServe lib env io sv a args fs)
      else if cmd = ''omega'' then Some (omega a args fs)
      else if List.member [''health'', ''status'', ''topology'', ''metrics''] cmd then Some (cmdDiagnostic lib env io a cmd args fs)
      else if cmd = ''version'' then Some (cmdVersion io args fs)
      else Some (fails UsageError fs))"

text \<open>The end of \<open>run\<close>: help that a command asks for is printed, and the error becomes the exit code.\<close>

definition finish_run :: "soph_io \<Rightarrow> outcome \<Rightarrow> soph_files \<times> out_item list \<times> int" where
  "finish_run io r =
     (case r of
        (fs, out, Some HelpRequested) \<Rightarrow>
          (case emit io [OutReport] fs of (fs1, out1, e) \<Rightarrow> (fs1, out @ out1, (case e of None \<Rightarrow> exitOK | Some e \<Rightarrow> exitCodeFor e)))
      | (fs, out, Some e) \<Rightarrow> (fs, out, exitCodeFor e)
      | (fs, out, None) \<Rightarrow> (fs, out, exitOK))"

definition soph_run ::
    "serve_env \<Rightarrow> (app \<Rightarrow> string list \<Rightarrow> soph_files \<Rightarrow> outcome) \<Rightarrow>
       tuf_lib \<Rightarrow> soph_env \<Rightarrow> soph_io \<Rightarrow> string list \<Rightarrow> soph_files \<Rightarrow> (soph_files \<times> out_item list \<times> int) option" where
  "soph_run sv omega lib env io args fs =
     (case FlagSet_Parse global_flags args of
        Inl _ \<Rightarrow> Some (fs, [], exitCodeFor UsageError)
      | Inr (flags, rest) \<Rightarrow>
          if bool_of flags ''help'' \<or> rest = []
          then (case emit io [OutReport] fs of
                  (fs1, out, Some e) \<Rightarrow> Some (fs1, out, exitCodeFor e)
                | (fs1, out, None) \<Rightarrow> Some (fs1, out, if \<not> bool_of flags ''help'' then exitCodeFor UsageError else exitOK))
          else if duration_of flags ''timeout'' \<le> 0 then Some (fs, [], exitCodeFor UsageError)
          else if hd rest = ''help'' \<and> length rest > 2 then Some (fs, [], exitCodeFor UsageError)
          else let (cmd, cargs) = (if hd rest = ''help'' \<and> length rest = 2 then (rest ! 1, [''--help'']) else (hd rest, tl rest))
               in map_option (finish_run io) (soph_dispatch sv omega lib env io (app_of flags) cmd cargs fs))"

end
