(* ===== verification/Soph_Connect_Facts.thy ===== *)
theory Soph_Connect_Facts
  imports Soph_Connect
begin

text \<open>
  What connecting promises: the trust state beside the config file stays sound, a discovered view is one this state
  authorises, and the node of a public profile is a root of that view.
\<close>

section \<open>The trust state\<close>

definition normal_bundle :: "Bundle \<Rightarrow> Bundle" where
  "normal_bundle b = b\<lparr>bd_repository := (case httpsRepository (bd_repository b) of None \<Rightarrow> [] | Some l \<Rightarrow> l)\<rparr>"

text \<open>Whatever loads was accepted under the metadata in force; a directory that does not load is refused.\<close>

definition loads_sound :: "tuf_lib \<Rightarrow> Bundle \<Rightarrow> state_dir \<Rightarrow> bool" where
  "loads_sound lib b dir \<longleftrightarrow> (\<forall>st. load lib b dir = Inr st \<longrightarrow> authority_inv st)"

definition trust_ok :: "tuf_lib \<Rightarrow> discover_env \<Rightarrow> soph_files \<Rightarrow> bool" where
  "trust_ok lib de fs \<longleftrightarrow>
     (\<forall>b dir. de_bundle de = GoodBundle b \<longrightarrow> sf_trust fs = Some dir \<longrightarrow> loads_sound lib (normal_bundle b) dir)"

lemma loads_sound_empty: "loads_sound lib b empty_dir"
  by (simp add: loads_sound_def load_def empty_dir_def)

lemma loads_sound_inv: "loads_sound lib b dir \<Longrightarrow> load lib b dir = Inr st \<Longrightarrow> dir_inv lib b dir"
  by (simp add: loads_sound_def dir_inv_def)

lemma dir_inv_loads: "dir_inv lib b dir \<Longrightarrow> loads_sound lib b dir"
  by (auto simp: loads_sound_def dir_inv_def)

lemma load_same_file: "sd_state dir' = sd_state dir \<Longrightarrow> sd_private dir' = sd_private dir \<Longrightarrow> load lib b dir' = load lib b dir"
  by (simp only: load_def)

lemma save_files:
  assumes "save lib stop st dir = (dir', err)"
  shows "sd_state dir' = sd_state dir \<and> sd_private dir' = sd_private dir \<or>
    (\<exists>p. lib_marshal lib st = Some p \<and> sd_state dir' = Some (lib_seal lib p (lib_sha256 lib p)))"
proof (cases "lib_marshal lib st")
  case (Some p)
  then show ?thesis using assms by (cases stop; (cases "the stop")?) (auto simp: save_def Let_def split: if_splits)
qed (use assms in \<open>simp add: save_def\<close>)

lemma save_initial_loads:
  assumes "codec_ok lib" "loads_sound lib b dir" "save lib stop (initial_state lib b) dir = (dir', err)"
  shows "loads_sound lib b dir'"
proof -
  have "load lib b dir' = load lib b dir \<or>
    (\<exists>p. lib_marshal lib (initial_state lib b) = Some p \<and> sd_state dir' = Some (lib_seal lib p (lib_sha256 lib p)))"
    using save_files [OF assms(3)] load_same_file by blast
  then show ?thesis
  proof (elim disjE exE conjE)
    fix p
    assume p: "lib_marshal lib (initial_state lib b) = Some p" "sd_state dir' = Some (lib_seal lib p (lib_sha256 lib p))"
    have "lib_unmarshal lib p = Some (initial_state lib b)" using assms(1) p(1) by (simp add: codec_ok_def)
    then have "st = initial_state lib b" if "load lib b dir' = Inr st" for st
      using that p(2) assms(1) by (auto simp: load_def readLimited_def codec_ok_def split: option.splits if_splits)
    then show ?thesis by (auto simp: loads_sound_def authority_inv_def initial_state_def)
  qed (use assms(2) in \<open>simp add: loads_sound_def\<close>)
qed

lemma New_loads:
  assumes "codec_ok lib" "loads_sound lib (normal_bundle b) dir" "New lib b env hc stop dir = (dir', r)"
  shows "loads_sound lib (normal_bundle b) dir' \<and> (\<forall>b'. r = Inr b' \<longrightarrow> b' = normal_bundle b \<and> dir_inv lib b' dir')"
proof -
  have "dir' = dir \<and> (\<forall>b'. r = Inr b' \<longrightarrow> b' = normal_bundle b \<and> (\<exists>st. load lib b' dir' = Inr st)) \<or>
    (\<exists>err. save lib stop (initial_state lib (normal_bundle b)) dir = (dir', err) \<and>
       (\<forall>b'. r = Inr b' \<longrightarrow> b' = normal_bundle b \<and> (\<exists>st. load lib b' dir' = Inr st)))"
    using assms(3)
    by (auto simp: New_def normal_bundle_def Let_def split: if_splits option.splits sum.splits prod.splits)
  then show ?thesis
    using save_initial_loads [OF assms(1,2)] assms(2) loads_sound_inv by metis
qed

lemma load_empty_dir [simp]: "load lib b empty_dir = Inl ErrState"
  by (simp add: load_def empty_dir_def)

lemma New_from_empty: "New lib b (de_store de) (Some hc) stop empty_dir = (dir', Inr b') \<Longrightarrow> makes_dir lib b de hc"
  by (auto simp: New_def openStore_def makes_dir_def Let_def split: if_splits option.splits sum.splits prod.splits)

lemma discovery_Open_sound:
  assumes "codec_ok lib" "\<And>d. trust = Some d \<Longrightarrow> loads_sound lib (normal_bundle b) d"
    and "discovery_Open lib b de hc trust = (trust', r)"
  shows "(\<forall>d. trust' = Some d \<longrightarrow> loads_sound lib (normal_bundle b) d) \<and>
    (\<forall>b' s. r = Some (b', s) \<longrightarrow> b' = normal_bundle b \<and>
       (\<exists>d. trust' = Some d \<and> client.backed lib b' (d, s)))"
proof -
  define dir where "dir = (case trust of None \<Rightarrow> empty_dir | Some d \<Rightarrow> d)"
  have l: "loads_sound lib (normal_bundle b) dir"
    using assms(2) loads_sound_empty by (auto simp: dir_def split: option.split)
  obtain dir' opened where n: "New lib b (de_store de) (Some hc) (de_stop de) dir = (dir', opened)" by (cases "New lib b (de_store de) (Some hc) (de_stop de) dir")
  note N = New_loads [OF assms(1) l n]
  have b: "client.backed lib b' (dir', session_open t (Current lib b' e t' dir'))" if "opened = Inr b'" for b' t t' e
    by (rule client.backed_open) (use N that assms(1) in blast)
  show ?thesis
    using assms(2,3) N b n dir_def New_from_empty by (auto simp: discovery_Open_def Let_def split: if_splits sum.splits option.splits)
qed

section \<open>Discovery\<close>

text \<open>A discovery leaves everything but the trust state alone.\<close>

definition only_trust :: "soph_files \<Rightarrow> soph_files \<Rightarrow> bool" where
  "only_trust fs fs' \<longleftrightarrow> fs' = fs\<lparr>sf_trust := sf_trust fs'\<rparr>"

lemma only_trust_simps [simp, intro]: "only_trust fs fs" "only_trust fs (fs\<lparr>sf_trust := t\<rparr>)"
  by (simp_all add: only_trust_def)

lemma discoverBundle_sound:
  assumes "codec_ok lib" "de_bundle (ev_discover env) = GoodBundle b" "trust_ok lib (ev_discover env) fs"
    and "tame (de_update (ev_discover env))" "discoverBundle lib env a b refresh fs = (fs', r)"
  shows "only_trust fs fs' \<and> trust_ok lib (ev_discover env) fs' \<and>
    (\<forall>ident v. r = Inr (ident, v) \<longrightarrow> ident = BundleIdentity (tuf_root_lib.truncate lib) b \<and>
       (\<exists>dir. sf_trust fs' = Some dir \<and> authorised lib (normal_bundle b) dir v))"
proof (cases "app_loadConfig env a fs")
  case (Inr cfg)
  let ?de = "ev_discover env"
  obtain trust1 opened where o: "discovery_Open lib b ?de (ev_client env) (sf_trust fs) = (trust1, opened)" by (metis surj_pair)
  have "\<And>d. sf_trust fs = Some d \<Longrightarrow> loads_sound lib (normal_bundle b) d" using assms(2,3) by (simp add: trust_ok_def)
  note O = discovery_Open_sound [OF assms(1) this o]
  have t1: "trust_ok lib ?de (fs\<lparr>sf_trust := trust1\<rparr>)" using O assms(2) by (auto simp: trust_ok_def)
  show ?thesis
  proof (cases opened)
    case None
    then show ?thesis using assms(3,5) Inr o t1 by (auto simp: discoverBundle_def Let_def split: if_splits)
  next
    case (Some bs)
    obtain b' s where bs: "bs = (b', s)" by (cases bs)
    obtain dir1 where dir1: "trust1 = Some dir1" and b': "b' = normal_bundle b" and backed: "client.backed lib b' (dir1, s)"
      using O Some bs by blast
    let ?e = "SRefresh (de_update ?de) (de_clock ?de 3) (de_store ?de) (de_clock ?de 4)"
    obtain dir2 s2 where e: "session_exec lib b' ?e (dir1, s) = (dir2, s2)" by (metis surj_pair)
    have "client.backed lib b' (session_exec lib b' ?e (dir1, s))"
      unfolding session_exec.simps by (rule client.backed_step [OF backed assms(4)])
    then have backed2: "client.backed lib b' (dir2, s2)" unfolding e .
    then have t2: "trust_ok lib ?de (fs\<lparr>sf_trust := Some dir2\<rparr>)"
      using b' assms(2) dir_inv_loads by (auto simp: trust_ok_def client.backed_def)
    have v1: "authorised lib b' dir1 v" if "session_Current t s = Some v" for t v
      using client.backed_current [OF backed that] by simp
    have v2: "authorised lib b' dir2 v" if "session_Current t s2 = Some v" for t v
      using client.backed_current [OF backed2 that] by simp
    show ?thesis
      using assms(3,5) Inr o Some bs e t1 t2 v1 v2 b' dir1 by (auto simp: discoverBundle_def Let_def split: if_splits option.splits)
  qed
qed (use assms(3,5) in \<open>auto simp: discoverBundle_def\<close>)

lemma discover_sound:
  assumes "codec_ok lib" "trust_ok lib (ev_discover env) fs" "tame (de_update (ev_discover env))"
    and "discover lib env a refresh fs = (fs', r)"
  shows "only_trust fs fs' \<and> trust_ok lib (ev_discover env) fs' \<and>
    (\<forall>ident v. r = Inr (ident, v) \<longrightarrow>
       (\<exists>b dir. de_bundle (ev_discover env) = GoodBundle b \<and> ident = BundleIdentity (tuf_root_lib.truncate lib) b \<and>
          sf_trust fs' = Some dir \<and> authorised lib (normal_bundle b) dir v))"
proof (cases "de_bundle (ev_discover env)")
  case (GoodBundle b)
  have "discoverBundle lib env a b refresh fs = (fs', r)" using assms(4) by (simp add: discover_def GoodBundle)
  then show ?thesis using discoverBundle_sound [OF assms(1) GoodBundle assms(2,3)] GoodBundle by simp
qed (use assms(2,4) in \<open>auto simp: discover_def\<close>)

section \<open>The node of a public profile\<close>

lemma set_prefer_endpoint: "set (prefer_endpoint e rs) = set rs"
proof (cases "length (takeWhile (\<lambda>r. rt_origin r \<noteq> e) rs) < length rs")
  case True
  then have "0 < length rs" by (cases rs) auto
  with True show ?thesis by (simp add: prefer_endpoint_def Let_def set_swap)
qed (simp add: prefer_endpoint_def Let_def)

lemma probe_roots_found:
  "probe_roots env hc v err k rs = Inr (r, h) \<Longrightarrow> r \<in> set rs \<and> health_agrees h r v \<and> (\<exists>j. ev_clock env j < vw_expires v) \<and>
     (\<exists>j. client_Health (ev_health_json env) (ev_probe env (client_New hc) j) (TrimRightSlash (rt_origin r)) = Inr h)"
  by (induction rs arbitrary: err k) (auto split: if_splits sum.splits)

text \<open>What makes a profile that of a signed root: its fields come from one authorised, unexpired view, and the node
  itself answered with the identifier the view lists for it.\<close>

definition signed_profile :: "tuf_lib \<Rightarrow> soph_env \<Rightarrow> Bundle \<Rightarrow> state_dir \<Rightarrow> Network \<Rightarrow> bool" where
  "signed_profile lib env b dir n \<longleftrightarrow>
     (\<exists>v r. authorised lib (normal_bundle b) dir v \<and> r \<in> set (mf_roots (vw_manifest v)) \<and> (\<exists>j. ev_clock env j < vw_expires v) \<and>
        nw_endpoint n = rt_origin r \<and> nw_node_id n = rt_id r \<and> nw_enclave n = mf_enclave (vw_manifest v) \<and>
        nw_mode n = modePublic \<and> nw_discovery n = discoveryHTTPS \<and> nw_node_network n = modePublic \<and>
        nw_authority n = BundleIdentity (tuf_root_lib.truncate lib) b \<and> nw_roots n = map rt_origin (mf_roots (vw_manifest v)) \<and>
        nw_roots_expire n = vw_expires v div nsec)"

lemma publicNetwork_sound:
  assumes "codec_ok lib" "trust_ok lib (ev_discover env) fs" "tame (de_update (ev_discover env))"
    and "publicNetwork lib env a previous force fs = (fs', res)"
  shows "only_trust fs fs' \<and> trust_ok lib (ev_discover env) fs' \<and>
    (\<forall>n. res = Inr n \<longrightarrow>
       (\<exists>b dir. de_bundle (ev_discover env) = GoodBundle b \<and> sf_trust fs' = Some dir \<and> signed_profile lib env b dir n) \<and>
       (\<exists>hc. Client (Some (ev_client env)) = Some hc) \<and>
       (\<forall>p. previous = Some p \<longrightarrow> nw_authority n = nw_authority p \<and> nw_enclave n = nw_enclave p))"
proof -
  define refresh where "refresh \<longleftrightarrow> force \<or> (case previous of None \<Rightarrow> True
      | Some p \<Rightarrow> (case nw_checked p of None \<Rightarrow> True | Some t \<Rightarrow> ev_clock env 0 - t \<ge> RefreshInterval))"
  obtain fs1 found where d: "discover lib env a refresh fs = (fs1, found)" by (metis surj_pair)
  note D = discover_sound [OF assms(1-3) d]
  have pn: "publicNetwork lib env a previous force fs =
      (case discover lib env a refresh fs of
         (fs1, Inl e) \<Rightarrow> (fs1, Inl e)
       | (fs1, Inr (ident, v)) \<Rightarrow>
           if (case previous of None \<Rightarrow> False | Some p \<Rightarrow> nw_authority p \<noteq> ident \<or> nw_enclave p \<noteq> mf_enclave (vw_manifest v))
           then (fs1, Inl LocalError)
           else case Client (Some (ev_client env)) of
                  None \<Rightarrow> (fs1, Inl LocalError)
                | Some hc \<Rightarrow>
                    (case probe_roots env hc v LocalError 0
                            (case previous of None \<Rightarrow> mf_roots (vw_manifest v)
                             | Some p \<Rightarrow> prefer_endpoint (nw_endpoint p) (mf_roots (vw_manifest v))) of
                       Inl e \<Rightarrow> (fs1, Inl e)
                     | Inr (r, h) \<Rightarrow> (fs1, Inr (public_profile ident v r h (ev_now env) previous refresh))))"
    unfolding publicNetwork_def refresh_def [symmetric] Let_def by simp
  show ?thesis
  proof (cases found)
    case (Inr iv)
    obtain ident v where iv: "iv = (ident, v)" by (cases iv)
    define roots where "roots = (case previous of None \<Rightarrow> mf_roots (vw_manifest v)
        | Some p \<Rightarrow> prefer_endpoint (nw_endpoint p) (mf_roots (vw_manifest v)))"
    have rs: "set roots = set (mf_roots (vw_manifest v))" by (simp add: roots_def set_prefer_endpoint split: option.split)
    from D Inr iv obtain b dir where b: "de_bundle (ev_discover env) = GoodBundle b" "sf_trust fs1 = Some dir"
        "ident = BundleIdentity (tuf_root_lib.truncate lib) b" "authorised lib (normal_bundle b) dir v"
      by blast
    have sp: "signed_profile lib env b dir (public_profile ident v r h now previous rf)"
      if "probe_roots env hc v LocalError 0 roots = Inr (r, h)" for hc r h now rf
      unfolding signed_profile_def using probe_roots_found [OF that] b(3,4) rs
      by (intro exI [of _ v] exI [of _ r]) (auto simp: public_profile_def health_agrees_def Let_def)
    have e: "nw_authority (public_profile ident v r h now previous rf) = ident"
        "health_agrees h r v \<Longrightarrow> nw_enclave (public_profile ident v r h now previous rf) = mf_enclave (vw_manifest v)" for r h now rf
      by (simp_all add: public_profile_def health_agrees_def Let_def)
    have step: "(fs', res) =
        (if (case previous of None \<Rightarrow> False | Some p \<Rightarrow> nw_authority p \<noteq> ident \<or> nw_enclave p \<noteq> mf_enclave (vw_manifest v))
         then (fs1, Inl LocalError)
         else case Client (Some (ev_client env)) of
                None \<Rightarrow> (fs1, Inl LocalError)
              | Some hc \<Rightarrow>
                  (case probe_roots env hc v LocalError 0 roots of
                     Inl e \<Rightarrow> (fs1, Inl e)
                   | Inr (r, h) \<Rightarrow> (fs1, Inr (public_profile ident v r h (ev_now env) previous refresh))))"
      using assms(4) [symmetric] unfolding pn d Inr iv roots_def by (simp only: sum.case prod.case)
    then have "fs' = fs1" by (auto split: if_splits option.splits sum.splits)
    moreover have "(\<exists>b dir. de_bundle (ev_discover env) = GoodBundle b \<and> sf_trust fs1 = Some dir \<and> signed_profile lib env b dir n) \<and>
       (\<exists>hc. Client (Some (ev_client env)) = Some hc) \<and>
       (\<forall>p. previous = Some p \<longrightarrow> nw_authority n = nw_authority p \<and> nw_enclave n = nw_enclave p)"
      if n: "res = Inr n" for n
    proof -
      from step n obtain hc r h where c: "Client (Some (ev_client env)) = Some hc"
          and p: "probe_roots env hc v LocalError 0 roots = Inr (r, h)"
          and n: "n = public_profile ident v r h (ev_now env) previous refresh"
          and same: "\<And>p. previous = Some p \<Longrightarrow> nw_authority p = ident \<and> nw_enclave p = mf_enclave (vw_manifest v)"
        by (auto split: if_splits option.splits sum.splits prod.splits)
      have "health_agrees h r v" using probe_roots_found [OF p] by simp
      then show ?thesis using b(1,2) sp [OF p] c same e unfolding n by metis
    qed
    ultimately show ?thesis using D by simp
  qed (use assms(4) D in \<open>auto simp: pn d\<close>)
qed

section \<open>Connecting\<close>

lemma store_config_trust: "store_config env k cfg fs = (fs', e) \<Longrightarrow> sf_trust fs' = sf_trust fs"
  by (auto simp: store_config_def split: prod.splits)

lemma selectNetwork_ok:
  "selectNetwork env a cfg = Inr (name, n) \<Longrightarrow>
     name = selected_name env a cfg \<and> name \<noteq> [] \<and> gm_lookup (cf_networks cfg) name = Some n"
  by (auto simp: selectNetwork_def Let_def split: if_splits option.splits)

lemma connect_trust_ok:
  assumes "codec_ok lib" "trust_ok lib (ev_discover env) fs" "tame (de_update (ev_discover env))" "connect lib env a fs = (fs', r)"
  shows "trust_ok lib (ev_discover env) fs'"
proof -
  have "fs' = fs \<or> (\<exists>p fs1 r1. publicNetwork lib env a p False fs = (fs1, r1) \<and> sf_trust fs' = sf_trust fs1)"
    using assms(4) by (auto simp: connect_def Let_def store_config_trust split: sum.splits prod.splits if_splits option.splits)
  then show ?thesis
    using publicNetwork_sound [OF assms(1-3)] assms(2) by (auto simp: trust_ok_def)
qed

text \<open>
  C9. A command talks to the network it names and to no other: the network is the one of \<open>--network\<close>, else of
  \<open>SOPH_NETWORK\<close>, else the current one, and without it the command fails. When it is a public network from signed
  discovery, the endpoint is an unexpired root of a manifest that the durable trust state authorises, of the same
  authority and enclave as the saved profile, the node itself answered with the identifier signed for it, and the
  HTTP client checks certificates and follows no redirects. Every other network is contacted at its saved endpoint,
  and then no file changes.
\<close>

theorem connection_is_selected:
  assumes "codec_ok lib" "trust_ok lib (ev_discover env) fs" "tame (de_update (ev_discover env))"
    and "connect lib env a fs = (fs', Inr c)"
  shows "\<exists>cfg n. app_loadConfig env a fs = Inr cfg \<and> co_name c = selected_name env a cfg \<and>
    gm_lookup (cf_networks cfg) (co_name c) = Some n \<and> co_endpoint c = TrimRightSlash (nw_endpoint (co_network c)) \<and>
    (if nw_mode n = modePublic \<and> nw_discovery n \<noteq> discoveryOperatorSupplied
     then nw_discovery n = discoveryHTTPS \<and>
       (\<exists>b dir. de_bundle (ev_discover env) = GoodBundle b \<and> sf_trust fs' = Some dir \<and> signed_profile lib env b dir (co_network c)) \<and>
       nw_authority (co_network c) = nw_authority n \<and> nw_enclave (co_network c) = nw_enclave n \<and>
       (\<exists>hc. Client (Some (ev_client env)) = Some hc \<and> co_client c = client_New hc)
     else co_network c = n \<and> fs' = fs)"
proof -
  obtain cfg where cfg: "app_loadConfig env a fs = Inr cfg" using assms(4) by (auto simp: connect_def split: sum.splits)
  obtain name n where sel: "selectNetwork env a cfg = Inr (name, n)"
    using assms(4) cfg by (auto simp: connect_def split: sum.splits)
  have s: "name = selected_name env a cfg" "gm_lookup (cf_networks cfg) (selected_name env a cfg) = Some n"
    using selectNetwork_ok [OF sel] by blast+
  have con: "connect lib env a fs =
      (if nw_mode n = modePublic \<and> nw_discovery n \<noteq> discoveryOperatorSupplied
       then (if nw_discovery n \<noteq> discoveryHTTPS then (fs, Inl UsageError)
             else case publicNetwork lib env a (Some n) False fs of
               (fs1, Inl e) \<Rightarrow> (fs1, Inl e)
             | (fs1, Inr n') \<Rightarrow>
                 (case store_config env 0 (cfg\<lparr>cf_networks := gm_update name n' (cf_networks cfg)\<rparr>) fs1 of
                    (fs2, Some e) \<Rightarrow> (fs2, Inl e)
                  | (fs2, None) \<Rightarrow> (fs2, open_client env name n')))
       else (fs, open_client env name n))"
    by (simp add: connect_def cfg sel)
  show ?thesis
  proof (cases "nw_mode n = modePublic \<and> nw_discovery n \<noteq> discoveryOperatorSupplied")
    case False
    then have "fs' = fs" "open_client env name n = Inr c" using assms(4) unfolding con by auto
    moreover from this have "co_name c = name" "co_network c = n" "co_endpoint c = TrimRightSlash (nw_endpoint n)"
      by (auto simp: open_client_def split: option.splits)
    ultimately show ?thesis using cfg s False by (intro exI [of _ cfg] exI [of _ n]) auto
  next
    case True
    have d: "nw_discovery n = discoveryHTTPS"
      using assms(4) True unfolding con by (cases "nw_discovery n = discoveryHTTPS") simp_all
    obtain fs1 found where p0: "publicNetwork lib env a (Some n) False fs = (fs1, found)" by (metis surj_pair)
    with assms(4) True d con obtain n' where n': "found = Inr n'" by (cases found) auto
    note p = p0 [unfolded n']
    obtain fs2 err where st0: "store_config env 0 (cfg\<lparr>cf_networks := gm_update name n' (cf_networks cfg)\<rparr>) fs1 = (fs2, err)"
      by (metis surj_pair)
    with assms(4) True d con p have err: "err = None" by (cases err) auto
    note st = st0 [unfolded err]
    note P = publicNetwork_sound [OF assms(1-3) p]
    then obtain b dir where b: "de_bundle (ev_discover env) = GoodBundle b" "sf_trust fs1 = Some dir" "signed_profile lib env b dir n'"
        and same: "nw_authority n' = nw_authority n" "nw_enclave n' = nw_enclave n"
      by blast
    obtain hc where hc: "Client (Some (ev_client env)) = Some hc" using P by blast
    have d': "nw_discovery n' = discoveryHTTPS" using b(3) by (auto simp: signed_profile_def)
    have c: "fs' = fs2 \<and> c = \<lparr>co_name = name, co_network = n', co_endpoint = TrimRightSlash (nw_endpoint n'), co_client = client_New hc\<rparr>"
      using assms(4) True d unfolding con p using st hc d' by (simp add: open_client_def)
    have "sf_trust fs' = Some dir" using c store_config_trust [OF st] b(2) by simp
    then show ?thesis using c cfg s True d b(1,3) same hc by (intro exI [of _ cfg] exI [of _ n]) auto
  qed
qed

end
