(* ===== verification/Soph_Run_Facts.thy ===== *)
theory Soph_Run_Facts
  imports Soph_Run Soph_Connect_Facts
begin

text \<open>
  What the command line client promises of its saved networks: through any commands, failures and stopped writes the
  config file holds a whole, well-formed configuration.
\<close>

section \<open>Well-formed configurations\<close>

definition profile_wf :: "Network \<Rightarrow> bool" where
  "profile_wf n \<longleftrightarrow>
     nw_mode n = modePrivate \<and> nw_discovery n = [] \<or>
     nw_mode n = modePublic \<and> nw_discovery n = discoveryOperatorSupplied \<or>
     nw_mode n = modePublic \<and> nw_discovery n = discoveryHTTPS \<and> nw_endpoint n \<in> set (nw_roots n) \<and> nw_node_network n = modePublic"

definition config_wf :: "Config \<Rightarrow> bool" where
  "config_wf cfg \<longleftrightarrow>
     gm_ok (cf_networks cfg) \<and> (cf_current cfg = [] \<or> gm_lookup (cf_networks cfg) (cf_current cfg) \<noteq> None) \<and>
     (\<forall>k n. gm_lookup (cf_networks cfg) k = Some n \<longrightarrow> validateNetworkName k \<and> profile_wf n)"

definition files_wf :: "config_codec \<Rightarrow> soph_files \<Rightarrow> bool" where
  "files_wf codec fs \<longleftrightarrow>
     (\<exists>cfg. loadConfig codec True fs = Some cfg \<and> config_wf cfg) \<and> (sf_config fs = None \<or> sf_private fs)"

lemma config_wf_same: "config_wf c \<Longrightarrow> config_same c d \<Longrightarrow> config_wf d"
  by (simp add: config_wf_def config_same_def)

lemma config_wf_new [simp]: "config_wf newConfig"
  by (simp add: config_wf_def newConfig_def)

lemma config_wf_update:
  assumes "config_wf cfg" "validateNetworkName k" "profile_wf n" "cur = [] \<or> cur = k \<or> gm_lookup (cf_networks cfg) cur \<noteq> None"
  shows "config_wf \<lparr>cf_current = cur, cf_networks = gm_update k n (cf_networks cfg)\<rparr>"
  using assms by (auto simp: config_wf_def)

lemma config_wf_delete:
  "config_wf cfg \<Longrightarrow>
     config_wf \<lparr>cf_current = (if cf_current cfg = k then [] else cf_current cfg), cf_networks = gm_delete k (cf_networks cfg)\<rparr>"
  by (auto simp: config_wf_def split: if_splits)

lemma files_wf_only_trust: "only_trust fs fs' \<Longrightarrow> files_wf codec fs' = files_wf codec fs"
  unfolding only_trust_def files_wf_def loadConfig_def
  by (metis (no_types, lifting) soph_files.select_convs soph_files.surjective soph_files.update_convs(4))

lemma app_loadConfig_wf:
  "app_loadConfig env a fs = Inr cfg \<Longrightarrow> files_wf (ev_codec env) fs \<Longrightarrow> config_wf cfg"
  by (auto simp: app_loadConfig_def files_wf_def loadConfig_def split: if_splits option.splits)

lemma store_config_wf:
  assumes "config_codec_ok (ev_codec env)" "files_wf (ev_codec env) fs" "config_wf cfg" "store_config env k cfg fs = (fs', e)"
  shows "files_wf (ev_codec env) fs'"
proof -
  obtain ok where s: "saveConfig (ev_codec env) (ev_fault env k) (ev_removed env) cfg fs = (fs', ok)"
    using assms(4) by (auto simp: store_config_def split: prod.splits)
  have "gm_ok (cf_networks cfg)" using assms(3) by (simp add: config_wf_def)
  note L = load_after_save [OF assms(1) this s]
  have "\<exists>c. loadConfig (ev_codec env) True fs' = Some c \<and> config_wf c"
    using L assms(2) config_wf_same [OF assms(3)] by (auto simp: files_wf_def)
  moreover have "sf_config fs' = None \<or> sf_private fs'"
    using s assms(2) by (auto simp: saveConfig_def files_wf_def Let_def split: option.splits save_fault.splits if_splits)
  ultimately show ?thesis by (simp add: files_wf_def)
qed

section \<open>Discovery changes no configuration\<close>

lemma discover_only_trust: "discover lib env a refresh fs = (fs', r) \<Longrightarrow> only_trust fs fs'"
  by (auto simp: discover_def discoverBundle_def Let_def split: bundle_result.splits sum.splits if_splits prod.splits option.splits)

lemma publicNetwork_files: "publicNetwork lib env a previous force fs = (fs', r) \<Longrightarrow> only_trust fs fs'"
  by (auto simp: publicNetwork_def Let_def dest: discover_only_trust split: sum.splits prod.splits if_splits option.splits)

lemma publicNetwork_profile:
  assumes "publicNetwork lib env a previous force fs = (fs', Inr n)"
  shows "profile_wf n"
proof -
  obtain ident v r h hc rs rf where n: "n = public_profile ident v r h (ev_now env) previous rf"
      and p: "probe_roots env hc v LocalError 0 rs = Inr (r, h)" and rs: "set rs = set (mf_roots (vw_manifest v))"
  proof (cases previous)
    case None
    then show thesis using assms that
      by (auto simp: publicNetwork_def Let_def split: sum.splits prod.splits if_splits option.splits)
  next
    case (Some q)
    then show thesis using assms that [OF _ _ set_prefer_endpoint [of "nw_endpoint q"]]
      by (auto simp: publicNetwork_def Let_def split: sum.splits prod.splits if_splits option.splits)
  qed
  then show ?thesis using probe_roots_found [OF p]
    by (auto simp: profile_wf_def n public_profile_def health_agrees_def Let_def)
qed

section \<open>Every command keeps the configuration\<close>

named_theorems keeps_config \<open>outcomes that leave a well-formed configuration\<close>

lemma fails_keeps [keeps_config]: "files_wf codec fs \<Longrightarrow> files_wf codec (fst (fails e fs))"
  by (simp add: fails_def)

lemma fst_emit [simp]: "fst (emit io xs fs) = fs"
  by (simp add: emit_def split: prod.split)

lemma emit_keeps [keeps_config]: "files_wf codec fs \<Longrightarrow> files_wf codec (fst (emit io xs fs))"
  by simp

lemma fst_store_then [simp]:
  "fst (case p of (fs1, None) \<Rightarrow> emit io xs fs1 | (fs1, Some e) \<Rightarrow> fails e fs1) = fst p"
  by (auto simp: fails_def split: prod.splits option.splits)

lemma store_keeps:
  "config_codec_ok (ev_codec env) \<Longrightarrow> files_wf (ev_codec env) fs \<Longrightarrow> config_wf cfg \<Longrightarrow>
     files_wf (ev_codec env) (fst (store_config env k cfg fs))"
  by (metis prod.collapse store_config_wf)

lemma connect_keeps:
  assumes "config_codec_ok (ev_codec env)" "files_wf (ev_codec env) fs" "connect lib env a fs = (fs', r)"
  shows "files_wf (ev_codec env) fs'"
proof -
  consider "fs' = fs"
    | n fs1 e where "publicNetwork lib env a (Some n) False fs = (fs1, Inl e)" "fs' = fs1"
    | cfg name n fs1 n' where "app_loadConfig env a fs = Inr cfg" "selectNetwork env a cfg = Inr (name, n)"
        "publicNetwork lib env a (Some n) False fs = (fs1, Inr n')"
        "fs' = fst (store_config env 0 (cfg\<lparr>cf_networks := gm_update name n' (cf_networks cfg)\<rparr>) fs1)"
    using assms(3) by (auto simp: connect_def split: sum.splits prod.splits if_splits option.splits)
  then show ?thesis
  proof cases
    case 3
    have wf: "config_wf cfg" using app_loadConfig_wf [OF 3(1) assms(2)] .
    have sel: "gm_lookup (cf_networks cfg) name = Some n" using selectNetwork_ok [OF 3(2)] by blast
    have "config_wf (cfg\<lparr>cf_networks := gm_update name n' (cf_networks cfg)\<rparr>)"
      using config_wf_update [OF wf _ publicNetwork_profile [OF 3(3)], of name "cf_current cfg"] wf sel
      by (auto simp: config_wf_def)
    moreover have "files_wf (ev_codec env) fs1" using files_wf_only_trust [OF publicNetwork_files [OF 3(3)]] assms(2) by simp
    ultimately show ?thesis using store_config_wf [OF assms(1)] 3(4) by (metis prod.collapse)
  qed (use assms(2) files_wf_only_trust publicNetwork_files in blast)+
qed

lemma join_target_keeps:
  assumes "join_target lib env a pos name public fs = (fs', r)" "name = [] \<or> validateNetworkName name"
  shows "only_trust fs fs' \<and> (\<forall>label n. r = Inr (label, n) \<longrightarrow> validateNetworkName label \<and> profile_wf n)"
proof (cases pos)
  case Nil
  have "validateNetworkName ''public''" by (simp add: validateNetworkName_def label_char_def is_alpha_def)
  then show ?thesis using assms Nil
    by (auto simp: join_target_def dest: publicNetwork_files publicNetwork_profile split: prod.splits sum.splits)
next
  case (Cons p ps)
  have "profile_wf (joined_network e h now public)" for e h now by (simp add: profile_wf_def joined_network_def)
  then show ?thesis using assms Cons defaultNetworkName_valid
    by (auto simp: join_target_def split: option.splits sum.splits)
qed

lemma cmdJoin_keeps [keeps_config]:
  assumes ok: "config_codec_ok (ev_codec env)" and wf: "files_wf (ev_codec env) fs"
  shows "files_wf (ev_codec env) (fst (cmdJoin lib env io a args fs))"
proof -
  have joined: "files_wf (ev_codec env) fs1"
    if "join_target lib env a pos name public fs = (fs1, r)" "name = [] \<or> validateNetworkName name" for pos name public fs1 r
    using join_target_keeps [OF that] files_wf_only_trust wf by blast
  have stored: "files_wf (ev_codec env) (fst (store_config env 0 \<lparr>cf_current = label, cf_networks = gm_update label n (cf_networks cfg)\<rparr> fs1))"
    if "join_target lib env a pos name public fs = (fs1, Inr (label, n))" "name = [] \<or> validateNetworkName name"
      "app_loadConfig env a fs = Inr cfg" for cfg pos name public fs1 label n
  proof -
    have "validateNetworkName label" "profile_wf n" using join_target_keeps [OF that(1,2)] by auto
    then have "config_wf \<lparr>cf_current = label, cf_networks = gm_update label n (cf_networks cfg)\<rparr>"
      using config_wf_update [OF app_loadConfig_wf [OF that(3) wf]] by simp
    then show ?thesis using store_keeps [OF ok joined [OF that(1,2)]] by blast
  qed
  show ?thesis
    using wf by (simp add: cmdJoin_def Let_def keeps_config joined stored split: sum.split prod.split)
qed

lemma cmdUse_keeps [keeps_config]:
  assumes ok: "config_codec_ok (ev_codec env)" and wf: "files_wf (ev_codec env) fs"
  shows "files_wf (ev_codec env) (fst (cmdUse env io a args fs))"
proof -
  have "files_wf (ev_codec env) (fst (store_config env 0 (cfg\<lparr>cf_current := k\<rparr>) fs))"
    if "app_loadConfig env a fs = Inr cfg" "gm_lookup (cf_networks cfg) k = Some n" for cfg k n
    using store_keeps [OF ok wf] app_loadConfig_wf [OF that(1) wf] that(2) by (simp add: config_wf_def)
  then show ?thesis using wf by (simp add: cmdUse_def keeps_config split: sum.split prod.split option.split)
qed

lemma cmdForget_keeps [keeps_config]:
  assumes ok: "config_codec_ok (ev_codec env)" and wf: "files_wf (ev_codec env) fs"
  shows "files_wf (ev_codec env) (fst (cmdForget env io a args fs))"
proof -
  have "files_wf (ev_codec env) (fst (store_config env 0
      \<lparr>cf_current = (if cf_current cfg = k then [] else cf_current cfg), cf_networks = gm_delete k (cf_networks cfg)\<rparr> fs))"
    if "app_loadConfig env a fs = Inr cfg" for cfg k
    using store_keeps [OF ok wf config_wf_delete [OF app_loadConfig_wf [OF that wf]]] .
  then show ?thesis using wf by (simp add: cmdForget_def Let_def keeps_config split: sum.split prod.split del: if_split)
qed

lemma cmdNetworks_keeps [keeps_config]: "files_wf codec fs \<Longrightarrow> files_wf codec (fst (cmdNetworks env io a args fs))"
  by (auto simp: cmdNetworks_def keeps_config split: sum.splits prod.splits)

lemma cmdVersion_keeps [keeps_config]: "files_wf codec fs \<Longrightarrow> files_wf codec (fst (cmdVersion io args fs))"
  by (auto simp: cmdVersion_def keeps_config split: sum.splits prod.splits)

text \<open>Commands on data change the configuration by connecting only.\<close>

lemma get_output_keeps [simp]: "fst (get_output io a path val fs) = fs"
  by (auto simp: get_output_def fails_def emit_def split: prod.splits)

lemma put_value_keeps [keeps_config]:
  assumes "config_codec_ok (ev_codec env)" "files_wf (ev_codec env) fs"
  shows "files_wf (ev_codec env) (fst (put_value lib env io a key generated ttl path require fs))"
proof -
  have "fst (put_value lib env io a key generated ttl path require fs) = fst (connect lib env a fs)"
    by (auto simp: put_value_def Let_def fails_def emit_def split: sum.split prod.split option.split)
  then show ?thesis using connect_keeps [OF assms] by (metis prod.collapse)
qed

lemma cmdPut_keeps [keeps_config]:
  "config_codec_ok (ev_codec env) \<Longrightarrow> files_wf (ev_codec env) fs \<Longrightarrow> files_wf (ev_codec env) (fst (cmdPut lib env io a args fs))"
  by (simp add: cmdPut_def keeps_config split: sum.split prod.split)

lemma cmdGet_keeps [keeps_config]:
  "config_codec_ok (ev_codec env) \<Longrightarrow> files_wf (ev_codec env) fs \<Longrightarrow> files_wf (ev_codec env) (fst (cmdGet lib env io a args fs))"
  by (auto simp: cmdGet_def keeps_config connect_keeps split: sum.split prod.split)

lemma cmdExists_keeps [keeps_config]:
  "config_codec_ok (ev_codec env) \<Longrightarrow> files_wf (ev_codec env) fs \<Longrightarrow> files_wf (ev_codec env) (fst (cmdExists lib env io a args fs))"
  by (auto simp: cmdExists_def fails_def emit_def connect_keeps split: sum.split prod.split option.split)

lemma fst_fails [simp]: "fst (fails e fs) = fs"
  by (simp add: fails_def)

lemma fst_list_output [simp]: "fst (list_output io a c page fs) = fs"
  by (simp add: list_output_def)

lemma cmdList_keeps [keeps_config]:
  assumes "config_codec_ok (ev_codec env)" "files_wf (ev_codec env) fs" "cmdList lib env io a args fs = Some r"
  shows "files_wf (ev_codec env) (fst r)"
proof -
  have listed: "fst r = fs1" if "map_option (\<lambda>r. case r of Inl e \<Rightarrow> fails (FromClient e) fs1 | Inr page \<Rightarrow> list_output io a c page fs1) p = Some r"
    for fs1 c p using that by (cases p; cases "the p") auto
  have "fst r = fs \<or> fst r = fst (connect lib env a fs)"
    using assms(3) unfolding cmdList_def Let_def
    by (auto split: sum.splits prod.splits if_split_asm dest: listed simp del: map_option_eq_Some)
  then show ?thesis using connect_keeps [OF assms(1,2)] assms(2) by (metis prod.collapse)
qed

lemma cmdDiagnostic_keeps [keeps_config]:
  assumes "config_codec_ok (ev_codec env)" "files_wf (ev_codec env) fs"
  shows "files_wf (ev_codec env) (fst (cmdDiagnostic lib env io a which args fs))"
proof -
  obtain fs1 r where c: "connect lib env a fs = (fs1, r)" by (metis surj_pair)
  have "fst (cmdDiagnostic lib env io a which args fs) \<in> {fs, fs1}"
    by (cases r; cases "cli_parse [] args") (simp_all add: cmdDiagnostic_def c Let_def split: sum.split prod.split)
  then show ?thesis using connect_keeps [OF assms c] assms(2) by auto
qed

lemma viewer_step_only_trust: "only_trust (vt_files s) (vt_files (viewer_step lib a e s))"
  by (cases e) (auto dest: publicNetwork_files split: prod.splits sum.splits)

lemma only_trust_trans: "only_trust fs fs1 \<Longrightarrow> only_trust fs1 fs2 \<Longrightarrow> only_trust fs fs2"
  by (cases fs; cases fs1; cases fs2) (simp add: only_trust_def)

lemma viewer_run_only_trust: "only_trust (vt_files s) (vt_files (viewer_run lib a es s))"
  by (induction es arbitrary: s) (auto simp: viewer_run_def intro: only_trust_trans viewer_step_only_trust)

lemma serveSelection_keeps:
  assumes "config_codec_ok (ev_codec env)" "files_wf (ev_codec env) fs" "serveSelection lib env a override fs = (fs', r)"
  shows "files_wf (ev_codec env) fs'"
  using assms connect_keeps [OF assms(1,2)] by (auto simp: serveSelection_def split: if_splits sum.splits prod.splits)

lemma cmdServe_keeps [keeps_config]:
  assumes ok: "config_codec_ok (ev_codec env)" and wf: "files_wf (ev_codec env) fs"
  shows "files_wf (ev_codec env) (fst (cmdServe lib env io sv a args fs))"
proof -
  have selected: "files_wf (ev_codec env) fs1" if "serveSelection lib env a override fs = (fs1, r)" for override fs1 r
    using serveSelection_keeps [OF ok wf that] .
  have viewed: "files_wf (ev_codec env) (vt_files (viewer_run lib a es (viewer_start n now fs1)))"
    if "files_wf (ev_codec env) fs1" for es n now fs1
    using files_wf_only_trust [OF viewer_run_only_trust [of "viewer_start n now fs1" lib a es]] that by (simp add: viewer_start_def)
  have "fst (emit io xs fs1) = fs2" if "emit io xs fs1 = (fs2, r)" for xs fs1 fs2 r by (metis fst_conv fst_emit that)
  then have emitted: "fs2 = fs1" if "emit io xs fs1 = (fs2, r)" for xs fs1 fs2 r using that by (metis fst_emit)
  show ?thesis
    using wf by (auto simp: cmdServe_def Let_def keeps_config viewed dest: selected dest!: emitted split: sum.split prod.split option.split)
qed

text \<open>The runs of the client over one config file; the operator tool behind \<open>omega\<close> does not touch these files.\<close>

inductive invoked :: "config_codec \<Rightarrow> soph_files \<Rightarrow> soph_files \<Rightarrow> bool" for codec fs0 where
  invoked_none: "invoked codec fs0 fs0"
| invoked_run:
    "\<lbrakk> invoked codec fs0 fs; ev_codec env = codec; \<And>a args fs. fst (omega a args fs) = fs;
       soph_run sv omega lib env io args fs = Some (fs', out, code) \<rbrakk> \<Longrightarrow> invoked codec fs0 fs'"

lemma finish_run_files: "fst (finish_run io r) = fst r"
  by (auto simp: finish_run_def emit_def split: prod.split option.split soph_error.split)

lemma soph_dispatch_keeps:
  assumes "config_codec_ok (ev_codec env)" "files_wf (ev_codec env) fs" "\<And>a args fs. fst (omega a args fs) = fs"
    and "soph_dispatch sv omega lib env io a cmd args fs = Some r"
  shows "files_wf (ev_codec env) (fst r)"
proof -
  have "r \<in> {emit io [OutReport] fs, cmdJoin lib env io a args fs, cmdUse env io a args fs, cmdNetworks env io a args fs,
      cmdForget env io a args fs, cmdPut lib env io a args fs, cmdGet lib env io a args fs, cmdExists lib env io a args fs,
      cmdServe lib env io sv a args fs, omega a args fs, cmdDiagnostic lib env io a cmd args fs, cmdVersion io args fs,
      fails UsageError fs} \<or> cmdList lib env io a args fs = Some r"
    using assms(4) by (simp add: soph_dispatch_def split: if_split_asm)
  then show ?thesis
    by (elim disjE insertE emptyE) (auto simp: keeps_config assms intro: cmdList_keeps [OF assms(1,2)])
qed

lemma soph_run_keeps:
  assumes "config_codec_ok (ev_codec env)" "files_wf (ev_codec env) fs" "\<And>a args fs. fst (omega a args fs) = fs"
    and "soph_run sv omega lib env io args fs = Some (fs', out, code)"
  shows "files_wf (ev_codec env) fs'"
proof (cases "FlagSet_Parse global_flags args")
  case (Inl e)
  then show ?thesis using assms(2,4) by (simp add: soph_run_def)
next
  case (Inr fr)
  obtain flags rest where fr: "fr = (flags, rest)" by (cases fr)
  show ?thesis
  proof (cases "bool_of flags ''help'' \<or> rest = []")
    case True
    obtain out1 e where "emit io [OutReport] fs = (fs, out1, e)" by (metis fst_emit prod.collapse)
    then have "fs' = fs" using assms(4) Inr fr True by (simp add: soph_run_def split: option.splits)
    then show ?thesis using assms(2) by simp
  next
    case False
    obtain cmd cargs where c: "(if hd rest = ''help'' \<and> length rest = 2 then (rest ! 1, [''--help'']) else (hd rest, tl rest)) = (cmd, cargs)"
      by (metis surj_pair)
    from assms(4) Inr fr False c
    have "fs' = fs \<or> map_option (finish_run io) (soph_dispatch sv omega lib env io (app_of flags) cmd cargs fs) = Some (fs', out, code)"
      unfolding soph_run_def by (simp only: sum.case prod.case Let_def if_False) (auto split: if_split_asm)
    then show ?thesis
    proof
      assume "map_option (finish_run io) (soph_dispatch sv omega lib env io (app_of flags) cmd cargs fs) = Some (fs', out, code)"
      then obtain r where r: "soph_dispatch sv omega lib env io (app_of flags) cmd cargs fs = Some r" "finish_run io r = (fs', out, code)"
        by blast
      then have "fst r = fs'" using finish_run_files [of io r] by simp
      then show ?thesis using soph_dispatch_keeps [OF assms(1-3) r(1)] by simp
    qed (use assms(2) in simp)
  qed
qed

text \<open>
  C10. The client never loses or breaks its saved networks: from an empty start, after any runs of any commands, with
  config writes that fail or are cut off at any point, discoveries that fail and viewers that run on, the config file
  can be read and its owner alone can read it; the current network is empty or one of the saved ones; every name is
  valid; and every network is private, operator-supplied, or a signed root from HTTPS discovery whose endpoint is
  among its recorded roots.
\<close>

theorem config_survives:
  assumes "invoked codec fs0 fs" "config_codec_ok codec" "sf_config fs0 = None"
  shows "\<exists>cfg. loadConfig codec True fs = Some cfg \<and> (sf_config fs = None \<or> sf_private fs) \<and>
    (cf_current cfg = [] \<or> gm_lookup (cf_networks cfg) (cf_current cfg) \<noteq> None) \<and>
    (\<forall>k n. gm_lookup (cf_networks cfg) k = Some n \<longrightarrow> validateNetworkName k \<and> profile_wf n)"
proof -
  have "files_wf codec fs"
    using assms(1)
  proof induction
    case invoked_none
    have "loadConfig codec True fs0 = Some newConfig" using assms(3) by (simp add: loadConfig_def)
    then show ?case using assms(3) by (simp add: files_wf_def)
  next
    case (invoked_run fs env omega sv lib io args fs' out code)
    then show ?case using soph_run_keeps [of env fs omega] assms(2) by blast
  qed
  then show ?thesis by (auto simp: files_wf_def config_wf_def)
qed

end
