(* ===== verification/Soph_Viewer_Facts.thy ===== *)
theory Soph_Viewer_Facts
  imports Soph_Serve Soph_Connect_Facts
begin

text \<open>
  What the viewer promises: it passes requests to one node only, a root of an authorised and unexpired view of the
  network it was started for, and no stream lives longer than the lease it was opened under.
\<close>

section \<open>Leases change with their context\<close>

lemma viewer_step_context:
  "vt_lease (viewer_step lib a e s) = vt_lease s \<or> vl_context (vt_lease (viewer_step lib a e s)) = Suc (vl_context (vt_lease s))"
  by (cases e) (auto simp: lease_clear_def lease_set_def split: prod.split sum.split)

lemma viewer_run_Cons: "viewer_run lib a (e # es) s = viewer_run lib a es (viewer_step lib a e s)"
  by (simp add: viewer_run_def)

lemma viewer_run_context:
  "vl_context (vt_lease s) \<le> vl_context (vt_lease (viewer_run lib a es s)) \<and>
     (vl_context (vt_lease (viewer_run lib a es s)) = vl_context (vt_lease s) \<longrightarrow> vt_lease (viewer_run lib a es s) = vt_lease s)"
proof (induction es arbitrary: s)
  case (Cons e es)
  show ?case
    using Cons.IH [of "viewer_step lib a e s"] viewer_step_context [of lib a e s] by (auto simp: viewer_run_Cons)
qed (simp add: viewer_run_def)

section \<open>Every lease is signed\<close>

text \<open>The builds of one viewer have one bundle, and the updater keeps its contract.\<close>

definition viewer_event_ok :: "Bundle \<Rightarrow> viewer_event \<Rightarrow> bool" where
  "viewer_event_ok b e \<longleftrightarrow>
     (case e of VDiscovered env \<Rightarrow> de_bundle (ev_discover env) = GoodBundle b \<and> tame (de_update (ev_discover env)) | _ \<Rightarrow> True)"

definition signed_root :: "tuf_lib \<Rightarrow> Bundle \<Rightarrow> string \<Rightarrow> string \<Rightarrow> gotime \<Rightarrow> bool" where
  "signed_root lib b enclave origin until \<longleftrightarrow>
     (\<exists>dir v r. authorised lib (normal_bundle b) dir v \<and> r \<in> set (mf_roots (vw_manifest v)) \<and> rt_origin r = origin \<and>
        mf_enclave (vw_manifest v) = enclave \<and> until \<le> vw_expires v)"

definition viewer_inv :: "tuf_lib \<Rightarrow> Bundle \<Rightarrow> string \<Rightarrow> viewer_state \<Rightarrow> bool" where
  "viewer_inv lib b enclave s \<longleftrightarrow>
     (\<forall>dir. sf_trust (vt_files s) = Some dir \<longrightarrow> loads_sound lib (normal_bundle b) dir) \<and> nw_enclave (vt_selected s) = enclave \<and>
     (\<forall>t. vl_target (vt_lease s) = Some t \<longrightarrow>
        (\<exists>d. vl_deadline (vt_lease s) = Some d \<and> signed_root lib b enclave t d))"

lemma signed_profile_root:
  assumes "signed_profile lib env b dir n"
  shows "signed_root lib b (nw_enclave n) (nw_endpoint n) (nw_roots_expire n * nsec)"
proof -
  have "x div nsec * nsec \<le> x" for x by (simp add: nsec_def)
  then show ?thesis using assms unfolding signed_profile_def signed_root_def by metis
qed

lemma lease_set_signed:
  assumes "signed_profile lib env b dir n" "vl_target (lease_set n l) = Some t"
  shows "\<exists>d. vl_deadline (lease_set n l) = Some d \<and> signed_root lib b (nw_enclave n) t d"
proof -
  have "nw_discovery n = discoveryHTTPS" using assms(1) by (auto simp: signed_profile_def)
  then show ?thesis using signed_profile_root [OF assms(1)] assms(2) by (auto simp: lease_set_def split: if_splits)
qed

lemma viewer_step_inv:
  assumes "codec_ok lib" "viewer_event_ok b e" "viewer_inv lib b enclave s"
  shows "viewer_inv lib b enclave (viewer_step lib a e s)"
proof (cases e)
  case (VDiscovered env)
  obtain fs r where p: "publicNetwork lib env a (Some (vt_selected s)) True (vt_files s) = (fs, r)" by (metis surj_pair)
  have env: "de_bundle (ev_discover env) = GoodBundle b" "tame (de_update (ev_discover env))"
    using assms(2) VDiscovered by (simp_all add: viewer_event_ok_def)
  have "trust_ok lib (ev_discover env) (vt_files s)" using assms(3) env(1) by (simp add: viewer_inv_def trust_ok_def)
  note P = publicNetwork_sound [OF assms(1) this env(2) p]
  show ?thesis
  proof (cases r)
    case (Inl err)
    then show ?thesis using assms(3) P p env(1) VDiscovered by (auto simp: viewer_inv_def trust_ok_def)
  next
    case (Inr n)
    then obtain dir where n: "signed_profile lib env b dir n" "nw_enclave n = enclave"
      using P env(1) assms(3) by (auto simp: viewer_inv_def)
    then show ?thesis
      using lease_set_signed [OF n(1), of "vt_lease s"] P Inr p env(1) VDiscovered by (auto simp: viewer_inv_def trust_ok_def)
  qed
qed (use assms(3) in \<open>auto simp: viewer_inv_def lease_clear_def\<close>)

lemma viewer_run_inv:
  "codec_ok lib \<Longrightarrow> list_all (viewer_event_ok b) es \<Longrightarrow> viewer_inv lib b enclave s \<Longrightarrow> viewer_inv lib b enclave (viewer_run lib a es s)"
  by (induction es arbitrary: s) (auto simp: viewer_run_Cons viewer_step_inv, simp add: viewer_run_def)

lemma viewer_start_inv:
  assumes "signed_profile lib env b dir n" "\<And>d. sf_trust fs = Some d \<Longrightarrow> loads_sound lib (normal_bundle b) d"
  shows "viewer_inv lib b (nw_enclave n) (viewer_start n now fs)"
  using lease_set_signed [OF assms(1)] assms(2) by (auto simp: viewer_inv_def viewer_start_def)

lemma serveViewerHandler_proxy:
  assumes "serveViewerHandler query now l r = VProxy p"
  shows "vr_method r = ''GET'' \<and> (vr_path r = ''/v1/stream'' \<or> HasPrefix (vr_path r) ''/v1/data/'') \<and> px_context p = vl_context l \<and>
    (\<exists>t. vl_target l = Some t \<and> px_url p = t @ vr_escaped r)"
  using assms by (auto simp: serveViewerHandler_def lease_current_def split: if_splits option.splits)

text \<open>
  C23. The viewer is pinned to its network: started for a signed public profile, whatever refreshes succeed, fail or
  withdraw the lease, a request it passes on is a read of the stream or of a value, it goes to a root of a manifest
  that the trust state authorised for the same enclave, and as long as the stream it opened is alive, at that time
  the manifest has not expired; so no stream survives the withdrawal or the deadline of its lease.
\<close>

theorem viewer_pinned:
  assumes "codec_ok lib" "signed_profile lib env b dir n"
    and "\<And>d. sf_trust fs = Some d \<Longrightarrow> loads_sound lib (normal_bundle b) d"
    and "list_all (viewer_event_ok b) es1"
    and "s1 = viewer_run lib a es1 (viewer_start n now0 fs)" "s2 = viewer_run lib a es2 s1"
    and "serveViewerHandler query now1 (vt_lease s1) r = VProxy p"
    and "stream_alive now2 (vt_lease s2) (px_url p, px_context p)"
  shows "vr_method r = ''GET'' \<and> (vr_path r = ''/v1/stream'' \<or> HasPrefix (vr_path r) ''/v1/data/'') \<and>
    (\<exists>dir v root. authorised lib (normal_bundle b) dir v \<and> root \<in> set (mf_roots (vw_manifest v)) \<and>
       mf_enclave (vw_manifest v) = nw_enclave n \<and> px_url p = rt_origin root @ vr_escaped r \<and> now2 < vw_expires v)"
proof -
  note h = serveViewerHandler_proxy [OF assms(7)]
  then obtain t where t: "vl_target (vt_lease s1) = Some t" "px_url p = t @ vr_escaped r" by blast
  have inv: "viewer_inv lib b (nw_enclave n) s1"
    unfolding assms(5) by (intro viewer_run_inv assms viewer_start_inv [OF assms(2)])
  then obtain d where d: "vl_deadline (vt_lease s1) = Some d" "signed_root lib b (nw_enclave n) t d"
    using t(1) by (auto simp: viewer_inv_def)
  have "vl_context (vt_lease s2) = vl_context (vt_lease s1)" using assms(8) h by (simp add: stream_alive_def)
  then have "vt_lease s2 = vt_lease s1" unfolding assms(6) using viewer_run_context by blast
  then have "now2 < d" using assms(8) d(1) by (simp add: stream_alive_def lease_open_def)
  moreover obtain dir v root where v: "authorised lib (normal_bundle b) dir v" "root \<in> set (mf_roots (vw_manifest v))"
      "rt_origin root = t" "mf_enclave (vw_manifest v) = nw_enclave n" "d \<le> vw_expires v"
    using d(2) unfolding signed_root_def by blast
  ultimately have "px_url p = rt_origin root @ vr_escaped r" "now2 < vw_expires v" using t(2) by simp_all
  then show ?thesis using h v(1,2,4) by blast
qed

end
