(* ===== verification/Soph_Demo.thy ===== *)
theory Soph_Demo
  imports Soph_Run_Facts Soph_Viewer_Facts
begin

text \<open>
  Concrete runs of the command line client: a connection to the signed root of the example trust state of theory
  \<open>Bootstrap_Facts\<close>, a viewer started for it, and a network that is joined and saved.
\<close>

section \<open>A saved public network\<close>

definition ex_profile :: Network where
  "ex_profile = \<lparr>nw_endpoint = ''https://a'', nw_mode = modePublic, nw_discovery = discoveryHTTPS, nw_roots = [''https://a''],
     nw_roots_expire = 0, nw_authority = BundleIdentity (tuf_root_lib.truncate ex_lib) ex_bundle, nw_checked = Some 500,
     nw_node_id = ''a'', nw_node_network = modePublic, nw_enclave = ''default'', nw_joined = 400\<rparr>"

definition ex_cli_codec :: config_codec where
  "ex_cli_codec = \<lparr>cc_marshal = (\<lambda>_. Some ''c''), cc_unmarshal = (\<lambda>_. Some (''pub'', Some [(''pub'', ex_profile)]))\<rparr>"

definition ex_health :: Health where
  "ex_health = \<lparr>hl_status = ''healthy'', hl_node_id = ''a'', hl_network = ''public'', hl_enclave = ''default''\<rparr>"

definition ex_answer :: exchange where
  "ex_answer req =
     (if aq_url req = ''https://a/v1/health''
      then Some \<lparr>as_status = 200, as_created = [], as_original = [], as_remaining = [], as_body = Some ''h''\<rparr> else None)"

definition ex_plain_client :: HTTPClient where
  "ex_plain_client = \<lparr>hc_transport = None, hc_has_jar = False, hc_redirects = FollowRedirects\<rparr>"

definition ex_discover :: discover_env where
  "ex_discover = \<lparr>de_bundle = GoodBundle ex_bundle, de_mkdir = True, de_store = ex_env\<lparr>se_mkdir := MkdirExists\<rparr>, de_stop = None,
     de_clock = (\<lambda>_. 600), de_update = (ex_env, True, ex_update), de_open_stopped = False, de_cancelled = False\<rparr>"

definition ex_cli :: "config_codec \<Rightarrow> soph_env" where
  "ex_cli codec = \<lparr>ev_getenv = (\<lambda>_. []), ev_user_home = None, ev_codec = codec, ev_readable = True, ev_fault = (\<lambda>_. None),
     ev_removed = True, ev_client = ex_plain_client, ev_http = (\<lambda>_ _. ex_answer), ev_probe = (\<lambda>_ _. ex_answer),
     ev_health_json = (\<lambda>_. Some ex_health), ev_keys_json = (\<lambda>_. None), ev_valid_time = (\<lambda>_. True), ev_clock = (\<lambda>_. 600),
     ev_done = (\<lambda>_. False), ev_now = 600, ev_discover = ex_discover\<rparr>"

definition ex_app :: app where
  "ex_app = \<lparr>ap_config = ''soph.json'', ap_network = [], ap_json = False, ap_timeout = defaultTimeout\<rparr>"

definition ex_cli_files :: soph_files where
  "ex_cli_files = \<lparr>sf_config = Some ''c'', sf_private = True, sf_temps = [], sf_trust = Some (ex_dir ''2'')\<rparr>"

lemma ex_cli_simps [simp]:
  "ev_codec (ex_cli codec) = codec" "ev_discover (ex_cli codec) = ex_discover" "ev_client (ex_cli codec) = ex_plain_client"
  "ev_clock (ex_cli codec) k = 600" "ev_done (ex_cli codec) k = False" "ev_now (ex_cli codec) = 600"
  "ev_readable (ex_cli codec) = True" "ev_getenv (ex_cli codec) v = []" "ev_fault (ex_cli codec) k = None"
  "ev_removed (ex_cli codec) = True" "ev_probe (ex_cli codec) hc k = ex_answer" "ev_http (ex_cli codec) hc k = ex_answer"
  "ev_health_json (ex_cli codec) b = Some ex_health"
  by (simp_all add: ex_cli_def)

lemma ex_discover_simps [simp]:
  "de_bundle ex_discover = GoodBundle ex_bundle" "de_mkdir ex_discover" "de_clock ex_discover k = 600"
  "de_update ex_discover = (ex_env, True, ex_update)" "\<not> de_open_stopped ex_discover"
  "de_store ex_discover = ex_env\<lparr>se_mkdir := MkdirExists\<rparr>" "de_stop ex_discover = None"
  by (simp_all add: ex_discover_def)

lemma ex_load_accepted: "load ex_lib ex_bundle (ex_dir ''2'') = Inr (ex_state ex_files (Some ex_accepted))"
  using ex_load [OF ex_state_ok(3) ex_marshals(3)] by simp

lemma ex_reopen: "openStore (ex_env\<lparr>se_mkdir := MkdirExists\<rparr>) c = Inr False"
  by (simp add: openStore_def ex_env_def)

lemma ex_authorised: "Current ex_lib ex_bundle (ex_env\<lparr>se_mkdir := MkdirExists\<rparr>) 600 (ex_dir ''2'') = Inr ex_view"
  using ex_load_accepted ex_reopen ex_verify [of 600]
  by (simp add: Current_def ex_state_def same_authority_def ex_accepted_def ex_bundle_def)

lemma ex_normal_bundle: "normal_bundle ex_bundle = ex_bundle"
  by (simp add: normal_bundle_def ex_bundle_def ex_origins)

lemma ex_reopen_New: "New ex_lib ex_bundle (ex_env\<lparr>se_mkdir := MkdirExists\<rparr>) (Some ex_plain_client) None (ex_dir ''2'') = (ex_dir ''2'', Inr ex_bundle)"
proof -
  have "Validate (tuf_root_lib.truncate ex_lib) ex_bundle"
    using ex_root_ok by (simp add: Validate_def ex_bundle_def ValidateLocation_def identifier_match_def is_alpha_def ex_origins)
  moreover have b: "ex_bundle\<lparr>bd_repository := ''https://r''\<rparr> = ex_bundle" "bd_repository ex_bundle = ''https://r''"
    by (simp_all add: ex_bundle_def)
  ultimately show ?thesis
    by (simp add: New_def ex_origins Client_def default_transport_def ex_plain_client_def Let_def b ex_reopen ex_load_accepted)
qed

lemma ex_reopen_session:
  "discovery_Open ex_lib ex_bundle ex_discover ex_plain_client (Some (ex_dir ''2'')) =
     (Some (ex_dir ''2''), Some (ex_bundle, session_open 600 (Inr ex_view :: boot_error + View)))"
proof -
  have "Validate (tuf_root_lib.truncate ex_lib) ex_bundle"
    using ex_root_ok by (simp add: Validate_def ex_bundle_def ValidateLocation_def identifier_match_def is_alpha_def ex_origins)
  then show ?thesis by (simp add: discovery_Open_def ex_reopen_New ex_authorised)
qed

lemma ex_session_view: "session_Current 600 (session_open 600 (Inr ex_view)) = Some ex_view"
  by (simp add: session_Current_def session_open_def set_view_def notifyView_def view_of_def usable_def ex_view_def)

definition ex_config :: Config where
  "ex_config = \<lparr>cf_current = ''pub'', cf_networks = [(''pub'', ex_profile)]\<rparr>"

lemma ex_loads: "app_loadConfig (ex_cli ex_cli_codec) ex_app ex_cli_files = Inr ex_config"
  by (simp add: app_loadConfig_def ex_app_def loadConfig_def ex_cli_files_def ex_cli_codec_def ex_config_def)

lemma ex_discovered:
  "discover ex_lib (ex_cli ex_cli_codec) ex_app False ex_cli_files =
     (ex_cli_files, Inr (BundleIdentity (tuf_root_lib.truncate ex_lib) ex_bundle, ex_view))"
proof -
  have f: "sf_trust ex_cli_files = Some (ex_dir ''2'')" "ex_cli_files\<lparr>sf_trust := Some (ex_dir ''2'')\<rparr> = ex_cli_files"
    by (simp_all add: ex_cli_files_def)
  show ?thesis by (simp add: discover_def discoverBundle_def Let_def f ex_loads ex_reopen_session ex_session_view)
qed

lemma ex_slash: "TrimRightSlash ''https://a'' = ''https://a''"
  by (simp add: TrimRightSlash_def)

lemma ex_probed: "client_Health (\<lambda>_. Some ex_health) ex_answer ''https://a'' = Inr ex_health"
  by (simp add: client_Health_def getJSON_def getRaw_def ex_answer_def get_request_def)

definition ex_verified_client :: HTTPClient where
  "ex_verified_client = \<lparr>hc_transport = Some default_transport, hc_has_jar = False, hc_redirects = UseLastResponse\<rparr>"

lemma ex_verified: "Client (Some ex_plain_client) = Some ex_verified_client"
  by (simp add: Client_def ex_plain_client_def ex_verified_client_def default_transport_def Let_def)

lemma ex_public:
  "publicNetwork ex_lib (ex_cli ex_cli_codec) ex_app (Some ex_profile) False ex_cli_files =
     (ex_cli_files, Inr (public_profile (BundleIdentity (tuf_root_lib.truncate ex_lib) ex_bundle) ex_view
        \<lparr>rt_id = ''a'', rt_origin = ''https://a''\<rparr> ex_health 600 (Some ex_profile) False))"
proof -
  have r: "ev_clock (ex_cli ex_cli_codec) 0 - 500 < RefreshInterval" by (simp add: RefreshInterval_def nsec_def)
  have p: "probe_roots (ex_cli ex_cli_codec) ex_verified_client ex_view LocalError 0 (prefer_endpoint ''https://a'' (mf_roots (vw_manifest ex_view)))
      = Inr (\<lparr>rt_id = ''a'', rt_origin = ''https://a''\<rparr>, ex_health)"
    using ex_probed ex_slash
    by (simp add: ex_view_def prefer_endpoint_def health_agrees_def ex_health_def modePublic_def ex_cli_def)
  show ?thesis
    using r p ex_discovered ex_verified
    by (simp add: publicNetwork_def Let_def ex_profile_def) (simp add: ex_view_def)
qed

definition ex_connected :: Network where
  "ex_connected = public_profile (BundleIdentity (tuf_root_lib.truncate ex_lib) ex_bundle) ex_view
     \<lparr>rt_id = ''a'', rt_origin = ''https://a''\<rparr> ex_health 600 (Some ex_profile) False"

lemma ex_connect:
  "\<exists>fs c. connect ex_lib (ex_cli ex_cli_codec) ex_app ex_cli_files = (fs, Inr c) \<and> co_endpoint c = ''https://a'' \<and>
     co_network c = ex_connected \<and> sf_trust fs = Some (ex_dir ''2'')"
proof -
  let ?cfg = "ex_config\<lparr>cf_networks := gm_update ''pub'' ex_connected (cf_networks ex_config)\<rparr>"
  have sel: "selectNetwork (ex_cli ex_cli_codec) ex_app ex_config = Inr (''pub'', ex_profile)"
    by (simp add: selectNetwork_def selected_name_def ex_app_def ex_config_def)
  have sp: "nw_mode ex_profile = modePublic" "nw_discovery ex_profile = discoveryHTTPS"
    "discoveryHTTPS \<noteq> discoveryOperatorSupplied"
    by (simp_all add: ex_profile_def discoveryHTTPS_def discoveryOperatorSupplied_def)
  have n: "nw_endpoint ex_connected = ''https://a''" "nw_discovery ex_connected = discoveryHTTPS"
    by (simp_all add: ex_connected_def public_profile_def Let_def)
  obtain fs where st: "store_config (ex_cli ex_cli_codec) 0 ?cfg ex_cli_files = (fs, None)"
    by (simp add: store_config_def saveConfig_def ex_cli_codec_def)
  then have "sf_trust fs = Some (ex_dir ''2'')" using store_config_trust [OF st] by (simp add: ex_cli_files_def)
  then show ?thesis
    using ex_public [folded ex_connected_def] st n ex_verified
    by (simp add: connect_def ex_loads sel sp open_client_def ex_slash)
qed

lemma ex_trust_ok: "trust_ok ex_lib ex_discover ex_cli_files"
  using ex_load_accepted
  by (simp add: trust_ok_def ex_cli_files_def ex_normal_bundle loads_sound_def authority_inv_def ex_state_def same_authority_def ex_accepted_def)

lemma ex_tame: "tame (ex_env, True, ex_update)"
  by (simp add: tame_def ex_update_def ex_scratch)

theorem connection_is_selected_witness:
  "\<exists>fs c. connect ex_lib (ex_cli ex_cli_codec) ex_app ex_cli_files = (fs, Inr c) \<and>
     (\<exists>b dir. sf_trust fs = Some dir \<and> signed_profile ex_lib (ex_cli ex_cli_codec) b dir (co_network c)) \<and>
     co_client c = client_New ex_verified_client"
proof -
  obtain fs c where c: "connect ex_lib (ex_cli ex_cli_codec) ex_app ex_cli_files = (fs, Inr c)"
    using ex_connect by blast
  have t: "trust_ok ex_lib (ev_discover (ex_cli ex_cli_codec)) ex_cli_files" "tame (de_update (ev_discover (ex_cli ex_cli_codec)))"
    using ex_trust_ok ex_tame by simp_all
  have sp: "nw_mode ex_profile = modePublic" "nw_discovery ex_profile = discoveryHTTPS" "discoveryHTTPS \<noteq> discoveryOperatorSupplied"
    by (simp_all add: ex_profile_def discoveryHTTPS_def discoveryOperatorSupplied_def)
  obtain cfg n where cn: "app_loadConfig (ex_cli ex_cli_codec) ex_app ex_cli_files = Inr cfg" "gm_lookup (cf_networks cfg) (co_name c) = Some n"
      and rest: "if nw_mode n = modePublic \<and> nw_discovery n \<noteq> discoveryOperatorSupplied
       then nw_discovery n = discoveryHTTPS \<and>
         (\<exists>b dir. de_bundle (ev_discover (ex_cli ex_cli_codec)) = GoodBundle b \<and> sf_trust fs = Some dir \<and>
            signed_profile ex_lib (ex_cli ex_cli_codec) b dir (co_network c)) \<and>
         nw_authority (co_network c) = nw_authority n \<and> nw_enclave (co_network c) = nw_enclave n \<and>
         (\<exists>hc. Client (Some (ev_client (ex_cli ex_cli_codec))) = Some hc \<and> co_client c = client_New hc)
       else co_network c = n \<and> fs = ex_cli_files"
    using connection_is_selected [OF ex_codec t c] by blast
  have "n = ex_profile" using cn ex_loads by (auto simp: ex_config_def split: if_splits)
  with rest sp have "\<exists>b dir. sf_trust fs = Some dir \<and> signed_profile ex_lib (ex_cli ex_cli_codec) b dir (co_network c)"
      "\<exists>hc. Client (Some ex_plain_client) = Some hc \<and> co_client c = client_New hc"
    by auto
  then show ?thesis using c ex_verified by auto
qed

section \<open>A viewer for it\<close>

lemma ex_signed: "signed_profile ex_lib (ex_cli ex_cli_codec) ex_bundle (ex_dir ''2'') (ex_profile\<lparr>nw_roots_expire := 1000 div nsec\<rparr>)"
  using Current_authorised [OF ex_authorised]
  unfolding signed_profile_def ex_normal_bundle
  by (intro exI [of _ ex_view] exI [of _ "\<lparr>rt_id = ''a'', rt_origin = ''https://a''\<rparr>"]) (simp add: ex_view_def ex_profile_def)

text \<open>The deadline of the lease is a whole second, here the epoch, so the example looks at the time before it.\<close>

theorem viewer_pinned_witness:
  "\<exists>p v. serveViewerHandler [] (-2) (vt_lease (viewer_start (ex_profile\<lparr>nw_roots_expire := 1000 div nsec\<rparr>) (-3) ex_cli_files))
       \<lparr>vr_method = ''GET'', vr_path = ''/v1/stream'', vr_escaped = ''/v1/stream'', vr_query = [], vr_accept = []\<rparr> = VProxy p \<and>
     px_url p = ''https://a/v1/stream'' \<and> authorised ex_lib ex_bundle (ex_dir ''2'') v \<and> -1 < vw_expires v"
proof -
  let ?n = "ex_profile\<lparr>nw_roots_expire := 1000 div nsec\<rparr>"
  let ?r = "\<lparr>vr_method = ''GET'', vr_path = ''/v1/stream'', vr_escaped = ''/v1/stream'', vr_query = [], vr_accept = []\<rparr>"
  let ?s = "viewer_run ex_lib ex_app [] (viewer_start ?n (-3) ex_cli_files)"
  have u: "url_parse ''https://a'' \<noteq> None" by code_simp
  obtain p where p: "serveViewerHandler [] (-2) (vt_lease ?s) ?r = VProxy p" "px_url p = ''https://a/v1/stream''"
      "px_context p = 1"
    using u by (simp add: viewer_run_def viewer_start_def lease_set_def serveViewerHandler_def lease_current_def lease_open_def
        ex_profile_def nsec_def)
  have l: "\<And>d. sf_trust ex_cli_files = Some d \<Longrightarrow> loads_sound ex_lib (normal_bundle ex_bundle) d"
    using ex_trust_ok by (simp add: trust_ok_def)
  have alive: "stream_alive (-1) (vt_lease (viewer_run ex_lib ex_app [] ?s)) (px_url p, px_context p)"
    using p(3) by (simp add: viewer_run_def viewer_start_def lease_set_def stream_alive_def lease_open_def ex_profile_def nsec_def)
  have "\<exists>dir v root. authorised ex_lib (normal_bundle ex_bundle) dir v \<and> root \<in> set (mf_roots (vw_manifest v)) \<and>
      px_url p = rt_origin root @ ''/v1/stream'' \<and> -1 < vw_expires v"
    using viewer_pinned [OF ex_codec ex_signed l _ refl refl p(1) alive] by auto
  then show ?thesis using p Current_authorised [OF ex_authorised] by (auto simp: viewer_run_def ex_view_def)
qed

section \<open>Joining a network\<close>

definition ex_lab :: Network where
  "ex_lab = joined_network ''https://a'' ex_health 600 False"

definition ex_lab_config :: Config where
  "ex_lab_config = \<lparr>cf_current = ''lab'', cf_networks = [(''lab'', ex_lab)]\<rparr>"

definition ex_lab_codec :: config_codec where
  "ex_lab_codec = \<lparr>cc_marshal = (\<lambda>c. if c = ex_lab_config then Some ''c'' else None),
     cc_unmarshal = (\<lambda>_. Some (''lab'', Some [(''lab'', ex_lab)]))\<rparr>"

definition ex_new_files :: soph_files where
  "ex_new_files = \<lparr>sf_config = None, sf_private = False, sf_temps = [], sf_trust = None\<rparr>"

definition ex_io :: soph_io where
  "ex_io = \<lparr>io_stdin = Some ''v'', io_file = (\<lambda>_. None), io_stopped = False, io_write = (\<lambda>_. True), io_create = True,
     io_random = None, io_utc = (\<lambda>t. t), io_health = (\<lambda>_. []), io_indent = (\<lambda>_. None)\<rparr>"

lemma ex_lab_codec_ok: "config_codec_ok ex_lab_codec"
  by (auto simp: config_codec_ok_def ex_lab_codec_def ex_lab_config_def config_same_def gm_ok_def)

lemma ex_join_line:
  "FlagSet_Parse global_flags [''--config'', ''soph.json'', ''join'', ''https://a'', ''--name'', ''lab''] =
     Inr (fs_set ''config'' ''config'' (StringValue ''soph.json'') global_flags, [''join'', ''https://a'', ''--name'', ''lab''])"
  "cli_parse [(''name'', StringValue []), (''public'', BoolValue False)] [''https://a'', ''--name'', ''lab''] =
     Inr (fs_set ''name'' ''name'' (StringValue ''lab'') (NewFlagSet [(''name'', StringValue []), (''public'', BoolValue False)]), [''https://a''])"
  by code_simp+

lemma ex_join:
  "cmdJoin ex_lib (ex_cli ex_lab_codec) ex_io ex_app [''https://a'', ''--name'', ''lab''] ex_new_files =
     (ex_new_files\<lparr>sf_config := Some (''c'' @ [CHR 0x0A]), sf_private := True\<rparr>, [OutReport], None)"
proof -
  have n: "Normalize ''https://a'' = Some ''https://a''" "validateNetworkName ''lab''" "TrimSpace ''a'' \<noteq> []" "TrimSpace ''default'' \<noteq> []"
    by code_simp+
  have f: "string_of (fs_set ''name'' ''name'' (StringValue ''lab'') (NewFlagSet [(''name'', StringValue []), (''public'', BoolValue False)])) ''name'' = ''lab''"
    "\<not> bool_of (fs_set ''name'' ''name'' (StringValue ''lab'') (NewFlagSet [(''name'', StringValue []), (''public'', BoolValue False)])) ''public''"
    by code_simp+
  have l: "app_loadConfig (ex_cli ex_lab_codec) ex_app ex_new_files = Inr newConfig"
    by (simp add: app_loadConfig_def ex_app_def loadConfig_def ex_new_files_def)
  have p: "probe (ex_cli ex_lab_codec) ''https://a'' = Inr ex_health"
    using ex_probed n(3,4) ex_slash by (simp add: probe_def ex_cli_def) (simp add: ex_health_def modePrivate_def modePublic_def)
  have c: "\<lparr>cf_current = ''lab'', cf_networks = gm_update ''lab'' ex_lab (cf_networks newConfig)\<rparr> = ex_lab_config"
    by (simp add: ex_lab_config_def newConfig_def gm_update_def)
  have j: "join_target ex_lib (ex_cli ex_lab_codec) ex_app [''https://a''] ''lab'' False ex_new_files = (ex_new_files, Inr (''lab'', ex_lab))"
    by (simp add: join_target_def n p ex_lab_def)
  have s: "store_config (ex_cli ex_lab_codec) 0 ex_lab_config ex_new_files =
      (ex_new_files\<lparr>sf_config := Some (''c'' @ [CHR 0x0A]), sf_private := True\<rparr>, None)"
    by (simp add: store_config_def saveConfig_def ex_lab_codec_def)
  show ?thesis
    by (simp add: cmdJoin_def ex_join_line Let_def f n l j c s emit_def) (simp add: ex_io_def ex_app_def)
qed

theorem config_survives_witness:
  "\<exists>fs cfg. invoked ex_lab_codec ex_new_files fs \<and> sf_config fs = Some (''c'' @ [CHR 0x0A]) \<and>
     loadConfig ex_lab_codec True fs = Some cfg \<and> sf_private fs \<and> cf_current cfg = ''lab'' \<and>
     (\<forall>k n. gm_lookup (cf_networks cfg) k = Some n \<longrightarrow> validateNetworkName k \<and> profile_wf n)"
proof -
  let ?fs = "ex_new_files\<lparr>sf_config := Some (''c'' @ [CHR 0x0A]), sf_private := True\<rparr>"
  let ?flags = "fs_set ''config'' ''config'' (StringValue ''soph.json'') global_flags"
  have a: "app_of ?flags = ex_app" "\<not> bool_of ?flags ''help''" "\<not> duration_of ?flags ''timeout'' \<le> 0" by code_simp+
  have "soph_run \<lparr>sv_listen = None, sv_events = [], sv_ends_well = True\<rparr> (\<lambda>a args fs. (fs, [], None)) ex_lib (ex_cli ex_lab_codec) ex_io
      [''--config'', ''soph.json'', ''join'', ''https://a'', ''--name'', ''lab''] ex_new_files = Some (?fs, [OutReport], 0)"
    by (simp add: soph_run_def ex_join_line a soph_dispatch_def ex_join finish_run_def exitOK_def)
  then have i: "invoked ex_lab_codec ex_new_files ?fs"
    by (rule invoked_run [OF invoked_none, rotated 2]) simp_all
  have "sf_config ex_new_files = None" by (simp add: ex_new_files_def)
  from config_survives [OF i ex_lab_codec_ok this] obtain cfg where cfg: "loadConfig ex_lab_codec True ?fs = Some cfg"
      "\<forall>k n. gm_lookup (cf_networks cfg) k = Some n \<longrightarrow> validateNetworkName k \<and> profile_wf n"
    by blast
  moreover have "cf_current cfg = ''lab''" using cfg(1) by (auto simp: loadConfig_def ex_lab_codec_def)
  ultimately show ?thesis using i by (intro exI [of _ ?fs] exI [of _ cfg]) simp
qed

end
