(* ===== verification/Soph_Facts.thy ===== *)
theory Soph_Facts
  imports Soph_Demo Mcp_Facts
begin

text \<open>
  The data commands against the handlers of a node (theory \<open>Server\<close>): the exchange of a request is the decoding of its
  path, the handler, for a write also the end of its wait, and the answer as the client sees it.
\<close>

section \<open>A node behind the exchange\<close>

definition status_answer :: "int \<Rightarrow> api_response" where
  "status_answer st = \<lparr>as_status = st, as_created = [], as_original = [], as_remaining = [], as_body = Some []\<rparr>"

text \<open>\<open>route\<close> is the router: the key of a data URL.\<close>

definition node_put ::
    "(string \<Rightarrow> string option) \<Rightarrow> (nat \<Rightarrow> gotime) \<Rightarrow> (Node list \<Rightarrow> Node list) \<Rightarrow> HTTPServer \<Rightarrow> put_wait \<Rightarrow> ClusterNode
       \<Rightarrow> api_request \<Rightarrow> ClusterNode \<times> api_response" where
  "node_put route clock sh s w cn req =
     (case route (aq_url req) of
        None \<Rightarrow> (cn, status_answer (notFoundHandler (aq_url req)))
      | Some key \<Rightarrow>
          (case putHandler clock sh s key [] (aq_ttl req) (Some (aq_body req)) cn of
             (cn1, outs, PutReply st) \<Rightarrow> (cn1, status_answer st)
           | (cn1, outs, PutPending i mid) \<Rightarrow> (case putHandler_finish w i mid cn1 of (cn2, st) \<Rightarrow> (cn2, status_answer st))))"

definition node_get ::
    "(string \<Rightarrow> string option) \<Rightarrow> (gotime \<Rightarrow> string) \<Rightarrow> gotime \<Rightarrow> gotime \<Rightarrow> ClusterNode \<Rightarrow> api_request \<Rightarrow> api_response" where
  "node_get route fmt now1 now2 cn req =
     (case route (aq_url req) of
        None \<Rightarrow> status_answer (notFoundHandler (aq_url req))
      | Some key \<Rightarrow>
          (case getHandler now1 now2 key cn of
             None \<Rightarrow> status_answer 404
           | Some g \<Rightarrow> \<lparr>as_status = gr_status g, as_created = fmt (gr_created g), as_original = Itoa (gr_original g),
                          as_remaining = Itoa (gr_remaining g), as_body = Some (gr_body g)\<rparr>))"

section \<open>What was put can be got\<close>

lemma putHandler_reply:
  assumes "putHandler clock sh s key q h body cn = (cn', outs, PutReply st)" "st \<noteq> 201"
  shows "st \<noteq> 202"
proof -
  have "\<not> Put_begin clock sh key data t cn = (cn1, o1, PutFailed ErrQuorumTimeout)" for data t cn1 o1
    using Put_begin_failures by blast
  then show ?thesis using assms
    by (auto simp: putHandler_def put_status_def Let_def split: if_splits option.splits prod.splits put_outcome.splits cluster_error.splits store_error.splits)
qed

lemma node_put_stored:
  assumes "limits_ok (cn_limits cn)" "hs_min_ttl s = wl_min_ttl (cn_limits cn)" "hs_max_ttl s = wl_max_ttl (cn_limits cn)"
    and "route (aq_url req) = Some key" "ttl = bounded_ttl s (requested_ttl [] (aq_ttl req))"
    and "node_put route clock sh s w cn req = (cn', resp)" "as_status resp = 201 \<or> as_status resp = 202"
  shows "Put (clock 2) key (aq_body req) (ttl * nsec) (cn_store cn) = (cn_store cn', None)"
proof -
  obtain cn1 outs r where p: "putHandler clock sh s key [] (aq_ttl req) (Some (aq_body req)) cn = (cn1, outs, r)"
    by (metis surj_pair)
  have store: "cn_store cn' = cn_store cn1"
    using assms(4,6) p by (auto simp: node_put_def putHandler_finish_def Put_finish_def split: put_reply.splits prod.splits)
  have "r \<noteq> PutReply 202"
  proof
    assume "r = PutReply 202"
    from putHandler_reply [OF p [unfolded this]] show False by simp
  qed
  then have "r = PutReply 201 \<or> (\<exists>i mid. r = PutPending i mid)"
    using assms(4,6,7) p by (cases r) (auto simp: node_put_def status_answer_def)
  then show ?thesis using putHandler_store [OF assms(1-3,5) p] store by auto
qed

lemma put_value_reported:
  assumes "put_value lib env io a key generated ttl path require fs = (fs', out, err)" "out \<noteq> []"
    and "connect lib env a fs = (fs1, Inr c)" "readInput io path = Inr data"
  shows "key \<noteq> [] \<and> (\<exists>resp. ev_http env (co_client c) 0 \<lparr>aq_method = ''PUT'', aq_url = dataURL (co_endpoint c) key,
      aq_ttl = (if ttl > 0 then Itoa ttl else []), aq_body = data\<rparr> = Some resp \<and> (as_status resp = 201 \<or> as_status resp = 202))"
  using assms
  by (auto simp: put_value_def client_Put_def fails_def Let_def split: if_splits option.splits)

lemma cli_parse_terminated:
  "cli_parse [(''output'', StringValue [])] [''--'', key] = Inr (NewFlagSet [(''output'', StringValue [])], [key])"
  by (simp add: cli_parse_def parseInterspersed_def parse_positionals.simps FlagSet_Parse.simps parseOne_def)

text \<open>
  C11. What \<open>soph put\<close> reports as stored, \<open>soph get\<close> brings back: when a put prints its key, whether the quorum was
  confirmed or is pending, then a later get of that key on the same node, from any saved profile, writes exactly the
  bytes of the input and exits with 0, until the TTL that the node granted has passed; after it, the get fails
  with the exit code for a missing key.
\<close>

theorem cli_put_get:
  assumes "limits_ok (cn_limits cn)" "hs_min_ttl s = wl_min_ttl (cn_limits cn)" "hs_max_ttl s = wl_max_ttl (cn_limits cn)"
    and "\<And>endpoint. route (dataURL endpoint key) = Some key"
    and put: "connect lib env a fs = (fs1, Inr c)" "readInput io path = Inr data"
      "ev_http env (co_client c) 0 = (\<lambda>req. Some (snd (node_put route clock sh s w cn req)))"
      "put_value lib env io a key generated ttl path require fs = (fs2, out, err)" "out \<noteq> []"
    and node: "cn' = fst (node_put route clock sh s w cn \<lparr>aq_method = ''PUT'', aq_url = dataURL (co_endpoint c) key,
      aq_ttl = (if ttl > 0 then Itoa ttl else []), aq_body = data\<rparr>)"
    and get: "connect lib env' a' fs' = (fs3, Inr c')" "\<not> ap_json a'" "io_write io' 0"
      "ev_http env' (co_client c') 0 = (\<lambda>req. Some (node_get route fmt now1 now2 cn' req))"
    and allowed: "allowed = bounded_ttl s (requested_ttl [] (if ttl > 0 then Itoa ttl else []))"
  shows "finish_run io' (cmdGet lib env' io' a' [''--'', key] fs') =
    (if now1 < clock 2 + allowed * nsec then (fs3, [OutBytes data], 0) else (fs3, [], 3))"
proof -
  let ?req = "\<lparr>aq_method = ''PUT'', aq_url = dataURL (co_endpoint c) key, aq_ttl = (if ttl > 0 then Itoa ttl else []), aq_body = data\<rparr>"
  obtain resp where np: "node_put route clock sh s w cn ?req = (cn', resp)" using node by (metis prod.collapse)
  have key: "key \<noteq> []" and st: "as_status resp = 201 \<or> as_status resp = 202"
    using put_value_reported [OF put(4,5,1,2)] np by (auto simp: put(3))
  have stored: "Put (clock 2) key data (allowed * nsec) (cn_store cn) = (cn_store cn', None)"
    using node_put_stored [OF assms(1-3) _ _ np st, of key allowed] assms(4) allowed by simp
  have "cluster_GetWithMetadata now1 key cn' =
      (if now1 < clock 2 + allowed * nsec then Some (data, clock 2, allowed * nsec) else None)"
    unfolding cluster_GetWithMetadata_def mem.get_put [OF stored] by simp
  then have g: "getHandler now1 now2 key cn' = None \<and> \<not> now1 < clock 2 + allowed * nsec \<or>
      (\<exists>g. getHandler now1 now2 key cn' = Some g \<and> gr_status g = 200 \<and> gr_body g = data) \<and> now1 < clock 2 + allowed * nsec"
    by (auto simp: getHandler_def Let_def)
  have o: "string_of (NewFlagSet [(''output'', StringValue [])]) ''output'' = []" by (simp add: string_of_def NewFlagSet_def)
  show ?thesis
    using g key get(2,3)
    by (auto simp: cmdGet_def cli_parse_terminated get(1,4) client_Get_def node_get_def assms(4) status_answer_def
        get_output_def emit_def fails_def finish_run_def exitOK_def exitCodeFor_def o)
qed

text \<open>The joined network of theory \<open>Soph_Demo\<close>, and the single node of theory \<open>Server_Facts\<close> behind it.\<close>

definition ex_lab_files :: soph_files where
  "ex_lab_files = ex_new_files\<lparr>sf_config := Some ''c'', sf_private := True\<rparr>"

definition ex_lab_env :: "exchange \<Rightarrow> soph_env" where
  "ex_lab_env http = (ex_cli ex_lab_codec)\<lparr>ev_http := (\<lambda>_ _. http)\<rparr>"

definition ex_lab_connection :: connection where
  "ex_lab_connection = \<lparr>co_name = ''lab'', co_network = ex_lab, co_endpoint = ''https://a'', co_client = client_New ex_plain_client\<rparr>"

lemma ex_lab_connect: "connect ex_lib (ex_lab_env http) ex_app ex_lab_files = (ex_lab_files, Inr ex_lab_connection)"
proof -
  have l: "app_loadConfig (ex_lab_env http) ex_app ex_lab_files = Inr ex_lab_config"
    by (simp add: app_loadConfig_def ex_app_def loadConfig_def ex_lab_files_def ex_lab_env_def ex_lab_codec_def ex_lab_config_def)
  have s: "selectNetwork (ex_lab_env http) ex_app ex_lab_config = Inr (''lab'', ex_lab)"
    by (simp add: selectNetwork_def selected_name_def ex_app_def ex_lab_config_def ex_lab_env_def)
  have n: "nw_mode ex_lab \<noteq> modePublic" "nw_discovery ex_lab \<noteq> discoveryHTTPS" "nw_endpoint ex_lab = ''https://a''"
    by (simp_all add: ex_lab_def joined_network_def modePrivate_def modePublic_def discoveryHTTPS_def)
  have c: "ev_client (ex_lab_env http) = ex_plain_client" by (simp add: ex_lab_env_def)
  show ?thesis by (simp add: connect_def l s n c open_client_def ex_slash ex_lab_connection_def)
qed

theorem cli_put_get_witness:
  "\<exists>cn' out. fst (snd (put_value ex_lib (ex_lab_env (\<lambda>req. Some (snd (node_put (\<lambda>_. Some ''k'') int id ex_server WaitTimeout ex_single req))))
       ex_io ex_app ''k'' False 0 [] False ex_lab_files)) = out \<and> out \<noteq> [] \<and>
     finish_run ex_io (cmdGet ex_lib (ex_lab_env (\<lambda>req. Some (node_get (\<lambda>_. Some ''k'') (\<lambda>t. []) 5 6 cn' req))) ex_io ex_app
       [''--'', ''k''] ex_lab_files) = (ex_lab_files, [OutBytes ''v''], 0)"
proof -
  let ?route = "\<lambda>_ :: string. Some ''k''"
  let ?put = "\<lambda>req. Some (snd (node_put ?route int id ex_server WaitTimeout ex_single req))"
  let ?req = "\<lparr>aq_method = ''PUT'', aq_url = dataURL (co_endpoint ex_lab_connection) ''k'', aq_ttl = (if (0::int) < 0 then Itoa 0 else []), aq_body = ''v''\<rparr>"
  let ?cn = "fst (node_put ?route int id ex_server WaitTimeout ex_single ?req)"
  have h: "ev_http (ex_lab_env http) hc k = http" for http hc k by (simp add: ex_lab_env_def)
  have i: "readInput ex_io [] = Inr ''v''" "io_write ex_io 0" "\<not> ap_json ex_app" by (simp_all add: readInput_def ex_io_def ex_app_def)
  obtain cn' where p: "putHandler int id ex_server ''k'' [] [] (Some ''v'') ex_single = (cn', [], PutReply 201)"
    by (rule ex_single_put)
  have np: "snd (node_put ?route int id ex_server WaitTimeout ex_single ?req) = status_answer 201" by (simp add: node_put_def p)
  obtain fs2 out err where v: "put_value ex_lib (ex_lab_env ?put) ex_io ex_app ''k'' False 0 [] False ex_lab_files = (fs2, out, err)"
    by (metis surj_pair)
  have o: "out \<noteq> []"
    using v np i(2) by (simp add: put_value_def ex_lab_connect i(1) h client_Put_def status_answer_def emit_def Let_def split: option.splits)
      (auto split: option.splits)
  have l: "limits_ok (cn_limits ex_single)" "hs_min_ttl ex_server = wl_min_ttl (cn_limits ex_single)"
    "hs_max_ttl ex_server = wl_max_ttl (cn_limits ex_single)"
    by (simp_all add: limits_ok_default) (simp_all add: ex_server_def DefaultWriteLimits_def MinTTLSeconds_def DefaultMaxTTLSeconds_def)
  have t: "1800 = bounded_ttl ex_server (requested_ttl [] (if (0::int) < 0 then Itoa 0 else []))"
    by (simp add: bounded_ttl_def requested_ttl_def ex_server_def defaultTTLSeconds_def)
  have "finish_run ex_io (cmdGet ex_lib (ex_lab_env (\<lambda>req. Some (node_get ?route (\<lambda>t. []) 5 6 ?cn req))) ex_io ex_app
       [''--'', ''k''] ex_lab_files) = (if (5::int) < int 2 + 1800 * nsec then (ex_lab_files, [OutBytes ''v''], 0) else (ex_lab_files, [], 3))"
    by (rule cli_put_get [OF l refl ex_lab_connect i(1) h v o refl ex_lab_connect i(3,2) h t])
  moreover have "(5::int) < int 2 + 1800 * nsec" by (simp add: nsec_def)
  ultimately show ?thesis using v o by (intro exI [of _ ?cn] exI [of _ out]) simp
qed

end
